(* ===== verification/Prelude.thy ===== *)
theory Prelude
  imports Complex_Main "HOL-Library.AList" "HOL-Library.Log_Nat"
begin

text \<open>
  Shared vocabulary of the development: results that may be a thrown error, the pieces of the
  JavaScript string and number library the sources use, and insertion-ordered maps.

  Strings are lists of code units below 256 (Isabelle's \<open>char\<close>); the sources only ever compare,
  cut, trim and join them.  Numbers are the finite binary64 values, as rationals; an operation of
  the source that rounds is written with \<open>round64\<close>.
\<close>

subsection \<open>Results\<close>

text \<open>\<open>Inl e\<close> is a thrown error, \<open>Inr x\<close> a normal return.\<close>

definition rbind :: "'e + 'a \<Rightarrow> ('a \<Rightarrow> 'e + 'b) \<Rightarrow> 'e + 'b" where
  "rbind m f = (case m of Inl e \<Rightarrow> Inl e | Inr x \<Rightarrow> f x)"

lemma rbind_simps [simp]:
  "rbind (Inl e) f = Inl e"
  "rbind (Inr x) f = f x"
  by (simp_all add: rbind_def)

lemma rbind_Inr_iff: "rbind m f = Inr y \<longleftrightarrow> (\<exists>x. m = Inr x \<and> f x = Inr y)"
  by (cases m) simp_all

lemma rbind_Inl_iff: "rbind m f = Inl e \<longleftrightarrow> m = Inl e \<or> (\<exists>x. m = Inr x \<and> f x = Inl e)"
  by (cases m) simp_all

lemma rbind_InrE [elim!]:
  assumes "rbind m f = Inr y"
  obtains x where "m = Inr x" and "f x = Inr y"
  using assms by (auto simp: rbind_Inr_iff)

lemma rbind_cong [fundef_cong]:
  "m = m' \<Longrightarrow> (\<And>x. m' = Inr x \<Longrightarrow> f x = g x) \<Longrightarrow> rbind m f = rbind m' g"
  by (cases m') simp_all

lemma rbind_assoc: "rbind (rbind m f) g = rbind m (\<lambda>x. rbind (f x) g)"
  by (cases m) simp_all

text \<open>A \<open>for ... of\<close> loop whose body may throw.\<close>

fun rfold :: "('a \<Rightarrow> 's \<Rightarrow> 'e + 's) \<Rightarrow> 'a list \<Rightarrow> 's \<Rightarrow> 'e + 's" where
  "rfold f [] s = Inr s"
| "rfold f (x # xs) s = rbind (f x s) (rfold f xs)"

lemma rfold_append: "rfold f (xs @ ys) s = rbind (rfold f xs s) (rfold f ys)"
  by (induction xs arbitrary: s) (simp_all add: rbind_def split: sum.splits)

lemma rfold_invariant:
  assumes "\<And>x s s'. x \<in> set xs \<Longrightarrow> P s \<Longrightarrow> f x s = Inr s' \<Longrightarrow> P s'"
    and "P s" and "rfold f xs s = Inr s'"
  shows "P s'"
  using assms
proof (induction xs arbitrary: s)
  case Nil
  then show ?case by simp
next
  case (Cons x xs)
  from Cons.prems(3) obtain t where t: "f x s = Inr t" "rfold f xs t = Inr s'"
    by auto
  have "P t" using Cons.prems(1)[of x s t] Cons.prems(2) t(1) by simp
  then show ?case using Cons.IH[of t] Cons.prems(1) t(2) by auto
qed

lemma rfold_cong [fundef_cong]:
  "xs = ys \<Longrightarrow> s = t \<Longrightarrow> (\<And>x s. x \<in> set ys \<Longrightarrow> f x s = g x s) \<Longrightarrow> rfold f xs s = rfold g ys t"
proof (induction xs arbitrary: s t ys)
  case Nil
  then show ?case by auto
next
  case (Cons x xs)
  from Cons.prems(3)[of x] have fx: "f x t = g x t" using Cons.prems(1) by auto
  have "\<And>u. rfold f xs u = rfold g xs u"
    by (rule Cons.IH) (use Cons.prems in auto)
  then have "rfold f xs = rfold g xs" by (rule ext)
  with fx Cons.prems(1,2) show ?case by auto
qed

text \<open>The first element a predicate that may throw accepts, with everything before it refused.\<close>

lemma find_Some_prefix:
  "find P xs = Some x \<Longrightarrow> \<exists>ys zs. xs = ys @ x # zs \<and> P x \<and> (\<forall>y\<in>set ys. \<not> P y)"
proof (induction xs)
  case Nil
  then show ?case by simp
next
  case (Cons a xs)
  show ?case
  proof (cases "P a")
    case True
    with Cons.prems have "a = x" by simp
    then show ?thesis using True by (intro exI[of _ "[]"] exI[of _ xs]) auto
  next
    case False
    with Cons.prems have "find P xs = Some x" by simp
    with Cons.IH obtain ys zs where "xs = ys @ x # zs" "P x" "\<forall>y\<in>set ys. \<not> P y" by blast
    with False show ?thesis by (intro exI[of _ "a # ys"] exI[of _ zs]) auto
  qed
qed

subsection \<open>JavaScript strings\<close>

abbreviation slash :: char where "slash \<equiv> CHR ''/''"
abbreviation tilde :: char where "tilde \<equiv> CHR 0x7E"

definition code :: "char \<Rightarrow> nat" where
  "code c = of_char c"

text \<open>White space of \<open>String.prototype.trim\<close> and \<open>\s\<close> among the code units below 256.\<close>

definition is_ws :: "char \<Rightarrow> bool" where
  "is_ws c \<longleftrightarrow> (9 \<le> code c \<and> code c \<le> 13) \<or> code c = 32 \<or> code c = 160"

definition js_trim :: "string \<Rightarrow> string" where
  "js_trim s = rev (dropWhile is_ws (rev (dropWhile is_ws s)))"

text \<open>\<open>s.split(c)\<close> for a one-character separator; always at least one piece.\<close>

fun js_split :: "char \<Rightarrow> string \<Rightarrow> string list" where
  "js_split c [] = [[]]"
| "js_split c (x # xs) =
     (if x = c then [] # js_split c xs
      else (case js_split c xs of [] \<Rightarrow> [[x]] | p # ps \<Rightarrow> (x # p) # ps))"

text \<open>\<open>ps.join(sep)\<close>.\<close>

fun js_join :: "string \<Rightarrow> string list \<Rightarrow> string" where
  "js_join sep [] = []"
| "js_join sep [p] = p"
| "js_join sep (p # q # ps) = p @ sep @ js_join sep (q # ps)"

definition starts_with :: "string \<Rightarrow> string \<Rightarrow> bool" where
  "starts_with p s \<longleftrightarrow> take (length p) s = p"

text \<open>\<open>toLowerCase\<close> on code units below 256, and \<open>toUpperCase\<close> on ASCII.\<close>

definition lower_char :: "char \<Rightarrow> char" where
  "lower_char c = (if (65 \<le> code c \<and> code c \<le> 90) \<or> (192 \<le> code c \<and> code c \<le> 222 \<and> code c \<noteq> 215)
     then char_of (code c + 32) else c)"

definition upper_char :: "char \<Rightarrow> char" where
  "upper_char c = (if 97 \<le> code c \<and> code c \<le> 122 then char_of (code c - 32) else c)"

definition to_lower :: "string \<Rightarrow> string" where "to_lower s = map lower_char s"
definition to_upper :: "string \<Rightarrow> string" where "to_upper s = map upper_char s"

lemma to_lower_Nil [simp]: "to_lower [] = []" and to_upper_Nil [simp]: "to_upper [] = []"
  by (simp_all add: to_lower_def to_upper_def)

lemma js_split_nonempty [simp]: "js_split c s \<noteq> []"
  by (cases s) (auto split: list.splits)

lemma js_split_no_sep: "c \<notin> set s \<Longrightarrow> js_split c s = [s]"
  by (induction s) auto

lemma js_split_append_sep: "c \<notin> set p \<Longrightarrow> js_split c (p @ c # s) = p # js_split c s"
  by (induction p) auto

lemma js_join_split: "js_join [c] (js_split c s) = s"
proof (induction s)
  case Nil
  then show ?case by simp
next
  case (Cons x s)
  obtain p ps where ps: "js_split c s = p # ps"
    by (cases "js_split c s") (simp_all)
  with Cons show ?case by (cases ps) auto
qed

lemma js_split_join:
  "ps \<noteq> [] \<Longrightarrow> \<forall>p\<in>set ps. c \<notin> set p \<Longrightarrow> js_split c (js_join [c] ps) = ps"
  by (induction "[c]" ps rule: js_join.induct) (auto simp: js_split_no_sep js_split_append_sep)

lemma dropWhile_id: "xs = [] \<or> \<not> P (hd xs) \<Longrightarrow> dropWhile P xs = xs"
  by (cases xs) auto

lemma js_trim_id: "s = [] \<or> (\<not> is_ws (hd s) \<and> \<not> is_ws (last s)) \<Longrightarrow> js_trim s = s"
  by (auto simp: js_trim_def dropWhile_id hd_rev)

lemma js_trim_last: "js_trim s \<noteq> [] \<Longrightarrow> \<not> is_ws (last (js_trim s))"
  unfolding js_trim_def rev_is_Nil_conv last_rev by (rule hd_dropWhile)

lemma dropWhile_rev_hd:
  "\<not> P a \<Longrightarrow> hd (rev (dropWhile P (rev (a # t)))) = a"
  by (cases "\<exists>x\<in>set t. \<not> P x") (auto simp: dropWhile_append)

lemma js_trim_hd: "js_trim s \<noteq> [] \<Longrightarrow> \<not> is_ws (hd (js_trim s))"
proof -
  assume ne: "js_trim s \<noteq> []"
  obtain a t where d: "dropWhile is_ws s = a # t"
    using ne by (cases "dropWhile is_ws s") (auto simp: js_trim_def)
  then have h: "\<not> is_ws a" using hd_dropWhile[of is_ws s] by simp
  from dropWhile_rev_hd[of is_ws a t, OF h] show ?thesis using h d by (simp add: js_trim_def)
qed

lemma js_trim_idem [simp]: "js_trim (js_trim s) = js_trim s"
  by (rule js_trim_id) (use js_trim_hd[of s] js_trim_last[of s] in auto)

subsection \<open>Decimal numerals\<close>

definition digit_char :: "nat \<Rightarrow> char" where
  "digit_char d = char_of (48 + d)"

definition is_digit :: "char \<Rightarrow> bool" where
  "is_digit c \<longleftrightarrow> 48 \<le> code c \<and> code c \<le> 57"

definition digit_val :: "char \<Rightarrow> nat" where
  "digit_val c = code c - 48"

text \<open>\<open>String(n)\<close> for a natural number.\<close>

fun dec :: "nat \<Rightarrow> string" where
  "dec n = (if n < 10 then [digit_char n] else dec (n div 10) @ [digit_char (n mod 10)])"

declare dec.simps [simp del]

definition digits_val :: "string \<Rightarrow> nat" where
  "digits_val s = foldl (\<lambda>a c. 10 * a + digit_val c) 0 s"

definition dec_int :: "int \<Rightarrow> string" where
  "dec_int i = (if i < 0 then CHR ''-'' # dec (nat (- i)) else dec (nat i))"

lemma code_digit_char: "d < 10 \<Longrightarrow> code (digit_char d) = 48 + d"
  by (simp add: code_def digit_char_def)

lemma is_digit_digit_char [simp]: "d < 10 \<Longrightarrow> is_digit (digit_char d)"
  by (simp add: is_digit_def code_digit_char)

lemma digit_val_digit_char [simp]: "d < 10 \<Longrightarrow> digit_val (digit_char d) = d"
  by (simp add: digit_val_def code_digit_char)

lemma dec_nonempty [simp]: "dec n \<noteq> []"
  by (subst dec.simps) simp

lemma dec_digits: "c \<in> set (dec n) \<Longrightarrow> is_digit c"
proof (induction n rule: dec.induct)
  case (1 n)
  then show ?case
    by (cases "n < 10") (auto simp: dec.simps[of n])
qed

lemma digits_val_dec [simp]: "digits_val (dec n) = n"
proof (induction n rule: dec.induct)
  case (1 n)
  show ?case
  proof (cases "n < 10")
    case True
    then show ?thesis by (subst dec.simps) (simp add: digits_val_def)
  next
    case False
    with 1 have "digits_val (dec (n div 10)) = n div 10" by simp
    with False show ?thesis by (subst dec.simps) (simp add: digits_val_def)
  qed
qed

text \<open>\<open>Number.parseInt(s, 10)\<close>: leading white space, a sign, then the longest run of digits.  \<open>None\<close> is NaN.\<close>

definition js_parseInt :: "string \<Rightarrow> int option" where
  "js_parseInt s =
     (let t = dropWhile is_ws s;
          neg = (t \<noteq> [] \<and> hd t = CHR ''-'');
          u = (if t \<noteq> [] \<and> (hd t = CHR ''-'' \<or> hd t = CHR ''+'') then tl t else t);
          ds = takeWhile is_digit u
      in if ds = [] then None
         else Some (if neg then - int (digits_val ds) else int (digits_val ds)))"

lemma is_digit_not_ws: "is_digit c \<Longrightarrow> \<not> is_ws c"
  by (auto simp: is_digit_def is_ws_def)

lemma is_digit_not_sign: "is_digit c \<Longrightarrow> c \<noteq> CHR ''-'' \<and> c \<noteq> CHR ''+'' \<and> c \<noteq> CHR ''/'' \<and> c \<noteq> CHR 0x7E"
  by (auto simp: is_digit_def code_def)

lemma js_parseInt_dec [simp]: "js_parseInt (dec n) = Some (int n)"
proof -
  obtain c cs where d: "dec n = c # cs" by (cases "dec n") simp_all
  then have c: "is_digit c" using dec_digits[of c n] by simp
  have t: "takeWhile is_digit (dec n) = dec n"
    by (rule takeWhile_eq_all_conv[THEN iffD2]) (auto dest: dec_digits)
  have w: "dropWhile is_ws (dec n) = dec n"
    using d is_digit_not_ws[OF c] by simp
  show ?thesis
    using d t w is_digit_not_sign[OF c] by (simp add: js_parseInt_def Let_def) (metis digits_val_dec)
qed

text \<open>A key that JavaScript orders numerically: the canonical numeral of a number below \<open>2^32 - 1\<close>.\<close>

definition is_index_key :: "string \<Rightarrow> bool" where
  "is_index_key k \<longleftrightarrow> k \<noteq> [] \<and> list_all is_digit k \<and> dec (digits_val k) = k \<and> digits_val k < 4294967295"

subsection \<open>Insertion-ordered maps\<close>

text \<open>A JavaScript \<open>Map\<close>: \<open>set\<close> keeps the position of a key it already holds.\<close>

type_synonym ('k, 'v) omap = "('k \<times> 'v) list"

abbreviation omap_get :: "('k, 'v) omap \<Rightarrow> 'k \<Rightarrow> 'v option" where
  "omap_get m k \<equiv> map_of m k"
abbreviation omap_set :: "'k \<Rightarrow> 'v \<Rightarrow> ('k, 'v) omap \<Rightarrow> ('k, 'v) omap" where
  "omap_set k v m \<equiv> AList.update k v m"
abbreviation omap_delete :: "'k \<Rightarrow> ('k, 'v) omap \<Rightarrow> ('k, 'v) omap" where
  "omap_delete k m \<equiv> AList.delete k m"
abbreviation omap_has :: "('k, 'v) omap \<Rightarrow> 'k \<Rightarrow> bool" where
  "omap_has m k \<equiv> map_of m k \<noteq> None"

abbreviation keys_distinct :: "('k \<times> 'v) list \<Rightarrow> bool" where
  "keys_distinct m \<equiv> distinct (map fst m)"

lemma omap_get_set [simp]: "omap_get (omap_set k v m) k' = (if k' = k then Some v else omap_get m k')"
  by (simp add: AList.update_conv')

lemma omap_get_delete [simp]: "omap_get (omap_delete k m) k' = (if k' = k then None else omap_get m k')"
  by (simp add: AList.delete_conv')

end
