(* ===== verification/Json.thy ===== *)
theory Json
  imports Prelude
begin

text \<open>
  JSON values as the program holds them at run time (\<open>contracts/value.ts\<close>): the value type, the
  runtime guards, object property access in JavaScript's own-property order, strict equality,
  binary64 addition and the structural comparison \<open>sameJson\<close> of \<open>model/patches.ts\<close>.
\<close>

named_theorems json_simps \<open>facts about reading and writing JSON containers\<close>

subsection \<open>Binary64 rounding\<close>

text \<open>
  \<open>round64 x\<close> is the binary64 value nearest to \<open>x\<close>, ties to even, for \<open>x\<close> below the overflow
  threshold: the unit in the last place of \<open>x\<close> is \<open>2 ^ (binade - 52)\<close>, never below \<open>2 ^ -1074\<close>.
\<close>

definition pow2 :: "int \<Rightarrow> rat" where
  "pow2 k = (if 0 \<le> k then 2 ^ nat k else 1 / 2 ^ nat (- k))"

definition binade :: "rat \<Rightarrow> int" where
  "binade x = (let (n, d) = quotient_of x; k = bitlen n - bitlen d
     in if pow2 k \<le> x then k else k - 1)"

definition round_even :: "rat \<Rightarrow> int" where
  "round_even x = (let f = \<lfloor>x\<rfloor>; r = x - of_int f
     in if r < 1 / 2 then f else if 1 / 2 < r then f + 1 else if even f then f else f + 1)"

definition round64 :: "rat \<Rightarrow> rat" where
  "round64 x = (if x = 0 then 0
     else let u = pow2 (max (binade \<bar>x\<bar> - 52) (-1074)) in of_int (round_even (x / u)) * u)"

definition js_add :: "rat \<Rightarrow> rat \<Rightarrow> rat" where
  "js_add a b = round64 (a + b)"

lemma pow2_pos [simp]: "0 < pow2 k"
  by (simp add: pow2_def)

lemma pow2_nat [simp]: "pow2 (int n) = 2 ^ n"
  by (simp add: pow2_def)

lemma round_even_of_int [simp]: "round_even (of_int i) = i"
  by (simp add: round_even_def)

lemma binade_le:
  assumes "0 < x" shows "pow2 (binade x) \<le> x"
proof -
  obtain n d where q: "quotient_of x = (n, d)" by (cases "quotient_of x")
  then have d: "0 < d" and x: "x = of_int n / of_int d"
    by (simp_all add: quotient_of_denom_pos quotient_of_div)
  with assms have n: "0 < n" by (simp add: zero_less_divide_iff)
  let ?a = "nat (bitlen n)" and ?b = "nat (bitlen d)"
  have a1: "1 \<le> bitlen n" using n by (simp add: bitlen_alt_def)
  then have "nat (bitlen n - 1) = ?a - 1" by linarith
  then have a: "2 ^ (?a - 1) \<le> n" and b: "d < 2 ^ ?b"
    using bitlen_bounds[OF n] bitlen_bounds[OF d] by simp_all
  have key: "pow2 (bitlen n - bitlen d - 1) \<le> x"
  proof -
    have dq: "(of_int d :: rat) \<le> 2 ^ ?b"
      using b by (metis less_le of_int_le_iff of_int_numeral of_int_power)
    have nq: "(2 :: rat) ^ (?a - 1) \<le> of_int n"
      using a by (metis of_int_le_iff of_int_numeral of_int_power)
    have "(2 :: rat) ^ (?a - 1) / 2 ^ ?b \<le> of_int n / of_int d"
      using nq dq d n by (intro frac_le) auto
    moreover have "pow2 (bitlen n - bitlen d - 1) = 2 ^ (?a - 1) / 2 ^ ?b"
    proof (cases "bitlen d \<le> bitlen n - 1")
      case True
      then have "nat (bitlen n - bitlen d - 1) + ?b = ?a - 1"
        using a1 bitlen_nonneg[of d] by linarith
      then have "(2 :: rat) ^ (?a - 1) = 2 ^ nat (bitlen n - bitlen d - 1) * 2 ^ ?b"
        by (metis power_add)
      with True show ?thesis by (simp add: pow2_def)
    next
      case False
      then have "nat (- (bitlen n - bitlen d - 1)) + (?a - 1) = ?b"
        using a1 bitlen_nonneg[of d] by linarith
      then have "(2 :: rat) ^ ?b = 2 ^ nat (- (bitlen n - bitlen d - 1)) * 2 ^ (?a - 1)"
        by (metis power_add)
      with False show ?thesis by (simp add: pow2_def)
    qed
    ultimately show ?thesis using x by simp
  qed
  show ?thesis unfolding binade_def q by (simp add: Let_def key)
qed

lemma pow2_mono_iff: "pow2 i < pow2 j \<Longrightarrow> i < j"
proof (rule ccontr)
  assume lt: "pow2 i < pow2 j" and "\<not> i < j"
  then have ji: "j \<le> i" by simp
  have "pow2 j \<le> pow2 i"
  proof (cases "0 \<le> j")
    case True
    with ji have "(2 :: rat) ^ nat j \<le> 2 ^ nat i" by (intro power_increasing) auto
    with True ji show ?thesis by (simp add: pow2_def)
  next
    case False
    show ?thesis
    proof (cases "0 \<le> i")
      case True
      have "(1 :: rat) / 2 ^ nat (- j) \<le> 1" by simp
      also have "(1 :: rat) \<le> 2 ^ nat i" by simp
      finally show ?thesis using True False by (simp add: pow2_def)
    next
      case iF: False
      have "(2 :: rat) ^ nat (- i) \<le> 2 ^ nat (- j)" using ji by (intro power_increasing) auto
      then have "(1 :: rat) / 2 ^ nat (- j) \<le> 1 / 2 ^ nat (- i)" by (simp add: frac_le)
      with False iF show ?thesis by (simp add: pow2_def)
    qed
  qed
  with lt show False by simp
qed

text \<open>Integers in the safe range are binary64 values.\<close>

lemma round64_int:
  assumes "\<bar>i\<bar> \<le> 2 ^ 53"
  shows "round64 (of_int i) = of_int i"
proof (cases "i = 0")
  case True
  then show ?thesis by (simp add: round64_def)
next
  case False
  let ?x = "of_int i :: rat"
  let ?e = "max (binade \<bar>?x\<bar> - 52) (-1074)"
  have pos: "0 < \<bar>?x\<bar>" using False by simp
  have le: "pow2 (binade \<bar>?x\<bar>) \<le> \<bar>?x\<bar>" by (rule binade_le[OF pos])
  have le53: "\<bar>?x\<bar> \<le> 2 ^ 53"
  proof -
    have "(of_int \<bar>i\<bar> :: rat) \<le> of_int (2 ^ 53)" using assms by (simp only: of_int_le_iff)
    then show ?thesis by simp
  qed
  have int_q: "\<exists>q. ?x / pow2 ?e = of_int q"
  proof (cases "\<bar>i\<bar> = 2 ^ 53")
    case False
    with assms have "\<bar>i\<bar> < 2 ^ 53" by simp
    then have "(of_int \<bar>i\<bar> :: rat) < of_int (2 ^ 53)" by (simp only: of_int_less_iff)
    then have "\<bar>?x\<bar> < pow2 (int 53)" by (simp only: pow2_nat of_int_abs) simp
    with le have "pow2 (binade \<bar>?x\<bar>) < pow2 (int 53)" by simp
    then have "binade \<bar>?x\<bar> < 53" using pow2_mono_iff by fastforce
    then have e: "?e \<le> 0" by simp
    have "?x / pow2 ?e = of_int (i * 2 ^ nat (- ?e))"
      using e by (simp add: pow2_def max_def split: if_splits)
    then show ?thesis by blast
  next
    case True
    have "pow2 (binade \<bar>?x\<bar>) < pow2 (int 54)"
    proof -
      have "pow2 (binade \<bar>?x\<bar>) \<le> 2 ^ 53" using le le53 by linarith
      also have "(2 :: rat) ^ 53 < pow2 (int 54)" by (simp only: pow2_nat) simp
      finally show ?thesis .
    qed
    then have b: "binade \<bar>?x\<bar> < 54" using pow2_mono_iff by fastforce
    show ?thesis
    proof (cases "?e \<le> 0")
      case True
      have "?x / pow2 ?e = of_int (i * 2 ^ nat (- ?e))"
        using True by (simp add: pow2_def max_def split: if_splits)
      then show ?thesis by blast
    next
      case False
      with b have "?e = 1" by (simp add: max_def split: if_splits)
      moreover have "2 dvd i" using \<open>\<bar>i\<bar> = 2 ^ 53\<close> by (metis dvd_abs_iff dvd_power zero_less_numeral)
      then obtain q where "i = 2 * q" by blast
      ultimately have "?x / pow2 ?e = of_int q" by (simp add: pow2_def)
      then show ?thesis by blast
    qed
  qed
  then obtain q where q: "?x / pow2 ?e = of_int q" by blast
  have "of_int q * pow2 ?e = ?x"
  proof -
    have "pow2 ?e \<noteq> 0" using pow2_pos[of ?e] by (metis less_irrefl)
    then show ?thesis using q by (metis nonzero_eq_divide_eq)
  qed
  with q False show ?thesis by (simp add: round64_def Let_def)
qed

lemma js_add_exact: "\<bar>a + b\<bar> \<le> 2 ^ 53 \<Longrightarrow> js_add (of_int a) (of_int b) = of_int (a + b)"
  using round64_int[of "a + b"] by (simp add: js_add_def)

subsection \<open>Values\<close>

text \<open>
  \<open>JUndef\<close> is \<open>undefined\<close>: what reading an absent property or element gives, and the content of a
  hole that an assignment past the end of an array leaves behind.  It is not a JSON value.  An
  object is the list of its own properties in enumeration order.
\<close>

datatype json =
    JNull
  | JBool bool
  | JNum rat
  | JStr string
  | JArr "json list"
  | JObj "(string \<times> json) list"
  | JUndef

type_synonym json_object = "(string \<times> json) list"

text \<open>\<open>typeof v === 'object'\<close> and the two kinds of container.\<close>

fun is_arr :: "json \<Rightarrow> bool" where
  "is_arr (JArr _) = True" | "is_arr _ = False"

fun is_obj :: "json \<Rightarrow> bool" where
  "is_obj (JObj _) = True" | "is_obj _ = False"

definition is_container :: "json \<Rightarrow> bool" where
  "is_container v \<longleftrightarrow> is_arr v \<or> is_obj v"

lemma is_container_simps [simp]:
  "is_container (JArr xs)" "is_container (JObj m)" "\<not> is_container JNull" "\<not> is_container (JBool b)"
  "\<not> is_container (JNum n)" "\<not> is_container (JStr s)" "\<not> is_container JUndef"
  by (simp_all add: is_container_def)

lemma is_arrE [elim]: "is_arr v \<Longrightarrow> (\<And>xs. v = JArr xs \<Longrightarrow> P) \<Longrightarrow> P"
  by (cases v) auto

lemma is_objE [elim]: "is_obj v \<Longrightarrow> (\<And>m. v = JObj m \<Longrightarrow> P) \<Longrightarrow> P"
  by (cases v) auto

subsection \<open>Own properties\<close>

text \<open>
  Assignment to an own property: an existing key keeps its position, a new key that is an array
  index goes before the other keys in ascending order, any other new key goes last.  Keys that
  JavaScript resolves on the prototype (\<open>__proto__\<close>) are outside the model.
\<close>

fun obj_insert :: "string \<Rightarrow> 'v \<Rightarrow> (string \<times> 'v) list \<Rightarrow> (string \<times> 'v) list" where
  "obj_insert k v [] = [(k, v)]"
| "obj_insert k v ((k', v') # m) =
     (if is_index_key k \<and> (\<not> is_index_key k' \<or> digits_val k < digits_val k')
      then (k, v) # (k', v') # m else (k', v') # obj_insert k v m)"

definition obj_set :: "string \<Rightarrow> 'v \<Rightarrow> (string \<times> 'v) list \<Rightarrow> (string \<times> 'v) list" where
  "obj_set k v m = (if map_of m k \<noteq> None then AList.update k v m else obj_insert k v m)"

definition obj_delete :: "string \<Rightarrow> (string \<times> 'v) list \<Rightarrow> (string \<times> 'v) list" where
  "obj_delete k m = AList.delete k m"

text \<open>\<open>obj[k]\<close> and \<open>hasOwnProperty\<close>.\<close>

definition obj_get :: "json_object \<Rightarrow> string \<Rightarrow> json" where
  "obj_get m k = (case map_of m k of None \<Rightarrow> JUndef | Some v \<Rightarrow> v)"

text \<open>\<open>{ ...m, ...u }\<close> and \<open>Object.fromEntries\<close>.\<close>

definition obj_spread :: "(string \<times> 'v) list \<Rightarrow> (string \<times> 'v) list \<Rightarrow> (string \<times> 'v) list" where
  "obj_spread m u = foldl (\<lambda>acc (k, v). obj_set k v acc) m u"

definition obj_from_entries :: "(string \<times> 'v) list \<Rightarrow> (string \<times> 'v) list" where
  "obj_from_entries es = obj_spread [] es"

lemma map_of_obj_insert: "map_of m k = None \<Longrightarrow> map_of (obj_insert k v m) = (map_of m)(k \<mapsto> v)"
  by (induction m) (auto simp: fun_eq_iff split: if_splits)

lemma map_of_obj_set [simp, json_simps]: "map_of (obj_set k v m) = (map_of m)(k \<mapsto> v)"
  by (simp add: obj_set_def AList.update_conv' map_of_obj_insert)

lemma map_of_obj_delete [simp, json_simps]: "map_of (obj_delete k m) = (map_of m)(k := None)"
  by (simp add: obj_delete_def AList.delete_conv')

lemma set_obj_insert: "set (obj_insert k v m) = insert (k, v) (set m)"
  by (induction m) (auto split: if_splits)

lemma keys_obj_insert: "set (map fst (obj_insert k v m)) = insert k (set (map fst m))"
  by (simp add: set_obj_insert)

lemma distinct_obj_insert:
  "keys_distinct m \<Longrightarrow> k \<notin> fst ` set m \<Longrightarrow> keys_distinct (obj_insert k v m)"
proof (induction m)
  case Nil
  then show ?case by simp
next
  case (Cons p m)
  obtain k' v' where p: "p = (k', v')" by (cases p)
  have "fst ` set (obj_insert k v m) = insert k (fst ` set m)"
    using keys_obj_insert[of k v m] by simp
  with Cons p show ?case by auto
qed

lemma keys_distinct_obj_set [simp, json_simps]:
  assumes "keys_distinct m" shows "keys_distinct (obj_set k v m)"
proof (cases "map_of m k")
  case None
  then have "k \<notin> fst ` set m" by (simp add: map_of_eq_None_iff)
  with assms None show ?thesis by (simp add: obj_set_def distinct_obj_insert)
next
  case (Some a)
  with assms show ?thesis by (simp add: obj_set_def AList.distinct_update)
qed

lemma keys_distinct_obj_delete [simp, json_simps]: "keys_distinct m \<Longrightarrow> keys_distinct (obj_delete k m)"
  by (simp add: obj_delete_def AList.distinct_delete)

lemma keys_distinct_obj_spread [simp, json_simps]: "keys_distinct m \<Longrightarrow> keys_distinct (obj_spread m u)"
  unfolding obj_spread_def by (induction u arbitrary: m) auto

lemma map_of_obj_spread: "keys_distinct u \<Longrightarrow> map_of (obj_spread m u) = map_of m ++ map_of u"
  unfolding obj_spread_def
proof (induction u arbitrary: m)
  case Nil
  then show ?case by simp
next
  case (Cons p u)
  obtain k v where p: "p = (k, v)" by (cases p)
  from Cons.prems p have u: "keys_distinct u" and k: "map_of u k = None"
    by (auto simp: map_of_eq_None_iff)
  show ?case
    using Cons.IH[OF u, of "obj_set k v m"] p k
    by (auto simp: fun_eq_iff map_add_def split: option.splits)
qed

lemma snd_set_update: "v' \<in> snd ` set (AList.update k v m) \<Longrightarrow> v' = v \<or> v' \<in> snd ` set m"
  by (induction m) (auto split: if_splits)

lemma snd_set_obj_set: "v' \<in> snd ` set (obj_set k v m) \<Longrightarrow> v' = v \<or> v' \<in> snd ` set m"
  using snd_set_update[of v' k v m] by (auto simp: obj_set_def set_obj_insert split: if_splits)

lemma set_delete_subset: "set (AList.delete k m) \<subseteq> set m"
  by (auto simp: AList.delete_eq)

lemma length_obj_set: "keys_distinct m \<Longrightarrow>
    length (obj_set k v m) = (if map_of m k = None then Suc (length m) else length m)"
proof -
  have "length (obj_insert k v m) = Suc (length m)" by (induction m) auto
  moreover have "map_of m k \<noteq> None \<Longrightarrow> length (AList.update k v m) = length m"
    by (induction m) auto
  ultimately show ?thesis by (auto simp: obj_set_def)
qed

subsection \<open>Guards (\<open>contracts/value.ts\<close>)\<close>

text \<open>
  \<open>Array.prototype.every\<close> skips holes; \<open>Object.values(v).every\<close> sees every property.  The guard's
  \<open>seen\<close> set only refuses cyclic objects, which the type \<open>json\<close> does not contain.
\<close>

fun is_json_value :: "json \<Rightarrow> bool"
  and is_json_elems :: "json list \<Rightarrow> bool"
  and is_json_props :: "json_object \<Rightarrow> bool" where
  "is_json_value JUndef = False"
| "is_json_value (JArr xs) = is_json_elems xs"
| "is_json_value (JObj m) = is_json_props m"
| "is_json_value JNull = True"
| "is_json_value (JBool b) = True"
| "is_json_value (JNum n) = True"
| "is_json_value (JStr s) = True"
| "is_json_elems [] = True"
| "is_json_elems (x # xs) = ((x = JUndef \<or> is_json_value x) \<and> is_json_elems xs)"
| "is_json_props [] = True"
| "is_json_props (p # m) = (is_json_value (snd p) \<and> is_json_props m)"

definition is_json_object :: "json \<Rightarrow> bool" where
  "is_json_object v \<longleftrightarrow> (case v of JObj m \<Rightarrow> is_json_props m | _ \<Rightarrow> False)"

lemma is_json_elems_iff: "is_json_elems xs \<longleftrightarrow> (\<forall>x\<in>set xs. x = JUndef \<or> is_json_value x)"
  by (induction xs) auto

lemma is_json_props_iff: "is_json_props m \<longleftrightarrow> (\<forall>v\<in>snd ` set m. is_json_value v)"
  by (induction m) auto

text \<open>
  A document: no \<open>undefined\<close> anywhere, and every object has distinct keys.  This is what
  \<open>JSON.parse\<close> and \<open>structuredClone\<close> of such a value produce.
\<close>

fun json_ok :: "json \<Rightarrow> bool" where
  "json_ok JUndef = False"
| "json_ok (JArr xs) = list_all json_ok xs"
| "json_ok (JObj m) = (keys_distinct m \<and> list_all (\<lambda>p. json_ok (snd p)) m)"
| "json_ok _ = True"

abbreviation obj_ok :: "json_object \<Rightarrow> bool" where
  "obj_ok m \<equiv> json_ok (JObj m)"

lemma json_ok_obj_get: "obj_ok m \<Longrightarrow> map_of m k = Some v \<Longrightarrow> json_ok v"
  by (auto simp: list_all_iff dest!: map_of_SomeD)

lemma json_ok_obj_set: "obj_ok m \<Longrightarrow> json_ok v \<Longrightarrow> obj_ok (obj_set k v m)"
proof -
  assume m: "obj_ok m" and v: "json_ok v"
  have "json_ok w" if "w \<in> snd ` set (obj_set k v m)" for w
    using snd_set_obj_set[OF that] m v by (auto simp: list_all_iff)
  with m show ?thesis by (auto simp: list_all_iff)
qed

lemma json_ok_obj_delete: "obj_ok m \<Longrightarrow> obj_ok (obj_delete k m)"
  using set_delete_subset[of k m] by (auto simp: list_all_iff obj_delete_def AList.distinct_delete)

lemma json_ok_obj_spread: "obj_ok m \<Longrightarrow> list_all (\<lambda>p. json_ok (snd p)) u \<Longrightarrow> obj_ok (obj_spread m u)"
  unfolding obj_spread_def
proof (induction u arbitrary: m)
  case Nil
  then show ?case by simp
next
  case (Cons p u)
  obtain k v where p: "p = (k, v)" by (cases p)
  have "obj_ok (obj_set k v m)" using Cons.prems p by (intro json_ok_obj_set) simp_all
  then show ?case using Cons.IH[of "obj_set k v m"] Cons.prems p by simp
qed

lemma json_ok_is_json: "json_ok v \<Longrightarrow> is_json_value v"
proof (induction v)
  case (JArr xs)
  then show ?case by (auto simp: is_json_elems_iff list_all_iff)
next
  case (JObj m)
  then show ?case by (auto simp: is_json_props_iff list_all_iff)
qed auto

lemma json_ok_not_undef: "json_ok v \<Longrightarrow> v \<noteq> JUndef"
  by auto

subsection \<open>Equality\<close>

text \<open>\<open>===\<close>: containers are compared by identity, and the sources only ever compare fresh copies.\<close>

fun strict_eq :: "json \<Rightarrow> json \<Rightarrow> bool" where
  "strict_eq (JArr _) _ = False"
| "strict_eq (JObj _) _ = False"
| "strict_eq v w = (v = w)"

text \<open>\<open>sameJson\<close> (\<open>model/patches.ts\<close>): structural equality, object keys in any order.\<close>

fun same_json :: "json \<Rightarrow> json \<Rightarrow> bool"
  and same_elems :: "json list \<Rightarrow> json list \<Rightarrow> bool"
  and same_props :: "json_object \<Rightarrow> json_object \<Rightarrow> bool" where
  "same_json (JArr xs) w = (case w of JArr ys \<Rightarrow> length xs = length ys \<and> same_elems xs ys | _ \<Rightarrow> False)"
| "same_json (JObj m) w = (case w of
      JObj n \<Rightarrow> is_json_object (JObj m) \<and> is_json_object (JObj n) \<and> length m = length n \<and> same_props m n
    | _ \<Rightarrow> False)"
| "same_json v w = (v = w)"
| "same_elems [] ys = True"
| "same_elems (x # xs) ys = ((x = JUndef \<or> (ys \<noteq> [] \<and> hd ys \<noteq> JUndef \<and> same_json x (hd ys))) \<and> same_elems xs (tl ys))"
| "same_props [] n = True"
| "same_props (p # m) n =
     ((case map_of n (fst p) of None \<Rightarrow> False | Some w \<Rightarrow> same_json (snd p) w) \<and> same_props m n)"

lemma same_props_iff:
  "same_props m n \<longleftrightarrow> (\<forall>(k, v)\<in>set m. \<exists>w. map_of n k = Some w \<and> same_json v w)"
  by (induction m) (auto split: option.splits)

lemma same_elems_list_all2:
  "length xs = length ys \<Longrightarrow> list_all2 same_json xs ys \<Longrightarrow> JUndef \<notin> set xs \<Longrightarrow> JUndef \<notin> set ys \<Longrightarrow> same_elems xs ys"
  by (induction xs ys rule: list_induct2) auto

lemma same_elems_list_all2D:
  "length xs = length ys \<Longrightarrow> same_elems xs ys \<Longrightarrow> JUndef \<notin> set xs \<Longrightarrow> list_all2 same_json xs ys"
  by (induction xs ys rule: list_induct2) auto

lemma json_ok_no_undef: "json_ok (JArr xs) \<Longrightarrow> JUndef \<notin> set xs"
  by (auto simp: list_all_iff)

lemma same_json_refl: "json_ok v \<Longrightarrow> same_json v v"
proof (induction v)
  case (JArr xs)
  then have "list_all2 same_json xs xs" by (simp add: list_all2_same list_all_iff)
  then show ?case using same_elems_list_all2[of xs xs] json_ok_no_undef[OF JArr.prems] by simp
next
  case (JObj m)
  have "\<exists>w. map_of m k = Some w \<and> same_json v w" if kv: "(k, v) \<in> set m" for k v
  proof (intro exI conjI)
    show "map_of m k = Some v" using JObj.prems kv by simp
    show "same_json v v" using JObj.IH[of "(k, v)" v] JObj.prems kv by (auto simp: list_all_iff)
  qed
  moreover have "is_json_object (JObj m)"
    using json_ok_is_json[OF JObj.prems] by (simp add: is_json_object_def)
  ultimately show ?case by (auto simp: same_props_iff)
qed auto

lemma same_json_arr:
  "json_ok (JArr xs) \<Longrightarrow> json_ok (JArr ys) \<Longrightarrow> same_json (JArr xs) (JArr ys) \<longleftrightarrow> list_all2 same_json xs ys"
  using same_elems_list_all2[of xs ys] same_elems_list_all2D[of xs ys]
    json_ok_no_undef[of xs] json_ok_no_undef[of ys]
  by (auto dest: list_all2_lengthD)

lemma same_json_obj:
  assumes "obj_ok m" and "obj_ok n"
  shows "same_json (JObj m) (JObj n) \<longleftrightarrow>
    length m = length n \<and> (\<forall>k v. map_of m k = Some v \<longrightarrow> (\<exists>w. map_of n k = Some w \<and> same_json v w))"
proof -
  have "is_json_object (JObj m)" "is_json_object (JObj n)"
    using assms[THEN json_ok_is_json] by (simp_all add: is_json_object_def)
  moreover have "(\<forall>(k, v)\<in>set m. P k v) \<longleftrightarrow> (\<forall>k v. map_of m k = Some v \<longrightarrow> P k v)" for P
    using assms(1) by auto
  ultimately show ?thesis by (simp add: same_props_iff)
qed

end
