(* ===== verification/References.thy ===== *)
theory References
  imports Json
begin

text \<open>
  Semantic references (\<open>domain/references.ts\<close>): the validators that turn raw strings and numbers
  into the branded identifiers of the domain.  A brand has no run-time content, so a validator is a
  function from the raw value to the normalised one that may throw \<open>ReferenceValidationError\<close>.
\<close>

datatype ref_error = ReferenceValidationError (ref_kind: string) (ref_reason: string)

subsection \<open>Strings\<close>

definition reference :: "string \<Rightarrow> string \<Rightarrow> bool \<Rightarrow> ref_error + string" where
  "reference kind val allowEmpty =
     (let normalized = js_trim val
      in if normalized = [] \<and> \<not> allowEmpty
         then Inl (ReferenceValidationError kind ''must not be empty'')
         else Inr normalized)"

definition literalReference :: "string \<Rightarrow> string \<Rightarrow> bool \<Rightarrow> ref_error + string" where
  "literalReference kind val allowEmpty =
     (if js_trim val \<noteq> val
      then Inl (ReferenceValidationError kind
        ''must be canonical and must not contain surrounding whitespace'')
      else reference kind val allowEmpty)"

definition boundaryName :: "string \<Rightarrow> ref_error + string" where
  "boundaryName v = reference ''boundary-name'' v False"
definition behaviorName :: "string \<Rightarrow> ref_error + string" where
  "behaviorName v = reference ''behavior-name'' v False"
definition faultName :: "string \<Rightarrow> ref_error + string" where
  "faultName v = reference ''fault-name'' v False"
definition guardName :: "string \<Rightarrow> ref_error + string" where
  "guardName v = reference ''guard-name'' v False"
definition reactionName :: "string \<Rightarrow> ref_error + string" where
  "reactionName v = reference ''reaction-name'' v False"
definition sagaName :: "string \<Rightarrow> ref_error + string" where
  "sagaName v = reference ''saga-name'' v False"
definition sagaStepName :: "string \<Rightarrow> ref_error + string" where
  "sagaStepName v = reference ''saga-step-name'' v False"
definition webhookName :: "string \<Rightarrow> ref_error + string" where
  "webhookName v = reference ''webhook-name'' v False"
definition projectionName :: "string \<Rightarrow> ref_error + string" where
  "projectionName v = reference ''projection-name'' v False"
definition resourceName :: "string \<Rightarrow> ref_error + string" where
  "resourceName v = reference ''resource-name'' v False"
definition componentName :: "string \<Rightarrow> ref_error + string" where
  "componentName v = reference ''component-name'' v False"

text \<open>A helper name must match \<open>/^[A-Za-z_][A-Za-z0-9_]*$/\<close>.\<close>

definition ident_start :: "char \<Rightarrow> bool" where
  "ident_start c \<longleftrightarrow> (65 \<le> code c \<and> code c \<le> 90) \<or> (97 \<le> code c \<and> code c \<le> 122) \<or> c = CHR ''_''"

definition is_cel_ident :: "string \<Rightarrow> bool" where
  "is_cel_ident s \<longleftrightarrow> (case s of [] \<Rightarrow> False
     | c # cs \<Rightarrow> ident_start c \<and> list_all (\<lambda>d. ident_start d \<or> is_digit d) cs)"

definition helperName :: "string \<Rightarrow> ref_error + string" where
  "helperName v = rbind (reference ''helper-name'' v False) (\<lambda>r.
     if is_cel_ident r then Inr r
     else Inl (ReferenceValidationError ''helper-name'' ''must be a CEL identifier''))"

definition factoryName :: "string \<Rightarrow> ref_error + string" where
  "factoryName v = reference ''factory-name'' v False"
definition scopeName :: "string \<Rightarrow> ref_error + string" where
  "scopeName v = reference ''scope-name'' v False"
definition linkRelation :: "string \<Rightarrow> ref_error + string" where
  "linkRelation v = reference ''link-relation'' v False"
definition operationId :: "string \<Rightarrow> ref_error + string" where
  "operationId v = literalReference ''operation-id'' v False"
definition aggregateId :: "string \<Rightarrow> ref_error + string" where
  "aggregateId v = reference ''aggregate-id'' v False"
definition eventId :: "string \<Rightarrow> ref_error + string" where
  "eventId v = reference ''event-id'' v False"
definition commandId :: "string \<Rightarrow> ref_error + string" where
  "commandId v = reference ''command-id'' v False"
definition faultId :: "string \<Rightarrow> ref_error + string" where
  "faultId v = reference ''fault-id'' v False"
definition eventType :: "string \<Rightarrow> ref_error + string" where
  "eventType v = literalReference ''event-type'' v False"
definition eventReference :: "string \<Rightarrow> string \<Rightarrow> ref_error + string" where
  "eventReference bnd ev = literalReference ''event-reference'' (bnd @ '':'' @ ev) False"
definition schemaReference :: "string \<Rightarrow> ref_error + string" where
  "schemaReference v = literalReference ''schema-reference'' v False"
definition stateFieldName :: "string \<Rightarrow> ref_error + string" where
  "stateFieldName v = reference ''state-field-name'' v False"

text \<open>The \<open>parse\<close> companions that trim instead of refusing surrounding white space.\<close>

definition OperationId_parse :: "string \<Rightarrow> ref_error + string" where
  "OperationId_parse v = reference ''operation-id'' v False"
definition EventType_parse :: "string \<Rightarrow> ref_error + string" where
  "EventType_parse v = reference ''event-type'' v False"
definition SchemaReference_parse :: "string \<Rightarrow> ref_error + string" where
  "SchemaReference_parse v = reference ''schema-reference'' v False"

definition jsonPath :: "string \<Rightarrow> ref_error + string" where
  "jsonPath v =
     (let normalized = js_trim v
      in if normalized \<noteq> [] \<and> \<not> starts_with ''/'' normalized
         then Inl (ReferenceValidationError ''json-path'' ''must be an RFC 6901 pointer'')
         else reference ''json-path'' normalized True)"

subsection \<open>HTTP methods\<close>

definition httpMethods :: "string list" where
  "httpMethods = [''GET'', ''POST'', ''PUT'', ''PATCH'', ''DELETE'', ''HEAD'', ''OPTIONS'', ''TRACE'']"

definition httpMethod :: "string \<Rightarrow> ref_error + string" where
  "httpMethod v =
     (let normalized = to_upper (js_trim v)
      in if normalized \<in> set httpMethods then Inr normalized
         else Inl (ReferenceValidationError ''http-method'' (''unsupported method '' @ [CHR 0x22] @ v @ [CHR 0x22])))"

subsection \<open>Sequence versions\<close>

definition is_integer :: "rat \<Rightarrow> bool" where
  "is_integer x \<longleftrightarrow> snd (quotient_of x) = 1"

definition sequenceVersion :: "rat \<Rightarrow> ref_error + nat" where
  "sequenceVersion v =
     (if \<not> is_integer v \<or> v < 0
      then Inl (ReferenceValidationError ''sequence-version'' ''must be a non-negative integer'')
      else Inr (nat \<lfloor>v\<rfloor>))"

definition committedSequenceVersion :: "rat \<Rightarrow> ref_error + nat" where
  "committedSequenceVersion v =
     (if \<not> is_integer v \<or> v < 1
      then Inl (ReferenceValidationError ''committed-sequence-version'' ''must be a positive integer'')
      else Inr (nat \<lfloor>v\<rfloor>))"

subsection \<open>Paths\<close>

datatype path_segment = Literal (seg_value: string) | Parameter (seg_value: string)

definition bad_segment :: "string \<Rightarrow> bool" where
  "bad_segment s \<longleftrightarrow> s = [] \<or> slash \<in> set s \<or> CHR ''{'' \<in> set s \<or> CHR ''}'' \<in> set s"

definition pathSegment :: "string \<Rightarrow> ref_error + path_segment" where
  "pathSegment v = (let normalized = js_trim v
     in if bad_segment normalized
        then Inl (ReferenceValidationError ''contract-path segment'' ''must be a non-empty token'')
        else Inr (Literal normalized))"

definition pathParameter :: "string \<Rightarrow> ref_error + path_segment" where
  "pathParameter v = (let normalized = js_trim v
     in if bad_segment normalized
        then Inl (ReferenceValidationError ''contract-path parameter'' ''must be a non-empty name'')
        else Inr (Parameter normalized))"

definition segment_text :: "path_segment \<Rightarrow> string" where
  "segment_text s = (case s of Parameter v \<Rightarrow> ''{'' @ v @ ''}'' | Literal v \<Rightarrow> v)"

definition contractPath :: "path_segment list \<Rightarrow> ref_error + string" where
  "contractPath segments =
     (if segments = [] then reference ''contract-path'' ''/'' False
      else reference ''contract-path'' (''/'' @ js_join ''/'' (map segment_text segments)) False)"

fun has_double_slash :: "string \<Rightarrow> bool" where
  "has_double_slash (a # b # s) = ((a = slash \<and> b = slash) \<or> has_double_slash (b # s))"
| "has_double_slash _ = False"

definition parseContractPath :: "string \<Rightarrow> ref_error + string" where
  "parseContractPath v =
     (let normalized = js_trim v
      in if \<not> starts_with ''/'' normalized \<or> has_double_slash normalized
         then Inl (ReferenceValidationError ''contract-path'' ''must be an absolute non-empty path'')
         else reference ''contract-path'' normalized False)"

definition field_segment :: "string \<Rightarrow> ref_error + string" where
  "field_segment v = (let normalized = js_trim v
     in if normalized = [] \<or> slash \<in> set normalized
        then Inl (ReferenceValidationError ''field path segment'' ''must be a non-empty token'')
        else Inr normalized)"

text \<open>The escape of one JSON Pointer segment: \<open>~\<close> first, then \<open>/\<close>.\<close>

definition escape_char :: "char \<Rightarrow> string" where
  "escape_char c = (if c = tilde then tilde # ''0'' else [c])"

definition escape_slash :: "char \<Rightarrow> string" where
  "escape_slash c = (if c = slash then tilde # ''1'' else [c])"

definition escapePointerSegment :: "string \<Rightarrow> string" where
  "escapePointerSegment s = concat (map escape_slash (concat (map escape_char s)))"

definition fieldPath :: "string list \<Rightarrow> ref_error + string" where
  "fieldPath segments =
     (if segments = [] then Inl (ReferenceValidationError ''field path'' ''needs a segment'')
      else let pointer = js_join ''/'' (map escapePointerSegment segments);
               v = (if length segments = 1 then pointer else ''/'' @ pointer)
           in reference ''field-path'' v False)"

definition queryPath :: "string list \<Rightarrow> ref_error + string" where
  "queryPath segments =
     (if segments = [] then Inl (ReferenceValidationError ''query path'' ''needs a segment'')
      else reference ''query-path'' (js_join ''.'' segments) False)"

subsection \<open>What the validators guarantee\<close>

lemma reference_Inr_iff:
  "reference kind v ae = Inr r \<longleftrightarrow> r = js_trim v \<and> (r \<noteq> [] \<or> ae)"
  by (auto simp: reference_def Let_def)

lemma reference_idem: "reference kind v ae = Inr r \<Longrightarrow> reference kind' r ae = Inr r"
  by (auto simp: reference_Inr_iff)

lemma literalReference_Inr_iff:
  "literalReference kind v ae = Inr r \<longleftrightarrow> r = v \<and> js_trim v = v \<and> (v \<noteq> [] \<or> ae)"
  by (auto simp: literalReference_def reference_Inr_iff)

lemma aggregateId_Inr_iff: "aggregateId v = Inr r \<longleftrightarrow> r = js_trim v \<and> r \<noteq> []"
  by (simp add: aggregateId_def reference_Inr_iff)

lemma aggregateId_idem: "aggregateId v = Inr r \<Longrightarrow> aggregateId r = Inr r"
  by (auto simp: aggregateId_Inr_iff)

lemma is_integer_of_nat [simp]: "is_integer (of_nat n)"
proof -
  have "(of_nat n :: rat) = Fract (int n) 1" by (simp add: of_int_rat [symmetric])
  then show ?thesis by (simp add: is_integer_def quotient_of_Fract normalize_def)
qed

lemma sequenceVersion_of_nat [simp]: "sequenceVersion (of_nat n) = Inr n"
  by (simp add: sequenceVersion_def)

lemma committedSequenceVersion_of_nat:
  "committedSequenceVersion (of_nat n) = (if n = 0 then
     Inl (ReferenceValidationError ''committed-sequence-version'' ''must be a positive integer'')
   else Inr n)"
  by (simp add: committedSequenceVersion_def)

lemma committedSequenceVersion_Suc [simp]: "committedSequenceVersion (of_nat (Suc n)) = Inr (Suc n)"
  using committedSequenceVersion_of_nat[of "Suc n"] by simp

lemma sequenceVersion_int: "sequenceVersion v = Inr n \<Longrightarrow> v = of_nat n"
proof -
  assume a: "sequenceVersion v = Inr n"
  then have i: "snd (quotient_of v) = 1" and p: "0 \<le> v" and n: "n = nat \<lfloor>v\<rfloor>"
    by (auto simp: sequenceVersion_def is_integer_def split: if_splits)
  obtain m where m: "quotient_of v = (m, 1)" using i by (cases "quotient_of v") auto
  then have "v = of_int m" using quotient_of_div[OF m] by simp
  with p n show ?thesis by simp
qed

end
