(* ===== verification/Patches.thy ===== *)
theory Patches
  imports References
begin

text \<open>
  The patch engine (\<open>model/patches.ts\<close>): RFC 6901 pointers, navigation, the ten patch operations in
  strict and auto-vivifying mode, and \<open>applyPatches\<close>.

  The source navigates to the parent container of a pointer and then mutates it in place inside a
  private copy of the document.  Here a navigation result names the parent by its concrete location,
  and reading or writing through it is a function of the document; navigation returns the document
  too, because in auto-vivifying mode it creates the containers it misses.
\<close>

subsection \<open>Patches and errors\<close>

datatype patch_op = OpAdd | OpRemove | OpReplace | OpMove | OpCopy
  | OpAppend | OpPrepend | OpIncrement | OpMerge | OpUpsert

datatype patch_source = SrcReducer | SrcProjection | SrcSeed | SrcHateoas | SrcMask | SrcDeprecation | SrcOverlay

datatype patch =
    PAdd string json
  | PRemove string
  | PReplace string json
  | PMove (p_from: string) string
  | PCopy (p_from: string) string
  | PAppend string json
  | PPrepend string json
  | PIncrement string rat
  | PMerge string json_object bool
  | PUpsert string string json_object

fun patch_op_of :: "patch \<Rightarrow> patch_op" where
  "patch_op_of (PAdd _ _) = OpAdd"
| "patch_op_of (PRemove _) = OpRemove"
| "patch_op_of (PReplace _ _) = OpReplace"
| "patch_op_of (PMove _ _) = OpMove"
| "patch_op_of (PCopy _ _) = OpCopy"
| "patch_op_of (PAppend _ _) = OpAppend"
| "patch_op_of (PPrepend _ _) = OpPrepend"
| "patch_op_of (PIncrement _ _) = OpIncrement"
| "patch_op_of (PMerge _ _ _) = OpMerge"
| "patch_op_of (PUpsert _ _ _) = OpUpsert"

fun patch_path :: "patch \<Rightarrow> string" where
  "patch_path (PAdd p _) = p"
| "patch_path (PRemove p) = p"
| "patch_path (PReplace p _) = p"
| "patch_path (PMove _ p) = p"
| "patch_path (PCopy _ p) = p"
| "patch_path (PAppend p _) = p"
| "patch_path (PPrepend p _) = p"
| "patch_path (PIncrement p _) = p"
| "patch_path (PMerge p _ _) = p"
| "patch_path (PUpsert p _ _) = p"

text \<open>The messages of \<open>PatchApplyError\<close>, with the segment or depth they print.\<close>

datatype apply_reason =
    RootTarget
  | RootUnsupported
  | TraversesScalar string nat
  | IndexOutOfRange string
  | MissingKey string
  | ScalarAtLeaf string
  | InvalidIndex string
  | TargetMissing
  | SourceMissing
  | SourceNotJson
  | TargetNotArray
  | TargetNotNumeric
  | TargetNotObject

datatype patch_error =
    PatchApplyError apply_reason nat string patch_op
  | JsonPointerError string
  | PatchReferenceError ref_error

text \<open>The text of each message; \<open>path\<close> and \<open>op\<close> are the error's own.\<close>

definition op_name :: "patch_op \<Rightarrow> string" where
  "op_name op = (case op of OpAdd \<Rightarrow> ''add'' | OpRemove \<Rightarrow> ''remove'' | OpReplace \<Rightarrow> ''replace'' | OpMove \<Rightarrow> ''move''
     | OpCopy \<Rightarrow> ''copy'' | OpAppend \<Rightarrow> ''append'' | OpPrepend \<Rightarrow> ''prepend'' | OpIncrement \<Rightarrow> ''increment''
     | OpMerge \<Rightarrow> ''merge'' | OpUpsert \<Rightarrow> ''upsert'')"

definition ticked :: "string \<Rightarrow> string" where
  "ticked s = [CHR 0x27] @ s @ [CHR 0x27]"

definition apply_message :: "apply_reason \<Rightarrow> string \<Rightarrow> patch_op \<Rightarrow> string" where
  "apply_message r path op = (case r of
      RootTarget \<Rightarrow> ''Operation '' @ ticked (op_name op) @ '' cannot target the root '' @ ticked ''/''
    | RootUnsupported \<Rightarrow> ticked (op_name op) @ '' on root '' @ ticked ''/'' @ '' is not supported''
    | TraversesScalar seg depth \<Rightarrow> ''Path traverses non-object/array at segment '' @ ticked seg @ '' (depth '' @ dec depth @ '')''
    | IndexOutOfRange seg \<Rightarrow> ''Array index out of range at segment '' @ ticked seg
    | MissingKey seg \<Rightarrow> ''Path traverses missing object key '' @ ticked seg
    | ScalarAtLeaf leaf \<Rightarrow> ''Path traverses non-object/array at leaf '' @ ticked leaf
    | InvalidIndex leaf \<Rightarrow> ''Invalid array index '' @ ticked leaf
    | TargetMissing \<Rightarrow> ticked (op_name op) @ '' target does not exist: '' @ path
    | SourceMissing \<Rightarrow> ticked (op_name op) @ '' source does not exist: '' @ path
    | SourceNotJson \<Rightarrow> ticked (op_name op) @ '' source does not contain a JSON value: '' @ path
    | TargetNotArray \<Rightarrow> ticked (op_name op) @ '' target is not an array: '' @ path
    | TargetNotNumeric \<Rightarrow> ticked (op_name op) @ '' target is not numeric: '' @ path
    | TargetNotObject \<Rightarrow> ticked (op_name op) @ '' target is not an object: '' @ path)"

definition reference_message :: "ref_error \<Rightarrow> string" where
  "reference_message e = ''Invalid Potemkin '' @ ref_kind e @ '': '' @ ref_reason e"

definition patch_message :: "patch_error \<Rightarrow> string" where
  "patch_message e = (case e of
      PatchApplyError r i path op \<Rightarrow> apply_message r path op
    | JsonPointerError p \<Rightarrow> ''Invalid JSON Pointer (must start with '' @ ticked ''/'' @ ''): '' @ p
    | PatchReferenceError r \<Rightarrow> reference_message r)"

subsection \<open>Pointers\<close>

fun unescape_slash :: "string \<Rightarrow> string" where
  "unescape_slash (a # b # s) =
     (if a = tilde \<and> b = CHR ''1'' then slash # unescape_slash s else a # unescape_slash (b # s))"
| "unescape_slash s = s"

fun unescape_tilde :: "string \<Rightarrow> string" where
  "unescape_tilde (a # b # s) =
     (if a = tilde \<and> b = CHR ''0'' then tilde # unescape_tilde s else a # unescape_tilde (b # s))"
| "unescape_tilde s = s"

text \<open>\<open>seg.replace(/~1/g, '/').replace(/~0/g, '~')\<close>.\<close>

definition unescapeSegment :: "string \<Rightarrow> string" where
  "unescapeSegment s = unescape_tilde (unescape_slash s)"

definition parsePointer :: "string \<Rightarrow> patch_error + string list" where
  "parsePointer pointer =
     (if pointer \<noteq> [] \<and> \<not> starts_with ''/'' (js_trim pointer) then Inl (JsonPointerError pointer)
      else case jsonPath pointer of
          Inl e \<Rightarrow> Inl (PatchReferenceError e)
        | Inr validated \<Rightarrow>
            if validated = [] then Inr []
            else if validated = ''/'' then Inr [[]]
            else if \<not> starts_with ''/'' validated then Inl (JsonPointerError validated)
            else Inr (map unescapeSegment (js_split slash (tl validated))))"

definition joinPointer :: "string list \<Rightarrow> string" where
  "joinPointer segments =
     (if segments = [] then [] else ''/'' @ js_join ''/'' (map escapePointerSegment segments))"

subsection \<open>Navigation\<close>

datatype step = SIdx nat | SKey string

text \<open>The location of the parent, the key inside it, and whether that key is occupied.\<close>

datatype nav = ArrNav (nav_loc: "step list") nat (nav_exists: bool)
  | ObjNav (nav_loc: "step list") string (nav_exists: bool)

fun push_step :: "step \<Rightarrow> nav \<Rightarrow> nav" where
  "push_step s (ArrNav loc k e) = ArrNav (s # loc) k e"
| "push_step s (ObjNav loc k e) = ObjNav (s # loc) k e"

definition segmentIsArrayIndex :: "string \<Rightarrow> bool" where
  "segmentIsArrayIndex seg \<longleftrightarrow> seg = ''-'' \<or>
     (case js_parseInt seg of None \<Rightarrow> False | Some i \<Rightarrow> dec_int i = seg \<and> 0 \<le> i)"

text \<open>The container auto-vivification creates in front of the given next segment.\<close>

definition fresh_container :: "string \<Rightarrow> json" where
  "fresh_container nxt = (if segmentIsArrayIndex nxt then JArr [] else JObj [])"

text \<open>\<open>xs[n] = v\<close>: past the end, the array grows and the gap is holes.\<close>

definition arr_write :: "nat \<Rightarrow> json \<Rightarrow> json list \<Rightarrow> json list" where
  "arr_write n v xs = (if n < length xs then xs[n := v] else xs @ replicate (n - length xs) JUndef @ [v])"

definition leaf_nav :: "string \<Rightarrow> json \<Rightarrow> apply_reason + nav" where
  "leaf_nav leaf cur = (case cur of
      JArr xs \<Rightarrow>
        if leaf = ''-'' then Inr (ArrNav [] (length xs) False)
        else (case js_parseInt leaf of
            None \<Rightarrow> Inl (InvalidIndex leaf)
          | Some i \<Rightarrow> if i < 0 then Inl (InvalidIndex leaf)
                      else Inr (ArrNav [] (nat i) (nat i < length xs)))
    | JObj m \<Rightarrow> Inr (ObjNav [] leaf (map_of m leaf \<noteq> None))
    | _ \<Rightarrow> Inl (ScalarAtLeaf leaf))"

fun walk :: "bool \<Rightarrow> nat \<Rightarrow> string list \<Rightarrow> json \<Rightarrow> apply_reason + (json \<times> nav)" where
  "walk av d [] cur = Inl RootTarget"
| "walk av d [leaf] cur = rbind (leaf_nav leaf cur) (\<lambda>n. Inr (cur, n))"
| "walk av d (seg # nxt # rest) cur = (case cur of
      JArr xs \<Rightarrow>
        (case js_parseInt seg of
            None \<Rightarrow> Inl (IndexOutOfRange seg)
          | Some i \<Rightarrow>
              if 0 \<le> i \<and> nat i < length xs
              then rbind (walk av (Suc d) (nxt # rest) (xs ! nat i))
                     (\<lambda>(c, n). Inr (JArr (xs[nat i := c]), push_step (SIdx (nat i)) n))
              else if av \<and> 0 \<le> i
              then rbind (walk av (Suc d) (nxt # rest) (fresh_container nxt))
                     (\<lambda>(c, n). Inr (JArr (arr_write (nat i) c xs), push_step (SIdx (nat i)) n))
              else Inl (IndexOutOfRange seg))
    | JObj m \<Rightarrow>
        (case map_of m seg of
            Some v \<Rightarrow> rbind (walk av (Suc d) (nxt # rest) v)
                         (\<lambda>(c, n). Inr (JObj (obj_set seg c m), push_step (SKey seg) n))
          | None \<Rightarrow>
              if av
              then rbind (walk av (Suc d) (nxt # rest) (fresh_container nxt))
                     (\<lambda>(c, n). Inr (JObj (obj_set seg c m), push_step (SKey seg) n))
              else Inl (MissingKey seg))
    | _ \<Rightarrow> Inl (TraversesScalar seg d))"

definition navigate :: "json \<Rightarrow> string list \<Rightarrow> patch_op \<Rightarrow> nat \<Rightarrow> bool \<Rightarrow> patch_error + (json \<times> nav)" where
  "navigate state segments op patchIndex autoVivify =
     (if segments = [] then Inl (PatchApplyError RootTarget patchIndex ''/'' op)
      else case walk autoVivify 0 segments state of
          Inl r \<Rightarrow> Inl (PatchApplyError r patchIndex (joinPointer segments) op)
        | Inr sn \<Rightarrow> Inr sn)"

subsection \<open>Reading and writing through a navigation result\<close>

fun read_loc :: "step list \<Rightarrow> json \<Rightarrow> json" where
  "read_loc [] v = v"
| "read_loc (SIdx i # loc) v = (case v of JArr xs \<Rightarrow> if i < length xs then read_loc loc (xs ! i) else JUndef | _ \<Rightarrow> JUndef)"
| "read_loc (SKey k # loc) v = (case v of JObj m \<Rightarrow> (case map_of m k of Some w \<Rightarrow> read_loc loc w | None \<Rightarrow> JUndef) | _ \<Rightarrow> JUndef)"

fun modify_loc :: "step list \<Rightarrow> (json \<Rightarrow> json) \<Rightarrow> json \<Rightarrow> json" where
  "modify_loc [] f v = f v"
| "modify_loc (SIdx i # loc) f v = (case v of
      JArr xs \<Rightarrow> if i < length xs then JArr (xs[i := modify_loc loc f (xs ! i)]) else v
    | _ \<Rightarrow> v)"
| "modify_loc (SKey k # loc) f v = (case v of
      JObj m \<Rightarrow> (case map_of m k of Some w \<Rightarrow> JObj (obj_set k (modify_loc loc f w) m) | None \<Rightarrow> v)
    | _ \<Rightarrow> v)"

definition arr_at :: "json list \<Rightarrow> nat \<Rightarrow> json" where
  "arr_at xs k = (if k < length xs then xs ! k else JUndef)"

fun readAt :: "nav \<Rightarrow> json \<Rightarrow> json" where
  "readAt (ArrNav loc k e) st = (case read_loc loc st of JArr xs \<Rightarrow> arr_at xs k | _ \<Rightarrow> JUndef)"
| "readAt (ObjNav loc k e) st = (case read_loc loc st of JObj m \<Rightarrow> obj_get m k | _ \<Rightarrow> JUndef)"

definition on_arr :: "(json list \<Rightarrow> json list) \<Rightarrow> json \<Rightarrow> json" where
  "on_arr f v = (case v of JArr xs \<Rightarrow> JArr (f xs) | _ \<Rightarrow> v)"
definition on_obj :: "(json_object \<Rightarrow> json_object) \<Rightarrow> json \<Rightarrow> json" where
  "on_obj f v = (case v of JObj m \<Rightarrow> JObj (f m) | _ \<Rightarrow> v)"

fun writeAt :: "nav \<Rightarrow> json \<Rightarrow> json \<Rightarrow> json" where
  "writeAt (ArrNav loc k e) v st = modify_loc loc (on_arr (arr_write k v)) st"
| "writeAt (ObjNav loc k e) v st = modify_loc loc (on_obj (obj_set k v)) st"

text \<open>\<open>splice(k, 0, v)\<close> and \<open>splice(k, 1)\<close>.\<close>

definition arr_insert :: "nat \<Rightarrow> json \<Rightarrow> json list \<Rightarrow> json list" where
  "arr_insert k v xs = take k xs @ v # drop k xs"
definition arr_remove :: "nat \<Rightarrow> json list \<Rightarrow> json list" where
  "arr_remove k xs = take k xs @ drop (Suc k) xs"

fun insertAt :: "nav \<Rightarrow> json \<Rightarrow> json \<Rightarrow> json" where
  "insertAt (ArrNav loc k e) v st = modify_loc loc (on_arr (arr_insert k v)) st"
| "insertAt (ObjNav loc k e) v st = modify_loc loc (on_obj (obj_set k v)) st"

fun removeAt :: "nav \<Rightarrow> json \<Rightarrow> json" where
  "removeAt (ArrNav loc k e) st = modify_loc loc (on_arr (arr_remove k)) st"
| "removeAt (ObjNav loc k e) st = modify_loc loc (on_obj (obj_delete k)) st"

subsection \<open>The operations\<close>

fun deepMerge :: "json_object \<Rightarrow> json_object \<Rightarrow> json_object" where
  "deepMerge target [] = target"
| "deepMerge target ((k, v) # update) =
     deepMerge (case v of
         JObj w \<Rightarrow> (case obj_get target k of
             JObj e \<Rightarrow> obj_set k (JObj (deepMerge e w)) target
           | _ \<Rightarrow> obj_set k v target)
       | _ \<Rightarrow> obj_set k v target) update"

definition is_arr_nav :: "nav \<Rightarrow> bool" where
  "is_arr_nav n = (case n of ArrNav _ _ _ \<Rightarrow> True | _ \<Rightarrow> False)"

text \<open>\<open>target.findIndex(item => isMutableJsonObject(item) && item[keyField] === matchValue)\<close>.\<close>

fun find_index :: "('a \<Rightarrow> bool) \<Rightarrow> 'a list \<Rightarrow> nat option" where
  "find_index p [] = None"
| "find_index p (x # xs) = (if p x then Some 0 else map_option Suc (find_index p xs))"

definition upsert_into :: "string \<Rightarrow> json_object \<Rightarrow> json list \<Rightarrow> json list" where
  "upsert_into keyField incoming target =
     (case find_index (\<lambda>item. case item of JObj m \<Rightarrow> strict_eq (obj_get m keyField) (obj_get incoming keyField) | _ \<Rightarrow> False) target of
        Some i \<Rightarrow> target[i := JObj incoming]
      | None \<Rightarrow> target @ [JObj incoming])"

definition applyOne :: "json \<Rightarrow> patch \<Rightarrow> nat \<Rightarrow> bool \<Rightarrow> patch_error + json" where
  "applyOne state patch patchIndex autoVivify =
   (let op = patch_op_of patch;
        fail = (\<lambda>r. Inl (PatchApplyError r patchIndex (patch_path patch) op))
    in rbind (case patch of PMove from _ \<Rightarrow> parsePointer from | PCopy from _ \<Rightarrow> parsePointer from
        | _ \<Rightarrow> parsePointer (patch_path patch)) (\<lambda>segments.
      case patch of
        PAdd path value \<Rightarrow>
          if segments = [] then Inl (PatchApplyError RootUnsupported patchIndex ''/'' op)
          else rbind (navigate state segments op patchIndex autoVivify) (\<lambda>(st, n).
            if is_arr_nav n \<and> nav_exists n then Inr (insertAt n value st)
            else Inr (writeAt n value st))
      | PReplace path value \<Rightarrow>
          if segments = [] then Inl (PatchApplyError RootUnsupported patchIndex ''/'' op)
          else rbind (navigate state segments op patchIndex autoVivify) (\<lambda>(st, n).
            if \<not> nav_exists n \<and> \<not> autoVivify then fail TargetMissing
            else Inr (writeAt n value st))
      | PRemove path \<Rightarrow>
          rbind (navigate state segments op patchIndex autoVivify) (\<lambda>(st, n).
            if \<not> nav_exists n then (if autoVivify then Inr st else fail TargetMissing)
            else Inr (removeAt n st))
      | PMove from path \<Rightarrow>
          rbind (parsePointer path) (\<lambda>toSegs.
          rbind (navigate state segments op patchIndex autoVivify) (\<lambda>(st, n).
            if \<not> nav_exists n then Inl (PatchApplyError SourceMissing patchIndex from op)
            else let value = readAt n st
              in if value = JUndef then Inl (PatchApplyError SourceNotJson patchIndex from op)
                 else rbind (navigate (removeAt n st) toSegs op patchIndex autoVivify) (\<lambda>(st', n').
                   Inr (insertAt n' value st'))))
      | PCopy from path \<Rightarrow>
          rbind (parsePointer path) (\<lambda>toSegs.
          rbind (navigate state segments op patchIndex autoVivify) (\<lambda>(st, n).
            if \<not> nav_exists n then Inl (PatchApplyError SourceMissing patchIndex from op)
            else let value = readAt n st
              in if value = JUndef then Inl (PatchApplyError SourceNotJson patchIndex from op)
                 else rbind (navigate st toSegs op patchIndex autoVivify) (\<lambda>(st', n').
                   Inr (insertAt n' value st'))))
      | PAppend path value \<Rightarrow>
          rbind (navigate state segments op patchIndex autoVivify) (\<lambda>(st, n).
            case (if nav_exists n then readAt n st else JUndef) of
              JArr target \<Rightarrow> Inr (writeAt n (JArr (target @ [value])) st)
            | _ \<Rightarrow> if \<not> autoVivify then fail (if nav_exists n then TargetNotArray else TargetMissing)
                   else Inr (writeAt n (JArr [value]) st))
      | PPrepend path value \<Rightarrow>
          rbind (navigate state segments op patchIndex autoVivify) (\<lambda>(st, n).
            case (if nav_exists n then readAt n st else JUndef) of
              JArr target \<Rightarrow> Inr (writeAt n (JArr (value # target)) st)
            | _ \<Rightarrow> if \<not> autoVivify then fail (if nav_exists n then TargetNotArray else TargetMissing)
                   else Inr (writeAt n (JArr [value]) st))
      | PIncrement path by \<Rightarrow>
          rbind (navigate state segments op patchIndex autoVivify) (\<lambda>(st, n).
            case (if nav_exists n then readAt n st else JUndef) of
              JNum current \<Rightarrow> Inr (writeAt n (JNum (js_add current by)) st)
            | _ \<Rightarrow> if \<not> autoVivify then fail (if nav_exists n then TargetNotNumeric else TargetMissing)
                   else Inr (writeAt n (JNum by) st))
      | PMerge path update deep \<Rightarrow>
          rbind (navigate state segments op patchIndex autoVivify) (\<lambda>(st, n).
            let merged = (\<lambda>target. if deep then deepMerge target update else obj_spread target update)
            in case (if nav_exists n then readAt n st else JUndef) of
              JObj target \<Rightarrow> Inr (writeAt n (JObj (merged target)) st)
            | _ \<Rightarrow> if \<not> autoVivify then fail (if nav_exists n then TargetNotObject else TargetMissing)
                   else Inr (writeAt n (JObj (merged [])) st))
      | PUpsert path key incoming \<Rightarrow>
          rbind (navigate state segments op patchIndex autoVivify) (\<lambda>(st, n).
            case (if nav_exists n then readAt n st else JUndef) of
              JArr target \<Rightarrow> Inr (writeAt n (JArr (upsert_into key incoming target)) st)
            | _ \<Rightarrow> if \<not> autoVivify then fail (if nav_exists n then TargetNotArray else TargetMissing)
                   else Inr (writeAt n (JArr (upsert_into key incoming [])) st))))"

subsection \<open>Journal and driver\<close>

record journal_entry =
  je_source :: patch_source
  je_op :: patch_op
  je_path :: string
  je_value :: "json option"
  je_from :: "string option"
  je_by :: "rat option"

definition plain_entry :: "patch_source \<Rightarrow> patch_op \<Rightarrow> string \<Rightarrow> journal_entry" where
  "plain_entry src op path =
     \<lparr>je_source = src, je_op = op, je_path = path, je_value = None, je_from = None, je_by = None\<rparr>"

fun buildJournalEntry :: "patch \<Rightarrow> patch_source \<Rightarrow> journal_entry" where
  "buildJournalEntry (PRemove path) src = plain_entry src OpRemove path"
| "buildJournalEntry (PMove from path) src = (plain_entry src OpMove path)\<lparr>je_from := Some from\<rparr>"
| "buildJournalEntry (PCopy from path) src = (plain_entry src OpCopy path)\<lparr>je_from := Some from\<rparr>"
| "buildJournalEntry (PIncrement path by) src = (plain_entry src OpIncrement path)\<lparr>je_by := Some by\<rparr>"
| "buildJournalEntry (PAdd path v) src = (plain_entry src OpAdd path)\<lparr>je_value := Some v\<rparr>"
| "buildJournalEntry (PReplace path v) src = (plain_entry src OpReplace path)\<lparr>je_value := Some v\<rparr>"
| "buildJournalEntry (PAppend path v) src = (plain_entry src OpAppend path)\<lparr>je_value := Some v\<rparr>"
| "buildJournalEntry (PPrepend path v) src = (plain_entry src OpPrepend path)\<lparr>je_value := Some v\<rparr>"
| "buildJournalEntry (PMerge path v deep) src = (plain_entry src OpMerge path)\<lparr>je_value := Some (JObj v)\<rparr>"
| "buildJournalEntry (PUpsert path key v) src = (plain_entry src OpUpsert path)\<lparr>je_value := Some (JObj v)\<rparr>"

record apply_result =
  newState :: json
  journal :: "journal_entry list"
  touchedPaths :: "string list"

definition set_add :: "'a \<Rightarrow> 'a list \<Rightarrow> 'a list" where
  "set_add x xs = (if x \<in> set xs then xs else xs @ [x])"

definition touch :: "patch \<Rightarrow> string list \<Rightarrow> string list" where
  "touch p touched =
     (let t = set_add (patch_path p) touched
      in case p of PMove from _ \<Rightarrow> set_add from t | PCopy from _ \<Rightarrow> set_add from t | _ \<Rightarrow> t)"

fun apply_loop :: "bool \<Rightarrow> patch_source \<Rightarrow> nat \<Rightarrow> patch list \<Rightarrow> apply_result \<Rightarrow> patch_error + apply_result" where
  "apply_loop av src i [] r = Inr r"
| "apply_loop av src i (p # ps) r =
     rbind (applyOne (newState r) p i av) (\<lambda>st.
       apply_loop av src (Suc i) ps
         \<lparr>newState = st, journal = journal r @ [buildJournalEntry p src], touchedPaths = touch p (touchedPaths r)\<rparr>)"

definition applyPatches :: "json \<Rightarrow> patch list \<Rightarrow> patch_source \<Rightarrow> bool \<Rightarrow> patch_error + apply_result" where
  "applyPatches state patches src autoVivify =
     apply_loop autoVivify src 0 patches \<lparr>newState = state, journal = [], touchedPaths = []\<rparr>"

end
