(* ===== verification/PatchLaws.thy ===== *)
theory PatchLaws
  imports Patches
begin

text \<open>
  Laws of the patch engine: pointers parse back to what they were built from, navigation along an
  existing prefix acts on the value found there, and the success of an operation does not depend on
  its position in the patch list.  The read side is stated with \<open>get_path\<close>, which follows a segment
  list the way navigation does, and \<open>upd_path\<close>, which replaces the value found there.
\<close>

subsection \<open>Pointers round-trip\<close>

definition esc :: "char \<Rightarrow> string" where
  "esc c = (if c = tilde then tilde # ''0'' else if c = slash then tilde # ''1'' else [c])"

lemma escapePointerSegment_esc: "escapePointerSegment s = concat (map esc s)"
  by (induction s) (auto simp: escapePointerSegment_def escape_char_def escape_slash_def esc_def)

lemma escapePointerSegment_simps [simp]:
  "escapePointerSegment [] = []"
  "escapePointerSegment (c # s) = esc c @ escapePointerSegment s"
  by (simp_all add: escapePointerSegment_esc)

lemma esc_no_slash: "slash \<notin> set (escapePointerSegment s)"
  by (induction s) (auto simp: esc_def)

lemma unescape_slash_other: "c \<noteq> tilde \<Longrightarrow> unescape_slash (c # s) = c # unescape_slash s"
  by (cases s) auto

lemma unescape_tilde_other: "c \<noteq> tilde \<Longrightarrow> unescape_tilde (c # s) = c # unescape_tilde s"
  by (cases s) auto

lemma unescape_slash_esc:
  "unescape_slash (escapePointerSegment s) = concat (map escape_char s)"
  by (induction s) (auto simp: esc_def escape_char_def unescape_slash_other)

lemma unescape_tilde_esc: "unescape_tilde (concat (map escape_char s)) = s"
  by (induction s) (auto simp: escape_char_def unescape_tilde_other)

lemma unescapeSegment_escape [simp]: "unescapeSegment (escapePointerSegment s) = s"
  by (simp add: unescapeSegment_def unescape_slash_esc unescape_tilde_esc)

text \<open>A key whose last character is not white space; \<open>parsePointer\<close> trims the pointer.\<close>

definition ok_key :: "string \<Rightarrow> bool" where
  "ok_key k \<longleftrightarrow> k = [] \<or> \<not> is_ws (last k)"

lemma ok_key_dec [simp]: "ok_key (dec n)"
proof -
  have "is_digit (last (dec n))" by (rule dec_digits[of _ n]) simp
  then show ?thesis by (simp add: ok_key_def is_digit_not_ws)
qed

lemma escape_nonempty [simp]: "escapePointerSegment s = [] \<longleftrightarrow> s = []"
  by (cases s) (auto simp: esc_def)

lemma escape_append: "escapePointerSegment (s @ t) = escapePointerSegment s @ escapePointerSegment t"
  by (simp add: escapePointerSegment_esc)

lemma ok_key_escape: "ok_key k \<Longrightarrow> ok_key (escapePointerSegment k)"
proof (cases k rule: rev_cases)
  case (snoc t c)
  moreover assume "ok_key k"
  ultimately have "\<not> is_ws c" by (simp add: ok_key_def)
  then have "\<not> is_ws (last (esc c))" and "esc c \<noteq> []"
    by (auto simp: esc_def is_ws_def code_def)
  then show ?thesis by (simp add: snoc ok_key_def escape_append)
qed (simp add: ok_key_def)

lemma js_join_snoc: "ps \<noteq> [] \<Longrightarrow> js_join sep (ps @ [q]) = js_join sep ps @ sep @ q"
  by (induction sep ps rule: js_join.induct) auto

lemma joinPointer_Nil [simp]: "joinPointer [] = []"
  by (simp add: joinPointer_def)

lemma joinPointer_snoc: "joinPointer (p @ [k]) = joinPointer p @ ''/'' @ escapePointerSegment k"
  by (cases "p = []") (simp_all add: joinPointer_def js_join_snoc)

lemma joinPointer_eq_Nil [simp]: "joinPointer p = [] \<longleftrightarrow> p = []"
  by (simp add: joinPointer_def)

lemma is_ws_slash [simp]: "\<not> is_ws slash"
  by (simp add: is_ws_def code_def)

lemma js_trim_joinPointer: "p = [] \<or> ok_key (last p) \<Longrightarrow> js_trim (joinPointer p) = joinPointer p"
proof (cases p rule: rev_cases)
  case Nil
  then show ?thesis by (simp add: js_trim_def)
next
  case (snoc q k)
  assume "p = [] \<or> ok_key (last p)"
  with snoc have "ok_key (escapePointerSegment k)" by (simp add: ok_key_escape)
  then have l: "\<not> is_ws (last (joinPointer p))"
    by (cases "k = []") (auto simp: snoc joinPointer_snoc ok_key_def)
  have "hd (joinPointer p) = slash" using snoc by (simp add: joinPointer_def)
  with l show ?thesis by (intro js_trim_id) simp
qed

lemma parsePointer_joinPointer:
  assumes "p = [] \<or> ok_key (last p)"
  shows "parsePointer (joinPointer p) = Inr p"
proof (cases "p = []")
  case True
  then show ?thesis by (simp add: parsePointer_def jsonPath_def reference_def js_trim_def)
next
  case False
  have t: "js_trim (joinPointer p) = joinPointer p" by (rule js_trim_joinPointer[OF assms])
  let ?body = "js_join ''/'' (map escapePointerSegment p)"
  have j: "joinPointer p = slash # ?body" using False by (simp add: joinPointer_def)
  have split: "js_split slash ?body = map escapePointerSegment p"
    using False by (intro js_split_join) (auto simp: esc_no_slash)
  have root: "?body = [] \<Longrightarrow> p = [[]]"
  proof -
    assume b: "?body = []"
    then have "map escapePointerSegment p = [[]]" using split by simp
    then show ?thesis by (cases p) auto
  qed
  show ?thesis
  proof (cases "?body = []")
    case True
    with t j root show ?thesis
      by (simp add: parsePointer_def jsonPath_def reference_def starts_with_def)
  next
    case False
    with t j split show ?thesis
      by (simp add: parsePointer_def jsonPath_def reference_def starts_with_def o_def)
  qed
qed

subsection \<open>Reading along a segment list\<close>

fun get_path :: "string list \<Rightarrow> json \<Rightarrow> json option" where
  "get_path [] v = Some v"
| "get_path (s # p) v = (case v of
      JArr xs \<Rightarrow> (case js_parseInt s of
          Some i \<Rightarrow> if 0 \<le> i \<and> nat i < length xs then get_path p (xs ! nat i) else None
        | None \<Rightarrow> None)
    | JObj m \<Rightarrow> (case map_of m s of Some w \<Rightarrow> get_path p w | None \<Rightarrow> None)
    | _ \<Rightarrow> None)"

fun upd_path :: "string list \<Rightarrow> (json \<Rightarrow> json) \<Rightarrow> json \<Rightarrow> json" where
  "upd_path [] f v = f v"
| "upd_path (s # p) f v = (case v of
      JArr xs \<Rightarrow> (case js_parseInt s of
          Some i \<Rightarrow> if 0 \<le> i \<and> nat i < length xs then JArr (xs[nat i := upd_path p f (xs ! nat i)]) else v
        | None \<Rightarrow> v)
    | JObj m \<Rightarrow> (case map_of m s of Some w \<Rightarrow> JObj (obj_set s (upd_path p f w) m) | None \<Rightarrow> v)
    | _ \<Rightarrow> v)"

fun path_loc :: "string list \<Rightarrow> json \<Rightarrow> step list" where
  "path_loc [] v = []"
| "path_loc (s # p) v = (case v of
      JArr xs \<Rightarrow> (case js_parseInt s of
          Some i \<Rightarrow> SIdx (nat i) # (if 0 \<le> i \<and> nat i < length xs then path_loc p (xs ! nat i) else [])
        | None \<Rightarrow> [])
    | JObj m \<Rightarrow> SKey s # (case map_of m s of Some w \<Rightarrow> path_loc p w | None \<Rightarrow> [])
    | _ \<Rightarrow> [])"

fun push_steps :: "step list \<Rightarrow> nav \<Rightarrow> nav" where
  "push_steps [] n = n"
| "push_steps (s # l) n = push_step s (push_steps l n)"

lemma get_path_append: "get_path (p @ q) v = Option.bind (get_path p v) (get_path q)"
  by (induction p v rule: get_path.induct) (auto split: json.splits option.splits)

lemma get_upd_path: "get_path p v = Some w \<Longrightarrow> get_path p (upd_path p f v) = Some (f w)"
  by (induction p v rule: get_path.induct) (auto split: json.splits option.splits if_splits)

lemma upd_upd_path: "upd_path p f (upd_path p g v) = upd_path p (f \<circ> g) v"
proof (induction p v rule: get_path.induct)
  case (2 s p v)
  then show ?case
  proof (cases v)
    case (JArr xs)
    with 2 show ?thesis by (auto split: option.splits)
  next
    case (JObj m)
    have "obj_set s a (obj_set s b m) = obj_set s a m" if "map_of m s \<noteq> None" for a b
      using that by (simp add: obj_set_def AList.update_conv')
    with JObj 2 show ?thesis by (auto split: option.splits)
  qed auto
qed simp

lemma upd_path_append:
  "get_path p v = Some w \<Longrightarrow> upd_path (p @ q) f v = upd_path p (upd_path q f) v"
  by (induction p v rule: get_path.induct) (auto split: json.splits option.splits if_splits)

lemma upd_path_const: "get_path p v = Some w \<Longrightarrow> upd_path p f v = upd_path p (\<lambda>_. f w) v"
  by (induction p v rule: get_path.induct) (auto split: json.splits option.splits if_splits)

lemma obj_set_same: "map_of m k = Some v \<Longrightarrow> obj_set k v m = m"
  by (simp add: obj_set_def AList.update_triv)

lemma upd_path_same: "get_path p v = Some w \<Longrightarrow> upd_path p (\<lambda>_. w) v = v"
  by (induction p v rule: get_path.induct)
    (auto simp: obj_set_same split: json.splits option.splits if_splits)

text \<open>Strict navigation along an existing prefix leaves the document alone.\<close>

lemma walk_prefix:
  assumes "get_path p v = Some w"
  shows "walk False d (p @ [s]) v = rbind (leaf_nav s w) (\<lambda>n. Inr (v, push_steps (path_loc p v) n))"
  using assms
proof (induction p arbitrary: v d)
  case Nil
  then show ?case by simp
next
  case (Cons a p)
  obtain b r where br: "p @ [s] = b # r" by (cases "p @ [s]") auto
  from Cons.prems show ?case
    using Cons.IH br
    by (cases v) (auto simp: rbind_def obj_set_same split: option.splits if_splits sum.splits)
qed

lemma modify_path_loc: "get_path p v = Some w \<Longrightarrow> modify_loc (path_loc p v) f v = upd_path p f v"
  by (induction p v rule: get_path.induct) (auto split: json.splits option.splits if_splits)

lemma modify_loc_append:
  "modify_loc (l @ l') f v = modify_loc l (modify_loc l' f) v"
  by (induction l f v rule: modify_loc.induct) (auto split: json.splits option.splits)

lemma push_steps_simps [simp]:
  "push_steps l (ArrNav loc n e) = ArrNav (l @ loc) n e"
  "push_steps l (ObjNav loc k e) = ObjNav (l @ loc) k e"
  by (induction l) auto

lemma navigate_prefix:
  assumes "get_path p v = Some w" and "leaf_nav s w = Inr n"
  shows "navigate v (p @ [s]) op i False = Inr (v, push_steps (path_loc p v) n)"
  using walk_prefix[OF assms(1), of 0 s] assms(2) by (simp add: navigate_def)

subsection \<open>Strict operations on the children of an existing container\<close>

lemma strict_add_key:
  assumes "get_path p v = Some (JObj m)" and "ok_key k"
  shows "applyOne v (PAdd (joinPointer (p @ [k])) x) i False = Inr (upd_path p (\<lambda>_. JObj (obj_set k x m)) v)"
  using assms parsePointer_joinPointer[of "p @ [k]"]
    navigate_prefix[OF assms(1), of k "ObjNav [] k (map_of m k \<noteq> None)"]
    modify_path_loc[OF assms(1)] upd_path_const[OF assms(1), of "on_obj (obj_set k x)"]
  by (simp add: applyOne_def Let_def leaf_nav_def is_arr_nav_def on_obj_def)

lemma strict_remove_key:
  assumes "get_path p v = Some (JObj m)" and "ok_key k" and "map_of m k \<noteq> None"
  shows "applyOne v (PRemove (joinPointer (p @ [k]))) i False = Inr (upd_path p (\<lambda>_. JObj (obj_delete k m)) v)"
  using assms parsePointer_joinPointer[of "p @ [k]"]
    navigate_prefix[OF assms(1), of k "ObjNav [] k (map_of m k \<noteq> None)"]
    modify_path_loc[OF assms(1)] upd_path_const[OF assms(1), of "on_obj (obj_delete k)"]
  by (simp add: applyOne_def Let_def leaf_nav_def on_obj_def)

lemma dec_not_dash: "dec n \<noteq> ''-''"
  using dec_digits[of "CHR ''-''" n] by (auto simp: is_digit_def code_def)

lemma leaf_nav_dec: "leaf_nav (dec n) (JArr xs) = Inr (ArrNav [] n (n < length xs))"
  by (simp add: leaf_nav_def dec_not_dash)

lemma strict_add_end:
  assumes "get_path p v = Some (JArr xs)"
  shows "applyOne v (PAdd (joinPointer (p @ [dec (length xs)])) x) i False = Inr (upd_path p (\<lambda>_. JArr (xs @ [x])) v)"
  using parsePointer_joinPointer[of "p @ [dec (length xs)]"]
    navigate_prefix[OF assms leaf_nav_dec] modify_path_loc[OF assms] upd_path_const[OF assms, of "on_arr (arr_write (length xs) x)"]
  by (simp add: applyOne_def Let_def is_arr_nav_def on_arr_def arr_write_def)

lemma strict_remove_index:
  assumes "get_path p v = Some (JArr xs)" and "n < length xs"
  shows "applyOne v (PRemove (joinPointer (p @ [dec n]))) i False = Inr (upd_path p (\<lambda>_. JArr (arr_remove n xs)) v)"
  using assms(2) parsePointer_joinPointer[of "p @ [dec n]"]
    navigate_prefix[OF assms(1) leaf_nav_dec] modify_path_loc[OF assms(1)] upd_path_const[OF assms(1), of "on_arr (arr_remove n)"]
  by (simp add: applyOne_def Let_def on_arr_def)

lemma strict_replace:
  assumes "get_path p v = Some w" and "p \<noteq> []" and "ok_key (last p)"
  shows "applyOne v (PReplace (joinPointer p) x) i False = Inr (upd_path p (\<lambda>_. x) v)"
proof -
  obtain q k where p: "p = q @ [k]" using assms(2) by (cases p rule: rev_cases) auto
  then obtain c where c: "get_path q v = Some c" and w: "get_path [k] c = Some w"
    using assms(1) by (cases "get_path q v") (auto simp: get_path_append)
  have parse: "parsePointer (joinPointer p) = Inr p" using assms(2,3) by (intro parsePointer_joinPointer) simp
  have upd: "upd_path p (\<lambda>_. x) v = upd_path q (upd_path [k] (\<lambda>_. x)) v"
    using upd_path_append[OF c] p by simp
  consider (arr) xs j where "c = JArr xs" "js_parseInt k = Some j" "0 \<le> j" "nat j < length xs"
    | (obj) m where "c = JObj m" "map_of m k = Some w"
    using w by (cases c) (auto split: option.splits if_splits)
  then show ?thesis
  proof cases
    case arr
    then have "k \<noteq> ''-''" by (auto simp: js_parseInt_def is_ws_def code_def)
    with arr have n: "leaf_nav k c = Inr (ArrNav [] (nat j) True)" by (simp add: leaf_nav_def)
    have "upd_path q (on_arr (arr_write (nat j) x)) v = upd_path q (upd_path [k] (\<lambda>_. x)) v"
      using upd_path_const[OF c, of "on_arr (arr_write (nat j) x)"]
        upd_path_const[OF c, of "upd_path [k] (\<lambda>_. x)"] arr
      by (simp add: on_arr_def arr_write_def)
    with parse p upd navigate_prefix[OF c n] modify_path_loc[OF c] assms(2) show ?thesis
      by (simp add: applyOne_def Let_def)
  next
    case obj
    then have n: "leaf_nav k c = Inr (ObjNav [] k True)" by (simp add: leaf_nav_def)
    have "upd_path q (on_obj (obj_set k x)) v = upd_path q (upd_path [k] (\<lambda>_. x)) v"
      using upd_path_const[OF c, of "on_obj (obj_set k x)"]
        upd_path_const[OF c, of "upd_path [k] (\<lambda>_. x)"] obj
      by (simp add: on_obj_def)
    with parse p upd navigate_prefix[OF c n] modify_path_loc[OF c] assms(2) show ?thesis
      by (simp add: applyOne_def Let_def)
  qed
qed

end
