(* ===== verification/PatchDiff.thy ===== *)
theory PatchDiff
  imports PatchLaws
begin

text \<open>
  \<open>diffJsonJournal\<close> (\<open>model/patches.ts\<close>), the journal that turns one JSON document into another,
  and the proof that replaying it strictly does so.
\<close>

subsection \<open>The diff\<close>

definition sameContainerKind :: "json \<Rightarrow> json \<Rightarrow> bool" where
  "sameContainerKind left right =
     (if is_arr left \<or> is_arr right then is_arr left \<and> is_arr right
      else if is_obj left then is_obj right
      else \<not> is_obj right)"

definition replace_entry :: "patch_source \<Rightarrow> string \<Rightarrow> json \<Rightarrow> journal_entry" where
  "replace_entry src path v = (plain_entry src OpReplace path)\<lparr>je_value := Some v\<rparr>"
definition add_entry :: "patch_source \<Rightarrow> string \<Rightarrow> json \<Rightarrow> journal_entry" where
  "add_entry src path v = (plain_entry src OpAdd path)\<lparr>je_value := Some v\<rparr>"
definition remove_entry :: "patch_source \<Rightarrow> string \<Rightarrow> journal_entry" where
  "remove_entry src path = plain_entry src OpRemove path"

definition child_path :: "string \<Rightarrow> string \<Rightarrow> string" where
  "child_path path key = path @ ''/'' @ escapePointerSegment key"
definition index_path :: "string \<Rightarrow> nat \<Rightarrow> string" where
  "index_path path i = path @ ''/'' @ dec i"

text \<open>The two trailing loops of the array branch and the first loop of the object branch.\<close>

definition removed_elems :: "json list \<Rightarrow> json list \<Rightarrow> string \<Rightarrow> patch_source \<Rightarrow> journal_entry list" where
  "removed_elems xs ys path src =
     map (\<lambda>i. remove_entry src (index_path path i)) (rev [length ys..<length xs])"

definition added_elems :: "json list \<Rightarrow> json list \<Rightarrow> string \<Rightarrow> patch_source \<Rightarrow> journal_entry list" where
  "added_elems xs ys path src =
     map (\<lambda>i. add_entry src (index_path path i) (ys ! i))
       (filter (\<lambda>i. ys ! i \<noteq> JUndef) [min (length xs) (length ys)..<length ys])"

definition removed_props :: "json_object \<Rightarrow> json_object \<Rightarrow> string \<Rightarrow> patch_source \<Rightarrow> journal_entry list" where
  "removed_props m n path src =
     map (\<lambda>k. remove_entry src (child_path path k)) (filter (\<lambda>k. map_of n k = None) (map fst m))"

fun diffJsonValues :: "json \<Rightarrow> json \<Rightarrow> string \<Rightarrow> patch_source \<Rightarrow> journal_entry list"
  and diff_elems :: "json list \<Rightarrow> json list \<Rightarrow> nat \<Rightarrow> string \<Rightarrow> patch_source \<Rightarrow> journal_entry list"
  and diff_props :: "json_object \<Rightarrow> json_object \<Rightarrow> string \<Rightarrow> patch_source \<Rightarrow> journal_entry list" where
  "diffJsonValues before (JArr ys) path src =
     (if same_json before (JArr ys) then []
      else case before of
          JArr xs \<Rightarrow> diff_elems xs ys 0 path src @ removed_elems xs ys path src @ added_elems xs ys path src
        | _ \<Rightarrow> if path \<noteq> [] then [replace_entry src path (JArr ys)] else [])"
| "diffJsonValues before (JObj n) path src =
     (if same_json before (JObj n) then []
      else case before of
          JObj m \<Rightarrow> if is_json_object (JObj m) \<and> is_json_object (JObj n)
            then removed_props m n path src @ diff_props m n path src
            else if path \<noteq> [] then [replace_entry src path (JObj n)] else []
        | _ \<Rightarrow> if path \<noteq> [] then [replace_entry src path (JObj n)] else [])"
| "diffJsonValues before after path src =
     (if same_json before after then []
      else if path \<noteq> [] then [replace_entry src path after] else [])"
| "diff_elems xs [] i path src = []"
| "diff_elems xs (y # ys) i path src = (case xs of
      [] \<Rightarrow> []
    | x # xs' \<Rightarrow> (if x = JUndef \<or> y = JUndef then [] else diffJsonValues x y (index_path path i) src)
        @ diff_elems xs' ys (Suc i) path src)"
| "diff_props m [] path src = []"
| "diff_props m (p # n) path src =
     (case map_of m (fst p) of
        None \<Rightarrow> [add_entry src (child_path path (fst p)) (snd p)]
      | Some v \<Rightarrow> diffJsonValues v (snd p) (child_path path (fst p)) src)
     @ diff_props m n path src"

definition diffJsonJournal :: "json \<Rightarrow> json \<Rightarrow> patch_source \<Rightarrow> journal_entry list option" where
  "diffJsonJournal before after src =
     (if sameContainerKind before after then Some (diffJsonValues before after [] src) else None)"

text \<open>The strict patch a diff entry stands for; diffs only hold the three RFC 6902 operations below.\<close>

definition entry_patch :: "journal_entry \<Rightarrow> patch" where
  "entry_patch e = (case (je_op e, je_value e) of
      (OpAdd, Some v) \<Rightarrow> PAdd (je_path e) v
    | (OpReplace, Some v) \<Rightarrow> PReplace (je_path e) v
    | _ \<Rightarrow> PRemove (je_path e))"

lemma entry_patch_simps [simp]:
  "entry_patch (replace_entry src p v) = PReplace p v"
  "entry_patch (add_entry src p v) = PAdd p v"
  "entry_patch (remove_entry src p) = PRemove p"
  by (simp_all add: entry_patch_def replace_entry_def add_entry_def remove_entry_def plain_entry_def)

lemma build_entry_patch [simp]:
  "buildJournalEntry (PReplace p v) src = replace_entry src p v"
  "buildJournalEntry (PAdd p v) src = add_entry src p v"
  "buildJournalEntry (PRemove p) src = remove_entry src p"
  by (simp_all add: replace_entry_def add_entry_def remove_entry_def)

declare buildJournalEntry.simps(1,5,6) [simp del]

subsection \<open>Runs of strict patches\<close>

fun runs :: "patch list \<Rightarrow> json \<Rightarrow> json \<Rightarrow> bool" where
  "runs [] st st' = (st = st')"
| "runs (p # ps) st st' = (\<exists>s. (\<forall>i. applyOne st p i False = Inr s) \<and> runs ps s st')"

lemma runs_append: "runs ps st s \<Longrightarrow> runs qs s st' \<Longrightarrow> runs (ps @ qs) st st'"
  by (induction ps arbitrary: st) auto

lemma runs_one: "(\<And>i. applyOne st p i False = Inr s) \<Longrightarrow> runs [p] st s"
  by simp

lemma runs_apply_loop:
  "runs ps st st' \<Longrightarrow> \<exists>t'. apply_loop False src i ps \<lparr>newState = st, journal = j, touchedPaths = t\<rparr> =
     Inr \<lparr>newState = st', journal = j @ map (\<lambda>p. buildJournalEntry p src) ps, touchedPaths = t'\<rparr>"
proof (induction ps arbitrary: st i j t)
  case Nil
  then show ?case by simp
next
  case (Cons p ps)
  then obtain s where s: "\<And>i. applyOne st p i False = Inr s" "runs ps s st'" by auto
  from Cons.IH[OF s(2), of "Suc i" "j @ [buildJournalEntry p src]" "touch p t"] s(1)
  show ?case by simp
qed

text \<open>Every key, at every depth, survives the trimming of pointers.\<close>

fun keys_ok :: "json \<Rightarrow> bool" where
  "keys_ok (JArr xs) = list_all keys_ok xs"
| "keys_ok (JObj m) = list_all (\<lambda>p. ok_key (fst p) \<and> keys_ok (snd p)) m"
| "keys_ok _ = True"

definition doc_ok :: "json \<Rightarrow> bool" where
  "doc_ok v \<longleftrightarrow> json_ok v \<and> keys_ok v"

lemma doc_ok_arr: "doc_ok (JArr xs) \<longleftrightarrow> (\<forall>x\<in>set xs. doc_ok x)"
  by (auto simp: doc_ok_def list_all_iff)

lemma doc_ok_obj:
  "doc_ok (JObj m) \<longleftrightarrow> keys_distinct m \<and> (\<forall>(k, v)\<in>set m. ok_key k \<and> doc_ok v)"
  by (auto simp: doc_ok_def list_all_iff)

text \<open>
  \<open>turns ps p v v'\<close>: wherever the value \<open>v\<close> sits at path \<open>p\<close> of a document, the strict patches \<open>ps\<close>
  put \<open>v'\<close> there and change nothing else.
\<close>

definition turns :: "patch list \<Rightarrow> string list \<Rightarrow> json \<Rightarrow> json \<Rightarrow> bool" where
  "turns ps p v v' \<longleftrightarrow> (\<forall>st. get_path p st = Some v \<longrightarrow> runs ps st (upd_path p (\<lambda>_. v') st))"

lemma upd_path_overwrite [simp]: "upd_path p (\<lambda>_. w') (upd_path p (\<lambda>_. w) v) = upd_path p (\<lambda>_. w') v"
  by (simp add: upd_upd_path comp_def)

lemma turns_Nil: "turns [] p v v"
  by (simp add: turns_def upd_path_same)

lemma turns_append: "turns ps p v w \<Longrightarrow> turns qs p w u \<Longrightarrow> turns (ps @ qs) p v u"
  unfolding turns_def
proof (intro allI impI)
  fix st
  assume *: "\<forall>st. get_path p st = Some v \<longrightarrow> runs ps st (upd_path p (\<lambda>_. w) st)"
    "\<forall>st. get_path p st = Some w \<longrightarrow> runs qs st (upd_path p (\<lambda>_. u) st)" "get_path p st = Some v"
  have "get_path p (upd_path p (\<lambda>_. w) st) = Some w" by (rule get_upd_path[OF *(3)])
  with *(2) have "runs qs (upd_path p (\<lambda>_. w) st) (upd_path p (\<lambda>_. u) st)" by fastforce
  with * show "runs (ps @ qs) st (upd_path p (\<lambda>_. u) st)" by (auto intro: runs_append)
qed

lemma turns_one:
  "(\<And>st i. get_path p st = Some v \<Longrightarrow> applyOne st pt i False = Inr (upd_path p (\<lambda>_. v') st)) \<Longrightarrow> turns [pt] p v v'"
  by (simp add: turns_def)

lemma turns_child:
  assumes "turns ps (p @ [k]) x r" and "get_path [k] c = Some x"
  shows "turns ps p c (upd_path [k] (\<lambda>_. r) c)"
  unfolding turns_def
proof (intro allI impI)
  fix st
  assume c: "get_path p st = Some c"
  then have "get_path (p @ [k]) st = Some x" using assms(2) by (simp add: get_path_append)
  with assms(1) have "runs ps st (upd_path (p @ [k]) (\<lambda>_. r) st)" by (simp add: turns_def)
  moreover have "upd_path (p @ [k]) (\<lambda>_. r) st = upd_path p (\<lambda>_. upd_path [k] (\<lambda>_. r) c) st"
    using upd_path_append[OF c] upd_path_const[OF c, of "upd_path [k] (\<lambda>_. r)"] by simp
  ultimately show "runs ps st (upd_path p (\<lambda>_. upd_path [k] (\<lambda>_. r) c) st)" by simp
qed

lemma turns_key:
  "turns ps (p @ [k]) x r \<Longrightarrow> map_of m k = Some x \<Longrightarrow> turns ps p (JObj m) (JObj (obj_set k r m))"
  using turns_child[of ps p k x r "JObj m"] by simp

lemma turns_elem:
  "turns ps (p @ [dec i]) (xs ! i) r \<Longrightarrow> i < length xs \<Longrightarrow> turns ps p (JArr xs) (JArr (xs[i := r]))"
  using turns_child[of ps p "dec i" "xs ! i" r "JArr xs"] by simp

lemma escape_dec: "escapePointerSegment (dec i) = dec i"
proof -
  have "tilde \<notin> set (dec i)" "slash \<notin> set (dec i)"
    using dec_digits[of tilde i] dec_digits[of slash i] by (auto simp: is_digit_def code_def)
  then have "\<forall>c\<in>set (dec i). esc c = [c]" by (auto simp: esc_def)
  then have "concat (map esc (dec i)) = concat (map (\<lambda>c. [c]) (dec i))" by (metis map_cong)
  then show ?thesis by (simp add: escapePointerSegment_esc)
qed

lemma child_path_join: "child_path (joinPointer p) k = joinPointer (p @ [k])"
  by (simp add: child_path_def joinPointer_snoc)

lemma index_path_join: "index_path (joinPointer p) i = joinPointer (p @ [dec i])"
  by (simp add: index_path_def joinPointer_snoc escape_dec)

lemmas path_join = child_path_join index_path_join

subsection \<open>The three loops\<close>

lemma turns_removed_elems:
  "turns (map entry_patch (removed_elems xs ys (joinPointer p) src)) p (JArr xs) (JArr (take (length ys) xs))"
proof (induction xs rule: rev_induct)
  case Nil
  then show ?case by (simp add: removed_elems_def turns_Nil)
next
  case (snoc x xs)
  show ?case
  proof (cases "length ys \<le> length xs")
    case True
    have "turns [PRemove (joinPointer (p @ [dec (length xs)]))] p (JArr (xs @ [x])) (JArr xs)"
      using strict_remove_index[of p _ "xs @ [x]" "length xs"]
      by (intro turns_one) (simp add: arr_remove_def)
    with turns_append[OF this snoc] True show ?thesis by (simp add: removed_elems_def path_join)
  next
    case False
    then show ?thesis by (simp add: removed_elems_def turns_Nil)
  qed
qed

lemma turns_added:
  assumes "length xs \<le> n" and "n \<le> length ys"
  shows "turns (map (\<lambda>i. PAdd (joinPointer (p @ [dec i])) (ys ! i)) [length xs..<n]) p (JArr xs)
    (JArr (xs @ drop (length xs) (take n ys)))"
  using assms
proof (induction n)
  case 0
  then show ?case by (simp add: turns_Nil)
next
  case (Suc n)
  show ?case
  proof (cases "length xs \<le> n")
    case True
    let ?zs = "xs @ drop (length xs) (take n ys)"
    have l: "length ?zs = n" using True Suc.prems by simp
    have "turns [PAdd (joinPointer (p @ [dec (length ?zs)])) (ys ! n)] p (JArr ?zs) (JArr (?zs @ [ys ! n]))"
      by (rule turns_one) (rule strict_add_end)
    then have one: "turns [PAdd (joinPointer (p @ [dec n])) (ys ! n)] p (JArr ?zs) (JArr (?zs @ [ys ! n]))"
      by (simp only: l)
    have tk: "take (Suc n) ys = take n ys @ [ys ! n]"
      using Suc.prems by (simp add: take_Suc_conv_app_nth)
    show ?thesis using turns_append[OF Suc.IH one] True Suc.prems tk by simp
  next
    case False
    then have "length xs = Suc n" using Suc.prems by simp
    then show ?thesis by (simp add: turns_Nil)
  qed
qed

lemma turns_added_elems:
  assumes "JUndef \<notin> set ys" and "length rs = min (length xs) (length ys)"
  shows "turns (map entry_patch (added_elems xs ys (joinPointer p) src)) p (JArr rs)
    (JArr (rs @ drop (length rs) ys))"
proof -
  have "filter (\<lambda>i. ys ! i \<noteq> JUndef) [length rs..<length ys] = [length rs..<length ys]"
    using assms(1) by (intro filter_True) (metis atLeastLessThan_iff atLeastLessThan_upt nth_mem)
  then have "map entry_patch (added_elems xs ys (joinPointer p) src) =
      map (\<lambda>i. PAdd (joinPointer (p @ [dec i])) (ys ! i)) [length rs..<length ys]"
    using assms(2) by (simp add: added_elems_def path_join comp_def)
  then show ?thesis using turns_added[of rs "length ys" ys p] assms(2) by simp
qed

lemma turns_removed_keys:
  assumes "distinct ks" and "\<forall>k\<in>set ks. map_of m k \<noteq> None \<and> ok_key k"
  shows "turns (map (\<lambda>k. PRemove (joinPointer (p @ [k]))) ks) p (JObj m) (JObj (fold obj_delete ks m))"
  using assms
proof (induction ks arbitrary: m)
  case Nil
  then show ?case by (simp add: turns_Nil)
next
  case (Cons k ks)
  have one: "turns [PRemove (joinPointer (p @ [k]))] p (JObj m) (JObj (obj_delete k m))"
    using Cons.prems strict_remove_key[of p _ m k] by (intro turns_one) simp
  have "turns (map (\<lambda>k. PRemove (joinPointer (p @ [k]))) ks) p (JObj (obj_delete k m))
      (JObj (fold obj_delete ks (obj_delete k m)))"
    using Cons.prems by (intro Cons.IH) auto
  from turns_append[OF one this] show ?case by simp
qed

lemma fold_obj_delete:
  "map_of (fold obj_delete ks m) k = (if k \<in> set ks then None else map_of m k)"
  by (induction ks arbitrary: m) auto

lemma obj_ok_fold_delete: "obj_ok m \<Longrightarrow> obj_ok (fold obj_delete ks m)"
proof (induction ks arbitrary: m)
  case (Cons k ks)
  have "obj_ok (obj_delete k m)" by (rule json_ok_obj_delete[OF Cons.prems])
  from Cons.IH[OF this] show ?case by simp
qed simp

lemma turns_removed_props:
  assumes "doc_ok (JObj m)"
  shows "turns (map entry_patch (removed_props m n (joinPointer p) src)) p (JObj m)
    (JObj (fold obj_delete (filter (\<lambda>k. map_of n k = None) (map fst m)) m))"
proof -
  let ?ks = "filter (\<lambda>k. map_of n k = None) (map fst m)"
  have eq: "map entry_patch (removed_props m n (joinPointer p) src) =
      map (\<lambda>k. PRemove (joinPointer (p @ [k]))) ?ks"
    by (simp add: removed_props_def path_join comp_def)
  have "distinct ?ks" using assms by (simp add: doc_ok_obj distinct_filter)
  moreover have "\<forall>k\<in>set ?ks. map_of m k \<noteq> None \<and> ok_key k"
    using assms by (fastforce simp: doc_ok_obj map_of_eq_None_iff)
  ultimately show ?thesis unfolding eq by (rule turns_removed_keys)
qed

subsection \<open>Replaying a diff\<close>

definition reaches :: "journal_entry list \<Rightarrow> string list \<Rightarrow> json \<Rightarrow> json \<Rightarrow> bool" where
  "reaches es p before after \<longleftrightarrow>
     (\<exists>r. turns (map entry_patch es) p before r \<and> same_json r after \<and> json_ok r)"

definition addressable :: "string list \<Rightarrow> json \<Rightarrow> json \<Rightarrow> bool" where
  "addressable p before after \<longleftrightarrow>
     (if p = [] then is_container before \<and> sameContainerKind before after else ok_key (last p))"

lemma reaches_refl: "json_ok before \<Longrightarrow> same_json before after \<Longrightarrow> reaches [] p before after"
  by (auto simp: reaches_def intro: turns_Nil)

lemma reaches_replace:
  assumes "p \<noteq> []" and "ok_key (last p)" and "json_ok after"
  shows "reaches [replace_entry src (joinPointer p) after] p before after"
proof -
  have "turns [PReplace (joinPointer p) after] p before after"
    using assms(1,2) by (intro turns_one) (rule strict_replace)
  then show ?thesis using assms(3) by (auto simp: reaches_def same_json_refl)
qed

definition elems_reach :: "json list \<Rightarrow> json list \<Rightarrow> nat \<Rightarrow> string list \<Rightarrow> journal_entry list \<Rightarrow> bool" where
  "elems_reach xs ys i p es \<longleftrightarrow> (\<forall>pre. length pre = i \<longrightarrow>
     (\<exists>rs. length rs = min (length xs) (length ys)
        \<and> turns (map entry_patch es) p (JArr (pre @ xs)) (JArr (pre @ rs @ drop (length rs) xs))
        \<and> list_all2 same_json rs (take (length rs) ys) \<and> list_all json_ok rs))"

lemma elems_reach_Nil: "xs = [] \<or> ys = [] \<Longrightarrow> elems_reach xs ys i p []"
  by (auto simp: elems_reach_def intro: turns_Nil)

lemma elems_reach_Cons:
  assumes "reaches es (p @ [dec i]) x y" and "elems_reach xs ys (Suc i) p fs"
  shows "elems_reach (x # xs) (y # ys) i p (es @ fs)"
  unfolding elems_reach_def
proof (intro allI impI)
  fix pre :: "json list"
  assume pre: "length pre = i"
  obtain r where r: "turns (map entry_patch es) (p @ [dec i]) x r" "same_json r y" "json_ok r"
    using assms(1) by (auto simp: reaches_def)
  obtain rs where rs: "length rs = min (length xs) (length ys)"
    "turns (map entry_patch fs) p (JArr ((pre @ [r]) @ xs)) (JArr ((pre @ [r]) @ rs @ drop (length rs) xs))"
    "list_all2 same_json rs (take (length rs) ys)" "list_all json_ok rs"
    using assms(2) pre unfolding elems_reach_def by (metis length_append_singleton)
  have one: "turns (map entry_patch es) p (JArr (pre @ x # xs)) (JArr ((pre @ x # xs)[i := r]))"
    using r(1) pre by (intro turns_elem) (auto simp: nth_append)
  have "(pre @ x # xs)[i := r] = (pre @ [r]) @ xs" using pre by (simp add: list_update_append)
  with one have "turns (map entry_patch es) p (JArr (pre @ x # xs)) (JArr ((pre @ [r]) @ xs))" by simp
  from turns_append[OF this rs(2)] rs(1,3,4) r(2,3)
  show "\<exists>rs. length rs = min (length (x # xs)) (length (y # ys))
        \<and> turns (map entry_patch (es @ fs)) p (JArr (pre @ x # xs)) (JArr (pre @ rs @ drop (length rs) (x # xs)))
        \<and> list_all2 same_json rs (take (length rs) (y # ys)) \<and> list_all json_ok rs"
    by (intro exI[of _ "r # rs"]) simp
qed

lemma doc_ok_elems: "doc_ok (JArr xs) \<Longrightarrow> json_ok (JArr xs) \<and> JUndef \<notin> set xs"
  by (simp add: doc_ok_def json_ok_no_undef del: json_ok.simps)

lemma reaches_arr:
  assumes "elems_reach xs ys 0 p es" and "doc_ok (JArr ys)"
  shows "reaches (es @ removed_elems xs ys (joinPointer p) src @ added_elems xs ys (joinPointer p) src)
    p (JArr xs) (JArr ys)"
proof -
  from assms(1) obtain rs where rs: "length rs = min (length xs) (length ys)"
    "turns (map entry_patch es) p (JArr xs) (JArr (rs @ drop (length rs) xs))"
    "list_all2 same_json rs (take (length rs) ys)" "list_all json_ok rs"
    unfolding elems_reach_def by (metis append_Nil list.size(3))
  let ?zs = "rs @ drop (length rs) xs"
  have rem: "turns (map entry_patch (removed_elems xs ys (joinPointer p) src)) p (JArr ?zs) (JArr rs)"
    using turns_removed_elems[of ?zs ys p src] rs(1) by (simp add: removed_elems_def min_def split: if_splits)
  have add: "turns (map entry_patch (added_elems xs ys (joinPointer p) src)) p (JArr rs)
      (JArr (rs @ drop (length rs) ys))"
    using doc_ok_elems[OF assms(2)] rs(1) by (intro turns_added_elems) auto
  have ok: "json_ok (JArr (rs @ drop (length rs) ys))"
    using rs(4) assms(2) by (auto simp: list_all_iff doc_ok_def dest: in_set_dropD)
  have "list_all2 same_json (rs @ drop (length rs) ys) (take (length rs) ys @ drop (length rs) ys)"
  proof (rule list_all2_appendI[OF rs(3)])
    show "list_all2 same_json (drop (length rs) ys) (drop (length rs) ys)"
      using assms(2) by (auto simp: list_all2_same doc_ok_def list_all_iff same_json_refl dest: in_set_dropD)
  qed
  then have "same_json (JArr (rs @ drop (length rs) ys)) (JArr ys)"
    using same_json_arr[OF ok, of ys] assms(2) by (simp add: doc_ok_def)
  with ok turns_append[OF rs(2) turns_append[OF rem add]] show ?thesis
    by (auto simp: reaches_def simp del: json_ok.simps)
qed

definition props_reach :: "json_object \<Rightarrow> json_object \<Rightarrow> string list \<Rightarrow> journal_entry list \<Rightarrow> bool" where
  "props_reach m n p es \<longleftrightarrow> (\<forall>s. obj_ok s \<longrightarrow> (\<forall>k \<in> fst ` set n. map_of s k = map_of m k) \<longrightarrow>
     (\<exists>s'. turns (map entry_patch es) p (JObj s) (JObj s') \<and> obj_ok s'
        \<and> (\<forall>k. case map_of n k of None \<Rightarrow> map_of s' k = map_of s k
             | Some w \<Rightarrow> \<exists>r. map_of s' k = Some r \<and> same_json r w)))"

lemma props_reach_Nil: "props_reach m [] p []"
  by (auto simp: props_reach_def intro: turns_Nil)

lemma props_reach_Cons:
  assumes step: "\<And>s. obj_ok s \<Longrightarrow> map_of s k = map_of m k \<Longrightarrow>
      \<exists>r. turns (map entry_patch es) p (JObj s) (JObj (obj_set k r s)) \<and> same_json r w \<and> json_ok r"
    and rest: "props_reach m n p fs" and k: "k \<notin> fst ` set n"
  shows "props_reach m ((k, w) # n) p (es @ fs)"
  unfolding props_reach_def
proof (intro allI impI)
  fix s
  assume s: "obj_ok s" and agree: "\<forall>k' \<in> fst ` set ((k, w) # n). map_of s k' = map_of m k'"
  then obtain r where r: "turns (map entry_patch es) p (JObj s) (JObj (obj_set k r s))" "same_json r w" "json_ok r"
    using step[of s] by auto
  have "obj_ok (obj_set k r s)" by (rule json_ok_obj_set[OF s r(3)])
  moreover have "\<forall>k' \<in> fst ` set n. map_of (obj_set k r s) k' = map_of m k'" using agree k by auto
  ultimately obtain s' where s': "turns (map entry_patch fs) p (JObj (obj_set k r s)) (JObj s')" "obj_ok s'"
    "\<forall>k'. case map_of n k' of None \<Rightarrow> map_of s' k' = map_of (obj_set k r s) k'
       | Some w \<Rightarrow> \<exists>r. map_of s' k' = Some r \<and> same_json r w"
    using rest unfolding props_reach_def by blast
  have kn: "map_of n k = None" using k by (simp add: map_of_eq_None_iff)
  have "case map_of ((k, w) # n) k' of None \<Rightarrow> map_of s' k' = map_of s k'
       | Some w \<Rightarrow> \<exists>r. map_of s' k' = Some r \<and> same_json r w" for k'
    using spec[OF s'(3), of k'] kn r(2) by (cases "k' = k") (auto split: option.splits)
  with turns_append[OF r(1) s'(1)] s'(2)
  show "\<exists>s'. turns (map entry_patch (es @ fs)) p (JObj s) (JObj s') \<and> obj_ok s'
        \<and> (\<forall>k'. case map_of ((k, w) # n) k' of None \<Rightarrow> map_of s' k' = map_of s k'
             | Some w \<Rightarrow> \<exists>r. map_of s' k' = Some r \<and> same_json r w)"
    by (intro exI[of _ s']) (simp del: json_ok.simps)
qed

lemma props_reach_add:
  assumes "props_reach m n p fs" and "k \<notin> fst ` set n" and "ok_key k" and "json_ok w"
  shows "props_reach m ((k, w) # n) p (add_entry src (joinPointer (p @ [k])) w # fs)"
proof -
  have one: "turns [PAdd (joinPointer (p @ [k])) w] p (JObj s) (JObj (obj_set k w s))" for s
    using assms(3) by (intro turns_one) (rule strict_add_key)
  have "props_reach m ((k, w) # n) p ([add_entry src (joinPointer (p @ [k])) w] @ fs)"
    using assms one same_json_refl[OF assms(4)] by (intro props_reach_Cons) auto
  then show ?thesis by simp
qed

lemma props_reach_diff:
  assumes "reaches es (p @ [k]) v w" and "map_of m k = Some v"
    and "props_reach m n p fs" and "k \<notin> fst ` set n"
  shows "props_reach m ((k, w) # n) p (es @ fs)"
proof (rule props_reach_Cons[OF _ assms(3,4)])
  fix s
  assume "map_of s k = map_of m k"
  then show "\<exists>r. turns (map entry_patch es) p (JObj s) (JObj (obj_set k r s)) \<and> same_json r w \<and> json_ok r"
    using assms(1) turns_key[of _ p k v _ s] assms(2) unfolding reaches_def by metis
qed

lemma reaches_obj:
  assumes "props_reach m n p es" and m: "doc_ok (JObj m)" and n: "doc_ok (JObj n)"
  shows "reaches (removed_props m n (joinPointer p) src @ es) p (JObj m) (JObj n)"
proof -
  define s where "s = fold obj_delete (filter (\<lambda>k. map_of n k = None) (map fst m)) m"
  have get: "map_of s k = (if map_of n k = None then None else map_of m k)" for k
    by (auto simp: s_def fold_obj_delete map_of_eq_None_iff)
  have ok: "obj_ok m" "obj_ok n" using m n by (simp_all only: doc_ok_def)
  have "obj_ok s" unfolding s_def by (rule obj_ok_fold_delete[OF ok(1)])
  moreover have "\<forall>k \<in> fst ` set n. map_of s k = map_of m k" by (simp add: get map_of_eq_None_iff)
  ultimately obtain s' where s': "turns (map entry_patch es) p (JObj s) (JObj s')" "obj_ok s'"
    "\<forall>k. case map_of n k of None \<Rightarrow> map_of s' k = map_of s k
       | Some w \<Rightarrow> \<exists>r. map_of s' k = Some r \<and> same_json r w"
    using assms(1) unfolding props_reach_def by blast
  have sub: "map_of n k = None \<Longrightarrow> map_of s' k = None" for k
    using spec[OF s'(3), of k] get[of k] by simp
  have sup: "map_of n k = Some w \<Longrightarrow> \<exists>r. map_of s' k = Some r \<and> same_json r w" for k w
    using spec[OF s'(3), of k] by simp
  have "set (map fst s') = set (map fst n)"
    using sub sup by (metis (no_types, lifting) dom_map_of_conv_image_fst list.set_map domIff option.exhaust option.discI subsetI subset_antisym)
  then have "length s' = length n"
    using ok(2) s'(2) distinct_card[of "map fst s'"] distinct_card[of "map fst n"] by simp
  then have "same_json (JObj s') (JObj n)"
    unfolding same_json_obj[OF s'(2) ok(2)] using sub sup by (metis option.exhaust option.inject)
  moreover have "turns (map entry_patch (removed_props m n (joinPointer p) src)) p (JObj m) (JObj s)"
    unfolding s_def by (rule turns_removed_props[OF m])
  ultimately show ?thesis
    using s'(1,2) unfolding reaches_def map_append by (blast intro: turns_append)
qed

lemma addressable_child: "ok_key k \<Longrightarrow> addressable (p @ [k]) v w"
  by (simp add: addressable_def)

lemma addressable_kind: "addressable p v w \<Longrightarrow> \<not> sameContainerKind v w \<Longrightarrow> p \<noteq> [] \<and> ok_key (last p)"
  by (auto simp: addressable_def split: if_splits)

lemma addressable_scalar: "addressable p v w \<Longrightarrow> \<not> is_container w \<Longrightarrow> p \<noteq> [] \<and> ok_key (last p)"
  by (auto simp: addressable_def sameContainerKind_def is_container_def split: if_splits)

lemma doc_ok_json_ok: "doc_ok v \<Longrightarrow> json_ok v"
  by (simp add: doc_ok_def)

lemma doc_ok_is_object: "doc_ok (JObj m) \<Longrightarrow> is_json_object (JObj m)"
  using json_ok_is_json[of "JObj m"] by (simp add: doc_ok_def is_json_object_def)

lemma reaches_scalar:
  assumes "\<not> is_container w" and "doc_ok w" and "doc_ok v" and "addressable p v w"
  shows "reaches (if same_json v w then [] else if joinPointer p \<noteq> [] then [replace_entry src (joinPointer p) w] else []) p v w"
  using assms addressable_scalar[OF assms(4,1)]
  by (auto intro: reaches_refl reaches_replace doc_ok_json_ok)

lemma diff_reaches:
  "path = joinPointer p \<Longrightarrow> addressable p before after \<Longrightarrow> doc_ok before \<Longrightarrow> doc_ok after \<Longrightarrow>
     reaches (diffJsonValues before after path src) p before after"
  "path = joinPointer p \<Longrightarrow> doc_ok (JArr xs) \<Longrightarrow> doc_ok (JArr ys) \<Longrightarrow>
     elems_reach xs ys i p (diff_elems xs ys i path src)"
  "path = joinPointer p \<Longrightarrow> doc_ok (JObj m) \<Longrightarrow> doc_ok (JObj n) \<Longrightarrow>
     props_reach m n p (diff_props m n path src)"
proof (induction before after path src and xs ys i path src and m n path src arbitrary: p and p and p
    rule: diffJsonValues_diff_elems_diff_props.induct)
  case (1 before ys path src)
  show ?case
  proof (cases "same_json before (JArr ys)")
    case True
    with 1 show ?thesis by (auto intro: reaches_refl doc_ok_json_ok)
  next
    case diff: False
    show ?thesis
    proof (cases "\<exists>xs. before = JArr xs")
      case True
      then obtain xs where xs: "before = JArr xs" ..
      have "elems_reach xs ys 0 p (diff_elems xs ys 0 path src)"
        using 1(1)[OF diff xs] 1(2,4,5) xs by blast
      from reaches_arr[OF this 1(5), of src] show ?thesis using diff xs 1(2) by (simp del: same_json.simps)
    next
      case False
      then have "\<not> sameContainerKind before (JArr ys)" by (cases before) (auto simp: sameContainerKind_def)
      with addressable_kind[OF 1(3)] have p: "p \<noteq> []" "ok_key (last p)" by blast+
      from reaches_replace[OF p doc_ok_json_ok[OF 1(5)]] False diff 1(2) p(1) show ?thesis
        by (cases before) (simp_all del: same_json.simps)
    qed
  qed
next
  case (2 before n path src)
  show ?case
  proof (cases "same_json before (JObj n)")
    case True
    with 2 show ?thesis by (auto intro: reaches_refl doc_ok_json_ok)
  next
    case diff: False
    show ?thesis
    proof (cases "\<exists>m. before = JObj m")
      case True
      then obtain m where m: "before = JObj m" ..
      have j: "is_json_object (JObj m) \<and> is_json_object (JObj n)"
        using 2(4,5) m by (simp add: doc_ok_is_object)
      have "props_reach m n p (diff_props m n path src)"
        using 2(1)[OF diff m j] 2(2,4,5) m by blast
      from reaches_obj[OF this _ 2(5), of src] show ?thesis using diff m 2(2,4) j by (simp del: same_json.simps)
    next
      case False
      then have "\<not> sameContainerKind before (JObj n)" by (cases before) (auto simp: sameContainerKind_def)
      with addressable_kind[OF 2(3)] have p: "p \<noteq> []" "ok_key (last p)" by blast+
      from reaches_replace[OF p doc_ok_json_ok[OF 2(5)]] False diff 2(2) p(1) show ?thesis
        by (cases before) (simp_all del: same_json.simps)
    qed
  qed
next
  case (5 xs y ys i path src)
  show ?case
  proof (cases xs)
    case Nil
    then show ?thesis by (simp add: elems_reach_Nil)
  next
    case (Cons x xs')
    have ok: "doc_ok x" "doc_ok y" "doc_ok (JArr xs')" "doc_ok (JArr ys)"
      using 5(4,5) Cons by (auto simp: doc_ok_arr)
    then have nu: "\<not> (x = JUndef \<or> y = JUndef)" by (auto simp: doc_ok_def)
    have "reaches (diffJsonValues x y (index_path path i) src) (p @ [dec i]) x y"
      using 5(1)[OF Cons nu] 5(3) ok by (simp add: path_join addressable_child)
    moreover have "elems_reach xs' ys (Suc i) p (diff_elems xs' ys (Suc i) path src)"
      using 5(2)[OF Cons] 5(3) ok by blast
    ultimately show ?thesis using elems_reach_Cons nu Cons by simp
  qed
next
  case (7 m q n path src)
  obtain k w where q: "q = (k, w)" by (cases q)
  have ok: "ok_key k" "doc_ok w" "doc_ok (JObj n)" "k \<notin> fst ` set n"
    using 7(5) q by (auto simp: doc_ok_obj)
  have rest: "props_reach m n p (diff_props m n path src)" using 7(2-4) ok by blast
  show ?case
  proof (cases "map_of m k")
    case None
    with props_reach_add[OF rest ok(4,1) doc_ok_json_ok[OF ok(2)]] 7(3) q show ?thesis
      by (simp add: path_join)
  next
    case (Some v)
    then have "doc_ok v" using 7(4) by (auto simp: doc_ok_obj dest: map_of_SomeD)
    then have "reaches (diffJsonValues v w (child_path path k) src) (p @ [k]) v w"
      using 7(1)[of v "p @ [k]"] Some 7(3) q ok by (simp add: path_join addressable_child)
    from props_reach_diff[OF this Some rest ok(4)] Some q show ?thesis by simp
  qed
qed (auto simp: elems_reach_Nil props_reach_Nil intro: reaches_scalar split del: if_split)

lemma replay_journal:
  "map (\<lambda>e. buildJournalEntry (entry_patch e) src) (diffJsonValues before after path src) =
     diffJsonValues before after path src"
  "map (\<lambda>e. buildJournalEntry (entry_patch e) src) (diff_elems xs ys i path src) = diff_elems xs ys i path src"
  "map (\<lambda>e. buildJournalEntry (entry_patch e) src) (diff_props m n path src) = diff_props m n path src"
proof (induction before after path src and xs ys i path src and m n path src
    rule: diffJsonValues_diff_elems_diff_props.induct)
  case (1 before ys path src)
  then show ?case
    by (cases before) (simp_all del: same_json.simps add: removed_elems_def added_elems_def)
next
  case (2 before n path src)
  then show ?case
    by (cases before) (simp_all del: same_json.simps add: removed_props_def)
qed (auto split: list.splits option.splits)

lemma diffJsonValues_replays:
  assumes "is_container before" and "sameContainerKind before after" and "doc_ok before" and "doc_ok after"
  shows "\<exists>r. applyPatches before (map entry_patch (diffJsonValues before after [] src)) src False = Inr r
    \<and> same_json (newState r) after \<and> journal r = diffJsonValues before after [] src"
proof -
  let ?es = "diffJsonValues before after [] src"
  have "reaches ?es [] before after"
    using assms by (intro diff_reaches(1)) (simp_all add: addressable_def)
  then obtain r where r: "turns (map entry_patch ?es) [] before r" "same_json r after"
    by (auto simp: reaches_def)
  then have "runs (map entry_patch ?es) before r" by (simp add: turns_def)
  from runs_apply_loop[OF this, of src 0 "[]" "[]"] r(2) show ?thesis
    by (auto simp: applyPatches_def replay_journal comp_def)
qed

end
