(* ===== verification/PatchProps.thy ===== *)
theory PatchProps
  imports PatchDiff
begin

text \<open>
  The properties of the patch engine: replaying a diff, pointers, reading back what was written,
  the frame of an operation, when strict operations succeed, and what a failure reports.
\<close>

subsection \<open>Writing through a navigation result\<close>

lemma writeAt_push [simp]:
  "writeAt (push_step (SKey k) n) x (JObj m) =
     (case map_of m k of Some w \<Rightarrow> JObj (obj_set k (writeAt n x w) m) | None \<Rightarrow> JObj m)"
  "writeAt (push_step (SIdx i) n) x (JArr xs) =
     (if i < length xs then JArr (xs[i := writeAt n x (xs ! i)]) else JArr xs)"
  by (cases n; auto split: option.splits)+

lemma nav_exists_push [simp]: "nav_exists (push_step s n) = nav_exists n"
  by (cases n) auto

lemma arr_write_simps [simp]:
  "length (arr_write n x xs) = max (length xs) (Suc n)"
  "arr_write n x xs ! n = x"
  "i < length xs \<Longrightarrow> i \<noteq> n \<Longrightarrow> arr_write n x xs ! i = xs ! i"
  "(arr_write n x xs)[n := y] = arr_write n y xs"
  by (auto simp: arr_write_def nth_append list_update_append)

lemma arr_write_in: "n < length xs \<Longrightarrow> arr_write n x xs = xs[n := x]"
  by (simp add: arr_write_def)

text \<open>A navigated write, as one recursive function of the document.\<close>

fun put_at :: "string list \<Rightarrow> json \<Rightarrow> json \<Rightarrow> json" where
  "put_at [] x v = v"
| "put_at [s] x v = (case v of
      JArr xs \<Rightarrow> JArr (arr_write (if s = ''-'' then length xs
        else (case js_parseInt s of Some i \<Rightarrow> nat i | None \<Rightarrow> 0)) x xs)
    | JObj m \<Rightarrow> JObj (obj_set s x m)
    | _ \<Rightarrow> v)"
| "put_at (s # t # p) x v = (case v of
      JArr xs \<Rightarrow> (case js_parseInt s of
          Some i \<Rightarrow> JArr (arr_write (nat i)
            (put_at (t # p) x (if nat i < length xs then xs ! nat i else fresh_container t)) xs)
        | None \<Rightarrow> v)
    | JObj m \<Rightarrow> JObj (obj_set s (put_at (t # p) x
        (case map_of m s of Some w \<Rightarrow> w | None \<Rightarrow> fresh_container t)) m)
    | _ \<Rightarrow> v)"

lemma obj_insert_update: "map_of m k = None \<Longrightarrow> AList.update k y (obj_insert k x m) = obj_insert k y m"
  by (induction m) (auto split: if_splits)

lemma obj_set_overwrite [simp]: "obj_set k y (obj_set k x m) = obj_set k y m"
  by (auto simp: obj_set_def AList.update_conv' map_of_obj_insert obj_insert_update)

lemma walk_write:
  "walk av d segs v = Inr (c, n) \<Longrightarrow> writeAt n x c = put_at segs x v"
proof (induction av d segs v arbitrary: c n rule: walk.induct)
  case (2 av d leaf cur)
  then show ?case
    by (cases cur) (auto simp: rbind_def leaf_nav_def on_arr_def on_obj_def split: if_splits option.splits)
next
  case (3 av d seg nxt rest cur)
  show ?case
  proof (cases cur)
    case (JArr xs)
    with 3 show ?thesis
      by (auto simp: arr_write_in split: option.splits if_splits)
  next
    case (JObj m)
    with 3 show ?thesis by (auto split: option.splits if_splits)
  qed (use 3 in auto)
qed simp

text \<open>Unfold navigation only at a known container.\<close>

lemma get_path_at [simp]:
  "get_path (s # p) (JArr xs) = (case js_parseInt s of
      Some i \<Rightarrow> if 0 \<le> i \<and> nat i < length xs then get_path p (xs ! nat i) else None
    | None \<Rightarrow> None)"
  "get_path (s # p) (JObj m) = (case map_of m s of Some w \<Rightarrow> get_path p w | None \<Rightarrow> None)"
  "\<not> is_container v \<Longrightarrow> get_path (s # p) v = None"
  by (auto simp: is_container_def split: json.splits)

lemma put_at_at [simp]:
  "put_at (s # t # p) x (JArr xs) = (case js_parseInt s of
      Some i \<Rightarrow> JArr (arr_write (nat i)
        (put_at (t # p) x (if nat i < length xs then xs ! nat i else fresh_container t)) xs)
    | None \<Rightarrow> JArr xs)"
  "put_at (s # t # p) x (JObj m) = JObj (obj_set s (put_at (t # p) x
     (case map_of m s of Some w \<Rightarrow> w | None \<Rightarrow> fresh_container t)) m)"
  by simp_all

declare get_path.simps(2) [simp del] put_at.simps(2,3) [simp del]

lemma put_at_leaf [simp]:
  "put_at [s] x (JArr xs) = JArr (arr_write (if s = ''-'' then length xs
     else (case js_parseInt s of Some i \<Rightarrow> nat i | None \<Rightarrow> 0)) x xs)"
  "put_at [s] x (JObj m) = JObj (obj_set s x m)"
  by (simp_all add: put_at.simps(2))

lemma walk_get_put:
  "walk av d segs v = Inr (c, n) \<Longrightarrow> last segs \<noteq> ''-'' \<or> get_path segs v \<noteq> None \<Longrightarrow>
     get_path segs (put_at segs x v) = Some x"
proof (induction av d segs v arbitrary: c n rule: walk.induct)
  case (2 av d leaf cur)
  have "js_parseInt ''-'' = None" by (simp add: js_parseInt_def is_ws_def code_def)
  with 2 show ?case
    by (cases cur) (auto simp: rbind_def leaf_nav_def split: if_splits option.splits)
next
  case (3 av d seg nxt rest cur)
  show ?case
  proof (cases cur)
    case (JArr xs)
    with 3 show ?thesis by (auto split: option.splits if_splits)
  next
    case (JObj m)
    with 3 show ?thesis by (auto split: option.splits if_splits)
  qed (use 3 in auto)
qed simp

text \<open>Two segment lists that part ways: at the first difference they cannot name the same child.\<close>

fun diverge :: "string list \<Rightarrow> string list \<Rightarrow> bool" where
  "diverge (s # p) (t # q) =
     (if s = t then diverge p q else js_parseInt s = None \<or> js_parseInt s \<noteq> js_parseInt t)"
| "diverge _ _ = False"

lemma walk_frame:
  "walk av d segs v = Inr (c, n) \<Longrightarrow> diverge segs q \<Longrightarrow> get_path q v = Some w \<Longrightarrow>
     get_path q (put_at segs x v) = Some w"
proof (induction av d segs v arbitrary: c n q rule: walk.induct)
  case (2 av d leaf cur)
  then obtain t q' where q: "q = t # q'" by (cases q) auto
  with 2 show ?case
    by (cases cur) (auto simp: rbind_def leaf_nav_def split: if_splits option.splits)
next
  case (3 av d seg nxt rest cur)
  then obtain t q' where q: "q = t # q'" by (cases q) auto
  show ?case
  proof (cases cur)
    case (JArr xs)
    with 3 q show ?thesis
      by (cases "seg = t"; auto split: option.splits if_splits)
  next
    case (JObj m)
    with 3 q show ?thesis by (auto split: option.splits if_splits)
  qed (use 3 q in auto)
qed simp

lemma walk_strict:
  "walk False d segs v = Inr (c, n) \<Longrightarrow> c = v \<and> (nav_exists n \<longleftrightarrow> get_path segs v \<noteq> None)"
proof (induction "False" d segs v arbitrary: c n rule: walk.induct)
  case (2 d leaf cur)
  then show ?case
    by (cases cur) (auto simp: rbind_def leaf_nav_def js_parseInt_def is_ws_def code_def split: if_splits option.splits)
next
  case (3 d seg nxt rest cur)
  show ?case
  proof (cases cur)
    case (JArr xs)
    with 3 show ?thesis
      by (fastforce simp: list_update_same_conv split: option.splits if_splits)
  next
    case (JObj m)
    with 3 show ?thesis by (fastforce simp: obj_set_same split: option.splits if_splits)
  qed (use 3 in auto)
qed simp

lemma walk_strict_total:
  assumes "get_path segs v = Some w" and "segs \<noteq> []"
  shows "\<exists>n. walk False d segs v = Inr (v, n)"
proof -
  obtain p s where p: "segs = p @ [s]" using assms(2) by (cases segs rule: rev_cases) auto
  then obtain u where u: "get_path p v = Some u" "get_path [s] u = Some w"
    using assms(1) by (cases "get_path p v") (auto simp: get_path_append)
  have "\<exists>n. leaf_nav s u = Inr n"
    using u(2) by (cases u) (auto simp: leaf_nav_def split: option.splits if_splits)
  then show ?thesis using walk_prefix[OF u(1), of d s] p by auto
qed

lemma navigate_InrD:
  "navigate v segs op i av = Inr (c, n) \<Longrightarrow> segs \<noteq> [] \<and> walk av 0 segs v = Inr (c, n)"
  by (auto simp: navigate_def split: if_splits sum.splits)

lemma navigate_write:
  "navigate v segs op i av = Inr (c, n) \<Longrightarrow> writeAt n x c = put_at segs x v"
  by (auto dest!: navigate_InrD intro: walk_write)

lemma navigate_get_put:
  "navigate v segs op i av = Inr (c, n) \<Longrightarrow> last segs \<noteq> ''-'' \<or> get_path segs v \<noteq> None \<Longrightarrow>
     get_path segs (put_at segs x v) = Some x"
  by (auto dest!: navigate_InrD intro: walk_get_put)

lemma navigate_frame:
  "navigate v segs op i av = Inr (c, n) \<Longrightarrow> diverge segs q \<Longrightarrow> get_path q v = Some w \<Longrightarrow>
     get_path q (put_at segs x v) = Some w"
  by (auto dest!: navigate_InrD intro: walk_frame)

lemma navigate_strict:
  "navigate v segs op i False = Inr (c, n) \<Longrightarrow> c = v \<and> (nav_exists n \<longleftrightarrow> get_path segs v \<noteq> None)"
  by (auto dest!: navigate_InrD dest: walk_strict)

lemma navigate_strict_total:
  "get_path segs v = Some w \<Longrightarrow> segs \<noteq> [] \<Longrightarrow> \<exists>n. navigate v segs op i False = Inr (v, n)"
  using walk_strict_total[of segs v w 0] by (auto simp: navigate_def)

text \<open>Where the pointer names an existing value, both modes navigate alike and read that value.\<close>

lemma readAt_push [simp]:
  "readAt (push_step (SKey k) n) (JObj m) = (case map_of m k of Some w \<Rightarrow> readAt n w | None \<Rightarrow> JUndef)"
  "readAt (push_step (SIdx i) n) (JArr xs) = (if i < length xs then readAt n (xs ! i) else JUndef)"
  by (cases n; auto split: option.splits)+

lemma walk_existing:
  "get_path segs v = Some w \<Longrightarrow> segs \<noteq> [] \<Longrightarrow>
     \<exists>n. walk av d segs v = Inr (v, n) \<and> nav_exists n \<and> readAt n v = w"
proof (induction av d segs v rule: walk.induct)
  case (2 av d leaf cur)
  have "leaf = ''-'' \<Longrightarrow> js_parseInt leaf = None" by (simp add: js_parseInt_def is_ws_def code_def)
  with 2 show ?case
    by (cases cur) (auto simp: leaf_nav_def arr_at_def obj_get_def split: option.splits if_splits)
next
  case (3 av d seg nxt rest cur)
  show ?case
  proof (cases cur)
    case (JArr xs)
    with 3 show ?thesis by (fastforce split: option.splits if_splits)
  next
    case (JObj m)
    with 3 show ?thesis by (fastforce simp: obj_set_same split: option.splits if_splits)
  qed (use 3 in auto)
qed simp

lemma navigate_existing:
  "get_path segs v = Some w \<Longrightarrow> segs \<noteq> [] \<Longrightarrow>
     \<exists>n. navigate v segs op i av = Inr (v, n) \<and> nav_exists n \<and> readAt n v = w"
  using walk_existing[of segs v w av 0] by (auto simp: navigate_def)

subsection \<open>The driver\<close>

fun patch_paths :: "patch \<Rightarrow> string list" where
  "patch_paths (PMove from path) = [path, from]"
| "patch_paths (PCopy from path) = [path, from]"
| "patch_paths p = [patch_path p]"

lemma set_touch: "set (touch p t) = set t \<union> set (patch_paths p)"
  by (cases p) (auto simp: touch_def set_add_def Let_def)

lemma apply_loop_journal:
  "apply_loop av src i ps r = Inr r' \<Longrightarrow>
     journal r' = journal r @ map (\<lambda>p. buildJournalEntry p src) ps
     \<and> set (touchedPaths r') = set (touchedPaths r) \<union> (\<Union>p\<in>set ps. set (patch_paths p))"
proof (induction ps arbitrary: i r)
  case (Cons p ps)
  then show ?case by (auto simp: set_touch)
qed simp

lemma apply_loop_error:
  "apply_loop av src i ps r = Inl e \<Longrightarrow> \<exists>pre p post r'. ps = pre @ p # post
     \<and> apply_loop av src i pre r = Inr r' \<and> applyOne (newState r') p (i + length pre) av = Inl e"
proof (induction ps arbitrary: i r)
  case (Cons p ps)
  show ?case
  proof (cases "applyOne (newState r) p i av")
    case (Inl a)
    with Cons.prems show ?thesis by (intro exI[of _ "[]"] exI[of _ p] exI[of _ ps] exI[of _ r]) auto
  next
    case (Inr st)
    let ?r = "\<lparr>newState = st, journal = journal r @ [buildJournalEntry p src], touchedPaths = touch p (touchedPaths r)\<rparr>"
    from Inr Cons.prems have "apply_loop av src (Suc i) ps ?r = Inl e" by simp
    from Cons.IH[OF this] obtain pre q post r' where "ps = pre @ q # post"
      "apply_loop av src (Suc i) pre ?r = Inr r'" "applyOne (newState r') q (Suc i + length pre) av = Inl e"
      by blast
    with Inr show ?thesis by (intro exI[of _ "p # pre"] exI[of _ q] exI[of _ post] exI[of _ r']) auto
  qed
qed simp

lemma navigate_error:
  "navigate st segs op i av = Inl (PatchApplyError r j path op') \<Longrightarrow> j = i \<and> op' = op"
  by (auto simp: navigate_def split: if_splits sum.splits)

lemma parsePointer_error: "parsePointer p \<noteq> Inl (PatchApplyError r j path op')"
  by (auto simp: parsePointer_def split: sum.splits)

lemma rbind_Inl_cases:
  "rbind x f = Inl e \<Longrightarrow> (x = Inl e \<Longrightarrow> P) \<Longrightarrow> (\<And>v. x = Inr v \<Longrightarrow> f v = Inl e \<Longrightarrow> P) \<Longrightarrow> P"
  by (cases x) auto

lemma applyOne_error:
  "applyOne st p i av = Inl (PatchApplyError r j path op) \<Longrightarrow> j = i \<and> op = patch_op_of p"
  unfolding applyOne_def Let_def
  by (cases p)
    (auto elim!: rbind_Inl_cases dest: navigate_error simp: parsePointer_error split: if_splits json.splits prod.splits)

subsection \<open>Properties\<close>

text \<open>C33: replaying a diff.  For two documents whose keys survive pointer trimming and whose roots are
  containers of the same kind, \<open>diffJsonJournal\<close> produces a journal; applied strictly to the first
  document, that journal succeeds, yields a document that \<open>sameJson\<close> cannot tell from the second, and
  records itself as the journal of the application.\<close>

theorem diff_journal_replays:
  assumes "doc_ok before" and "doc_ok after" and "is_container before" and "sameContainerKind before after"
  shows "\<exists>es r. diffJsonJournal before after src = Some es
    \<and> applyPatches before (map entry_patch es) src False = Inr r
    \<and> same_json (newState r) after \<and> journal r = es"
  using diffJsonValues_replays[OF assms(3,4,1,2), of src] assms(4) by (auto simp: diffJsonJournal_def)

theorem diff_journal_replays_witness:
  "\<exists>es r. diffJsonJournal (JObj [(''a'', JArr [JStr ''x'', JBool True]), (''b'', JNull)])
      (JObj [(''c'', JNull), (''a'', JArr [JStr ''y''])]) SrcOverlay = Some es
    \<and> applyPatches (JObj [(''a'', JArr [JStr ''x'', JBool True]), (''b'', JNull)]) (map entry_patch es) SrcOverlay False = Inr r
    \<and> same_json (newState r) (JObj [(''c'', JNull), (''a'', JArr [JStr ''y''])]) \<and> journal r = es"
  by (rule diff_journal_replays)
    (simp_all add: doc_ok_def ok_key_def is_ws_def code_def sameContainerKind_def)

text \<open>A change between two scalar roots is lost.  \<open>diffJsonJournal\<close> is documented to return
  \<open>undefined\<close> for a root change it cannot represent; for scalar roots it returns the empty journal.\<close>

theorem diff_journal_scalar_roots:
  assumes "\<not> is_container before" and "\<not> is_container after"
  shows "diffJsonJournal before after src = Some []"
  using assms by (cases before; cases after) (simp_all add: diffJsonJournal_def sameContainerKind_def)

theorem diff_journal_scalar_roots_witness:
  "JStr ''a'' \<noteq> JStr ''b'' \<and> diffJsonJournal (JStr ''a'') (JStr ''b'') SrcMask = Some []"
  using diff_journal_scalar_roots[of "JStr ''a''" "JStr ''b''" SrcMask] by simp

text \<open>A pointer built from segments parses back to them, whatever slashes, tildes and digits they
  hold, provided the last segment does not end in white space.\<close>

theorem pointer_roundtrip:
  assumes "p = [] \<or> ok_key (last p)"
  shows "parsePointer (joinPointer p) = Inr p"
  by (rule parsePointer_joinPointer[OF assms])

theorem pointer_roundtrip_witness:
  "parsePointer (joinPointer [''a/b'', ''~1'', [], ''0'']) = Inr [''a/b'', ''~1'', [], ''0'']"
  by (rule pointer_roundtrip) (simp add: ok_key_def is_ws_def code_def)

text \<open>\<open>replace\<close> is a write at its pointer and nowhere else.  When it succeeds, in either mode,
  reading the pointer gives the value, and every existing value on a diverging path is untouched.\<close>

theorem replace_lens:
  assumes "applyOne st (PReplace path v) i av = Inr st'" and "parsePointer path = Inr segs"
    and "last segs \<noteq> ''-''"
  shows "get_path segs st' = Some v
    \<and> (\<forall>q w. diverge segs q \<longrightarrow> get_path q st = Some w \<longrightarrow> get_path q st' = Some w)"
proof -
  from assms(1,2) obtain c n where n: "navigate st segs OpReplace i av = Inr (c, n)" and "st' = writeAt n v c"
    by (auto simp: applyOne_def Let_def split: if_splits)
  then have "st' = put_at segs v st" by (simp add: navigate_write)
  with navigate_get_put[OF n disjI1[OF assms(3)], of v] navigate_frame[OF n] show ?thesis by blast
qed

theorem replace_lens_witness:
  "get_path [''a'', ''0'', ''c''] (JObj [(''b'', JNull), (''a'', JArr [JObj [(''c'', JStr ''v'')]])]) = Some (JStr ''v'')
   \<and> get_path [''b''] (JObj [(''b'', JNull), (''a'', JArr [JObj [(''c'', JStr ''v'')]])]) = Some JNull"
proof -
  have "applyOne (JObj [(''b'', JNull)]) (PReplace ''/a/0/c'' (JStr ''v'')) 0 True =
    Inr (JObj [(''b'', JNull), (''a'', JArr [JObj [(''c'', JStr ''v'')]])])" by code_simp
  moreover have "parsePointer ''/a/0/c'' = Inr [''a'', ''0'', ''c'']" by code_simp
  moreover have "diverge [''a'', ''0'', ''c''] [''b'']" by code_simp
  ultimately show ?thesis using replace_lens by fastforce
qed

text \<open>Strict \<open>replace\<close> and \<open>remove\<close> succeed exactly when their pointer addresses an existing value.\<close>

theorem strict_target_exists:
  assumes "parsePointer path = Inr segs" and "segs \<noteq> []"
  shows "((\<exists>st'. applyOne st (PReplace path v) i False = Inr st') \<longleftrightarrow> get_path segs st \<noteq> None)
    \<and> ((\<exists>st'. applyOne st (PRemove path) i False = Inr st') \<longleftrightarrow> get_path segs st \<noteq> None)"
proof (cases "get_path segs st")
  case None
  have "\<not> nav_exists n" if "navigate st segs op i False = Inr (c, n)" for op c n
    using navigate_strict[OF that] None by simp
  then show ?thesis using assms None
    by (auto simp: applyOne_def Let_def)
next
  case (Some w)
  have "\<exists>c n. navigate st segs op i False = Inr (c, n) \<and> nav_exists n" for op
    using navigate_strict_total[OF Some assms(2)] navigate_strict Some by fastforce
  then obtain c n c' n' where "navigate st segs OpReplace i False = Inr (c, n)" "nav_exists n"
    "navigate st segs OpRemove i False = Inr (c', n')" "nav_exists n'" by metis
  then show ?thesis using assms Some by (simp add: applyOne_def Let_def)
qed

theorem strict_target_exists_witness:
  "((\<exists>st'. applyOne (JArr [JNull]) (PReplace ''/1'' JNull) 0 False = Inr st')
      \<longleftrightarrow> get_path [''1''] (JArr [JNull]) \<noteq> None)
   \<and> ((\<exists>st'. applyOne (JArr [JNull]) (PRemove ''/1'') 0 False = Inr st')
      \<longleftrightarrow> get_path [''1''] (JArr [JNull]) \<noteq> None)"
proof (rule strict_target_exists)
  show "parsePointer ''/1'' = Inr [''1'']" by code_simp
qed simp

text \<open>Counters.  In either mode, \<open>increment\<close> at a pointer to an integer succeeds and leaves exactly
  the sum there, as long as the sum stays within the 53 bits a double holds.\<close>

theorem increment_counter:
  assumes "parsePointer path = Inr segs" and "segs \<noteq> []"
    and "get_path segs st = Some (JNum (of_int a))" and "\<bar>a + b\<bar> \<le> 2 ^ 53"
  shows "\<exists>st'. applyOne st (PIncrement path (of_int b)) i av = Inr st'
    \<and> get_path segs st' = Some (JNum (of_int (a + b)))"
proof -
  obtain n where n: "navigate st segs OpIncrement i av = Inr (st, n)" "nav_exists n"
    "readAt n st = JNum (of_int a)"
    using navigate_existing[OF assms(3,2)] by blast
  from navigate_get_put[OF n(1)] assms(3) have "get_path segs (put_at segs x st) = Some x" for x by simp
  with navigate_write[OF n(1)] n assms(1,4) show ?thesis
    by (simp add: applyOne_def Let_def js_add_exact)
qed

theorem increment_counter_witness:
  "\<exists>st'. applyOne (JObj [(''n'', JNum (of_int 41))]) (PIncrement ''/n'' (of_int 1)) 0 False = Inr st'
    \<and> get_path [''n''] st' = Some (JNum (of_int (41 + 1)))"
proof (rule increment_counter)
  show "parsePointer ''/n'' = Inr [''n'']" by code_simp
qed simp_all

text \<open>A failure reports its own place.  When a patch list fails, some patch of it is the first to fail,
  every earlier one was applied, and the index and the operation in the error are that patch's.\<close>

theorem apply_error_names_first_failure:
  assumes "applyPatches st ps src av = Inl e"
  shows "\<exists>pre p post r. ps = pre @ p # post \<and> applyPatches st pre src av = Inr r
    \<and> applyOne (newState r) p (length pre) av = Inl e
    \<and> (case e of PatchApplyError reason i path op \<Rightarrow> i = length pre \<and> op = patch_op_of p | _ \<Rightarrow> True)"
proof -
  from apply_loop_error[OF assms[unfolded applyPatches_def]] obtain pre p post r where
    "ps = pre @ p # post" "applyPatches st pre src av = Inr r" "applyOne (newState r) p (length pre) av = Inl e"
    by (auto simp: applyPatches_def)
  moreover have "case e of PatchApplyError reason i path op \<Rightarrow> i = length pre \<and> op = patch_op_of p | _ \<Rightarrow> True"
    using calculation(3) by (cases e) (auto dest: applyOne_error)
  ultimately show ?thesis by blast
qed

theorem apply_error_names_first_failure_witness:
  "\<exists>pre p post r. [PAdd ''/a'' JNull, PRemove ''/b''] = pre @ p # post
    \<and> applyPatches (JObj []) pre SrcSeed False = Inr r
    \<and> applyOne (newState r) p (length pre) False = Inl (PatchApplyError TargetMissing 1 ''/b'' OpRemove)
    \<and> (case PatchApplyError TargetMissing 1 ''/b'' OpRemove of
         PatchApplyError reason i path op \<Rightarrow> i = length pre \<and> op = patch_op_of p | _ \<Rightarrow> True)"
  by (rule apply_error_names_first_failure) code_simp

text \<open>the journal is the patch list and the touched paths are its pointers.\<close>

theorem apply_journal:
  assumes "applyPatches st ps src av = Inr r"
  shows "journal r = map (\<lambda>p. buildJournalEntry p src) ps
    \<and> set (touchedPaths r) = (\<Union>p\<in>set ps. set (patch_paths p))"
  using apply_loop_journal[OF assms[unfolded applyPatches_def]] by simp

theorem apply_journal_witness:
  "journal \<lparr>newState = JObj [(''b'', JNull)], journal = [(plain_entry SrcSeed OpMove ''/b'')\<lparr>je_from := Some ''/a''\<rparr>],
      touchedPaths = [''/b'', ''/a'']\<rparr> = map (\<lambda>p. buildJournalEntry p SrcSeed) [PMove ''/a'' ''/b'']
   \<and> set (touchedPaths \<lparr>newState = JObj [(''b'', JNull)], journal = [(plain_entry SrcSeed OpMove ''/b'')\<lparr>je_from := Some ''/a''\<rparr>],
      touchedPaths = [''/b'', ''/a'']\<rparr>) = (\<Union>p\<in>set [PMove ''/a'' ''/b'']. set (patch_paths p))"
  by (rule apply_journal[of "JObj [(''a'', JNull)]" _ _ False]) code_simp

text \<open>\<open>upsert\<close> is idempotent when the matching key holds a scalar or is absent.\<close>

theorem upsert_idempotent:
  assumes "\<not> is_container (obj_get v k)"
  shows "upsert_into k v (upsert_into k v xs) = upsert_into k v xs"
proof -
  have refl: "strict_eq (obj_get v k) (obj_get v k)" using assms by (cases "obj_get v k") auto
  let ?p = "\<lambda>item. case item of JObj m \<Rightarrow> strict_eq (obj_get m k) (obj_get v k) | _ \<Rightarrow> False"
  have hit: "find_index ?p (xs[i := JObj v]) = Some i" if "find_index ?p xs = Some i" for i
    using that refl by (induction xs arbitrary: i) (auto split: if_splits)
  have miss: "find_index ?p (xs @ [JObj v]) = Some (length xs)" if "find_index ?p xs = None"
    using that refl by (induction xs) (auto split: if_splits)
  show ?thesis
    using hit miss by (cases "find_index ?p xs") (simp_all add: upsert_into_def)
qed

theorem upsert_idempotent_witness:
  "upsert_into ''id'' [(''id'', JStr ''1''), (''v'', JNull)]
     (upsert_into ''id'' [(''id'', JStr ''1''), (''v'', JNull)] [JObj [(''id'', JStr ''1'')]]) =
   upsert_into ''id'' [(''id'', JStr ''1''), (''v'', JNull)] [JObj [(''id'', JStr ''1'')]]"
  by (rule upsert_idempotent) (simp add: obj_get_def)

end
