(* ===== verification/Effects.thy ===== *)
theory Effects
  imports Prelude
begin

text \<open>
  Code that updates state and may throw: a function from the state to a result and the state
  afterwards.  What was written before a throw stays written, as in the sources.  \<open>ensures\<close> is the
  usual triple, with one postcondition for a normal return and one for a throw.
\<close>

type_synonym ('s, 'e, 'a) eff = "'s \<Rightarrow> ('e + 'a) \<times> 's"

definition ret :: "'a \<Rightarrow> ('s, 'e, 'a) eff" where
  "ret a = (\<lambda>s. (Inr a, s))"
definition throw :: "'e \<Rightarrow> ('s, 'e, 'a) eff" where
  "throw e = (\<lambda>s. (Inl e, s))"
definition lift :: "'e + 'a \<Rightarrow> ('s, 'e, 'a) eff" where
  "lift r = (\<lambda>s. (r, s))"
definition get :: "('s \<Rightarrow> 'a) \<Rightarrow> ('s, 'e, 'a) eff" where
  "get f = (\<lambda>s. (Inr (f s), s))"
definition upd :: "('s \<Rightarrow> 's) \<Rightarrow> ('s, 'e, unit) eff" where
  "upd f = (\<lambda>s. (Inr (), f s))"
definition bind :: "('s, 'e, 'a) eff \<Rightarrow> ('a \<Rightarrow> ('s, 'e, 'b) eff) \<Rightarrow> ('s, 'e, 'b) eff" where
  "bind m f = (\<lambda>s. case m s of (Inl e, s') \<Rightarrow> (Inl e, s') | (Inr a, s') \<Rightarrow> f a s')"

text \<open>\<open>if (c) throw e\<close> and a \<open>for ... of\<close> loop.\<close>

definition throw_if :: "bool \<Rightarrow> 'e \<Rightarrow> ('s, 'e, unit) eff" where
  "throw_if c e = (if c then throw e else ret ())"

fun each :: "'x list \<Rightarrow> ('x \<Rightarrow> ('s, 'e, unit) eff) \<Rightarrow> ('s, 'e, unit) eff" where
  "each [] f = ret ()"
| "each (x # xs) f = bind (f x) (\<lambda>_. each xs f)"

lemma bind_cong [fundef_cong]:
  "m s = m' s \<Longrightarrow> (\<And>a s'. m' s = (Inr a, s') \<Longrightarrow> f a s' = g a s') \<Longrightarrow> s = s0 \<Longrightarrow> bind m f s = bind m' g s0"
  by (auto simp: bind_def split: prod.splits sum.splits)

lemma each_cong [fundef_cong]:
  "xs = ys \<Longrightarrow> (\<And>x. x \<in> set ys \<Longrightarrow> f x = g x) \<Longrightarrow> each xs f = each ys g"
proof (induction ys arbitrary: xs)
  case (Cons y ys)
  then have "f y = g y" and "each ys f = each ys g" by simp_all
  with Cons.prems show ?case by simp
qed simp

lemma run_simps [simp]:
  "ret a s = (Inr a, s)" "throw e s = (Inl e, s)" "lift r s = (r, s)" "get f s = (Inr (f s), s)"
  "upd g s = (Inr (), g s)"
  "throw_if c e s = (if c then (Inl e, s) else (Inr (), s))"
  by (simp_all add: ret_def throw_def lift_def get_def upd_def throw_if_def)

lemma bind_run: "bind m f s = (case m s of (Inl e, s') \<Rightarrow> (Inl e, s') | (Inr a, s') \<Rightarrow> f a s')"
  by (simp add: bind_def)

lemma bind_Inr: "bind m f s = (Inr b, s'') \<longleftrightarrow> (\<exists>a s'. m s = (Inr a, s') \<and> f a s' = (Inr b, s''))"
  by (auto simp: bind_def split: prod.splits sum.splits)

lemma bind_InrE:
  assumes "bind m f s = (Inr b, s'')"
  obtains a s' where "m s = (Inr a, s')" and "f a s' = (Inr b, s'')"
  using assms by (auto simp: bind_Inr)

lemma bind_Inl: "bind m f s = (Inl e, s'') \<longleftrightarrow>
    m s = (Inl e, s'') \<or> (\<exists>a s'. m s = (Inr a, s') \<and> f a s' = (Inl e, s''))"
  by (auto simp: bind_def split: prod.splits sum.splits)

lemma bind_simps [simp]:
  "bind (ret a) f = f a"
  "bind (throw e) f = throw e"
  "bind (get g) f s = f (g s) s"
  "bind (lift (Inl e)) f = throw e"
  "bind (lift (Inr a)) f = f a"
  by (auto simp: fun_eq_iff bind_def)

lemma bind_upd [simp]: "bind (upd h) f s = f () (h s)"
  by (simp add: bind_def)

lemma bind_throw_if: "bind (throw_if c e) f s = (if c then (Inl e, s) else f () s)"
  by (simp add: bind_def)

definition ensures :: "('s \<Rightarrow> bool) \<Rightarrow> ('s, 'e, 'a) eff \<Rightarrow> ('a \<Rightarrow> 's \<Rightarrow> bool) \<Rightarrow> ('e \<Rightarrow> 's \<Rightarrow> bool) \<Rightarrow> bool" where
  "ensures P m Q E \<longleftrightarrow> (\<forall>s. P s \<longrightarrow> (case m s of (Inr a, s') \<Rightarrow> Q a s' | (Inl e, s') \<Rightarrow> E e s'))"

named_theorems ens

lemma ensuresI: "(\<And>s. P s \<Longrightarrow> case m s of (Inr a, s') \<Rightarrow> Q a s' | (Inl e, s') \<Rightarrow> E e s') \<Longrightarrow> ensures P m Q E"
  by (simp add: ensures_def)

lemma ensuresD: "ensures P m Q E \<Longrightarrow> P s \<Longrightarrow> m s = (Inr a, s') \<Longrightarrow> Q a s'"
  by (force simp: ensures_def)

lemma ensuresD_throw: "ensures P m Q E \<Longrightarrow> P s \<Longrightarrow> m s = (Inl e, s') \<Longrightarrow> E e s'"
  by (force simp: ensures_def)

lemma ensures_ret [ens]: "(\<And>s. P s \<Longrightarrow> Q a s) \<Longrightarrow> ensures P (ret a) Q E"
  by (simp add: ensures_def)

lemma ensures_throw [ens]: "(\<And>s. P s \<Longrightarrow> E e s) \<Longrightarrow> ensures P (throw e) Q E"
  by (simp add: ensures_def)

lemma ensures_lift [ens]:
  "(\<And>s a. P s \<Longrightarrow> r = Inr a \<Longrightarrow> Q a s) \<Longrightarrow> (\<And>s e. P s \<Longrightarrow> r = Inl e \<Longrightarrow> E e s) \<Longrightarrow> ensures P (lift r) Q E"
  by (auto simp: ensures_def split: sum.splits)

lemma ensures_get [ens]: "(\<And>s. P s \<Longrightarrow> Q (f s) s) \<Longrightarrow> ensures P (get f) Q E"
  by (simp add: ensures_def)

lemma ensures_upd [ens]: "(\<And>s. P s \<Longrightarrow> Q () (f s)) \<Longrightarrow> ensures P (upd f) Q E"
  by (simp add: ensures_def)

lemma ensures_throw_if [ens]:
  "(\<And>s. P s \<Longrightarrow> \<not> c \<Longrightarrow> Q () s) \<Longrightarrow> (\<And>s. P s \<Longrightarrow> c \<Longrightarrow> E e s) \<Longrightarrow> ensures P (throw_if c e) Q E"
  by (simp add: ensures_def)

lemma ensures_bind [ens]:
  assumes "ensures P m R E" and "\<And>a. ensures (R a) (f a) Q E"
  shows "ensures P (bind m f) Q E"
proof (rule ensuresI)
  fix s assume "P s"
  with assms(1) have m: "case m s of (Inr a, s') \<Rightarrow> R a s' | (Inl e, s') \<Rightarrow> E e s'"
    by (simp add: ensures_def)
  show "case bind m f s of (Inr a, s') \<Rightarrow> Q a s' | (Inl e, s') \<Rightarrow> E e s'"
  proof (cases "m s")
    case (Pair r s')
    then show ?thesis using m assms(2) by (cases r) (auto simp: bind_def ensures_def)
  qed
qed

lemma ensures_each [ens]:
  assumes "\<And>x. x \<in> set xs \<Longrightarrow> ensures I (f x) (\<lambda>_. I) E"
  shows "ensures I (each xs f) (\<lambda>_. I) E"
  using assms
proof (induction xs)
  case Nil
  show ?case unfolding each.simps by (rule ensures_ret)
next
  case (Cons x xs)
  show ?case unfolding each.simps
    by (rule ensures_bind[where R = "\<lambda>_. I"]) (use Cons in simp_all)
qed

lemma ensures_weaken:
  "ensures P' m Q' E' \<Longrightarrow> (\<And>s. P s \<Longrightarrow> P' s) \<Longrightarrow> (\<And>a s. Q' a s \<Longrightarrow> Q a s) \<Longrightarrow> (\<And>e s. E' e s \<Longrightarrow> E e s) \<Longrightarrow>
     ensures P m Q E"
  by (rule ensuresI) (force simp: ensures_def split: prod.splits sum.splits)

text \<open>
  \<open>moves R m\<close>: however \<open>m\<close> ends, the state it leaves is reached by steps of \<open>R\<close>.  A property every
  step keeps then holds after \<open>m\<close>, thrown or not.
\<close>

definition moves :: "('s \<Rightarrow> 's \<Rightarrow> bool) \<Rightarrow> ('s, 'e, 'a) eff \<Rightarrow> bool" where
  "moves R m \<longleftrightarrow> (\<forall>s. R\<^sup>*\<^sup>* s (snd (m s)))"

named_theorems mv

lemma movesD: "moves R m \<Longrightarrow> m s = (r, s') \<Longrightarrow> R\<^sup>*\<^sup>* s s'"
  by (metis moves_def snd_conv)

lemma moves_pure [mv]:
  "moves R (ret a)" "moves R (throw e)" "moves R (lift r)" "moves R (get f)" "moves R (throw_if c e)"
  by (simp_all add: moves_def)

lemma moves_upd [mv]: "(\<And>s. R\<^sup>*\<^sup>* s (f s)) \<Longrightarrow> moves R (upd f)"
  by (simp add: moves_def)

lemma moves_bind [mv]: "moves R m \<Longrightarrow> (\<And>a. moves R (f a)) \<Longrightarrow> moves R (bind m f)"
  unfolding moves_def bind_def
  by (auto split: prod.splits sum.splits) (metis rtranclp_trans snd_conv)+

lemma moves_lift: "(\<And>a. r = Inr a \<Longrightarrow> moves R (f a)) \<Longrightarrow> moves R (bind (lift r) f)"
  by (cases r) (auto intro: mv)

lemma moves_each [mv]: "(\<And>x. x \<in> set xs \<Longrightarrow> moves R (f x)) \<Longrightarrow> moves R (each xs f)"
  by (induction xs) (auto intro: mv)

lemma moves_keeps:
  assumes "moves R m" and "m s = (r, s')" and "I s" and "\<And>s s'. I s \<Longrightarrow> R s s' \<Longrightarrow> I s'"
  shows "I s'"
  using movesD[OF assms(1,2)] assms(3) by (induction rule: rtranclp_induct) (auto intro: assms(4))

text \<open>Two loops agree when their bodies do on the states the first one goes through.\<close>

lemma each_eq:
  assumes "\<And>x s. x \<in> set xs \<Longrightarrow> I s \<Longrightarrow> f x s = g x s \<and> I (snd (f x s))" and "I s"
  shows "each xs f s = each xs g s"
  using assms
proof (induction xs arbitrary: s)
  case (Cons x xs)
  have eq: "f x s = g x s" using Cons.prems by simp
  moreover have "I (snd (g x s))" using Cons.prems(1)[of x s] Cons.prems(2) eq by simp
  moreover have "each xs f s' = each xs g s'" if "I s'" for s'
    using Cons.IH[OF Cons.prems(1) that] by simp
  ultimately show ?case
    by (cases "g x s") (auto simp: bind_def split: sum.splits)
qed simp

end
