(* ===== verification/Domain.thy ===== *)
theory Domain
  imports Patches Effects
begin

text \<open>
  The domain vocabulary (\<open>contracts/domain.ts\<close>, \<open>contracts/identity.ts\<close>, \<open>contracts/controlHeaders.ts\<close>,
  \<open>types.ts\<close>, \<open>core/errors.ts\<close>): commands, events, requests, controls, the contexts handed to
  callbacks, and the errors execution throws.  The bounds the core puts on request controls
  (\<open>model/runtime.ts\<close>) are here too.

  An optional flag the sources only compare with \<open>true\<close> is a \<open>bool\<close>; any other optional field is an
  \<open>option\<close>.  Numbers of a control are finite.
\<close>

subsection \<open>Commands and events\<close>

datatype intent = Creation | Mutation | Query

datatype origin = Inbound | Secondary

record actor =
  ac_id :: string
  ac_scopes :: "string list"

text \<open>A query parameter: one value or several.\<close>

datatype qval = QOne string | QMany "string list"

type_synonym headers = "(string \<times> string) list"
type_synonym query = "(string \<times> qval) list"

record command =
  cm_id :: string
  cm_boundary :: string
  cm_intent :: intent
  cm_target :: "string option"
  cm_payload :: json_object
  cm_query :: query
  cm_method :: string
  cm_path :: string
  cm_operation :: "string option"
  cm_version :: "nat option"
  cm_origin :: origin
  cm_depth :: nat
  cm_actor :: "actor option"

record event_request =
  er_method :: string
  er_path :: string
  er_query :: "query option"
  er_headers :: headers
  er_payload :: json_object
  er_actorId :: "string option"
  er_actorScopes :: "string list option"
  er_originalActorId :: "string option"
  er_originalActorScopes :: "string list option"

record response =
  rs_status :: nat
  rs_body :: json
  rs_headers :: headers

record domain_event =
  ev_id :: string
  ev_boundary :: string
  ev_aggregate :: string
  ev_type :: string
  ev_payload :: json_object
  ev_timestamp :: string
  ev_version :: nat
  ev_causedBy :: "string option"
  ev_intent :: "intent option"
  ev_request :: "event_request option"
  ev_response :: "response option"

record execution_result =
  xr_status :: nat
  xr_body :: json
  xr_headers :: headers
  xr_events :: "domain_event list"
  xr_committed :: bool
  xr_unmaskedBody :: "json option"
  xr_connectionClosed :: bool

subsection \<open>Request controls\<close>

datatype error_class = Timeout | Throttle | Outage | BadGateway | Conflict | AuthError | Forbidden

datatype response_format = Hal | JsonApi | Plain
datatype pagination_style = Envelope | Raw | LinkHeader

record controls =
  rc_dryRun :: bool
  rc_includeEvents :: bool
  rc_echo :: bool
  rc_seed :: "string option"
  rc_clockOffsetMs :: "rat option"
  rc_skipSagas :: bool
  rc_skipWebhooks :: bool
  rc_skipReactions :: bool
  rc_skipProjections :: bool
  rc_skipDispatch :: bool
  rc_maxCascadeDepth :: "nat option"
  rc_causedBy :: "string option"
  rc_readAtVersion :: "rat option"
  rc_replayEvent :: "string option"
  rc_responseFormat :: "response_format option"
  rc_paginationStyle :: "pagination_style option"
  rc_maskFields :: "string list option"
  rc_skipRequestValidation :: bool
  rc_skipResponseValidation :: bool
  rc_allowAdditionalProperties :: "bool option"
  rc_traceId :: "string option"
  rc_spanName :: "string option"
  rc_useFault :: "string option"
  rc_featureFlag :: "string option"
  rc_rateLimit :: bool
  rc_signal :: "string option"
  rc_forceResponse :: "string option"
  rc_scenario :: "string option"
  rc_forceStatus :: "rat option"
  rc_errorClass :: "error_class option"
  rc_forceLatencyMs :: "rat option"
  rc_jitterMs :: "(rat \<times> rat) option"
  rc_dropConnectionMs :: "rat option"
  rc_successRate :: "rat option"
  rc_retryAfterSeconds :: "rat option"
  rc_bodyTruncateBytes :: "rat option"

definition no_controls :: controls where
  "no_controls = \<lparr>rc_dryRun = False, rc_includeEvents = False, rc_echo = False, rc_seed = None,
     rc_clockOffsetMs = None, rc_skipSagas = False, rc_skipWebhooks = False, rc_skipReactions = False,
     rc_skipProjections = False, rc_skipDispatch = False, rc_maxCascadeDepth = None, rc_causedBy = None,
     rc_readAtVersion = None, rc_replayEvent = None, rc_responseFormat = None, rc_paginationStyle = None,
     rc_maskFields = None, rc_skipRequestValidation = False, rc_skipResponseValidation = False,
     rc_allowAdditionalProperties = None, rc_traceId = None, rc_spanName = None, rc_useFault = None,
     rc_featureFlag = None, rc_rateLimit = False, rc_signal = None, rc_forceResponse = None,
     rc_scenario = None, rc_forceStatus = None, rc_errorClass = None, rc_forceLatencyMs = None,
     rc_jitterMs = None, rc_dropConnectionMs = None, rc_successRate = None, rc_retryAfterSeconds = None,
     rc_bodyTruncateBytes = None\<rparr>"

definition MAX_RUNTIME_DELAY_MS :: rat where
  "MAX_RUNTIME_DELAY_MS = 30000"

definition boundedRuntimeDelay :: "rat option \<Rightarrow> rat option" where
  "boundedRuntimeDelay v = (case v of
      Some d \<Rightarrow> if 0 \<le> d \<and> d \<le> MAX_RUNTIME_DELAY_MS then Some d else None
    | None \<Rightarrow> None)"

definition normalizeRuntimeControls :: "controls option \<Rightarrow> controls option" where
  "normalizeRuntimeControls v = (case v of
      None \<Rightarrow> None
    | Some c \<Rightarrow> Some (c\<lparr>rc_forceLatencyMs := boundedRuntimeDelay (rc_forceLatencyMs c),
        rc_jitterMs := (case rc_jitterMs c of
            Some (lo, hi) \<Rightarrow> if 0 \<le> lo \<and> lo \<le> hi \<and> hi \<le> MAX_RUNTIME_DELAY_MS then Some (lo, hi) else None
          | None \<Rightarrow> None),
        rc_dropConnectionMs := boundedRuntimeDelay (rc_dropConnectionMs c)\<rparr>))"

lemma normalizeRuntimeControls_idem:
  "normalizeRuntimeControls (normalizeRuntimeControls v) = normalizeRuntimeControls v"
proof -
  have "boundedRuntimeDelay (boundedRuntimeDelay d) = boundedRuntimeDelay d" for d
    by (simp add: boundedRuntimeDelay_def split: option.splits)
  then show ?thesis by (auto simp: normalizeRuntimeControls_def split: option.splits)
qed

subsection \<open>Requests\<close>

record request =
  rq_command :: command
  rq_headers :: headers
  rq_actor :: "actor option"
  rq_original :: "actor option"
  rq_effective :: "actor option"
  rq_skipSagas :: bool
  rq_skipWebhooks :: bool
  rq_skipReactions :: bool
  rq_skipProjections :: bool
  rq_skipDispatch :: bool
  rq_controls :: "controls option"

definition ctl :: "request \<Rightarrow> controls" where
  "ctl rq = (case rq_controls rq of Some c \<Rightarrow> c | None \<Rightarrow> no_controls)"

subsection \<open>Errors\<close>

text \<open>
  What the engine reads of an error it did not make: its text, and the fields it looks at.  \<open>Hang\<close> is not
  an error: it stands for a promise that never settles, and no handler sees it.
\<close>

record foreign =
  fg_string :: string
  fg_message :: "string option"
  fg_status :: "nat option"
  fg_code :: "string option"
  fg_details :: "json_object option"
  fg_body :: "json option"
  fg_headers :: "headers option"

datatype exn =
    RuntimeExecutionError (ex_status: nat) (ex_message: string) (ex_body: json) (ex_headers: headers)
  | ReferenceError ref_error
  | PatchFailure patch_error
  | PlainError string
  | CallbackError foreign
  | Hang

text \<open>Every error the code throws, seen as a foreign one; the text is that of \<open>String(error)\<close>.\<close>

definition named_error :: "string \<Rightarrow> string \<Rightarrow> string option \<Rightarrow> foreign" where
  "named_error name msg err_code = \<lparr>fg_string = name @ '': '' @ msg, fg_message = Some msg, fg_status = None,
     fg_code = err_code, fg_details = None, fg_body = None, fg_headers = None\<rparr>"

definition foreign_of :: "exn \<Rightarrow> foreign" where
  "foreign_of e = (case e of
      RuntimeExecutionError st msg body hs \<Rightarrow>
        (named_error ''RuntimeExecutionError'' msg None)\<lparr>fg_status := Some st, fg_body := Some body, fg_headers := Some hs\<rparr>
    | ReferenceError r \<Rightarrow> named_error ''ReferenceValidationError'' (reference_message r) (Some ''DOMAIN_REFERENCE_INVALID'')
    | PatchFailure p \<Rightarrow> (case p of
          PatchApplyError _ _ _ _ \<Rightarrow> named_error ''PatchApplyError'' (patch_message p) None
        | JsonPointerError _ \<Rightarrow> named_error ''JsonPointerError'' (patch_message p) (Some ''MODEL_INVALID_JSON_POINTER'')
        | PatchReferenceError _ \<Rightarrow> named_error ''ReferenceValidationError'' (patch_message p) (Some ''DOMAIN_REFERENCE_INVALID''))
    | PlainError msg \<Rightarrow> named_error ''Error'' msg None
    | CallbackError f \<Rightarrow> f
    | Hang \<Rightarrow> named_error [] [] None)"

text \<open>The constructor's default body is \<open>{ message }\<close>.\<close>

definition runtime_error :: "nat \<Rightarrow> string \<Rightarrow> exn" where
  "runtime_error status msg = RuntimeExecutionError status msg (JObj [(''message'', JStr msg)]) []"

definition coded_error :: "nat \<Rightarrow> string \<Rightarrow> string \<Rightarrow> string \<Rightarrow> exn" where
  "coded_error status msg err_code body_msg =
     RuntimeExecutionError status msg (JObj [(''code'', JStr err_code), (''message'', JStr body_msg)]) []"

text \<open>A name between single quotes, as messages print it.\<close>

abbreviation tick :: "string \<Rightarrow> string" where
  "tick s \<equiv> ticked s"

text \<open>A validated reference or a patch application, as a step of execution.\<close>

definition parsed :: "ref_error + 'a \<Rightarrow> exn + 'a" where
  "parsed r = (case r of Inl e \<Rightarrow> Inl (ReferenceError e) | Inr a \<Rightarrow> Inr a)"

definition patched :: "patch_error + 'a \<Rightarrow> exn + 'a" where
  "patched r = (case r of Inl e \<Rightarrow> Inl (PatchFailure e) | Inr a \<Rightarrow> Inr a)"

lemma parsed_simps [simp]:
  "parsed (Inr a) = Inr a" "parsed (Inl e) = Inl (ReferenceError e)"
  "(parsed r = Inr a) = (r = Inr a)"
  by (auto simp: parsed_def split: sum.splits)

lemma patched_simps [simp]:
  "patched (Inr a) = Inr a" "patched (Inl e) = Inl (PatchFailure e)"
  "(patched r = Inr a) = (r = Inr a)"
  by (auto simp: patched_def split: sum.splits)

subsection \<open>Callback contexts\<close>

text \<open>
  The helpers a callback receives: the current time and the seed of the request.  Callbacks are
  functions of their context; they do not draw identifiers or random numbers themselves.
\<close>

record helpers =
  hp_now :: string
  hp_seed :: "string option"

text \<open>One record for the family of contexts: a field a phase does not define is \<open>None\<close>.\<close>

record ctx =
  cx_command :: command
  cx_request :: request
  cx_state :: "json_object option"
  cx_payload :: json_object
  cx_helpers :: helpers
  cx_event :: "domain_event option"
  cx_boundary :: "string option"
  cx_committed :: "domain_event list"
  cx_response :: "response option"
  cx_headers :: headers
  cx_param :: "qval option"
  cx_projection :: "string option"
  cx_steps :: "(string \<times> nat \<times> json) list"
  cx_prevStep :: "(nat \<times> json) option"

record reducer_ctx =
  rx_boundary :: string
  rx_state :: json_object
  rx_event :: domain_event
  rx_payload :: json_object
  rx_helpers :: helpers

type_synonym 'a callback = "ctx \<Rightarrow> exn + 'a"
type_synonym 'a reducer_callback = "reducer_ctx \<Rightarrow> exn + 'a"

text \<open>\<open>xs.some(p)\<close>, \<open>xs.every(p)\<close>, \<open>xs.filter(p)\<close> and \<open>xs.map(f)\<close> for callbacks that may throw.\<close>

fun r_some :: "('a \<Rightarrow> 'e + bool) \<Rightarrow> 'a list \<Rightarrow> 'e + bool" where
  "r_some p [] = Inr False"
| "r_some p (x # xs) = rbind (p x) (\<lambda>b. if b then Inr True else r_some p xs)"

fun r_filter :: "('a \<Rightarrow> 'e + bool) \<Rightarrow> 'a list \<Rightarrow> 'e + 'a list" where
  "r_filter p [] = Inr []"
| "r_filter p (x # xs) = rbind (p x) (\<lambda>b. rbind (r_filter p xs) (\<lambda>ys. Inr (if b then x # ys else ys)))"

fun r_map :: "('a \<Rightarrow> 'e + 'b) \<Rightarrow> 'a list \<Rightarrow> 'e + 'b list" where
  "r_map f [] = Inr []"
| "r_map f (x # xs) = rbind (f x) (\<lambda>y. rbind (r_map f xs) (\<lambda>ys. Inr (y # ys)))"

lemma r_map_cong [fundef_cong]:
  "xs = ys \<Longrightarrow> (\<And>x. x \<in> set ys \<Longrightarrow> f x = g x) \<Longrightarrow> r_map f xs = r_map g ys"
  by (induction xs arbitrary: ys) auto

lemma r_map_Inr: "r_map f xs = Inr ys \<longleftrightarrow> list_all2 (\<lambda>x y. f x = Inr y) xs ys"
  by (induction xs arbitrary: ys) (auto simp: rbind_Inr_iff list_all2_Cons1)

text \<open>\<open>Object.fromEntries(Object.entries(m).map(([k, v]) => [k, resolveValue(v, c)]))\<close>.\<close>

definition resolve_entries :: "(string \<times> ('c \<Rightarrow> exn + json)) list \<Rightarrow> 'c \<Rightarrow> exn + json_object" where
  "resolve_entries es c = rbind (r_map (\<lambda>(k, v). rbind (v c) (\<lambda>x. Inr (k, x))) es) (\<lambda>kvs. Inr (obj_from_entries kvs))"

text \<open>\<open>asObject\<close>: an object keeps its properties, anything else is the empty object.\<close>

definition asObject :: "json \<Rightarrow> json_object" where
  "asObject v = (case v of JObj m \<Rightarrow> m | _ \<Rightarrow> [])"

lemma asObject_JObj [simp]: "asObject (JObj m) = m"
  by (simp add: asObject_def)

end
