(* ===== verification/Storage.thy ===== *)
theory Storage
  imports Domain
begin

text \<open>
  The persistence ports (\<open>contracts/ports.ts\<close>) as locales, the in-memory stores
  (\<open>core/storage.ts\<close>, \<open>core/faults.ts\<close>) that implement them, and the event-sourcing arithmetic on
  top of them (\<open>domain/eventSourcing.ts\<close>).  Cloning at the boundary is the identity on values.
\<close>

subsection \<open>The event store\<close>

definition ev_selected :: "string option \<Rightarrow> string option \<Rightarrow> domain_event \<Rightarrow> bool" where
  "ev_selected b a e \<longleftrightarrow> (b = None \<or> b = Some (ev_boundary e)) \<and> (a = None \<or> a = Some (ev_aggregate e))"

definition mem_append :: "domain_event list \<Rightarrow> domain_event list \<Rightarrow> domain_event list" where
  "mem_append es vals = vals @ es"

definition mem_events :: "string option \<Rightarrow> string option \<Rightarrow> domain_event list \<Rightarrow> domain_event list" where
  "mem_events b a vals = filter (ev_selected b a) vals"

definition mem_currentSequenceVersion :: "string \<Rightarrow> domain_event list \<Rightarrow> nat" where
  "mem_currentSequenceVersion a vals =
     foldl (\<lambda>version e. if ev_aggregate e = a then max version (ev_version e) else version) 0 vals"

definition mem_events_clear :: "domain_event list \<Rightarrow> domain_event list" where
  "mem_events_clear vals = []"

lemma Max_collapse:
  fixes A :: "nat set"
  assumes "finite A" and "A \<noteq> {}" and "finite B"
  shows "Max (A \<union> B) = Max (insert (Max A) B)"
  using assms by (cases "B = {}") (simp_all add: Max_Un)

text \<open>What the engine relies on of an event store.\<close>

locale event_store =
  fixes append :: "domain_event list \<Rightarrow> 's \<Rightarrow> 's"
    and events :: "string option \<Rightarrow> string option \<Rightarrow> 's \<Rightarrow> domain_event list"
    and current :: "string \<Rightarrow> 's \<Rightarrow> nat"
    and clear :: "'s \<Rightarrow> 's"
  assumes events_append: "events None None (append es s) = events None None s @ es"
    and events_select: "events b oa s = filter (ev_selected b oa) (events None None s)"
    and events_clear: "events None None (clear s) = []"
    and current_bound: "e \<in> set (events None (Some a) s) \<Longrightarrow> ev_version e \<le> current a s"
    and current_hit: "current a s = 0 \<or> (\<exists>e \<in> set (events None (Some a) s). ev_version e = current a s)"
begin

lemma current_eq: "current a s = Max (insert 0 (ev_version ` set (events None (Some a) s)))"
proof (rule sym, rule Max_eqI)
  show "finite (insert 0 (ev_version ` set (events None (Some a) s)))" by simp
  show "n \<le> current a s" if "n \<in> insert 0 (ev_version ` set (events None (Some a) s))" for n
    using that current_bound by auto
  show "current a s \<in> insert 0 (ev_version ` set (events None (Some a) s))"
    using current_hit[of a s] by force
qed

lemma current_append:
  "current a (append es s) = Max (insert (current a s) (ev_version ` set (filter (ev_selected None (Some a)) es)))"
proof -
  have "set (events None (Some a) (append es s)) =
      set (events None (Some a) s) \<union> set (filter (ev_selected None (Some a)) es)"
    using events_select[of None "Some a"] events_append by simp
  then have "current a (append es s) =
      Max (insert 0 (ev_version ` set (events None (Some a) s)) \<union> ev_version ` set (filter (ev_selected None (Some a)) es))"
    by (simp add: current_eq image_Un)
  also have "\<dots> = Max (insert (current a s) (ev_version ` set (filter (ev_selected None (Some a)) es)))"
    unfolding current_eq[of a s] by (rule Max_collapse) simp_all
  finally show ?thesis .
qed

lemma current_clear [simp]: "current a (clear s) = 0"
  using current_hit[of a "clear s"] events_select[of None "Some a" "clear s"] events_clear by auto

lemma restore_events: "events None None (append es (clear s)) = es"
  by (simp add: events_append events_clear)

end

lemma foldl_max_bound:
  "e \<in> set vals \<Longrightarrow> ev_aggregate e = a \<Longrightarrow>
     ev_version e \<le> foldl (\<lambda>v e. if ev_aggregate e = a then max v (ev_version e) else v) n vals"
  "n \<le> foldl (\<lambda>v e. if ev_aggregate e = a then max v (ev_version e) else v) n vals"
proof (induction vals arbitrary: n)
  case (Cons x xs)
  {
    case 1
    then show ?case
    proof (cases "e = x")
      case True
      with 1 Cons(2)[of "max n (ev_version e)"] show ?thesis by simp
    next
      case False
      with 1 Cons(1) show ?thesis by simp
    qed
  next
    case 2
    show ?case
      using Cons(2)[of n] Cons(2)[of "max n (ev_version x)"] by simp
  }
qed simp_all

lemma foldl_max_hit:
  "foldl (\<lambda>v e. if ev_aggregate e = a then max v (ev_version e) else v) n vals = n
   \<or> (\<exists>e \<in> set vals. ev_aggregate e = a \<and>
        ev_version e = foldl (\<lambda>v e. if ev_aggregate e = a then max v (ev_version e) else v) n vals)"
proof (induction vals arbitrary: n)
  case (Cons x xs)
  show ?case
  proof (cases "ev_aggregate x = a")
    case True
    with Cons[of "max n (ev_version x)"] show ?thesis by (auto simp: max_def)
  next
    case False
    with Cons[of n] show ?thesis by auto
  qed
qed simp

interpretation mem_ev: event_store mem_append mem_events mem_currentSequenceVersion mem_events_clear
proof
  fix es s b a
  show "mem_events None None (mem_append es s) = mem_events None None s @ es"
    by (simp add: mem_events_def mem_append_def ev_selected_def)
  show "mem_events b a s = filter (ev_selected b a) (mem_events None None s)"
    by (simp add: mem_events_def ev_selected_def)
  show "mem_events None None (mem_events_clear s) = []"
    by (simp add: mem_events_def mem_events_clear_def)
next
  fix e a s
  assume "e \<in> set (mem_events None (Some a) s)"
  then show "ev_version e \<le> mem_currentSequenceVersion a s"
    unfolding mem_currentSequenceVersion_def by (intro foldl_max_bound) (auto simp: mem_events_def ev_selected_def)
next
  fix a s
  show "mem_currentSequenceVersion a s = 0 \<or>
      (\<exists>e \<in> set (mem_events None (Some a) s). ev_version e = mem_currentSequenceVersion a s)"
    using foldl_max_hit[of a 0 s] by (auto simp: mem_events_def ev_selected_def mem_currentSequenceVersion_def)
qed

subsection \<open>The state store\<close>

type_synonym state_map = "(string, json_object) omap"

definition mem_get :: "string \<Rightarrow> state_map \<Rightarrow> json_object option" where
  "mem_get i vals = omap_get vals i"
definition mem_set :: "string \<Rightarrow> json_object \<Rightarrow> state_map \<Rightarrow> state_map" where
  "mem_set i v vals = omap_set i v vals"
definition mem_delete :: "string \<Rightarrow> state_map \<Rightarrow> state_map" where
  "mem_delete i vals = omap_delete i vals"
definition mem_entries :: "state_map \<Rightarrow> (string \<times> json_object) list" where
  "mem_entries vals = vals"
definition mem_state_clear :: "state_map \<Rightarrow> state_map" where
  "mem_state_clear vals = []"

locale state_store =
  fixes get :: "string \<Rightarrow> 's \<Rightarrow> json_object option"
    and put :: "string \<Rightarrow> json_object \<Rightarrow> 's \<Rightarrow> 's"
    and delete :: "string \<Rightarrow> 's \<Rightarrow> 's"
    and entries :: "'s \<Rightarrow> (string \<times> json_object) list"
    and clear :: "'s \<Rightarrow> 's"
  assumes get_put: "get i (put j v s) = (if i = j then Some v else get i s)"
    and get_delete: "get i (delete j s) = (if i = j then None else get i s)"
    and get_clear: "get i (clear s) = None"
    and get_entries: "get i s = map_of (entries s) i"
begin

text \<open>Writing a list of entries, as \<open>restore\<close> and a commit do.\<close>

lemma get_write_all:
  "get i (fold (\<lambda>(j, v). put j v) es s) =
     (case map_of (rev es) i of Some v \<Rightarrow> Some v | None \<Rightarrow> get i s)"
proof (induction es arbitrary: s)
  case Nil
  then show ?case by simp
next
  case (Cons p es)
  obtain j v where p: "p = (j, v)" by (cases p)
  show ?case
    by (simp add: p Cons get_put map_add_def split: option.splits)
qed

lemma get_restore:
  assumes "distinct (map fst es)"
  shows "get i (fold (\<lambda>(j, v). put j v) es (clear s)) = map_of es i"
proof -
  have "distinct (map fst (rev es))" using assms by (simp add: rev_map[symmetric])
  then have "map_of (rev es) = map_of es" using assms map_of_inject_set[of "rev es" es] by simp
  then show ?thesis by (simp add: get_write_all get_clear split: option.splits)
qed

lemma get_delete_all: "get i (fold delete ids s) = (if i \<in> set ids then None else get i s)"
  by (induction ids arbitrary: s) (auto simp: get_delete)

end

interpretation mem_st: state_store mem_get mem_set mem_delete mem_entries mem_state_clear
  by unfold_locales
    (simp_all add: mem_get_def mem_set_def mem_delete_def mem_entries_def mem_state_clear_def)

subsection \<open>The idempotency store\<close>

text \<open>
  Times are milliseconds.  A read with a request-local time never evicts; a read on the shared clock
  drops an expired entry.
\<close>

type_synonym idem_map = "(string, execution_result \<times> rat) omap"

definition mem_idem_get :: "string \<Rightarrow> rat option \<Rightarrow> rat \<Rightarrow> idem_map \<Rightarrow> execution_result option \<times> idem_map" where
  "mem_idem_get key atMs now vals = (case omap_get vals key of
      None \<Rightarrow> (None, vals)
    | Some (result, expires) \<Rightarrow>
        if expires \<le> (case atMs of Some t \<Rightarrow> t | None \<Rightarrow> now)
        then (if atMs \<noteq> None then (None, vals) else (None, omap_delete key vals))
        else (Some result, vals))"

definition mem_idem_set :: "string \<Rightarrow> execution_result \<Rightarrow> rat \<Rightarrow> rat \<Rightarrow> idem_map \<Rightarrow> idem_map" where
  "mem_idem_set key result ttlSeconds now vals = omap_set key (result, now + max 1 ttlSeconds * 1000) vals"

definition mem_idem_clear :: "idem_map \<Rightarrow> idem_map" where
  "mem_idem_clear vals = []"

locale ttl_store =
  fixes get :: "string \<Rightarrow> rat option \<Rightarrow> rat \<Rightarrow> 's \<Rightarrow> execution_result option \<times> 's"
    and put :: "string \<Rightarrow> execution_result \<Rightarrow> rat \<Rightarrow> rat \<Rightarrow> 's \<Rightarrow> 's"
    and clear :: "'s \<Rightarrow> 's"
  assumes local_read: "snd (get k (Some t) now s) = s"
    and get_put: "fst (get k atMs now (put k r ttl now0 s)) =
        (if now0 + max 1 ttl * 1000 \<le> (case atMs of Some t \<Rightarrow> t | None \<Rightarrow> now) then None else Some r)"
    and get_put_other: "k \<noteq> k' \<Longrightarrow> fst (get k atMs now (put k' r ttl now0 s)) = fst (get k atMs now s)"
    and get_clear: "fst (get k atMs now (clear s)) = None"
begin

text \<open>A stored result is served until its deadline, whatever other keys are stored meanwhile.\<close>

lemma served_until_deadline:
  assumes "t < now0 + max 1 ttl * 1000" and "k \<notin> set (map (\<lambda>(k, r, ttl, n). k) later)"
  shows "fst (get k (Some t) now (fold (\<lambda>(k, r, ttl, n). put k r ttl n) later (put k r ttl now0 s))) = Some r"
proof -
  have "fst (get k (Some t) now (fold (\<lambda>(k, r, ttl, n). put k r ttl n) later s)) = fst (get k (Some t) now s)" for s
    using assms(2) by (induction later arbitrary: s) (auto simp: get_put_other)
  then show ?thesis using assms(1) by (simp add: get_put)
qed

end

interpretation mem_idem: ttl_store mem_idem_get mem_idem_set mem_idem_clear
  by unfold_locales
    (auto simp: mem_idem_get_def mem_idem_set_def mem_idem_clear_def split: option.splits)

subsection \<open>The fault store\<close>

record 'rule fault_entry =
  fe_id :: string
  fe_rule :: 'rule
  fe_createdAt :: rat
  fe_expiresAt :: "rat option"

type_synonym 'rule fault_map = "(string, 'rule fault_entry) omap"

definition fe_live :: "rat \<Rightarrow> 'rule fault_entry \<Rightarrow> bool" where
  "fe_live atMs e \<longleftrightarrow> (case fe_expiresAt e of None \<Rightarrow> True | Some x \<Rightarrow> atMs < x)"

definition fault_prune :: "rat \<Rightarrow> 'rule fault_map \<Rightarrow> 'rule fault_map" where
  "fault_prune now entries = filter (\<lambda>(i, e). fe_live now e) entries"

definition fault_add :: "'rule \<Rightarrow> rat option \<Rightarrow> rat \<Rightarrow> string \<Rightarrow> ('rule fault_map, exn, string) eff" where
  "fault_add rule ttlMs now fresh =
     bind (upd (fault_prune now)) (\<lambda>_.
     bind (lift (parsed (faultId fresh))) (\<lambda>i.
     bind (upd (omap_set i \<lparr>fe_id = i, fe_rule = rule, fe_createdAt = now,
             fe_expiresAt = map_option (\<lambda>ttl. now + max 0 ttl) ttlMs\<rparr>)) (\<lambda>_.
     ret i)))"

definition fault_remove :: "string \<Rightarrow> 'rule fault_map \<Rightarrow> bool \<times> 'rule fault_map" where
  "fault_remove i entries = (omap_has entries i, omap_delete i entries)"

definition fault_list :: "rat option \<Rightarrow> rat \<Rightarrow> 'rule fault_map \<Rightarrow> 'rule fault_entry list \<times> 'rule fault_map" where
  "fault_list atMs now entries = (case atMs of
      None \<Rightarrow> (let live = fault_prune now entries in (map snd live, live))
    | Some t \<Rightarrow> (filter (fe_live t) (map snd entries), entries))"

definition fault_all :: "rat option \<Rightarrow> rat \<Rightarrow> 'rule fault_map \<Rightarrow> 'rule list \<times> 'rule fault_map" where
  "fault_all atMs now entries = (let (es, entries') = fault_list atMs now entries in (map fe_rule es, entries'))"

definition fault_clear :: "'rule fault_map \<Rightarrow> 'rule fault_map" where
  "fault_clear entries = []"

text \<open>Both ways of listing agree on what is live, and listing on the shared clock is idempotent.\<close>

lemma fault_list_agree: "fst (fault_list None now entries) = fst (fault_list (Some now) any entries)"
  by (simp add: fault_list_def fault_prune_def filter_map comp_def case_prod_unfold Let_def)

lemma fault_prune_idem [simp]: "fault_prune now (fault_prune now entries) = fault_prune now entries"
  by (simp add: fault_prune_def)

lemma fault_prune_mono: "t \<le> t' \<Longrightarrow> fault_prune t' (fault_prune t entries) = fault_prune t' entries"
  by (auto simp: fault_prune_def fe_live_def intro!: filter_cong split: option.splits)

subsection \<open>Sequence versions (\<open>domain/eventSourcing.ts\<close>)\<close>

definition nextSequenceVersion :: "nat \<Rightarrow> domain_event list \<Rightarrow> string \<Rightarrow> exn + nat" where
  "nextSequenceVersion currentVersion pendingEvents aggregate =
     rbind (parsed (sequenceVersion (of_nat currentVersion))) (\<lambda>current.
     rbind (parsed (aggregateId aggregate)) (\<lambda>aid.
     rbind (r_filter (\<lambda>e. rbind (parsed (aggregateId (ev_aggregate e))) (\<lambda>i. Inr (i = aid))) pendingEvents) (\<lambda>pending.
     rbind (r_map (\<lambda>e. parsed (committedSequenceVersion (of_nat (ev_version e)))) pending) (\<lambda>_.
     parsed (committedSequenceVersion (of_nat (current + length pending + 1)))))))"

fun duplicate_versions :: "domain_event list \<Rightarrow> bool" where
  "duplicate_versions (a # b # es) = (ev_version b \<le> ev_version a \<or> duplicate_versions (b # es))"
| "duplicate_versions _ = False"

definition eventsThroughVersion :: "domain_event list \<Rightarrow> string \<Rightarrow> rat \<Rightarrow> exn + domain_event list" where
  "eventsThroughVersion events aggregate version =
     rbind (parsed (aggregateId aggregate)) (\<lambda>aid.
     rbind (parsed (sequenceVersion version)) (\<lambda>requested.
     rbind (r_filter (\<lambda>e.
         rbind (parsed (aggregateId (ev_aggregate e))) (\<lambda>i.
           if i = aid then rbind (parsed (committedSequenceVersion (of_nat (ev_version e)))) (\<lambda>v. Inr (v \<le> requested))
           else Inr False)) events) (\<lambda>es.
     let selected = sort_key ev_version es
     in if duplicate_versions selected
        then Inl (PlainError (''Aggregate '' @ aggregate @ '' has duplicate event sequence versions''))
        else Inr selected)))"

lemma r_filter_Inr:
  "r_filter p xs = Inr ys \<Longrightarrow> ys = filter (\<lambda>x. p x = Inr True) xs \<and> (\<forall>x\<in>set xs. \<exists>b. p x = Inr b)"
  by (induction xs arbitrary: ys) (auto split: if_splits)

lemma duplicate_versions_iff: "\<not> duplicate_versions es \<longleftrightarrow> sorted_wrt (\<lambda>a b. ev_version a < ev_version b) es"
proof (induction es rule: duplicate_versions.induct)
  case (1 a b es)
  then show ?case by (auto simp: not_le intro: less_trans)
qed simp_all

lemma nextSequenceVersion_Inr:
  assumes "nextSequenceVersion c pend a = Inr n"
  shows "n = c + length (filter (\<lambda>e. js_trim (ev_aggregate e) = js_trim a) pend) + 1"
proof -
  from assms obtain i pending where *:
    "aggregateId a = Inr i"
    "r_filter (\<lambda>e. rbind (parsed (aggregateId (ev_aggregate e))) (\<lambda>j. Inr (j = i))) pend = Inr pending"
    "n = c + length pending + 1"
    by (auto simp: nextSequenceVersion_def sequenceVersion_of_nat committedSequenceVersion_Suc[of "c + _", simplified])
  have "pending = filter (\<lambda>e. js_trim (ev_aggregate e) = js_trim a) pend"
    using r_filter_Inr[OF *(2)] *(1)
    by (auto simp: aggregateId_Inr_iff rbind_Inr_iff intro!: filter_cong)
  with *(3) show ?thesis by simp
qed

end
