(* ===== verification/Dispatch.thy ===== *)
theory Dispatch
  imports Domain
begin

text \<open>
  Routing a command to a behavior (\<open>domain/dispatch.ts\<close>) and the authorization decision
  (\<open>domain/authorization.ts\<close>, \<open>identity/scopeChecker.ts\<close>).
\<close>

subsection \<open>Dispatch\<close>

definition header_value :: "headers \<Rightarrow> string \<Rightarrow> string option" where
  "header_value hs name = map_option snd (find (\<lambda>(k, v). to_lower k = to_lower name) hs)"

definition matchesHeaders :: "headers \<Rightarrow> headers \<Rightarrow> bool" where
  "matchesHeaders actual expected =
     list_all (\<lambda>(name, wanted).
       let v = header_value actual name
       in if wanted = ''present'' \<or> wanted = ''*'' then v \<noteq> None else v = Some wanted) expected"

record 'c candidate =
  dc_operation :: string
  dc_method :: "string option"
  dc_headers :: "headers option"
  dc_condition :: "('c \<Rightarrow> exn + bool) option"
  dc_emitWhen :: "('c \<Rightarrow> exn + bool) list option"
  dc_requires :: "('c \<Rightarrow> exn + bool) list option"

record 'c dispatch_request =
  dr_operation :: "string option"
  dr_method :: string
  dr_inbound :: bool
  dr_headers :: headers
  dr_context :: 'c

definition guards_match :: "'c candidate \<Rightarrow> 'c \<Rightarrow> exn + bool" where
  "guards_match c x =
     rbind (case dc_condition c of None \<Rightarrow> Inr True | Some p \<Rightarrow> p x) (\<lambda>ok.
     if \<not> ok then Inr False
     else case dc_emitWhen c of
         None \<Rightarrow> Inr True
       | Some es \<Rightarrow> rbind (r_some (\<lambda>w. w x) es) (\<lambda>fires.
           if fires then Inr True
           else case dc_requires c of
               None \<Rightarrow> Inr False
             | Some gs \<Rightarrow> r_some (\<lambda>g. rbind (g x) (\<lambda>b. Inr (\<not> b))) gs))"

definition candidate_matches :: "'c dispatch_request \<Rightarrow> 'c candidate \<Rightarrow> bool" where
  "candidate_matches rq c =
     (if Some (dc_operation c) \<noteq> dr_operation rq then False
      else if dr_inbound rq \<and> (case dc_method c of None \<Rightarrow> False | Some m \<Rightarrow> to_upper m \<noteq> to_upper (dr_method rq)) then False
      else if (case dc_headers c of None \<Rightarrow> False | Some hs \<Rightarrow> \<not> matchesHeaders (dr_headers rq) hs) then False
      else (case guards_match c (dr_context rq) of Inl e \<Rightarrow> False | Inr b \<Rightarrow> b))"

definition selectBehavior :: "('b \<times> 'c candidate) list \<Rightarrow> 'c dispatch_request \<Rightarrow> 'b option" where
  "selectBehavior candidates rq = map_option fst (find (\<lambda>(b, c). candidate_matches rq c) candidates)"

lemma find_first: "\<forall>y\<in>set pre. \<not> P y \<Longrightarrow> P x \<Longrightarrow> find P (pre @ x # post) = Some x"
  by (induction pre) auto

lemma selectBehavior_first:
  "selectBehavior cs rq = Some b \<longleftrightarrow>
     (\<exists>pre c post. cs = pre @ (b, c) # post \<and> candidate_matches rq c \<and> (\<forall>(b', c')\<in>set pre. \<not> candidate_matches rq c'))"
proof -
  show ?thesis
  proof
    assume "selectBehavior cs rq = Some b"
    then obtain c where "find (\<lambda>(b, c). candidate_matches rq c) cs = Some (b, c)"
      by (auto simp: selectBehavior_def)
    from find_Some_prefix[OF this] show "\<exists>pre c post. cs = pre @ (b, c) # post \<and> candidate_matches rq c
        \<and> (\<forall>(b', c')\<in>set pre. \<not> candidate_matches rq c')" by fastforce
  next
    assume "\<exists>pre c post. cs = pre @ (b, c) # post \<and> candidate_matches rq c
        \<and> (\<forall>(b', c')\<in>set pre. \<not> candidate_matches rq c')"
    then obtain pre c post where "cs = pre @ (b, c) # post" "candidate_matches rq c"
      "\<forall>y\<in>set pre. \<not> (\<lambda>(b, c). candidate_matches rq c) y" by (fastforce simp: case_prod_unfold)
    with find_first[of pre "\<lambda>(b, c). candidate_matches rq c" "(b, c)" post] show "selectBehavior cs rq = Some b"
      by (simp add: selectBehavior_def)
  qed
qed

subsection \<open>Authorization\<close>

datatype auth_reason = AuthenticationRequired | ScopeMissing | PolicyDenied

datatype auth_decision = Allowed | Denied auth_reason

definition hasRequiredScopes :: "string list option \<Rightarrow> string list \<Rightarrow> bool" where
  "hasRequiredScopes actual required =
     (if required = [] then True
      else let scopes = set (case actual of None \<Rightarrow> [] | Some ss \<Rightarrow> ss)
           in list_all (\<lambda>s. s \<in> scopes) required)"

definition authorize :: "string list option \<Rightarrow> string list \<Rightarrow> bool option \<Rightarrow> auth_decision" where
  "authorize actualScopes requiredScopes policyDecision =
     (if requiredScopes \<noteq> [] \<and> actualScopes = None then Denied AuthenticationRequired
      else if \<not> hasRequiredScopes actualScopes requiredScopes then Denied ScopeMissing
      else if policyDecision = Some False then Denied PolicyDenied
      else Allowed)"

lemma authorize_Allowed_iff:
  "authorize actual required policy = Allowed \<longleftrightarrow>
     set required \<subseteq> set (case actual of None \<Rightarrow> [] | Some ss \<Rightarrow> ss) \<and> policy \<noteq> Some False"
  by (auto simp: authorize_def hasRequiredScopes_def list_all_iff split: option.splits)

end
