(* ===== verification/Numbers.thy ===== *)
theory Numbers
  imports Json "HOL-Library.Char_ord" "HOL-Library.List_Lexorder"
begin

text \<open>
  The numeric and textual conversions the sources take from JavaScript: \<open>Number(s)\<close>, \<open>String(x)\<close>,
  \<open>JSON.stringify\<close> and UTF-8 encoding.  Strings are ordered by code unit, as \<open>Array.prototype.sort\<close>
  does by default.
\<close>

subsection \<open>\<open>Number(s)\<close>\<close>

datatype jsnum = Fin rat | PosInf | NegInf | NaN

definition dec_value :: "string \<Rightarrow> string \<Rightarrow> int \<Rightarrow> rat" where
  "dec_value ds fs e =
     (let k = e - int (length fs); n = of_nat (digits_val (ds @ fs))
      in round64 (if 0 \<le> k then n * 10 ^ nat k else n / 10 ^ nat (- k)))"

text \<open>A magnitude past the largest double is infinite.\<close>

definition js_fin :: "rat \<Rightarrow> jsnum" where
  "js_fin x = (if x < 2 ^ 1024 then Fin x else PosInf)"

definition exponent :: "string \<Rightarrow> int option" where
  "exponent s = (case s of
      c # t \<Rightarrow>
        let ds = (if c = CHR ''-'' \<or> c = CHR ''+'' then t else s)
        in if ds \<noteq> [] \<and> list_all is_digit ds
           then Some (if c = CHR ''-'' then - int (digits_val ds) else int (digits_val ds)) else None
    | [] \<Rightarrow> None)"

definition unsigned_number :: "string \<Rightarrow> jsnum" where
  "unsigned_number s =
     (if s = ''Infinity'' then PosInf
      else let ds = takeWhile is_digit s; r = dropWhile is_digit s;
               (fs, r') = (case r of c # t \<Rightarrow> if c = CHR ''.'' then (takeWhile is_digit t, dropWhile is_digit t) else ([], r)
                           | [] \<Rightarrow> ([], []))
      in if ds = [] \<and> fs = [] then NaN
         else (case r' of
             [] \<Rightarrow> js_fin (dec_value ds fs 0)
           | c # t \<Rightarrow> if c = CHR ''e'' \<or> c = CHR ''E''
               then (case exponent t of Some e \<Rightarrow> js_fin (dec_value ds fs e) | None \<Rightarrow> NaN)
               else NaN))"

definition radix_digit :: "nat \<Rightarrow> char \<Rightarrow> nat option" where
  "radix_digit b c =
     (let d = (if is_digit c then Some (code c - 48)
               else if 97 \<le> code c \<and> code c \<le> 102 then Some (code c - 87)
               else if 65 \<le> code c \<and> code c \<le> 70 then Some (code c - 55) else None)
      in case d of Some n \<Rightarrow> if n < b then Some n else None | None \<Rightarrow> None)"

definition radix_number :: "nat \<Rightarrow> string \<Rightarrow> jsnum" where
  "radix_number b s =
     (if s \<noteq> [] \<and> list_all (\<lambda>c. radix_digit b c \<noteq> None) s
      then js_fin (round64 (of_nat (foldl (\<lambda>a c. b * a + the (radix_digit b c)) 0 s))) else NaN)"

definition js_Number :: "string \<Rightarrow> jsnum" where
  "js_Number s = (case js_trim s of
      [] \<Rightarrow> Fin 0
    | c # t \<Rightarrow>
        if c = CHR ''0'' \<and> t \<noteq> [] \<and> (hd t = CHR ''x'' \<or> hd t = CHR ''X'') then radix_number 16 (tl t)
        else if c = CHR ''0'' \<and> t \<noteq> [] \<and> (hd t = CHR ''o'' \<or> hd t = CHR ''O'') then radix_number 8 (tl t)
        else if c = CHR ''0'' \<and> t \<noteq> [] \<and> (hd t = CHR ''b'' \<or> hd t = CHR ''B'') then radix_number 2 (tl t)
        else if c = CHR ''-'' then (case unsigned_number t of Fin x \<Rightarrow> Fin (- x) | PosInf \<Rightarrow> NegInf | r \<Rightarrow> r)
        else if c = CHR ''+'' then unsigned_number t
        else unsigned_number (c # t))"

text \<open>\<open>arr[Number(s)]\<close>: only the numeral of an index in range names an element.\<close>

definition js_index :: "json list \<Rightarrow> string \<Rightarrow> json" where
  "js_index xs s = (case js_Number s of
      Fin x \<Rightarrow> if of_int \<lfloor>x\<rfloor> = x \<and> 0 \<le> x \<and> nat \<lfloor>x\<rfloor> < length xs then xs ! nat \<lfloor>x\<rfloor> else JUndef
    | _ \<Rightarrow> JUndef)"

subsection \<open>\<open>String(x)\<close>\<close>

text \<open>The exponent \<open>n\<close> with \<open>10 ^ (n - 1) \<le> x < 10 ^ n\<close>, for \<open>0 < x\<close>.\<close>

definition dec_exponent :: "rat \<Rightarrow> int" where
  "dec_exponent x = (if 1 \<le> x then int (floorlog 10 (nat \<lfloor>x\<rfloor>))
     else 1 - int (floorlog 10 (nat (\<lceil>1 / x\<rceil> - 1))))"

definition pow10 :: "int \<Rightarrow> rat" where
  "pow10 k = (if 0 \<le> k then 10 ^ nat k else 1 / 10 ^ nat (- k))"

text \<open>The shortest digit string that reads back as \<open>x\<close>.\<close>

definition shortest :: "rat \<Rightarrow> nat \<times> nat" where
  "shortest x = (let n = dec_exponent x;
      cand = (\<lambda>k. nat (round_even (x * pow10 (int k - n))));
      good = (\<lambda>k. round64 (of_nat (cand k) * pow10 (n - int k)) = x)
    in case find good [1..<17] of Some k \<Rightarrow> (k, cand k) | None \<Rightarrow> (17, cand 17))"

definition num_string_pos :: "rat \<Rightarrow> string" where
  "num_string_pos x =
     (let n = dec_exponent x; (k, s) = shortest x; ds = dec s
      in if int k \<le> n \<and> n \<le> 21 then ds @ replicate (nat n - k) CHR ''0''
         else if 0 < n \<and> n \<le> 21 then take (nat n) ds @ ''.'' @ drop (nat n) ds
         else if -6 < n \<and> n \<le> 0 then ''0.'' @ replicate (nat (- n)) CHR ''0'' @ ds
         else let e = n - 1; es = (if 0 \<le> e then ''e+'' @ dec (nat e) else ''e-'' @ dec (nat (- e)))
              in (if k = 1 then ds else take 1 ds @ ''.'' @ drop 1 ds) @ es)"

definition num_string :: "rat \<Rightarrow> string" where
  "num_string x =
     (if x = of_int \<lfloor>x\<rfloor> \<and> \<bar>x\<bar> < 2 ^ 53 then dec_int \<lfloor>x\<rfloor>
      else if x < 0 then ''-'' @ num_string_pos (- x) else num_string_pos x)"

lemma num_string_nat [simp]: "n < 2 ^ 53 \<Longrightarrow> num_string (of_nat n) = dec n"
proof -
  assume "n < 2 ^ 53"
  then have "rat_of_nat n < rat_of_nat (2 ^ 53)" by (rule of_nat_less_iff[THEN iffD2])
  then show ?thesis by (simp add: num_string_def dec_int_def)
qed

text \<open>\<open>String(v)\<close>; an array joins its elements, with nothing for \<open>null\<close> and \<open>undefined\<close>.\<close>

fun js_String :: "json \<Rightarrow> string" and js_Strings :: "json list \<Rightarrow> string list" where
  "js_String JNull = ''null''"
| "js_String JUndef = ''undefined''"
| "js_String (JBool b) = (if b then ''true'' else ''false'')"
| "js_String (JNum x) = num_string x"
| "js_String (JStr s) = s"
| "js_String (JArr xs) = js_join '','' (js_Strings xs)"
| "js_String (JObj m) = ''[object Object]''"
| "js_Strings [] = []"
| "js_Strings (x # xs) = (if x = JNull \<or> x = JUndef then [] else js_String x) # js_Strings xs"

subsection \<open>\<open>JSON.stringify\<close>\<close>

definition hex_digit :: "nat \<Rightarrow> char" where
  "hex_digit d = (if d < 10 then char_of (48 + d) else char_of (87 + d))"

definition quote_char :: "char \<Rightarrow> string" where
  "quote_char c =
     (if c = CHR 0x22 then [CHR 0x5C, CHR 0x22]
      else if c = CHR 0x5C then [CHR 0x5C, CHR 0x5C]
      else if code c = 8 then [CHR 0x5C, CHR ''b'']
      else if code c = 12 then [CHR 0x5C, CHR ''f'']
      else if code c = 10 then [CHR 0x5C, CHR ''n'']
      else if code c = 13 then [CHR 0x5C, CHR ''r'']
      else if code c = 9 then [CHR 0x5C, CHR ''t'']
      else if code c < 32 then [CHR 0x5C, CHR ''u'', CHR ''0'', CHR ''0'', hex_digit (code c div 16), hex_digit (code c mod 16)]
      else [c])"

definition quote_string :: "string \<Rightarrow> string" where
  "quote_string s = [CHR 0x22] @ concat (map quote_char s) @ [CHR 0x22]"

text \<open>
  The text of a value; \<open>allow\<close> is the array form of the replacer, which both selects and orders the
  properties of every object.  An \<open>undefined\<close> property is left out, an \<open>undefined\<close> element is \<open>null\<close>.
\<close>

definition members :: "(string \<times> string) list \<Rightarrow> string" where
  "members kvs = ''{'' @ js_join '','' (map (\<lambda>(k, t). quote_string k @ '':'' @ t) kvs) @ ''}''"

fun stringify :: "string list option \<Rightarrow> json \<Rightarrow> string"
  and stringify_elems :: "string list option \<Rightarrow> json list \<Rightarrow> string list"
  and stringify_props :: "string list option \<Rightarrow> json_object \<Rightarrow> (string \<times> string) list" where
  "stringify allow JNull = ''null''"
| "stringify allow JUndef = ''null''"
| "stringify allow (JBool b) = (if b then ''true'' else ''false'')"
| "stringify allow (JNum x) = num_string x"
| "stringify allow (JStr s) = quote_string s"
| "stringify allow (JArr xs) = ''['' @ js_join '','' (stringify_elems allow xs) @ '']''"
| "stringify allow (JObj m) = members (case allow of
      None \<Rightarrow> stringify_props allow m
    | Some ks \<Rightarrow> List.map_filter (\<lambda>k. map_option (Pair k) (map_of (stringify_props allow m) k)) (remdups ks))"
| "stringify_elems allow [] = []"
| "stringify_elems allow (x # xs) = stringify allow x # stringify_elems allow xs"
| "stringify_props allow [] = []"
| "stringify_props allow (p # m) = (if snd p = JUndef then stringify_props allow m
     else (fst p, stringify allow (snd p)) # stringify_props allow m)"

definition json_stringify :: "json \<Rightarrow> string" where
  "json_stringify v = stringify None v"

text \<open>Property order and \<open>undefined\<close> aside, an object's text is a function of its members.\<close>

lemma map_of_stringify_props:
  "keys_distinct m \<Longrightarrow> map_of (stringify_props allow m) k =
     (case map_of m k of None \<Rightarrow> None | Some v \<Rightarrow> if v = JUndef then None else Some (stringify allow v))"
proof (induction m)
  case (Cons p m)
  then have "map_of m (fst p) = None" by (simp add: map_of_eq_None_iff)
  with Cons show ?case by (cases "k = fst p") auto
qed simp

subsection \<open>UTF-8\<close>

definition utf8_char :: "char \<Rightarrow> nat list" where
  "utf8_char c = (if code c < 128 then [code c] else [192 + code c div 64, 128 + code c mod 64])"

definition utf8 :: "string \<Rightarrow> nat list" where
  "utf8 s = concat (map utf8_char s)"

text \<open>The strict decoder on the range of \<open>utf8\<close>: \<open>None\<close> for a sequence cut in the middle.\<close>

fun utf8_decode :: "nat list \<Rightarrow> string option" where
  "utf8_decode [] = Some []"
| "utf8_decode [b] = (if b < 128 then Some [char_of b] else None)"
| "utf8_decode (b # b' # bs) =
     (if b < 128 then map_option (Cons (char_of b)) (utf8_decode (b' # bs))
      else if 194 \<le> b \<and> b < 196 \<and> 128 \<le> b' \<and> b' < 192
      then map_option (Cons (char_of ((b - 192) * 64 + (b' - 128)))) (utf8_decode bs)
      else None)"

lemma utf8_decode_char: "utf8_decode (utf8_char c @ bs) = map_option (Cons c) (utf8_decode bs)"
proof -
  have c: "code c < 256" "char_of (code c) = c" by (simp_all add: code_def)
  show ?thesis
  proof (cases "code c < 128")
    case True
    then show ?thesis using c by (cases bs) (simp_all add: utf8_char_def)
  next
    case False
    define q r where "q = code c div 64" and "r = code c mod 64"
    then have "2 \<le> q" "q < 4" "r < 64" "q * 64 + r = code c" "utf8_char c = [192 + q, 128 + r]"
      using False c by (auto simp: utf8_char_def div_mult_mod_eq)
    then show ?thesis using c(2) by simp
  qed
qed

lemma utf8_decode_utf8 [simp]: "utf8_decode (utf8 s) = Some s"
  by (induction s) (simp_all add: utf8_def utf8_decode_char)

end
