(* ===== verification/Program.thy ===== *)
theory Program
  imports Storage Dispatch Numbers
begin

text \<open>
  The compiled runtime program (\<open>model/runtime.ts\<close>): boundaries, behaviors, reducers, reactions,
  faults and policies as data whose callbacks are functions, and the dependencies the engine is
  given: the contract, the identifier and random sources, the clock, and the parts of the platform
  (date parsing, collation) that are not fixed by the language.
\<close>

subsection \<open>Behaviors and events\<close>

record runtime_event =
  ct_type :: string
  ct_payload :: "(string \<times> json callback) list"
  ct_schemaRef :: "string option"

record guard =
  gd_check :: "bool callback"
  gd_errorCode :: string
  gd_errorMessage :: string
  gd_errorStatus :: "nat option"

record secondary_command =
  sc_boundary :: string
  sc_intent :: intent
  sc_operation :: string
  sc_target :: "string option callback option"
  sc_payload :: "(string \<times> json callback) list"
  sc_condition :: "bool callback option"

record behavior =
  bh_name :: string
  bh_operation :: string
  bh_condition :: "bool callback option"
  bh_requires :: "guard list"
  bh_requiredScopes :: "string list"
  bh_method :: "string option"
  bh_headers :: "headers option"
  bh_emit :: "string option"
  bh_emitWhen :: "(bool callback \<times> string) list option"
  bh_dispatch :: "secondary_command list"
  bh_postcondition :: "bool callback option"
  bh_linkName :: "string option"
  bh_linkCondition :: "bool callback option"
  bh_responseStatus :: "nat option"

record reducer =
  rd_on :: string
  rd_apply :: "patch list reducer_callback option"
  rd_reduce :: "json reducer_callback option"
  rd_replaceState :: bool

record reaction =
  re_name :: "string option"
  re_on :: string
  re_when :: "bool callback option"
  re_boundary :: string
  re_emit :: string
  re_intent :: "intent option"
  re_target :: "string option callback option"
  re_payload :: "(string \<times> json callback) list"

record fault_selectors =
  fs_signal :: "string option"
  fs_forceResponse :: "string option"
  fs_scenario :: "string option"
  fs_featureFlag :: "string option"
  fs_errorClass :: "error_class option"

record fault_response =
  fr_status :: nat
  fr_body :: "json option"
  fr_headers :: headers

record fault =
  ft_name :: string
  ft_matches :: "bool callback"
  ft_requires :: "guard list"
  ft_probability :: "rat option"
  ft_requiredScopes :: "string list"
  ft_headers :: "headers option"
  ft_selectors :: "fault_selectors option"
  ft_response :: fault_response
  ft_delayMs :: "rat option"

subsection \<open>Responses and queries\<close>

record deprecation =
  dn_date :: string
  dn_sunset :: "string option"
  dn_replacement :: "string option"

record link =
  lk_rel :: string
  lk_href :: "string callback"
  lk_condition :: "bool callback option"

text \<open>What a transform returns: any of the three fields may be left out.\<close>

record partial_response =
  pr_status :: "nat option"
  pr_body :: "json option"
  pr_headers :: "headers option"

record response_policy =
  rp_transform :: "partial_response option callback option"
  rp_mask :: "string list"
  rp_deprecated :: "deprecation option"
  rp_hateoas :: "link list option"
  rp_status :: "nat callback option"
  rp_headers :: "(string \<times> string callback) list option"

datatype key_source = FromPath | FromQuery | FromHeader | FromPayload

record identity_key =
  ik_from :: key_source
  ik_name :: "string option"
  ik_pointer :: "string option"

text \<open>A field predicate of a query sees the row as the state of its context.\<close>

record query_policy =
  qp_fields :: "(string \<times> bool callback) list option"
  qp_filter :: "bool callback option"
  qp_sort :: "(json_object \<Rightarrow> json_object \<Rightarrow> ctx \<Rightarrow> int) option"
  qp_pageSize :: "rat callback option"
  qp_maxPageSize :: "rat option"
  qp_cursor :: "string option callback option"
  qp_expand :: "string list"
  qp_envelope :: bool
  qp_includeDeleted :: bool
  qp_fallback :: "json option callback option"

record boundary =
  bd_name :: string
  bd_contractPath :: string
  bd_schema :: "string option"
  bd_fallbackOverride :: "bool option"
  bd_generate :: "string callback option"
  bd_key :: "identity_key option"
  bd_query :: "query_policy option"
  bd_queryMapping :: "(string \<times> bool callback) list option"
  bd_eventCatalog :: "runtime_event list"
  bd_behaviors :: "behavior list"
  bd_reducers :: "reducer list"
  bd_initialization :: "json_object list"
  bd_response :: "response_policy option"
  bd_mask :: "string list"
  bd_auditFields :: bool
  bd_deprecated :: "deprecation option"
  bd_computed :: "(string \<times> json reducer_callback) list"
  bd_validate :: "json_object \<Rightarrow> exn + unit"
  bd_faults :: "fault list"
  bd_reactions :: "reaction list"

subsection \<open>Policies, dependencies and the program\<close>

record idempotency_policy =
  ip_enabled :: bool
  ip_ttlSeconds :: rat
  ip_hashIncludesBody :: bool

record security_headers =
  sh_enabled :: "bool option"
  sh_hsts :: bool
  sh_includeSubDomains :: "bool option"
  sh_nosniff :: bool
  sh_frameDeny :: bool
  sh_referrerPolicy :: "string option"
  sh_customHeaders :: "headers option"

record hateoas_policy =
  hp_enabled :: bool
  hp_baseUrl :: "string option"
  hp_selfLinks :: "bool option"

record derived_projection =
  pj_name :: string
  pj_key :: "string callback"
  pj_subscribe :: "string list"
  pj_reduce :: "reducer list"
  pj_reset :: "exn + unit"

record fallback_rule =
  fb_path :: "string option"
  fb_method :: "string option"
  fb_inContract :: "bool option"
  fb_respond :: fault_response

record webhook =
  wh_name :: string
  wh_trigger :: "bool callback"
  wh_url :: "string callback"
  wh_payload :: "(string \<times> json callback) list"
  wh_secret :: "string option"
  wh_maxAttempts :: "nat option"

record saga_compensation =
  sk_intent :: intent
  sk_operation :: string
  sk_target :: "string option callback option"
  sk_payload :: "(string \<times> json callback) list"

record saga_step =
  ss_name :: string
  ss_boundary :: string
  ss_intent :: intent
  ss_operation :: string
  ss_target :: "string option callback option"
  ss_payload :: "(string \<times> json callback) list"
  ss_compensation :: "saga_compensation option"

record saga =
  sg_name :: string
  sg_boundary :: string
  sg_intent :: intent
  sg_condition :: "bool callback option"
  sg_steps :: "saga_step list"

datatype auth_mode = SimpleAuth | JwtAuth | SessionAuth

record session_policy =
  sn_cookieName :: "string option"
  sn_ttlSeconds :: "rat option"
  sn_csrf :: "bool option"
  sn_csrfHeader :: "string option"
  sn_loginPath :: "string option"
  sn_logoutPath :: "string option"

definition no_session_policy :: session_policy where
  "no_session_policy = \<lparr>sn_cookieName = None, sn_ttlSeconds = None, sn_csrf = None, sn_csrfHeader = None,
     sn_loginPath = None, sn_logoutPath = None\<rparr>"

record auth_policy =
  au_mode :: "auth_mode option"
  au_authenticate :: "(request \<Rightarrow> exn + actor option) option"
  au_authorize :: "(ctx \<Rightarrow> string list \<Rightarrow> exn + bool) option"
  au_session :: session_policy

record policies =
  po_auth :: "auth_policy option"
  po_idempotency :: "idempotency_policy option"
  po_securityHeaders :: "security_headers option"
  po_hateoas :: "hateoas_policy option"
  po_fallback_rules :: "fallback_rule list"
  po_fallback_default :: "fault_response option"
  po_projections :: "derived_projection list"
  po_faults :: "fault list"
  po_reactions :: "reaction list"
  po_webhooks :: "webhook list"
  po_sagas :: "saga list"
  po_onBoot :: "exn + unit"
  po_onValidation :: "exn + unit"
  po_onInitialization :: "exn + unit"
  po_onReset :: "exn + unit"
  po_onShutdown :: "exn + unit"
  po_onRequest :: "unit callback"
  po_onCommit :: "unit callback"
  po_onPostCommit :: "unit callback"
  po_onProjection :: "unit callback"

text \<open>An optional method of the contract that is missing is the function that accepts everything.\<close>

record contract =
  ct_operationIdFor :: "string \<Rightarrow> string \<Rightarrow> string option"
  ct_responseStatusFor :: "string \<Rightarrow> intent \<Rightarrow> nat option"
  ct_pathForOperation :: "string \<Rightarrow> string option \<Rightarrow> string option"
  ct_validateBatchRequest :: "string \<Rightarrow> json \<Rightarrow> request \<Rightarrow> exn + unit"
  ct_validateRequest :: "string \<Rightarrow> json_object \<Rightarrow> request \<Rightarrow> exn + unit"
  ct_validateResponse :: "string \<Rightarrow> nat \<Rightarrow> json \<Rightarrow> request \<Rightarrow> bool option \<Rightarrow> exn + unit"
  ct_shapeError :: "string \<Rightarrow> nat \<Rightarrow> json \<Rightarrow> exn + json option"
  ct_requiresPrecondition :: "string \<Rightarrow> bool"
  ct_validateEvent :: "string \<Rightarrow> string \<Rightarrow> json_object \<Rightarrow> string option \<Rightarrow> exn + unit"
  ct_validateEntity :: "string \<Rightarrow> json_object \<Rightarrow> exn + unit"
  ct_supportsHateoas :: "string \<Rightarrow> nat \<Rightarrow> json \<Rightarrow> bool"

text \<open>
  \<open>dp_uuid n\<close> and \<open>dp_random n\<close> are the \<open>n\<close>-th draws of the shared sources, the seeded variants
  those of a generator started from a seed.  \<open>dp_nowMs\<close> is the clock during the request,
  \<open>dp_nowAt\<close> the text of \<open>helpers.now\<close> at an offset, \<open>dp_dateParse\<close> is \<open>Date.parse\<close> with \<open>None\<close> for NaN,
  \<open>dp_compare\<close> the sign of \<open>localeCompare\<close> and \<open>dp_glob\<close> the matcher of the picomatch package.
  \<open>dp_sessions\<close> says whether the runtime was given a session store; \<open>dp_csrf\<close> draws its tokens.
  \<open>dp_cookies\<close> is the parser of the cookie package, \<open>dp_forward\<close> the forwarding port, \<open>dp_webhooks\<close>
  whether the transport accepts an attempt and \<open>dp_hmac\<close> the hexadecimal SHA-256 HMAC.
\<close>

record webhook_delivery =
  wd_url :: string
  wd_body :: string
  wd_headers :: headers
  wd_attempt :: nat

record deps =
  dp_contract :: contract
  dp_uuid :: "nat \<Rightarrow> string"
  dp_seededUuid :: "string \<Rightarrow> nat \<Rightarrow> string"
  dp_random :: "nat \<Rightarrow> rat"
  dp_seededRandom :: "string \<Rightarrow> nat \<Rightarrow> rat"
  dp_nowMs :: rat
  dp_offsetMs :: rat
  dp_nowAt :: "rat \<Rightarrow> string"
  dp_dateParse :: "string \<Rightarrow> rat option"
  dp_toUTC :: "rat \<Rightarrow> string"
  dp_compare :: "string \<Rightarrow> string \<Rightarrow> int"
  dp_glob :: "string \<Rightarrow> string \<Rightarrow> bool"
  dp_toISO :: "rat \<Rightarrow> string"
  dp_sessions :: bool
  dp_csrf :: "nat \<Rightarrow> string"
  dp_cookies :: "string \<Rightarrow> (string \<times> string) list"
  dp_forward :: "(request \<Rightarrow> exn + execution_result) option"
  dp_webhooks :: "(webhook_delivery \<Rightarrow> bool) option"
  dp_hmac :: "string \<Rightarrow> string \<Rightarrow> string"

record program =
  pg_boundaries :: "boundary list"
  pg_policies :: policies
  pg_deps :: deps

text \<open>\<open>byBoundaryName\<close> as \<open>compileRuntimeMetadata\<close> builds it: a later boundary of the same name wins.\<close>

definition byBoundaryName :: "program \<Rightarrow> string \<Rightarrow> boundary option" where
  "byBoundaryName prog n = map_of (rev (map (\<lambda>b. (bd_name b, b)) (pg_boundaries prog))) n"

lemma byBoundaryName_name: "byBoundaryName prog n = Some b \<Longrightarrow> bd_name b = n \<and> b \<in> set (pg_boundaries prog)"
  by (auto simp: byBoundaryName_def dest!: map_of_SomeD)

end
