(* ===== verification/ResponsePolicies.thy ===== *)
theory ResponsePolicies
  imports Program
begin

text \<open>
  Response shaping that does not depend on engine state (\<open>core/responsePolicies.ts\<close>): masks, byte
  truncation, pagination styles, alternate representations, the debug envelope and the security
  headers.  A response body is a value; \<open>null\<close> is \<open>JNull\<close>.
\<close>

subsection \<open>Masks\<close>

definition mask_pointer :: "json option \<Rightarrow> string \<Rightarrow> json \<Rightarrow> json" where
  "mask_pointer replacement path current =
     (case applyPatches current
         [case replacement of None \<Rightarrow> PRemove path | Some r \<Rightarrow> PReplace path r] SrcMask False of
        Inr r \<Rightarrow> newState r
      | Inl e \<Rightarrow> current)"

definition mask_field :: "json option \<Rightarrow> string \<Rightarrow> json \<Rightarrow> json" where
  "mask_field replacement field current = (case current of
      JObj m \<Rightarrow> if map_of m field = None then current
        else (case replacement of None \<Rightarrow> JObj (obj_delete field m) | Some r \<Rightarrow> JObj (obj_set field r m))
    | _ \<Rightarrow> current)"

text \<open>What happens to one object before its children are visited.\<close>

definition mask_here :: "string list \<Rightarrow> string list \<Rightarrow> json option \<Rightarrow> json \<Rightarrow> json" where
  "mask_here bareFields pointers replacement v =
     fold (mask_pointer replacement) pointers (fold (mask_field replacement) bareFields v)"

text \<open>The recursion follows the masked object, so it is bounded by the nesting depth, not by the value itself.\<close>

fun height :: "json \<Rightarrow> nat" where
  "height (JArr xs) = Suc (fold max (map height xs) 0)"
| "height (JObj m) = Suc (fold max (map (\<lambda>p. height (snd p)) m) 0)"
| "height _ = 0"

fun mask_visit :: "nat \<Rightarrow> string list \<Rightarrow> string list \<Rightarrow> json option \<Rightarrow> json \<Rightarrow> json" where
  "mask_visit 0 bareFields pointers replacement v = v"
| "mask_visit (Suc n) bareFields pointers replacement v = (case v of
      JArr xs \<Rightarrow> JArr (map (mask_visit n bareFields pointers replacement) xs)
    | JObj m \<Rightarrow>
        if \<not> is_json_object v then v
        else (case mask_here bareFields pointers replacement v of
            JObj m' \<Rightarrow> if is_json_object (JObj m')
              then JObj (map (\<lambda>(k, c). (k, mask_visit n bareFields pointers replacement c)) m') else JObj m'
          | v' \<Rightarrow> v')
    | _ \<Rightarrow> v)"

definition transformMaskedBody :: "json \<Rightarrow> string list \<Rightarrow> json option \<Rightarrow> json" where
  "transformMaskedBody body paths replacement =
     (if body = JNull \<or> paths = [] then body
      else mask_visit (height body) (remdups (filter (\<lambda>p. \<not> starts_with ''/'' p) paths))
        (filter (starts_with ''/'') paths) replacement body)"

definition maskBody :: "json \<Rightarrow> string list \<Rightarrow> json" where
  "maskBody body paths = transformMaskedBody body paths None"

definition MASKED :: json where
  "MASKED = JStr ''[MASKED]''"

definition maskValues :: "json \<Rightarrow> string list \<Rightarrow> json" where
  "maskValues body paths = transformMaskedBody body paths (Some MASKED)"

subsection \<open>Truncation\<close>

fun truncate_loop :: "nat \<Rightarrow> nat list \<Rightarrow> string" where
  "truncate_loop n bytes = (case utf8_decode (take n bytes) of
      Some s \<Rightarrow> s
    | None \<Rightarrow> (case n of 0 \<Rightarrow> [] | Suc k \<Rightarrow> truncate_loop k bytes))"

declare truncate_loop.simps [simp del]

definition truncateSerializedBody :: "json \<Rightarrow> rat \<Rightarrow> json" where
  "truncateSerializedBody body maxBytes =
     (if body = JNull \<or> maxBytes < 0 then body
      else let encoded = utf8 (json_stringify body); limit = nat \<lfloor>maxBytes\<rfloor>
           in if length encoded \<le> limit then body else JStr (truncate_loop limit encoded))"

subsection \<open>Pagination\<close>

definition queryValue :: "qval option \<Rightarrow> string option" where
  "queryValue v = (case v of
      None \<Rightarrow> None
    | Some (QOne s) \<Rightarrow> Some s
    | Some (QMany ss) \<Rightarrow> (case ss of [] \<Rightarrow> None | s # _ \<Rightarrow> Some s))"

definition isPaginationEnvelope :: "json \<Rightarrow> bool" where
  "isPaginationEnvelope v \<longleftrightarrow> is_json_object v \<and>
     is_arr (obj_get (asObject v) ''items'') \<and>
     (case obj_get (asObject v) ''totalCount'' of JNum _ \<Rightarrow> True | _ \<Rightarrow> False)"

text \<open>\<open>application/x-www-form-urlencoded\<close>, as \<open>URLSearchParams.toString\<close> writes it.\<close>

definition upper_hex :: "nat \<Rightarrow> char" where
  "upper_hex d = (if d < 10 then char_of (48 + d) else char_of (55 + d))"

definition percent :: "nat \<Rightarrow> string" where
  "percent b = [CHR ''%'', upper_hex (b div 16), upper_hex (b mod 16)]"

definition is_alnum :: "char \<Rightarrow> bool" where
  "is_alnum c \<longleftrightarrow> is_digit c \<or> (65 \<le> code c \<and> code c \<le> 90) \<or> (97 \<le> code c \<and> code c \<le> 122)"

definition form_encode :: "string \<Rightarrow> string" where
  "form_encode s = concat (map (\<lambda>c.
     if is_alnum c \<or> c \<in> set ''*-._'' then [c]
     else if c = CHR '' '' then ''+'' else concat (map percent (utf8_char c))) s)"

definition encodeURIComponent :: "string \<Rightarrow> string" where
  "encodeURIComponent s = concat (map (\<lambda>c.
     if is_alnum c \<or> c \<in> set ''-_.!~*()'' \<or> code c = 39 then [c] else concat (map percent (utf8_char c))) s)"

definition search_string :: "(string \<times> string) list \<Rightarrow> string" where
  "search_string ps = js_join ''&'' (map (\<lambda>(k, v). form_encode k @ ''='' @ form_encode v) ps)"

definition queryString :: "query \<Rightarrow> rat \<Rightarrow> rat \<Rightarrow> string" where
  "queryString q offset limit = search_string
     (concat (map (\<lambda>(k, v). if k = ''offset'' \<or> k = ''limit'' \<or> k = ''cursor'' then []
          else (case v of QOne s \<Rightarrow> [(k, s)] | QMany ss \<Rightarrow> map (Pair k) ss)) q)
      @ [(''offset'', num_string offset), (''limit'', num_string limit)])"

text \<open>\<open>Number(v ?? d) || d'\<close> on a finite parameter.\<close>

definition number_or :: "string option \<Rightarrow> rat \<Rightarrow> rat" where
  "number_or v d = (case v of None \<Rightarrow> d
    | Some s \<Rightarrow> (case js_Number s of Fin x \<Rightarrow> if x = 0 then d else x | _ \<Rightarrow> d))"

text \<open>\<open>page?.field ?? d\<close> for the numeric fields of an envelope.\<close>

definition page_num :: "json_object option \<Rightarrow> string \<Rightarrow> rat \<Rightarrow> rat" where
  "page_num page f d = (case page of Some p \<Rightarrow> (case obj_get p f of JNum x \<Rightarrow> x | _ \<Rightarrow> d) | None \<Rightarrow> d)"

definition next_link :: "string \<Rightarrow> string \<Rightarrow> string" where
  "next_link url rel = ''<'' @ url @ ''>; rel='' @ [CHR 0x22] @ rel @ [CHR 0x22]"

definition applyPaginationControl :: "json \<Rightarrow> pagination_style \<Rightarrow> request \<Rightarrow> json \<times> headers" where
  "applyPaginationControl body style rq =
     (let page = (if isPaginationEnvelope body then Some (asObject body) else None);
          items = (case page of
              Some p \<Rightarrow> (case obj_get p ''items'' of JArr xs \<Rightarrow> Some xs | _ \<Rightarrow> None)
            | None \<Rightarrow> (case body of JArr xs \<Rightarrow> Some xs | _ \<Rightarrow> None))
      in case items of None \<Rightarrow> (body, []) | Some xs \<Rightarrow>
        let q = cm_query (rq_command rq); path = cm_path (rq_command rq); len = of_nat (length xs);
            totalCount = page_num page ''totalCount'' len;
            offset = page_num page ''offset'' (number_or (queryValue (map_of q ''offset'')) 0);
            limit = page_num page ''limit'' (number_or (queryValue (map_of q ''limit'')) len);
            hasMore = (case page of Some p \<Rightarrow> (case obj_get p ''hasMore'' of JBool b \<Rightarrow> b | _ \<Rightarrow> offset + len < totalCount)
                        | None \<Rightarrow> offset + len < totalCount);
            cursor = (case page of Some p \<Rightarrow> (case obj_get p ''nextCursor'' of JStr c \<Rightarrow> Some c | _ \<Rightarrow> None) | None \<Rightarrow> None)
        in (case style of
            Envelope \<Rightarrow> (JObj ([(''items'', JArr xs), (''totalCount'', JNum totalCount), (''offset'', JNum offset),
                (''limit'', JNum limit), (''hasMore'', JBool hasMore)]
                @ (case cursor of None \<Rightarrow> [] | Some c \<Rightarrow> [(''nextCursor'', JStr c)])), [])
          | LinkHeader \<Rightarrow>
              let next = (if hasMore \<and> 0 < limit then
                    [next_link (path @ ''?'' @ (case cursor of
                        None \<Rightarrow> queryString q (offset + len) limit
                      | Some c \<Rightarrow> search_string (obj_set ''cursor'' c (obj_from_entries
                          (map (\<lambda>(k, v). (k, case queryValue (Some v) of Some s \<Rightarrow> s | None \<Rightarrow> [])) q))))) ''next'']
                    else []);
                  prev = (if 0 < offset \<and> 0 < limit then
                    [next_link (path @ ''?'' @ queryString q (max 0 (offset - limit)) limit) ''prev''] else [])
              in (JArr xs, (''X-Total-Count'', num_string totalCount)
                    # (if next @ prev = [] then [] else [(''Link'', js_join '', '' (next @ prev))]))
          | Raw \<Rightarrow> (JArr xs, [])))"

subsection \<open>Alternate representations\<close>

definition self_link :: "string \<Rightarrow> json" where
  "self_link self = JObj [(''href'', JStr self)]"

definition format_hal :: "json \<Rightarrow> string \<Rightarrow> json" where
  "format_hal body path =
     (let self = takeWhile (\<lambda>c. c \<noteq> CHR ''?'') path
      in if body = JNull then JNull
         else case body of
             JArr xs \<Rightarrow> JObj [(''_embedded'', JObj [(''items'', body)]), (''_links'', JObj [(''self'', self_link self)])]
           | JObj m \<Rightarrow>
               if isPaginationEnvelope body
               then JObj ([(''_embedded'', JObj [(''items'', obj_get m ''items'')]),
                      (''_links'', JObj [(''self'', self_link self)]),
                      (''totalCount'', obj_get m ''totalCount''), (''offset'', obj_get m ''offset''),
                      (''limit'', obj_get m ''limit''), (''hasMore'', obj_get m ''hasMore'')]
                    @ (if obj_get m ''nextCursor'' = JUndef then [] else [(''nextCursor'', obj_get m ''nextCursor'')]))
               else if is_json_object body
               then JObj (obj_set ''_links'' (JObj (obj_spread [(''self'', self_link self)]
                      (asObject (obj_get m ''_links'')))) m)
               else body
           | _ \<Rightarrow> body)"

definition jsonapi_resource :: "string \<Rightarrow> json \<Rightarrow> json" where
  "jsonapi_resource resourceType v =
     (if \<not> is_json_object v then JObj [(''type'', JStr resourceType), (''attributes'', v)]
      else let m = asObject v
           in JObj ([(''type'', JStr resourceType)]
                @ (case obj_get m ''id'' of JStr s \<Rightarrow> [(''id'', JStr s)] | JNum x \<Rightarrow> [(''id'', JStr (num_string x))] | _ \<Rightarrow> [])
                @ [(''attributes'', JObj (obj_delete ''id'' m))]))"

definition format_jsonapi :: "json \<Rightarrow> string \<Rightarrow> json" where
  "format_jsonapi body resourceType =
     (if body = JNull then JNull
      else case body of
          JArr xs \<Rightarrow> JObj [(''data'', JArr (map (jsonapi_resource resourceType) xs))]
        | _ \<Rightarrow>
            if isPaginationEnvelope body
            then let m = asObject body
                 in JObj [(''data'', (case obj_get m ''items'' of JArr xs \<Rightarrow> JArr (map (jsonapi_resource resourceType) xs) | v \<Rightarrow> v)),
                      (''meta'', JObj [(''totalCount'', obj_get m ''totalCount''), (''offset'', obj_get m ''offset''),
                         (''limit'', obj_get m ''limit''), (''hasMore'', obj_get m ''hasMore'')])]
            else JObj [(''data'', jsonapi_resource resourceType body)])"

definition applyResponseFormat :: "json \<Rightarrow> response_format \<Rightarrow> string \<Rightarrow> string \<Rightarrow> json" where
  "applyResponseFormat body fmt resourceType path = (case fmt of
      Plain \<Rightarrow> body | Hal \<Rightarrow> format_hal body path | JsonApi \<Rightarrow> format_jsonapi body resourceType)"

subsection \<open>Debug envelope and decoration\<close>

definition opt_str :: "string option \<Rightarrow> json" where
  "opt_str s = (case s of Some t \<Rightarrow> JStr t | None \<Rightarrow> JNull)"

definition intent_string :: "intent \<Rightarrow> string" where
  "intent_string i = (case i of Creation \<Rightarrow> ''creation'' | Mutation \<Rightarrow> ''mutation'' | Query \<Rightarrow> ''query'')"

definition debug_event :: "string list \<Rightarrow> domain_event \<Rightarrow> json" where
  "debug_event masks e = JObj [(''eventId'', JStr (ev_id e)), (''type'', JStr (ev_type e)),
     (''aggregateId'', JStr (ev_aggregate e)), (''sequenceVersion'', JNum (of_nat (ev_version e))),
     (''timestamp'', JStr (ev_timestamp e)), (''payload'', maskBody (JObj (ev_payload e)) masks),
     (''causedBy'', opt_str (ev_causedBy e))]"

definition applyDebugEnvelope :: "json \<Rightarrow> request \<Rightarrow> boundary \<Rightarrow> domain_event list \<Rightarrow> json" where
  "applyDebugEnvelope body rq bd events =
     (let c = ctl rq
      in if \<not> rc_includeEvents c \<and> \<not> rc_echo c then body
         else let base = (if is_json_object body then asObject body else [(''value'', body)]);
                  masks = bd_mask bd @ (case bd_response bd of Some p \<Rightarrow> rp_mask p | None \<Rightarrow> []);
                  base = (if rc_includeEvents c then obj_set ''_events'' (JArr (map (debug_event masks) events)) base else base);
                  cm = rq_command rq;
                  base = (if rc_echo c then obj_set ''_debug'' (JObj [(''boundary'', JStr (bd_name bd)),
                      (''intent'', JStr (intent_string (cm_intent cm))), (''targetId'', opt_str (cm_target cm)),
                      (''dryRun'', JBool (rc_dryRun c)), (''method'', JStr (cm_method cm)), (''path'', JStr (cm_path cm))]) base
                    else base)
              in JObj base)"

definition addSecurityHeaders :: "headers \<Rightarrow> security_headers option \<Rightarrow> headers" where
  "addSecurityHeaders hs security = (case security of
      None \<Rightarrow> hs
    | Some s \<Rightarrow>
        if sh_enabled s = Some False then hs
        else obj_spread hs (
            (if sh_nosniff s then [(''X-Content-Type-Options'', ''nosniff'')] else [])
          @ (if sh_frameDeny s then [(''X-Frame-Options'', ''DENY'')] else [])
          @ (if sh_hsts s then [(''Strict-Transport-Security'', ''max-age=31536000''
                @ (if sh_includeSubDomains s = Some False then [] else ''; includeSubDomains''))] else [])
          @ (case sh_referrerPolicy s of Some p \<Rightarrow> if p = [] then [] else [(''Referrer-Policy'', p)] | None \<Rightarrow> [])
          @ (case sh_customHeaders s of Some c \<Rightarrow> c | None \<Rightarrow> [])))"

definition control_headers :: "request \<Rightarrow> headers" where
  "control_headers rq = (let c = ctl rq in
       (if rc_dryRun c then [(''X-Potemkin-Dry-Run'', ''true'')] else [])
     @ (case rc_traceId c of Some t \<Rightarrow> [(''X-Potemkin-Trace-Id'', t)] | None \<Rightarrow> [])
     @ (case rc_spanName c of Some t \<Rightarrow> [(''X-Potemkin-Span-Name'', t)] | None \<Rightarrow> []))"

definition truncate_control :: "request \<Rightarrow> json \<Rightarrow> json" where
  "truncate_control rq body = (case rc_bodyTruncateBytes (ctl rq) of
      Some n \<Rightarrow> if 0 \<le> n then truncateSerializedBody body n else body
    | None \<Rightarrow> body)"

definition decorateStandaloneResponse :: "execution_result \<Rightarrow> request \<Rightarrow> security_headers option \<Rightarrow> execution_result" where
  "decorateStandaloneResponse r rq security =
     r\<lparr>xr_headers := obj_spread (addSecurityHeaders (xr_headers r) security) (control_headers rq),
       xr_body := truncate_control rq (case rc_maskFields (ctl rq) of
          None \<Rightarrow> xr_body r | Some fs \<Rightarrow> maskValues (xr_body r) fs)\<rparr>"

end
