(* ===== verification/ResponseLaws.thy ===== *)
theory ResponseLaws
  imports ResponsePolicies PatchProps
begin

text \<open>
  Laws of response shaping: what masking guarantees about every object of a body, why the nesting
  depth is enough fuel for it, and the bounds of truncation.
\<close>

subsection \<open>Strict removals and replacements, at any pointer\<close>

lemma walk_strict_parent:
  "walk False d (q @ [k]) v = Inr (c, n) \<Longrightarrow> get_path q v \<noteq> None"
proof (induction q arbitrary: d v c n)
  case Nil
  then show ?case by simp
next
  case (Cons a q)
  obtain b r where br: "q @ [k] = b # r" by (cases "q @ [k]") auto
  from Cons show ?case
    by (cases v) (auto simp: br split: option.splits if_splits)
qed

text \<open>The container without one child.\<close>

definition del_child :: "nav \<Rightarrow> json \<Rightarrow> json" where
  "del_child n = (case n of ArrNav _ i _ \<Rightarrow> on_arr (arr_remove i) | ObjNav _ k _ \<Rightarrow> on_obj (obj_delete k))"

lemma removeAt_push_steps:
  "removeAt (push_steps l n) v = modify_loc (l @ nav_loc n) (del_child n) v"
  by (cases n) (simp_all add: del_child_def)

lemma strict_remove_form:
  assumes "applyOne st (PRemove path) i False = Inr st'"
  shows "\<exists>q n. nav_loc n = [] \<and> st' = upd_path q (del_child n) st"
proof -
  from assms obtain segs c n where *: "navigate st segs OpRemove i False = Inr (c, n)" "st' = removeAt n c"
    by (auto simp: applyOne_def Let_def split: if_splits)
  then have w: "walk False 0 segs st = Inr (c, n)" and ne: "segs \<noteq> []" by (auto dest: navigate_InrD)
  obtain q k where q: "segs = q @ [k]" using ne by (cases segs rule: rev_cases) auto
  then obtain u where u: "get_path q st = Some u" using walk_strict_parent[of 0 q k st] w by auto
  from walk_prefix[OF u, of 0 k] w q obtain n0 where n0: "leaf_nav k u = Inr n0" "c = st" "n = push_steps (path_loc q st) n0"
    by auto
  have "nav_loc n0 = []" using n0(1) by (auto simp: leaf_nav_def split: json.splits if_splits option.splits)
  with * n0 modify_path_loc[OF u] show ?thesis by (auto simp: removeAt_push_steps)
qed

lemma upd_path_preserves:
  assumes f: "\<And>x. Q (f x) \<or> \<not> Q x"
    and arr: "\<And>xs. Q (JArr xs) \<longleftrightarrow> (\<forall>x\<in>set xs. Q x)"
    and obj: "\<And>m. Q (JObj m) \<longleftrightarrow> K m \<and> (\<forall>x\<in>snd ` set m. Q x)"
    and set_K: "\<And>m k v. K m \<Longrightarrow> K (obj_set k v m)"
    and Q: "Q v"
  shows "Q (upd_path p f v)"
  using Q
proof (induction p v rule: get_path.induct)
  case (1 v)
  then show ?case using f by auto
next
  case (2 s p v)
  show ?case
  proof (cases v)
    case (JArr xs)
    show ?thesis
    proof (cases "js_parseInt s")
      case (Some i)
      have "Q x" if "x \<in> set (xs[nat i := upd_path p f (xs ! nat i)])" "0 \<le> i" "nat i < length xs" for x
      proof -
        have "x = upd_path p f (xs ! nat i) \<or> x \<in> set xs" using set_update_subset_insert[of xs "nat i"] that(1) by fastforce
        then show "Q x" using 2(1)[OF JArr Some] that 2(3) JArr arr by auto
      qed
      with JArr Some 2(3) arr show ?thesis by auto
    qed (use JArr 2 in simp)
  next
    case (JObj m)
    show ?thesis
    proof (cases "map_of m s")
      case (Some w)
      then have w: "w \<in> snd ` set m" by (force dest: map_of_SomeD)
      then have "Q (upd_path p f w)" using 2(2)[OF JObj Some] 2(3) JObj obj by auto
      then have "Q x" if "x \<in> snd ` set (obj_set s (upd_path p f w) m)" for x
        using snd_set_obj_set[OF that] 2(3) JObj obj by auto
      with JObj Some 2(3) obj set_K show ?thesis by auto
    qed (use JObj 2 in simp)
  qed (use 2 in auto)
qed

lemma upd_path_at [simp]:
  "upd_path (s # p) f (JArr xs) = (case js_parseInt s of
      Some i \<Rightarrow> if 0 \<le> i \<and> nat i < length xs then JArr (xs[nat i := upd_path p f (xs ! nat i)]) else JArr xs
    | None \<Rightarrow> JArr xs)"
  "upd_path (s # p) f (JObj m) =
     (case map_of m s of Some w \<Rightarrow> JObj (obj_set s (upd_path p f w) m) | None \<Rightarrow> JObj m)"
  "\<not> is_container v \<Longrightarrow> upd_path (s # p) f v = v"
  by (auto simp: is_container_def split: json.splits)

declare upd_path.simps(2) [simp del]

lemma put_at_existing:
  "get_path segs v = Some w \<Longrightarrow> segs \<noteq> [] \<Longrightarrow> put_at segs x v = upd_path segs (\<lambda>_. x) v"
proof (induction segs x v rule: put_at.induct)
  case (2 s x v)
  then show ?case
    by (cases v) (auto simp: arr_write_in js_parseInt_def is_ws_def code_def split: option.splits if_splits)
next
  case (3 s t p x v)
  show ?case
  proof (cases v)
    case (JArr xs)
    with 3(3) obtain i where i: "js_parseInt s = Some i" "0 \<le> i" "nat i < length xs"
      "get_path (t # p) (xs ! nat i) = Some w"
      by (auto split: option.splits if_splits)
    then have "put_at (t # p) x (xs ! nat i) = upd_path (t # p) (\<lambda>_. x) (xs ! nat i)"
      using 3(1)[OF JArr i(1)] by simp
    with JArr i show ?thesis by (simp add: arr_write_in)
  next
    case (JObj m)
    with 3(3) obtain u where u: "map_of m s = Some u" "get_path (t # p) u = Some w"
      by (auto split: option.splits)
    then have "put_at (t # p) x u = upd_path (t # p) (\<lambda>_. x) u"
      using 3(2)[OF JObj] by simp
    with JObj u show ?thesis by simp
  qed (use 3 in simp_all)
qed simp

lemma strict_replace_form:
  assumes "applyOne st (PReplace path x) i False = Inr st'"
  shows "\<exists>q. q \<noteq> [] \<and> st' = upd_path q (\<lambda>_. x) st"
proof -
  from assms obtain segs c n where *: "navigate st segs OpReplace i False = Inr (c, n)" "st' = writeAt n x c"
    "nav_exists n" "segs \<noteq> []"
    by (auto simp: applyOne_def Let_def split: if_splits)
  then obtain w where "get_path segs st = Some w" using navigate_strict by blast
  with * put_at_existing[of segs st w x] navigate_write[OF *(1)] show ?thesis by auto
qed

subsection \<open>One object\<close>

text \<open>The edits a mask makes inside an object: at some path, drop a child or put the replacement.\<close>

definition mask_edit :: "json option \<Rightarrow> (json \<Rightarrow> json) \<Rightarrow> bool" where
  "mask_edit r f \<longleftrightarrow> (case r of None \<Rightarrow> (\<exists>n. nav_loc n = [] \<and> f = del_child n) | Some x \<Rightarrow> f = (\<lambda>_. x))"

lemma mask_pointer_form:
  "mask_pointer r path v = v \<or>
     (\<exists>q f. mask_edit r f \<and> mask_pointer r path v = upd_path q f v \<and> (q = [] \<longrightarrow> r = None))"
proof (cases r)
  case None
  show ?thesis
  proof (cases "applyPatches v [PRemove path] SrcMask False")
    case (Inr a)
    then have "applyOne v (PRemove path) 0 False = Inr (newState a)" by (auto simp: applyPatches_def)
    from strict_remove_form[OF this] Inr None show ?thesis by (auto simp: mask_pointer_def mask_edit_def)
  qed (simp add: mask_pointer_def None)
next
  case (Some x)
  show ?thesis
  proof (cases "applyPatches v [PReplace path x] SrcMask False")
    case (Inr a)
    then have "applyOne v (PReplace path x) 0 False = Inr (newState a)" by (auto simp: applyPatches_def)
    from strict_replace_form[OF this] Inr Some show ?thesis by (auto simp: mask_pointer_def mask_edit_def)
  qed (simp add: mask_pointer_def Some)
qed

definition scalar_opt :: "json option \<Rightarrow> bool" where
  "scalar_opt r \<longleftrightarrow> (\<forall>x. r = Some x \<longrightarrow> \<not> is_container x \<and> json_ok x)"

lemma fold_max_le: "fold max xs (a::nat) \<le> n \<longleftrightarrow> a \<le> n \<and> (\<forall>x\<in>set xs. x \<le> n)"
  by (induction xs arbitrary: a) auto

lemma height_le [simp]:
  "height (JArr xs) \<le> n \<longleftrightarrow> (\<exists>k. n = Suc k \<and> (\<forall>x\<in>set xs. height x \<le> k))"
  "height (JObj m) \<le> n \<longleftrightarrow> (\<exists>k. n = Suc k \<and> (\<forall>x\<in>snd ` set m. height x \<le> k))"
  by (cases n; auto simp: fold_max_le)+

lemma height_nonzero [simp]: "height (JArr xs) \<noteq> 0" "height (JObj m) \<noteq> 0"
  by simp_all

declare height.simps(1,2) [simp del]

lemma height_scalar: "\<not> is_container v \<Longrightarrow> height v = 0"
  by (cases v) auto

lemma set_arr_remove: "set (arr_remove i xs) \<subseteq> set xs"
  by (auto simp: arr_remove_def dest: in_set_takeD in_set_dropD)

lemma edit_height: "mask_edit r f \<Longrightarrow> scalar_opt r \<Longrightarrow> height v \<le> n \<Longrightarrow> height (f v) \<le> n"
proof -
  assume r: "mask_edit r f" "scalar_opt r" and h: "height v \<le> n"
  show ?thesis
  proof (cases r)
    case None
    then obtain d where "f = del_child d" using r by (auto simp: mask_edit_def)
    then show ?thesis using h set_arr_remove set_delete_subset
      by (cases v; cases d) (fastforce simp: del_child_def on_arr_def on_obj_def obj_delete_def)+
  next
    case (Some x)
    then show ?thesis using r by (auto simp: mask_edit_def scalar_opt_def height_scalar)
  qed
qed

lemma edit_json_ok: "mask_edit r f \<Longrightarrow> scalar_opt r \<Longrightarrow> json_ok v \<Longrightarrow> json_ok (f v)"
proof -
  assume r: "mask_edit r f" "scalar_opt r" and h: "json_ok v"
  show ?thesis
  proof (cases r)
    case None
    then obtain d where d: "f = del_child d" using r by (auto simp: mask_edit_def)
    show ?thesis
    proof (cases v)
      case (JArr xs)
      then show ?thesis using h d set_arr_remove
        by (cases d) (fastforce simp: del_child_def on_arr_def on_obj_def list_all_iff)+
    next
      case (JObj m)
      then show ?thesis using h d json_ok_obj_delete[of m]
        by (cases d) (auto simp: del_child_def on_arr_def on_obj_def)
    qed (use h d in \<open>cases d; auto simp: del_child_def on_arr_def on_obj_def\<close>)+
  next
    case (Some x)
    then show ?thesis using r by (auto simp: mask_edit_def scalar_opt_def)
  qed
qed

lemma edit_scalar: "mask_edit r f \<Longrightarrow> r = Some x \<Longrightarrow> f x = x"
  by (simp add: mask_edit_def)

lemma upd_path_height:
  assumes "\<And>x n. height x \<le> n \<Longrightarrow> height (f x) \<le> n"
  shows "height v \<le> n \<Longrightarrow> height (upd_path p f v) \<le> n"
proof (induction p v arbitrary: n rule: get_path.induct)
  case (1 v)
  then show ?case using assms by simp
next
  case (2 s p v)
  show ?case
  proof (cases v)
    case (JArr xs)
    have "height x \<le> k" if "x \<in> set (xs[nat i := upd_path p f (xs ! nat i)])" "0 \<le> i" "nat i < length xs"
      "js_parseInt s = Some i" "\<forall>x\<in>set xs. height x \<le> k" for x i k
      using 2(1)[OF JArr that(4), of k] that set_update_subset_insert[of xs "nat i"] by fastforce
    with JArr 2(3) show ?thesis by (auto split: option.splits)
  next
    case (JObj m)
    have "height x \<le> k" if "x \<in> snd ` set (obj_set s (upd_path p f w) m)" "map_of m s = Some w"
      "\<forall>x\<in>snd ` set m. height x \<le> k" for x w k
      using snd_set_obj_set[OF that(1)] 2(2)[OF JObj that(2), of k] that(2,3) by (force dest: map_of_SomeD)
    with JObj 2(3) show ?thesis by (fastforce split: option.splits)
  qed (use 2 in auto)
qed

lemma upd_path_json_ok:
  assumes "\<And>x. json_ok x \<Longrightarrow> json_ok (f x)" and "json_ok v"
  shows "json_ok (upd_path p f v)"
proof (rule upd_path_preserves[where K = keys_distinct and Q = json_ok, OF _ _ _ _ assms(2)])
  show "json_ok (f x) \<or> \<not> json_ok x" for x using assms(1) by blast
  show "json_ok (JArr xs) \<longleftrightarrow> (\<forall>x\<in>set xs. json_ok x)" for xs by (simp add: list_all_iff)
  show "json_ok (JObj m) \<longleftrightarrow> keys_distinct m \<and> (\<forall>x\<in>snd ` set m. json_ok x)" for m
    by (simp add: list_all_iff)
  show "keys_distinct (obj_set k v m)" if "keys_distinct m" for m :: json_object and k v
    using that by (rule keys_distinct_obj_set)
qed

subsection \<open>Masking hides\<close>

text \<open>Every property of the given name, at any depth, is absent (or, with a replacement, is the replacement).\<close>

fun hidden :: "json option \<Rightarrow> string \<Rightarrow> json \<Rightarrow> bool" where
  "hidden r f (JArr xs) = list_all (hidden r f) xs"
| "hidden r f (JObj m) = ((case map_of m f of None \<Rightarrow> True | Some v \<Rightarrow> r = Some v) \<and> list_all (\<lambda>p. hidden r f (snd p)) m)"
| "hidden r f v = True"

definition covered :: "json option \<Rightarrow> string \<Rightarrow> json_object \<Rightarrow> bool" where
  "covered r f m \<longleftrightarrow> (case map_of m f of None \<Rightarrow> True | Some v \<Rightarrow> r = Some v)"

text \<open>The value during \<open>mask_here\<close>: still a well-formed object of the same depth that covers the fields done.\<close>

definition masking :: "json option \<Rightarrow> string set \<Rightarrow> nat \<Rightarrow> json \<Rightarrow> bool" where
  "masking r F n v \<longleftrightarrow> (\<exists>m. v = JObj m \<and> json_ok v \<and> height v \<le> n \<and> (\<forall>f\<in>F. covered r f m))"

lemma masking_field:
  assumes "masking r F n v" and "scalar_opt r"
  shows "masking r (insert f F) n (mask_field r f v)"
proof -
  obtain m where m: "v = JObj m" "json_ok (JObj m)" "height (JObj m) \<le> n" "\<forall>f\<in>F. covered r f m"
    using assms(1) by (auto simp: masking_def)
  show ?thesis
  proof (cases "map_of m f = None \<or> r = None")
    case True
    define m' where "m' = (if map_of m f = None then m else obj_delete f m)"
    have "mask_field r f v = JObj m'" using True m(1) by (auto simp: mask_field_def m'_def)
    moreover have "json_ok (JObj m')" using m(2) json_ok_obj_delete[of m f] by (simp add: m'_def del: json_ok.simps)
    moreover have "set m' \<subseteq> set m" using set_delete_subset[of f m] by (simp add: m'_def obj_delete_def)
    then have "height (JObj m') \<le> n" using m(3) by fastforce
    moreover have "\<forall>g\<in>insert f F. covered r g m'" using m(4) by (auto simp: covered_def m'_def)
    ultimately show ?thesis by (auto simp: masking_def simp del: json_ok.simps height_le)
  next
    case False
    then obtain x where x: "r = Some x" by auto
    then have s: "\<not> is_container x" "json_ok x" using assms(2) by (simp_all add: scalar_opt_def)
    have "mask_field r f v = JObj (obj_set f x m)" using False m(1) x by (auto simp: mask_field_def)
    moreover have "json_ok (JObj (obj_set f x m))" by (rule json_ok_obj_set[OF m(2) s(2)])
    moreover have "height (JObj (obj_set f x m)) \<le> n"
    proof -
      obtain k where k: "n = Suc k" "\<forall>y\<in>snd ` set m. height y \<le> k" using m(3) by auto
      have "height y \<le> k" if "y \<in> snd ` set (obj_set f x m)" for y
        using snd_set_obj_set[OF that] k(2) height_scalar[OF s(1)] by auto
      then show ?thesis using k(1) by simp
    qed
    moreover have "\<forall>g\<in>insert f F. covered r g (obj_set f x m)" using m(4) x by (auto simp: covered_def)
    ultimately show ?thesis by (auto simp: masking_def simp del: json_ok.simps height_le)
  qed
qed

lemma masking_edit:
  assumes "masking r F n v" and "scalar_opt r" and "mask_edit r f" and "p = [] \<longrightarrow> r = None"
  shows "masking r F n (upd_path p f v)"
proof -
  obtain m where m: "v = JObj m" "json_ok (JObj m)" "height (JObj m) \<le> n" "\<forall>f\<in>F. covered r f m"
    using assms(1) by (auto simp: masking_def)
  have ok: "json_ok (upd_path p f v)"
    using edit_json_ok[OF assms(3,2)] m(1,2) by (intro upd_path_json_ok) simp_all
  have ht: "height (upd_path p f v) \<le> n"
    using edit_height[OF assms(3,2)] m(1,3) by (intro upd_path_height) simp_all
  have "\<exists>m'. upd_path p f v = JObj m' \<and> (\<forall>g\<in>F. covered r g m')"
  proof (cases p)
    case Nil
    then obtain d where "f = del_child d" using assms(3,4) by (auto simp: mask_edit_def)
    then show ?thesis using Nil m(1,4)
      by (cases d) (auto simp: del_child_def on_arr_def on_obj_def covered_def)
  next
    case (Cons s q)
    show ?thesis
    proof (cases "map_of m s")
      case None
      then show ?thesis using Cons m(1,4) by simp
    next
      case (Some w)
      have "covered r g (obj_set s (upd_path q f w) m)" if g: "g \<in> F" for g
      proof (cases "g = s")
        case True
        then have w: "r = Some w" using m(4) g Some by (auto simp: covered_def)
        then have "\<not> is_container w" using assms(2) by (simp add: scalar_opt_def)
        then have "upd_path q f w = w" using edit_scalar[OF assms(3) w] by (cases q) simp_all
        then show ?thesis using True w by (simp add: covered_def)
      next
        case False
        then show ?thesis using m(4) g by (simp add: covered_def)
      qed
      then show ?thesis using Cons m(1) Some by simp
    qed
  qed
  with ok ht show ?thesis unfolding masking_def by metis
qed

lemma masking_pointer:
  "masking r F n v \<Longrightarrow> scalar_opt r \<Longrightarrow> masking r F n (mask_pointer r p v)"
  using mask_pointer_form[of r p v] masking_edit by metis

lemma masking_here:
  assumes "json_ok (JObj m)" and "height (JObj m) \<le> n" and "scalar_opt r"
  shows "masking r (set bare) n (mask_here bare ptrs r (JObj m))"
proof -
  have "masking r F n v \<Longrightarrow> masking r (F \<union> set bare) n (fold (mask_field r) bare v)" for F v
  proof (induction bare arbitrary: F v)
    case (Cons f bare)
    show ?case using Cons.IH[OF masking_field[OF Cons.prems assms(3)]] by simp
  qed simp
  from this[of "{}"] have a: "masking r (set bare) n (fold (mask_field r) bare (JObj m))"
    using assms by (simp add: masking_def del: json_ok.simps height_le)
  have "masking r F n v \<Longrightarrow> masking r F n (fold (mask_pointer r) ptrs v)" for F v
    by (induction ptrs arbitrary: v) (simp_all add: masking_pointer assms(3))
  from this[OF a] show ?thesis by (simp add: mask_here_def)
qed

lemma mask_visit_scalar: "\<not> is_container v \<Longrightarrow> mask_visit n bare ptrs r v = v"
  by (cases n; cases v) auto

lemma mask_visit_hides:
  assumes "scalar_opt r" and "f \<in> set bare"
  shows "height v \<le> n \<Longrightarrow> json_ok v \<Longrightarrow> hidden r f (mask_visit n bare ptrs r v)"
proof (induction n arbitrary: v)
  case 0
  then have "\<not> is_container v" by (cases v) auto
  then show ?case by (cases v) auto
next
  case (Suc n)
  show ?case
  proof (cases v)
    case (JArr xs)
    with Suc show ?thesis by (auto simp: list_all_iff)
  next
    case (JObj m)
    have j: "is_json_object (JObj m)" using Suc.prems(2) JObj json_ok_is_json[of v] by (simp add: is_json_object_def)
    from masking_here[OF _ _ assms(1), of m "Suc n" bare ptrs] Suc.prems JObj
    have "masking r (set bare) (Suc n) (mask_here bare ptrs r (JObj m))" by (simp del: json_ok.simps height_le)
    then obtain m' where m': "mask_here bare ptrs r (JObj m) = JObj m'" "json_ok (JObj m')"
      "height (JObj m') \<le> Suc n" "covered r f m'"
      using assms(2) unfolding masking_def by metis
    have j': "is_json_object (JObj m')" using json_ok_is_json[OF m'(2)] by (simp add: is_json_object_def)
    let ?g = "\<lambda>(k, c). (k, mask_visit n bare ptrs r c)"
    have eq: "mask_visit (Suc n) bare ptrs r v = JObj (map ?g m')" using JObj j m'(1) j' by simp
    have "map_of (map ?g m') f = map_option (mask_visit n bare ptrs r) (map_of m' f)"
      by (simp add: map_of_map[symmetric] case_prod_unfold comp_def) (induction m'; auto)
    moreover have "mask_visit n bare ptrs r x = x" if "r = Some x" for x
      using that assms(1) by (intro mask_visit_scalar) (simp add: scalar_opt_def)
    ultimately have "case map_of (map ?g m') f of None \<Rightarrow> True | Some x \<Rightarrow> r = Some x"
      using m'(4) by (auto simp: covered_def split: option.splits)
    moreover have "hidden r f (snd p)" if "p \<in> set (map ?g m')" for p
      using that Suc.IH m'(2,3) by (fastforce simp: list_all_iff)
    ultimately show ?thesis unfolding eq hidden.simps list_all_iff by blast
  qed (use mask_visit_scalar[of v] in auto)
qed

subsection \<open>Truncation\<close>

lemma truncate_loop_spec:
  "\<exists>k \<le> n. utf8_decode (take k bytes) = Some (truncate_loop n bytes)"
proof (induction n)
  case 0
  have "truncate_loop 0 bytes = []" by (subst truncate_loop.simps) simp
  then show ?case by (intro exI[of _ 0]) simp
next
  case (Suc n)
  show ?case
  proof (cases "utf8_decode (take (Suc n) bytes)")
    case None
    then have "truncate_loop (Suc n) bytes = truncate_loop n bytes" by (subst truncate_loop.simps) simp
    with Suc show ?thesis by (metis le_SucI)
  next
    case (Some s)
    then have "truncate_loop (Suc n) bytes = s" by (subst truncate_loop.simps) simp
    with Some show ?thesis by blast
  qed
qed

lemma utf8_decode_take:
  "utf8_decode (take k (utf8 s)) = Some t \<Longrightarrow> \<exists>u. s = t @ u \<and> utf8 t = take k (utf8 s)"
proof (induction s arbitrary: k t)
  case Nil
  then show ?case by (simp add: utf8_def)
next
  case (Cons c s)
  have len: "length (utf8_char c) = 1 \<or> length (utf8_char c) = 2" by (simp add: utf8_char_def)
  have split: "utf8 (c # s) = utf8_char c @ utf8 s" by (simp add: utf8_def)
  show ?case
  proof (cases "k < length (utf8_char c)")
    case True
    then consider "k = 0" | "k = 1" "length (utf8_char c) = 2" using len by linarith
    then show ?thesis
    proof cases
      case 1
      then show ?thesis using Cons.prems by (simp add: utf8_def)
    next
      case 2
      then have "take k (utf8 (c # s)) = [192 + code c div 64]"
        by (simp add: split utf8_char_def split: if_splits)
      then show ?thesis using Cons.prems by simp
    qed
  next
    case False
    then have tk: "take k (utf8 (c # s)) = utf8_char c @ take (k - length (utf8_char c)) (utf8 s)"
      by (simp add: split)
    with Cons.prems obtain t' where t': "t = c # t'" "utf8_decode (take (k - length (utf8_char c)) (utf8 s)) = Some t'"
      by (auto simp: utf8_decode_char)
    from Cons.IH[OF t'(2)] obtain u where "s = t' @ u" "utf8 t' = take (k - length (utf8_char c)) (utf8 s)" by blast
    with t'(1) tk show ?thesis by (auto simp: utf8_def)
  qed
qed

lemma truncated_prefix:
  "\<exists>u. s = truncate_loop n (utf8 s) @ u \<and> length (utf8 (truncate_loop n (utf8 s))) \<le> n"
  using truncate_loop_spec[of n "utf8 s"] utf8_decode_take[of _ s "truncate_loop n (utf8 s)"]
  by (metis le_trans length_take min.cobounded2 min.cobounded1)

subsection \<open>Properties\<close>

text \<open>C34: a masked field never leaves the runtime.  For a well-formed body, \<open>maskBody\<close> with a bare
  field name leaves no property of that name at any depth, whatever pointers are masked with it.\<close>

theorem maskBody_removes_field:
  assumes "json_ok body" and "f \<in> set paths" and "\<not> starts_with ''/'' f"
  shows "hidden None f (maskBody body paths)"
proof (cases "body = JNull")
  case False
  then show ?thesis
    using assms mask_visit_hides[of None f "remdups (filter (\<lambda>p. \<not> starts_with ''/'' p) paths)" body "height body"]
    by (auto simp: maskBody_def transformMaskedBody_def scalar_opt_def)
qed (simp add: maskBody_def transformMaskedBody_def)

theorem maskBody_removes_field_witness:
  "hidden None ''ssn'' (maskBody (JArr [JObj [(''ssn'', JStr ''1''), (''kin'', JObj [(''ssn'', JStr ''2'')])]]) [''/kin/x'', ''ssn''])"
  by (rule maskBody_removes_field) (simp_all add: starts_with_def)

text \<open>value masking.  With \<open>maskValues\<close> every property of a masked name, at any depth, reads \<open>[MASKED]\<close>.\<close>

theorem maskValues_replaces_field:
  assumes "json_ok body" and "f \<in> set paths" and "\<not> starts_with ''/'' f"
  shows "hidden (Some MASKED) f (maskValues body paths)"
proof (cases "body = JNull")
  case False
  then show ?thesis
    using assms mask_visit_hides[of "Some MASKED" f "remdups (filter (\<lambda>p. \<not> starts_with ''/'' p) paths)" body "height body"]
    by (auto simp: maskValues_def transformMaskedBody_def scalar_opt_def MASKED_def)
qed (simp add: maskValues_def transformMaskedBody_def)

theorem maskValues_replaces_field_witness:
  "hidden (Some MASKED) ''ssn'' (maskValues (JObj [(''ssn'', JArr []), (''k'', JObj [(''ssn'', JBool True)])]) [''ssn''])"
  by (rule maskValues_replaces_field) (simp_all add: starts_with_def)

text \<open>An object that holds an \<open>undefined\<close> value is served unmasked, although serialisation
  drops only the undefined property: the guard \<open>isJsonObject\<close> refuses the whole object.\<close>

theorem maskBody_skips_undefined:
  assumes "(k, JUndef) \<in> set m"
  shows "maskBody (JObj m) paths = JObj m"
proof -
  have "\<not> is_json_object (JObj m)"
    using assms by (force simp: is_json_object_def is_json_props_iff)
  then show ?thesis
    by (cases "height (JObj m)") (simp_all add: maskBody_def transformMaskedBody_def)
qed

theorem maskBody_skips_undefined_witness:
  "maskBody (JObj [(''ssn'', JStr ''1''), (''note'', JUndef)]) [''ssn''] = JObj [(''ssn'', JStr ''1''), (''note'', JUndef)]"
  by (rule maskBody_skips_undefined[of "''note''"]) simp

text \<open>truncation cuts at a code point and keeps the bound.  A truncated body is a prefix of the
  serialised text whose UTF-8 form has at most the requested number of bytes.\<close>

theorem truncate_bounds:
  assumes "truncateSerializedBody body maxBytes \<noteq> body"
  shows "\<exists>t u. truncateSerializedBody body maxBytes = JStr t \<and> json_stringify body = t @ u
    \<and> of_nat (length (utf8 t)) \<le> maxBytes"
proof -
  let ?s = "json_stringify body" and ?n = "nat \<lfloor>maxBytes\<rfloor>"
  have pos: "0 \<le> maxBytes" and eq: "truncateSerializedBody body maxBytes = JStr (truncate_loop ?n (utf8 ?s))"
    using assms by (auto simp: truncateSerializedBody_def Let_def split: if_splits)
  obtain u where u: "?s = truncate_loop ?n (utf8 ?s) @ u" "length (utf8 (truncate_loop ?n (utf8 ?s))) \<le> ?n"
    using truncated_prefix[of ?s ?n] by blast
  have "of_nat (length (utf8 (truncate_loop ?n (utf8 ?s)))) \<le> maxBytes"
    using u(2) pos by linarith
  with eq u(1) show ?thesis by blast
qed

theorem truncate_bounds_witness:
  "\<exists>t u. truncateSerializedBody (JStr ''abcdef'') 3 = JStr t \<and> json_stringify (JStr ''abcdef'') = t @ u
    \<and> of_nat (length (utf8 t)) \<le> (3::rat)"
proof (rule truncate_bounds)
  have "utf8 (json_stringify (JStr ''abcdef'')) = [34, 97, 98, 99, 100, 101, 102, 34]" by code_simp
  then show "truncateSerializedBody (JStr ''abcdef'') 3 \<noteq> JStr ''abcdef''"
    by (simp add: truncateSerializedBody_def truncate_loop.simps numeral_eq_Suc) 
qed

end
