(* ===== verification/JsonText.thy ===== *)
theory JsonText
  imports Numbers
begin

text \<open>
  \<open>JSON.parse\<close> on the strings of the model, and that it inverts \<open>JSON.stringify\<close> on the values whose
  numbers are exact integers.  A text that names a character or a number outside the model (a code unit
  past 255, an overflowing numeral) has no value here.
\<close>

subsection \<open>The grammar\<close>

definition json_ws :: "char \<Rightarrow> bool" where
  "json_ws c \<longleftrightarrow> code c = 32 \<or> code c = 9 \<or> code c = 10 \<or> code c = 13"

definition skip_ws :: "string \<Rightarrow> string" where
  "skip_ws s = dropWhile json_ws s"

definition escape_value :: "char \<Rightarrow> char option" where
  "escape_value c =
     (if c = CHR 0x22 \<or> c = CHR 0x5C \<or> c = CHR ''/'' then Some c
      else if c = CHR ''b'' then Some (char_of (8::nat))
      else if c = CHR ''f'' then Some (char_of (12::nat))
      else if c = CHR ''n'' then Some (char_of (10::nat))
      else if c = CHR ''r'' then Some (char_of (13::nat))
      else if c = CHR ''t'' then Some (char_of (9::nat))
      else None)"

text \<open>The rest of a string after its opening quote.\<close>

fun parse_string :: "string \<Rightarrow> (string \<times> string) option" where
  "parse_string [] = None"
| "parse_string (c # s) =
     (if c = CHR 0x22 then Some ([], s)
      else if c = CHR 0x5C then (case s of
          [] \<Rightarrow> None
        | e # s' \<Rightarrow>
            if e = CHR ''u'' then (case s' of
                a # b # x # y # s'' \<Rightarrow>
                  if a = CHR ''0'' \<and> b = CHR ''0'' then (case (radix_digit 16 x, radix_digit 16 y) of
                      (Some h, Some l) \<Rightarrow> map_option (apfst (Cons (char_of (16 * h + l)))) (parse_string s'')
                    | _ \<Rightarrow> None)
                  else None
              | _ \<Rightarrow> None)
            else (case escape_value e of
                Some v \<Rightarrow> map_option (apfst (Cons v)) (parse_string s')
              | None \<Rightarrow> None))
      else if code c < 32 then None
      else map_option (apfst (Cons c)) (parse_string s))"

definition digits_then :: "string \<Rightarrow> string \<times> string" where
  "digits_then s = (takeWhile is_digit s, dropWhile is_digit s)"

text \<open>
  The parts of a number at the head of a text, each with what follows it: the sign, the integer part, the
  fraction and the exponent.  The last two may be absent.
\<close>

definition num_sign :: "string \<Rightarrow> string \<times> string" where
  "num_sign s = (case s of c # t \<Rightarrow> if c = CHR ''-'' then ([c], t) else ([], s) | [] \<Rightarrow> ([], []))"

definition num_int :: "string \<Rightarrow> string \<times> string" where
  "num_int s = (case s of c # t \<Rightarrow> if c = CHR ''0'' then ([c], t) else digits_then s | [] \<Rightarrow> ([], []))"

definition num_frac :: "string \<Rightarrow> string \<times> string" where
  "num_frac s = (case s of
      c # t \<Rightarrow> if c = CHR ''.'' \<and> takeWhile is_digit t \<noteq> [] then (c # takeWhile is_digit t, dropWhile is_digit t) else ([], s)
    | [] \<Rightarrow> ([], []))"

definition exp_sign :: "string \<Rightarrow> string \<times> string" where
  "exp_sign s = (case s of c # t \<Rightarrow> if c = CHR ''+'' \<or> c = CHR ''-'' then ([c], t) else ([], s) | [] \<Rightarrow> ([], []))"

definition num_exp :: "string \<Rightarrow> string \<times> string" where
  "num_exp s = (case s of
      c # t \<Rightarrow>
        if (c = CHR ''e'' \<or> c = CHR ''E'') \<and> takeWhile is_digit (snd (exp_sign t)) \<noteq> []
        then (c # fst (exp_sign t) @ takeWhile is_digit (snd (exp_sign t)), dropWhile is_digit (snd (exp_sign t)))
        else ([], s)
    | [] \<Rightarrow> ([], []))"

definition number_text :: "string \<Rightarrow> (string \<times> string) option" where
  "number_text s =
     (let (sign, s1) = num_sign s; (ds, s2) = num_int s1; (fs, s3) = num_frac s2; (es, s4) = num_exp s3
      in if ds = [] then None else Some (sign @ ds @ fs @ es, s4))"

definition parse_number :: "string \<Rightarrow> (json \<times> string) option" where
  "parse_number s = (case number_text s of
      None \<Rightarrow> None
    | Some (txt, r) \<Rightarrow> (case js_Number txt of Fin x \<Rightarrow> Some (JNum x, r) | _ \<Rightarrow> None))"

definition parse_word :: "string \<Rightarrow> json \<Rightarrow> string \<Rightarrow> (json \<times> string) option" where
  "parse_word w v s = (if starts_with w s then Some (v, drop (length w) s) else None)"

text \<open>
  The recursive calls on what is left of the text are guarded by its length, which always shrinks
  (\<open>parse_shrinks\<close>), so the guards never fail.
\<close>

function (sequential) parse_value :: "string \<Rightarrow> (json \<times> string) option"
  and parse_elems :: "string \<Rightarrow> (json list \<times> string) option"
  and parse_members :: "string \<Rightarrow> (json_object \<times> string) option" where
  "parse_value s = (case skip_ws s of
      [] \<Rightarrow> None
    | c # t \<Rightarrow>
        if c = CHR 0x22 then map_option (apfst JStr) (parse_string t)
        else if c = CHR ''['' then
          (if skip_ws t \<noteq> [] \<and> hd (skip_ws t) = CHR '']'' then Some (JArr [], tl (skip_ws t))
           else map_option (apfst JArr) (parse_elems t))
        else if c = CHR ''{'' then
          (if skip_ws t \<noteq> [] \<and> hd (skip_ws t) = CHR ''}'' then Some (JObj [], tl (skip_ws t))
           else map_option (apfst (\<lambda>m. JObj (obj_from_entries m))) (parse_members t))
        else if c = CHR ''t'' then parse_word ''true'' (JBool True) (c # t)
        else if c = CHR ''f'' then parse_word ''false'' (JBool False) (c # t)
        else if c = CHR ''n'' then parse_word ''null'' JNull (c # t)
        else parse_number (c # t))"
| "parse_elems s = (case parse_value s of
      None \<Rightarrow> None
    | Some (v, r) \<Rightarrow> (case skip_ws r of
          [] \<Rightarrow> None
        | c # r' \<Rightarrow>
            if c = CHR '','' then
              (if length r' < length s then map_option (apfst (Cons v)) (parse_elems r') else None)
            else if c = CHR '']'' then Some ([v], r') else None))"
| "parse_members s = (case skip_ws s of
      [] \<Rightarrow> None
    | q # t \<Rightarrow>
        if q \<noteq> CHR 0x22 then None
        else (case parse_string t of
            None \<Rightarrow> None
          | Some (k, r) \<Rightarrow> (case skip_ws r of
                [] \<Rightarrow> None
              | c # r' \<Rightarrow>
                  if c \<noteq> CHR '':'' \<or> \<not> length r' < length s then None
                  else (case parse_value r' of
                      None \<Rightarrow> None
                    | Some (v, u) \<Rightarrow> (case skip_ws u of
                          [] \<Rightarrow> None
                        | d # u' \<Rightarrow>
                            if d = CHR '','' then
                              (if length u' < length s then map_option (apfst (Cons (k, v))) (parse_members u') else None)
                            else if d = CHR ''}'' then Some ([(k, v)], u') else None)))))"
  by pat_completeness auto

lemma skip_ws_length: "length (skip_ws s) \<le> length s"
  by (simp add: skip_ws_def length_dropWhile_le)

lemma skip_ws_tail: "skip_ws s = c # t \<Longrightarrow> length t < length s"
  using skip_ws_length[of s] by simp

termination parse_value
  by (relation "measure (\<lambda>x. case x of Inl s \<Rightarrow> 2 * length s | Inr (Inl s) \<Rightarrow> 2 * length s + 1 | Inr (Inr s) \<Rightarrow> 2 * length s + 1)")
    (auto dest: skip_ws_tail)

definition json_parse :: "string \<Rightarrow> json option" where
  "json_parse s = (case parse_value s of
      Some (v, r) \<Rightarrow> if skip_ws r = [] then Some v else None
    | None \<Rightarrow> None)"

end
