(* ===== verification/JsonLaws.thy ===== *)
theory JsonLaws
  imports JsonText
begin

text \<open>
  \<open>JSON.parse\<close> inverts \<open>JSON.stringify\<close>: on a value without \<open>undefined\<close>, whose numbers are integers of at
  most 53 bits and whose objects list their properties in the order JavaScript keeps them, reading the
  text back gives the value.
\<close>

subsection \<open>Strings\<close>

lemma hex_digit_value: "d < 16 \<Longrightarrow> radix_digit 16 (hex_digit d) = Some d"
  by (auto simp: radix_digit_def hex_digit_def is_digit_def code_def)

lemma code_inj: "code c = code d \<longleftrightarrow> c = d"
  by (simp add: code_def)

lemma parse_string_char: "parse_string (quote_char c @ s) = map_option (apfst (Cons c)) (parse_string s)"
proof -
  have small: "code c < 256" by (simp add: code_def)
  have inv: "char_of (code c) = c" by (simp add: code_def)
  show ?thesis
  proof (cases "c = CHR 0x22 \<or> c = CHR 0x5C \<or> code c = 8 \<or> code c = 12 \<or> code c = 10 \<or> code c = 13 \<or> code c = 9")
    case True
    then show ?thesis using inv by (auto simp: quote_char_def escape_value_def)
  next
    case False
    then show ?thesis
    proof (cases "code c < 32")
      case True
      then have "radix_digit 16 (hex_digit (code c div 16)) = Some (code c div 16)"
        "radix_digit 16 (hex_digit (code c mod 16)) = Some (code c mod 16)" by (auto intro: hex_digit_value)
      then show ?thesis using False True inv by (simp add: quote_char_def escape_value_def)
    next
      case ge: False
      then show ?thesis using False by (simp add: quote_char_def)
    qed
  qed
qed

lemma parse_string_quoted: "parse_string (concat (map quote_char s) @ CHR 0x22 # rest) = Some (s, rest)"
  by (induction s) (simp_all add: parse_string_char)

subsection \<open>Numbers\<close>

text \<open>What may follow a value in a text.\<close>

definition ends_value :: "string \<Rightarrow> bool" where
  "ends_value s \<longleftrightarrow> s = [] \<or> hd s = CHR '','' \<or> hd s = CHR '']'' \<or> hd s = CHR ''}''"

lemma ends_value_simps [simp]: "ends_value []" "ends_value (CHR '','' # s)" "ends_value (CHR '']'' # s)" "ends_value (CHR ''}'' # s)"
  by (simp_all add: ends_value_def)

lemma ends_valueE: "ends_value s \<Longrightarrow> s = [] \<or> (\<exists>t. s = CHR '','' # t \<or> s = CHR '']'' # t \<or> s = CHR ''}'' # t)"
  by (cases s) (auto simp: ends_value_def)

lemma dec_head: "0 < n \<Longrightarrow> hd (dec n) \<noteq> CHR ''0''"
proof (induction n rule: dec.induct)
  case (1 n)
  show ?case
  proof (cases "n < 10")
    case True
    then show ?thesis using 1 using code_digit_char[of n] by (subst dec.simps) (auto simp: code_def)
  next
    case False
    with 1 have "hd (dec (n div 10)) \<noteq> CHR ''0''" by simp
    with False show ?thesis by (subst dec.simps) simp
  qed
qed

lemma takeWhile_dec: "rest = [] \<or> \<not> is_digit (hd rest) \<Longrightarrow> takeWhile is_digit (dec n @ rest) = dec n"
  "rest = [] \<or> \<not> is_digit (hd rest) \<Longrightarrow> dropWhile is_digit (dec n @ rest) = rest"
  using dec_digits by (auto simp: takeWhile_append dropWhile_append dropWhile_id takeWhile_eq_Nil_iff)

lemma not_digit_ends: "ends_value rest \<Longrightarrow> rest = [] \<or> \<not> is_digit (hd rest)"
  by (auto simp: is_digit_def code_def dest!: ends_valueE)

lemma digits_then_dec: "ends_value rest \<Longrightarrow> digits_then (dec n @ rest) = (dec n, rest)"
  by (simp add: digits_then_def takeWhile_dec not_digit_ends)

lemma num_int_dec:
  assumes "ends_value rest"
  shows "num_int (dec n @ rest) = (dec n, rest)"
proof -
  obtain c ds where d: "dec n = c # ds" by (cases "dec n") simp_all
  show ?thesis
  proof (cases "c = CHR ''0''")
    case True
    then have "n = 0" using dec_head[of n] d by fastforce
    then have "ds = []" using d by (simp add: dec.simps)
    with True d show ?thesis by (simp add: num_int_def)
  next
    case False
    with d digits_then_dec[OF assms, of n] show ?thesis by (simp add: num_int_def)
  qed
qed

lemma number_text_dec:
  assumes "ends_value rest"
  shows "number_text (dec n @ rest) = Some (dec n, rest)" "number_text (CHR ''-'' # dec n @ rest) = Some (CHR ''-'' # dec n, rest)"
proof -
  obtain c ds where d: "dec n = c # ds" by (cases "dec n") simp_all
  have "is_digit c" using dec_digits[of c n] d by simp
  then have "c \<noteq> CHR ''-''" using is_digit_not_sign by blast
  then have "num_sign (dec n @ rest) = ([], dec n @ rest)" using d by (simp add: num_sign_def)
  moreover have "num_sign (CHR ''-'' # dec n @ rest) = (''-'', dec n @ rest)" by (simp add: num_sign_def)
  moreover have "num_frac rest = ([], rest)" "num_exp rest = ([], rest)"
    using ends_valueE[OF assms] by (auto simp: num_frac_def num_exp_def)
  ultimately show "number_text (dec n @ rest) = Some (dec n, rest)"
    "number_text (CHR ''-'' # dec n @ rest) = Some (CHR ''-'' # dec n, rest)"
    by (simp_all add: number_text_def num_int_dec[OF assms])
qed

lemma dec_trim: "js_trim (dec n) = dec n" "js_trim (CHR ''-'' # dec n) = CHR ''-'' # dec n"
proof -
  have "hd (dec n) \<in> set (dec n)" "last (dec n) \<in> set (dec n)" by simp_all
  then have "\<not> is_ws (hd (dec n))" "\<not> is_ws (last (dec n))" using dec_digits is_digit_not_ws by blast+
  then show "js_trim (dec n) = dec n" "js_trim (CHR ''-'' # dec n) = CHR ''-'' # dec n"
    by (auto intro!: js_trim_id simp: is_ws_def code_def)
qed

lemma unsigned_number_dec:
  assumes "n < 2 ^ 53"
  shows "unsigned_number (dec n) = Fin (of_nat n)"
proof -
  obtain c ds where d: "dec n = c # ds" by (cases "dec n") simp_all
  have "is_digit c" using dec_digits[of c n] d by simp
  then have "dec n \<noteq> ''Infinity''" using d by (auto simp: is_digit_def code_def)
  moreover have "round64 (of_nat n) = of_nat n"
    using round64_int[of "int n"] assms by simp
  moreover have "takeWhile is_digit (dec n) = dec n" "dropWhile is_digit (dec n) = []"
    using takeWhile_dec[of "[]" n] by simp_all
  moreover have "rat_of_nat n < 2 ^ 1024"
  proof -
    have "rat_of_nat n < rat_of_nat (2 ^ 53)" using assms by (rule of_nat_less_iff[THEN iffD2])
    also have "\<dots> \<le> 2 ^ 1024" by simp
    finally show ?thesis .
  qed
  ultimately show ?thesis by (simp add: unsigned_number_def Let_def dec_value_def js_fin_def del: takeWhile_eq_all_conv dropWhile_eq_Nil_conv)
qed

lemma js_Number_dec:
  assumes "n < 2 ^ 53"
  shows "js_Number (dec n) = Fin (of_nat n)" "js_Number (CHR ''-'' # dec n) = Fin (- of_nat n)"
proof -
  obtain c ds where d: "dec n = c # ds" by (cases "dec n") simp_all
  have digits: "is_digit x" if "x \<in> set (c # ds)" for x using dec_digits[of x n] d that by simp
  have "c \<noteq> CHR ''-''" "c \<noteq> CHR ''+''" using is_digit_not_sign[OF digits[of c]] by simp_all
  moreover have "hd ds \<notin> {CHR ''x'', CHR ''X'', CHR ''o'', CHR ''O'', CHR ''b'', CHR ''B''}" if "ds \<noteq> []"
    using digits[of "hd ds"] that by (auto simp: is_digit_def code_def)
  ultimately show "js_Number (dec n) = Fin (of_nat n)"
    using unsigned_number_dec[OF assms] dec_trim(1)[of n] d by (auto simp: js_Number_def)
  show "js_Number (CHR ''-'' # dec n) = Fin (- of_nat n)"
    using unsigned_number_dec[OF assms] dec_trim(2)[of n] by (simp add: js_Number_def)
qed

lemma parse_number_int:
  assumes "\<bar>i\<bar> < 2 ^ 53" and "ends_value rest"
  shows "parse_number (num_string (of_int i) @ rest) = Some (JNum (of_int i), rest)"
proof -
  have r: "\<bar>rat_of_int i\<bar> < 2 ^ 53"
  proof -
    have "rat_of_int \<bar>i\<bar> < rat_of_int (2 ^ 53)" using assms(1) by (rule of_int_less_iff[THEN iffD2])
    then show ?thesis by simp
  qed
  have n: "nat \<bar>i\<bar> < 2 ^ 53" using assms(1) by (subst nat_less_iff) auto
  show ?thesis
  proof (cases "i < 0")
    case True
    then have "rat_of_nat (nat (- i)) = - of_int i" by simp
    then show ?thesis
      using True r n number_text_dec(2)[OF assms(2), of "nat (- i)"] js_Number_dec(2)[of "nat (- i)"]
      by (simp add: parse_number_def num_string_def dec_int_def)
  next
    case False
    then have "rat_of_nat (nat i) = of_int i" by simp
    then show ?thesis
      using False r n number_text_dec(1)[OF assms(2), of "nat i"] js_Number_dec(1)[of "nat i"]
      by (simp add: parse_number_def num_string_def dec_int_def)
  qed
qed

subsection \<open>Values\<close>

fun printable :: "json \<Rightarrow> bool" and printable_elems :: "json list \<Rightarrow> bool" and printable_props :: "json_object \<Rightarrow> bool" where
  "printable JUndef = False"
| "printable JNull = True"
| "printable (JBool b) = True"
| "printable (JNum x) = (x = of_int \<lfloor>x\<rfloor> \<and> \<bar>\<lfloor>x\<rfloor>\<bar> < 2 ^ 53)"
| "printable (JStr s) = True"
| "printable (JArr xs) = printable_elems xs"
| "printable (JObj m) = (obj_from_entries m = m \<and> printable_props m)"
| "printable_elems [] = True"
| "printable_elems (x # xs) = (printable x \<and> printable_elems xs)"
| "printable_props [] = True"
| "printable_props (p # m) = (printable (snd p) \<and> printable_props m)"

declare parse_value.simps [simp del] parse_elems.simps [simp del] parse_members.simps [simp del]

lemma skip_ws_head: "\<not> json_ws c \<Longrightarrow> skip_ws (c # t) = c # t"
  by (simp add: skip_ws_def)

lemma json_ws_chars [simp]: "\<not> json_ws (CHR 0x22)" "\<not> json_ws (CHR ''['')" "\<not> json_ws (CHR '']'')" "\<not> json_ws (CHR ''{'')"
    "\<not> json_ws (CHR ''}'')" "\<not> json_ws (CHR '','')" "\<not> json_ws (CHR '':'')" "\<not> json_ws (CHR ''t'')" "\<not> json_ws (CHR ''f'')"
    "\<not> json_ws (CHR ''n'')" "\<not> json_ws (CHR ''-'')" "is_digit c \<Longrightarrow> \<not> json_ws c"
  by (simp_all add: json_ws_def code_def is_digit_def)

lemma num_string_head: "\<bar>i\<bar> < 2 ^ 53 \<Longrightarrow> \<exists>c t. num_string (of_int i) = c # t \<and> (is_digit c \<or> c = CHR ''-'')"
proof -
  assume "\<bar>i\<bar> < 2 ^ 53"
  then have "rat_of_int \<bar>i\<bar> < rat_of_int (2 ^ 53)" by (rule of_int_less_iff[THEN iffD2])
  then have "num_string (of_int i) = dec_int i" by (simp add: num_string_def)
  then show ?thesis
    by (cases "dec (nat i)") (auto simp: dec_int_def intro: dec_digits[of _ "nat i"])
qed

text \<open>How the text of a printable value starts.\<close>

definition opens :: "char \<Rightarrow> bool" where
  "opens c \<longleftrightarrow> c = CHR 0x22 \<or> c = CHR ''['' \<or> c = CHR ''{'' \<or> c = CHR ''t'' \<or> c = CHR ''f'' \<or> c = CHR ''n'' \<or> c = CHR ''-'' \<or> is_digit c"

lemma opensD: "opens c \<Longrightarrow> \<not> json_ws c \<and> c \<noteq> CHR '']'' \<and> c \<noteq> CHR ''}''"
  by (auto simp: opens_def is_digit_def code_def)

lemma stringify_head: "printable v \<Longrightarrow> \<exists>c t. stringify None v = c # t \<and> opens c"
proof (cases v)
  case (JNum x)
  assume "printable v"
  with JNum num_string_head[of "\<lfloor>x\<rfloor>"] show ?thesis by (auto simp: opens_def)
qed (auto simp: opens_def quote_string_def members_def)

lemma elems_head: "printable_elems (x # xs) \<Longrightarrow> \<exists>c t. js_join '','' (stringify_elems None (x # xs)) = c # t \<and> opens c"
  using stringify_head[of x] by (cases xs) auto

lemma parse_str: "parse_value (quote_string s @ rest) = Some (JStr s, rest)"
  by (subst parse_value.simps) (simp add: quote_string_def skip_ws_head parse_string_quoted)

lemma parse_num:
  assumes "\<bar>i\<bar> < 2 ^ 53" and "ends_value rest"
  shows "parse_value (num_string (of_int i) @ rest) = Some (JNum (of_int i), rest)"
proof -
  obtain c t where ct: "num_string (of_int i) = c # t" "is_digit c \<or> c = CHR ''-''" using num_string_head[OF assms(1)] by blast
  then have "c \<notin> {CHR 0x22, CHR ''['', CHR ''{'', CHR ''t'', CHR ''f'', CHR ''n''}" "\<not> json_ws c"
    by (auto simp: is_digit_def code_def json_ws_def)
  with parse_number_int[OF assms] ct(1) show ?thesis
    by (subst parse_value.simps) (simp add: skip_ws_head)
qed

lemma parse_arr:
  assumes "opens c" and "parse_elems (c # t) = Some (xs, r)"
  shows "parse_value (CHR ''['' # c # t) = Some (JArr xs, r)"
  using assms opensD[of c] by (subst parse_value.simps) (simp add: skip_ws_head)

lemma parse_obj:
  assumes "parse_members (CHR 0x22 # t) = Some (m, r)"
  shows "parse_value (CHR ''{'' # CHR 0x22 # t) = Some (JObj (obj_from_entries m), r)"
  using assms by (subst parse_value.simps) (simp add: skip_ws_head)

lemma parse_elems_last: "parse_value s = Some (v, CHR '']'' # r) \<Longrightarrow> parse_elems s = Some ([v], r)"
  by (subst parse_elems.simps) (simp add: skip_ws_head)

lemma parse_elems_more:
  "parse_value s = Some (v, CHR '','' # r) \<Longrightarrow> length r < length s \<Longrightarrow> parse_elems r = Some (xs, u) \<Longrightarrow>
     parse_elems s = Some (v # xs, u)"
  by (subst parse_elems.simps) (simp add: skip_ws_head)

lemma parse_members_last:
  "parse_value s = Some (v, CHR ''}'' # r) \<Longrightarrow> parse_members (quote_string k @ CHR '':'' # s) = Some ([(k, v)], r)"
  by (subst parse_members.simps) (simp add: skip_ws_head quote_string_def parse_string_quoted)

lemma parse_members_more:
  "parse_value s = Some (v, CHR '','' # r) \<Longrightarrow> length r < length s \<Longrightarrow> parse_members r = Some (m, u) \<Longrightarrow>
     parse_members (quote_string k @ CHR '':'' # s) = Some ((k, v) # m, u)"
  by (subst parse_members.simps) (simp add: skip_ws_head quote_string_def parse_string_quoted)

definition member_text :: "string \<times> string \<Rightarrow> string" where
  "member_text = (\<lambda>(k, t). quote_string k @ '':'' @ t)"

lemma members_text: "members kvs = ''{'' @ js_join '','' (map member_text kvs) @ ''}''"
  by (simp add: members_def member_text_def)

lemma props_head: "printable_props (p # m) \<Longrightarrow>
    stringify_props None (p # m) = (fst p, stringify None (snd p)) # stringify_props None m"
  by (cases "snd p") auto

lemma stringify_props_Nil: "printable_props m \<Longrightarrow> stringify_props None m = [] \<longleftrightarrow> m = []"
  by (cases m) (auto dest: props_head)

lemma parse_printed:
  "printable v \<Longrightarrow> ends_value rest \<Longrightarrow> parse_value (stringify None v @ rest) = Some (v, rest)"
  "printable_elems xs \<Longrightarrow> xs \<noteq> [] \<Longrightarrow>
     parse_elems (js_join '','' (stringify_elems None xs) @ CHR '']'' # rest) = Some (xs, rest)"
  "printable_props m \<Longrightarrow> m \<noteq> [] \<Longrightarrow>
     parse_members (js_join '','' (map member_text (stringify_props None m)) @ CHR ''}'' # rest) = Some (m, rest)"
proof (induction v and xs and m arbitrary: rest and rest and rest rule: printable_printable_elems_printable_props.induct)
  case (3 b)
  then show ?case by (subst parse_value.simps) (simp add: skip_ws_head parse_word_def starts_with_def)
next
  case 2
  then show ?case by (subst parse_value.simps) (simp add: skip_ws_head parse_word_def starts_with_def)
next
  case (4 x)
  then show ?case using parse_num[of "\<lfloor>x\<rfloor>" rest] by simp
next
  case (5 s)
  then show ?case by (simp add: parse_str)
next
  case (6 xs)
  show ?case
  proof (cases xs)
    case Nil
    then show ?thesis by (subst parse_value.simps) (simp add: skip_ws_head)
  next
    case (Cons x ys)
    with 6 obtain c t where ct: "js_join '','' (stringify_elems None xs) = c # t" "opens c"
      using elems_head[of x ys] by auto
    have "parse_elems (js_join '','' (stringify_elems None xs) @ CHR '']'' # rest) = Some (xs, rest)"
      using 6 Cons by simp
    with ct have "parse_value (CHR ''['' # c # t @ CHR '']'' # rest) = Some (JArr xs, rest)" by (simp add: parse_arr)
    with ct(1) show ?thesis by simp
  qed
next
  case (7 m)
  show ?case
  proof (cases m)
    case Nil
    then show ?thesis by (subst parse_value.simps) (simp add: skip_ws_head members_def)
  next
    case (Cons p ps)
    with 7 have m: "parse_members (js_join '','' (map member_text (stringify_props None m)) @ CHR ''}'' # rest) = Some (m, rest)"
      by simp
    from 7 Cons have "stringify_props None m = (fst p, stringify None (snd p)) # stringify_props None ps"
      using props_head[of p ps] by simp
    then obtain t where "js_join '','' (map member_text (stringify_props None m)) = CHR 0x22 # t"
      by (cases "stringify_props None ps") (auto simp: member_text_def quote_string_def)
    with parse_obj[of "t @ CHR ''}'' # rest" m rest] m 7(2) show ?thesis
      by (simp add: members_text)
  qed
next
  case (9 x xs)
  show ?case
  proof (cases xs)
    case Nil
    with 9 show ?thesis by (auto intro: parse_elems_last)
  next
    case (Cons y ys)
    let ?r = "js_join '','' (stringify_elems None xs) @ CHR '']'' # rest"
    have "parse_value (stringify None x @ CHR '','' # ?r) = Some (x, CHR '','' # ?r)" using 9 by simp
    moreover have "parse_elems ?r = Some (xs, rest)" using 9 Cons by simp
    ultimately have "parse_elems (stringify None x @ CHR '','' # ?r) = Some (x # xs, rest)"
      using parse_elems_more by simp
    with Cons show ?thesis by simp
  qed
next
  case (11 p m)
  obtain k v where p: "p = (k, v)" by (cases p)
  have v: "printable v" using 11 p by simp
  show ?case
  proof (cases m)
    case Nil
    have "parse_members (quote_string k @ CHR '':'' # stringify None v @ CHR ''}'' # rest) = Some ([(k, v)], rest)"
      by (rule parse_members_last) (use 11 p in simp)
    with Nil 11 p props_head[of p m] show ?thesis by (simp add: member_text_def)
  next
    case (Cons q ms)
    let ?r = "js_join '','' (map member_text (stringify_props None m)) @ CHR ''}'' # rest"
    have "parse_value (stringify None v @ CHR '','' # ?r) = Some (v, CHR '','' # ?r)" using 11 p by simp
    moreover have "parse_members ?r = Some (m, rest)" using 11 Cons by simp
    ultimately have all: "parse_members (quote_string k @ CHR '':'' # stringify None v @ CHR '','' # ?r) = Some ((k, v) # m, rest)"
      using parse_members_more by simp
    obtain x xs where "stringify_props None m = x # xs"
      using 11 Cons stringify_props_Nil[of m] by (cases "stringify_props None m") auto
    with all 11 p props_head[of p m] show ?thesis by (simp add: member_text_def)
  qed
qed simp_all

lemma json_parse_stringify: "printable v \<Longrightarrow> json_parse (json_stringify v) = Some v"
  using parse_printed(1)[of v "[]"] by (simp add: json_parse_def json_stringify_def skip_ws_def)

lemma json_stringify_inject:
  assumes "printable v" and "printable w" and "json_stringify v = json_stringify w"
  shows "v = w"
proof -
  have "Some v = json_parse (json_stringify v)" by (rule json_parse_stringify[OF assms(1), symmetric])
  also have "\<dots> = Some w" unfolding assms(3) by (rule json_parse_stringify[OF assms(2)])
  finally show ?thesis by simp
qed

subsection \<open>The guards of the parser never fail\<close>

lemma parse_string_shrinks: "parse_string s = Some (k, r) \<Longrightarrow> length r < length s"
  by (induction s arbitrary: k r rule: parse_string.induct) (force split: if_splits list.splits option.splits)+

lemma num_parts_split:
  "num_sign s = (a, b) \<Longrightarrow> s = a @ b" "num_int s = (a, b) \<Longrightarrow> s = a @ b"
  "num_frac s = (a, b) \<Longrightarrow> s = a @ b" "exp_sign s = (a, b) \<Longrightarrow> s = a @ b"
  by (auto simp: num_sign_def num_int_def num_frac_def exp_sign_def digits_then_def split: list.splits if_splits)

lemma num_exp_split: "num_exp s = (a, b) \<Longrightarrow> s = a @ b"
  using num_parts_split(4)[of "tl s" "fst (exp_sign (tl s))" "snd (exp_sign (tl s))"]
  by (auto simp: num_exp_def split: list.splits if_splits)

lemma number_text_split: "number_text s = Some (txt, r) \<Longrightarrow> s = txt @ r \<and> txt \<noteq> []"
  by (auto simp: number_text_def split: prod.splits if_splits dest!: num_parts_split(1-3) num_exp_split)

lemma parse_number_shrinks: "parse_number s = Some (v, r) \<Longrightarrow> length r < length s"
  using number_text_split by (fastforce simp: parse_number_def split: option.splits jsnum.splits)

lemma parse_value_shrinks:
  assumes "\<And>t xs r. length t < length s \<Longrightarrow> parse_elems t = Some (xs, r) \<Longrightarrow> length r < length t"
    and "\<And>t m r. length t < length s \<Longrightarrow> parse_members t = Some (m, r) \<Longrightarrow> length r < length t"
    and "parse_value s = Some (v, r)"
  shows "length r < length s"
proof -
  obtain c t where ct: "skip_ws s = c # t" using assms(3) by (subst (asm) parse_value.simps) (auto split: list.splits)
  have t: "length t < length s" using ct by (rule skip_ws_tail)
  have tl: "length (tl (skip_ws t)) \<le> length t" using skip_ws_length[of t] by simp
  have "length (skip_ws s) \<le> length s" by (rule skip_ws_length)
  with assms(3) ct show ?thesis
    by (subst (asm) parse_value.simps)
      (use t tl in \<open>auto split: if_splits simp: parse_word_def
        dest!: assms(1)[OF t] assms(2)[OF t] parse_string_shrinks parse_number_shrinks\<close>)
qed

lemma parse_shrinks:
  "(\<forall>v r. parse_value s = Some (v, r) \<longrightarrow> length r < length s) \<and>
   (\<forall>xs r. parse_elems s = Some (xs, r) \<longrightarrow> length r < length s) \<and>
   (\<forall>m r. parse_members s = Some (m, r) \<longrightarrow> length r < length s)"
proof (induction s rule: length_induct)
  case (1 s)
  then have shorter: "length t < length s \<Longrightarrow> parse_elems t = Some (xs, r) \<Longrightarrow> length r < length t"
    "length t < length s \<Longrightarrow> parse_members t = Some (m, r) \<Longrightarrow> length r < length t"
    "length t < length s \<Longrightarrow> parse_value t = Some (v, r) \<Longrightarrow> length r < length t" for t xs m v r by blast+
  have val: "length r < length s" if "parse_value s = Some (v, r)" for v r
    by (rule parse_value_shrinks[OF shorter(1,2) that])
  moreover have "length r < length s" if elems: "parse_elems s = Some (xs, r)" for xs r
  proof -
    from elems obtain v u c r' where v: "parse_value s = Some (v, u)" and u: "skip_ws u = c # r'"
      by (subst (asm) parse_elems.simps) (auto split: list.splits option.splits)
    have r': "length r' < length s" using skip_ws_tail[OF u] val[OF v] by simp
    with elems v u show ?thesis
      by (subst (asm) parse_elems.simps) (auto split: if_splits dest!: shorter(1)[OF r'])
  qed
  moreover have "length r < length s" if members: "parse_members s = Some (m, r)" for m r
  proof -
    from members obtain t k u c r' where q: "skip_ws s = CHR 0x22 # t" and k: "parse_string t = Some (k, u)" and u: "skip_ws u = c # r'"
      by (subst (asm) parse_members.simps) (auto split: list.splits option.splits if_splits)
    have r': "length r' < length s" using skip_ws_tail[OF u] skip_ws_tail[OF q] parse_string_shrinks[OF k] by simp
    from members q k u obtain v w d w' where v: "parse_value r' = Some (v, w)" and w: "skip_ws w = d # w'"
      by (subst (asm) parse_members.simps) (auto split: list.splits option.splits if_splits)
    have w': "length w' < length s" using skip_ws_tail[OF w] shorter(3)[OF r' v] r' by simp
    with members q k u v w show ?thesis
      by (subst (asm) parse_members.simps) (auto split: if_splits dest!: shorter(2)[OF w'])
  qed
  ultimately show ?case by blast
qed

end
