(* ===== verification/Respond.thy ===== *)
theory Respond
  imports ResponsePolicies
begin

text \<open>
  How the engine shapes a response (\<open>applyResponse\<close>, \<open>applyGlobalHateoas\<close> and \<open>decorateResult\<close> of
  \<open>core/engine.ts\<close>): the boundary's response policy, deprecation and security headers, entity tags and
  conditional reads, contract validation, masks, links, pagination and alternate representations.
  Latency has no effect on a value and is left out.  The functions read the event log and the state
  store and change neither.
\<close>

subsection \<open>Contexts\<close>

definition helpersFor :: "program \<Rightarrow> request \<Rightarrow> helpers" where
  "helpersFor prog rq =
     (let d = pg_deps prog; c = ctl rq
      in \<lparr>hp_now = dp_nowAt d (dp_offsetMs d + (case rc_clockOffsetMs c of Some off \<Rightarrow> off | None \<Rightarrow> 0)),
          hp_seed = rc_seed c\<rparr>)"

definition nowMsFor :: "program \<Rightarrow> request \<Rightarrow> rat" where
  "nowMsFor prog rq = dp_nowMs (pg_deps prog) + (case rc_clockOffsetMs (ctl rq) of Some off \<Rightarrow> off | None \<Rightarrow> 0)"

definition match_context :: "program \<Rightarrow> request \<Rightarrow> json_object option \<Rightarrow> ctx" where
  "match_context prog rq st = \<lparr>cx_command = rq_command rq, cx_request = rq, cx_state = st,
     cx_payload = cm_payload (rq_command rq), cx_helpers = helpersFor prog rq, cx_event = None,
     cx_boundary = None, cx_committed = [], cx_response = None, cx_headers = [], cx_param = None,
     cx_projection = None, cx_steps = [], cx_prevStep = None\<rparr>"

definition last_event :: "domain_event list \<Rightarrow> domain_event option" where
  "last_event es = (if es = [] then None else Some (last es))"

text \<open>A post-commit context over some events: the payload is the last event's, if there is one.\<close>

definition post_context :: "program \<Rightarrow> request \<Rightarrow> json_object option \<Rightarrow> domain_event list \<Rightarrow> ctx" where
  "post_context prog rq st events = (match_context prog rq st)
     \<lparr>cx_payload := (case last_event events of Some e \<Rightarrow> ev_payload e | None \<Rightarrow> cm_payload (rq_command rq)),
      cx_event := last_event events, cx_committed := events\<rparr>"

subsection \<open>Global links\<close>

fun contains :: "string \<Rightarrow> string \<Rightarrow> bool" where
  "contains p [] = (p = [])"
| "contains p (c # s) = (starts_with p (c # s) \<or> contains p s)"

definition ends_with :: "string \<Rightarrow> string \<Rightarrow> bool" where
  "ends_with p s \<longleftrightarrow> starts_with (rev p) (rev s)"

fun replace_all :: "string \<Rightarrow> string \<Rightarrow> nat \<Rightarrow> string \<Rightarrow> string" where
  "replace_all p r skip [] = []"
| "replace_all p r (Suc k) (c # s) = replace_all p r k s"
| "replace_all p r 0 (c # s) =
     (if p \<noteq> [] \<and> starts_with p (c # s) then r @ replace_all p r (length p - 1) s
      else c # replace_all p r 0 s)"

text \<open>A link predicate that throws does not hold.\<close>

definition link_allowed :: "behavior \<Rightarrow> ctx \<Rightarrow> bool" where
  "link_allowed bh c = (case (case bh_linkCondition bh of Some p \<Rightarrow> Some p | None \<Rightarrow> bh_condition bh) of
      None \<Rightarrow> True
    | Some p \<Rightarrow> (case p c of Inr b \<Rightarrow> b | Inl _ \<Rightarrow> False))"

definition first_link :: "boundary \<Rightarrow> json_object \<Rightarrow> ctx \<Rightarrow> behavior option" where
  "first_link candidate links c = find (\<lambda>bh. case bh_linkName bh of
      None \<Rightarrow> False
    | Some n \<Rightarrow> obj_get links n = JUndef \<and> link_allowed bh c) (bd_behaviors candidate)"

definition attach_links :: "program \<Rightarrow> hateoas_policy \<Rightarrow> boundary \<Rightarrow> request \<Rightarrow> string option \<Rightarrow> json \<Rightarrow> json" where
  "attach_links prog policy bd rq template v =
     (if \<not> is_json_object v then v
      else let entity = asObject v;
               ident = (case obj_get entity ''id'' of JStr s \<Rightarrow> if s = [] then None else Some s | _ \<Rightarrow> None)
           in case (ident, template) of
               (Some i, Some t) \<Rightarrow>
                 let base = (case hp_baseUrl policy of None \<Rightarrow> []
                       | Some u \<Rightarrow> if ends_with ''/'' u then butlast u else u);
                     expand = (\<lambda>p. base @ replace_all ''{id}'' (encodeURIComponent i) 0 p);
                     self = (if hp_selfLinks policy = Some False then []
                       else [(''self'', JObj [(''href'', JStr (expand t)), (''method'', JStr ''GET'')])]);
                     prefix = (if ends_with ''/'' t then t else t @ ''/'');
                     links = fold (\<lambda>candidate links.
                       if bd_name candidate = bd_name bd \<or> \<not> starts_with prefix (bd_contractPath candidate) then links
                       else case first_link candidate links (match_context prog rq (Some entity)) of
                           None \<Rightarrow> links
                         | Some bh \<Rightarrow> obj_set (the (bh_linkName bh))
                             (JObj [(''href'', JStr (expand (bd_contractPath candidate))),
                                (''method'', JStr (case bh_method bh of Some m \<Rightarrow> m | None \<Rightarrow> ''GET''))]) links)
                       (pg_boundaries prog) self
                 in JObj (obj_set ''_links'' (JObj links) entity)
             | _ \<Rightarrow> v)"

definition applyGlobalHateoas :: "program \<Rightarrow> json \<Rightarrow> boundary \<Rightarrow> request \<Rightarrow> json" where
  "applyGlobalHateoas prog body bd rq = (case po_hateoas (pg_policies prog) of
      None \<Rightarrow> body
    | Some policy \<Rightarrow>
        if \<not> hp_enabled policy \<or> map_of (cm_query (rq_command rq)) ''fields'' \<noteq> None \<or> body = JNull
           \<or> \<not> (is_arr body \<or> is_json_object body) then body
        else let template = (if contains ''{id}'' (bd_contractPath bd) then Some (bd_contractPath bd)
                   else map_option bd_contractPath (find (\<lambda>b. bd_contractPath b = bd_contractPath bd @ ''/{id}'') (pg_boundaries prog)));
                 attach = attach_links prog policy bd rq template
             in case body of
                 JArr xs \<Rightarrow> JArr (map attach xs)
               | JObj m \<Rightarrow> (case obj_get m ''items'' of
                     JArr xs \<Rightarrow> JObj (obj_set ''items'' (JArr (map attach xs)) m)
                   | _ \<Rightarrow> attach body)
               | _ \<Rightarrow> body)"

subsection \<open>Headers\<close>

definition utc_string :: "deps \<Rightarrow> string \<Rightarrow> string" where
  "utc_string d s = (case dp_dateParse d s of Some t \<Rightarrow> dp_toUTC d t | None \<Rightarrow> ''Invalid Date'')"

definition httpDate :: "deps \<Rightarrow> string \<Rightarrow> string" where
  "httpDate d s = (case dp_dateParse d s of Some t \<Rightarrow> dp_toUTC d t | None \<Rightarrow> s)"

definition quoted :: "string \<Rightarrow> string" where
  "quoted s = [CHR 0x22] @ s @ [CHR 0x22]"

definition deprecation_headers :: "deps \<Rightarrow> deprecation \<Rightarrow> headers" where
  "deprecation_headers d dn =
     [(''Deprecation'', if dp_dateParse d (dn_date dn) = Some 0 then ''true'' else httpDate d (dn_date dn))]
     @ (case dn_sunset dn of Some s \<Rightarrow> if s = [] then [] else [(''Sunset'', httpDate d s)] | None \<Rightarrow> [])
     @ (case dn_replacement dn of Some r \<Rightarrow> if r = [] then []
          else [(''Link'', ''<'' @ r @ ''>; rel='' @ quoted ''successor-version'')] | None \<Rightarrow> [])"

definition drop_weak :: "string \<Rightarrow> string" where
  "drop_weak s = (if starts_with ''W/'' s then drop 2 s else s)"

text \<open>The conditional read of an entity at version \<open>sequence\<close>, last changed at \<open>timestamp\<close>.\<close>

definition not_modified :: "deps \<Rightarrow> headers \<Rightarrow> nat \<Rightarrow> string \<Rightarrow> bool" where
  "not_modified d hs sequence timestamp =
     ((case header_value hs ''if-none-match'' of
        None \<Rightarrow> False
      | Some v \<Rightarrow> v = ''*'' \<or> list_ex (\<lambda>candidate.
          let n = drop_weak (js_trim candidate) in n = quoted (dec sequence) \<or> n = dec sequence) (js_split (CHR '','') v))
     \<or> (case header_value hs ''if-modified-since'' of
        None \<Rightarrow> False
      | Some v \<Rightarrow> (case (dp_dateParse d v, dp_dateParse d timestamp) of
            (Some since, Some changed) \<Rightarrow> changed \<le> since
          | _ \<Rightarrow> False)))"

definition max_version :: "domain_event list \<Rightarrow> nat" where
  "max_version es = foldl (\<lambda>highest e. max highest (ev_version e)) 0 es"

definition entity_headers :: "deps \<Rightarrow> request \<Rightarrow> domain_event list \<Rightarrow> response \<Rightarrow> response" where
  "entity_headers d rq entityEvents current =
     (let sequence = max_version entityEvents
      in case last_event entityEvents of
          None \<Rightarrow> current
        | Some e \<Rightarrow>
            if sequence = 0 then current
            else let current = current\<lparr>rs_headers := obj_spread (rs_headers current)
                        [(''ETag'', quoted (dec sequence)), (''Last-Modified'', utc_string d (ev_timestamp e))]\<rparr>
                 in if cm_intent (rq_command rq) = Query \<and> not_modified d (rq_headers rq) sequence (ev_timestamp e)
                    then current\<lparr>rs_status := 304, rs_body := JNull\<rparr> else current)"

subsection \<open>\<open>applyResponse\<close>\<close>

text \<open>The response policy of the boundary: transform, status and headers.\<close>

definition apply_policy :: "response_policy option \<Rightarrow> ctx \<Rightarrow> response \<Rightarrow> exn + response" where
  "apply_policy policy c current = (case policy of
      None \<Rightarrow> Inr current
    | Some p \<Rightarrow>
        rbind (case rp_transform p of None \<Rightarrow> Inr None | Some f \<Rightarrow> f c) (\<lambda>t.
        let current = (case t of
              None \<Rightarrow> current
            | Some r \<Rightarrow> \<lparr>rs_status = (case pr_status r of Some s \<Rightarrow> s | None \<Rightarrow> rs_status current),
                rs_body = (case pr_body r of Some b \<Rightarrow> b | None \<Rightarrow> rs_body current),
                rs_headers = obj_spread (rs_headers current) (case pr_headers r of Some h \<Rightarrow> h | None \<Rightarrow> [])\<rparr>)
        in rbind (case rp_status p of None \<Rightarrow> Inr (rs_status current) | Some f \<Rightarrow> f c) (\<lambda>st.
           rbind (case rp_headers p of None \<Rightarrow> Inr []
                  | Some hs \<Rightarrow> r_map (\<lambda>(k, f). rbind (f c) (\<lambda>v. Inr (k, v))) hs) (\<lambda>hs.
           Inr (current\<lparr>rs_status := st, rs_headers := obj_spread (rs_headers current) (obj_from_entries hs)\<rparr>)))))"

definition shape_error :: "program \<Rightarrow> request \<Rightarrow> response \<Rightarrow> exn + response" where
  "shape_error prog rq current = (case cm_operation (rq_command rq) of
      None \<Rightarrow> Inr current
    | Some op \<Rightarrow>
        if rs_status current < 400 then Inr current
        else rbind (parsed (OperationId_parse op)) (\<lambda>oid.
          rbind (ct_shapeError (dp_contract (pg_deps prog)) oid (rs_status current) (rs_body current)) (\<lambda>shaped.
            Inr (case shaped of None \<Rightarrow> current | Some b \<Rightarrow> current\<lparr>rs_body := b\<rparr>))))"

definition validate_response :: "program \<Rightarrow> request \<Rightarrow> response \<Rightarrow> exn + unit" where
  "validate_response prog rq current = (case cm_operation (rq_command rq) of
      None \<Rightarrow> Inr ()
    | Some op \<Rightarrow>
        if rs_body current = JNull \<or> rc_skipResponseValidation (ctl rq)
           \<or> (cm_intent (rq_command rq) = Query \<and> map_of (cm_query (rq_command rq)) ''fields'' \<noteq> None) then Inr ()
        else rbind (parsed (OperationId_parse op)) (\<lambda>oid.
          ct_validateResponse (dp_contract (pg_deps prog)) oid (rs_status current) (rs_body current) rq
            (rc_allowAdditionalProperties (ctl rq))))"

text \<open>Links declared by the boundary's policy and by the selected behavior.\<close>

definition policy_links :: "link list \<Rightarrow> ctx \<Rightarrow> json_object \<Rightarrow> exn + json_object" where
  "policy_links links c m =
     rbind (r_filter (\<lambda>l. case lk_condition l of None \<Rightarrow> Inr True | Some p \<Rightarrow> p c) links) (\<lambda>ls.
     rbind (r_map (\<lambda>l. rbind (lk_href l c) (\<lambda>h. Inr (lk_rel l, JObj [(''href'', JStr h)]))) ls) (\<lambda>es.
     Inr (obj_set ''_links'' (JObj (obj_from_entries es)) m)))"

definition behavior_link :: "behavior \<Rightarrow> request \<Rightarrow> ctx \<Rightarrow> json \<Rightarrow> exn + json" where
  "behavior_link bh rq c body = (case bh_linkName bh of
      None \<Rightarrow> Inr body
    | Some n \<Rightarrow> rbind (case bh_linkCondition bh of None \<Rightarrow> Inr True | Some p \<Rightarrow> p c) (\<lambda>ok.
        Inr (if ok \<and> is_json_object body
          then let m = asObject body;
                   existing = (let l = obj_get m ''_links'' in if is_json_object l then asObject l else []);
                   entry = JObj [(''href'', JStr (cm_path (rq_command rq))),
                     (''method'', JStr (case bh_method bh of Some mt \<Rightarrow> mt | None \<Rightarrow> cm_method (rq_command rq)))]
               in JObj (obj_set ''_links'' (JObj (obj_set n entry existing)) m)
          else body)))"

definition supports_hateoas :: "program \<Rightarrow> request \<Rightarrow> response \<Rightarrow> exn + bool" where
  "supports_hateoas prog rq current =
     (if \<not> (200 \<le> rs_status current \<and> rs_status current < 300) then Inr False
      else case cm_operation (rq_command rq) of
          None \<Rightarrow> Inr True
        | Some op \<Rightarrow> rbind (parsed (OperationId_parse op)) (\<lambda>oid.
            Inr (ct_supportsHateoas (dp_contract (pg_deps prog)) oid (rs_status current) (rs_body current))))"

definition format_name :: "response_format \<Rightarrow> string" where
  "format_name f = (case f of Hal \<Rightarrow> ''hal'' | JsonApi \<Rightarrow> ''jsonapi'' | Plain \<Rightarrow> ''plain'')"

definition represent :: "boundary \<Rightarrow> request \<Rightarrow> response \<Rightarrow> response" where
  "represent bd rq current =
     (if \<not> (200 \<le> rs_status current \<and> rs_status current < 300) then current
      else let c = ctl rq;
               current = (case rc_paginationStyle c of
                   None \<Rightarrow> current
                 | Some style \<Rightarrow> let (b, hs) = applyPaginationControl (rs_body current) style rq
                     in current\<lparr>rs_body := b, rs_headers := obj_spread (rs_headers current) hs\<rparr>)
           in case rc_responseFormat c of
               None \<Rightarrow> current
             | Some f \<Rightarrow> current\<lparr>rs_body := applyResponseFormat (rs_body current) f (bd_name bd) (cm_path (rq_command rq)),
                 rs_headers := obj_spread (rs_headers current) [(''X-Potemkin-Response-Format'', format_name f)]\<rparr>)"

definition boundary_masks :: "boundary \<Rightarrow> string list" where
  "boundary_masks bd = bd_mask bd @ (case bd_response bd of Some p \<Rightarrow> rp_mask p | None \<Rightarrow> [])"

text \<open>
  The whole pipeline; the result carries the body before masking beside the response.
  \<open>evlog\<close> and \<open>store\<close> are the event log and the state store at the time of the call.
\<close>

definition applyResponse :: "program \<Rightarrow> domain_event list \<Rightarrow> state_map \<Rightarrow> boundary \<Rightarrow> request \<Rightarrow> response \<Rightarrow>
    behavior option \<Rightarrow> domain_event list \<Rightarrow> json_object option \<Rightarrow> domain_event list option \<Rightarrow> exn + (response \<times> json)" where
  "applyResponse prog evlog store bd rq rsp bh events stateOverride versionEvents =
     (let target = cm_target (rq_command rq);
          st = (case target of None \<Rightarrow> None
            | Some t \<Rightarrow> (case stateOverride of Some s \<Rightarrow> Some s | None \<Rightarrow> mem_get t store));
          c = (post_context prog rq st events)\<lparr>cx_response := Some rsp\<rparr>;
          d = pg_deps prog
      in rbind (apply_policy (bd_response bd) c rsp) (\<lambda>current.
         let current = (case (case bd_deprecated bd of Some dn \<Rightarrow> Some dn
                  | None \<Rightarrow> (case bd_response bd of Some p \<Rightarrow> rp_deprecated p | None \<Rightarrow> None)) of
                None \<Rightarrow> current
              | Some dn \<Rightarrow> current\<lparr>rs_headers := obj_spread (rs_headers current) (deprecation_headers d dn)\<rparr>);
             current = current\<lparr>rs_headers := addSecurityHeaders (rs_headers current) (po_securityHeaders (pg_policies prog))\<rparr>;
             current = (case target of None \<Rightarrow> current
              | Some t \<Rightarrow> entity_headers d rq (case versionEvents of Some es \<Rightarrow> es
                  | None \<Rightarrow> if events \<noteq> [] then events else mem_events None (Some t) evlog) current)
         in rbind (shape_error prog rq current) (\<lambda>current.
         rbind (validate_response prog rq current) (\<lambda>_.
         let unmasked = rs_body current;
             body = maskBody unmasked (boundary_masks bd);
             body = (case rc_maskFields (ctl rq) of None \<Rightarrow> body | Some fs \<Rightarrow> maskValues body fs);
             current = current\<lparr>rs_body := body\<rparr>
         in rbind (supports_hateoas prog rq current) (\<lambda>links.
         rbind (case (if links \<and> is_json_object body then Option.bind (bd_response bd) rp_hateoas else None) of
             None \<Rightarrow> Inr body
           | Some ls \<Rightarrow> rbind (policy_links ls c (asObject body)) (\<lambda>m. Inr (JObj m))) (\<lambda>body.
         rbind (if 200 \<le> rs_status current \<and> rs_status current < 300
             then (case bh of None \<Rightarrow> Inr body | Some b \<Rightarrow> behavior_link b rq c body) else Inr body) (\<lambda>body.
         let body = (if links \<and> cm_intent (rq_command rq) = Query then applyGlobalHateoas prog body bd rq else body)
         in Inr (represent bd rq (current\<lparr>rs_body := body\<rparr>), unmasked))))))))"

definition decorateResult :: "program \<Rightarrow> execution_result \<Rightarrow> boundary \<Rightarrow> request \<Rightarrow> domain_event list \<Rightarrow> execution_result" where
  "decorateResult prog r bd rq events =
     r\<lparr>xr_headers := obj_spread (addSecurityHeaders (xr_headers r) (po_securityHeaders (pg_policies prog))) (control_headers rq),
       xr_body := truncate_control rq (if 200 \<le> xr_status r \<and> xr_status r < 300
          then applyDebugEnvelope (xr_body r) rq bd events else xr_body r)\<rparr>"

end
