(* ===== verification/Cascade.thy ===== *)
theory Cascade
  imports Respond "HOL-Library.Multiset"
begin

text \<open>
  One transaction of the engine (\<open>core/engine.ts\<close>): creating and applying events, the reactions an
  event triggers, and the queue of commands with the secondary commands behaviors dispatch.

  A transaction reads the committed log and store and changes neither.  A pending command is its
  request, whose \<open>command\<close> is the pending one throughout the source.  A callback sees the state as it
  was when its context was built.
\<close>

record transaction =
  tx_states :: state_map
  tx_events :: "domain_event list"
  tx_reactionKeys :: "string list"
  tx_reactionEvents :: nat
  tx_ids :: nat

type_synonym 'a step = "(transaction, exn, 'a) eff"

definition MAX_DEPTH :: nat where "MAX_DEPTH = 5"
definition MAX_REACTION_EVENTS :: nat where "MAX_REACTION_EVENTS = 1000"

abbreviation GENERIC_UPDATE :: string where "GENERIC_UPDATE \<equiv> ''System.GenericUpdateEvent''"
abbreviation BASELINE_CREATED :: string where "BASELINE_CREATED \<equiv> ''BaselineEntityCreatedEvent''"

text \<open>
  \<open>helpers.uuid()\<close>.  The unseeded source is shared; a seeded request gets a generator of its own in
  every context, so the position \<open>n\<close> belongs to the context and is threaded by its user.
\<close>

definition draw :: "program \<Rightarrow> helpers \<Rightarrow> nat \<Rightarrow> (string \<times> nat) step" where
  "draw prog hp n = (case hp_seed hp of
      None \<Rightarrow> bind (get tx_ids) (\<lambda>i. bind (upd (\<lambda>t. t\<lparr>tx_ids := Suc i\<rparr>)) (\<lambda>_. ret (dp_uuid (pg_deps prog) i, n)))
    | Some s \<Rightarrow> ret (dp_seededUuid (pg_deps prog) s n, Suc n))"

subsection \<open>Creating an event\<close>

definition request_snapshot :: "request \<Rightarrow> event_request" where
  "request_snapshot rq = (let c = rq_command rq in
     \<lparr>er_method = cm_method c, er_path = cm_path c, er_query = Some (cm_query c), er_headers = rq_headers rq,
      er_payload = cm_payload c, er_actorId = map_option ac_id (rq_actor rq),
      er_actorScopes = map_option ac_scopes (rq_actor rq), er_originalActorId = map_option ac_id (rq_original rq),
      er_originalActorScopes = map_option ac_scopes (rq_original rq)\<rparr>)"

definition find_event :: "boundary \<Rightarrow> string \<Rightarrow> runtime_event option" where
  "find_event bd type = find (\<lambda>e. ct_type e = type) (bd_eventCatalog bd)"

definition createEvent :: "program \<Rightarrow> domain_event list \<Rightarrow> boundary \<Rightarrow> string \<Rightarrow> ctx \<Rightarrow> nat \<Rightarrow>
    domain_event option \<Rightarrow> (domain_event \<times> nat) step" where
  "createEvent prog evlog bd type c n sourceEvent =
     (let catalog = find_event bd type; rq = cx_request c; cm = cx_command c; hp = cx_helpers c in
     bind (throw_if (catalog = None \<and> type \<noteq> GENERIC_UPDATE)
        (runtime_error 500 (''Event '' @ type @ '' is not declared by '' @ bd_name bd))) (\<lambda>_.
     bind (case cm_target cm of Some t \<Rightarrow> ret (t, n) | None \<Rightarrow> draw prog hp n) (\<lambda>(raw, n1).
     bind (lift (parsed (aggregateId raw))) (\<lambda>aid.
     bind (draw prog hp n1) (\<lambda>(rawId, n2).
     bind (lift (parsed (eventId rawId))) (\<lambda>eid.
     bind (lift (parsed (boundaryName (bd_name bd)))) (\<lambda>bname.
     bind (lift (parsed (EventType_parse type))) (\<lambda>etype.
     bind (get tx_events) (\<lambda>pending.
     bind (lift (nextSequenceVersion (mem_currentSequenceVersion aid evlog) pending aid)) (\<lambda>version.
     bind (lift (case rc_causedBy (ctl rq) of None \<Rightarrow> Inr (cm_id cm) | Some x \<Rightarrow> parsed (eventId x))) (\<lambda>cause.
     let provisional = \<lparr>ev_id = eid, ev_boundary = bname, ev_aggregate = aid, ev_type = etype, ev_payload = [],
           ev_timestamp = hp_now hp, ev_version = version, ev_causedBy = Some cause, ev_intent = Some (cm_intent cm),
           ev_request = Some (request_snapshot (rq\<lparr>rq_command := cm\<rparr>)), ev_response = None\<rparr>;
         eventContext = c\<lparr>cx_event := Some (case sourceEvent of Some e \<Rightarrow> e | None \<Rightarrow> provisional), cx_payload := cm_payload cm\<rparr>
     in bind (lift (case catalog of None \<Rightarrow> Inr (cm_payload cm) | Some e \<Rightarrow> resolve_entries (ct_payload e) eventContext)) (\<lambda>hydrated.
     bind (lift (ct_validateEvent (dp_contract (pg_deps prog)) (bd_name bd) etype hydrated
        (case catalog of Some e \<Rightarrow> ct_schemaRef e | None \<Rightarrow> None))) (\<lambda>_.
     ret (provisional\<lparr>ev_payload := hydrated\<rparr>, n2))))))))))))))"

subsection \<open>Applying an event\<close>

definition run_reducer :: "boundary \<Rightarrow> helpers \<Rightarrow> patch_source \<Rightarrow> string \<Rightarrow> domain_event \<Rightarrow> reducer \<Rightarrow> json_object \<Rightarrow> exn + json_object" where
  "run_reducer bd hp src name e rd next =
     (let rx = \<lparr>rx_boundary = name, rx_state = next, rx_event = e, rx_payload = ev_payload e, rx_helpers = hp\<rparr>
      in case rd_reduce rd of
          Some f \<Rightarrow> rbind (f rx) (\<lambda>v. Inr (asObject v))
        | None \<Rightarrow> (case rd_apply rd of
            Some f \<Rightarrow> rbind (f rx) (\<lambda>ps. rbind (patched (applyPatches (JObj next) ps src True)) (\<lambda>r. Inr (asObject (newState r))))
          | None \<Rightarrow> Inr next))"

definition base_state :: "boundary \<Rightarrow> domain_event \<Rightarrow> json_object \<Rightarrow> json_object" where
  "base_state bd e existing =
     (let reducers = filter (\<lambda>r. rd_on r = ev_type e) (bd_reducers bd)
      in if ev_type e = GENERIC_UPDATE then obj_spread existing (ev_payload e)
         else if ev_type e = BASELINE_CREATED then ev_payload e
         else if list_ex rd_replaceState reducers then ev_payload e
         else existing)"

definition compute_field :: "boundary \<Rightarrow> helpers \<Rightarrow> domain_event \<Rightarrow> string \<times> json reducer_callback \<Rightarrow> json_object \<Rightarrow> exn + json_object" where
  "compute_field bd hp e field next = rbind (snd field \<lparr>rx_boundary = bd_name bd, rx_state = next, rx_event = e,
       rx_payload = ev_payload e, rx_helpers = hp\<rparr>) (\<lambda>v. Inr (obj_set (fst field) v next))"

definition audit :: "boundary \<Rightarrow> domain_event \<Rightarrow> json_object \<Rightarrow> json_object" where
  "audit bd e next =
     (if bd_auditFields bd \<and> ev_type e \<noteq> BASELINE_CREATED
      then obj_set ''updatedBy'' (case Option.bind (ev_request e) er_actorId of Some a \<Rightarrow> JStr a | None \<Rightarrow> JNull)
             (obj_set ''updatedAt'' (JStr (ev_timestamp e)) next)
      else next)"

text \<open>The state an event leads to, with the validations that may refuse it.\<close>

definition next_state :: "program \<Rightarrow> boundary \<Rightarrow> helpers \<Rightarrow> domain_event \<Rightarrow> json_object \<Rightarrow> exn + json_object" where
  "next_state prog bd hp e existing =
     (let reducers = (if ev_type e = BASELINE_CREATED then [] else filter (\<lambda>r. rd_on r = ev_type e) (bd_reducers bd))
      in rbind (rfold (run_reducer bd hp SrcReducer (bd_name bd) e) reducers (base_state bd e existing)) (\<lambda>next.
         rbind (rfold (compute_field bd hp e) (bd_computed bd) next) (\<lambda>next.
         let next = audit bd e next
         in rbind (bd_validate bd next) (\<lambda>_.
            rbind (ct_validateEntity (dp_contract (pg_deps prog))
               (case bd_schema bd of Some s \<Rightarrow> s | None \<Rightarrow> bd_name bd) next) (\<lambda>_. Inr next)))))"

definition state_of :: "state_map \<Rightarrow> string \<Rightarrow> json_object" where
  "state_of states a = (case omap_get states a of Some s \<Rightarrow> s | None \<Rightarrow> [])"

definition apply_to :: "program \<Rightarrow> boundary \<Rightarrow> helpers \<Rightarrow> domain_event \<Rightarrow> state_map \<Rightarrow> exn + state_map" where
  "apply_to prog bd hp e states =
     rbind (next_state prog bd hp e (state_of states (ev_aggregate e))) (\<lambda>next. Inr (omap_set (ev_aggregate e) next states))"

definition applyEvent :: "program \<Rightarrow> boundary \<Rightarrow> helpers \<Rightarrow> domain_event \<Rightarrow> unit step" where
  "applyEvent prog bd hp e =
     bind (get tx_states) (\<lambda>states.
     bind (lift (apply_to prog bd hp e states)) (\<lambda>states'.
     upd (\<lambda>t. t\<lparr>tx_states := states', tx_events := tx_events t @ [e]\<rparr>)))"

subsection \<open>Reactions\<close>

definition eventKey :: "domain_event \<Rightarrow> string" where
  "eventKey e = ev_boundary e @ '':'' @ ev_type e"

definition matchesSubscription :: "string \<Rightarrow> domain_event \<Rightarrow> bool" where
  "matchesSubscription s e \<longleftrightarrow> s = ev_type e \<or> s = eventKey e"

text \<open>\<open>xs.sort(cmp)\<close>: stable, for a comparator that is a total preorder.\<close>

fun insert_by :: "('a \<Rightarrow> 'a \<Rightarrow> int) \<Rightarrow> 'a \<Rightarrow> 'a list \<Rightarrow> 'a list" where
  "insert_by cmp x [] = [x]"
| "insert_by cmp x (y # ys) = (if cmp x y \<le> 0 then x # y # ys else y # insert_by cmp x ys)"

definition sort_by :: "('a \<Rightarrow> 'a \<Rightarrow> int) \<Rightarrow> 'a list \<Rightarrow> 'a list" where
  "sort_by cmp xs = foldr (insert_by cmp) xs []"

definition matching_reactions :: "program \<Rightarrow> domain_event \<Rightarrow> reaction list" where
  "matching_reactions prog e =
     sort_by (\<lambda>l r. dp_compare (pg_deps prog) (re_boundary l) (re_boundary r))
       (filter (\<lambda>r. re_on r = ev_type e \<or> re_on r = eventKey e)
         (po_reactions (pg_policies prog)
          @ (case byBoundaryName prog (ev_boundary e) of Some b \<Rightarrow> bd_reactions b | None \<Rightarrow> [])))"

definition reaction_label :: "reaction \<Rightarrow> string" where
  "reaction_label re = (case re_name re of Some n \<Rightarrow> n | None \<Rightarrow> re_on re)"

definition intent_method :: "intent \<Rightarrow> string" where
  "intent_method i = (if i = Creation then ''POST'' else ''PUT'')"

text \<open>The target a reaction names, or the identity a creation generates.\<close>

definition reaction_target :: "program \<Rightarrow> boundary \<Rightarrow> reaction \<Rightarrow> intent \<Rightarrow> ctx \<Rightarrow> nat \<Rightarrow> (string \<times> nat) step" where
  "reaction_target prog rb re i c n =
     bind (case re_target re of
         Some f \<Rightarrow> bind (lift (f c)) (\<lambda>t. ret (t, n))
       | None \<Rightarrow>
           if i = Creation then (case bd_generate rb of
               Some g \<Rightarrow> bind (lift (g (c\<lparr>cx_boundary := Some (bd_name rb)\<rparr>))) (\<lambda>t. ret (Some t, n))
             | None \<Rightarrow> bind (draw prog (cx_helpers c) n) (\<lambda>(t, n'). ret (Some t, n')))
           else throw (runtime_error 500 (''Reaction '' @ reaction_label re @ '' requires a target for mutation''))) (\<lambda>(t, n).
     case t of
       None \<Rightarrow> throw (runtime_error 500 (''Reaction '' @ reaction_label re @ '' did not resolve a target''))
     | Some target \<Rightarrow>
         if target = [] then throw (runtime_error 500 (''Reaction '' @ reaction_label re @ '' did not resolve a target''))
         else ret (target, n))"

definition check_target :: "reaction \<Rightarrow> intent \<Rightarrow> string \<Rightarrow> unit step" where
  "check_target re i target =
     bind (get (\<lambda>t. omap_get (tx_states t) target)) (\<lambda>st.
     bind (throw_if (i = Mutation \<and> st = None)
        (coded_error 404 (''Reaction '' @ reaction_label re @ '' target '' @ tick target @ '' does not exist'') ''ENTITY_ABSENCE''
          (''Reaction target '' @ tick target @ '' does not exist''))) (\<lambda>_.
     throw_if (i = Creation \<and> st \<noteq> None)
        (coded_error 409 (''Reaction '' @ reaction_label re @ '' target '' @ tick target @ '' already exists'') ''ENTITY_CONFLICT''
          (''Reaction target '' @ tick target @ '' already exists''))))"

definition reaction_key :: "boundary \<Rightarrow> reaction \<Rightarrow> string \<Rightarrow> string" where
  "reaction_key rb re target = bd_name rb @ '':'' @ re_on re @ '':'' @ re_emit re @ '':'' @ target"

definition reaction_command :: "request \<Rightarrow> reaction \<Rightarrow> intent \<Rightarrow> string \<Rightarrow> string \<Rightarrow> string \<Rightarrow> json_object \<Rightarrow> command" where
  "reaction_command src re i cid aid op payload =
     \<lparr>cm_id = cid, cm_boundary = re_boundary re, cm_intent = i, cm_target = Some aid, cm_payload = payload,
      cm_query = [], cm_method = intent_method i, cm_path = [], cm_operation = Some op, cm_version = None,
      cm_origin = Secondary, cm_depth = cm_depth (rq_command src), cm_actor = rq_actor src\<rparr>"

text \<open>An event created, completed by \<open>h\<close> and applied: the pair of calls behaviors and reactions make.\<close>

definition emit_event :: "program \<Rightarrow> domain_event list \<Rightarrow> boundary \<Rightarrow> string \<Rightarrow> ctx \<Rightarrow> nat \<Rightarrow> domain_event option \<Rightarrow>
    (domain_event \<Rightarrow> domain_event) \<Rightarrow> helpers \<Rightarrow> (domain_event \<times> nat) step" where
  "emit_event prog evlog bd type c n sourceEvent h hp =
     bind (createEvent prog evlog bd type c n sourceEvent) (\<lambda>(e, n').
     bind (applyEvent prog bd hp (h e)) (\<lambda>_. ret (h e, n')))"

text \<open>What follows once the key of the reaction is new: the event it emits, applied; the result is that
  event with the request it belongs to.\<close>

definition react :: "program \<Rightarrow> domain_event list \<Rightarrow> domain_event \<Rightarrow> request \<Rightarrow> boundary \<Rightarrow> reaction \<Rightarrow>
    intent \<Rightarrow> string \<Rightarrow> ctx \<Rightarrow> nat \<Rightarrow> (domain_event \<times> request) step" where
  "react prog evlog e src rb re i target c n =
     bind (lift (resolve_entries (re_payload re) c)) (\<lambda>payload.
     bind (draw prog (cx_helpers c) n) (\<lambda>(rawCid, n1).
     bind (lift (parsed (commandId rawCid))) (\<lambda>cid.
     bind (lift (parsed (aggregateId target))) (\<lambda>aid.
     bind (lift (parsed (OperationId_parse (re_emit re)))) (\<lambda>op.
     let cm = reaction_command src re i cid aid op payload; rq = src\<lparr>rq_command := cm\<rparr>
     in bind (get (\<lambda>t. omap_get (tx_states t) target)) (\<lambda>st.
        bind (emit_event prog evlog rb (re_emit re)
           ((match_context prog rq st)\<lparr>cx_payload := payload, cx_helpers := cx_helpers c\<rparr>) n1 (Some e)
           (\<lambda>created. created\<lparr>ev_payload := obj_spread (ev_payload created) payload\<rparr>) (helpersFor prog rq)) (\<lambda>(hydrated, n2).
        ret (hydrated, rq))))))))"

text \<open>
  The body of the loop of \<open>enqueueReactions\<close>, with \<open>again\<close> for its recursive call: \<open>fire\<close> registers the
  key of a reaction that is new, and reacts.
\<close>

definition enlist :: "string \<Rightarrow> transaction \<Rightarrow> transaction" where
  "enlist key t = t\<lparr>tx_reactionKeys := tx_reactionKeys t @ [key], tx_reactionEvents := Suc (tx_reactionEvents t)\<rparr>"

definition fire :: "(domain_event \<Rightarrow> request \<Rightarrow> unit step) \<Rightarrow> program \<Rightarrow> domain_event list \<Rightarrow> domain_event \<Rightarrow> request \<Rightarrow>
    boundary \<Rightarrow> reaction \<Rightarrow> intent \<Rightarrow> string \<Rightarrow> ctx \<Rightarrow> nat \<Rightarrow> unit step" where
  "fire again prog evlog e src rb re i target c n =
     bind (get tx_reactionKeys) (\<lambda>keys.
     if reaction_key rb re target \<in> set keys then ret ()
     else bind (upd (enlist (reaction_key rb re target))) (\<lambda>_.
          bind (react prog evlog e src rb re i target c n) (\<lambda>(hydrated, rq). again hydrated rq)))"

definition reaction_body :: "(domain_event \<Rightarrow> request \<Rightarrow> unit step) \<Rightarrow> program \<Rightarrow> domain_event list \<Rightarrow> domain_event \<Rightarrow>
    request \<Rightarrow> reaction \<Rightarrow> unit step" where
  "reaction_body again prog evlog e src re =
     bind (get tx_reactionEvents) (\<lambda>k.
     bind (throw_if (MAX_REACTION_EVENTS \<le> k) (runtime_error 508 ''Reaction event budget exceeded'')) (\<lambda>_.
     bind (get (\<lambda>t. (omap_get (tx_states t) (ev_aggregate e), tx_events t))) (\<lambda>(st, committed).
     let c = (match_context prog src st)\<lparr>cx_payload := ev_payload e, cx_event := Some e, cx_committed := committed\<rparr>
     in bind (lift (case re_when re of None \<Rightarrow> Inr True | Some p \<Rightarrow> p c)) (\<lambda>fires.
        if \<not> fires then ret ()
        else case byBoundaryName prog (re_boundary re) of
            None \<Rightarrow> throw (runtime_error 500 (''Unknown reaction boundary '' @ re_boundary re))
          | Some rb \<Rightarrow>
              let i = (case re_intent re of Some i \<Rightarrow> i | None \<Rightarrow> Mutation)
              in bind (reaction_target prog rb re i c 0) (\<lambda>(target, n).
                 bind (check_target re i target) (\<lambda>_.
                 fire again prog evlog e src rb re i target c n))))))"

text \<open>
  \<open>enqueueReactions\<close>.  Every recursive call follows an increment of \<open>tx_reactionEvents\<close>, which never
  passes \<open>MAX_REACTION_EVENTS\<close>, so that many levels of fuel are enough.
\<close>

fun enqueueReactions :: "nat \<Rightarrow> program \<Rightarrow> domain_event list \<Rightarrow> domain_event \<Rightarrow> request \<Rightarrow> unit step" where
  "enqueueReactions 0 prog evlog e src = throw (PlainError ''out of fuel'')"
| "enqueueReactions (Suc fuel) prog evlog e src =
     (if rq_skipReactions src then ret ()
      else each (matching_reactions prog e)
        (reaction_body (enqueueReactions fuel prog evlog) prog evlog e src))"

definition REACTION_FUEL :: nat where "REACTION_FUEL = Suc MAX_REACTION_EVENTS"

end
