(* ===== verification/Commands.thy ===== *)
theory Commands
  imports Cascade
begin

text \<open>
  Running commands inside a transaction (\<open>runCommands\<close>, \<open>findBehavior\<close>, \<open>assertAuthorized\<close> and
  \<open>eventsForBehavior\<close> of \<open>core/engine.ts\<close>).  The queue is a loop whose termination is part of its
  definition: a command of depth \<open>d\<close> only adds commands of depth \<open>d + 1\<close>, and none runs past the limit.
\<close>

subsection \<open>Selecting and authorizing a behavior\<close>

definition behavior_candidate :: "behavior \<Rightarrow> exn + (behavior \<times> ctx candidate)" where
  "behavior_candidate bh = rbind (parsed (OperationId_parse (bh_operation bh))) (\<lambda>op.
     Inr (bh, \<lparr>dc_operation = op, dc_method = bh_method bh, dc_headers = bh_headers bh,
       dc_condition = bh_condition bh, dc_emitWhen = map_option (map fst) (bh_emitWhen bh),
       dc_requires = Some (map gd_check (bh_requires bh))\<rparr>))"

definition findBehavior :: "boundary \<Rightarrow> request \<Rightarrow> ctx \<Rightarrow> exn + behavior option" where
  "findBehavior bd rq c =
     rbind (r_map behavior_candidate (bd_behaviors bd)) (\<lambda>candidates.
     rbind (case cm_operation (rq_command rq) of None \<Rightarrow> Inr None
            | Some op \<Rightarrow> rbind (parsed (OperationId_parse op)) (\<lambda>o'. Inr (Some o'))) (\<lambda>op.
     Inr (selectBehavior candidates \<lparr>dr_operation = op, dr_method = cm_method (rq_command rq),
       dr_inbound = (cm_origin (rq_command rq) = Inbound), dr_headers = rq_headers rq, dr_context = c\<rparr>)))"

definition assertAuthorized :: "program \<Rightarrow> request \<Rightarrow> behavior \<Rightarrow> ctx \<Rightarrow> exn + unit" where
  "assertAuthorized prog rq bh c =
     rbind (case Option.bind (po_auth (pg_policies prog)) au_authorize of None \<Rightarrow> Inr None
            | Some f \<Rightarrow> rbind (f c (bh_requiredScopes bh)) (\<lambda>b. Inr (Some b))) (\<lambda>policyDecision.
     case authorize (map_option ac_scopes (rq_actor rq)) (bh_requiredScopes bh) policyDecision of
       Allowed \<Rightarrow> Inr ()
     | Denied AuthenticationRequired \<Rightarrow>
         Inl (RuntimeExecutionError 401 ''Authentication is required for this operation''
           (JObj [(''code'', JStr ''AUTHENTICATION_REQUIRED''),
                  (''message'', JStr ''Authentication is required for this operation'')])
           [(''WWW-Authenticate'', ''Bearer'')])
     | Denied _ \<Rightarrow>
         Inl (coded_error 403 ''The actor is not authorized for this operation'' ''AUTHORIZATION_DENIED''
           ''The actor is not authorized for this operation''))"

definition eventsForBehavior :: "behavior \<Rightarrow> ctx \<Rightarrow> exn + string list" where
  "eventsForBehavior bh c = (case bh_emitWhen bh of
      Some es \<Rightarrow> rbind (r_filter (\<lambda>(w, e). w c) es) (\<lambda>fs. Inr (map snd fs))
    | None \<Rightarrow> Inr (case bh_emit bh of Some e \<Rightarrow> [e] | None \<Rightarrow> []))"

fun check_guards :: "guard list \<Rightarrow> ctx \<Rightarrow> exn + unit" where
  "check_guards [] c = Inr ()"
| "check_guards (g # gs) c = rbind (gd_check g c) (\<lambda>ok.
     if ok then check_guards gs c
     else Inl (coded_error (case gd_errorStatus g of Some s \<Rightarrow> s | None \<Rightarrow> 422) (gd_errorMessage g)
       (gd_errorCode g) (gd_errorMessage g)))"

subsection \<open>One command\<close>

definition maxDepth :: "request \<Rightarrow> nat" where
  "maxDepth rq = (case rc_maxCascadeDepth (ctl rq) of Some m \<Rightarrow> m | None \<Rightarrow> MAX_DEPTH)"

definition depth_error :: exn where
  "depth_error = coded_error 508 ''Cascade depth exceeded'' ''INFINITE_LOOP'' ''Cascade depth exceeded''"

definition operation_label :: "command \<Rightarrow> string" where
  "operation_label cm = (case cm_operation cm of Some op \<Rightarrow> op | None \<Rightarrow> cm_path cm)"

text \<open>A targeted mutation needs an entity, a targeted creation needs its absence.\<close>

definition check_existence :: "boundary \<Rightarrow> command \<Rightarrow> json_object option \<Rightarrow> exn + unit" where
  "check_existence bd cm st = (case cm_target cm of
      None \<Rightarrow> Inr ()
    | Some t \<Rightarrow>
        if cm_intent cm = Mutation \<and> st = None
        then Inl (coded_error 404 (''Entity '' @ tick t @ '' not found in boundary '' @ tick (bd_name bd))
          ''ENTITY_ABSENCE'' (''Entity '' @ tick t @ '' not found''))
        else if cm_intent cm = Creation \<and> st \<noteq> None
        then Inl (coded_error 409 (''Entity '' @ tick t @ '' already exists in boundary '' @ tick (bd_name bd))
          ''ENTITY_CONFLICT'' (''Entity '' @ tick t @ '' already exists''))
        else Inr ())"

text \<open>The refusal when no behavior matches.\<close>

definition no_behavior :: "boundary \<Rightarrow> command \<Rightarrow> exn" where
  "no_behavior bd cm =
     (let label = operation_label cm;
          invalid = ''Operation '' @ label @ '' is not valid for the current entity state'';
          missing = ''No behavior matched '' @ label
      in if cm_origin cm = Inbound
         then (if bd_behaviors bd \<noteq> [] then coded_error 422 invalid ''INVALID_STATE_TRANSITION'' invalid
               else coded_error 404 missing ''NO_BEHAVIOR'' missing)
         else runtime_error 422 (''No secondary behavior matched '' @ label))"

text \<open>Create, apply and react, for each event in turn; the context's generator runs on.\<close>

definition emit_one :: "program \<Rightarrow> domain_event list \<Rightarrow> boundary \<Rightarrow> request \<Rightarrow> ctx \<Rightarrow> string \<Rightarrow> nat \<Rightarrow> (domain_event \<times> nat) step" where
  "emit_one prog evlog bd rq c type n =
     bind (emit_event prog evlog bd type c n None id (helpersFor prog rq)) (\<lambda>(e, n').
     bind (if rq_skipReactions rq then ret () else enqueueReactions REACTION_FUEL prog evlog e rq) (\<lambda>_.
     ret (e, n')))"

fun emit_all :: "program \<Rightarrow> domain_event list \<Rightarrow> boundary \<Rightarrow> request \<Rightarrow> ctx \<Rightarrow> string list \<Rightarrow> nat \<Rightarrow> unit step" where
  "emit_all prog evlog bd rq c [] n = ret ()"
| "emit_all prog evlog bd rq c (t # ts) n =
     bind (emit_one prog evlog bd rq c t n) (\<lambda>(e, n'). emit_all prog evlog bd rq c ts n')"

definition pathForOperation :: "program \<Rightarrow> string \<Rightarrow> string option \<Rightarrow> string \<Rightarrow> exn + string" where
  "pathForOperation prog op target fallback =
     rbind (parsed (OperationId_parse op)) (\<lambda>oid.
     Inr (case ct_pathForOperation (dp_contract (pg_deps prog)) oid target of Some p \<Rightarrow> p | None \<Rightarrow> fallback))"

definition aggregateTarget :: "string option \<Rightarrow> exn + string option" where
  "aggregateTarget v = (case v of None \<Rightarrow> Inr None | Some t \<Rightarrow> rbind (parsed (aggregateId t)) (\<lambda>a. Inr (Some a)))"

text \<open>The command a behavior dispatches, if its condition holds.\<close>

definition secondary_request :: "program \<Rightarrow> request \<Rightarrow> ctx \<Rightarrow> secondary_command \<Rightarrow> exn + request option" where
  "secondary_request prog rq c sc =
     rbind (case sc_condition sc of None \<Rightarrow> Inr True | Some p \<Rightarrow> p c) (\<lambda>ok.
     if \<not> ok then Inr None
     else
       rbind (case sc_target sc of None \<Rightarrow> Inr None | Some f \<Rightarrow> rbind (f c) aggregateTarget) (\<lambda>target.
       rbind (resolve_entries (sc_payload sc) c) (\<lambda>payload.
       rbind (pathForOperation prog (sc_operation sc) target
           (case byBoundaryName prog (sc_boundary sc) of Some b \<Rightarrow> bd_contractPath b | None \<Rightarrow> cm_path (rq_command rq))) (\<lambda>path.
       rbind (parsed (boundaryName (sc_boundary sc))) (\<lambda>bname.
       rbind (parsed (OperationId_parse (sc_operation sc))) (\<lambda>op.
       Inr (Some (rq\<lparr>rq_command := (rq_command rq)\<lparr>cm_boundary := bname, cm_intent := sc_intent sc,
         cm_operation := Some op, cm_target := target, cm_payload := payload, cm_origin := Secondary,
         cm_depth := Suc (cm_depth (rq_command rq)), cm_path := path,
         cm_method := intent_method (sc_intent sc)\<rparr>\<rparr>))))))))"

definition secondary_requests :: "program \<Rightarrow> request \<Rightarrow> ctx \<Rightarrow> behavior \<Rightarrow> exn + request list" where
  "secondary_requests prog rq c bh =
     (if rq_skipDispatch rq then Inr []
      else rbind (r_map (secondary_request prog rq c) (bh_dispatch bh)) (\<lambda>os. Inr (List.map_filter id os)))"

definition intent_status :: "program \<Rightarrow> command \<Rightarrow> behavior \<Rightarrow> exn + nat" where
  "intent_status prog cm bh = (case bh_responseStatus bh of
      Some s \<Rightarrow> Inr s
    | None \<Rightarrow> rbind (parsed (OperationId_parse (case cm_operation cm of Some op \<Rightarrow> op | None \<Rightarrow> bh_operation bh))) (\<lambda>op.
        Inr (case ct_responseStatusFor (dp_contract (pg_deps prog)) op (cm_intent cm) of
            Some s \<Rightarrow> s | None \<Rightarrow> if cm_intent cm = Creation then 201 else 200)))"

definition plain_result :: "nat \<Rightarrow> json \<Rightarrow> headers \<Rightarrow> execution_result" where
  "plain_result st body hs = \<lparr>xr_status = st, xr_body = body, xr_headers = hs, xr_events = [], xr_committed = False,
     xr_unmaskedBody = None, xr_connectionClosed = False\<rparr>"

definition state_body :: "json_object option \<Rightarrow> json" where
  "state_body s = (case s of Some m \<Rightarrow> JObj m | None \<Rightarrow> JNull)"

text \<open>A boundary with an identity fallback accepts the command as a generic update.\<close>

definition run_fallback :: "program \<Rightarrow> domain_event list \<Rightarrow> boundary \<Rightarrow> request \<Rightarrow> ctx \<Rightarrow> (request list \<times> execution_result) step" where
  "run_fallback prog evlog bd rq c =
     bind (emit_one prog evlog bd rq c GENERIC_UPDATE 0) (\<lambda>(e, _).
     bind (get (\<lambda>t. omap_get (tx_states t) (ev_aggregate e))) (\<lambda>st.
     ret ([], plain_result 200 (JObj (case st of Some m \<Rightarrow> m | None \<Rightarrow> ev_payload e)) [])))"

definition run_behavior :: "program \<Rightarrow> domain_event list \<Rightarrow> state_map \<Rightarrow> boundary \<Rightarrow> request \<Rightarrow> ctx \<Rightarrow> behavior \<Rightarrow>
    (request list \<times> execution_result) step" where
  "run_behavior prog evlog store bd rq c bh =
     (let cm = rq_command rq in
     bind (lift (assertAuthorized prog rq bh c)) (\<lambda>_.
     bind (lift (check_guards (bh_requires bh) c)) (\<lambda>_.
     bind (lift (eventsForBehavior bh c)) (\<lambda>emitted.
     bind (emit_all prog evlog bd rq c emitted 0) (\<lambda>_.
     bind (lift (secondary_requests prog rq c bh)) (\<lambda>secondaries.
     bind (get (\<lambda>t. case cm_target cm of None \<Rightarrow> None | Some i \<Rightarrow> omap_get (tx_states t) i)) (\<lambda>st.
     bind (get tx_events) (\<lambda>events.
     bind (lift (intent_status prog cm bh)) (\<lambda>status.
     bind (lift (applyResponse prog evlog store bd rq
        \<lparr>rs_status = status,
         rs_body = (case st of Some m \<Rightarrow> JObj m
           | None \<Rightarrow> if emitted \<noteq> [] then (case last_event events of Some e \<Rightarrow> JObj (ev_payload e) | None \<Rightarrow> JNull) else JNull),
         rs_headers = []\<rparr>
        (Some bh) (drop (length events - length emitted) events) st None)) (\<lambda>(rsp, unmasked).
     bind (lift (case bh_postcondition bh of None \<Rightarrow> Inr True
        | Some p \<Rightarrow> p (c\<lparr>cx_state := st, cx_committed := events, cx_response := Some rsp, cx_payload := cm_payload cm\<rparr>))) (\<lambda>ok.
     bind (throw_if (\<not> ok) (runtime_error 422 ''Behavior postcondition failed'')) (\<lambda>_.
     ret (secondaries, (plain_result (rs_status rsp) (rs_body rsp) (rs_headers rsp))\<lparr>xr_unmaskedBody := Some unmasked\<rparr>)))))))))))))"

definition run_one :: "program \<Rightarrow> domain_event list \<Rightarrow> state_map \<Rightarrow> nat \<Rightarrow> request \<Rightarrow> (request list \<times> execution_result) step" where
  "run_one prog evlog store maxD rq =
     (let cm = rq_command rq in
     bind (throw_if (maxD < cm_depth cm) depth_error) (\<lambda>_.
     case byBoundaryName prog (cm_boundary cm) of
       None \<Rightarrow> throw (runtime_error 500 (''Unknown boundary '' @ cm_boundary cm))
     | Some bd \<Rightarrow>
         bind (get (\<lambda>t. case cm_target cm of None \<Rightarrow> None | Some i \<Rightarrow> omap_get (tx_states t) i)) (\<lambda>st.
         let c = match_context prog rq st
         in bind (lift (check_existence bd cm st)) (\<lambda>_.
            bind (lift (findBehavior bd rq c)) (\<lambda>found.
            case found of
              Some bh \<Rightarrow> run_behavior prog evlog store bd rq c bh
            | None \<Rightarrow>
                if bd_fallbackOverride bd = Some True then run_fallback prog evlog bd rq c
                else throw (no_behavior bd cm))))))"

text \<open>What a command adds to the queue is one level deeper, and the command itself is within the limit.\<close>

lemma r_map_Inr_set: "r_map f xs = Inr ys \<Longrightarrow> y \<in> set ys \<Longrightarrow> \<exists>x\<in>set xs. f x = Inr y"
  by (induction xs arbitrary: ys) auto

lemma secondary_request_depth:
  "secondary_request prog rq c sc = Inr (Some rq') \<Longrightarrow> cm_depth (rq_command rq') = Suc (cm_depth (rq_command rq))"
  by (auto simp: secondary_request_def split: if_splits)

lemma secondary_requests_depth:
  assumes "secondary_requests prog rq c bh = Inr rqs" and "rq' \<in> set rqs"
  shows "cm_depth (rq_command rq') = Suc (cm_depth (rq_command rq))"
proof -
  from assms obtain os where "r_map (secondary_request prog rq c) (bh_dispatch bh) = Inr os" "Some rq' \<in> set os"
    by (auto simp: secondary_requests_def List.map_filter_def split: if_splits)
  then show ?thesis using r_map_Inr_set secondary_request_depth by fastforce
qed

lemma run_behavior_secondaries:
  "run_behavior prog evlog store bd rq c bh t = (Inr (rqs, r), t') \<Longrightarrow> secondary_requests prog rq c bh = Inr rqs"
  unfolding run_behavior_def Let_def
  by (auto simp: bind_Inr split: prod.splits sum.splits if_splits)

lemma run_one_depth:
  assumes "run_one prog evlog store maxD rq t = (Inr (rqs, r), t')"
  shows "cm_depth (rq_command rq) \<le> maxD \<and> (\<forall>rq'\<in>set rqs. cm_depth (rq_command rq') = Suc (cm_depth (rq_command rq)))"
  using assms unfolding run_one_def Let_def
  by (auto simp: bind_Inr run_fallback_def split: option.splits if_splits
      dest!: run_behavior_secondaries dest: secondary_requests_depth)

subsection \<open>The queue\<close>

function run_queue :: "program \<Rightarrow> domain_event list \<Rightarrow> state_map \<Rightarrow> nat \<Rightarrow> request list \<Rightarrow> execution_result option \<Rightarrow>
    execution_result option step" where
  "run_queue prog evlog store maxD [] first t = (Inr first, t)"
| "run_queue prog evlog store maxD (rq # queue) first t =
     (case run_one prog evlog store maxD rq t of
        (Inl e, t') \<Rightarrow> (Inl e, t')
      | (Inr (rqs, r), t') \<Rightarrow>
          run_queue prog evlog store maxD (queue @ rqs) (case first of None \<Rightarrow> Some r | Some _ \<Rightarrow> first) t')"
  by pat_completeness auto

definition queue_measure :: "nat \<Rightarrow> request list \<Rightarrow> nat multiset" where
  "queue_measure maxD queue = image_mset (\<lambda>rq. Suc maxD - cm_depth (rq_command rq)) (mset queue)"

lemma queue_measure_decreases:
  assumes "run_one prog evlog store maxD rq t = (Inr (rqs, r), t')"
  shows "(queue_measure maxD (queue @ rqs), queue_measure maxD (rq # queue)) \<in> mult less_than"
proof -
  let ?w = "\<lambda>rq. Suc maxD - cm_depth (rq_command rq)"
  have "x < ?w rq" if "x \<in># image_mset ?w (mset rqs)" for x
    using that run_one_depth[OF assms] by auto
  then have "(image_mset ?w (mset queue) + image_mset ?w (mset rqs), image_mset ?w (mset queue) + {#?w rq#}) \<in> mult less_than"
    by (intro one_step_implies_mult) auto
  then show ?thesis by (simp add: queue_measure_def)
qed

termination run_queue
  by (relation "inv_image (mult less_than) (\<lambda>(prog, evlog, store, maxD, queue, first, t). queue_measure maxD queue)")
    (auto simp: wf_mult intro: queue_measure_decreases dest: sym)

definition runCommands :: "program \<Rightarrow> domain_event list \<Rightarrow> state_map \<Rightarrow> request \<Rightarrow> execution_result option step" where
  "runCommands prog evlog store rq = run_queue prog evlog store (maxDepth rq) [rq] None"

end
