(* ===== verification/Sessions.thy ===== *)
theory Sessions
  imports Storage
begin

text \<open>
  The session store behind cookie authentication (\<open>identity/sessionStore.ts\<close>) and the session port the
  runtime makes of it (\<open>runtimeSessions\<close> of \<open>runtime/system.ts\<close>): creation under a cap, lookup with
  expiry, destruction, reset and the background sweep.  The clock, the identifiers and the tokens are
  arguments.  An absent cap stands for \<open>Infinity\<close>.
\<close>

subsection \<open>The store\<close>

record session =
  se_id :: string
  se_actor :: actor
  se_createdAt :: rat
  se_expiresAt :: rat
  se_csrf :: string

type_synonym session_map = "(string, session) omap"

definition range_error :: "string \<Rightarrow> exn" where
  "range_error msg = CallbackError (named_error ''RangeError'' msg None)"

definition validateNonNegativeFinite :: "rat \<Rightarrow> string \<Rightarrow> exn + unit" where
  "validateNonNegativeFinite v name =
     (if v < 0 then Inl (range_error (name @ '' must be a finite non-negative number'')) else Inr ())"

definition check_options :: "rat \<Rightarrow> rat option \<Rightarrow> exn + unit" where
  "check_options sweepIntervalMs maxSessions =
     rbind (validateNonNegativeFinite sweepIntervalMs ''sweepIntervalMs'') (\<lambda>_.
     case maxSessions of
       None \<Rightarrow> Inr ()
     | Some m \<Rightarrow> if is_integer m \<and> 0 \<le> m \<and> m \<le> 9007199254740991 then Inr ()
         else Inl (range_error ''maxSessions must be a non-negative safe integer or Infinity''))"

definition live :: "rat \<Rightarrow> session \<Rightarrow> bool" where
  "live now s \<longleftrightarrow> now < se_expiresAt s"

definition session_count :: "rat \<Rightarrow> session_map \<Rightarrow> nat" where
  "session_count now sessions = length (filter (live now) (map snd sessions))"

definition session_limit :: "nat \<Rightarrow> exn" where
  "session_limit m = (let msg = ''Session limit of '' @ dec m @ '' reached; cannot create a new session''
     in CallbackError ((named_error ''SessionLimitError'' msg (Some ''SESSION_LIMIT_EXCEEDED''))
       \<lparr>fg_status := Some 429, fg_details := Some [(''maxSessions'', JNum (of_nat m))]\<rparr>))"

definition session_create :: "nat option \<Rightarrow> actor \<Rightarrow> rat \<Rightarrow> rat \<Rightarrow> string \<Rightarrow> string \<Rightarrow> session_map \<Rightarrow> exn + (session \<times> session_map)" where
  "session_create maxSessions ac ttlMs now fresh csrf sessions =
     rbind (validateNonNegativeFinite ttlMs ''ttlMs'') (\<lambda>_.
     case maxSessions of
       Some m \<Rightarrow> if m \<le> session_count now sessions then Inl (session_limit m)
         else (let s = \<lparr>se_id = fresh, se_actor = ac, se_createdAt = now, se_expiresAt = now + ttlMs, se_csrf = csrf\<rparr>
               in Inr (s, omap_set fresh s sessions))
     | None \<Rightarrow> (let s = \<lparr>se_id = fresh, se_actor = ac, se_createdAt = now, se_expiresAt = now + ttlMs, se_csrf = csrf\<rparr>
               in Inr (s, omap_set fresh s sessions)))"

definition session_get :: "string \<Rightarrow> rat option \<Rightarrow> rat \<Rightarrow> session_map \<Rightarrow> session option \<times> session_map" where
  "session_get i atMs now sessions = (case omap_get sessions i of
      None \<Rightarrow> (None, sessions)
    | Some s \<Rightarrow>
        if live (case atMs of Some t \<Rightarrow> t | None \<Rightarrow> now) s then (Some s, sessions)
        else (None, if atMs = None then omap_delete i sessions else sessions))"

definition session_destroy :: "string \<Rightarrow> session_map \<Rightarrow> bool \<times> session_map" where
  "session_destroy i sessions = (omap_has sessions i, omap_delete i sessions)"

definition session_reset :: "session_map \<Rightarrow> session_map" where
  "session_reset sessions = []"

definition session_sweep :: "rat \<Rightarrow> session_map \<Rightarrow> session_map" where
  "session_sweep now sessions = filter (\<lambda>(i, s). live now s) sessions"

subsection \<open>The port\<close>

text \<open>The runtime hands out seconds where the store takes milliseconds.\<close>

definition runtime_create :: "nat option \<Rightarrow> actor \<Rightarrow> rat \<Rightarrow> rat \<Rightarrow> string \<Rightarrow> string \<Rightarrow> session_map \<Rightarrow> exn + (session \<times> session_map)" where
  "runtime_create maxSessions ac ttlSeconds now fresh csrf sessions =
     session_create maxSessions ac (ttlSeconds * 1000) now fresh csrf sessions"

text \<open>
  What authentication relies on of a session port.  A read at a request's own time leaves the store
  alone; a session is found at any time before its expiry until it is destroyed or the store is cleared.
\<close>

locale session_port =
  fixes create :: "actor \<Rightarrow> rat \<Rightarrow> rat \<Rightarrow> string \<Rightarrow> string \<Rightarrow> 's \<Rightarrow> exn + (session \<times> 's)"
    and look :: "string \<Rightarrow> rat option \<Rightarrow> rat \<Rightarrow> 's \<Rightarrow> session option \<times> 's"
    and destroy :: "string \<Rightarrow> 's \<Rightarrow> bool \<times> 's"
    and clear :: "'s \<Rightarrow> 's"
  assumes local_read: "snd (look i (Some t) now s) = s"
    and look_create: "create ac ttl now i csrf s = Inr (x, s') \<Longrightarrow>
      fst (look j (Some t) now' s') = (if j = i then if t < now + ttl * 1000 then Some x else None else fst (look j (Some t) now' s))"
    and created: "create ac ttl now i csrf s = Inr (x, s') \<Longrightarrow> se_id x = i \<and> se_actor x = ac \<and> se_csrf x = csrf"
    and look_destroy: "fst (look j (Some t) now (snd (destroy i s))) = (if j = i then None else fst (look j (Some t) now s))"
    and look_clear: "fst (look j (Some t) now (clear s)) = None"
    and look_live: "fst (look j (Some t) now s) = Some x \<Longrightarrow> t < se_expiresAt x"
begin

text \<open>A login is found by its cookie before it expires, under any other logins and logouts that follow it.\<close>

lemma found_after_login:
  assumes "create ac ttl now i csrf s = Inr (x, s')" and "t < now + ttl * 1000"
  shows "fst (look i (Some t) now' s') = Some x \<and> se_actor x = ac"
  using look_create[OF assms(1), of i t now'] created[OF assms(1)] assms(2) by simp

lemma found_after_others:
  assumes "fst (look i (Some t) now s) = Some x" and "i \<notin> set others"
  shows "fst (look i (Some t) now (fold (\<lambda>j s. snd (destroy j s)) others s)) = Some x"
  using assms by (induction others arbitrary: s) (auto simp: look_destroy)

lemma gone_after_logout:
  assumes "i \<in> set others"
  shows "fst (look i (Some t) now (fold (\<lambda>j s. snd (destroy j s)) others s)) = None"
proof -
  have keep: "fst (look i (Some t) now (fold (\<lambda>j s. snd (destroy j s)) js s)) = None"
    if "fst (look i (Some t) now s) = None" for js s
    using that by (induction js arbitrary: s) (auto simp: look_destroy)
  show ?thesis using assms
    by (induction others arbitrary: s) (auto simp: look_destroy keep)
qed

end

lemma session_create_Inr:
  "session_create m ac ttl now i csrf ss = Inr (x, ss') \<longleftrightarrow>
     0 \<le> ttl \<and> (\<forall>c. m = Some c \<longrightarrow> session_count now ss < c) \<and>
     x = \<lparr>se_id = i, se_actor = ac, se_createdAt = now, se_expiresAt = now + ttl, se_csrf = csrf\<rparr> \<and> ss' = omap_set i x ss"
  by (auto simp: session_create_def validateNonNegativeFinite_def Let_def split: option.splits if_splits)

interpretation mem_se: session_port "runtime_create m" session_get session_destroy session_reset
  by unfold_locales
    (auto simp: session_get_def session_destroy_def session_reset_def runtime_create_def session_create_Inr live_def
      split: option.splits if_splits)

subsection \<open>Reachable stores\<close>

text \<open>
  The life of a store with cap \<open>m\<close>: the clock only moves forward, and the sweep may run at any time.
\<close>

inductive session_run :: "nat option \<Rightarrow> rat \<Rightarrow> session_map \<Rightarrow> bool" for m :: "nat option" where
  start: "session_run m now []"
| tick: "session_run m now ss \<Longrightarrow> now \<le> now' \<Longrightarrow> session_run m now' ss"
| login: "session_run m now ss \<Longrightarrow> session_create m ac ttl now i csrf ss = Inr (x, ss') \<Longrightarrow> session_run m now ss'"
| lookup: "session_run m now ss \<Longrightarrow> session_run m now (snd (session_get i atMs now ss))"
| logout: "session_run m now ss \<Longrightarrow> session_run m now (snd (session_destroy i ss))"
| sweep: "session_run m now ss \<Longrightarrow> session_run m now (session_sweep now ss)"
| reset: "session_run m now ss \<Longrightarrow> session_run m now (session_reset ss)"

definition sessions_ok :: "nat option \<Rightarrow> rat \<Rightarrow> session_map \<Rightarrow> bool" where
  "sessions_ok m now ss \<longleftrightarrow> distinct (map fst ss) \<and> (\<forall>(i, s) \<in> set ss. se_id s = i \<and> se_createdAt s \<le> now)
     \<and> (\<forall>c. m = Some c \<longrightarrow> session_count now ss \<le> c)"

lemma session_count_Cons:
  "session_count now ((i, s) # ss) = (if live now s then Suc (session_count now ss) else session_count now ss)"
  by (simp add: session_count_def)

lemma session_count_filter: "session_count now (filter p ss) \<le> session_count now ss"
  by (induction ss) (auto simp: session_count_def)

lemma session_count_delete: "session_count now (omap_delete i ss) \<le> session_count now ss"
  by (simp add: AList.delete_eq session_count_filter)

lemma session_count_later: "now \<le> now' \<Longrightarrow> session_count now' ss \<le> session_count now ss"
  by (induction ss) (auto simp: session_count_def live_def)

lemma session_count_set: "session_count now (omap_set i x ss) \<le> Suc (session_count now ss)"
  by (induction ss) (auto simp: session_count_def)

lemma set_omap_set: "p \<in> set (omap_set i x ss) \<Longrightarrow> p = (i, x) \<or> p \<in> set ss"
  by (induction ss) (auto split: if_splits)

lemma set_omap_delete: "p \<in> set (omap_delete i ss) \<Longrightarrow> p \<in> set ss"
  by (auto simp: AList.delete_eq)

lemma sessions_ok_delete: "sessions_ok m now ss \<Longrightarrow> sessions_ok m now (omap_delete i ss)"
  unfolding sessions_ok_def
  by (auto simp: distinct_delete dest: set_omap_delete intro: order_trans[OF session_count_delete])

lemma sessions_ok_run: "session_run m now ss \<Longrightarrow> sessions_ok m now ss"
proof (induction rule: session_run.induct)
  case (tick now ss now')
  then show ?case
    unfolding sessions_ok_def by (fastforce intro: order_trans[OF session_count_later])
next
  case (login now ss ac ttl i csrf x ss')
  from login(2) have x: "se_id x = i" "se_createdAt x = now" "ss' = omap_set i x ss"
    and cap: "m = Some c \<Longrightarrow> session_count now ss < c" for c
    by (auto simp: session_create_Inr)
  show ?case
    using login.IH x cap unfolding sessions_ok_def
    by (auto simp: distinct_update dest!: set_omap_set intro: order_trans[OF session_count_set] Suc_leI)
next
  case (lookup now ss i atMs)
  then show ?case by (auto simp: session_get_def sessions_ok_delete split: option.splits)
next
  case (sweep now ss)
  then show ?case
    unfolding sessions_ok_def session_sweep_def
    by (auto simp: distinct_map_filter intro: order_trans[OF session_count_filter])
next
  case (logout now ss i)
  then show ?case by (simp add: session_destroy_def sessions_ok_delete)
qed (simp_all add: sessions_ok_def session_count_def session_reset_def)

end
