(* ===== verification/Engine.thy ===== *)
theory Engine
  imports Commands Sessions
begin

text \<open>
  The engine's own state and the parts of a request around the transaction (\<open>core/engine.ts\<close>):
  locks, idempotency keys and fault selection.

  Top-level requests hold the barrier \<open>__runtime_batch__\<close>, so one request runs at a time and a step of
  the engine is a function of its state.  The in-memory stores of \<open>Storage\<close> and \<open>Sessions\<close> are the ones
  the engine is built with by default.  \<open>en_init\<close> is how \<open>initializationPromise\<close> settled, \<open>en_deliveries\<close> the
  attempts the webhook transport was given, \<open>en_ids\<close>, \<open>en_randoms\<close> and \<open>en_tokens\<close> count the draws from the
  shared sources.
\<close>

record pending_idempotency =
  pi_fingerprint :: string
  pi_result :: execution_result
  pi_ttlSeconds :: rat

record active_batch =
  bt_postCommits :: "(request \<times> domain_event list \<times> execution_result) list"
  bt_idempotency :: "(string, pending_idempotency) omap"

record engine =
  en_events :: "domain_event list"
  en_state :: state_map
  en_idempotency :: idem_map
  en_fingerprints :: "(string, string) omap"
  en_faults :: "fault fault_map"
  en_projections :: "(string, state_map) omap"
  en_boundaries :: "(string, string) omap"
  en_batch :: "active_batch option"
  en_sessions :: session_map
  en_locks :: "string list"
  en_deliveries :: "webhook_delivery list"
  en_init :: "exn + unit"
  en_ids :: nat
  en_randoms :: nat
  en_tokens :: nat

type_synonym 'a run = "(engine, exn, 'a) eff"

definition empty_engine :: engine where
  "empty_engine = \<lparr>en_events = [], en_state = [], en_idempotency = [], en_fingerprints = [], en_faults = [],
     en_projections = [], en_boundaries = [], en_batch = None, en_sessions = [], en_locks = [], en_deliveries = [],
     en_init = Inr (), en_ids = 0, en_randoms = 0, en_tokens = 0\<rparr>"

subsection \<open>Locks\<close>

text \<open>
  \<open>acquire\<close> as one request sees it.  The locks themselves, chains of promises that any number of requests wait on, are
  \<open>LockChain\<close>, where a call goes on once every earlier call for its key has been released.  Here a request runs
  alone, because \<open>execute\<close> holds the barrier: a key that is held then is held by the request itself or by one that
  never settled, no step that releases it is left, and by \<open>not_reentrant\<close> of \<open>LockChain\<close> the call is never granted.  That
  outcome is \<open>Hang\<close>.  \<open>finally\<close> releases on a return and on a throw, and never runs otherwise.
\<close>

definition acquire :: "string \<Rightarrow> unit run" where
  "acquire key = bind (get en_locks) (\<lambda>held.
     if key \<in> set held then throw Hang else upd (\<lambda>en. en\<lparr>en_locks := held @ [key]\<rparr>))"

definition acquireMany :: "string list \<Rightarrow> unit run" where
  "acquireMany keys = each (sort (remdups keys)) acquire"

definition release :: "string list \<Rightarrow> engine \<Rightarrow> engine" where
  "release keys en = en\<lparr>en_locks := filter (\<lambda>k. k \<notin> set keys) (en_locks en)\<rparr>"

definition with_locks :: "string list \<Rightarrow> 'a run \<Rightarrow> 'a run" where
  "with_locks keys m = bind (acquireMany keys) (\<lambda>_ en. case m en of
      (Inl Hang, en') \<Rightarrow> (Inl Hang, en')
    | (r, en') \<Rightarrow> (r, release keys en'))"

text \<open>\<open>helpers.uuid()\<close> outside a transaction; \<open>n\<close> is the position of a seeded context.\<close>

definition draw_id :: "program \<Rightarrow> helpers \<Rightarrow> nat \<Rightarrow> string run" where
  "draw_id prog hp n = (case hp_seed hp of
      None \<Rightarrow> bind (get en_ids) (\<lambda>i. bind (upd (\<lambda>en. en\<lparr>en_ids := Suc i\<rparr>)) (\<lambda>_. ret (dp_uuid (pg_deps prog) i)))
    | Some s \<Rightarrow> ret (dp_seededUuid (pg_deps prog) s n))"

subsection \<open>Idempotency\<close>

text \<open>\<open>serialise\<close>: the sorted keys of the payload are the replacer, and so apply at every depth.\<close>

definition serialise :: "json \<Rightarrow> string" where
  "serialise v = stringify (Some (sort (case v of
      JObj m \<Rightarrow> map fst m
    | JArr xs \<Rightarrow> map dec [0..<length xs]
    | JStr s \<Rightarrow> map dec [0..<length s]
    | _ \<Rightarrow> []))) v"

definition colons :: "string list \<Rightarrow> string" where
  "colons ps = js_join '':'' ps"

definition idempotencyKey :: "program \<Rightarrow> request \<Rightarrow> string option" where
  "idempotencyKey prog rq =
     (let cm = rq_command rq
      in if (case po_idempotency (pg_policies prog) of Some p \<Rightarrow> \<not> ip_enabled p | None \<Rightarrow> True) then None
         else if cm_intent cm = Query \<and> rc_replayEvent (ctl rq) = None then None
         else map_option (\<lambda>key. colons [case rq_actor rq of Some a \<Rightarrow> ac_id a | None \<Rightarrow> ''anonymous'',
                cm_boundary cm, operation_label cm, key]) (header_value (rq_headers rq) ''idempotency-key''))"

definition idempotencyFingerprint :: "request \<Rightarrow> string" where
  "idempotencyFingerprint rq = (let cm = rq_command rq in
     colons [to_upper (cm_method cm), cm_path cm, case rc_replayEvent (ctl rq) of Some e \<Rightarrow> e | None \<Rightarrow> [],
       serialise (JObj (cm_payload cm))])"

definition cachedIdempotency :: "program \<Rightarrow> string \<Rightarrow> request \<Rightarrow> engine \<Rightarrow> execution_result option" where
  "cachedIdempotency prog key rq en =
     (case Option.bind (en_batch en) (\<lambda>b. omap_get (bt_idempotency b) key) of
        Some p \<Rightarrow> Some (pi_result p)
      | None \<Rightarrow> fst (mem_idem_get key (Some (nowMsFor prog rq)) (dp_nowMs (pg_deps prog)) (en_idempotency en)))"

definition storeIdempotency :: "program \<Rightarrow> string \<Rightarrow> string \<Rightarrow> execution_result \<Rightarrow> rat \<Rightarrow> engine \<Rightarrow> engine" where
  "storeIdempotency prog key fp r ttl en =
     (case en_batch en of
        Some b \<Rightarrow> en\<lparr>en_batch := Some (b\<lparr>bt_idempotency := omap_set key
            \<lparr>pi_fingerprint = fp, pi_result = r, pi_ttlSeconds = ttl\<rparr> (bt_idempotency b)\<rparr>)\<rparr>
      | None \<Rightarrow> en\<lparr>en_fingerprints := omap_set key fp (en_fingerprints en),
            en_idempotency := mem_idem_set key r ttl (dp_nowMs (pg_deps prog)) (en_idempotency en)\<rparr>)"

definition flushBatchIdempotency :: "program \<Rightarrow> active_batch option \<Rightarrow> engine \<Rightarrow> engine" where
  "flushBatchIdempotency prog batch en = (case batch of
      None \<Rightarrow> en
    | Some b \<Rightarrow> fold (\<lambda>(key, p) en. en\<lparr>en_fingerprints := omap_set key (pi_fingerprint p) (en_fingerprints en),
        en_idempotency := mem_idem_set key (pi_result p) (pi_ttlSeconds p) (dp_nowMs (pg_deps prog)) (en_idempotency en)\<rparr>)
        (bt_idempotency b) en)"

definition key_conflict :: exn where
  "key_conflict = coded_error 409 ''The idempotency key was reused with a different request'' ''IDEMPOTENCY_KEY_CONFLICT''
     ''The idempotency key was reused with a different request''"

definition checkIdempotencyFingerprint :: "program \<Rightarrow> string \<Rightarrow> request \<Rightarrow> unit run" where
  "checkIdempotencyFingerprint prog key rq = (\<lambda>en.
     if (case po_idempotency (pg_policies prog) of Some p \<Rightarrow> \<not> ip_hashIncludesBody p | None \<Rightarrow> True) then (Inr (), en)
     else let pending = Option.bind (en_batch en) (\<lambda>b. omap_get (bt_idempotency b) key)
       in case (case pending of Some p \<Rightarrow> Some (pi_fingerprint p) | None \<Rightarrow> omap_get (en_fingerprints en) key) of
           None \<Rightarrow> (Inr (), en)
         | Some previous \<Rightarrow>
             if pending = None \<and>
                fst (mem_idem_get key (Some (nowMsFor prog rq)) (dp_nowMs (pg_deps prog)) (en_idempotency en)) = None
             then (Inr (), en\<lparr>en_fingerprints := omap_delete key (en_fingerprints en)\<rparr>)
             else if previous \<noteq> idempotencyFingerprint rq then (Inl key_conflict, en)
             else (Inr (), en))"

text \<open>The cached answer, as both places of \<open>executeInternal\<close> return it.\<close>

definition replay_cached :: "execution_result \<Rightarrow> execution_result" where
  "replay_cached r = r\<lparr>xr_committed := False,
     xr_headers := obj_spread (xr_headers r) [(''X-Potemkin-Idempotency-Replay'', ''true'')]\<rparr>"

subsection \<open>Faults\<close>

text \<open>\<open>helpersFor(request).random()\<close>: a seeded request starts a new generator each time.\<close>

definition random_draw :: "program \<Rightarrow> request \<Rightarrow> rat run" where
  "random_draw prog rq = (case rc_seed (ctl rq) of
      Some s \<Rightarrow> ret (dp_seededRandom (pg_deps prog) s 0)
    | None \<Rightarrow> bind (get en_randoms) (\<lambda>i. bind (upd (\<lambda>en. en\<lparr>en_randoms := Suc i\<rparr>)) (\<lambda>_. ret (dp_random (pg_deps prog) i))))"

definition matchesFaultSelectors :: "fault_selectors option \<Rightarrow> controls \<Rightarrow> bool" where
  "matchesFaultSelectors selectors c = (case selectors of
      None \<Rightarrow> True
    | Some s \<Rightarrow> (fs_signal s = None \<or> fs_signal s = rc_signal c)
        \<and> (fs_forceResponse s = None \<or> fs_forceResponse s = rc_forceResponse c)
        \<and> (fs_scenario s = None \<or> fs_scenario s = rc_scenario c)
        \<and> (fs_featureFlag s = None \<or> fs_featureFlag s = rc_featureFlag c)
        \<and> (fs_errorClass s = None \<or> fs_errorClass s = rc_errorClass c))"

text \<open>\<open>faults.find(p)\<close> with a predicate that may throw or draw.\<close>

fun find_eff :: "('a \<Rightarrow> bool run) \<Rightarrow> 'a list \<Rightarrow> 'a option run" where
  "find_eff p [] = ret None"
| "find_eff p (x # xs) = bind (p x) (\<lambda>b. if b then ret (Some x) else find_eff p xs)"

definition fault_applies :: "program \<Rightarrow> request \<Rightarrow> ctx \<Rightarrow> fault \<Rightarrow> bool run" where
  "fault_applies prog rq c f =
     (if \<not> matchesFaultSelectors (ft_selectors f) (ctl rq) then ret False
      else if (case ft_headers f of None \<Rightarrow> False | Some hs \<Rightarrow> \<not> matchesHeaders (rq_headers rq) hs) then ret False
      else if \<not> hasRequiredScopes (map_option ac_scopes (rq_actor rq)) (ft_requiredScopes f) then ret False
      else bind (lift (r_some (\<lambda>g. rbind (gd_check g c) (\<lambda>b. Inr (\<not> b))) (ft_requires f))) (\<lambda>refused.
        if refused then ret False
        else bind (case ft_probability f of None \<Rightarrow> ret True
                   | Some p \<Rightarrow> bind (random_draw prog rq) (\<lambda>x. ret (x < p))) (\<lambda>hit.
          ret (hit \<and> (case ft_matches f c of Inr b \<Rightarrow> b | Inl _ \<Rightarrow> False)))))"

definition retry_after :: "controls \<Rightarrow> headers" where
  "retry_after c = (case rc_retryAfterSeconds c of None \<Rightarrow> [] | Some s \<Rightarrow> [(''Retry-After'', dec_int \<lfloor>s\<rfloor>)])"

definition built_in :: "string \<Rightarrow> nat \<Rightarrow> json \<Rightarrow> headers \<Rightarrow> fault" where
  "built_in name status body hs = \<lparr>ft_name = name, ft_matches = (\<lambda>_. Inr True), ft_requires = [], ft_probability = None,
     ft_requiredScopes = [], ft_headers = None, ft_selectors = None,
     ft_response = \<lparr>fr_status = status, fr_body = Some body, fr_headers = hs\<rparr>, ft_delayMs = None\<rparr>"

definition error_class_default :: "error_class \<Rightarrow> nat \<times> string \<times> string \<times> string" where
  "error_class_default k = (case k of
      Timeout \<Rightarrow> (504, ''GATEWAY_TIMEOUT'', ''Upstream timed out (chaos)'', ''timeout'')
    | Throttle \<Rightarrow> (429, ''TOO_MANY_REQUESTS'', ''Throttled (chaos)'', ''throttle'')
    | Outage \<Rightarrow> (503, ''SERVICE_UNAVAILABLE'', ''Service outage (chaos)'', ''outage'')
    | BadGateway \<Rightarrow> (502, ''BAD_GATEWAY'', ''Upstream bad gateway (chaos)'', ''bad_gateway'')
    | Conflict \<Rightarrow> (409, ''CONFLICT'', ''Conflict (chaos)'', ''conflict'')
    | AuthError \<Rightarrow> (401, ''UNAUTHENTICATED'', ''Authentication required (chaos)'', ''auth'')
    | Forbidden \<Rightarrow> (403, ''FORBIDDEN'', ''Forbidden (chaos)'', ''forbidden''))"

text \<open>The faults controls ask for, in order of precedence, up to the probabilistic gate.\<close>

definition control_fault :: "controls \<Rightarrow> fault option" where
  "control_fault c =
     (case rc_forceStatus c of
        Some s \<Rightarrow> if is_integer s \<and> 100 \<le> s \<and> s \<le> 599
          then Some (built_in ''force-status'' (nat \<lfloor>s\<rfloor>)
            (JObj [(''error'', JStr ''FORCED_STATUS''), (''status'', JNum s)]) (retry_after c)) else None
      | None \<Rightarrow> None)"

definition class_fault :: "controls \<Rightarrow> fault option" where
  "class_fault c = map_option (\<lambda>k. let (status, err, msg, name) = error_class_default k
     in built_in ''error-class'' status (JObj [(''error'', JStr err), (''message'', JStr msg), (''errorClass'', JStr name)])
       (retry_after c)) (rc_errorClass c)"

definition drop_fault :: "controls \<Rightarrow> fault option" where
  "drop_fault c = (case rc_dropConnectionMs c of
      Some ms \<Rightarrow> if 0 \<le> ms then Some ((built_in ''drop-connection'' 504 JNull [(''x-potemkin-dropped'', ''true'')])\<lparr>ft_delayMs := Some ms\<rparr>)
        else None
    | None \<Rightarrow> None)"

definition rate_fault :: "controls \<Rightarrow> fault option" where
  "rate_fault c = (if rc_rateLimit c \<or> rc_signal c = Some ''rate_limit''
     then Some (built_in ''rate-limit'' 429
       (JObj [(''error'', JStr ''TOO_MANY_REQUESTS''), (''message'', JStr ''Rate limit exceeded (chaos)'')]) (retry_after c))
     else None)"

definition gate_fault :: fault where
  "gate_fault = built_in ''success-rate'' 503
     (JObj [(''error'', JStr ''SUCCESS_RATE_GATE''), (''message'', JStr ''Probabilistic chaos gate failed'')]) []"

fun first_some :: "'a option list \<Rightarrow> 'a option" where
  "first_some [] = None"
| "first_some (Some x # xs) = Some x"
| "first_some (None # xs) = first_some xs"

definition findFault :: "program \<Rightarrow> boundary \<Rightarrow> request \<Rightarrow> ctx \<Rightarrow> fault option run" where
  "findFault prog bd rq ctx0 =
     bind (get en_faults) (\<lambda>stored.
     let faults = fst (fault_all (Some (nowMsFor prog rq)) (dp_nowMs (pg_deps prog)) stored)
           @ bd_faults bd @ po_faults (pg_policies prog);
         c = ctl rq; fc = ctx0\<lparr>cx_headers := rq_headers rq\<rparr>;
         named = (case rc_useFault c of None \<Rightarrow> None | Some n \<Rightarrow> find (\<lambda>f. ft_name f = n) faults)
     in case named of
         Some f \<Rightarrow> ret (Some (f\<lparr>ft_matches := (\<lambda>_. Inr True)\<rparr>))
       | None \<Rightarrow>
           bind (find_eff (fault_applies prog rq fc) (filter (\<lambda>f. ft_headers f \<noteq> None \<or> ft_selectors f \<noteq> None) faults)) (\<lambda>h.
           case first_some [h, control_fault c, class_fault c, drop_fault c, rate_fault c] of
             Some f \<Rightarrow> ret (Some f)
           | None \<Rightarrow>
               bind (case rc_successRate c of None \<Rightarrow> ret False
                     | Some r \<Rightarrow> bind (random_draw prog rq) (\<lambda>x. ret (r \<le> x))) (\<lambda>gated.
               if gated then ret (Some gate_fault)
               else find_eff (fault_applies prog rq fc) faults)))"

definition fault_result :: "fault \<Rightarrow> request \<Rightarrow> execution_result" where
  "fault_result f rq = \<lparr>xr_status = fr_status (ft_response f),
     xr_body = (case fr_body (ft_response f) of Some b \<Rightarrow> b | None \<Rightarrow> JNull),
     xr_headers = obj_spread (fr_headers (ft_response f)) (retry_after (ctl rq)),
     xr_events = [], xr_committed = False, xr_unmaskedBody = None,
     xr_connectionClosed = (ft_name f = ''drop-connection'')\<rparr>"

end
