(* ===== verification/Webhooks.thy ===== *)
theory Webhooks
  imports Engine
begin

text \<open>
  Webhook delivery after a commit (\<open>runWebhooks\<close> of \<open>core/engine.ts\<close>): for every webhook and every event
  it triggers on, a signed body is offered to the transport until it is accepted or the attempts are
  used up.  The delay between attempts has no effect on a value; the number of attempts a policy asks for
  is a natural number.
\<close>

definition attempt_limit :: "webhook \<Rightarrow> nat" where
  "attempt_limit wh = max 1 (case wh_maxAttempts wh of Some n \<Rightarrow> n | None \<Rightarrow> 3)"

text \<open>The attempts from \<open>d\<close> on, at most \<open>k\<close> of them.\<close>

fun deliver_from :: "(webhook_delivery \<Rightarrow> bool) \<Rightarrow> webhook_delivery \<Rightarrow> nat \<Rightarrow> bool run" where
  "deliver_from accept d 0 = ret False"
| "deliver_from accept d (Suc k) =
     bind (upd (\<lambda>en. en\<lparr>en_deliveries := en_deliveries en @ [d]\<rparr>)) (\<lambda>_.
     if accept d then ret True else deliver_from accept (d\<lparr>wd_attempt := Suc (wd_attempt d)\<rparr>) k)"

definition webhook_context :: "ctx \<Rightarrow> domain_event \<Rightarrow> ctx" where
  "webhook_context source e =
     source\<lparr>cx_event := Some e, cx_payload := ev_payload e, cx_headers := rq_headers (cx_request source)\<rparr>"

definition webhook_headers :: "program \<Rightarrow> webhook \<Rightarrow> string \<Rightarrow> headers" where
  "webhook_headers prog wh body = [(''content-type'', ''application/json'')]
     @ (case wh_secret wh of Some secret \<Rightarrow> [(''x-potemkin-signature'', ''sha256='' @ dp_hmac (pg_deps prog) secret body)] | None \<Rightarrow> [])"

definition deliver_event :: "program \<Rightarrow> (webhook_delivery \<Rightarrow> bool) \<Rightarrow> ctx \<Rightarrow> webhook \<Rightarrow> domain_event \<Rightarrow> unit run" where
  "deliver_event prog accept source wh e =
     (let c = webhook_context source e
      in bind (lift (wh_trigger wh c)) (\<lambda>triggered.
         if \<not> triggered then ret ()
         else bind (lift (wh_url wh c)) (\<lambda>url.
              bind (lift (resolve_entries (wh_payload wh) c)) (\<lambda>payload.
              let body = json_stringify (JObj payload)
              in bind (deliver_from accept
                   \<lparr>wd_url = url, wd_body = body, wd_headers = webhook_headers prog wh body, wd_attempt = 1\<rparr>
                   (attempt_limit wh)) (\<lambda>_. ret ())))))"

definition runWebhooks :: "program \<Rightarrow> domain_event list \<Rightarrow> ctx \<Rightarrow> unit run" where
  "runWebhooks prog events source = (case dp_webhooks (pg_deps prog) of
      None \<Rightarrow> ret ()
    | Some accept \<Rightarrow> each (po_webhooks (pg_policies prog)) (\<lambda>wh. each events (deliver_event prog accept source wh)))"

text \<open>
  The attempts of one delivery are numbered from its first on, all but the last refused, and stop at the
  first one accepted.
\<close>

definition numbered :: "webhook_delivery \<Rightarrow> nat \<Rightarrow> webhook_delivery list" where
  "numbered d n = map (\<lambda>i. d\<lparr>wd_attempt := wd_attempt d + i\<rparr>) [0..<n]"

lemma numbered_simps [simp]:
  "numbered d 0 = []"
  "numbered d (Suc n) = d # numbered (d\<lparr>wd_attempt := Suc (wd_attempt d)\<rparr>) n"
  by (simp_all add: numbered_def upt_conv_Cons map_Suc_upt[symmetric] comp_def del: upt_Suc)

lemma deliver_from_run:
  "\<exists>n \<le> k. deliver_from accept d k en = (Inr (n \<noteq> 0 \<and> accept (d\<lparr>wd_attempt := wd_attempt d + (n - 1)\<rparr>)),
       en\<lparr>en_deliveries := en_deliveries en @ numbered d n\<rparr>)
     \<and> (\<forall>i < n - 1. \<not> accept (d\<lparr>wd_attempt := wd_attempt d + i\<rparr>))
     \<and> (n < k \<longrightarrow> n \<noteq> 0 \<and> accept (d\<lparr>wd_attempt := wd_attempt d + (n - 1)\<rparr>))"
proof (induction k arbitrary: d en)
  case 0
  then show ?case by (intro exI[of _ 0]) simp
next
  case (Suc k)
  show ?case
  proof (cases "accept d")
    case True
    then show ?thesis by (intro exI[of _ 1]) simp
  next
    case False
    let ?d = "d\<lparr>wd_attempt := Suc (wd_attempt d)\<rparr>" and ?en = "en\<lparr>en_deliveries := en_deliveries en @ [d]\<rparr>"
    from Suc[of ?d ?en] obtain n where n: "n \<le> k"
      "deliver_from accept ?d k ?en = (Inr (n \<noteq> 0 \<and> accept (?d\<lparr>wd_attempt := wd_attempt ?d + (n - 1)\<rparr>)),
         ?en\<lparr>en_deliveries := en_deliveries ?en @ numbered ?d n\<rparr>)"
      "\<forall>i < n - 1. \<not> accept (?d\<lparr>wd_attempt := wd_attempt ?d + i\<rparr>)"
      "n < k \<longrightarrow> n \<noteq> 0 \<and> accept (?d\<lparr>wd_attempt := wd_attempt ?d + (n - 1)\<rparr>)"
      by blast
    have early: "\<not> accept (d\<lparr>wd_attempt := wd_attempt d + i\<rparr>)" if "i < n" for i
    proof (cases i)
      case 0
      then show ?thesis using False by simp
    next
      case (Suc j)
      then show ?thesis using n(3) that by auto
    qed
    show ?thesis
      using n False early by (intro exI[of _ "Suc n"]) (cases n, auto)
  qed
qed

end
