(* ===== verification/Sagas.thy ===== *)
theory Sagas
  imports Engine
begin

text \<open>
  Sagas (\<open>runSagas\<close> and \<open>appendSagaEvent\<close> of \<open>core/engine.ts\<close>): after a commit, the steps of every saga
  an event triggers run as requests of their own, each progress is an event of the boundary \<open>__saga__\<close>,
  and the steps completed before a failure are compensated in reverse.

  The variables the source's closures share are the state the steps thread beside the engine's; an
  error keeps what was written before it.  \<open>again\<close> stands for \<open>executeUnlocked\<close>.
\<close>

record saga_state =
  sa_engine :: engine
  sa_draws :: nat
  sa_steps :: "(string, nat \<times> json) omap"
  sa_prev :: "(nat \<times> json) option"
  sa_completed :: "(saga_step \<times> nat \<times> string option) list"
  sa_index :: int

type_synonym 'a saga_run = "(saga_state, exn, 'a) eff"

definition on_engine :: "'a run \<Rightarrow> 'a saga_run" where
  "on_engine m = (\<lambda>s. case m (sa_engine s) of (r, en) \<Rightarrow> (r, s\<lparr>sa_engine := en\<rparr>))"

text \<open>\<open>try\<close>: every error is a value, except that a promise which never settles stays one.\<close>

definition attempt :: "('s, exn, 'a) eff \<Rightarrow> ('s, exn, exn + 'a) eff" where
  "attempt m = (\<lambda>s. case m s of
      (Inl Hang, s') \<Rightarrow> (Inl Hang, s')
    | (r, s') \<Rightarrow> (Inr r, s'))"

subsection \<open>Saga events\<close>

definition saga_id :: "program \<Rightarrow> helpers \<Rightarrow> string saga_run" where
  "saga_id prog hp =
     bind (get sa_draws) (\<lambda>n.
     bind (on_engine (draw_id prog hp n)) (\<lambda>i.
     bind (upd (\<lambda>s. s\<lparr>sa_draws := Suc n\<rparr>)) (\<lambda>_. ret i)))"

abbreviation SAGA_BOUNDARY :: string where "SAGA_BOUNDARY \<equiv> ''__saga__''"

definition appendSagaEvent :: "program \<Rightarrow> string \<Rightarrow> string \<Rightarrow> json_object \<Rightarrow> helpers \<Rightarrow> unit saga_run" where
  "appendSagaEvent prog aggregate type payload hp =
     bind (saga_id prog hp) (\<lambda>raw.
     bind (lift (parsed (eventId raw))) (\<lambda>eid.
     bind (lift (parsed (boundaryName SAGA_BOUNDARY))) (\<lambda>bname.
     bind (lift (parsed (aggregateId aggregate))) (\<lambda>aid.
     bind (lift (parsed (EventType_parse type))) (\<lambda>etype.
     bind (get (\<lambda>s. mem_currentSequenceVersion aggregate (en_events (sa_engine s)))) (\<lambda>v.
     bind (lift (parsed (sequenceVersion (of_nat (v + 1))))) (\<lambda>version.
     on_engine (upd (\<lambda>en. en\<lparr>en_events := mem_append
       [\<lparr>ev_id = eid, ev_boundary = bname, ev_aggregate = aid, ev_type = etype, ev_payload = payload,
         ev_timestamp = hp_now hp, ev_version = version, ev_causedBy = None, ev_intent = Some Mutation,
         ev_request = None, ev_response = None\<rparr>] (en_events en)\<rparr>)))))))))"

definition saga_trigger :: "saga \<Rightarrow> domain_event list \<Rightarrow> request \<Rightarrow> domain_event option" where
  "saga_trigger sg events rq = find (\<lambda>e. ev_boundary e = sg_boundary sg \<and>
     (case ev_intent e of Some i \<Rightarrow> i
      | None \<Rightarrow> if ev_boundary e = cm_boundary (rq_command rq) then cm_intent (rq_command rq) else Mutation) = sg_intent sg) events"

definition saga_context :: "ctx \<Rightarrow> domain_event \<Rightarrow> domain_event list \<Rightarrow> saga_state \<Rightarrow> ctx" where
  "saga_context source trigger events s =
     source\<lparr>cx_event := Some trigger, cx_payload := ev_payload trigger, cx_steps := sa_steps s,
       cx_prevStep := sa_prev s, cx_committed := events\<rparr>"

subsection \<open>The request of a step or of a compensation\<close>

definition saga_request :: "program \<Rightarrow> request \<Rightarrow> helpers \<Rightarrow> string \<Rightarrow> intent \<Rightarrow> string \<Rightarrow> string option \<Rightarrow> json_object \<Rightarrow>
    request saga_run" where
  "saga_request prog rq hp bname i op target payload =
     bind (lift (pathForOperation prog op target
        (case byBoundaryName prog bname of Some b \<Rightarrow> bd_contractPath b | None \<Rightarrow> cm_path (rq_command rq)))) (\<lambda>path.
     bind (saga_id prog hp) (\<lambda>raw.
     bind (lift (parsed (commandId raw))) (\<lambda>cid.
     bind (lift (parsed (boundaryName bname))) (\<lambda>bn.
     bind (lift (parsed (OperationId_parse op))) (\<lambda>oid.
     bind (lift (aggregateTarget target)) (\<lambda>tid.
     ret (rq\<lparr>rq_command := (rq_command rq)\<lparr>cm_id := cid, cm_boundary := bn, cm_intent := i, cm_operation := Some oid,
         cm_target := tid, cm_payload := payload, cm_origin := Secondary,
         cm_depth := Suc (cm_depth (rq_command rq)), cm_path := path, cm_method := intent_method i\<rparr>,
       rq_skipSagas := True\<rparr>)))))))"

abbreviation text_of :: "exn \<Rightarrow> json" where
  "text_of e \<equiv> JStr (fg_string (foreign_of e))"

definition step_names :: "saga_state \<Rightarrow> json" where
  "step_names s = JArr (map (\<lambda>(step, _). JStr (ss_name step)) (sa_completed s))"

subsection \<open>Steps\<close>

definition run_step :: "(request \<Rightarrow> execution_result run) \<Rightarrow> program \<Rightarrow> request \<Rightarrow> ctx \<Rightarrow> saga \<Rightarrow> string \<Rightarrow> domain_event \<Rightarrow>
    domain_event list \<Rightarrow> nat \<times> saga_step \<Rightarrow> unit saga_run" where
  "run_step again prog rq source sg instance_id trigger events = (\<lambda>(k, step).
     bind (upd (\<lambda>s. s\<lparr>sa_index := int k\<rparr>)) (\<lambda>_.
     bind (get (saga_context source trigger events)) (\<lambda>c.
     bind (lift (case ss_target step of None \<Rightarrow> Inr None | Some f \<Rightarrow> rbind (f c) aggregateTarget)) (\<lambda>target.
     bind (lift (resolve_entries (ss_payload step) c)) (\<lambda>payload.
     bind (saga_request prog rq (cx_helpers source) (ss_boundary step) (ss_intent step) (ss_operation step) target payload) (\<lambda>next.
     bind (on_engine (again next)) (\<lambda>result.
     let outcome = (xr_status result, xr_body result)
     in bind (upd (\<lambda>s. s\<lparr>sa_steps := omap_set (ss_name step) outcome (sa_steps s), sa_prev := Some outcome,
            sa_completed := sa_completed s @ [(step, k, target)]\<rparr>)) (\<lambda>_.
        appendSagaEvent prog instance_id ''SagaStepCompleted''
          [(''saga'', JStr (sg_name sg)), (''step'', JStr (ss_name step)), (''stepName'', JStr (ss_name step)),
           (''stepIndex'', JNum (of_nat k)), (''status'', JNum (of_nat (xr_status result)))] (cx_helpers source)))))))))"

definition run_steps :: "(request \<Rightarrow> execution_result run) \<Rightarrow> program \<Rightarrow> request \<Rightarrow> ctx \<Rightarrow> saga \<Rightarrow> string \<Rightarrow> domain_event \<Rightarrow>
    domain_event list \<Rightarrow> unit saga_run" where
  "run_steps again prog rq source sg instance_id trigger events =
     bind (each (enumerate 0 (sg_steps sg)) (run_step again prog rq source sg instance_id trigger events)) (\<lambda>_.
     bind (get sa_steps) (\<lambda>steps.
     appendSagaEvent prog instance_id ''SagaCompleted''
       [(''saga'', JStr (sg_name sg)), (''steps'', JArr (map (\<lambda>(n, _). JStr n) steps))] (cx_helpers source)))"

subsection \<open>Compensation\<close>

text \<open>Only the request of the compensation and the event that records it are guarded.\<close>

definition compensate :: "(request \<Rightarrow> execution_result run) \<Rightarrow> program \<Rightarrow> request \<Rightarrow> ctx \<Rightarrow> saga \<Rightarrow> string \<Rightarrow> domain_event \<Rightarrow>
    domain_event list \<Rightarrow> saga_step \<times> nat \<times> string option \<Rightarrow> unit saga_run" where
  "compensate again prog rq source sg instance_id trigger events = (\<lambda>(step, k, done_target).
     case ss_compensation step of
       None \<Rightarrow> ret ()
     | Some cp \<Rightarrow>
         bind (get (saga_context source trigger events)) (\<lambda>c.
         bind (lift (case sk_target cp of None \<Rightarrow> aggregateTarget done_target | Some f \<Rightarrow> rbind (f c) aggregateTarget)) (\<lambda>target.
         bind (lift (resolve_entries (sk_payload cp) c)) (\<lambda>payload.
         bind (saga_request prog rq (cx_helpers source) (ss_boundary step) (sk_intent cp) (sk_operation cp) target payload) (\<lambda>next.
         bind (attempt (bind (on_engine (again next)) (\<lambda>_.
             appendSagaEvent prog instance_id ''SagaCompensated''
               [(''saga'', JStr (sg_name sg)), (''step'', JStr (ss_name step)), (''compensatedStepName'', JStr (ss_name step)),
                (''compensatedStepIndex'', JNum (of_nat k))] (cx_helpers source)))) (\<lambda>r.
         case r of
           Inr _ \<Rightarrow> ret ()
         | Inl e \<Rightarrow> appendSagaEvent prog instance_id ''SagaCompensationFailed''
             [(''saga'', JStr (sg_name sg)), (''step'', JStr (ss_name step)), (''error'', text_of e)] (cx_helpers source)))))))"

definition saga_failed :: "(request \<Rightarrow> execution_result run) \<Rightarrow> program \<Rightarrow> request \<Rightarrow> ctx \<Rightarrow> saga \<Rightarrow> string \<Rightarrow> domain_event \<Rightarrow>
    domain_event list \<Rightarrow> exn \<Rightarrow> unit saga_run" where
  "saga_failed again prog rq source sg instance_id trigger events e =
     bind (get (\<lambda>s. s)) (\<lambda>s.
     bind (appendSagaEvent prog instance_id ''SagaStepFailed''
        [(''saga'', JStr (sg_name sg)),
         (''stepName'', JStr (if 0 \<le> sa_index s \<and> nat (sa_index s) < length (sg_steps sg)
            then ss_name (sg_steps sg ! nat (sa_index s)) else [])),
         (''stepIndex'', JNum (of_int (sa_index s))), (''completed'', step_names s), (''error'', text_of e)]
        (cx_helpers source)) (\<lambda>_.
     bind (each (rev (sa_completed s)) (compensate again prog rq source sg instance_id trigger events)) (\<lambda>_.
     appendSagaEvent prog instance_id ''SagaFailed''
       [(''saga'', JStr (sg_name sg)), (''sagaName'', JStr (sg_name sg)),
        (''failedAtStep'', JNum (of_int (sa_index s))), (''error'', text_of e)] (cx_helpers source))))"

subsection \<open>All sagas\<close>

definition run_saga :: "(request \<Rightarrow> execution_result run) \<Rightarrow> program \<Rightarrow> request \<Rightarrow> ctx \<Rightarrow> domain_event list \<Rightarrow> saga \<Rightarrow> unit saga_run" where
  "run_saga again prog rq source events sg = (case saga_trigger sg events rq of
      None \<Rightarrow> ret ()
    | Some trigger \<Rightarrow>
        let instance_id = cm_id (rq_command rq) @ '':'' @ sg_name sg
        in bind (upd (\<lambda>s. s\<lparr>sa_steps := [], sa_prev := None, sa_completed := [], sa_index := -1\<rparr>)) (\<lambda>_.
           bind (get (saga_context source trigger events)) (\<lambda>c.
           bind (lift (case sg_condition sg of None \<Rightarrow> Inr True | Some p \<Rightarrow> p c)) (\<lambda>ok.
           if \<not> ok then ret ()
           else bind (appendSagaEvent prog instance_id ''SagaStarted''
                  [(''saga'', JStr (sg_name sg)), (''sagaName'', JStr (sg_name sg)), (''triggerEventId'', JStr (ev_id trigger))]
                  (cx_helpers source)) (\<lambda>_.
                bind (attempt (run_steps again prog rq source sg instance_id trigger events)) (\<lambda>r.
                case r of
                  Inr _ \<Rightarrow> ret ()
                | Inl e \<Rightarrow> saga_failed again prog rq source sg instance_id trigger events e))))))"

definition runSagas :: "(request \<Rightarrow> execution_result run) \<Rightarrow> program \<Rightarrow> domain_event list \<Rightarrow> request \<Rightarrow> ctx \<Rightarrow> unit run" where
  "runSagas again prog events rq source = (\<lambda>en.
     case each (po_sagas (pg_policies prog)) (run_saga again prog rq source events)
        \<lparr>sa_engine = en, sa_draws = 0, sa_steps = [], sa_prev = None, sa_completed = [], sa_index = -1\<rparr> of
       (r, s) \<Rightarrow> (r, sa_engine s))"

end
