(* ===== verification/Mutate.thy ===== *)
theory Mutate
  imports Webhooks Sagas
begin

text \<open>
  Committing a command (\<open>executeMutation\<close>, \<open>runPostCommit\<close>, \<open>runProjections\<close> of \<open>core/engine.ts\<close>):
  the preconditions, the transaction, the commit of its states and events, and what follows a commit:
  the hook, the derived projections, the webhooks and the sagas.  \<open>again\<close> stands for \<open>executeUnlocked\<close>.
\<close>

subsection \<open>Derived projections\<close>

definition projection_context :: "ctx \<Rightarrow> domain_event \<Rightarrow> string \<Rightarrow> ctx" where
  "projection_context source e name =
     source\<lparr>cx_event := Some e, cx_payload := ev_payload e, cx_projection := Some name\<rparr>"

text \<open>The state of a projection for one event, under the key it resolves; a throw leaves it alone.\<close>

definition project_event :: "program \<Rightarrow> derived_projection \<Rightarrow> ctx \<Rightarrow> domain_event \<Rightarrow> state_map \<Rightarrow> exn + state_map" where
  "project_event prog pj source e states =
     (let c0 = projection_context source e (pj_name pj)
      in rbind (pj_key pj c0) (\<lambda>k0.
         let c = c0\<lparr>cx_state := omap_get states k0\<rparr>
         in rbind (po_onProjection (pg_policies prog) c) (\<lambda>_.
            rbind (pj_key pj c) (\<lambda>key.
            let current = state_of states key;
                reducers = filter (\<lambda>r. rd_on r = ev_type e \<or> rd_on r = eventKey e) (pj_reduce pj);
                base = (if list_ex rd_replaceState reducers then ev_payload e else current)
            in rbind (rfold (\<lambda>rd next.
                 let rx = \<lparr>rx_boundary = ev_boundary e, rx_state = next, rx_event = e, rx_payload = ev_payload e,
                       rx_helpers = cx_helpers source\<rparr>
                 in case rd_reduce rd of
                     Some f \<Rightarrow> rbind (f rx) (\<lambda>v. Inr (asObject v))
                   | None \<Rightarrow> (case rd_apply rd of
                       Some f \<Rightarrow> rbind (f rx) (\<lambda>ps.
                         rbind (patched (applyPatches (JObj next) ps SrcProjection True)) (\<lambda>r. Inr (asObject (newState r))))
                     | None \<Rightarrow> Inr next)) reducers base) (\<lambda>next.
               Inr (omap_set key next states))))))"

definition project_one :: "program \<Rightarrow> ctx \<Rightarrow> derived_projection \<Rightarrow> domain_event \<Rightarrow> engine \<Rightarrow> engine" where
  "project_one prog source pj e en =
     (if \<not> list_ex (\<lambda>s. matchesSubscription s e) (pj_subscribe pj) then en
      else let states = (case omap_get (en_projections en) (pj_name pj) of Some m \<Rightarrow> m | None \<Rightarrow> []);
               states' = (case project_event prog pj source e states of Inr m \<Rightarrow> m | Inl _ \<Rightarrow> states)
           in en\<lparr>en_projections := omap_set (pj_name pj) states' (en_projections en)\<rparr>)"

definition runProjections :: "program \<Rightarrow> domain_event list \<Rightarrow> ctx \<Rightarrow> engine \<Rightarrow> engine" where
  "runProjections prog events source en =
     fold (\<lambda>pj en. fold (\<lambda>e en. project_one prog source pj e en) events en) (po_projections (pg_policies prog)) en"

definition response_of :: "execution_result \<Rightarrow> response" where
  "response_of r = \<lparr>rs_status = xr_status r, rs_body = xr_body r, rs_headers = xr_headers r\<rparr>"

definition runPostCommit :: "(request \<Rightarrow> execution_result run) \<Rightarrow> program \<Rightarrow> request \<Rightarrow> domain_event list \<Rightarrow>
    execution_result \<Rightarrow> unit run" where
  "runPostCommit again prog rq events r =
     bind (get en_state) (\<lambda>store.
     let st = (case cm_target (rq_command rq) of None \<Rightarrow> None | Some t \<Rightarrow> mem_get t store);
         c = (post_context prog rq st events)\<lparr>cx_response := Some (response_of r)\<rparr>
     in bind (lift (po_onPostCommit (pg_policies prog) c)) (\<lambda>_.
        bind (if rq_skipProjections rq then ret () else upd (runProjections prog events c)) (\<lambda>_.
        bind (if rq_skipWebhooks rq then ret () else runWebhooks prog events c) (\<lambda>_.
        if rq_skipSagas rq then ret () else runSagas again prog events rq c))))"

subsection \<open>Preconditions\<close>

definition entity_missing :: "boundary \<Rightarrow> string \<Rightarrow> exn" where
  "entity_missing bd t = (let m = ''Entity '' @ tick t @ '' not found in boundary '' @ tick (bd_name bd)
     in coded_error 404 m ''ENTITY_ABSENCE'' m)"

definition entity_exists :: "boundary \<Rightarrow> string \<Rightarrow> exn" where
  "entity_exists bd t = (let m = ''Entity '' @ tick t @ '' already exists in boundary '' @ tick (bd_name bd)
     in coded_error 409 m ''ENTITY_CONFLICT'' m)"

definition version_conflict :: exn where
  "version_conflict = coded_error 412 ''Sequence version does not match the current aggregate'' ''CONCURRENCY_CONFLICT''
     ''Sequence version does not match the current aggregate''"

definition check_preconditions :: "program \<Rightarrow> boundary \<Rightarrow> request \<Rightarrow> string \<Rightarrow> engine \<Rightarrow> exn + unit" where
  "check_preconditions prog bd rq target en =
     (let cm = rq_command rq; existing = mem_get target (en_state en);
          sequence = mem_currentSequenceVersion target (en_events en)
      in if cm_intent cm = Mutation \<and> existing = None then Inl (entity_missing bd target)
         else if cm_intent cm = Creation \<and> existing \<noteq> None then Inl (entity_exists bd target)
         else rbind (case cm_operation cm of None \<Rightarrow> Inr False
              | Some op \<Rightarrow> rbind (parsed (OperationId_parse op)) (\<lambda>oid. Inr (ct_requiresPrecondition (dp_contract (pg_deps prog)) oid))) (\<lambda>required.
           if required \<and> cm_version cm = None then Inl (runtime_error 428 ''If-Match is required'')
           else if cm_version cm \<noteq> None \<and> cm_version cm \<noteq> Some sequence then Inl version_conflict
           else Inr ()))"

subsection \<open>The transaction and its commit\<close>

definition begin_transaction :: "engine \<Rightarrow> transaction" where
  "begin_transaction en = \<lparr>tx_states = mem_entries (en_state en), tx_events = [], tx_reactionKeys = [],
     tx_reactionEvents = 0, tx_ids = en_ids en\<rparr>"

text \<open>Run a transaction on the committed log and store; identifiers it drew stay drawn.\<close>

definition transact :: "(domain_event list \<Rightarrow> state_map \<Rightarrow> 'a step) \<Rightarrow> ('a \<times> transaction) run" where
  "transact f = (\<lambda>en. case f (en_events en) (en_state en) (begin_transaction en) of
      (Inl e, t) \<Rightarrow> (Inl e, en\<lparr>en_ids := tx_ids t\<rparr>)
    | (Inr a, t) \<Rightarrow> (Inr (a, t), en\<lparr>en_ids := tx_ids t\<rparr>))"

text \<open>A state is written when its text changed.\<close>

definition changed :: "json_object option \<Rightarrow> json_object \<Rightarrow> bool" where
  "changed previous v = (case previous of None \<Rightarrow> True | Some p \<Rightarrow> json_stringify (JObj p) \<noteq> json_stringify (JObj v))"

definition write_states :: "state_map \<Rightarrow> state_map \<Rightarrow> state_map" where
  "write_states states store =
     (let store = fold (\<lambda>(i, v) s. if changed (mem_get i s) v then mem_set i v s else s) states store
      in fold (\<lambda>i s. if omap_has states i then s else mem_delete i s) (map fst (mem_entries store)) store)"

definition own_boundaries :: "state_map \<Rightarrow> domain_event list \<Rightarrow> (string, string) omap \<Rightarrow> (string, string) omap" where
  "own_boundaries states events owners = fold (\<lambda>(i, v) o'.
     case find (\<lambda>e. ev_aggregate e = i) events of
       Some e \<Rightarrow> if omap_has o' i then o' else omap_set i (ev_boundary e) o'
     | None \<Rightarrow> o') states owners"

definition commit :: "transaction \<Rightarrow> domain_event list \<Rightarrow> engine \<Rightarrow> engine" where
  "commit t events en = en\<lparr>en_state := write_states (tx_states t) (en_state en),
     en_boundaries := own_boundaries (tx_states t) events (en_boundaries en),
     en_events := mem_append events (en_events en)\<rparr>"

definition stamp :: "response \<Rightarrow> domain_event \<Rightarrow> domain_event" where
  "stamp r e = e\<lparr>ev_response := Some r\<rparr>"

definition finish_commit :: "(request \<Rightarrow> execution_result run) \<Rightarrow> program \<Rightarrow> request \<Rightarrow> domain_event list \<Rightarrow> execution_result \<Rightarrow> unit run" where
  "finish_commit again prog rq events r =
     bind (get en_batch) (\<lambda>batch. case batch of
       None \<Rightarrow> runPostCommit again prog rq events r
     | Some b \<Rightarrow> upd (\<lambda>en. en\<lparr>en_batch := Some (b\<lparr>bt_postCommits := bt_postCommits b @ [(rq, events, r)]\<rparr>)\<rparr>))"

text \<open>What follows the commands of the transaction \<open>t\<close>, whose first answer is \<open>r\<close>.\<close>

definition commit_run :: "(request \<Rightarrow> execution_result run) \<Rightarrow> program \<Rightarrow> boundary \<Rightarrow> request \<Rightarrow> string \<Rightarrow>
    execution_result \<Rightarrow> transaction \<Rightarrow> execution_result run" where
  "commit_run again prog bd rq target r t =
     (let c = (post_context prog rq (omap_get (tx_states t) target) (tx_events t))\<lparr>cx_response := Some (response_of r)\<rparr>;
          events = map (stamp (response_of r)) (tx_events t);
          dryRun = rc_dryRun (ctl rq)
      in bind (lift (po_onCommit (pg_policies prog) c)) (\<lambda>_.
         bind (if dryRun then ret ()
               else bind (upd (commit t events)) (\<lambda>_. finish_commit again prog rq events r)) (\<lambda>_.
         ret (decorateResult prog (r\<lparr>xr_events := events, xr_committed := \<not> dryRun\<rparr>) bd rq events))))"

definition no_match :: exn where
  "no_match = runtime_error 404 ''No behavior matched the command''"

definition executeMutation :: "(request \<Rightarrow> execution_result run) \<Rightarrow> program \<Rightarrow> boundary \<Rightarrow> request \<Rightarrow> string \<Rightarrow> execution_result run" where
  "executeMutation again prog bd rq target =
     bind (get (check_preconditions prog bd rq target)) (\<lambda>pre.
     bind (lift pre) (\<lambda>_.
     bind (transact (\<lambda>evlog store. runCommands prog evlog store rq)) (\<lambda>(first, t).
     case first of
       None \<Rightarrow> throw no_match
     | Some r \<Rightarrow> commit_run again prog bd rq target r t)))"

end
