(* ===== verification/Steps.thy ===== *)
theory Steps
  imports Mutate
begin

text \<open>
  A transaction as a state machine.  \<open>tx_step\<close> are the only changes running commands makes to a
  transaction: drawing an identifier, registering a reaction within the budget, and applying an event
  with the next sequence version of its aggregate.  Every operation of a transaction stays within these
  steps, whether it returns or throws, so a property the steps keep holds of the transaction a command
  leaves.
\<close>

text \<open>The event is well formed: owned by a declared boundary, normalised, and next in its history.\<close>

definition event_fits :: "program \<Rightarrow> domain_event list \<Rightarrow> boundary \<Rightarrow> domain_event list \<Rightarrow> domain_event \<Rightarrow> bool" where
  "event_fits prog evlog bd pending e \<longleftrightarrow>
     byBoundaryName prog (bd_name bd) = Some bd \<and> boundaryName (bd_name bd) = Inr (ev_boundary e) \<and>
     aggregateId (ev_aggregate e) = Inr (ev_aggregate e) \<and> ev_response e = None \<and>
     nextSequenceVersion (mem_currentSequenceVersion (ev_aggregate e) evlog) pending (ev_aggregate e) = Inr (ev_version e)"

inductive tx_step :: "program \<Rightarrow> domain_event list \<Rightarrow> transaction \<Rightarrow> transaction \<Rightarrow> bool"
  for prog evlog where
  draw: "tx_step prog evlog t (t\<lparr>tx_ids := Suc (tx_ids t)\<rparr>)"
| register: "tx_reactionEvents t < MAX_REACTION_EVENTS \<Longrightarrow> key \<notin> set (tx_reactionKeys t) \<Longrightarrow>
    tx_step prog evlog t (enlist key t)"
| event: "event_fits prog evlog bd (tx_events t) e \<Longrightarrow> apply_to prog bd hp e (tx_states t) = Inr states' \<Longrightarrow>
    tx_step prog evlog t (t\<lparr>tx_states := states', tx_events := tx_events t @ [e]\<rparr>)"

inductive_cases tx_stepE: "tx_step prog evlog t t'"

lemma aggregateId_twice: "aggregateId a = Inr i \<Longrightarrow> aggregateId i = Inr i"
  by (auto simp: aggregateId_Inr_iff)

subsection \<open>Drawing and creating\<close>

lemma draw_moves [mv]: "moves (tx_step prog evlog) (draw prog hp n)"
  unfolding moves_def draw_def
  by (auto intro!: r_into_rtranclp tx_step.draw split: option.splits)

lemma createEvent_moves [mv]: "moves (tx_step prog evlog) (createEvent prog evlog bd type c n src)"
  unfolding createEvent_def Let_def
  by (auto intro!: mv split: option.splits prod.splits)

lemma draw_run: "draw prog hp n t = (r, t') \<Longrightarrow> \<exists>i. t' = t\<lparr>tx_ids := i\<rparr>"
  unfolding draw_def by (cases t) (auto split: option.splits)

text \<open>What a created event is, and that creating it only draws.\<close>

lemma createEvent_Inr:
  assumes "createEvent prog evlog bd type c n src t = (Inr (e, n'), t')"
  shows "boundaryName (bd_name bd) = Inr (ev_boundary e) \<and> aggregateId (ev_aggregate e) = Inr (ev_aggregate e) \<and>
     ev_response e = None \<and>
     nextSequenceVersion (mem_currentSequenceVersion (ev_aggregate e) evlog) (tx_events t) (ev_aggregate e) = Inr (ev_version e) \<and>
     (\<exists>i. t' = t\<lparr>tx_ids := i\<rparr>)"
proof -
  let ?target = "case cm_target (cx_command c) of Some t \<Rightarrow> ret (t, n) | None \<Rightarrow> draw prog (cx_helpers c) n"
  from assms obtain raw n1 t1 rawId t2 aid where
    t1: "?target t = (Inr (raw, n1), t1)" and aid: "aggregateId raw = Inr aid" and
    t2: "draw prog (cx_helpers c) n1 t1 = (Inr (rawId, n'), t2)" and
    e: "boundaryName (bd_name bd) = Inr (ev_boundary e)" "ev_aggregate e = aid" "ev_response e = None"
       "nextSequenceVersion (mem_currentSequenceVersion aid evlog) (tx_events t2) aid = Inr (ev_version e)" and t': "t' = t2"
    unfolding createEvent_def Let_def
    by (auto simp: bind_Inr split: prod.splits if_splits)
  have "\<exists>i. t1 = t\<lparr>tx_ids := i\<rparr>"
  proof (cases "cm_target (cx_command c)")
    case None
    with t1 show ?thesis by (auto dest: draw_run)
  next
    case Some
    with t1 have "t1 = t\<lparr>tx_ids := tx_ids t\<rparr>" by simp
    then show ?thesis ..
  qed
  moreover have "\<exists>i. t2 = t1\<lparr>tx_ids := i\<rparr>" using t2 by (rule draw_run)
  ultimately have "\<exists>i. t2 = t\<lparr>tx_ids := i\<rparr>" by auto
  with e t' aid show ?thesis by (auto dest: aggregateId_twice)
qed

subsection \<open>Applying, reacting and running\<close>

text \<open>Applying a fitting event is one step.\<close>

lemma applyEvent_moves:
  assumes "event_fits prog evlog bd (tx_events t) e"
  shows "(tx_step prog evlog)\<^sup>*\<^sup>* t (snd (applyEvent prog bd hp e t))"
  using tx_step.event[OF assms]
  by (cases "apply_to prog bd hp e (tx_states t)") (auto simp: applyEvent_def)

lemma create_and_apply_moves:
  assumes "createEvent prog evlog bd type c n src t = (Inr (e, n'), t')"
    and "byBoundaryName prog (bd_name bd) = Some bd"
    and "ev_boundary e' = ev_boundary e" "ev_aggregate e' = ev_aggregate e" "ev_response e' = ev_response e" "ev_version e' = ev_version e"
  shows "(tx_step prog evlog)\<^sup>*\<^sup>* t (snd (applyEvent prog bd hp e' t'))"
proof -
  have "event_fits prog evlog bd (tx_events t') e'"
    using createEvent_Inr[OF assms(1)] assms(2-) by (auto simp: event_fits_def)
  then have "(tx_step prog evlog)\<^sup>*\<^sup>* t' (snd (applyEvent prog bd hp e' t'))" by (rule applyEvent_moves)
  with movesD[OF createEvent_moves assms(1)] show ?thesis by (rule rtranclp_trans)
qed

lemma moves_then: "R\<^sup>*\<^sup>* s (snd (m s)) \<Longrightarrow> (\<And>a. moves R (f a)) \<Longrightarrow> R\<^sup>*\<^sup>* s (snd (bind m f s))"
  unfolding moves_def bind_def
  by (auto split: prod.splits sum.splits) (metis rtranclp_trans snd_conv)+

lemma emit_event_moves:
  assumes bd: "byBoundaryName prog (bd_name bd) = Some bd"
    and h: "\<And>e. ev_boundary (h e) = ev_boundary e" "\<And>e. ev_aggregate (h e) = ev_aggregate e"
      "\<And>e. ev_response (h e) = ev_response e" "\<And>e. ev_version (h e) = ev_version e"
  shows "moves (tx_step prog evlog) (emit_event prog evlog bd type c n src h hp)"
  unfolding moves_def
proof
  fix t
  show "(tx_step prog evlog)\<^sup>*\<^sup>* t (snd (emit_event prog evlog bd type c n src h hp t))"
  proof (cases "createEvent prog evlog bd type c n src t")
    case (Pair r t')
    show ?thesis
    proof (cases r)
      case (Inl x)
      with Pair movesD[OF createEvent_moves Pair] show ?thesis by (simp add: emit_event_def bind_run)
    next
      case (Inr p)
      obtain e n' where p: "p = (e, n')" by (cases p)
      have created: "createEvent prog evlog bd type c n src t = (Inr (e, n'), t')" using Pair Inr p by simp
      have "(tx_step prog evlog)\<^sup>*\<^sup>* t (snd (bind (applyEvent prog bd hp (h e)) (\<lambda>_. ret (h e, n')) t'))"
        using create_and_apply_moves[OF created bd, of "h e" hp] h
        by (cases "applyEvent prog bd hp (h e) t'") (auto simp: bind_run split: sum.splits)
      with created show ?thesis by (simp add: emit_event_def bind_run)
    qed
  qed
qed

lemma react_moves:
  assumes "byBoundaryName prog (bd_name rb) = Some rb"
  shows "moves (tx_step prog evlog) (react prog evlog e src rb re i target c n)"
  unfolding react_def Let_def
  by (auto intro!: mv emit_event_moves[OF assms] split: prod.splits)

lemma check_target_moves [mv]: "moves (tx_step prog evlog) (check_target re i target)"
  unfolding check_target_def by (auto intro!: mv)

lemma reaction_target_moves [mv]: "moves (tx_step prog evlog) (reaction_target prog rb re i c n)"
  unfolding reaction_target_def by (auto intro!: mv split: option.splits prod.splits)

lemma reaction_target_run: "reaction_target prog rb re i c n t = (r, t') \<Longrightarrow> \<exists>k. t' = t\<lparr>tx_ids := k\<rparr>"
proof -
  assume run: "reaction_target prog rb re i c n t = (r, t')"
  have same: "\<exists>k. t = t\<lparr>tx_ids := k\<rparr>" by (rule exI[of _ "tx_ids t"]) simp
  show ?thesis
    using run same unfolding reaction_target_def
    by (auto simp: bind_run split: option.splits sum.splits if_splits prod.splits dest: draw_run)
qed

lemma check_target_run: "check_target re i target t = (r, t') \<Longrightarrow> t' = t"
  unfolding check_target_def by (auto simp: bind_throw_if split: if_splits)

text \<open>
  An iteration of the loop of \<open>enqueueReactions\<close> either draws identifiers at most, or finds the budget
  unspent and the key new, and goes on with \<open>react\<close> and the recursive call.
\<close>

lemma fire_cases:
  assumes "tx_reactionEvents t < MAX_REACTION_EVENTS"
  shows "(\<forall>again. fire again prog evlog e src rb re i target c n t = (Inr (), t)) \<or>
    (reaction_key rb re target \<notin> set (tx_reactionKeys t) \<and>
     (\<forall>again. fire again prog evlog e src rb re i target c n t =
        bind (react prog evlog e src rb re i target c n) (\<lambda>(h, rq). again h rq) (enlist (reaction_key rb re target) t)))"
  by (simp add: fire_def)

lemma ids_twice: "t\<lparr>tx_ids := k, tx_ids := k'\<rparr> = t\<lparr>tx_ids := k'\<rparr>" "t = t\<lparr>tx_ids := tx_ids t\<rparr>"
  by simp_all

lemma reaction_body_cases:
  "(\<exists>r k. (tx_step prog evlog)\<^sup>*\<^sup>* t (t\<lparr>tx_ids := k\<rparr>) \<and>
      (\<forall>again. reaction_body again prog evlog e src re t = (r, t\<lparr>tx_ids := k\<rparr>))) \<or>
   (\<exists>rb i target c n k. (tx_step prog evlog)\<^sup>*\<^sup>* t (t\<lparr>tx_ids := k\<rparr>) \<and> tx_reactionEvents t < MAX_REACTION_EVENTS \<and> byBoundaryName prog (bd_name rb) = Some rb \<and>
      reaction_key rb re target \<notin> set (tx_reactionKeys t) \<and>
      (\<forall>again. reaction_body again prog evlog e src re t =
         bind (react prog evlog e src rb re i target c n) (\<lambda>(h, rq). again h rq)
           (enlist (reaction_key rb re target) (t\<lparr>tx_ids := k\<rparr>))))"
  (is "?idle \<or> ?fired")
proof -
  let ?c = "(match_context prog src (omap_get (tx_states t) (ev_aggregate e)))
      \<lparr>cx_payload := ev_payload e, cx_event := Some e, cx_committed := tx_events t\<rparr>"
  let ?when = "case re_when re of None \<Rightarrow> Inr True | Some p \<Rightarrow> p ?c"
  have idle: ?idle if "\<forall>again. reaction_body again prog evlog e src re t = (r, t)" for r
    using that by (intro exI[of _ r] exI[of _ "tx_ids t"]) (simp flip: ids_twice(2))
  show ?thesis
  proof (cases "MAX_REACTION_EVENTS \<le> tx_reactionEvents t \<or> ?when \<noteq> Inr True \<or> byBoundaryName prog (re_boundary re) = None")
    case True
    then have "\<exists>r. \<forall>again. reaction_body again prog evlog e src re t = (r, t)"
      by (cases "MAX_REACTION_EVENTS \<le> tx_reactionEvents t"; cases ?when)
        (auto simp: reaction_body_def Let_def bind_run split: sum.splits)
    then have ?idle using idle by blast
    then show ?thesis ..
  next
    case False
    then obtain rb where rb: "byBoundaryName prog (re_boundary re) = Some rb"
      and budget: "tx_reactionEvents t < MAX_REACTION_EVENTS" and fires: "?when = Inr True" by auto
    have named: "byBoundaryName prog (bd_name rb) = Some rb" using byBoundaryName_name[OF rb] rb by simp
    let ?i = "case re_intent re of Some i \<Rightarrow> i | None \<Rightarrow> Mutation"
    obtain r t1 where target: "reaction_target prog rb re ?i ?c 0 t = (r, t1)" by (cases "reaction_target prog rb re ?i ?c 0 t")
    then obtain k where t1: "t1 = t\<lparr>tx_ids := k\<rparr>" using reaction_target_run by blast
    have moved: "(tx_step prog evlog)\<^sup>*\<^sup>* t (t\<lparr>tx_ids := k\<rparr>)" using movesD[OF reaction_target_moves target] t1 by simp
    have body: "reaction_body again prog evlog e src re t =
        bind (reaction_target prog rb re ?i ?c 0) (\<lambda>(target, n). bind (check_target re ?i target) (\<lambda>_.
          fire again prog evlog e src rb re ?i target ?c n)) t" for again
      using budget fires rb by (simp add: reaction_body_def Let_def bind_throw_if)
    show ?thesis
    proof (cases r)
      case (Inl x)
      then have "?idle" using body target t1 moved by (auto simp: bind_run)
      then show ?thesis ..
    next
      case (Inr p)
      obtain target n where p: "p = (target, n)" by (cases p)
      obtain r' t2 where check: "check_target re ?i target t1 = (r', t2)" by (cases "check_target re ?i target t1")
      then have t2: "t2 = t1" by (rule check_target_run)
      show ?thesis
      proof (cases r')
        case Inl
        then have "?idle" using body target Inr p check t1 t2 moved by (auto simp: bind_run)
        then show ?thesis ..
      next
        case (Inr u)
        have fired: "reaction_body again prog evlog e src re t = fire again prog evlog e src rb re ?i target ?c n t1" for again
          using body target \<open>r = Inr p\<close> p check t1 t2 Inr by (simp add: bind_run)
        have "tx_reactionEvents t1 < MAX_REACTION_EVENTS" using budget t1 by simp
        from fire_cases[OF this, of prog evlog e src rb re ?i target ?c n] show ?thesis
        proof
          assume "\<forall>again. fire again prog evlog e src rb re ?i target ?c n t1 = (Inr (), t1)"
          then have ?idle using fired t1 moved by auto
          then show ?thesis ..
        next
          assume "reaction_key rb re target \<notin> set (tx_reactionKeys t1) \<and> (\<forall>again. fire again prog evlog e src rb re ?i target ?c n t1 =
            bind (react prog evlog e src rb re ?i target ?c n) (\<lambda>(h, rq). again h rq) (enlist (reaction_key rb re target) t1))"
          then have ?fired using fired t1 budget named moved by (intro exI[of _ rb] exI[of _ ?i] exI[of _ target] exI[of _ ?c] exI[of _ n] exI[of _ k]) simp
          then show ?thesis ..
        qed
      qed
    qed
  qed
qed

lemma reaction_body_moves:
  assumes again: "\<And>h rq. moves (tx_step prog evlog) (again h rq)"
  shows "moves (tx_step prog evlog) (reaction_body again prog evlog e src re)"
  unfolding moves_def
proof
  fix t
  from reaction_body_cases[of prog evlog t e src re]
  show "(tx_step prog evlog)\<^sup>*\<^sup>* t (snd (reaction_body again prog evlog e src re t))"
  proof
    assume "\<exists>rb i target c n k. (tx_step prog evlog)\<^sup>*\<^sup>* t (t\<lparr>tx_ids := k\<rparr>) \<and> tx_reactionEvents t < MAX_REACTION_EVENTS \<and>
      byBoundaryName prog (bd_name rb) = Some rb \<and> reaction_key rb re target \<notin> set (tx_reactionKeys t) \<and>
      (\<forall>again. reaction_body again prog evlog e src re t =
         bind (react prog evlog e src rb re i target c n) (\<lambda>(h, rq). again h rq)
           (enlist (reaction_key rb re target) (t\<lparr>tx_ids := k\<rparr>)))"
    then obtain rb i target c n k where moved: "(tx_step prog evlog)\<^sup>*\<^sup>* t (t\<lparr>tx_ids := k\<rparr>)"
      and rb: "byBoundaryName prog (bd_name rb) = Some rb"
      and enlist: "tx_step prog evlog (t\<lparr>tx_ids := k\<rparr>) (enlist (reaction_key rb re target) (t\<lparr>tx_ids := k\<rparr>))"
      and body: "reaction_body again prog evlog e src re t =
         bind (react prog evlog e src rb re i target c n) (\<lambda>(h, rq). again h rq)
           (enlist (reaction_key rb re target) (t\<lparr>tx_ids := k\<rparr>))"
      by (fastforce intro: tx_step.register)
    have "moves (tx_step prog evlog) (bind (react prog evlog e src rb re i target c n) (\<lambda>(h, rq). again h rq))"
      using again by (auto intro!: moves_bind react_moves[OF rb])
    then show ?thesis using moved enlist body by (auto simp: moves_def intro: rtranclp_trans rtranclp.rtrancl_into_rtrancl)
  qed auto
qed

lemma enqueueReactions_moves [mv]: "moves (tx_step prog evlog) (enqueueReactions fuel prog evlog e src)"
  by (induction fuel arbitrary: e src) (auto intro!: moves_pure moves_each reaction_body_moves)

text \<open>The fuel is enough: within the budget, more of it changes nothing.\<close>

lemma step_budget: "tx_step prog evlog t t' \<Longrightarrow> tx_reactionEvents t \<le> MAX_REACTION_EVENTS \<Longrightarrow>
    tx_reactionEvents t \<le> tx_reactionEvents t' \<and> tx_reactionEvents t' \<le> MAX_REACTION_EVENTS"
  by (auto elim!: tx_stepE simp: enlist_def)

lemma steps_budget: "(tx_step prog evlog)\<^sup>*\<^sup>* t t' \<Longrightarrow> tx_reactionEvents t \<le> MAX_REACTION_EVENTS \<Longrightarrow>
    tx_reactionEvents t \<le> tx_reactionEvents t' \<and> tx_reactionEvents t' \<le> MAX_REACTION_EVENTS"
proof (induction rule: rtranclp_induct)
  case (step t' t'')
  then show ?case using step_budget[OF step.hyps(2)] by simp
qed simp

lemma moves_budget: "moves (tx_step prog evlog) m \<Longrightarrow> m t = (r, t') \<Longrightarrow> tx_reactionEvents t \<le> MAX_REACTION_EVENTS \<Longrightarrow>
    tx_reactionEvents t \<le> tx_reactionEvents t' \<and> tx_reactionEvents t' \<le> MAX_REACTION_EVENTS"
  by (rule steps_budget[OF movesD])

lemma enqueueReactions_fuel:
  assumes "tx_reactionEvents t \<le> MAX_REACTION_EVENTS" and "MAX_REACTION_EVENTS < fuel + tx_reactionEvents t" and "fuel \<le> fuel'"
  shows "enqueueReactions fuel prog evlog e src t = enqueueReactions fuel' prog evlog e src t"
  using assms
proof (induction fuel arbitrary: fuel' e src t)
  case 0
  then show ?case by simp
next
  case (Suc fuel)
  then obtain more where fuel': "fuel' = Suc more" and more: "fuel \<le> more" by (cases fuel') auto
  let ?I = "\<lambda>t. tx_reactionEvents t \<le> MAX_REACTION_EVENTS \<and> MAX_REACTION_EVENTS < Suc fuel + tx_reactionEvents t"
  let ?less = "enqueueReactions fuel prog evlog" and ?more = "enqueueReactions more prog evlog"
  have same: "reaction_body ?less prog evlog e src re s = reaction_body ?more prog evlog e src re s" if "?I s" for re s
    using reaction_body_cases[of prog evlog s e src re]
  proof
    assume "\<exists>rb i target c n k. (tx_step prog evlog)\<^sup>*\<^sup>* s (s\<lparr>tx_ids := k\<rparr>) \<and> tx_reactionEvents s < MAX_REACTION_EVENTS \<and>
      byBoundaryName prog (bd_name rb) = Some rb \<and> reaction_key rb re target \<notin> set (tx_reactionKeys s) \<and>
      (\<forall>again. reaction_body again prog evlog e src re s =
         bind (react prog evlog e src rb re i target c n) (\<lambda>(h, rq). again h rq)
           (enlist (reaction_key rb re target) (s\<lparr>tx_ids := k\<rparr>)))"
    then obtain rb i target c n key k where rb: "byBoundaryName prog (bd_name rb) = Some rb" and budget: "tx_reactionEvents s < MAX_REACTION_EVENTS"
      and body: "\<And>again. reaction_body again prog evlog e src re s =
         bind (react prog evlog e src rb re i target c n) (\<lambda>(h, rq). again h rq) (enlist key (s\<lparr>tx_ids := k\<rparr>))" by blast
    obtain r s' where react: "react prog evlog e src rb re i target c n (enlist key (s\<lparr>tx_ids := k\<rparr>)) = (r, s')"
      by (cases "react prog evlog e src rb re i target c n (enlist key (s\<lparr>tx_ids := k\<rparr>))")
    have "tx_reactionEvents s < tx_reactionEvents s' \<and> tx_reactionEvents s' \<le> MAX_REACTION_EVENTS"
      using moves_budget[OF react_moves[OF rb] react] budget by (simp add: enlist_def)
    then have "?less h rq s' = ?more h rq s'" for h rq
      using Suc.IH[of s' more] that more by simp
    then show ?thesis using body react by (cases r) (auto simp: bind_run)
  qed auto
  have kept: "?I (snd (reaction_body ?less prog evlog e src re s))" if "?I s" for re s
    using moves_budget[OF reaction_body_moves[OF enqueueReactions_moves]] that
    by (cases "reaction_body ?less prog evlog e src re s") fastforce
  have "each (matching_reactions prog e) (reaction_body ?less prog evlog e src) t =
      each (matching_reactions prog e) (reaction_body ?more prog evlog e src) t"
    by (rule each_eq[where I = ?I]) (use same kept Suc.prems in auto)
  then show ?case using fuel' by simp
qed

subsection \<open>Running commands\<close>

lemma emit_one_moves:
  "byBoundaryName prog (bd_name bd) = Some bd \<Longrightarrow> moves (tx_step prog evlog) (emit_one prog evlog bd rq c type n)"
  unfolding emit_one_def by (auto intro!: mv emit_event_moves split: prod.splits)

lemma emit_all_moves:
  "byBoundaryName prog (bd_name bd) = Some bd \<Longrightarrow> moves (tx_step prog evlog) (emit_all prog evlog bd rq c ts n)"
  by (induction ts arbitrary: n) (auto intro!: mv emit_one_moves split: prod.splits)

lemma run_behavior_moves:
  "byBoundaryName prog (bd_name bd) = Some bd \<Longrightarrow> moves (tx_step prog evlog) (run_behavior prog evlog store bd rq c bh)"
  unfolding run_behavior_def Let_def by (auto intro!: mv emit_all_moves split: prod.splits)

lemma run_fallback_moves:
  "byBoundaryName prog (bd_name bd) = Some bd \<Longrightarrow> moves (tx_step prog evlog) (run_fallback prog evlog bd rq c)"
  unfolding run_fallback_def by (auto intro!: mv emit_one_moves split: prod.splits)

lemma byBoundaryName_self: "byBoundaryName prog n = Some bd \<Longrightarrow> byBoundaryName prog (bd_name bd) = Some bd"
  using byBoundaryName_name by fastforce

lemma run_one_moves [mv]: "moves (tx_step prog evlog) (run_one prog evlog store maxD rq)"
  unfolding run_one_def Let_def
  by (auto intro!: mv run_behavior_moves run_fallback_moves byBoundaryName_self split: option.splits)

lemma run_queue_moves: "(tx_step prog evlog)\<^sup>*\<^sup>* t (snd (run_queue prog evlog store maxD queue first t))"
proof (induction prog evlog store maxD queue first t rule: run_queue.induct)
  case (2 prog evlog store maxD rq queue first t)
  obtain r t' where run: "run_one prog evlog store maxD rq t = (r, t')" by (cases "run_one prog evlog store maxD rq t")
  have step: "(tx_step prog evlog)\<^sup>*\<^sup>* t t'" using movesD[OF run_one_moves run] .
  show ?case
  proof (cases r)
    case Inl
    with run step show ?thesis by simp
  next
    case (Inr p)
    obtain rqs x where p: "p = (rqs, x)" by (cases p)
    have "(tx_step prog evlog)\<^sup>*\<^sup>* t' (snd (run_queue prog evlog store maxD (queue @ rqs) (case first of None \<Rightarrow> Some x | Some _ \<Rightarrow> first) t'))"
      using "2.IH" run Inr p by simp
    with run Inr p step show ?thesis by simp
  qed
qed simp

theorem runCommands_moves: "moves (tx_step prog evlog) (runCommands prog evlog store rq)"
  unfolding moves_def runCommands_def by (intro allI run_queue_moves)

end
