(* ===== verification/Authenticate.thy ===== *)
theory Authenticate
  imports Engine
begin

text \<open>
  Who makes a request (\<open>authenticate\<close>, \<open>cookieValue\<close>, \<open>handleSessionEndpoint\<close> and \<open>sessionResult\<close> of
  \<open>core/engine.ts\<close>): the session named by a cookie with its CSRF check, the host's authentication
  policy, and the two endpoints that open and close a session.
\<close>

definition session_policy :: "program \<Rightarrow> session_policy" where
  "session_policy prog = (case po_auth (pg_policies prog) of Some a \<Rightarrow> au_session a | None \<Rightarrow> no_session_policy)"

definition session_mode :: "program \<Rightarrow> bool" where
  "session_mode prog \<longleftrightarrow> Option.bind (po_auth (pg_policies prog)) au_mode = Some SessionAuth"

definition cookie_name :: "program \<Rightarrow> string" where
  "cookie_name prog = (case sn_cookieName (session_policy prog) of Some n \<Rightarrow> n | None \<Rightarrow> ''sid'')"

definition cookieValue :: "program \<Rightarrow> string option \<Rightarrow> string \<Rightarrow> string option" where
  "cookieValue prog header name = (case header of None \<Rightarrow> None | Some h \<Rightarrow> map_of (dp_cookies (pg_deps prog) h) name)"

definition request_cookie :: "program \<Rightarrow> request \<Rightarrow> string option" where
  "request_cookie prog rq = cookieValue prog (header_value (rq_headers rq) ''cookie'') (cookie_name prog)"

subsection \<open>Authentication\<close>

definition changing :: "request \<Rightarrow> bool" where
  "changing rq \<longleftrightarrow> to_upper (cm_method (rq_command rq)) \<in> {''POST'', ''PUT'', ''PATCH'', ''DELETE''}"

definition csrf_missing :: "program \<Rightarrow> request \<Rightarrow> session \<Rightarrow> bool" where
  "csrf_missing prog rq s \<longleftrightarrow> sn_csrf (session_policy prog) \<noteq> Some False \<and> changing rq
     \<and> (case sn_csrfHeader (session_policy prog) of None \<Rightarrow> False | Some h \<Rightarrow> header_value (rq_headers rq) h \<noteq> Some (se_csrf s))"

definition csrf_error :: exn where
  "csrf_error = coded_error 403 ''CSRF token missing or invalid'' ''CSRF_TOKEN_INVALID'' ''CSRF token missing or invalid''"

definition authentication_error :: "foreign \<Rightarrow> exn" where
  "authentication_error f =
     (let msg = (case fg_message f of Some m \<Rightarrow> m | None \<Rightarrow> ''Authentication failed'');
          err = (case fg_code f of Some c \<Rightarrow> c | None \<Rightarrow> ''AUTHENTICATION_FAILED'')
      in RuntimeExecutionError 401 msg
           (JObj [(''code'', JStr err), (''message'', JStr msg), (''details'', JObj [(''code'', JStr err)])])
           [(''WWW-Authenticate'', ''Bearer'')])"

text \<open>The session is read at the request's own time, which never evicts it.\<close>

definition authenticate :: "program \<Rightarrow> request \<Rightarrow> engine \<Rightarrow> exn + actor option" where
  "authenticate prog rq en =
     (if session_mode prog then
        (case request_cookie prog rq of
           None \<Rightarrow> Inr (rq_actor rq)
         | Some i \<Rightarrow>
             (case (if dp_sessions (pg_deps prog)
                then fst (session_get i (Some (nowMsFor prog rq)) (dp_nowMs (pg_deps prog)) (en_sessions en)) else None) of
                None \<Rightarrow> Inr (rq_actor rq)
              | Some s \<Rightarrow> if csrf_missing prog rq s then Inl csrf_error else Inr (Some (se_actor s))))
      else
        (case Option.bind (po_auth (pg_policies prog)) au_authenticate of
           None \<Rightarrow> Inr (rq_actor rq)
         | Some f \<Rightarrow>
             (case f rq of
                Inl e \<Rightarrow> Inl (authentication_error (foreign_of e))
              | Inr None \<Rightarrow> Inr (rq_actor rq)
              | Inr (Some a) \<Rightarrow> Inr (Some a))))"

text \<open>The request with the actor it runs as and the identity it came with.\<close>

definition as_actor :: "request \<Rightarrow> actor option \<Rightarrow> request" where
  "as_actor rq authenticated =
     (let effective = (case rq_actor rq of Some a \<Rightarrow> Some a | None \<Rightarrow>
            (case rq_effective rq of Some a \<Rightarrow> Some a | None \<Rightarrow> authenticated));
          original = (case rq_original rq of Some a \<Rightarrow> Some a | None \<Rightarrow>
            (case authenticated of Some a \<Rightarrow> Some a | None \<Rightarrow> effective))
      in if effective = None \<and> original = None then rq
         else rq\<lparr>rq_actor := (if effective = None then rq_actor rq else effective),
           rq_original := original, rq_effective := effective,
           rq_command := (if effective = None then rq_command rq else (rq_command rq)\<lparr>cm_actor := effective\<rparr>)\<rparr>)"

subsection \<open>The session endpoints\<close>

definition sessionResult :: "program \<Rightarrow> session \<Rightarrow> string \<Rightarrow> execution_result" where
  "sessionResult prog s cookieName = \<lparr>xr_status = 200,
     xr_body = JObj [(''sessionId'', JStr (se_id s)), (''csrfToken'', JStr (se_csrf s)),
       (''actor'', JObj [(''id'', JStr (ac_id (se_actor s))), (''scopes'', JArr (map JStr (ac_scopes (se_actor s))))]),
       (''expiresAt'', JStr (dp_toISO (pg_deps prog) (se_expiresAt s)))],
     xr_headers = [(''Set-Cookie'', cookieName @ ''='' @ encodeURIComponent (se_id s)
       @ ''; Path=/; HttpOnly; SameSite=Strict; Max-Age=''
       @ num_string (case sn_ttlSeconds (session_policy prog) of Some t \<Rightarrow> t | None \<Rightarrow> 3600))],
     xr_events = [], xr_committed = False, xr_unmaskedBody = None, xr_connectionClosed = False\<rparr>"

definition payload_scopes :: "json_object \<Rightarrow> string list" where
  "payload_scopes payload = (case obj_get payload ''scopes'' of
      JArr xs \<Rightarrow> List.map_filter (\<lambda>x. case x of JStr s \<Rightarrow> Some s | _ \<Rightarrow> None) xs
    | _ \<Rightarrow> [])"

definition open_session :: "program \<Rightarrow> request \<Rightarrow> string \<Rightarrow> execution_result run" where
  "open_session prog rq actor_id = (\<lambda>en.
     let ac = \<lparr>ac_id = actor_id, ac_scopes = payload_scopes (cm_payload (rq_command rq))\<rparr>;
         ttl = (case sn_ttlSeconds (session_policy prog) of Some t \<Rightarrow> t | None \<Rightarrow> 3600)
     in case runtime_create None ac ttl (dp_nowMs (pg_deps prog)) (dp_uuid (pg_deps prog) (en_ids en))
            (dp_csrf (pg_deps prog) (en_tokens en)) (en_sessions en) of
          Inl e \<Rightarrow> (Inl e, en)
        | Inr (s, sessions) \<Rightarrow> (Inr (sessionResult prog s (cookie_name prog)),
            en\<lparr>en_sessions := sessions, en_ids := Suc (en_ids en), en_tokens := Suc (en_tokens en)\<rparr>))"

definition close_session :: "program \<Rightarrow> request \<Rightarrow> execution_result run" where
  "close_session prog rq =
     bind (case request_cookie prog rq of
         None \<Rightarrow> ret ()
       | Some i \<Rightarrow> upd (\<lambda>en. en\<lparr>en_sessions := snd (session_destroy i (en_sessions en))\<rparr>)) (\<lambda>_.
     ret \<lparr>xr_status = 204, xr_body = JNull,
       xr_headers = [(''Set-Cookie'', cookie_name prog @ ''=; Path=/; HttpOnly; SameSite=Strict; Max-Age=0'')],
       xr_events = [], xr_committed = False, xr_unmaskedBody = None, xr_connectionClosed = False\<rparr>)"

definition handleSessionEndpoint :: "program \<Rightarrow> request \<Rightarrow> execution_result option run" where
  "handleSessionEndpoint prog rq =
     (let cm = rq_command rq; sp = session_policy prog;
          loginPath = (case sn_loginPath sp of Some p \<Rightarrow> p | None \<Rightarrow> ''/sessions'');
          logoutPath = (case sn_logoutPath sp of Some p \<Rightarrow> p | None \<Rightarrow> ''/sessions/current'')
      in if \<not> session_mode prog \<or> \<not> dp_sessions (pg_deps prog) then ret None
         else if to_upper (cm_method cm) = ''POST'' \<and> cm_path cm = loginPath
         then (case obj_get (cm_payload cm) ''actorId'' of
                 JStr a \<Rightarrow> if a = [] then throw (coded_error 400 ''actorId is required'' ''CONTRACT_VIOLATION'' ''actorId is required'')
                   else bind (open_session prog rq a) (\<lambda>r. ret (Some r))
               | _ \<Rightarrow> throw (coded_error 400 ''actorId is required'' ''CONTRACT_VIOLATION'' ''actorId is required''))
         else if to_upper (cm_method cm) = ''DELETE'' \<and> cm_path cm = logoutPath
         then bind (close_session prog rq) (\<lambda>r. ret (Some r))
         else ret None)"

end
