(* ===== verification/History.thy ===== *)
theory History
  imports Mutate
begin

text \<open>
  Reading the event log back (\<open>commandForEvent\<close>, \<open>eventsAtVersion\<close>, \<open>readStateAtVersion\<close> of
  \<open>core/engine.ts\<close>): every event is applied again through the boundary that owns it, in a transaction
  that is thrown away.
\<close>

definition requestForCommand :: "command \<Rightarrow> request" where
  "requestForCommand cm = \<lparr>rq_command = cm, rq_headers = [], rq_actor = None, rq_original = None, rq_effective = None,
     rq_skipSagas = False, rq_skipWebhooks = False, rq_skipReactions = False, rq_skipProjections = False,
     rq_skipDispatch = False, rq_controls = None\<rparr>"

text \<open>\<open>route\<close> overrides the method and the path.\<close>

definition commandForEvent :: "domain_event \<Rightarrow> boundary \<Rightarrow> (string \<times> string) option \<Rightarrow> exn + command" where
  "commandForEvent e bd route =
     rbind (parsed (commandId (case ev_causedBy e of Some c \<Rightarrow> c | None \<Rightarrow> ev_id e))) (\<lambda>cid.
     rbind (parsed (httpMethod (case route of Some (m, p) \<Rightarrow> m
        | None \<Rightarrow> (case ev_request e of Some r \<Rightarrow> er_method r | None \<Rightarrow> ''POST'')))) (\<lambda>mt.
     Inr \<lparr>cm_id = cid, cm_boundary = ev_boundary e,
       cm_intent = (case ev_intent e of Some i \<Rightarrow> i | None \<Rightarrow> Mutation),
       cm_target = Some (ev_aggregate e), cm_payload = ev_payload e,
       cm_query = (case Option.bind (ev_request e) er_query of Some q \<Rightarrow> q | None \<Rightarrow> []),
       cm_method = mt,
       cm_path = (case route of Some (m, p) \<Rightarrow> p | None \<Rightarrow> (case ev_request e of Some r \<Rightarrow> er_path r | None \<Rightarrow> bd_contractPath bd)),
       cm_operation = None, cm_version = None, cm_origin = Secondary, cm_depth = 0,
       cm_actor = (case Option.bind (ev_request e) er_actorId of None \<Rightarrow> None
         | Some a \<Rightarrow> Some \<lparr>ac_id = a, ac_scopes = (case Option.bind (ev_request e) er_actorScopes of Some ss \<Rightarrow> ss | None \<Rightarrow> [])\<rparr>)\<rparr>))"

text \<open>One event applied to the states of a fresh transaction; the request carries no controls.\<close>

definition reapply :: "program \<Rightarrow> boundary \<Rightarrow> (string \<times> string) option \<Rightarrow> domain_event \<Rightarrow> state_map \<Rightarrow> exn + state_map" where
  "reapply prog bd route e states =
     rbind (commandForEvent e bd route) (\<lambda>cm.
     apply_to prog bd (helpersFor prog (requestForCommand cm)) e states)"

text \<open>A whole history: events of boundaries the program does not have are passed over.\<close>

definition replay :: "program \<Rightarrow> domain_event list \<Rightarrow> state_map \<Rightarrow> exn + state_map" where
  "replay prog es states = rfold (\<lambda>e st. case byBoundaryName prog (ev_boundary e) of
      None \<Rightarrow> Inr st
    | Some bd \<Rightarrow> reapply prog bd None e st) es states"

definition eventsAtVersion :: "program \<Rightarrow> boundary \<Rightarrow> string \<Rightarrow> rat \<Rightarrow> domain_event list \<Rightarrow> exn + domain_event list" where
  "eventsAtVersion prog bd aggregate version evlog =
     (let owned = filter (\<lambda>e. byBoundaryName prog (ev_boundary e) \<noteq> None) (mem_events None (Some aggregate) evlog)
      in eventsThroughVersion (if owned = [] then mem_events (Some (bd_name bd)) (Some aggregate) evlog else owned) aggregate version)"

definition readStateAtVersion :: "program \<Rightarrow> boundary \<Rightarrow> string \<Rightarrow> rat \<Rightarrow> domain_event list \<Rightarrow> exn + json_object option" where
  "readStateAtVersion prog bd aggregate version evlog =
     rbind (eventsAtVersion prog bd aggregate version evlog) (\<lambda>history.
     if history = [] then Inr None
     else rbind (rfold (\<lambda>e st. reapply prog (case byBoundaryName prog (ev_boundary e) of Some owner \<Rightarrow> owner | None \<Rightarrow> bd)
            (Some (''PUT'', [])) e st) history []) (\<lambda>states.
          Inr (omap_get states aggregate)))"

end
