(* ===== verification/Identity.thy ===== *)
theory Identity
  imports Program
begin

text \<open>
  Resolving the aggregate a command addresses (\<open>domain/identity.ts\<close>): the target the command already
  has, else what the boundary generates, else the key its policy reads from the path, the query, the
  headers or the payload, else a fresh identifier.
\<close>

record identity_input =
  ii_target :: "string option"
  ii_key :: "identity_key option"
  ii_generated :: "(exn + string) option"
  ii_path :: string
  ii_contractPath :: string
  ii_query :: query
  ii_headers :: headers
  ii_payload :: json_object

definition query_json :: "query \<Rightarrow> json" where
  "query_json q = JObj (map (\<lambda>(k, v). (k, case v of QOne s \<Rightarrow> JStr s | QMany ss \<Rightarrow> JArr (map JStr ss))) q)"

text \<open>One step of a read: an array takes a numeric index, anything but a container ends the read.\<close>

fun read_segments :: "json \<Rightarrow> string list \<Rightarrow> json" where
  "read_segments v [] = v"
| "read_segments (JArr xs) (s # ss) = read_segments (js_index xs s) ss"
| "read_segments (JObj m) (s # ss) = read_segments (obj_get m s) ss"
| "read_segments _ (s # ss) = JUndef"

definition readPointer :: "json \<Rightarrow> string option \<Rightarrow> json" where
  "readPointer v pointer = (case pointer of
      None \<Rightarrow> v
    | Some p \<Rightarrow>
        if p = [] then v
        else read_segments v (if starts_with ''/'' p then map unescapeSegment (js_split slash (tl p))
          else js_split (CHR ''.'') p))"

definition path_parts :: "string \<Rightarrow> string list" where
  "path_parts p = filter (\<lambda>s. s \<noteq> []) (js_split slash p)"

fun index_where :: "('a \<Rightarrow> bool) \<Rightarrow> 'a list \<Rightarrow> nat option" where
  "index_where p [] = None"
| "index_where p (x # xs) = (if p x then Some 0 else map_option Suc (index_where p xs))"

definition pathValue :: "string \<Rightarrow> string \<Rightarrow> string option \<Rightarrow> string option" where
  "pathValue path template name =
     (let actual = path_parts path
      in case name of
          None \<Rightarrow> if actual = [] then None else Some (last actual)
        | Some n \<Rightarrow> (case index_where (\<lambda>s. s = ''{'' @ n @ ''}'' \<or> s = '':'' @ n) (path_parts template) of
              Some i \<Rightarrow> if i < length actual then Some (actual ! i) else None
            | None \<Rightarrow> None))"

definition opt_json :: "string option \<Rightarrow> json" where
  "opt_json v = (case v of Some s \<Rightarrow> JStr s | None \<Rightarrow> JUndef)"

definition candidateValue :: "identity_input \<Rightarrow> json" where
  "candidateValue inp = (case ii_key inp of
      None \<Rightarrow> JUndef
    | Some key \<Rightarrow> (case ik_from key of
          FromPath \<Rightarrow> opt_json (pathValue (ii_path inp) (ii_contractPath inp) (ik_name key))
        | FromHeader \<Rightarrow> opt_json (header_value (ii_headers inp)
            (case ik_name key of Some n \<Rightarrow> n | None \<Rightarrow> (case ik_pointer key of Some p \<Rightarrow> p | None \<Rightarrow> [])))
        | FromPayload \<Rightarrow> readPointer (JObj (ii_payload inp))
            (case ik_pointer key of Some p \<Rightarrow> Some p | None \<Rightarrow> ik_name key)
        | FromQuery \<Rightarrow> readPointer (query_json (ii_query inp))
            (case ik_pointer key of Some p \<Rightarrow> Some p | None \<Rightarrow> ik_name key)))"

definition resolveAggregateId :: "identity_input \<Rightarrow> ('s, exn, string) eff \<Rightarrow> ('s, exn, string) eff" where
  "resolveAggregateId inp fallback = (case ii_target inp of
      Some t \<Rightarrow> lift (parsed (aggregateId t))
    | None \<Rightarrow> (case ii_generated inp of
          Some g \<Rightarrow> lift (rbind g (\<lambda>i. parsed (aggregateId i)))
        | None \<Rightarrow> (case candidateValue inp of
              JStr s \<Rightarrow> if s \<noteq> [] then lift (parsed (aggregateId s)) else bind fallback (\<lambda>i. lift (parsed (aggregateId i)))
            | JNum n \<Rightarrow> lift (parsed (aggregateId (num_string n)))
            | _ \<Rightarrow> bind fallback (\<lambda>i. lift (parsed (aggregateId i))))))"

text \<open>Whatever the source, the identifier is normalised and not empty.\<close>

lemma resolveAggregateId_normal:
  "resolveAggregateId inp fallback s = (Inr i, s') \<Longrightarrow> aggregateId i = Inr i"
  unfolding resolveAggregateId_def
  by (auto simp: bind_Inr rbind_Inr_iff aggregateId_Inr_iff split: option.splits json.splits if_splits)

text \<open>A path parameter is read back from a path built from its template.\<close>

lemma index_where_nth: "index_where p xs = Some i \<Longrightarrow> i < length xs \<and> p (xs ! i)"
  by (induction xs arbitrary: i) (auto split: if_splits)

lemma pathValue_param:
  assumes "index_where (\<lambda>s. s = ''{'' @ n @ ''}'' \<or> s = '':'' @ n) (path_parts template) = Some i"
    and "path_parts path = (path_parts template)[i := v]"
  shows "pathValue path template (Some n) = Some v"
  using index_where_nth[OF assms(1)] assms by (simp add: pathValue_def)

end
