(* ===== verification/Cursor.thy ===== *)
theory Cursor
  imports JsonLaws
begin

text \<open>
  Pagination cursors (\<open>domain/query.ts\<close>): the identifier of a row, as the JSON text of \<open>{ id }\<close> in
  base64url.  A cursor whose bytes are not the UTF-8 of a string of the model has no identifier here.
\<close>

definition b64_char :: "nat \<Rightarrow> char" where
  "b64_char n =
     (if n < 26 then char_of (65 + n)
      else if n < 52 then char_of (71 + n)
      else if n < 62 then char_of (n - 4)
      else if n = 62 then CHR ''-'' else CHR ''_'')"

definition b64_value :: "char \<Rightarrow> nat option" where
  "b64_value c =
     (if 65 \<le> code c \<and> code c \<le> 90 then Some (code c - 65)
      else if 97 \<le> code c \<and> code c \<le> 122 then Some (code c - 71)
      else if is_digit c then Some (code c + 4)
      else if c = CHR ''-'' then Some 62
      else if c = CHR ''_'' then Some 63
      else None)"

fun b64_encode :: "nat list \<Rightarrow> string" where
  "b64_encode [] = []"
| "b64_encode [a] = [b64_char (a div 4), b64_char (a mod 4 * 16)]"
| "b64_encode [a, b] = [b64_char (a div 4), b64_char (a mod 4 * 16 + b div 16), b64_char (b mod 16 * 4)]"
| "b64_encode (a # b # c # bs) =
     b64_char (a div 4) # b64_char (a mod 4 * 16 + b div 16) # b64_char (b mod 16 * 4 + c div 64) # b64_char (c mod 64)
       # b64_encode bs"

text \<open>The values of the digits, without padding; a lone last digit carries no byte.\<close>

fun b64_bytes :: "nat list \<Rightarrow> nat list" where
  "b64_bytes (p # q # r # s # vs) = (p * 4 + q div 16) # (q mod 16 * 16 + r div 4) # (r mod 4 * 64 + s) # b64_bytes vs"
| "b64_bytes [p, q, r] = [p * 4 + q div 16, q mod 16 * 16 + r div 4]"
| "b64_bytes [p, q] = [p * 4 + q div 16]"
| "b64_bytes _ = []"

fun b64_values :: "string \<Rightarrow> nat list option" where
  "b64_values [] = Some []"
| "b64_values (c # s) = (case (b64_value c, b64_values s) of (Some v, Some vs) \<Rightarrow> Some (v # vs) | _ \<Rightarrow> None)"

definition encodeBase64Url :: "string \<Rightarrow> string" where
  "encodeBase64Url s = b64_encode (utf8 s)"

definition decodeBase64Url :: "string \<Rightarrow> string option" where
  "decodeBase64Url s =
     (if s = [] then None
      else case b64_values s of None \<Rightarrow> None | Some vs \<Rightarrow> utf8_decode (b64_bytes vs))"

definition encodeCursor :: "string \<Rightarrow> string" where
  "encodeCursor i = encodeBase64Url (json_stringify (JObj [(''id'', JStr i)]))"

definition decodeCursor :: "string \<Rightarrow> string option" where
  "decodeCursor v = (case decodeBase64Url v of
      None \<Rightarrow> None
    | Some s \<Rightarrow> (case json_parse s of
          Some (JObj m) \<Rightarrow> (case obj_get m ''id'' of JStr i \<Rightarrow> Some i | _ \<Rightarrow> None)
        | _ \<Rightarrow> None))"

subsection \<open>A cursor names the row it was made for\<close>

lemma b64_value_char: "n < 64 \<Longrightarrow> b64_value (b64_char n) = Some n"
proof -
  assume n: "n < 64"
  consider "n < 26" | "26 \<le> n" "n < 52" | "52 \<le> n" "n < 62" | "n = 62" | "n = 63" using n by linarith
  then show ?thesis
    by cases (auto simp: b64_char_def b64_value_def code_def is_digit_def)
qed

lemma b64_values_encode:
  "\<forall>b\<in>set bs. b < 256 \<Longrightarrow> map_option b64_bytes (b64_values (b64_encode bs)) = Some bs"
proof (induction bs rule: b64_encode.induct)
  case (2 a)
  then have "a div 4 < 64" "a mod 4 * 16 < 64" by auto
  then show ?case by (simp add: b64_value_char)
next
  case (3 a b)
  then have "a div 4 < 64" "a mod 4 * 16 + b div 16 < 64" "b mod 16 * 4 < 64" "b div 16 < 16" by auto
  then show ?case by (simp add: b64_value_char)
next
  case (4 a b c bs)
  then obtain vs where vs: "b64_values (b64_encode bs) = Some vs" "b64_bytes vs = bs" by auto
  have "a div 4 < 64" "a mod 4 * 16 + b div 16 < 64" "b mod 16 * 4 + c div 64 < 64" "c mod 64 < 64"
    "b div 16 < 16" "c div 64 < 4" using 4 by auto
  then show ?case using vs by (simp add: b64_value_char)
qed simp

lemma utf8_bytes: "b \<in> set (utf8 s) \<Longrightarrow> b < 256"
proof -
  assume "b \<in> set (utf8 s)"
  then obtain c where "b \<in> set (utf8_char c)" by (auto simp: utf8_def)
  moreover have "code c < 256" by (simp add: code_def)
  ultimately show ?thesis by (auto simp: utf8_char_def split: if_splits)
qed

lemma decodeBase64Url_encode: "s \<noteq> [] \<Longrightarrow> decodeBase64Url (encodeBase64Url s) = Some s"
proof -
  assume ne: "s \<noteq> []"
  have bytes: "\<forall>b\<in>set (utf8 s). b < 256" using utf8_bytes by blast
  obtain vs where vs: "b64_values (b64_encode (utf8 s)) = Some vs" "b64_bytes vs = utf8 s"
    using b64_values_encode[OF bytes] by auto
  moreover have "b64_encode (utf8 s) \<noteq> []"
    using vs ne utf8_decode_utf8[of s] by (cases "b64_encode (utf8 s)") auto
  ultimately show ?thesis by (simp add: decodeBase64Url_def encodeBase64Url_def)
qed

lemma decode_encode_cursor: "decodeCursor (encodeCursor i) = Some i"
proof -
  have "printable (JObj [(''id'', JStr i)])" by (simp add: obj_from_entries_def obj_spread_def obj_set_def)
  then have "json_parse (json_stringify (JObj [(''id'', JStr i)])) = Some (JObj [(''id'', JStr i)])"
    by (rule json_parse_stringify)
  moreover have "json_stringify (JObj [(''id'', JStr i)]) \<noteq> []" by (simp add: json_stringify_def members_def)
  ultimately show ?thesis by (simp add: decodeCursor_def encodeCursor_def decodeBase64Url_encode obj_get_def)
qed

end
