(* ===== verification/Queries.thy ===== *)
theory Queries
  imports History Identity Cursor
begin

text \<open>
  Reading entities (\<open>domain/query.ts\<close> and \<open>executeQuery\<close> of \<open>core/engine.ts\<close>): selection, filters, sorting,
  pagination, sparse fields and expansion.  A row is its aggregate's identifier with its state, since the
  source compares rows by identity.  A page size that is not a number is printed as \<open>null\<close>, as JSON does.
\<close>

subsection \<open>Comparisons\<close>

definition readPath :: "json \<Rightarrow> string \<Rightarrow> json" where
  "readPath v path = read_segments v (js_split (CHR ''.'') path)"

definition nullish :: "json \<Rightarrow> bool" where
  "nullish v \<longleftrightarrow> v = JNull \<or> v = JUndef"

definition compareQueryValues :: "(string \<Rightarrow> string \<Rightarrow> int) \<Rightarrow> json \<Rightarrow> json \<Rightarrow> int" where
  "compareQueryValues cmp l r =
     (if nullish l then (if nullish r then 0 else 1)
      else if nullish r then -1
      else case (l, r) of
          (JNum x, JNum y) \<Rightarrow> if x < y then -1 else if y < x then 1 else 0
        | _ \<Rightarrow> cmp (js_String l) (js_String r))"

definition num_less :: "jsnum \<Rightarrow> jsnum \<Rightarrow> bool" where
  "num_less a b = (case (a, b) of
      (Fin x, Fin y) \<Rightarrow> x < y
    | (Fin x, PosInf) \<Rightarrow> True
    | (NegInf, Fin y) \<Rightarrow> True
    | (NegInf, PosInf) \<Rightarrow> True
    | _ \<Rightarrow> False)"

text \<open>\<open>Number(v)\<close> of a value that is neither \<open>null\<close> nor \<open>undefined\<close>.\<close>

definition to_number :: "json \<Rightarrow> jsnum" where
  "to_number v = (case v of
      JNum x \<Rightarrow> Fin x
    | JBool b \<Rightarrow> Fin (if b then 1 else 0)
    | _ \<Rightarrow> js_Number (js_String v))"

definition str_in :: "string \<Rightarrow> json \<Rightarrow> bool" where
  "str_in expected v = (case v of JArr xs \<Rightarrow> list_ex (\<lambda>x. js_String x = expected) xs | _ \<Rightarrow> False)"

definition queryOperator :: "json \<Rightarrow> string \<Rightarrow> string \<Rightarrow> bool" where
  "queryOperator v op expected =
     (if nullish v then op = ''ne''
      else if op = ''arrayContains'' then str_in expected v
      else if op = ''contains'' then (case v of JStr s \<Rightarrow> contains (to_lower expected) (to_lower s) | _ \<Rightarrow> str_in expected v)
      else if op = ''startsWith'' then (case v of JStr s \<Rightarrow> starts_with (to_lower expected) (to_lower s) | _ \<Rightarrow> False)
      else if op = ''endsWith'' then (case v of JStr s \<Rightarrow> ends_with (to_lower expected) (to_lower s) | _ \<Rightarrow> False)
      else if op = ''in'' then js_String v \<in> set (map js_trim (js_split (CHR '','') expected))
      else
        let a = to_number v; b = js_Number expected;
            numeric = a \<noteq> NaN \<and> b \<noteq> NaN \<and> js_trim expected \<noteq> [];
            less = (if numeric then num_less a b else js_String v < expected);
            more = (if numeric then num_less b a else expected < js_String v);
            same = (if numeric then a = b else js_String v = expected)
        in if op = ''gt'' then more
           else if op = ''gte'' then more \<or> same
           else if op = ''lt'' then less
           else if op = ''lte'' then less \<or> same
           else if op = ''ne'' then js_String v \<noteq> expected \<and> \<not> same
           else False)"

definition query_operators :: "string list" where
  "query_operators = [''gt'', ''gte'', ''lt'', ''lte'', ''ne'', ''in'', ''contains'', ''arrayContains'', ''startsWith'', ''endsWith'']"

text \<open>\<open>/^(.+):(gt|...)$/\<close>: no operator holds a colon, so the field ends at the last one.\<close>

definition operator_of :: "string \<Rightarrow> (string \<times> string) option" where
  "operator_of name =
     (let op = rev (takeWhile (\<lambda>c. c \<noteq> CHR '':'') (rev name));
          field = rev (tl (dropWhile (\<lambda>c. c \<noteq> CHR '':'') (rev name)))
      in if CHR '':'' \<in> set name \<and> field \<noteq> [] \<and> list_all (\<lambda>c. code c \<noteq> 10 \<and> code c \<noteq> 13) field \<and> op \<in> set query_operators
         then Some (field, op) else None)"

subsection \<open>Fields\<close>

definition selectFields :: "json_object \<Rightarrow> string list \<Rightarrow> json_object" where
  "selectFields v names =
     (if names = [] then v
      else foldl (\<lambda>out f. if obj_get v f = JUndef then out else obj_set f (obj_get v f) out) [] (remdups (''id'' # names)))"

definition expandFields :: "json_object \<Rightarrow> string list \<Rightarrow> state_map \<Rightarrow> json_object" where
  "expandFields v names store =
     (if names = [] then v
      else foldl (\<lambda>out f. case obj_get v f of
          JArr ids \<Rightarrow> obj_set (''_'' @ f) (JArr (map JObj (List.map_filter
            (\<lambda>i. case i of JStr s \<Rightarrow> omap_get store s | _ \<Rightarrow> None) ids))) out
        | _ \<Rightarrow> out) v names)"

text \<open>\<open>s.split(',').map(trim).filter(Boolean)\<close>.\<close>

definition comma_list :: "string \<Rightarrow> string list" where
  "comma_list s = filter (\<lambda>i. i \<noteq> []) (map js_trim (js_split (CHR '','') s))"

definition param :: "request \<Rightarrow> string \<Rightarrow> string option" where
  "param rq name = queryValue (map_of (cm_query (rq_command rq)) name)"

subsection \<open>The rows of a query\<close>

type_synonym row = "string \<times> json_object"

definition query_context :: "program \<Rightarrow> request \<Rightarrow> json_object \<Rightarrow> ctx" where
  "query_context prog rq st = match_context prog rq (Some st)"

definition r_all :: "('a \<Rightarrow> 'e + bool) \<Rightarrow> 'a list \<Rightarrow> 'e + bool" where
  "r_all p xs = rbind (r_some (\<lambda>x. rbind (p x) (\<lambda>b. Inr (\<not> b))) xs) (\<lambda>b. Inr (\<not> b))"

definition graph_fallback :: "boundary \<Rightarrow> bool" where
  "graph_fallback bd \<longleftrightarrow> bd_fallbackOverride bd = Some True \<and> contains ''{'' (bd_contractPath bd)"

definition candidate_rows :: "boundary \<Rightarrow> request \<Rightarrow> engine \<Rightarrow> row list" where
  "candidate_rows bd rq en = filter (\<lambda>(i, v).
      (cm_target (rq_command rq) = None \<or> Some i = cm_target (rq_command rq)) \<and>
      (graph_fallback bd \<or> omap_get (en_boundaries en) i = Some (bd_name bd))) (mem_entries (en_state en))"

definition mapping_matches :: "program \<Rightarrow> request \<Rightarrow> (string \<times> bool callback) list \<Rightarrow> row \<Rightarrow> exn + bool" where
  "mapping_matches prog rq mapping r = r_all (\<lambda>(name, p).
      case map_of (cm_query (rq_command rq)) name of
        None \<Rightarrow> Inr True
      | Some requested \<Rightarrow> p ((query_context prog rq (snd r))\<lparr>cx_param := Some requested\<rparr>)) mapping"

definition fields_match :: "program \<Rightarrow> request \<Rightarrow> (string \<times> bool callback) list \<Rightarrow> row \<Rightarrow> exn + bool" where
  "fields_match prog rq policies r = r_all (\<lambda>(name, p).
      if map_of (cm_query (rq_command rq)) name = None then Inr True else p (query_context prog rq (snd r))) policies"

definition includes_deleted :: "query_policy option \<Rightarrow> request \<Rightarrow> bool" where
  "includes_deleted policy rq \<longleftrightarrow> (case policy of Some p \<Rightarrow> qp_includeDeleted p | None \<Rightarrow> False)
     \<or> param rq ''includeDeleted'' = Some ''true''"

definition operators_match :: "request \<Rightarrow> row \<Rightarrow> bool" where
  "operators_match rq r = list_all (\<lambda>(name, raw). case (operator_of name, queryValue (Some raw)) of
      (Some (field, op), Some expected) \<Rightarrow> queryOperator (readPath (JObj (snd r)) field) op expected
    | _ \<Rightarrow> True) (cm_query (rq_command rq))"

definition text_matches :: "request \<Rightarrow> row \<Rightarrow> bool" where
  "text_matches rq r = (case param rq ''q'' of
      None \<Rightarrow> True
    | Some q \<Rightarrow> list_ex (\<lambda>(k, v). case v of JStr s \<Rightarrow> contains (to_lower q) (to_lower s) | _ \<Rightarrow> False) (snd r))"

definition filtered_rows :: "program \<Rightarrow> boundary \<Rightarrow> request \<Rightarrow> engine \<Rightarrow> exn + row list" where
  "filtered_rows prog bd rq en =
     rbind (case Option.bind (bd_query bd) qp_filter of
         None \<Rightarrow> Inr (candidate_rows bd rq en)
       | Some f \<Rightarrow> r_filter (\<lambda>r. f (query_context prog rq (snd r))) (candidate_rows bd rq en)) (\<lambda>rows.
     rbind (case bd_queryMapping bd of None \<Rightarrow> Inr rows | Some m \<Rightarrow> r_filter (mapping_matches prog rq m) rows) (\<lambda>rows.
     rbind (case Option.bind (bd_query bd) qp_fields of None \<Rightarrow> Inr rows | Some m \<Rightarrow> r_filter (fields_match prog rq m) rows) (\<lambda>rows.
     let rows = (if includes_deleted (bd_query bd) rq then rows
           else filter (\<lambda>r. obj_get (snd r) ''_deleted'' \<noteq> JBool True) rows)
     in Inr (filter (text_matches rq) (filter (operators_match rq) rows)))))"

subsection \<open>Sorting\<close>

definition sort_keys :: "request \<Rightarrow> string \<Rightarrow> (string \<times> int) list" where
  "sort_keys rq s =
     (let items = comma_list s
      in map (\<lambda>i. (if starts_with ''-'' i then tl i else i,
           if starts_with ''-'' i then -1
           else if length items = 1 \<and> map_option to_lower (param rq ''order'') = Some ''desc'' then -1 else 1)) items)"

fun compare_keys :: "(string \<Rightarrow> string \<Rightarrow> int) \<Rightarrow> (string \<times> int) list \<Rightarrow> json \<Rightarrow> json \<Rightarrow> int" where
  "compare_keys cmp [] l r = 0"
| "compare_keys cmp ((field, dir) # ks) l r =
     (let c = dir * compareQueryValues cmp (readPath l field) (readPath r field)
      in if c \<noteq> 0 then c else compare_keys cmp ks l r)"

definition sorted_rows :: "program \<Rightarrow> boundary \<Rightarrow> request \<Rightarrow> row list \<Rightarrow> row list" where
  "sorted_rows prog bd rq rows =
     (let rows = (case Option.bind (bd_query bd) qp_sort of
            None \<Rightarrow> rows
          | Some f \<Rightarrow> sort_by (\<lambda>l r. f (snd l) (snd r) (query_context prog rq (snd l))) rows)
      in case param rq ''sort'' of
          None \<Rightarrow> rows
        | Some s \<Rightarrow> sort_by (\<lambda>l r. compare_keys (dp_compare (pg_deps prog)) (sort_keys rq s) (JObj (snd l)) (JObj (snd r))) rows)"

subsection \<open>Pages\<close>

definition num_min :: "jsnum \<Rightarrow> jsnum \<Rightarrow> jsnum" where
  "num_min a b = (if a = NaN \<or> b = NaN then NaN else if num_less b a then b else a)"

definition num_max :: "jsnum \<Rightarrow> jsnum \<Rightarrow> jsnum" where
  "num_max a b = (if a = NaN \<or> b = NaN then NaN else if num_less a b then b else a)"

definition is_finite :: "jsnum \<Rightarrow> bool" where
  "is_finite a = (case a of Fin _ \<Rightarrow> True | _ \<Rightarrow> False)"

definition first_row :: "row list \<Rightarrow> json_object" where
  "first_row rows = (case rows of [] \<Rightarrow> [] | r # _ \<Rightarrow> snd r)"

definition requested_size :: "program \<Rightarrow> boundary \<Rightarrow> request \<Rightarrow> row list \<Rightarrow> exn + jsnum" where
  "requested_size prog bd rq rows = (case Option.bind (bd_query bd) qp_pageSize of
      None \<Rightarrow> Inr (case param rq ''limit'' of Some s \<Rightarrow> js_Number s | None \<Rightarrow> Fin (of_nat (length rows)))
    | Some f \<Rightarrow> rbind (f (query_context prog rq (first_row rows))) (\<lambda>n. Inr (Fin n)))"

definition page_size :: "boundary \<Rightarrow> jsnum \<Rightarrow> nat \<Rightarrow> jsnum" where
  "page_size bd requested totalCount =
     (let maxSize = (case Option.bind (bd_query bd) qp_maxPageSize of Some m \<Rightarrow> Fin m | None \<Rightarrow> requested)
      in num_max (Fin 0) (num_min (if is_finite requested then requested else Fin (of_nat totalCount)) maxSize))"

definition row_id :: "row \<Rightarrow> string" where
  "row_id r = (case obj_get (snd r) ''id'' of JStr s \<Rightarrow> s | _ \<Rightarrow> fst r)"

text \<open>Where the page starts: past the end for a malformed cursor, after the cursor's row, or at the offset.\<close>

definition page_start :: "string option \<Rightarrow> string option \<Rightarrow> row list \<Rightarrow> rat" where
  "page_start cursor offset rows = (case cursor of
      Some c \<Rightarrow> (case decodeCursor c of
          None \<Rightarrow> of_nat (length rows)
        | Some i \<Rightarrow> (case index_where (\<lambda>r. row_id r = i) rows of Some k \<Rightarrow> of_nat (Suc k) | None \<Rightarrow> 0))
    | None \<Rightarrow> (case offset of
          None \<Rightarrow> 0
        | Some s \<Rightarrow> (case js_Number s of Fin x \<Rightarrow> if 0 \<le> x then x else 0 | _ \<Rightarrow> 0)))"

text \<open>\<open>rows.slice(start, start + pageSize)\<close> for a start that is not negative.\<close>

definition slice :: "rat \<Rightarrow> jsnum \<Rightarrow> 'a list \<Rightarrow> 'a list" where
  "slice start pageSize xs = (case pageSize of
      Fin n \<Rightarrow> (let a = nat \<lfloor>start\<rfloor>; b = nat \<lfloor>js_add start n\<rfloor> in take (b - a) (drop a xs))
    | _ \<Rightarrow> [])"

definition malformed_cursor :: "string option \<Rightarrow> bool" where
  "malformed_cursor cursor \<longleftrightarrow> (case cursor of Some c \<Rightarrow> decodeCursor c = None | None \<Rightarrow> False)"

text \<open>
  The cursor of the next page: the identifier of the last row sent, or, when that row has none, the key of
  the entry at that position in the order of the store.
\<close>

definition next_cursor :: "json_object list \<Rightarrow> row list \<Rightarrow> rat \<Rightarrow> string" where
  "next_cursor output entries start =
     encodeCursor (let i = obj_get (last output) ''id'' in
       if \<not> nullish i then js_String i
       else let k = start + of_nat (length output) - 1
            in if is_integer k \<and> 0 \<le> k \<and> nat \<lfloor>k\<rfloor> < length entries then fst (entries ! nat \<lfloor>k\<rfloor>) else [])"

definition size_json :: "jsnum \<Rightarrow> json" where
  "size_json a = (case a of Fin x \<Rightarrow> JNum x | _ \<Rightarrow> JNull)"

definition page_body :: "json_object list \<Rightarrow> row list \<Rightarrow> nat \<Rightarrow> rat \<Rightarrow> jsnum \<Rightarrow> bool \<Rightarrow> json" where
  "page_body output entries totalCount start pageSize malformed =
     (let more = (\<not> malformed \<and> js_add start (of_nat (length output)) < of_nat totalCount)
      in JObj ([(''items'', JArr (map JObj output)), (''totalCount'', JNum (of_nat totalCount)), (''offset'', JNum start),
           (''limit'', size_json pageSize), (''hasMore'', JBool more)]
         @ (if more \<and> output \<noteq> [] then [(''nextCursor'', JStr (next_cursor output entries start))] else [])))"

definition absence :: "string \<Rightarrow> json" where
  "absence t = JObj [(''code'', JStr ''ENTITY_ABSENCE''), (''message'', JStr (''Entity '' @ tick t @ '' not found''))]"

definition query_result :: "program \<Rightarrow> boundary \<Rightarrow> request \<Rightarrow> response \<times> json \<Rightarrow> headers \<Rightarrow> execution_result" where
  "query_result prog bd rq p hs = (case p of (r, unmasked) \<Rightarrow>
     decorateResult prog ((plain_result (rs_status r) (rs_body r) (obj_spread (rs_headers r) hs))\<lparr>xr_unmaskedBody := Some unmasked\<rparr>) bd rq [])"

definition read_at_version :: "program \<Rightarrow> boundary \<Rightarrow> request \<Rightarrow> string \<Rightarrow> rat \<Rightarrow> engine \<Rightarrow> exn + execution_result" where
  "read_at_version prog bd rq t version en =
     rbind (eventsAtVersion prog bd t version (en_events en)) (\<lambda>events.
     rbind (readStateAtVersion prog bd t version (en_events en)) (\<lambda>st.
     rbind (applyResponse prog (en_events en) (en_state en) bd rq
        \<lparr>rs_status = (if st = None then 404 else 200), rs_body = (case st of Some m \<Rightarrow> JObj m | None \<Rightarrow> absence t), rs_headers = []\<rparr>
        None [] st (Some events)) (\<lambda>p.
     Inr (query_result prog bd rq p [(''X-Potemkin-Read-At-Version'', num_string version)]))))"

definition query_body :: "program \<Rightarrow> boundary \<Rightarrow> request \<Rightarrow> engine \<Rightarrow> exn + (json \<times> bool)" where
  "query_body prog bd rq en =
     rbind (filtered_rows prog bd rq en) (\<lambda>entries.
     let rows = sorted_rows prog bd rq entries; policy = bd_query bd; totalCount = length rows
     in rbind (requested_size prog bd rq rows) (\<lambda>requested.
        let pageSize = page_size bd requested totalCount
        in rbind (case Option.bind policy qp_cursor of
             None \<Rightarrow> Inr (param rq ''cursor'')
           | Some f \<Rightarrow> f (query_context prog rq (first_row rows))) (\<lambda>cursor.
           let start = page_start cursor (param rq ''offset'') rows;
               sparse = (case param rq ''fields'' of Some s \<Rightarrow> comma_list s | None \<Rightarrow> []);
               includes = (case policy of Some p \<Rightarrow> qp_expand p | None \<Rightarrow> [])
                 @ (case param rq ''include'' of Some s \<Rightarrow> comma_list s | None \<Rightarrow> []);
               output = map (\<lambda>r. selectFields (expandFields (snd r) includes (en_state en)) sparse) (slice start pageSize rows)
           in rbind (case (if output = [] then Option.bind policy qp_fallback else None) of
                None \<Rightarrow> Inr None
              | Some f \<Rightarrow> f (query_context prog rq [])) (\<lambda>fallback.
              let target = cm_target (rq_command rq);
                  envelope = (target = None \<and> ((case policy of Some p \<Rightarrow> qp_envelope p | None \<Rightarrow> False)
                    \<or> map_of (cm_query (rq_command rq)) ''limit'' \<noteq> None));
                  missing = (target \<noteq> None \<and> output = [] \<and> fallback = None);
                  body = (if fallback \<noteq> None \<and> fallback \<noteq> Some JNull then the fallback
                    else if target = None
                    then (if envelope then page_body output entries totalCount start pageSize (malformed_cursor cursor)
                      else JArr (map JObj output))
                    else (case output of [] \<Rightarrow> JNull | o' # _ \<Rightarrow> JObj o'))
              in Inr (if missing then absence (the target) else body, missing)))))"

definition invalid_operation :: "request \<Rightarrow> exn" where
  "invalid_operation rq =
     (let m = ''Operation '' @ operation_label (rq_command rq) @ '' is not valid for the current entity state''
      in coded_error 422 m ''INVALID_STATE_TRANSITION'' m)"

definition executeQuery :: "program \<Rightarrow> boundary \<Rightarrow> request \<Rightarrow> engine \<Rightarrow> exn + execution_result" where
  "executeQuery prog bd rq en =
     (let cm = rq_command rq; target = cm_target cm
      in if target \<noteq> None \<and> bd_fallbackOverride bd = Some False \<and> bd_behaviors bd \<noteq> []
            \<and> \<not> list_ex (\<lambda>bh. Some (bh_operation bh) = cm_operation cm) (bd_behaviors bd)
         then Inl (invalid_operation rq)
         else case (target, rc_readAtVersion (ctl rq)) of
             (Some t, Some v) \<Rightarrow> read_at_version prog bd rq t v en
           | _ \<Rightarrow> rbind (query_body prog bd rq en) (\<lambda>(body, missing).
               rbind (applyResponse prog (en_events en) (en_state en) bd rq
                  \<lparr>rs_status = (if missing then 404 else 200), rs_body = body, rs_headers = []\<rparr> None [] None None) (\<lambda>p.
               Inr (query_result prog bd rq p []))))"

end
