(* ===== verification/Execute.thy ===== *)
theory Execute
  imports Authenticate Queries
begin

text \<open>
  One request from end to end (\<open>execute\<close>, \<open>executeUnlocked\<close>, \<open>executeInternal\<close>, \<open>replayEvent\<close>,
  \<open>resolveIdentity\<close> and \<open>routeFallback\<close> of \<open>core/engine.ts\<close>): authentication, routing, validation,
  authorization, faults, idempotency, identity, locks, and the query or mutation itself.

  Observability has no effect on a result and is left out, so \<open>executeUnlocked\<close> is \<open>executeInternal\<close>.
  \<open>again\<close> is the executor of saga steps.  A step runs with \<open>skipSagas\<close>, so its own steps are never
  asked for and one level of nesting is all there is.
\<close>

subsection \<open>Errors as responses\<close>

definition errorResult :: "program \<Rightarrow> exn \<Rightarrow> request \<Rightarrow> execution_result" where
  "errorResult prog e rq =
     (let f = foreign_of e;
          status = (case fg_status f of Some s \<Rightarrow> s | None \<Rightarrow> 500);
          message = (case fg_message f of Some m \<Rightarrow> m | None \<Rightarrow> fg_string f);
          fallback = JObj ([(''code'', JStr (case fg_code f of Some c \<Rightarrow> c | None \<Rightarrow> ''RUNTIME_EXECUTION_FAILED'')),
             (''message'', JStr message)] @ (case fg_details f of Some d \<Rightarrow> [(''details'', JObj d)] | None \<Rightarrow> []));
          body = (case fg_body f of Some b \<Rightarrow> b | None \<Rightarrow> fallback);
          hs = (case fg_headers f of Some h \<Rightarrow> h | None \<Rightarrow> [])
      in decorateStandaloneResponse (plain_result status body hs) rq (po_securityHeaders (pg_policies prog)))"

subsection \<open>Routing\<close>

definition rule_matches :: "program \<Rightarrow> request \<Rightarrow> bool \<Rightarrow> fallback_rule \<Rightarrow> bool" where
  "rule_matches prog rq inContract fr \<longleftrightarrow>
     (case fb_method fr of None \<Rightarrow> True | Some m \<Rightarrow> to_upper m = to_upper (cm_method (rq_command rq))) \<and>
     (case fb_inContract fr of None \<Rightarrow> True | Some b \<Rightarrow> b = inContract) \<and>
     (case fb_path fr of None \<Rightarrow> True | Some p \<Rightarrow> dp_glob (pg_deps prog) p (cm_path (rq_command rq)))"

definition no_route :: "bool \<Rightarrow> fault_response" where
  "no_route inContract =
     (if inContract
      then \<lparr>fr_status = 501, fr_body = Some (JObj [(''message'', JStr ''Operation is not implemented'')]), fr_headers = []\<rparr>
      else \<lparr>fr_status = 404, fr_body = Some (JObj [(''error'', JStr ''NO_ROUTE''), (''code'', JStr ''NO_ROUTE''),
             (''message'', JStr ''Not found'')]), fr_headers = []\<rparr>)"

definition routeFallback :: "program \<Rightarrow> request \<Rightarrow> bool \<Rightarrow> execution_result" where
  "routeFallback prog rq inContract =
     (let p = pg_policies prog;
          r = (case find (rule_matches prog rq inContract) (po_fallback_rules p) of
                Some fr \<Rightarrow> fb_respond fr
              | None \<Rightarrow> (case po_fallback_default p of Some d \<Rightarrow> d | None \<Rightarrow> no_route inContract))
      in plain_result (fr_status r) (case fr_body r of Some b \<Rightarrow> b | None \<Rightarrow> JNull) (fr_headers r))"

definition unrouted :: "program \<Rightarrow> request \<Rightarrow> exn + execution_result" where
  "unrouted prog rq = (case dp_forward (pg_deps prog) of
      Some forward \<Rightarrow> rbind (forward rq) (\<lambda>r. Inr (r\<lparr>xr_committed := False\<rparr>))
    | None \<Rightarrow> Inr (decorateStandaloneResponse (routeFallback prog rq False) rq (po_securityHeaders (pg_policies prog))))"

subsection \<open>The normalised request\<close>

definition normalized :: "program \<Rightarrow> request \<Rightarrow> request" where
  "normalized prog rq =
     (let cm = rq_command rq;
          op = (case cm_operation cm of Some o' \<Rightarrow> Some o'
                | None \<Rightarrow> ct_operationIdFor (dp_contract (pg_deps prog)) (cm_path cm) (cm_method cm));
          c = normalizeRuntimeControls (rq_controls rq);
          on = (\<lambda>flag. case c of Some k \<Rightarrow> flag k | None \<Rightarrow> False)
      in rq\<lparr>rq_command := cm\<lparr>cm_operation := op\<rparr>, rq_controls := c,
           rq_skipSagas := (rq_skipSagas rq \<or> on rc_skipSagas),
           rq_skipWebhooks := (rq_skipWebhooks rq \<or> on rc_skipWebhooks),
           rq_skipReactions := (rq_skipReactions rq \<or> on rc_skipReactions),
           rq_skipProjections := (rq_skipProjections rq \<or> on rc_skipProjections),
           rq_skipDispatch := (rq_skipDispatch rq \<or> on rc_skipDispatch)\<rparr>)"

definition validate_request :: "program \<Rightarrow> request \<Rightarrow> exn + unit" where
  "validate_request prog rq =
     (let cm = rq_command rq
      in case cm_operation cm of
           None \<Rightarrow> Inr ()
         | Some op \<Rightarrow>
             if cm_origin cm = Inbound \<and> \<not> rc_skipRequestValidation (ctl rq)
             then rbind (parsed (OperationId_parse op)) (\<lambda>oid.
                  ct_validateRequest (dp_contract (pg_deps prog)) oid (cm_payload cm) rq)
             else Inr ())"

definition readState :: "string option \<Rightarrow> engine \<Rightarrow> json_object option" where
  "readState i en = (case i of None \<Rightarrow> None | Some t \<Rightarrow> mem_get t (en_state en))"

text \<open>The read-only authorization of an actor that is already known.\<close>

definition preauthorize :: "program \<Rightarrow> boundary \<Rightarrow> request \<Rightarrow> ctx \<Rightarrow> exn + unit" where
  "preauthorize prog bd rq c =
     rbind (findBehavior bd rq c) (\<lambda>found.
     case found of
       Some bh \<Rightarrow> if rq_actor rq \<noteq> None then assertAuthorized prog rq bh c else Inr ()
     | None \<Rightarrow> Inr ())"

definition resolveIdentity :: "program \<Rightarrow> boundary \<Rightarrow> request \<Rightarrow> string run" where
  "resolveIdentity prog bd rq =
     (let cm = rq_command rq
      in bind (resolveAggregateId
           \<lparr>ii_target = cm_target cm, ii_key = bd_key bd,
            ii_generated = map_option (\<lambda>g. g ((match_context prog rq None)\<lparr>cx_boundary := Some (bd_name bd)\<rparr>)) (bd_generate bd),
            ii_path = cm_path cm, ii_contractPath = bd_contractPath bd, ii_query = cm_query cm, ii_headers = rq_headers rq,
            ii_payload = cm_payload cm\<rparr>
           (draw_id prog (helpersFor prog rq) 0)) (\<lambda>i. lift (parsed (aggregateId i))))"

subsection \<open>Replaying an event\<close>

definition replay_refusal :: "program \<Rightarrow> request \<Rightarrow> nat \<Rightarrow> string \<Rightarrow> string \<Rightarrow> execution_result" where
  "replay_refusal prog rq status err msg = decorateStandaloneResponse
     (plain_result status (JObj [(''code'', JStr err), (''message'', JStr msg)]) []) rq (po_securityHeaders (pg_policies prog))"

definition replay_request :: "request \<Rightarrow> boundary \<Rightarrow> domain_event \<Rightarrow> request" where
  "replay_request rq bd e = rq\<lparr>rq_command := (rq_command rq)\<lparr>cm_boundary := bd_name bd, cm_target := Some (ev_aggregate e),
     cm_intent := Mutation, cm_method := ''PUT'', cm_path := bd_contractPath bd, cm_origin := Inbound\<rparr>\<rparr>"

definition replayed_event :: "program \<Rightarrow> request \<Rightarrow> domain_event \<Rightarrow> domain_event run" where
  "replayed_event prog rq e =
     bind (draw_id prog (helpersFor prog rq) 0) (\<lambda>raw.
     bind (lift (parsed (eventId raw))) (\<lambda>eid.
     bind (get (\<lambda>en. nextSequenceVersion (mem_currentSequenceVersion (ev_aggregate e) (en_events en)) [] (ev_aggregate e))) (\<lambda>v.
     bind (lift v) (\<lambda>version.
     bind (lift (case rc_causedBy (ctl rq) of None \<Rightarrow> Inr (cm_id (rq_command rq)) | Some x \<Rightarrow> parsed (eventId x))) (\<lambda>cause.
     ret (e\<lparr>ev_id := eid, ev_timestamp := hp_now (helpersFor prog rq), ev_version := version, ev_causedBy := Some cause,
       ev_intent := Some Mutation, ev_request := Some (request_snapshot rq)\<rparr>))))))"

text \<open>Writing a replay: every state of the copy is set and the event is appended.\<close>

definition commit_replay :: "domain_event \<Rightarrow> state_map \<Rightarrow> engine \<Rightarrow> engine" where
  "commit_replay e states en = en\<lparr>en_state := fold (\<lambda>(i, v). mem_set i v) states (en_state en),
     en_events := mem_append [e] (en_events en),
     en_boundaries := (if omap_has (en_boundaries en) (ev_aggregate e) then en_boundaries en
       else omap_set (ev_aggregate e) (ev_boundary e) (en_boundaries en))\<rparr>"

definition replay_finish :: "(request \<Rightarrow> execution_result run) \<Rightarrow> program \<Rightarrow> request \<Rightarrow> boundary \<Rightarrow> string \<Rightarrow> domain_event \<Rightarrow>
    state_map \<Rightarrow> execution_result run" where
  "replay_finish again prog rq bd eid e states =
     (let st = omap_get states (ev_aggregate e); dryRun = rc_dryRun (ctl rq)
      in bind (get (\<lambda>en. applyResponse prog (en_events en) (en_state en) bd rq
            \<lparr>rs_status = 200, rs_body = state_body st, rs_headers = [(''X-Potemkin-Replayed-Event'', eid)]\<rparr> None [e] st None)) (\<lambda>answer.
         bind (lift answer) (\<lambda>(rsp, _).
         bind (lift (po_onCommit (pg_policies prog) ((post_context prog rq st [e])\<lparr>cx_response := Some rsp\<rparr>))) (\<lambda>_.
         let committed = stamp rsp e;
             result = (plain_result (rs_status rsp) (rs_body rsp) (rs_headers rsp))\<lparr>xr_events := [committed]\<rparr>
         in bind (if dryRun then ret ()
              else bind (upd (commit_replay committed states)) (\<lambda>_.
                   finish_commit again prog rq [committed] (result\<lparr>xr_committed := True\<rparr>))) (\<lambda>_.
            ret (decorateResult prog (result\<lparr>xr_committed := \<not> dryRun\<rparr>) bd rq [committed]))))))"

definition replay_one :: "(request \<Rightarrow> execution_result run) \<Rightarrow> program \<Rightarrow> request \<Rightarrow> boundary \<Rightarrow> string \<Rightarrow> domain_event \<Rightarrow>
    execution_result run" where
  "replay_one again prog rq0 bd eid original =
     (let rq = replay_request rq0 bd original
      in bind (replayed_event prog rq original) (\<lambda>e.
         bind (get (\<lambda>en. apply_to prog bd (helpersFor prog rq) e (mem_entries (en_state en)))) (\<lambda>applied.
         bind (lift applied) (\<lambda>states.
         replay_finish again prog rq bd eid e states))))"

definition replayEvent :: "(request \<Rightarrow> execution_result run) \<Rightarrow> program \<Rightarrow> request \<Rightarrow> execution_result option run" where
  "replayEvent again prog rq = (case rc_replayEvent (ctl rq) of
      None \<Rightarrow> ret None
    | Some i \<Rightarrow>
        bind (get (\<lambda>en. find (\<lambda>e. ev_id e = i) (en_events en))) (\<lambda>found. case found of
          None \<Rightarrow> ret (Some (replay_refusal prog rq 404 ''EVENT_NOT_FOUND'' (''Event '' @ tick i @ '' was not found'')))
        | Some e \<Rightarrow> (case byBoundaryName prog (ev_boundary e) of
            None \<Rightarrow> ret (Some (replay_refusal prog rq 422 ''EVENT_REPLAY_UNSUPPORTED'' (''Event '' @ tick i @ '' cannot be replayed'')))
          | Some bd \<Rightarrow> bind (replay_one again prog rq bd i e) (\<lambda>r. ret (Some r)))))"

subsection \<open>Reads and writes\<close>

definition ttl_seconds :: "program \<Rightarrow> rat" where
  "ttl_seconds prog = (case po_idempotency (pg_policies prog) of Some p \<Rightarrow> ip_ttlSeconds p | None \<Rightarrow> 86400)"

definition remember :: "program \<Rightarrow> string option \<Rightarrow> request \<Rightarrow> execution_result \<Rightarrow> unit run" where
  "remember prog key rq r = (case key of
      None \<Rightarrow> ret ()
    | Some k \<Rightarrow> upd (storeIdempotency prog k (idempotencyFingerprint rq) r (ttl_seconds prog)))"

text \<open>The answer remembered under the key, after the check that the key belongs to this request.\<close>

definition recall :: "program \<Rightarrow> string option \<Rightarrow> request \<Rightarrow> execution_result option run" where
  "recall prog key rq = (case key of
      None \<Rightarrow> ret None
    | Some k \<Rightarrow>
        bind (checkIdempotencyFingerprint prog k rq) (\<lambda>_.
        bind (get (cachedIdempotency prog k rq)) (\<lambda>cached.
        ret (map_option replay_cached cached))))"

definition run_query :: "(request \<Rightarrow> execution_result run) \<Rightarrow> program \<Rightarrow> boundary \<Rightarrow> string option \<Rightarrow> request \<Rightarrow> execution_result run" where
  "run_query again prog bd key rq =
     bind (replayEvent again prog rq) (\<lambda>replayed. case replayed of
       Some r \<Rightarrow>
         bind (if 200 \<le> xr_status r \<and> xr_status r < 300 \<and> \<not> rc_dryRun (ctl rq) then remember prog key rq r else ret ()) (\<lambda>_. ret r)
     | None \<Rightarrow> bind (get (executeQuery prog bd rq)) lift)"

definition canCascade :: "program \<Rightarrow> bool" where
  "canCascade prog \<longleftrightarrow> po_reactions (pg_policies prog) \<noteq> []
     \<or> list_ex (\<lambda>b. bd_reactions b \<noteq> []) (pg_boundaries prog)
     \<or> list_ex (\<lambda>b. list_ex (\<lambda>bh. bh_dispatch bh \<noteq> []) (bd_behaviors b)) (pg_boundaries prog)"

definition lock_keys :: "program \<Rightarrow> string option \<Rightarrow> request \<Rightarrow> string \<Rightarrow> string list" where
  "lock_keys prog key rq target = [target]
     @ (case key of Some k \<Rightarrow> [''__idempotency__'' @ k] | None \<Rightarrow> [])
     @ (if canCascade prog \<and> cm_origin (rq_command rq) \<noteq> Secondary then [''__cascade__''] else [])"

definition run_mutation :: "(request \<Rightarrow> execution_result run) \<Rightarrow> program \<Rightarrow> boundary \<Rightarrow> string option \<Rightarrow> request \<Rightarrow> execution_result run" where
  "run_mutation again prog bd key rq =
     bind (resolveIdentity prog bd rq) (\<lambda>target.
     with_locks (lock_keys prog key rq target)
       (bind (recall prog key rq) (\<lambda>cached. case cached of
          Some r \<Rightarrow> ret r
        | None \<Rightarrow>
            bind (executeMutation again prog bd (rq\<lparr>rq_command := (rq_command rq)\<lparr>cm_target := Some target\<rparr>\<rparr>) target) (\<lambda>r.
            bind (if rc_dryRun (ctl rq) then ret () else remember prog key rq r) (\<lambda>_. ret r)))))"

subsection \<open>The whole request\<close>

definition execute_in :: "(request \<Rightarrow> execution_result run) \<Rightarrow> program \<Rightarrow> boundary \<Rightarrow> request \<Rightarrow> execution_result run" where
  "execute_in again prog bd rq0 =
     (let rq = normalized prog rq0
      in bind (lift (validate_request prog rq)) (\<lambda>_.
         bind (get (readState (cm_target (rq_command rq)))) (\<lambda>st.
         let c = match_context prog rq st
         in bind (lift (po_onRequest (pg_policies prog) c)) (\<lambda>_.
            bind (lift (preauthorize prog bd rq c)) (\<lambda>_.
            bind (findFault prog bd rq c) (\<lambda>fault. case fault of
              Some f \<Rightarrow> ret (decorateStandaloneResponse (fault_result f rq) rq (po_securityHeaders (pg_policies prog)))
            | None \<Rightarrow>
                let key = idempotencyKey prog rq
                in bind (recall prog key rq) (\<lambda>cached. case cached of
                     Some r \<Rightarrow> ret r
                   | None \<Rightarrow>
                       if cm_intent (rq_command rq) = Query then run_query again prog bd key rq
                       else run_mutation again prog bd key rq)))))))"

definition executeInternal :: "(request \<Rightarrow> execution_result run) \<Rightarrow> program \<Rightarrow> request \<Rightarrow> execution_result run" where
  "executeInternal again prog rq0 =
     bind (get en_init) (\<lambda>init. bind (lift init) (\<lambda>_.
     bind (handleSessionEndpoint prog rq0) (\<lambda>session. case session of
       Some r \<Rightarrow> ret r
     | None \<Rightarrow>
         bind (get (authenticate prog rq0)) (\<lambda>who. bind (lift who) (\<lambda>authenticated.
         let rq = as_actor rq0 authenticated
         in case byBoundaryName prog (cm_boundary (rq_command rq)) of
              None \<Rightarrow> lift (unrouted prog rq)
            | Some bd \<Rightarrow> execute_in again prog bd rq)))))"

definition executeStep :: "program \<Rightarrow> request \<Rightarrow> execution_result run" where
  "executeStep prog = executeInternal (\<lambda>_. throw (PlainError ''a step runs no sagas'')) prog"

definition executeUnlocked :: "program \<Rightarrow> request \<Rightarrow> execution_result run" where
  "executeUnlocked prog = executeInternal (executeStep prog) prog"

abbreviation BARRIER :: string where "BARRIER \<equiv> ''__runtime_batch__''"

definition execute :: "program \<Rightarrow> request \<Rightarrow> execution_result run" where
  "execute prog rq = with_locks [BARRIER] (executeUnlocked prog rq)"

end
