(* ===== verification/Machine.thy ===== *)
theory Machine
  imports Steps Execute
begin

text \<open>
  The engine as a state machine.  \<open>eng_step\<close> are the only changes a request makes to the event log, the
  states and their owners: the commit of a transaction that ran by \<open>tx_step\<close>, a saga event, and the
  commit of a replayed event; every other step is quiet.  A request stays within these steps however it
  ends, so what the steps keep holds after any sequence of requests.
\<close>

subsection \<open>Steps\<close>

definition quiet :: "engine \<Rightarrow> engine \<Rightarrow> bool" where
  "quiet en en' \<longleftrightarrow> en_events en' = en_events en \<and> en_state en' = en_state en \<and> en_boundaries en' = en_boundaries en"

inductive eng_step :: "program \<Rightarrow> engine \<Rightarrow> engine \<Rightarrow> bool" for prog where
  silent: "quiet en en' \<Longrightarrow> eng_step prog en en'"
| committed: "(tx_step prog (en_events en))\<^sup>*\<^sup>* (begin_transaction (en\<lparr>en_ids := i\<rparr>)) t \<Longrightarrow>
    eng_step prog en (commit t (map (stamp r) (tx_events t)) en)"
| saga: "aggregateId (ev_aggregate e) = Inr (ev_aggregate e) \<Longrightarrow> ev_boundary e = SAGA_BOUNDARY \<Longrightarrow>
    ev_version e = mem_currentSequenceVersion (ev_aggregate e) (en_events en) + 1 \<Longrightarrow>
    eng_step prog en (en\<lparr>en_events := mem_append [e] (en_events en)\<rparr>)"
| replayed: "byBoundaryName prog (ev_boundary e) = Some bd \<Longrightarrow> ev_aggregate e \<in> ev_aggregate ` set (en_events en) \<Longrightarrow>
    nextSequenceVersion (mem_currentSequenceVersion (ev_aggregate e) (en_events en)) [] (ev_aggregate e) = Inr (ev_version e) \<Longrightarrow>
    apply_to prog bd hp e (mem_entries (en_state en)) = Inr states \<Longrightarrow>
    eng_step prog en (commit_replay (stamp r e) states en)"

inductive_cases eng_stepE: "eng_step prog en en'"

abbreviation still :: "program \<Rightarrow> 'a run \<Rightarrow> bool" where
  "still prog m \<equiv> moves (eng_step prog) m"

lemma quiet_refl [simp]: "quiet en en" by (simp add: quiet_def)

lemma quiet_step: "quiet en en' \<Longrightarrow> (eng_step prog)\<^sup>*\<^sup>* en en'"
  by (blast intro: eng_step.silent)

lemma still_upd: "(\<And>en. quiet en (f en)) \<Longrightarrow> still prog (upd f)"
  by (auto intro: moves_upd quiet_step)

lemma still_if [mv]: "(c \<Longrightarrow> moves R m) \<Longrightarrow> (\<not> c \<Longrightarrow> moves R m') \<Longrightarrow> moves R (if c then m else m')"
  by simp

lemma still_run: "(\<And>en. quiet en (snd (m en))) \<Longrightarrow> still prog m"
  by (simp add: moves_def quiet_step)

text \<open>Steps compose with an update that follows them.\<close>

lemma steps_then_quiet: "(eng_step prog)\<^sup>*\<^sup>* en en' \<Longrightarrow> quiet en' en'' \<Longrightarrow> (eng_step prog)\<^sup>*\<^sup>* en en''"
  by (meson eng_step.silent rtranclp.rtrancl_into_rtrancl)

subsection \<open>The parts of a request that are quiet\<close>

lemma draw_id_still [mv]: "still prog (draw_id p hp n)"
  unfolding draw_id_def by (auto intro!: mv still_upd simp: quiet_def split: option.splits)

lemma acquire_still [mv]: "still prog (acquire k)"
  unfolding acquire_def by (auto intro!: mv still_upd simp: quiet_def)

lemma with_locks_still [mv]:
  assumes "still prog m"
  shows "still prog (with_locks keys m)"
proof -
  have "still prog (\<lambda>en. case m en of (Inl Hang, en') \<Rightarrow> (Inl Hang, en') | (r, en') \<Rightarrow> (r, release keys en'))"
    unfolding moves_def
  proof
    fix en
    obtain r en' where m: "m en = (r, en')" by (cases "m en")
    then have "(eng_step prog)\<^sup>*\<^sup>* en en'" by (rule movesD[OF assms])
    moreover from this have "(eng_step prog)\<^sup>*\<^sup>* en (release keys en')"
      by (rule steps_then_quiet) (simp add: quiet_def release_def)
    ultimately show "(eng_step prog)\<^sup>*\<^sup>* en (snd (case m en of (Inl Hang, en') \<Rightarrow> (Inl Hang, en') | (r, en') \<Rightarrow> (r, release keys en')))"
      using m by (auto split: sum.splits exn.splits)
  qed
  then show ?thesis unfolding with_locks_def acquireMany_def by (auto intro: mv)
qed

lemma recall_still [mv]: "still prog (recall p key rq)"
proof -
  have "still prog (checkIdempotencyFingerprint p k rq)" for k
    by (rule still_run) (auto simp: checkIdempotencyFingerprint_def quiet_def Let_def split: option.splits)
  then show ?thesis unfolding recall_def by (auto intro!: mv split: option.splits)
qed

lemma remember_still [mv]: "still prog (remember p key rq r)"
  unfolding remember_def
  by (auto intro!: mv still_upd simp: quiet_def storeIdempotency_def split: option.splits)

lemma find_eff_still [mv]: "(\<And>x. still prog (p x)) \<Longrightarrow> still prog (find_eff p xs)"
  by (induction xs) (auto intro!: mv)

lemma random_draw_still [mv]: "still prog (random_draw p rq)"
  unfolding random_draw_def by (auto intro!: mv still_upd simp: quiet_def split: option.splits)

lemma findFault_still [mv]: "still prog (findFault p bd rq c)"
  unfolding findFault_def fault_applies_def Let_def
  by (auto intro!: mv split: option.splits)

lemma session_still [mv]: "still prog (handleSessionEndpoint p rq)"
proof -
  have "still prog (open_session p rq a)" for a
    by (rule still_run) (auto simp: open_session_def quiet_def Let_def split: sum.splits)
  moreover have "still prog (close_session p rq)"
    by (rule still_run) (simp add: close_session_def quiet_def bind_run split: option.splits)
  ultimately show ?thesis
    unfolding handleSessionEndpoint_def Let_def by (auto intro!: mv split: json.splits)
qed

lemma resolveIdentity_still [mv]: "still prog (resolveIdentity p bd rq)"
  unfolding resolveIdentity_def resolveAggregateId_def Let_def
  by (auto intro!: mv split: option.splits json.splits)

lemma webhooks_still [mv]: "still prog (runWebhooks p events c)"
proof -
  have "still prog (deliver_from accept d k)" for accept d k
    by (induction accept d k rule: deliver_from.induct)
      (unfold deliver_from.simps, (intro mv still_upd; simp add: quiet_def)+)
  then show ?thesis
    unfolding runWebhooks_def deliver_event_def Let_def by (auto intro!: mv split: option.splits)
qed

lemma projections_quiet: "quiet en (runProjections p events c en)"
proof -
  have one: "quiet en en' \<Longrightarrow> quiet en (project_one p c pj e en')" for pj e en'
    by (auto simp: quiet_def project_one_def Let_def)
  have many: "quiet en en' \<Longrightarrow> quiet en (fold (\<lambda>e en. project_one p c pj e en) es en')" for pj es en'
    by (induction es arbitrary: en') (auto intro: one)
  have "quiet en en' \<Longrightarrow> quiet en (fold (\<lambda>pj en. fold (\<lambda>e en. project_one p c pj e en) es en) pjs en')" for pjs es en'
    by (induction pjs arbitrary: en') (auto intro: many)
  then show ?thesis by (simp add: runProjections_def)
qed

lemma projections_still [mv]: "still prog (upd (runProjections p events c))"
  by (rule still_upd) (rule projections_quiet)

subsection \<open>Sagas\<close>

text \<open>The steps of a saga, seen on the engine inside their state.\<close>

definition inside :: "(engine \<Rightarrow> engine \<Rightarrow> bool) \<Rightarrow> saga_state \<Rightarrow> saga_state \<Rightarrow> bool" where
  "inside R s s' \<longleftrightarrow> R\<^sup>*\<^sup>* (sa_engine s) (sa_engine s')"

lemma insideD: "(inside R)\<^sup>*\<^sup>* s s' \<Longrightarrow> R\<^sup>*\<^sup>* (sa_engine s) (sa_engine s')"
  by (induction rule: rtranclp_induct) (auto simp: inside_def intro: rtranclp_trans)

lemma inside_upd: "(\<And>s. sa_engine (f s) = sa_engine s) \<Longrightarrow> moves (inside R) (upd f)"
  by (rule moves_upd) (simp add: inside_def r_into_rtranclp)

lemma inside_engine: "moves R m \<Longrightarrow> moves (inside R) (on_engine m)"
  unfolding moves_def on_engine_def
  by (auto simp: inside_def split: prod.splits intro!: r_into_rtranclp[of "inside R"]) (metis snd_conv)

lemma attempt_moves [mv]: "moves R m \<Longrightarrow> moves R (attempt m)"
  unfolding moves_def attempt_def by (auto split: prod.splits sum.splits exn.splits) (metis snd_conv)+

lemma saga_id_moves [mv]: "moves (inside (eng_step prog)) (saga_id p hp)"
  unfolding saga_id_def by (intro mv inside_upd inside_engine) simp

text \<open>A saga's events belong to one aggregate, named by the command and the saga.\<close>

lemma js_trim_join:
  assumes "js_trim x = x" and "js_trim y = y"
  shows "js_trim (x @ '':'' @ y) = x @ '':'' @ y"
proof -
  have "\<not> is_ws (CHR '':'')" by code_simp
  then have "\<not> is_ws (hd (x @ '':'' @ y))"
    using assms(1) js_trim_hd[of x] by (cases x) auto
  moreover have "\<not> is_ws (last (x @ '':'' @ y))"
    using assms(2) js_trim_last[of y] \<open>\<not> is_ws (CHR '':'')\<close> by (cases "y = []") auto
  ultimately show ?thesis by (intro js_trim_id) auto
qed

definition ids_ok :: "program \<Rightarrow> request \<Rightarrow> bool" where
  "ids_ok prog rq \<longleftrightarrow> js_trim (cm_id (rq_command rq)) = cm_id (rq_command rq)
     \<and> (\<forall>sg \<in> set (po_sagas (pg_policies prog)). js_trim (sg_name sg) = sg_name sg)"

lemma saga_instance:
  assumes "ids_ok prog rq" and "sg \<in> set (po_sagas (pg_policies prog))"
  shows "js_trim (cm_id (rq_command rq) @ '':'' @ sg_name sg) = cm_id (rq_command rq) @ '':'' @ sg_name sg"
  using assms by (intro js_trim_join) (simp_all add: ids_ok_def)

lemma boundary_saga: "boundaryName SAGA_BOUNDARY = Inr b \<Longrightarrow> b = SAGA_BOUNDARY"
proof -
  have "js_trim SAGA_BOUNDARY = SAGA_BOUNDARY" by code_simp
  then show "boundaryName SAGA_BOUNDARY = Inr b \<Longrightarrow> b = SAGA_BOUNDARY"
    by (simp add: boundaryName_def reference_Inr_iff)
qed

lemma sequenceVersion_Suc: "sequenceVersion (of_nat (n + 1)) = Inr v \<Longrightarrow> v = n + 1"
  by (metis Inr_inject sequenceVersion_of_nat)

lemma append_saga_moves [mv]:
  assumes "js_trim a = a"
  shows "moves (inside (eng_step prog)) (appendSagaEvent p a type payload hp)"
proof -
  have step: "moves (inside (eng_step prog)) (bind (get (\<lambda>s. mem_currentSequenceVersion a (en_events (sa_engine s)))) (\<lambda>v.
       bind (lift (parsed (sequenceVersion (of_nat (v + 1))))) (\<lambda>version.
       on_engine (upd (\<lambda>en. en\<lparr>en_events := mem_append [(e version)] (en_events en)\<rparr>)))))"
    if e: "aggregateId a = Inr a" "\<And>version. ev_aggregate (e version) = a" "\<And>version. ev_boundary (e version) = SAGA_BOUNDARY"
      "\<And>version. ev_version (e version) = version" for e
    unfolding moves_def
  proof
    fix s :: saga_state
    let ?v = "mem_currentSequenceVersion a (en_events (sa_engine s))"
    have "eng_step prog (sa_engine s) ((sa_engine s)\<lparr>en_events := mem_append [e (?v + 1)] (en_events (sa_engine s))\<rparr>)"
      by (rule eng_step.saga) (simp_all add: e)
    then show "(inside (eng_step prog))\<^sup>*\<^sup>* s (snd (bind (get (\<lambda>s. mem_currentSequenceVersion a (en_events (sa_engine s)))) (\<lambda>v.
       bind (lift (parsed (sequenceVersion (of_nat (v + 1))))) (\<lambda>version.
       on_engine (upd (\<lambda>en. en\<lparr>en_events := mem_append [(e version)] (en_events en)\<rparr>)))) s))"
      by (auto simp: bind_run on_engine_def inside_def split: sum.splits dest!: sequenceVersion_Suc[of ?v, simplified]
          intro!: r_into_rtranclp)
  qed
  show ?thesis
    unfolding appendSagaEvent_def
    using assms
    by (intro moves_bind[OF saga_id_moves] moves_lift step) (auto simp: aggregateId_Inr_iff dest: boundary_saga)
qed

lemma moves_bind_run:
  "moves R m \<Longrightarrow> (\<And>a s s'. m s = (Inr a, s') \<Longrightarrow> moves R (f a)) \<Longrightarrow> moves R (bind m f)"
  unfolding moves_def bind_def
  by (auto split: prod.splits sum.splits) (metis rtranclp_trans snd_conv)+

lemma saga_request_moves [mv]: "moves (inside (eng_step prog)) (saga_request p rq hp b i op target payload)"
  unfolding saga_request_def by (intro mv)

lemma saga_request_Inr:
  assumes "saga_request prog rq hp b i op target payload s = (Inr rq', s')" and "ids_ok prog rq"
  shows "ids_ok prog rq' \<and> rq_skipSagas rq'"
proof -
  obtain raw cid where "commandId raw = Inr cid" "cm_id (rq_command rq') = cid" "rq_skipSagas rq'"
    using assms(1) unfolding saga_request_def by (auto simp: bind_Inr)
  then show ?thesis using assms(2) by (auto simp: ids_ok_def commandId_def reference_Inr_iff)
qed

definition sound_again :: "program \<Rightarrow> (request \<Rightarrow> execution_result run) \<Rightarrow> bool" where
  "sound_again prog again \<longleftrightarrow> (\<forall>rq. ids_ok prog rq \<longrightarrow> rq_skipSagas rq \<longrightarrow> still prog (again rq))"

lemma again_still:
  assumes "sound_again prog again" and "ids_ok prog rq" and "rq_skipSagas rq"
  shows "moves (inside (eng_step prog)) (on_engine (again rq))"
  using assms by (intro inside_engine) (simp add: sound_again_def)

text \<open>The triple that every part of a saga rests on: sound executor, tidy identifiers, a saga of the program.\<close>

lemma saga_moves:
  assumes "sound_again prog again" and "ids_ok prog rq" and "sg \<in> set (po_sagas (pg_policies prog))"
  shows "moves (inside (eng_step prog)) (run_saga again prog rq source events sg)"
proof -
  let ?a = "cm_id (rq_command rq) @ '':'' @ sg_name sg"
  have a [mv]: "moves (inside (eng_step prog)) (appendSagaEvent prog ?a type payload hp)" for type payload hp
    using saga_instance[OF assms(2,3)] by (rule append_saga_moves)
  have step: "moves (inside (eng_step prog)) (run_step again prog rq source sg ?a trigger events ks)" for trigger ks
    unfolding run_step_def Let_def case_prod_unfold
    apply (rule moves_bind, rule inside_upd, simp)
    apply (rule moves_bind, rule moves_pure)
    apply (rule moves_bind, rule moves_pure)
    apply (rule moves_bind, rule moves_pure)
    apply (rule moves_bind_run[OF saga_request_moves], drule saga_request_Inr[OF _ assms(2)])
    apply (rule moves_bind, rule again_still[OF assms(1)], simp, simp)
    apply (rule moves_bind, rule inside_upd, simp)
    by (rule a)
  have comp: "moves (inside (eng_step prog)) (compensate again prog rq source sg ?a trigger events x)" for trigger x
  proof (cases "ss_compensation (fst x)")
    case None
    then show ?thesis unfolding compensate_def case_prod_unfold by (simp only: None option.case moves_pure)
  next
    case (Some cp)
    then show ?thesis
      unfolding compensate_def case_prod_unfold
      apply (simp only: Some option.case)
      apply (rule moves_bind, rule moves_pure)
      apply (rule moves_bind, rule moves_pure)
      apply (rule moves_bind, rule moves_pure)
      apply (rule moves_bind_run[OF saga_request_moves], drule saga_request_Inr[OF _ assms(2)])
      apply (rule moves_bind, rule attempt_moves, rule moves_bind, rule again_still[OF assms(1)], simp, simp, rule a)
      subgoal for c target payload rq' s s' r by (cases r) (simp_all only: sum.case moves_pure a)
      done
  qed
  have steps: "moves (inside (eng_step prog)) (run_steps again prog rq source sg ?a trigger events)" for trigger
    unfolding run_steps_def
    by (intro moves_bind moves_each moves_pure step a)
  have failed: "moves (inside (eng_step prog)) (saga_failed again prog rq source sg ?a trigger events e)" for trigger e
    unfolding saga_failed_def
    by (intro moves_bind moves_each moves_pure comp a)
  show ?thesis
  proof (cases "saga_trigger sg events rq")
    case None
    then show ?thesis unfolding run_saga_def by (simp only: option.case moves_pure)
  next
    case (Some trigger)
    have rest: "moves (inside (eng_step prog)) (case r of Inr _ \<Rightarrow> ret () | Inl e \<Rightarrow> saga_failed again prog rq source sg ?a trigger events e)" for r
      by (cases r) (simp_all only: sum.case moves_pure failed)
    show ?thesis
      unfolding run_saga_def Some option.case Let_def
      by (intro moves_bind still_if inside_upd moves_pure a attempt_moves steps rest) simp
  qed
qed

lemma sagas_still:
  assumes "sound_again prog again" and "ids_ok prog rq"
  shows "still prog (runSagas again prog events rq source)"
  unfolding moves_def
proof
  fix en
  let ?s = "\<lparr>sa_engine = en, sa_draws = 0, sa_steps = [], sa_prev = None, sa_completed = [], sa_index = -1\<rparr>"
  let ?m = "each (po_sagas (pg_policies prog)) (run_saga again prog rq source events)"
  have "moves (inside (eng_step prog)) ?m"
    by (rule moves_each) (rule saga_moves[OF assms])
  then have "(inside (eng_step prog))\<^sup>*\<^sup>* ?s (snd (?m ?s))"
    unfolding moves_def by (rule spec)
  then have "(eng_step prog)\<^sup>*\<^sup>* en (sa_engine (snd (?m ?s)))"
    by (rule insideD[of _ ?s, simplified])
  then show "(eng_step prog)\<^sup>*\<^sup>* en (snd (runSagas again prog events rq source en))"
    unfolding runSagas_def by (cases "?m ?s") simp
qed

subsection \<open>Commits\<close>

lemma postCommit_still:
  assumes "sound_again prog again" and "ids_ok prog rq"
  shows "still prog (runPostCommit again prog rq events r)"
  unfolding runPostCommit_def Let_def
  by (intro moves_bind moves_pure still_if projections_still webhooks_still sagas_still assms)

lemma finish_commit_still:
  assumes "sound_again prog again" and "ids_ok prog rq"
  shows "still prog (finish_commit again prog rq events r)"
proof -
  have "still prog (case batch of None \<Rightarrow> runPostCommit again prog rq events r
     | Some b \<Rightarrow> upd (\<lambda>en. en\<lparr>en_batch := Some (b\<lparr>bt_postCommits := bt_postCommits b @ [(rq, events, r)]\<rparr>)\<rparr>))" for batch
    by (cases batch) (auto intro: postCommit_still assms still_upd simp: quiet_def)
  then show ?thesis unfolding finish_commit_def by (intro moves_bind moves_pure)
qed

lemma transact_run:
  assumes "transact (\<lambda>evlog store. runCommands prog evlog store rq) en = (r, en')"
  shows "quiet en en'" and "r = Inr (first, t) \<Longrightarrow> (eng_step prog)\<^sup>*\<^sup>* en' (commit t (map (stamp rsp) (tx_events t)) en')"
proof -
  show "quiet en en'"
    using assms by (auto simp: transact_def quiet_def split: prod.splits sum.splits)
  assume "r = Inr (first, t)"
  then have run: "runCommands prog (en_events en) (en_state en) rq (begin_transaction en) = (Inr first, t)"
    and en': "en' = en\<lparr>en_ids := tx_ids t\<rparr>"
    using assms by (auto simp: transact_def split: prod.splits sum.splits)
  have "(tx_step prog (en_events en))\<^sup>*\<^sup>* (begin_transaction en) t"
    by (rule movesD[OF runCommands_moves run])
  then have "(tx_step prog (en_events en'))\<^sup>*\<^sup>* (begin_transaction (en'\<lparr>en_ids := en_ids en\<rparr>)) t"
    by (simp add: en' begin_transaction_def)
  then have "eng_step prog en' (commit t (map (stamp rsp) (tx_events t)) en')" by (rule eng_step.committed)
  then show "(eng_step prog)\<^sup>*\<^sup>* en' (commit t (map (stamp rsp) (tx_events t)) en')" by (rule r_into_rtranclp[of "eng_step prog"])
qed

text \<open>A run that first reaches a state by steps, seen from where it starts.\<close>

lemma moves_from: "R\<^sup>*\<^sup>* s s' \<Longrightarrow> moves R m \<Longrightarrow> R\<^sup>*\<^sup>* s (snd (m s'))"
  by (simp add: moves_def) (meson rtranclp_trans)

lemma commit_run_still:
  assumes "sound_again prog again" and "ids_ok prog rq"
    and commit: "(eng_step prog)\<^sup>*\<^sup>* en (commit t (map (stamp (response_of r)) (tx_events t)) en)"
  shows "(eng_step prog)\<^sup>*\<^sup>* en (snd (commit_run again prog bd rq target r t en))"
proof -
  let ?events = "map (stamp (response_of r)) (tx_events t)"
  have "still prog (bind (finish_commit again prog rq ?events r) (\<lambda>_. ret z))" for z :: execution_result
    by (intro moves_bind moves_pure finish_commit_still assms)
  from moves_from[OF commit this] show ?thesis
    unfolding commit_run_def Let_def by (auto simp: bind_run split: sum.splits)
qed

lemma executeMutation_still:
  assumes "sound_again prog again" and "ids_ok prog rq"
  shows "still prog (executeMutation again prog bd rq target)"
  unfolding moves_def
proof
  fix en
  let ?tx = "transact (\<lambda>evlog store. runCommands prog evlog store rq)"
  let ?R = "(eng_step prog)\<^sup>*\<^sup>*"
  obtain x en1 where tx: "?tx en = (x, en1)" by (cases "?tx en")
  note steps = transact_run[OF tx]
  have to1: "?R en en1" by (rule quiet_step) (rule steps(1))
  have "?R en (snd (commit_run again prog bd rq target r t en1))" if "x = Inr (Some r, t)" for r t
    using to1 commit_run_still[OF assms steps(2)[OF that]] by (rule rtranclp_trans)
  then show "?R en (snd (executeMutation again prog bd rq target en))"
    using tx to1 unfolding executeMutation_def
    by (auto simp: bind_run split: sum.splits option.splits)
qed

subsection \<open>Requests\<close>

lemma replayed_event_run:
  assumes "replayed_event prog rq o' en = (r, en')"
  shows "quiet en en'" and "r = Inr e \<Longrightarrow> ev_boundary e = ev_boundary o' \<and> ev_aggregate e = ev_aggregate o' \<and>
     nextSequenceVersion (mem_currentSequenceVersion (ev_aggregate e) (en_events en')) [] (ev_aggregate e) = Inr (ev_version e)"
proof -
  have draw: "quiet en (snd (draw_id prog hp n en))" for hp n
    by (simp add: draw_id_def quiet_def bind_run split: option.splits)
  show "quiet en en'"
    using assms draw[of "helpersFor prog rq" 0] unfolding replayed_event_def
    by (auto simp: bind_run split: prod.splits sum.splits)
  show "r = Inr e \<Longrightarrow> ev_boundary e = ev_boundary o' \<and> ev_aggregate e = ev_aggregate o' \<and>
     nextSequenceVersion (mem_currentSequenceVersion (ev_aggregate e) (en_events en')) [] (ev_aggregate e) = Inr (ev_version e)"
    using assms unfolding replayed_event_def by (auto simp: bind_Inr)
qed

lemma ids_ok_command:
  "cm_id (rq_command rq') = cm_id (rq_command rq) \<Longrightarrow> ids_ok prog rq' = ids_ok prog rq"
  by (simp add: ids_ok_def)

lemma replay_finish_still:
  assumes "sound_again prog again" and "ids_ok prog rq"
    and commit: "\<And>rsp. (eng_step prog)\<^sup>*\<^sup>* en (commit_replay (stamp rsp e) states en)"
  shows "(eng_step prog)\<^sup>*\<^sup>* en (snd (replay_finish again prog rq bd eid e states en))"
proof -
  have "still prog (bind (finish_commit again prog rq [stamp rsp e] r) (\<lambda>_. ret z))" for rsp r and z :: execution_result
    by (intro moves_bind moves_pure finish_commit_still assms)
  from moves_from[OF commit this] show ?thesis
    unfolding replay_finish_def Let_def by (auto simp: bind_run split: sum.splits prod.splits)
qed

lemma replay_one_still:
  assumes "sound_again prog again" and "ids_ok prog rq"
    and bd: "byBoundaryName prog (ev_boundary o') = Some bd" and o': "o' \<in> set (en_events en)"
  shows "(eng_step prog)\<^sup>*\<^sup>* en (snd (replay_one again prog rq bd eid o' en))"
proof -
  let ?rq = "replay_request rq bd o'"
  have ids: "ids_ok prog ?rq" using assms(2) by (simp add: replay_request_def ids_ok_def)
  obtain x en1 where ev: "replayed_event prog ?rq o' en = (x, en1)" by (cases "replayed_event prog ?rq o' en")
  note run = replayed_event_run[OF ev]
  have to1: "(eng_step prog)\<^sup>*\<^sup>* en en1" by (rule quiet_step) (rule run(1))
  have "(eng_step prog)\<^sup>*\<^sup>* en (snd (replay_finish again prog ?rq bd eid e states en1))"
    if x: "x = Inr e" and states: "apply_to prog bd (helpersFor prog ?rq) e (mem_entries (en_state en1)) = Inr states" for e states
  proof -
    have "eng_step prog en1 (commit_replay (stamp rsp e) states en1)" for rsp
      by (rule eng_step.replayed[OF _ _ _ states]) (use run(1) run(2)[OF x] bd o' in \<open>auto simp: quiet_def\<close>)
    then have "(eng_step prog)\<^sup>*\<^sup>* en1 (commit_replay (stamp rsp e) states en1)" for rsp
      by (rule r_into_rtranclp[of "eng_step prog"])
    then have "(eng_step prog)\<^sup>*\<^sup>* en1 (snd (replay_finish again prog ?rq bd eid e states en1))"
      by (rule replay_finish_still[OF assms(1) ids])
    with to1 show ?thesis by (rule rtranclp_trans)
  qed
  then show ?thesis
    using ev to1 unfolding replay_one_def Let_def by (auto simp: bind_run split: sum.splits)
qed

lemma replayEvent_still:
  assumes "sound_again prog again" and "ids_ok prog rq"
  shows "still prog (replayEvent again prog rq)"
  unfolding moves_def
proof
  fix en
  let ?R = "(eng_step prog)\<^sup>*\<^sup>*"
  have one: "?R en (snd (bind (replay_one again prog rq bd i e) (\<lambda>r. ret (Some r)) en))"
    if "find (\<lambda>e. ev_id e = i) (en_events en) = Some e" and "byBoundaryName prog (ev_boundary e) = Some bd" for i e bd
    using replay_one_still[OF assms that(2), of en i] find_Some_iff[THEN iffD1, OF that(1)]
    by (auto simp: bind_run split: prod.splits sum.splits)
  show "?R en (snd (replayEvent again prog rq en))"
    unfolding replayEvent_def using one by (auto split: option.splits)
qed

lemma run_query_still:
  assumes "sound_again prog again" and "ids_ok prog rq"
  shows "still prog (run_query again prog bd key rq)"
proof -
  have "still prog (case x of
       Some r \<Rightarrow> bind (if 200 \<le> xr_status r \<and> xr_status r < 300 \<and> \<not> rc_dryRun (ctl rq) then remember prog key rq r else ret ()) (\<lambda>_. ret r)
     | None \<Rightarrow> bind (get (executeQuery prog bd rq)) lift)" for x
    by (cases x) (simp_all only: option.case, (intro moves_bind moves_pure still_if remember_still)+)
  then show ?thesis
    unfolding run_query_def by (intro moves_bind replayEvent_still assms)
qed

lemma run_mutation_still:
  assumes "sound_again prog again" and "ids_ok prog rq"
  shows "still prog (run_mutation again prog bd key rq)"
proof -
  have ids: "ids_ok prog (rq\<lparr>rq_command := (rq_command rq)\<lparr>cm_target := t\<rparr>\<rparr>)" for t
    using assms(2) by (simp add: ids_ok_def)
  have "still prog (case cached of Some r \<Rightarrow> ret r
        | None \<Rightarrow>
            bind (executeMutation again prog bd (rq\<lparr>rq_command := (rq_command rq)\<lparr>cm_target := Some t\<rparr>\<rparr>) t) (\<lambda>r.
            bind (if rc_dryRun (ctl rq) then ret () else remember prog key rq r) (\<lambda>_. ret r)))" for cached t
    by (cases cached) (simp_all only: option.case, (intro moves_bind moves_pure still_if remember_still executeMutation_still assms(1) ids)+)
  then show ?thesis
    unfolding run_mutation_def by (intro moves_bind resolveIdentity_still with_locks_still recall_still)
qed

lemma execute_in_still:
  assumes "sound_again prog again" and "ids_ok prog rq"
  shows "still prog (execute_in again prog bd rq)"
proof -
  let ?rq = "normalized prog rq"
  have ids: "ids_ok prog ?rq" using assms(2) by (simp add: ids_ok_def normalized_def Let_def)
  have rest: "still prog (case cached of Some r \<Rightarrow> ret r
     | None \<Rightarrow> if cm_intent (rq_command ?rq) = Query then run_query again prog bd key ?rq else run_mutation again prog bd key ?rq)" for cached key
    by (cases cached) (simp_all only: option.case, (intro moves_pure still_if run_query_still run_mutation_still assms(1) ids)+)
  have "still prog (case fault of Some f \<Rightarrow> ret (z f)
     | None \<Rightarrow> bind (recall prog key ?rq) (\<lambda>cached. case cached of Some r \<Rightarrow> ret r
     | None \<Rightarrow> if cm_intent (rq_command ?rq) = Query then run_query again prog bd key ?rq else run_mutation again prog bd key ?rq))"
    for fault :: "fault option" and z key
    by (cases fault) (simp_all only: option.case, (intro moves_bind moves_pure recall_still rest)+)
  then show ?thesis
    unfolding execute_in_def Let_def by (intro moves_bind moves_pure findFault_still)
qed

lemma executeInternal_still:
  assumes "sound_again prog again" and "ids_ok prog rq"
  shows "still prog (executeInternal again prog rq)"
proof -
  have ids: "ids_ok prog (as_actor rq who)" for who
    using assms(2) by (simp add: ids_ok_def as_actor_def Let_def)
  have routed: "still prog (case byBoundaryName prog b of None \<Rightarrow> lift z | Some bd \<Rightarrow> execute_in again prog bd (as_actor rq who))" for b z who
    by (cases "byBoundaryName prog b") (simp_all only: option.case, (intro moves_pure execute_in_still assms(1) ids)+)
  have "still prog (case session of Some r \<Rightarrow> ret r | None \<Rightarrow>
         bind (get (authenticate prog rq)) (\<lambda>who. bind (lift who) (\<lambda>authenticated.
         case byBoundaryName prog (cm_boundary (rq_command (as_actor rq authenticated))) of
              None \<Rightarrow> lift (unrouted prog (as_actor rq authenticated))
            | Some bd \<Rightarrow> execute_in again prog bd (as_actor rq authenticated))))" for session
    by (cases session) (simp_all only: option.case, (intro moves_bind moves_pure routed)+)
  then show ?thesis
    unfolding executeInternal_def Let_def by (intro moves_bind moves_pure session_still)
qed

lemma executeStep_sound: "sound_again prog (executeStep prog)"
proof -
  have no_steps: "sound_again prog (\<lambda>_. throw e)" for e
    unfolding sound_again_def by (intro allI impI moves_pure)
  show ?thesis
    unfolding executeStep_def sound_again_def[of prog "executeInternal (\<lambda>_. throw (PlainError ''a step runs no sagas'')) prog"]
    by (intro allI impI executeInternal_still no_steps)
qed

theorem execute_still:
  assumes "ids_ok prog rq"
  shows "still prog (execute prog rq)" and "still prog (executeUnlocked prog rq)"
proof -
  show "still prog (executeUnlocked prog rq)"
    unfolding executeUnlocked_def by (rule executeInternal_still[OF executeStep_sound assms])
  then show "still prog (execute prog rq)" unfolding execute_def by (rule with_locks_still)
qed

text \<open>Requests served one after the other, as the barrier makes them run.\<close>

definition served :: "program \<Rightarrow> request list \<Rightarrow> engine \<Rightarrow> engine" where
  "served prog rqs en = fold (\<lambda>rq en. snd (execute prog rq en)) rqs en"

lemma served_steps:
  "\<forall>rq \<in> set rqs. ids_ok prog rq \<Longrightarrow> (eng_step prog)\<^sup>*\<^sup>* en (served prog rqs en)"
proof (induction rqs arbitrary: en)
  case (Cons rq rqs)
  have "(eng_step prog)\<^sup>*\<^sup>* en (snd (execute prog rq en))"
    using execute_still(1)[of prog rq] Cons.prems by (simp add: moves_def)
  also have "(eng_step prog)\<^sup>*\<^sup>* (snd (execute prog rq en)) (served prog rqs (snd (execute prog rq en)))"
    using Cons by simp
  finally show ?case by (simp add: served_def)
qed (simp add: served_def)

end
