(* ===== verification/Lifecycle.thy ===== *)
theory Lifecycle
  imports Execute
begin

text \<open>
  The engine as a whole (\<open>core/engine.ts\<close>): building it from its stores and seeds, checkpoints, batches,
  reset, replacing the program, and the lifecycle hooks.

  \<open>reset\<close> also resets the clock, which the model is given as a constant: a reset returns to a program
  with another clock.  Seeds carry a timestamp that is text.
\<close>

subsection \<open>Checkpoints\<close>

record checkpoint =
  cp_state :: "(string \<times> json_object) list"
  cp_events :: "domain_event list"
  cp_projections :: "(string, state_map) omap"

definition snapshot :: "engine \<Rightarrow> checkpoint" where
  "snapshot en = \<lparr>cp_state = mem_entries (en_state en), cp_events = mem_events None None (en_events en),
     cp_projections = en_projections en\<rparr>"

text \<open>The boundary of an aggregate is that of its first event.\<close>

definition own_events :: "domain_event list \<Rightarrow> (string, string) omap \<Rightarrow> (string, string) omap" where
  "own_events events owners = fold (\<lambda>e m. if omap_has m (ev_aggregate e) then m
     else omap_set (ev_aggregate e) (ev_boundary e) m) events owners"

definition set_all :: "(string \<times> json_object) list \<Rightarrow> state_map \<Rightarrow> state_map" where
  "set_all states store = fold (\<lambda>(i, v). mem_set i v) states store"

definition restore :: "checkpoint \<Rightarrow> engine \<Rightarrow> engine" where
  "restore c en = en\<lparr>en_events := mem_append (cp_events c) (mem_events_clear (en_events en)),
     en_state := set_all (cp_state c) (mem_state_clear (en_state en)),
     en_projections := cp_projections c,
     en_boundaries := own_events (cp_events c) []\<rparr>"

subsection \<open>Initialization\<close>

definition isRuntimeSeed :: "json_object \<Rightarrow> bool" where
  "isRuntimeSeed v \<longleftrightarrow> is_json_object (JObj v) \<and> is_json_object (obj_get v ''state'')
     \<and> list_all (\<lambda>(k, _). k \<in> {''state'', ''id'', ''eventType'', ''timestamp''}) v"

definition seedState :: "json_object \<Rightarrow> json_object" where
  "seedState v = (if isRuntimeSeed v then asObject (obj_get v ''state'') else v)"

definition not_text :: exn where
  "not_text = CallbackError (named_error ''TypeError'' ''value.trim is not a function'' None)"

definition seedId :: "json_object \<Rightarrow> string \<Rightarrow> nat \<Rightarrow> exn + string" where
  "seedId v name k =
     (let default = ''baseline-'' @ name @ ''-'' @ dec k
      in case obj_get v ''id'' of
          JStr s \<Rightarrow> Inr s
        | JUndef \<Rightarrow> Inr default
        | _ \<Rightarrow> if isRuntimeSeed v then Inl not_text else Inr default)"

definition seedType :: "json_object \<Rightarrow> exn + string" where
  "seedType v = (if isRuntimeSeed v
     then (case obj_get v ''eventType'' of JStr s \<Rightarrow> Inr s | JUndef \<Rightarrow> Inr BASELINE_CREATED | _ \<Rightarrow> Inl not_text)
     else Inr BASELINE_CREATED)"

definition seedTime :: "json_object \<Rightarrow> string" where
  "seedTime v = (if isRuntimeSeed v
     then (case obj_get v ''timestamp'' of JUndef \<Rightarrow> ''1970-01-01T00:00:00.000Z'' | t \<Rightarrow> js_String t)
     else ''1970-01-01T00:00:00.000Z'')"

definition baseline_event :: "boundary \<Rightarrow> nat \<times> json_object \<Rightarrow> exn + domain_event" where
  "baseline_event bd = (\<lambda>(k, v).
     rbind (seedId v (bd_name bd) k) (\<lambda>i.
     rbind (parsed (eventId (''baseline-'' @ bd_name bd @ ''-'' @ dec k @ ''-event''))) (\<lambda>eid.
     rbind (rbind (seedType v) (\<lambda>t. parsed (EventType_parse t))) (\<lambda>etype.
     rbind (parsed (boundaryName (bd_name bd))) (\<lambda>bname.
     rbind (parsed (aggregateId i)) (\<lambda>aid.
     Inr \<lparr>ev_id = eid, ev_boundary = bname, ev_aggregate = aid, ev_type = etype, ev_payload = seedState v,
       ev_timestamp = seedTime v, ev_version = 1, ev_causedBy = None, ev_intent = None, ev_request = None,
       ev_response = None\<rparr>))))))"

definition baseline :: "program \<Rightarrow> exn + domain_event list" where
  "baseline prog = rbind (r_map (\<lambda>bd. r_map (baseline_event bd) (enumerate 0 (bd_initialization bd))) (pg_boundaries prog))
     (\<lambda>ess. Inr (concat ess))"

definition internal_command :: "string \<Rightarrow> boundary \<Rightarrow> intent \<Rightarrow> origin \<Rightarrow> exn + command" where
  "internal_command name bd i org = rbind (parsed (commandId name)) (\<lambda>cid.
     Inr \<lparr>cm_id = cid, cm_boundary = bd_name bd, cm_intent = i, cm_target = None, cm_payload = [], cm_query = [],
       cm_method = ''POST'', cm_path = bd_contractPath bd, cm_operation = None, cm_version = None, cm_origin = org,
       cm_depth = 0, cm_actor = None\<rparr>)"

text \<open>The engine's own helpers, without a request.\<close>

definition engine_helpers :: "program \<Rightarrow> helpers" where
  "engine_helpers prog = \<lparr>hp_now = dp_nowAt (pg_deps prog) (dp_offsetMs (pg_deps prog)), hp_seed = None\<rparr>"

definition projection_source :: "program \<Rightarrow> command \<Rightarrow> domain_event list \<Rightarrow> ctx" where
  "projection_source prog cm history = (match_context prog (requestForCommand cm) None)
     \<lparr>cx_payload := [], cx_helpers := engine_helpers prog, cx_committed := history\<rparr>"

definition saga_event :: "domain_event \<Rightarrow> bool" where
  "saga_event e \<longleftrightarrow> ev_boundary e = SAGA_BOUNDARY"

definition declared :: "program \<Rightarrow> domain_event \<Rightarrow> bool" where
  "declared prog e \<longleftrightarrow> byBoundaryName prog (ev_boundary e) \<noteq> None"

definition history_boundary :: "program \<Rightarrow> domain_event list \<Rightarrow> boundary option" where
  "history_boundary prog history = byBoundaryName prog (case find (declared prog) history of
      Some e \<Rightarrow> ev_boundary e
    | None \<Rightarrow> (case pg_boundaries prog of b # _ \<Rightarrow> bd_name b | [] \<Rightarrow> []))"

definition project_history :: "program \<Rightarrow> domain_event list \<Rightarrow> unit run" where
  "project_history prog history = (case history_boundary prog history of
      None \<Rightarrow> ret ()
    | Some bd \<Rightarrow> bind (lift (internal_command ''baseline'' bd Creation Inbound)) (\<lambda>cm.
        upd (runProjections prog (filter (\<lambda>e. \<not> saga_event e) history) (projection_source prog cm history))))"

definition initialize :: "program \<Rightarrow> unit run" where
  "initialize prog =
     bind (get en_events) (\<lambda>existing.
     bind (upd (\<lambda>en. en\<lparr>en_boundaries := own_events existing (en_boundaries en)\<rparr>)) (\<lambda>_.
     bind (lift (if existing = [] then baseline prog else Inr [])) (\<lambda>seeds.
     bind (upd (\<lambda>en. en\<lparr>en_events := mem_append seeds (en_events en)\<rparr>)) (\<lambda>_.
     let history = (if existing \<noteq> [] then existing else seeds)
     in bind (get en_state) (\<lambda>store.
        bind (if history \<noteq> [] \<and> mem_entries store = []
              then bind (lift (replay prog history [])) (\<lambda>states. upd (\<lambda>en. en\<lparr>en_state := set_all states (en_state en)\<rparr>))
              else ret ()) (\<lambda>_.
        bind (upd (\<lambda>en. en\<lparr>en_boundaries := own_events history (en_boundaries en)\<rparr>)) (\<lambda>_.
        if history \<noteq> [] then project_history prog history else ret ())))))))"

text \<open>\<open>initializationPromise = initialize()\<close>, then awaited.\<close>

definition settle_init :: "program \<Rightarrow> unit run" where
  "settle_init prog = (\<lambda>en. case initialize prog en of (r, en') \<Rightarrow> (r, en'\<lparr>en_init := r\<rparr>))"

text \<open>The engine over the stores it is given.\<close>

definition createRuntimeEngine :: "program \<Rightarrow> domain_event list \<Rightarrow> state_map \<Rightarrow> engine" where
  "createRuntimeEngine prog events states = snd (settle_init prog (empty_engine\<lparr>en_events := events, en_state := states\<rparr>))"

definition start :: "program \<Rightarrow> unit run" where
  "start prog = bind (get en_init) (\<lambda>init. bind (lift init) (\<lambda>_.
     bind (lift (po_onBoot (pg_policies prog))) (\<lambda>_.
     bind (lift (po_onValidation (pg_policies prog))) (\<lambda>_.
     lift (po_onInitialization (pg_policies prog))))))"

definition shutdown :: "program \<Rightarrow> unit run" where
  "shutdown prog = lift (po_onShutdown (pg_policies prog))"

subsection \<open>Reset\<close>

definition wipe :: "program \<Rightarrow> engine \<Rightarrow> engine" where
  "wipe prog en = en\<lparr>en_events := mem_events_clear (en_events en), en_state := mem_state_clear (en_state en),
     en_idempotency := mem_idem_clear (en_idempotency en), en_fingerprints := [], en_faults := fault_clear (en_faults en),
     en_sessions := (if dp_sessions (pg_deps prog) then session_reset (en_sessions en) else en_sessions en),
     en_projections := [], en_boundaries := []\<rparr>"

definition reset_engine :: "program \<Rightarrow> unit run" where
  "reset_engine prog =
     bind (upd (wipe prog)) (\<lambda>_.
     bind (each (po_projections (pg_policies prog)) (\<lambda>pj. lift (pj_reset pj))) (\<lambda>_.
     bind (lift (po_onReset (pg_policies prog))) (\<lambda>_.
     settle_init prog)))"

subsection \<open>Batches\<close>

definition empty_batch :: active_batch where
  "empty_batch = \<lparr>bt_postCommits = [], bt_idempotency = []\<rparr>"

definition validate_batch :: "program \<Rightarrow> request list \<Rightarrow> json option \<Rightarrow> exn + unit" where
  "validate_batch prog rqs body = (case (rqs, body) of
      (rq # _, Some b) \<Rightarrow> (case cm_operation (rq_command rq) of
          Some op \<Rightarrow> rbind (parsed (OperationId_parse op)) (\<lambda>oid.
            ct_validateBatchRequest (dp_contract (pg_deps prog)) oid b rq)
        | None \<Rightarrow> Inr ())
    | _ \<Rightarrow> Inr ())"

fun run_items :: "program \<Rightarrow> request list \<Rightarrow> execution_result list run" where
  "run_items prog [] = ret []"
| "run_items prog (rq # rqs) = bind (executeUnlocked prog rq) (\<lambda>r. bind (run_items prog rqs) (\<lambda>rs. ret (r # rs)))"

text \<open>What follows the last item: the batch closes, its keys are remembered and its effects released.\<close>

definition finish_batch :: "program \<Rightarrow> active_batch option \<Rightarrow> unit run" where
  "finish_batch prog batch =
     bind (upd (\<lambda>en. en\<lparr>en_batch := None\<rparr>)) (\<lambda>_.
     bind (upd (flushBatchIdempotency prog batch)) (\<lambda>_.
     case batch of
       None \<Rightarrow> ret ()
     | Some b \<Rightarrow> each (bt_postCommits b) (\<lambda>(rq, events, r). runPostCommit (executeStep prog) prog rq events r)))"

definition batch_items :: "program \<Rightarrow> request list \<Rightarrow> json option \<Rightarrow> execution_result list run" where
  "batch_items prog rqs body =
     bind (lift (validate_batch prog rqs body)) (\<lambda>_.
     bind (run_items prog rqs) (\<lambda>results.
     bind (get en_batch) (\<lambda>batch.
     bind (finish_batch prog batch) (\<lambda>_. ret results))))"

definition batch_body :: "program \<Rightarrow> request list \<Rightarrow> bool \<Rightarrow> json option \<Rightarrow> execution_result list run" where
  "batch_body prog rqs transactional body = (\<lambda>en.
     case batch_items prog rqs body (en\<lparr>en_batch := (if transactional then Some empty_batch else None)\<rparr>) of
       (Inl Hang, en') \<Rightarrow> (Inl Hang, en')
     | (Inl e, en') \<Rightarrow> (Inl e, (if transactional then restore (snapshot en) (en'\<lparr>en_batch := None\<rparr>) else en'\<lparr>en_batch := None\<rparr>))
     | (Inr rs, en') \<Rightarrow> (Inr rs, en'\<lparr>en_batch := None\<rparr>))"

definition executeBatch :: "program \<Rightarrow> request list \<Rightarrow> bool \<Rightarrow> json option \<Rightarrow> execution_result list run" where
  "executeBatch prog rqs transactional body =
     bind (get en_batch) (\<lambda>nested.
     bind (throw_if (nested \<noteq> None) (PlainError ''Nested runtime batches are not supported'')) (\<lambda>_.
     with_locks [BARRIER] (batch_body prog rqs transactional body)))"

subsection \<open>Replacing the program\<close>

definition unknown_event :: "domain_event \<Rightarrow> exn" where
  "unknown_event e = PlainError (''Cannot reload runtime: event '' @ ev_id e @ '' refers to unknown boundary \"'' @ ev_boundary e @ ''\"'')"

definition check_events :: "program \<Rightarrow> domain_event list \<Rightarrow> exn + unit" where
  "check_events prog es = (case find (\<lambda>e. \<not> saga_event e \<and> \<not> declared prog e) es of
      Some e \<Rightarrow> Inl (unknown_event e) | None \<Rightarrow> Inr ())"

definition reload :: "program \<Rightarrow> checkpoint \<Rightarrow> unit run" where
  "reload prog c =
     (let own = filter (\<lambda>e. \<not> saga_event e) (cp_events c)
      in bind (lift (check_events prog (cp_events c))) (\<lambda>_.
         bind (lift (replay prog own [])) (\<lambda>states.
         bind (upd (\<lambda>en. en\<lparr>en_state := set_all states (mem_state_clear (en_state en)), en_projections := [],
             en_boundaries := own_events own []\<rparr>)) (\<lambda>_.
         bind (case own of
             [] \<Rightarrow> ret ()
           | e # _ \<Rightarrow> (case byBoundaryName prog (ev_boundary e) of
               None \<Rightarrow> ret ()
             | Some bd \<Rightarrow> bind (lift (internal_command ''runtime-reload'' bd Mutation Secondary)) (\<lambda>cm.
                 upd (runProjections prog own (projection_source prog cm (cp_events c)))))) (\<lambda>_.
         bind (lift (po_onValidation (pg_policies prog))) (\<lambda>_.
         upd (\<lambda>en. en\<lparr>en_init := Inr ()\<rparr>)))))))"

text \<open>
  The program is part of the state.  Keeping the events, a failure puts the old program and the
  checkpoint back; discarding them, the new program stays whatever happens.
\<close>

definition replace_inside :: "program \<Rightarrow> program \<Rightarrow> bool \<Rightarrow> engine \<Rightarrow> (exn + unit) \<times> program \<times> engine" where
  "replace_inside prog next preserveEvents en =
     (if \<not> preserveEvents
      then (case bind (upd (wipe next)) (\<lambda>_. bind (lift (po_onReset (pg_policies next))) (\<lambda>_. settle_init next)) en of
              (r, en') \<Rightarrow> (r, next, en'))
      else (case reload next (snapshot en) en of
              (Inr _, en') \<Rightarrow> (Inr (), next, en')
            | (Inl e, en') \<Rightarrow> (Inl e, prog, restore (snapshot en) en')))"

definition replaceProgram :: "program \<Rightarrow> program \<Rightarrow> bool \<Rightarrow> engine \<Rightarrow> (exn + unit) \<times> program \<times> engine" where
  "replaceProgram prog next preserveEvents en = (case en_init en of
      Inl e \<Rightarrow> (Inl e, prog, en)
    | Inr _ \<Rightarrow> (case acquire BARRIER en of
          (Inl e, en') \<Rightarrow> (Inl e, prog, en')
        | (Inr _, en') \<Rightarrow> (case replace_inside prog next preserveEvents en' of
              (r, prog', en'') \<Rightarrow> (r, prog', release [BARRIER] en''))))"

end
