(* ===== verification/Ledger.thy ===== *)
theory Ledger
  imports Machine Lifecycle JsonLaws
begin

text \<open>
  What the event log guarantees.  By induction on the steps of \<open>Machine\<close>: the versions of every
  aggregate count from one without a gap, the log only grows, and the stored states are what the log
  adds up to.  The last is a refinement: \<open>rebuild\<close> folds the log into states, and the engine's store,
  however a command got there, is always that fold; so an engine started from the log alone reaches
  the same states.
\<close>

subsection \<open>Sequence versions\<close>

definition of_aggregate :: "string \<Rightarrow> domain_event list \<Rightarrow> domain_event list" where
  "of_aggregate a es = filter (\<lambda>e. ev_aggregate e = a) es"

definition versions_ok :: "domain_event list \<Rightarrow> bool" where
  "versions_ok es \<longleftrightarrow> (\<forall>e \<in> set es. aggregateId (ev_aggregate e) = Inr (ev_aggregate e))
     \<and> (\<forall>a. map ev_version (of_aggregate a es) = [1..<Suc (length (of_aggregate a es))])"

lemma of_aggregate_append [simp]: "of_aggregate a (es @ es') = of_aggregate a es @ of_aggregate a es'"
  by (simp add: of_aggregate_def)

lemma versions_ok_Nil [simp]: "versions_ok []"
  by (simp add: versions_ok_def of_aggregate_def)

lemma versions_ok_stamp [simp]: "versions_ok (es @ map (stamp r) es') = versions_ok (es @ es')"
proof -
  have "map ev_version (of_aggregate a (map (stamp r) es')) = map ev_version (of_aggregate a es')"
    "length (of_aggregate a (map (stamp r) es')) = length (of_aggregate a es')" for a
    by (simp_all add: of_aggregate_def filter_map comp_def stamp_def)
  moreover have "(\<forall>e \<in> set (map (stamp r) es'). aggregateId (ev_aggregate e) = Inr (ev_aggregate e))
      \<longleftrightarrow> (\<forall>e \<in> set es'. aggregateId (ev_aggregate e) = Inr (ev_aggregate e))"
    by (simp add: stamp_def)
  ultimately show ?thesis by (simp add: versions_ok_def ball_Un del: upt_Suc)
qed

lemma current_version:
  assumes "versions_ok es"
  shows "mem_currentSequenceVersion a es = length (of_aggregate a es)"
proof -
  let ?n = "length (of_aggregate a es)"
  have "ev_version ` set (mem_events None (Some a) es) = set (map ev_version (of_aggregate a es))"
    by (auto simp: mem_events_def ev_selected_def of_aggregate_def)
  also have "map ev_version (of_aggregate a es) = [1..<Suc ?n]" using assms by (simp only: versions_ok_def)
  also have "set [1..<Suc ?n] = {1..?n}" by (simp only: set_upt atLeastLessThanSuc_atLeastAtMost)
  finally have "mem_currentSequenceVersion a es = Max (insert 0 {1..?n})"
    unfolding mem_ev.current_eq[of a es] by (rule arg_cong)
  also have "\<dots> = ?n" by (rule Max_eqI) (auto simp: Suc_le_eq)
  finally show ?thesis .
qed

lemma versions_ok_append:
  assumes "versions_ok es" and "aggregateId (ev_aggregate e) = Inr (ev_aggregate e)"
    and "ev_version e = Suc (length (of_aggregate (ev_aggregate e) es))"
  shows "versions_ok (es @ [e])"
  using assms unfolding versions_ok_def by (auto simp: of_aggregate_def)

text \<open>The next version the code computes is the next one of the log with the pending events.\<close>

lemma next_version:
  assumes ok: "versions_ok (evlog @ pend)" and "aggregateId a = Inr a"
    and "nextSequenceVersion (mem_currentSequenceVersion a evlog) pend a = Inr v"
  shows "v = Suc (length (of_aggregate a (evlog @ pend)))"
proof -
  have log: "versions_ok evlog"
  proof -
    have "map ev_version (of_aggregate b evlog) = [1..<Suc (length (of_aggregate b evlog))]" for b
    proof -
      let ?n = "length (of_aggregate b evlog)"
      have "map ev_version (of_aggregate b evlog) = take ?n (map ev_version (of_aggregate b (evlog @ pend)))" by simp
      also have "\<dots> = take ?n [1..<Suc (length (of_aggregate b (evlog @ pend)))]"
        using ok by (simp only: versions_ok_def)
      also have "\<dots> = [1..<Suc ?n]" by (simp add: take_upt del: upt_Suc)
      finally show ?thesis .
    qed
    then show ?thesis using ok by (simp add: versions_ok_def)
  qed
  have "filter (\<lambda>e. js_trim (ev_aggregate e) = js_trim a) pend = of_aggregate a pend"
    unfolding of_aggregate_def using ok assms(2)
    by (intro filter_cong) (auto simp: versions_ok_def aggregateId_Inr_iff)
  then show ?thesis
    using nextSequenceVersion_Inr[OF assms(3)] current_version[OF log, of a] by simp
qed

lemma tx_versions:
  assumes "(tx_step prog evlog)\<^sup>*\<^sup>* t t'" and "versions_ok (evlog @ tx_events t)"
  shows "versions_ok (evlog @ tx_events t')"
  using assms
proof (induction rule: rtranclp_induct)
  case (step t1 t2)
  then have ok: "versions_ok (evlog @ tx_events t1)" by simp
  from step(2) show ?case
  proof (cases rule: tx_step.cases)
    case (event bd e hp states')
    then have "versions_ok ((evlog @ tx_events t1) @ [e])"
      by (intro versions_ok_append[OF ok] next_version[OF ok]) (simp_all add: event_fits_def)
    with event show ?thesis by simp
  qed (use ok in \<open>simp_all add: enlist_def\<close>)
qed simp

lemma eng_versions:
  assumes "(eng_step prog)\<^sup>*\<^sup>* en en'" and "versions_ok (en_events en)"
  shows "versions_ok (en_events en')"
  using assms
proof (induction rule: rtranclp_induct)
  case (step en1 en2)
  then have ok: "versions_ok (en_events en1)" by simp
  from step(2) show ?case
  proof (cases rule: eng_step.cases)
    case silent
    then show ?thesis using ok by (simp add: quiet_def)
  next
    case (committed i t r)
    have "versions_ok (en_events en1 @ tx_events t)"
      by (rule tx_versions[OF committed(2)]) (simp add: begin_transaction_def ok)
    with committed show ?thesis by (simp add: commit_def mem_append_def)
  next
    case (saga e)
    then have "versions_ok (en_events en1 @ [e])"
      by (intro versions_ok_append[OF ok]) (simp_all add: current_version[OF ok])
    with saga show ?thesis by (simp add: mem_append_def)
  next
    case (replayed e bd hp states r)
    have norm: "aggregateId (ev_aggregate e) = Inr (ev_aggregate e)"
      using replayed(3) ok by (force simp: versions_ok_def)
    have "versions_ok (en_events en1 @ [e])"
      using next_version[of "en_events en1" "[]", OF _ norm] ok replayed(4)
      by (intro versions_ok_append[OF ok norm]) simp
    with replayed versions_ok_stamp[of "en_events en1" r "[e]"] show ?thesis
      by (simp add: commit_replay_def mem_append_def)
  qed
qed

subsection \<open>The log only grows\<close>

lemma eng_grows: "(eng_step prog)\<^sup>*\<^sup>* en en' \<Longrightarrow> \<exists>es. en_events en' = en_events en @ es"
proof (induction rule: rtranclp_induct)
  case (step en1 en2)
  from step(2) have "\<exists>es. en_events en2 = en_events en1 @ es"
    by (cases rule: eng_step.cases) (auto simp: quiet_def commit_def commit_replay_def mem_append_def)
  with step(3) show ?case by auto
qed simp

subsection \<open>The states are the fold of the log\<close>

text \<open>
  The abstract state of an engine: the log folded by the boundary that owns each event, with the
  engine's own helpers.  Events of no boundary, as those of sagas, are passed over.
\<close>

definition rebuild_one :: "program \<Rightarrow> domain_event \<Rightarrow> state_map \<Rightarrow> exn + state_map" where
  "rebuild_one prog e st = (case byBoundaryName prog (ev_boundary e) of
      None \<Rightarrow> Inr st
    | Some bd \<Rightarrow> apply_to prog bd (engine_helpers prog) e st)"

definition rebuild :: "program \<Rightarrow> domain_event list \<Rightarrow> state_map \<Rightarrow> exn + state_map" where
  "rebuild prog es st = rfold (rebuild_one prog) es st"

text \<open>
  What a program must offer for its log to determine its states: boundary names that are trimmed and none of them the name saga
  progress is logged under; reducers and computed fields that depend on the event and the state alone (not on the
  time of the run, its seed or the response recorded later); and states that are printable, in which every number is
  an integer of at most 53 bits, no value is undefined and properties are in the order JavaScript keeps them, so that
  their JSON text determines them.
\<close>

definition deterministic :: "program \<Rightarrow> bool" where
  "deterministic prog \<longleftrightarrow> byBoundaryName prog SAGA_BOUNDARY = None
     \<and> (\<forall>bd \<in> set (pg_boundaries prog). boundaryName (bd_name bd) = Inr (bd_name bd)
         \<and> (\<forall>hp hp' e r st s. next_state prog bd hp e st = Inr s \<longrightarrow>
               next_state prog bd hp' (e\<lparr>ev_response := r\<rparr>) st = Inr s \<and> printable (JObj s)))"

definition same_states :: "state_map \<Rightarrow> state_map \<Rightarrow> bool" where
  "same_states S T \<longleftrightarrow> (\<forall>a. omap_get S a = omap_get T a)"

definition store_ok :: "state_map \<Rightarrow> bool" where
  "store_ok S \<longleftrightarrow> distinct (map fst S) \<and> (\<forall>a s. omap_get S a = Some s \<longrightarrow> printable (JObj s))"

definition projected :: "program \<Rightarrow> domain_event list \<Rightarrow> state_map \<Rightarrow> bool" where
  "projected prog es S \<longleftrightarrow> store_ok S \<and> (\<exists>T. rebuild prog es [] = Inr T \<and> same_states T S)"

lemma same_refl [simp]: "same_states S S" by (simp add: same_states_def)

lemma apply_to_same:
  assumes "apply_to prog bd hp e S = Inr S'" and "same_states T S"
  obtains T' where "apply_to prog bd hp e T = Inr T'" and "same_states T' S'"
proof -
  have "state_of T (ev_aggregate e) = state_of S (ev_aggregate e)"
    using assms(2) by (simp add: same_states_def state_of_def)
  then obtain s where "next_state prog bd hp e (state_of T (ev_aggregate e)) = Inr s" "S' = omap_set (ev_aggregate e) s S"
    using assms(1) by (auto simp: apply_to_def rbind_Inr_iff)
  then show ?thesis using that[of "omap_set (ev_aggregate e) s T"] assms(2)
    by (simp add: apply_to_def same_states_def)
qed

lemma deterministicD:
  assumes "deterministic prog" and "bd \<in> set (pg_boundaries prog)"
  shows "next_state prog bd hp e st = Inr s \<Longrightarrow> next_state prog bd hp' (e\<lparr>ev_response := r\<rparr>) st = Inr s"
    and "next_state prog bd hp e st = Inr s \<Longrightarrow> printable (JObj s)"
    and "boundaryName (bd_name bd) = Inr (bd_name bd)" and "byBoundaryName prog SAGA_BOUNDARY = None"
  using assms unfolding deterministic_def by blast+

lemma apply_to_response:
  assumes "deterministic prog" and "bd \<in> set (pg_boundaries prog)" and "apply_to prog bd hp e S = Inr S'"
  shows "apply_to prog bd hp' (e\<lparr>ev_response := r\<rparr>) S = Inr S'"
  using assms(3) deterministicD(1)[OF assms(1,2), of hp e _ _ hp' r]
  by (auto simp: apply_to_def rbind_Inr_iff)

lemma apply_to_store_ok:
  assumes "deterministic prog" and "bd \<in> set (pg_boundaries prog)" and "apply_to prog bd hp e S = Inr S'" and "store_ok S"
  shows "store_ok S'"
  using assms(3,4) deterministicD(2)[OF assms(1,2)] unfolding apply_to_def store_ok_def
  by (auto simp: rbind_Inr_iff distinct_update simp del: printable.simps map_of_eq_Some_iff split: if_splits)

lemma rebuild_append: "rebuild prog (es @ es') S = rbind (rebuild prog es S) (rebuild prog es')"
  by (simp add: rebuild_def[abs_def] rfold_append)

lemma rebuild_simps [simp]: "rebuild prog [] S = Inr S" "rebuild prog (e # es) S = rbind (rebuild_one prog e S) (rebuild prog es)"
  by (simp_all add: rebuild_def[abs_def])

lemma rebuild_stamp:
  assumes "deterministic prog"
  shows "rebuild prog es S = Inr T \<Longrightarrow> rebuild prog (map (stamp r) es) S = Inr T"
proof (induction es arbitrary: S)
  case (Cons e es)
  then obtain S' where S': "rebuild_one prog e S = Inr S'" "rebuild prog es S' = Inr T"
    by (auto simp: rbind_Inr_iff)
  have "rebuild_one prog (stamp r e) S = Inr S'"
    using S'(1) apply_to_response[OF assms] byBoundaryName_name[of prog "ev_boundary e"]
    by (auto simp: rebuild_one_def stamp_def split: option.splits)
  with Cons.IH[OF S'(2)] show ?case by simp
qed simp

text \<open>One more event, of a boundary of the program.\<close>

lemma projected_event:
  assumes det: "deterministic prog" and bd: "byBoundaryName prog (ev_boundary e) = Some bd"
    and ap: "apply_to prog bd hp e S = Inr S'" and ok: "projected prog es S"
  shows "projected prog (es @ [e]) S'"
proof -
  have mem: "bd \<in> set (pg_boundaries prog)" using byBoundaryName_name[OF bd] by simp
  obtain T where T: "rebuild prog es [] = Inr T" "same_states T S" using ok by (auto simp: projected_def)
  have "apply_to prog bd (engine_helpers prog) e S = Inr S'"
    using apply_to_response[OF det mem ap, of _ "ev_response e"] by simp
  then obtain T' where "apply_to prog bd (engine_helpers prog) e T = Inr T'" "same_states T' S'"
    using apply_to_same T(2) by blast
  with T bd have "rebuild prog (es @ [e]) [] = Inr T'"
    by (simp add: rebuild_append rebuild_one_def)
  with \<open>same_states T' S'\<close> apply_to_store_ok[OF det mem ap] ok show ?thesis by (auto simp: projected_def)
qed

lemma projected_saga:
  assumes "deterministic prog" and "ev_boundary e = SAGA_BOUNDARY" and "projected prog es S"
  shows "projected prog (es @ [e]) S"
  using assms by (auto simp: projected_def deterministic_def rebuild_append rebuild_one_def simp del: printable.simps)

lemma projected_stamp:
  assumes "deterministic prog" and "projected prog (es @ es') S"
  shows "projected prog (es @ map (stamp r) es') S"
  using assms rebuild_stamp[OF assms(1)] by (fastforce simp: projected_def rebuild_append rbind_Inr_iff)

lemma tx_projected:
  assumes "(tx_step prog evlog)\<^sup>*\<^sup>* t t'" and "deterministic prog" and "projected prog (evlog @ tx_events t) (tx_states t)"
  shows "projected prog (evlog @ tx_events t') (tx_states t')"
  using assms(1,3)
proof (induction rule: rtranclp_induct)
  case (step t1 t2)
  then have ok: "projected prog (evlog @ tx_events t1) (tx_states t1)" by simp
  from step(2) show ?case
  proof (cases rule: tx_step.cases)
    case (event bd e hp states')
    then have fits: "byBoundaryName prog (bd_name bd) = Some bd" "boundaryName (bd_name bd) = Inr (ev_boundary e)"
      by (simp_all add: event_fits_def)
    then have "bd \<in> set (pg_boundaries prog)" using byBoundaryName_name by blast
    with fits(2) have "ev_boundary e = bd_name bd" using deterministicD(3)[OF assms(2), of bd] by simp
    with fits(1) have "byBoundaryName prog (ev_boundary e) = Some bd" by simp
    from projected_event[OF assms(2) this event(3) ok] event show ?thesis by simp
  qed (use ok in \<open>simp_all add: enlist_def\<close>)
qed simp

text \<open>A commit writes exactly the states of its transaction.\<close>

lemma write_changed:
  assumes "distinct (map fst states)"
  shows "omap_get (fold (\<lambda>(i, v) s. if changed (mem_get i s) v then mem_set i v s else s) states store) a =
     (case map_of states a of None \<Rightarrow> omap_get store a
      | Some v \<Rightarrow> if changed (omap_get store a) v then Some v else omap_get store a)"
  using assms
proof (induction states arbitrary: store)
  case (Cons p states)
  then show ?case
    by (cases p) (auto simp: mem_get_def mem_set_def dom_map_of_conv_image_fst[symmetric] split: option.splits)
qed simp

lemma drop_absent:
  "omap_get (fold (\<lambda>i s. if P i then s else mem_delete i s) ks store) a =
     (if a \<in> set ks \<and> \<not> P a then None else omap_get store a)"
  by (induction ks arbitrary: store) (auto simp: mem_delete_def)

lemma fold_keeps: "(\<And>x s. x \<in> set xs \<Longrightarrow> P s \<Longrightarrow> P (f x s)) \<Longrightarrow> P s \<Longrightarrow> P (fold f xs s)"
  by (induction xs arbitrary: s) auto

lemma write_states_get:
  assumes "store_ok states" and "store_ok store"
  shows "same_states (write_states states store) states" and "store_ok (write_states states store)"
proof -
  let ?w = "fold (\<lambda>(i, v) s. if changed (mem_get i s) v then mem_set i v s else s) states store"
  have w: "omap_get ?w a = (case map_of states a of None \<Rightarrow> omap_get store a | Some v \<Rightarrow> Some v)" for a
  proof (cases "map_of states a")
    case None
    then show ?thesis using write_changed[of states store a] assms(1) by (simp add: store_ok_def)
  next
    case (Some v)
    have "omap_get store a = Some v" if "\<not> changed (omap_get store a) v"
      using that assms Some json_stringify_inject[of "JObj _" "JObj v"] unfolding changed_def store_ok_def
      by (auto split: option.splits simp del: printable.simps map_of_eq_Some_iff)
    with Some show ?thesis using write_changed[of states store a] assms(1) by (auto simp: store_ok_def)
  qed
  have absent: "omap_get ?w a = None" if "a \<notin> set (map fst (mem_entries ?w))" for a
    using that map_of_eq_None_iff[of ?w a] by (simp add: mem_entries_def)
  have "omap_get (write_states states store) a = omap_get states a" for a
  proof (cases "map_of states a")
    case None
    then show ?thesis unfolding write_states_def Let_def drop_absent using absent[of a] by auto
  next
    case (Some v)
    then show ?thesis unfolding write_states_def Let_def drop_absent using w[of a] by simp
  qed
  then show same: "same_states (write_states states store) states" by (simp add: same_states_def)
  have "distinct (map fst ?w)"
    using assms(2) by (intro fold_keeps[where P = "\<lambda>s. distinct (map fst s)"]) (auto simp: store_ok_def mem_set_def distinct_update)
  then have "distinct (map fst (write_states states store))"
    unfolding write_states_def Let_def
    by (rule fold_keeps[where P = "\<lambda>s. distinct (map fst s)", rotated]) (simp add: mem_delete_def distinct_delete)
  with same assms(1) show "store_ok (write_states states store)"
    by (simp add: store_ok_def same_states_def)
qed

lemma projected_same:
  "projected prog es S \<Longrightarrow> same_states S' S \<Longrightarrow> store_ok S' \<Longrightarrow> projected prog es S'"
  by (auto simp: projected_def same_states_def)

lemma set_all_get:
  assumes "distinct (map fst states)"
  shows "omap_get (fold (\<lambda>(i, v). mem_set i v) states store) a = (case map_of states a of Some v \<Rightarrow> Some v | None \<Rightarrow> omap_get store a)"
proof -
  have "distinct (map fst (rev states))" using assms by (simp add: rev_map[symmetric])
  then have "map_of (rev states) = map_of states" using assms map_of_inject_set[of "rev states" states] by simp
  then show ?thesis using mem_st.get_write_all[of a states store] by (auto simp: mem_get_def split: option.splits)
qed

lemma set_all_ok:
  assumes "store_ok states" and "store_ok store" and "\<And>a. map_of states a = None \<Longrightarrow> omap_get store a = None"
  shows "same_states (fold (\<lambda>(i, v). mem_set i v) states store) states" and "store_ok (fold (\<lambda>(i, v). mem_set i v) states store)"
proof -
  let ?w = "fold (\<lambda>(i, v). mem_set i v) states store"
  have d: "distinct (map fst states)" using assms(1) by (simp add: store_ok_def)
  show same: "same_states ?w states"
    unfolding same_states_def set_all_get[OF d] using assms(3) by (auto split: option.splits)
  have "distinct (map fst ?w)"
    using assms(2) by (intro fold_keeps[where P = "\<lambda>s. distinct (map fst s)"]) (auto simp: store_ok_def mem_set_def distinct_update)
  with same assms(1) show "store_ok ?w" by (simp add: store_ok_def same_states_def)
qed

lemma eng_projected:
  assumes "(eng_step prog)\<^sup>*\<^sup>* en en'" and det: "deterministic prog" and "projected prog (en_events en) (en_state en)"
  shows "projected prog (en_events en') (en_state en')"
  using assms(1,3)
proof (induction rule: rtranclp_induct)
  case (step en1 en2)
  then have ok: "projected prog (en_events en1) (en_state en1)" by simp
  then have store: "store_ok (en_state en1)" by (simp add: projected_def)
  from step(2) show ?case
  proof (cases rule: eng_step.cases)
    case silent
    then show ?thesis using ok by (simp add: quiet_def)
  next
    case (committed i t r)
    have p: "projected prog (en_events en1 @ tx_events t) (tx_states t)"
      by (rule tx_projected[OF committed(2) det]) (simp add: begin_transaction_def mem_entries_def ok)
    then have "store_ok (tx_states t)" by (simp add: projected_def)
    note w = write_states_get[OF this store]
    have "projected prog (en_events en1 @ map (stamp r) (tx_events t)) (write_states (tx_states t) (en_state en1))"
      by (rule projected_same[OF projected_stamp[OF det p] w])
    with committed(1) show ?thesis by (simp add: commit_def mem_append_def)
  next
    case (saga e)
    then show ?thesis using projected_saga[OF det saga(3) ok] by (simp add: mem_append_def)
  next
    case (replayed e bd hp states r)
    have p: "projected prog (en_events en1 @ [e]) states"
      using projected_event[OF det replayed(2) _ ok] replayed(5) by (simp add: mem_entries_def)
    then have S: "store_ok states" by (simp add: projected_def)
    have "map_of states a = None \<Longrightarrow> omap_get (en_state en1) a = None" for a
      using replayed(5) by (auto simp: apply_to_def rbind_Inr_iff mem_entries_def split: if_splits)
    note w = set_all_ok[OF S store this]
    have "projected prog (en_events en1 @ map (stamp r) [e]) (fold (\<lambda>(i, v). mem_set i v) states (en_state en1))"
      by (rule projected_same[OF projected_stamp[OF det p] w])
    with replayed(1) show ?thesis by (simp add: commit_replay_def mem_append_def)
  qed
qed

subsection \<open>Starting from the log\<close>

text \<open>\<open>commandForEvent\<close> accepts the event: its cause is an identifier and its method an HTTP method.\<close>

definition replayable :: "domain_event \<Rightarrow> bool" where
  "replayable e \<longleftrightarrow> (\<exists>c. commandId (case ev_causedBy e of Some c \<Rightarrow> c | None \<Rightarrow> ev_id e) = Inr c)
     \<and> (\<exists>m. httpMethod (case ev_request e of Some r \<Rightarrow> er_method r | None \<Rightarrow> ''POST'') = Inr m)"

lemma plain_helpers: "helpersFor prog (requestForCommand cm) = engine_helpers prog"
  by (simp add: helpersFor_def engine_helpers_def requestForCommand_def ctl_def no_controls_def Let_def)

lemma replay_rebuild:
  assumes "\<forall>e \<in> set es. replayable e"
  shows "replay prog es S = rebuild prog es S"
  unfolding replay_def rebuild_def
proof (rule rfold_cong[OF refl refl])
  fix e st
  assume "e \<in> set es"
  then have "replayable e" using assms by simp
  have "reapply prog bd None e st = apply_to prog bd (engine_helpers prog) e st" for bd
  proof -
    obtain cm where "commandForEvent e bd None = Inr cm"
      using \<open>replayable e\<close> by (auto simp: replayable_def commandForEvent_def)
    then show ?thesis by (simp add: reapply_def plain_helpers)
  qed
  then show "(case byBoundaryName prog (ev_boundary e) of None \<Rightarrow> Inr st | Some bd \<Rightarrow> reapply prog bd None e st) = rebuild_one prog e st"
    by (auto simp: rebuild_one_def split: option.splits)
qed

lemma project_history_quiet: "fst (project_history prog h en) = Inr () \<and> quiet en (snd (project_history prog h en))"
proof -
  have "js_trim ''baseline'' = ''baseline''" by code_simp
  then have "commandId ''baseline'' = Inr ''baseline''" by (simp add: commandId_def reference_Inr_iff)
  then show ?thesis
    by (auto simp: project_history_def internal_command_def projections_quiet split: option.splits)
qed

lemma start_from_log:
  assumes "es \<noteq> []" and "\<forall>e \<in> set es. replayable e" and "rebuild prog es [] = Inr T" and "store_ok T"
  shows "same_states (en_state (createRuntimeEngine prog es [])) T \<and> en_init (createRuntimeEngine prog es []) = Inr ()
     \<and> en_events (createRuntimeEngine prog es []) = es"
proof -
  let ?en = "empty_engine\<lparr>en_events := es, en_state := []\<rparr>"
  let ?h = "\<lambda>en. project_history prog es en"
  have S: "same_states (set_all T []) T"
    unfolding set_all_def by (rule set_all_ok(1)[OF assms(4)]) (simp_all add: store_ok_def)
  obtain en' where en': "en_events en' = es" "en_state en' = set_all T []"
    "initialize prog ?en = project_history prog es en'"
    using assms(1) replay_rebuild[OF assms(2), of prog "[]"] assms(3)
    by (intro that[of "?en\<lparr>en_state := set_all T [], en_boundaries := own_events es (own_events es (en_boundaries ?en))\<rparr>"])
      (simp_all add: initialize_def bind_run mem_entries_def mem_append_def Let_def)
  with project_history_quiet[of prog es en'] S show ?thesis
    by (cases "project_history prog es en'") (auto simp: createRuntimeEngine_def settle_init_def quiet_def)
qed

end
