(* ===== verification/TimeTravel.thy ===== *)
theory TimeTravel
  imports Ledger
begin

text \<open>
  What the log is read back for: the state an aggregate had at an earlier version
  (\<open>readStateAtVersion\<close>), and a fresh engine after a reset.
\<close>

subsection \<open>The events up to a version\<close>

lemma r_filter_pure: "(\<And>x. x \<in> set xs \<Longrightarrow> p x = Inr (q x)) \<Longrightarrow> r_filter p xs = Inr (filter q xs)"
  by (induction xs) auto

lemma filter_upto:
  "map ev_version es = [1..<Suc n] \<Longrightarrow> filter (\<lambda>e. ev_version e \<le> v) es = take v es"
proof (induction es arbitrary: n rule: rev_induct)
  case (snoc e es)
  then obtain m where n: "n = Suc m" by (cases n) auto
  with snoc.prems have es: "map ev_version es = [1..<Suc m]" and e: "ev_version e = Suc m" by auto
  have "length es = m" using arg_cong[OF es, of length] by simp
  with snoc.IH[OF es] e show ?case by auto
qed simp

lemma versions_sorted: "map ev_version es = [1..<Suc n] \<Longrightarrow> sort_key ev_version es = es \<and> \<not> duplicate_versions es"
proof -
  assume v: "map ev_version es = [1..<Suc n]"
  then have "sorted (map ev_version es)" "sorted_wrt (<) (map ev_version es)" by (simp_all only: sorted_upt sorted_wrt_upt)
  then show ?thesis
    by (simp add: sort_key_id_if_sorted duplicate_versions_iff sorted_wrt_map)
qed

lemma versions_prefix: "map ev_version es = [1..<Suc n] \<Longrightarrow> map ev_version (take v es) = [1..<Suc (min v n)]"
  by (simp add: take_map[symmetric] take_upt min_def del: upt_Suc)

lemma history_at:
  assumes ok: "versions_ok (es @ es')" and "\<forall>e \<in> set (of_aggregate a (es @ es')). declared prog e" and "of_aggregate a es \<noteq> []"
  shows "eventsAtVersion prog bd a (of_nat (length (of_aggregate a es))) (es @ es') = Inr (of_aggregate a es)"
proof -
  let ?own = "of_aggregate a (es @ es')" and ?v = "length (of_aggregate a es)"
  have mem: "mem_events None (Some a) (es @ es') = ?own"
    unfolding mem_events_def of_aggregate_def by (rule filter_cong) (auto simp: ev_selected_def)
  have owned: "filter (\<lambda>e. byBoundaryName prog (ev_boundary e) \<noteq> None) ?own = ?own"
    using assms(2) by (simp add: declared_def)
  have vs: "map ev_version ?own = [1..<Suc (length ?own)]" using ok by (simp only: versions_ok_def)
  obtain e where e: "e \<in> set (of_aggregate a es)" using assms(3) by (cases "of_aggregate a es") auto
  then have "aggregateId a = Inr a" using ok by (auto simp: versions_ok_def of_aggregate_def)
  moreover have "rbind (parsed (aggregateId (ev_aggregate e))) (\<lambda>i. if i = a
      then rbind (parsed (committedSequenceVersion (of_nat (ev_version e)))) (\<lambda>v. Inr (v \<le> ?v)) else Inr False)
    = Inr (ev_version e \<le> ?v)" if "e \<in> set ?own" for e
  proof -
    have "ev_version e \<in> ev_version ` set ?own" using that by blast
    also have "\<dots> = set [1..<Suc (length ?own)]" using vs by (metis set_map)
    finally have "ev_version e \<noteq> 0" by (simp only: set_upt) auto
    then obtain k where "ev_version e = Suc k" by (cases "ev_version e") simp_all
    moreover have "ev_aggregate e = a" using that by (auto simp: of_aggregate_def)
    ultimately show ?thesis using \<open>aggregateId a = Inr a\<close>
      by (simp del: of_nat_Suc)
  qed
  moreover have t: "take ?v ?own = of_aggregate a es" by simp
  moreover have "sort_key ev_version (of_aggregate a es) = of_aggregate a es \<and> \<not> duplicate_versions (of_aggregate a es)"
    using versions_prefix[OF vs, of ?v] t versions_sorted by metis
  moreover have "?own \<noteq> []" using assms(3) by simp
  ultimately show ?thesis
    using assms(3) filter_upto[OF vs, of ?v] unfolding eventsAtVersion_def mem owned Let_def eventsThroughVersion_def
    by (simp add: r_filter_pure del: of_aggregate_append)
qed

subsection \<open>One aggregate of the log\<close>

text \<open>The events of an aggregate lead to its state whatever the others do.\<close>

lemma rebuild_aggregate:
  assumes "rebuild prog es S = Inr T" and "omap_get S' a = omap_get S a"
  shows "\<exists>T'. rebuild prog (of_aggregate a es) S' = Inr T' \<and> omap_get T' a = omap_get T a"
  using assms
proof (induction es arbitrary: S S')
  case Nil
  then show ?case by (simp add: of_aggregate_def)
next
  case (Cons e es)
  then obtain S1 where S1: "rebuild_one prog e S = Inr S1" "rebuild prog es S1 = Inr T" by (auto simp: rbind_Inr_iff)
  show ?case
  proof (cases "ev_aggregate e = a")
    case True
    have "\<exists>S1'. rebuild_one prog e S' = Inr S1' \<and> omap_get S1' a = omap_get S1 a"
      using S1(1) Cons.prems(2) True
      by (auto simp: rebuild_one_def apply_to_def state_of_def rbind_Inr_iff split: option.splits)
    then show ?thesis using Cons.IH[OF S1(2)] True by (auto simp: of_aggregate_def)
  next
    case False
    then have "omap_get S1 a = omap_get S a"
      using S1(1) by (auto simp: rebuild_one_def apply_to_def rbind_Inr_iff split: option.splits)
    then show ?thesis using Cons.IH[OF S1(2)] Cons.prems(2) False by (simp add: of_aggregate_def)
  qed
qed

lemma reapply_engine:
  assumes "replayable e"
  shows "reapply prog bd (Some (''PUT'', p)) e st = apply_to prog bd (engine_helpers prog) e st"
proof -
  have "httpMethod ''PUT'' = Inr ''PUT''" by code_simp
  then obtain cm where "commandForEvent e bd (Some (''PUT'', p)) = Inr cm"
    using assms by (auto simp: replayable_def commandForEvent_def)
  then show ?thesis by (simp add: reapply_def plain_helpers)
qed

lemma read_rebuild:
  assumes "\<forall>e \<in> set es. declared prog e \<and> replayable e"
  shows "rfold (\<lambda>e st. reapply prog (case byBoundaryName prog (ev_boundary e) of Some owner \<Rightarrow> owner | None \<Rightarrow> bd)
     (Some (''PUT'', [])) e st) es S = rebuild prog es S"
  unfolding rebuild_def
  by (rule rfold_cong) (use assms in \<open>auto simp: reapply_engine rebuild_one_def declared_def split: option.splits\<close>)

text \<open>Reading at the version an aggregate had after the events \<open>es\<close> gives the state it had then.\<close>

lemma read_at:
  assumes "versions_ok (es @ es')" and "\<forall>e \<in> set (of_aggregate a (es @ es')). declared prog e \<and> replayable e"
    and "of_aggregate a es \<noteq> []" and "projected prog es S"
  shows "readStateAtVersion prog bd a (of_nat (length (of_aggregate a es))) (es @ es') = Inr (omap_get S a)"
proof -
  obtain T where T: "rebuild prog es [] = Inr T" "same_states T S" using assms(4) by (auto simp: projected_def)
  obtain T' where "rebuild prog (of_aggregate a es) [] = Inr T'" "omap_get T' a = omap_get T a"
    using rebuild_aggregate[OF T(1) refl, of a] by auto
  then show ?thesis
    using assms(2,3) T(2)
    by (simp add: readStateAtVersion_def history_at[OF assms(1) _ assms(3)] read_rebuild same_states_def)
qed

subsection \<open>Resetting\<close>

text \<open>Initialization reads and writes the log, the states, their owners and the projections alone.\<close>

definition alike :: "engine \<Rightarrow> engine \<Rightarrow> bool" where
  "alike en en' \<longleftrightarrow> en_events en = en_events en' \<and> en_state en = en_state en' \<and> en_boundaries en = en_boundaries en'
     \<and> en_projections en = en_projections en'"

definition agree :: "'a run \<Rightarrow> bool" where
  "agree m \<longleftrightarrow> (\<forall>en en'. alike en en' \<longrightarrow> fst (m en) = fst (m en') \<and> alike (snd (m en)) (snd (m en')))"

named_theorems ag

lemma agree_pure [ag]: "agree (ret a)" "agree (throw e)" "agree (lift r)"
  by (simp_all add: agree_def)

lemma agree_get [ag]: "(\<And>en en'. alike en en' \<Longrightarrow> f en = f en') \<Longrightarrow> agree (get f)"
  by (simp add: agree_def)

lemma agree_upd [ag]: "(\<And>en en'. alike en en' \<Longrightarrow> alike (f en) (f en')) \<Longrightarrow> agree (upd f)"
  by (simp add: agree_def)

lemma agree_bind [ag]: "agree m \<Longrightarrow> (\<And>a. agree (f a)) \<Longrightarrow> agree (bind m f)"
  by (fastforce simp: agree_def bind_def split: prod.splits sum.splits)

lemma projections_alike: "alike en en' \<Longrightarrow> alike (runProjections prog es c en) (runProjections prog es c en')"
proof -
  have one: "alike en en' \<Longrightarrow> alike (project_one prog c pj e en) (project_one prog c pj e en')" for pj e en en'
    by (auto simp: alike_def project_one_def Let_def)
  have many: "alike en en' \<Longrightarrow> alike (fold (\<lambda>e en. project_one prog c pj e en) es en) (fold (\<lambda>e en. project_one prog c pj e en) es en')" for pj es en en'
    by (induction es arbitrary: en en') (auto intro: one)
  have "alike en en' \<Longrightarrow> alike (fold (\<lambda>pj en. fold (\<lambda>e en. project_one prog c pj e en) es en) pjs en)
      (fold (\<lambda>pj en. fold (\<lambda>e en. project_one prog c pj e en) es en) pjs en')" for pjs en en'
    by (induction pjs arbitrary: en en') (auto intro: many)
  then show "alike en en' \<Longrightarrow> ?thesis" by (simp add: runProjections_def)
qed

lemma initialize_agree: "agree (initialize prog)"
proof -
  have P: "agree (project_history prog h)" for h
    unfolding project_history_def
    by (auto intro!: ag projections_alike split: option.splits)
  have B: "agree (if c then m else m')" if "agree m" "agree m'" for c and m m' :: "unit run"
    using that by simp
  show ?thesis
    unfolding initialize_def Let_def
    by (intro agree_bind agree_get agree_upd agree_pure B P) (simp_all add: alike_def)
qed

lemma settle_alike:
  assumes "en_events en = []" "en_state en = []" "en_boundaries en = []" "en_projections en = []"
  shows "alike (snd (settle_init prog en)) (createRuntimeEngine prog [] [])
     \<and> fst (settle_init prog en) = en_init (createRuntimeEngine prog [] [])
     \<and> en_init (snd (settle_init prog en)) = en_init (createRuntimeEngine prog [] [])"
proof -
  let ?e = "empty_engine\<lparr>en_events := [], en_state := []\<rparr>"
  have "alike en ?e" using assms by (simp add: alike_def empty_engine_def)
  then have "fst (initialize prog en) = fst (initialize prog ?e)" "alike (snd (initialize prog en)) (snd (initialize prog ?e))"
    using initialize_agree[of prog] by (auto simp: agree_def)
  then show ?thesis
    by (cases "initialize prog en"; cases "initialize prog ?e") (simp add: createRuntimeEngine_def settle_init_def alike_def)
qed

definition caches :: "engine \<Rightarrow> idem_map \<times> (string, string) omap \<times> fault fault_map" where
  "caches en = (en_idempotency en, en_fingerprints en, en_faults en)"

lemma initialize_caches: "caches (snd (initialize prog en)) = caches en"
proof -
  let ?R = "\<lambda>en en'. caches en' = caches en"
  have one: "caches (project_one prog c pj e en) = caches en" for c pj e en
    by (simp add: project_one_def caches_def Let_def)
  have "caches (fold (\<lambda>e en. project_one prog c pj e en) es en) = caches en" for c pj es en
    by (induction es arbitrary: en) (simp_all add: one)
  then have "caches (fold (\<lambda>pj en. fold (\<lambda>e en. project_one prog c pj e en) es en) pjs en) = caches en" for c es pjs en
    by (induction pjs arbitrary: en) simp_all
  then have pr: "caches (runProjections prog es c en) = caches en" for es c en by (simp add: runProjections_def)
  have U: "moves ?R (upd f)" if "\<And>en. caches (f en) = caches en" for f
    by (rule moves_upd) (simp add: that r_into_rtranclp)
  have P: "moves ?R (project_history prog h)" for h
    unfolding project_history_def by (auto intro!: mv U pr split: option.splits)
  have B: "moves ?R (if c then m else m')" if "moves ?R m" "moves ?R m'" for c and m m' :: "unit run"
    using that by simp
  have "moves ?R (initialize prog)"
    unfolding initialize_def Let_def
    by (intro moves_bind moves_pure U B P) (simp_all add: caches_def)
  then have "?R\<^sup>*\<^sup>* en (snd (initialize prog en))" by (simp add: moves_def)
  then show ?thesis by (induction rule: rtranclp_induct) auto
qed

lemma reset_run:
  assumes "reset_engine prog en = (Inr (), en')"
  shows "alike en' (createRuntimeEngine prog [] []) \<and> caches en' = ([], [], [])
    \<and> en_init en' = Inr () \<and> en_init (createRuntimeEngine prog [] []) = Inr ()"
proof -
  have loop: "each pjs (\<lambda>pj. lift (pj_reset pj)) x = (r, x') \<Longrightarrow> x' = x" for pjs :: "derived_projection list" and x x' :: engine and r
    by (induction pjs) (auto simp: bind_def split: sum.splits)
  from assms obtain x where "each (po_projections (pg_policies prog)) (\<lambda>pj. lift (pj_reset pj)) (wipe prog en) = (Inr (), x)"
    "settle_init prog x = (Inr (), en')"
    by (auto simp: reset_engine_def bind_Inr)
  with loop have s: "settle_init prog (wipe prog en) = (Inr (), en')" by blast
  then have "caches en' = caches (wipe prog en)"
    using initialize_caches[of prog "wipe prog en"] by (auto simp: settle_init_def caches_def split: prod.splits)
  with s settle_alike[of "wipe prog en" prog] show ?thesis
    by (simp add: wipe_def mem_events_clear_def mem_state_clear_def caches_def mem_idem_clear_def fault_clear_def)
qed

lemma rebuild_store_ok:
  assumes "deterministic prog" and "rebuild prog es S = Inr T" and "store_ok S"
  shows "store_ok T"
  using assms(2,3)
proof (induction es arbitrary: S)
  case (Cons e es)
  then obtain S1 where S1: "rebuild_one prog e S = Inr S1" "rebuild prog es S1 = Inr T" by (auto simp: rbind_Inr_iff)
  have "store_ok S1"
  proof (cases "byBoundaryName prog (ev_boundary e)")
    case (Some bd)
    then show ?thesis
      using S1(1) apply_to_store_ok[OF assms(1), of bd] byBoundaryName_name[OF Some] Cons.prems(2)
      by (simp add: rebuild_one_def)
  qed (use S1(1) Cons.prems(2) in \<open>simp add: rebuild_one_def\<close>)
  then show ?case by (rule Cons.IH[OF S1(2)])
qed simp

end
