(* ===== verification/Sample.thy ===== *)
theory Sample
  imports Lifecycle
begin

text \<open>
  A small program for the witnesses: accounts that are opened and paid into.  Opening is a creation
  whose state is its payload; a deposit needs the scope \<open>teller\<close> and adds its amount.  Only states
  whose numbers are integers are accepted.
\<close>

definition demo_contract :: contract where
  "demo_contract = \<lparr>ct_operationIdFor = (\<lambda>_ _. None), ct_responseStatusFor = (\<lambda>_ _. None), ct_pathForOperation = (\<lambda>_ _. None),
     ct_validateBatchRequest = (\<lambda>_ _ _. Inr ()), ct_validateRequest = (\<lambda>_ _ _. Inr ()),
     ct_validateResponse = (\<lambda>_ _ _ _ _. Inr ()), ct_shapeError = (\<lambda>_ _ _. Inr None), ct_requiresPrecondition = (\<lambda>_. False),
     ct_validateEvent = (\<lambda>_ _ _ _. Inr ()), ct_validateEntity = (\<lambda>_ _. Inr ()), ct_supportsHateoas = (\<lambda>_ _ _. False)\<rparr>"

definition demo_deps :: deps where
  "demo_deps = \<lparr>dp_contract = demo_contract, dp_uuid = (\<lambda>n. ''id'' @ dec n), dp_seededUuid = (\<lambda>s n. s @ dec n),
     dp_random = (\<lambda>_. 0), dp_seededRandom = (\<lambda>_ _. 0), dp_nowMs = 0, dp_offsetMs = 0,
     dp_nowAt = (\<lambda>_. ''2024-01-01T00:00:00.000Z''), dp_dateParse = (\<lambda>_. None), dp_toUTC = (\<lambda>_. []),
     dp_compare = (\<lambda>x y. if x = y then 0 else if x < y then -1 else 1), dp_glob = (\<lambda>p s. p = s), dp_toISO = (\<lambda>_. []),
     dp_sessions = True, dp_csrf = (\<lambda>n. ''csrf'' @ dec n), dp_cookies = (\<lambda>s. [(''sid'', s)]), dp_forward = None,
     dp_webhooks = None, dp_hmac = (\<lambda>_ _. [])\<rparr>"

definition no_policies :: policies where
  "no_policies = \<lparr>po_auth = None, po_idempotency = None, po_securityHeaders = None, po_hateoas = None, po_fallback_rules = [],
     po_fallback_default = None, po_projections = [], po_faults = [], po_reactions = [], po_webhooks = [], po_sagas = [],
     po_onBoot = Inr (), po_onValidation = Inr (), po_onInitialization = Inr (), po_onReset = Inr (), po_onShutdown = Inr (),
     po_onRequest = (\<lambda>_. Inr ()), po_onCommit = (\<lambda>_. Inr ()), po_onPostCommit = (\<lambda>_. Inr ()), po_onProjection = (\<lambda>_. Inr ())\<rparr>"

definition plain_behavior :: "string \<Rightarrow> string \<Rightarrow> string list \<Rightarrow> behavior" where
  "plain_behavior op emitted scopes = \<lparr>bh_name = op, bh_operation = op, bh_condition = None, bh_requires = [],
     bh_requiredScopes = scopes, bh_method = None, bh_headers = None, bh_emit = Some emitted, bh_emitWhen = None,
     bh_dispatch = [], bh_postcondition = None, bh_linkName = None, bh_linkCondition = None, bh_responseStatus = None\<rparr>"

text \<open>The payload of an event is one field of the command.\<close>

definition field_event :: "string \<Rightarrow> string \<Rightarrow> runtime_event" where
  "field_event type f = \<lparr>ct_type = type, ct_payload = [(f, \<lambda>c. Inr (obj_get (cm_payload (cx_command c)) f))], ct_schemaRef = None\<rparr>"

definition whole_numbers :: "json \<Rightarrow> bool" where
  "whole_numbers v = (case v of JNum x \<Rightarrow> x = of_int \<lfloor>x\<rfloor> \<and> \<bar>\<lfloor>x\<rfloor>\<bar> < 2 ^ 53 | JStr _ \<Rightarrow> True | _ \<Rightarrow> False)"

definition demo_boundary :: boundary where
  "demo_boundary = \<lparr>bd_name = ''account'', bd_contractPath = ''/accounts/{id}'', bd_schema = None, bd_fallbackOverride = None,
     bd_generate = None, bd_key = None, bd_query = None, bd_queryMapping = None,
     bd_eventCatalog = [field_event ''Opened'' ''balance'', field_event ''Paid'' ''amount''],
     bd_behaviors = [plain_behavior ''open'' ''Opened'' [], plain_behavior ''pay'' ''Paid'' [''teller'']],
     bd_reducers = [
       \<lparr>rd_on = ''Opened'', rd_apply = None, rd_reduce = Some (\<lambda>rx. Inr (JObj (rx_payload rx))), rd_replaceState = False\<rparr>,
       \<lparr>rd_on = ''Paid'', rd_apply = None, rd_reduce = Some (\<lambda>rx. Inr (JObj [(''balance'',
          case (obj_get (rx_state rx) ''balance'', obj_get (rx_payload rx) ''amount'') of
            (JNum x, JNum y) \<Rightarrow> JNum (x + y) | _ \<Rightarrow> JNull)])), rd_replaceState = False\<rparr>],
     bd_initialization = [], bd_response = None, bd_mask = [], bd_auditFields = False, bd_deprecated = None, bd_computed = [],
     bd_validate = (\<lambda>s. if (case s of [(k, v)] \<Rightarrow> k = ''balance'' \<and> whole_numbers v | _ \<Rightarrow> False) then Inr ()
       else Inl (PlainError ''invalid account'')),
     bd_faults = [], bd_reactions = []\<rparr>"

definition demo_program :: program where
  "demo_program = \<lparr>pg_boundaries = [demo_boundary], pg_policies = no_policies, pg_deps = demo_deps\<rparr>"

definition demo_command :: "string \<Rightarrow> intent \<Rightarrow> string \<Rightarrow> json_object \<Rightarrow> command" where
  "demo_command op i target payload = \<lparr>cm_id = ''c1'', cm_boundary = ''account'', cm_intent = i, cm_target = Some target,
     cm_payload = payload, cm_query = [], cm_method = (if i = Creation then ''POST'' else ''PUT''), cm_path = ''/accounts/'' @ target,
     cm_operation = Some op, cm_version = None, cm_origin = Inbound, cm_depth = 0, cm_actor = None\<rparr>"

definition demo_request :: "command \<Rightarrow> string list \<Rightarrow> request" where
  "demo_request cm scopes = \<lparr>rq_command = cm, rq_headers = [], rq_actor = Some \<lparr>ac_id = ''ann'', ac_scopes = scopes\<rparr>,
     rq_original = None, rq_effective = None, rq_skipSagas = False, rq_skipWebhooks = False, rq_skipReactions = False,
     rq_skipProjections = False, rq_skipDispatch = False, rq_controls = None\<rparr>"

definition open_request :: request where
  "open_request = demo_request (demo_command ''open'' Creation ''a1'' [(''balance'', JNum 5)]) []"

definition pay_request :: "string list \<Rightarrow> request" where
  "pay_request scopes = demo_request (demo_command ''pay'' Mutation ''a1'' [(''amount'', JNum 7)]) scopes"

end
