(* ===== verification/EngineProps.thy ===== *)
theory EngineProps
  imports TimeTravel Sample
begin

text \<open>
  The properties of the engine's log and states, over sequences of requests.  The witnesses run the
  program of \<open>Sample\<close>.
\<close>

subsection \<open>The sample program\<close>

lemma demo_reducer:
  assumes "rd \<in> set (bd_reducers demo_boundary)"
  shows "run_reducer demo_boundary hp' SrcReducer n (e\<lparr>ev_response := r\<rparr>) rd st = run_reducer demo_boundary hp SrcReducer n e rd st"
  using assms by (auto simp: run_reducer_def demo_boundary_def split: json.splits)

lemma demo_next_state:
  assumes "next_state demo_program demo_boundary hp e st = Inr s"
  shows "next_state demo_program demo_boundary hp' (e\<lparr>ev_response := r\<rparr>) st = Inr s"
    and "\<exists>v. s = [(''balance'', v)] \<and> whole_numbers v"
proof -
  let ?rs = "filter (\<lambda>rd. rd_on rd = ev_type e) (bd_reducers demo_boundary)"
  have "rfold (run_reducer demo_boundary hp' SrcReducer n (e\<lparr>ev_response := r\<rparr>)) ?rs x = rfold (run_reducer demo_boundary hp SrcReducer n e) ?rs x" for n x
    by (rule rfold_cong) (auto intro: demo_reducer)
  moreover have "base_state demo_boundary (e\<lparr>ev_response := r\<rparr>) st = base_state demo_boundary e st"
    by (simp add: base_state_def)
  moreover have "bd_computed demo_boundary = []" "\<not> bd_auditFields demo_boundary" by (simp_all add: demo_boundary_def)
  ultimately show "next_state demo_program demo_boundary hp' (e\<lparr>ev_response := r\<rparr>) st = Inr s"
    using assms by (cases "ev_type e = BASELINE_CREATED") (simp_all add: next_state_def audit_def)
  have "bd_validate demo_boundary s = Inr ()"
    using assms by (auto simp: next_state_def Let_def rbind_Inr_iff)
  then show "\<exists>v. s = [(''balance'', v)] \<and> whole_numbers v"
    by (cases s; cases "tl s") (auto simp: demo_boundary_def split: if_splits)
qed

lemma demo_deterministic: "deterministic demo_program"
proof -
  have names: "js_trim ''account'' = ''account''" "byBoundaryName demo_program SAGA_BOUNDARY = None"
    by code_simp+
  have "printable (JObj [(''balance'', v)])" if "whole_numbers v" for v
    using that by (cases v) (auto simp: whole_numbers_def obj_from_entries_def obj_spread_def obj_set_def)
  then have "printable (JObj s)" if "next_state demo_program demo_boundary hp e st = Inr s" for hp e st s
    using demo_next_state(2)[OF that] by auto
  moreover have "pg_boundaries demo_program = [demo_boundary]" "boundaryName (bd_name demo_boundary) = Inr (bd_name demo_boundary)"
    using names(1) by (simp_all add: demo_program_def demo_boundary_def boundaryName_def reference_Inr_iff)
  ultimately show ?thesis
    using names(2) demo_next_state(1) by (auto simp: deterministic_def simp del: printable.simps)
qed

lemma demo_ids: "ids_ok demo_program open_request" "ids_ok demo_program (pay_request scopes)"
proof -
  have "js_trim ''c1'' = ''c1''" by code_simp
  then show "ids_ok demo_program open_request" "ids_ok demo_program (pay_request scopes)"
    by (simp_all add: ids_ok_def open_request_def pay_request_def demo_request_def demo_command_def demo_program_def no_policies_def)
qed

text \<open>An account with one event, as the log and the store hold it.\<close>

definition demo_opened :: domain_event where
  "demo_opened = \<lparr>ev_id = ''e1'', ev_boundary = ''account'', ev_aggregate = ''a1'', ev_type = ''Opened'',
     ev_payload = [(''balance'', JNum 5)], ev_timestamp = ''2024-01-01T00:00:00.000Z'', ev_version = 1, ev_causedBy = Some ''c0'',
     ev_intent = Some Creation, ev_request = None, ev_response = None\<rparr>"

definition demo_engine :: engine where
  "demo_engine = empty_engine\<lparr>en_events := [demo_opened], en_state := [(''a1'', [(''balance'', JNum 5)])],
     en_boundaries := [(''a1'', ''account'')]\<rparr>"

lemma demo_versions: "versions_ok (en_events demo_engine)"
proof -
  have "js_trim ''a1'' = ''a1''" by code_simp
  then have "versions_ok ([] @ [demo_opened])"
    by (intro versions_ok_append) (simp_all add: demo_opened_def aggregateId_Inr_iff of_aggregate_def)
  then show ?thesis by (simp add: demo_engine_def)
qed

lemma demo_projected: "projected demo_program (en_events demo_engine) (en_state demo_engine)"
proof -
  have "apply_to demo_program demo_boundary (engine_helpers demo_program) demo_opened [] = Inr [(''a1'', [(''balance'', JNum 5)])]"
    by code_simp
  moreover have "byBoundaryName demo_program (ev_boundary demo_opened) = Some demo_boundary"
    by (simp add: byBoundaryName_def demo_program_def demo_boundary_def demo_opened_def)
  moreover have "projected demo_program [] []" by (simp add: projected_def store_ok_def)
  ultimately have "projected demo_program ([] @ [demo_opened]) [(''a1'', [(''balance'', JNum 5)])]"
    using projected_event[OF demo_deterministic] by blast
  then show ?thesis by (simp add: demo_engine_def)
qed

subsection \<open>Properties\<close>

text \<open>C1: the versions of every aggregate count from one without a gap.  Whatever requests are served,
  and however each ends, a log whose versions are contiguous stays so: dispatched commands, reactions,
  sagas and replays included.\<close>

theorem versions_contiguous:
  assumes "versions_ok (en_events en)" and "\<forall>rq \<in> set rqs. ids_ok prog rq"
  shows "versions_ok (en_events (served prog rqs en))"
  by (rule eng_versions[OF served_steps[OF assms(2)] assms(1)])

theorem versions_contiguous_witness:
  "versions_ok (en_events (served demo_program [pay_request [''teller''], pay_request []] demo_engine))"
  by (rule versions_contiguous) (simp_all add: demo_versions demo_ids)

text \<open>C3: history is never rewritten.  Serving requests only appends to the event log.\<close>

theorem log_append_only:
  assumes "\<forall>rq \<in> set rqs. ids_ok prog rq"
  shows "\<exists>es. en_events (served prog rqs en) = en_events en @ es"
  by (rule eng_grows[OF served_steps[OF assms]])

theorem log_append_only_witness:
  "\<exists>es. en_events (served demo_program [pay_request [''teller''], open_request] demo_engine) = en_events demo_engine @ es"
  by (rule log_append_only) (simp add: demo_ids)

text \<open>C2: the store refines the log.  For a program whose reducers depend on the event and the state
  alone, the stored state of every aggregate is, after any requests, the fold of the log: a failed or
  dry-run request leaves no state the log does not account for, and no event is left unapplied.\<close>

theorem store_is_log_fold:
  assumes "deterministic prog" and "projected prog (en_events en) (en_state en)" and "\<forall>rq \<in> set rqs. ids_ok prog rq"
  shows "projected prog (en_events (served prog rqs en)) (en_state (served prog rqs en))"
  by (rule eng_projected[OF served_steps[OF assms(3)] assms(1,2)])

theorem store_is_log_fold_witness:
  "projected demo_program (en_events (served demo_program [pay_request [''teller'']] demo_engine))
     (en_state (served demo_program [pay_request [''teller'']] demo_engine))"
  by (rule store_is_log_fold) (simp_all add: demo_deterministic demo_projected demo_ids)

text \<open>C4: the log is all there is to keep.  Take a deterministic program (its reducers and computed fields depend on the event
  and the state alone, and its states hold integers only), an engine whose store is the fold of its log, as a new one,
  and let it serve any requests.  If the log is not empty and every event of it carries a command identifier and a
  method that parse, an engine built from the log alone (\<open>createRuntimeEngine\<close> over an empty store) starts
  without error, keeps the log, and has the states of the engine that wrote it.\<close>

theorem restart_from_log:
  assumes "deterministic prog" and "projected prog (en_events e0) (en_state e0)" and "\<forall>rq \<in> set rqs. ids_ok prog rq"
    and en: "en = served prog rqs e0" and "en_events en \<noteq> []" and "\<forall>e \<in> set (en_events en). replayable e"
  shows "same_states (en_state (createRuntimeEngine prog (en_events en) [])) (en_state en)
     \<and> en_init (createRuntimeEngine prog (en_events en) []) = Inr ()
     \<and> en_events (createRuntimeEngine prog (en_events en) []) = en_events en"
proof -
  have "projected prog (en_events en) (en_state en)"
    unfolding en by (rule eng_projected[OF served_steps[OF assms(3)] assms(1,2)])
  then obtain T where T: "rebuild prog (en_events en) [] = Inr T" "same_states T (en_state en)" by (auto simp: projected_def)
  have "store_ok T" by (rule rebuild_store_ok[OF assms(1) T(1)]) (simp add: store_ok_def)
  from start_from_log[OF assms(5,6) T(1) this] T(2) show ?thesis by (simp add: same_states_def)
qed

theorem restart_from_log_witness:
  "let en = served demo_program [pay_request [''teller'']] demo_engine
   in length (en_events en) = 2 \<and> same_states (en_state (createRuntimeEngine demo_program (en_events en) [])) (en_state en)
     \<and> en_init (createRuntimeEngine demo_program (en_events en) []) = Inr ()"
proof -
  let ?en = "served demo_program [pay_request [''teller'']] demo_engine"
  have "length (en_events ?en) = 2" by code_simp
  moreover from this have "en_events ?en \<noteq> []" by auto
  moreover have "\<forall>e \<in> set (en_events ?en). replayable e"
  proof -
    have "list_all (\<lambda>e. \<not> isl (commandId (case ev_causedBy e of Some c \<Rightarrow> c | None \<Rightarrow> ev_id e))
        \<and> \<not> isl (httpMethod (case ev_request e of Some r \<Rightarrow> er_method r | None \<Rightarrow> ''POST''))) (en_events ?en)" by code_simp
    then show ?thesis unfolding replayable_def list_all_iff by (metis sum.collapse(2))
  qed
  ultimately show ?thesis
    using restart_from_log[OF demo_deterministic demo_projected _ refl, of "[pay_request [''teller'']]"] demo_ids by (simp add: Let_def)
qed

text \<open>C5: reading the past.  Take a deterministic program and an engine whose store is the fold of its log with contiguous
  versions, as a new one.  After it has served some requests its store holds a state of the aggregate \<open>a\<close> at its current
  version; after it has served any more requests, reading \<open>a\<close> at that version gives that state, as long as the
  events of \<open>a\<close> belong to boundaries of the program and carry a command identifier and a method that parse.\<close>

theorem read_at_version:
  assumes "deterministic prog" and "projected prog (en_events e0) (en_state e0)" and "versions_ok (en_events e0)"
    and ids: "\<forall>rq \<in> set (rqs @ rqs'). ids_ok prog rq"
    and earlier: "en = served prog rqs e0" and later: "en' = served prog rqs' en"
    and "of_aggregate a (en_events en) \<noteq> []" and "\<forall>e \<in> set (of_aggregate a (en_events en')). declared prog e \<and> replayable e"
  shows "readStateAtVersion prog bd a (of_nat (mem_currentSequenceVersion a (en_events en))) (en_events en') = Inr (omap_get (en_state en) a)"
proof -
  have steps: "(eng_step prog)\<^sup>*\<^sup>* e0 en" "(eng_step prog)\<^sup>*\<^sup>* en en'"
    unfolding earlier later using ids by (auto intro!: served_steps)
  obtain es' where es': "en_events en' = en_events en @ es'" using eng_grows[OF steps(2)] by blast
  have ok: "versions_ok (en_events en)" by (rule eng_versions[OF steps(1) assms(3)])
  have "versions_ok (en_events en @ es')" using eng_versions[OF steps(2) ok] es' by simp
  from read_at[OF this _ assms(7) eng_projected[OF steps(1) assms(1,2)]] assms(8) es'
  show ?thesis by (simp add: current_version[OF ok])
qed

theorem read_at_version_witness:
  "let en = served demo_program [pay_request [''teller'']] demo_engine; en' = served demo_program [pay_request [''teller'']] en
   in length (of_aggregate ''a1'' (en_events en')) = 3
     \<and> readStateAtVersion demo_program demo_boundary ''a1'' (of_nat (mem_currentSequenceVersion ''a1'' (en_events en))) (en_events en')
       = Inr (omap_get (en_state en) ''a1'')"
proof -
  let ?en = "served demo_program [pay_request [''teller'']] demo_engine" and ?en' = "served demo_program [pay_request [''teller'']]
    (served demo_program [pay_request [''teller'']] demo_engine)"
  have "length (of_aggregate ''a1'' (en_events ?en')) = 3" "length (of_aggregate ''a1'' (en_events ?en)) = 2" by code_simp+
  moreover from this(2) have "of_aggregate ''a1'' (en_events ?en) \<noteq> []" by auto
  moreover have "\<forall>e \<in> set (of_aggregate ''a1'' (en_events ?en')). declared demo_program e \<and> replayable e"
  proof -
    have "list_all (\<lambda>e. ev_boundary e = ''account'' \<and> \<not> isl (commandId (case ev_causedBy e of Some c \<Rightarrow> c | None \<Rightarrow> ev_id e))
        \<and> \<not> isl (httpMethod (case ev_request e of Some r \<Rightarrow> er_method r | None \<Rightarrow> ''POST''))) (of_aggregate ''a1'' (en_events ?en'))" by code_simp
    moreover have "byBoundaryName demo_program ''account'' \<noteq> None" by (simp add: byBoundaryName_def demo_program_def demo_boundary_def)
    ultimately show ?thesis unfolding replayable_def declared_def list_all_iff by (metis sum.collapse(2))
  qed
  ultimately show ?thesis
    using read_at_version[OF demo_deterministic demo_projected demo_versions _ refl refl, of "[pay_request [''teller'']]" "[pay_request [''teller'']]"
        "''a1''" demo_boundary] demo_ids by (simp add: Let_def)
qed

text \<open>C32: a reset is a restart.  After a reset that succeeds, the log, the states, their owners and the
  projections are those of an engine newly built from the program, the idempotency
  records, fingerprints and injected faults are gone, and the engine is ready.\<close>

theorem reset_is_restart:
  assumes "reset_engine prog en = (Inr (), en')"
  shows "alike en' (createRuntimeEngine prog [] []) \<and> caches en' = ([], [], [])
     \<and> en_init en' = Inr () \<and> en_init (createRuntimeEngine prog [] []) = Inr ()"
  by (rule reset_run[OF assms])

theorem reset_is_restart_witness:
  "alike (snd (reset_engine demo_program demo_engine)) (createRuntimeEngine demo_program [] [])
     \<and> caches (snd (reset_engine demo_program demo_engine)) = ([], [], [])
     \<and> en_init (snd (reset_engine demo_program demo_engine)) = Inr ()
     \<and> en_init (createRuntimeEngine demo_program [] []) = Inr ()"
proof (rule reset_is_restart)
  have "fst (reset_engine demo_program demo_engine) = Inr ()" by code_simp
  then show "reset_engine demo_program demo_engine = (Inr (), snd (reset_engine demo_program demo_engine))"
    by (metis prod.collapse)
qed

end
