(* ===== verification/Locks.thy ===== *)
theory Locks
  imports Lifecycle
begin

text \<open>
  Which locks a request holds when it ends.  \<open>spares f m\<close>: unless \<open>m\<close> waits for ever it leaves the list
  \<open>f\<close> of the state as it found it, and even then it takes nothing off it.  Every part of a request spares
  the locks, because each is released on a return and on a throw, and by the part that took it.
\<close>

definition spares :: "('s \<Rightarrow> 'b list) \<Rightarrow> ('s, exn, 'a) eff \<Rightarrow> bool" where
  "spares f m \<longleftrightarrow> (\<forall>s. (fst (m s) \<noteq> Inl Hang \<longrightarrow> f (snd (m s)) = f s) \<and> set (f s) \<subseteq> set (f (snd (m s))))"

named_theorems sp

lemma sparesD: "spares f m \<Longrightarrow> m s = (r, s') \<Longrightarrow> r \<noteq> Inl Hang \<Longrightarrow> f s' = f s"
  by (auto simp: spares_def dest: spec[of _ s])

lemma spares_grows: "spares f m \<Longrightarrow> m s = (r, s') \<Longrightarrow> set (f s) \<subseteq> set (f s')"
  unfolding spares_def by (metis snd_conv)

lemma sparesI:
  assumes "\<And>s r s'. m s = (r, s') \<Longrightarrow> set (f s) \<subseteq> set (f s')" and "\<And>s r s'. m s = (r, s') \<Longrightarrow> r \<noteq> Inl Hang \<Longrightarrow> f s' = f s"
  shows "spares f m"
  unfolding spares_def
proof
  fix s
  obtain r s' where "m s = (r, s')" by (cases "m s")
  with assms[OF this] show "(fst (m s) \<noteq> Inl Hang \<longrightarrow> f (snd (m s)) = f s) \<and> set (f s) \<subseteq> set (f (snd (m s)))" by simp
qed

lemma spares_pure [sp]:
  "spares f (ret a)" "spares f (throw e)" "spares f (lift r)" "spares f (get g)" "spares f (throw_if c e)"
  by (simp_all add: spares_def)

lemma spares_upd [sp]: "(\<And>s. f (g s) = f s) \<Longrightarrow> spares f (upd g)"
  by (simp add: spares_def)

lemma spares_run: "(\<And>s. f (snd (m s)) = f s) \<Longrightarrow> spares f m"
  by (simp add: spares_def)

lemma spares_bind [sp]:
  assumes "spares f m" and "\<And>a. spares f (g a)"
  shows "spares f (bind m g)"
proof (rule sparesI)
  fix s r s'
  assume r: "bind m g s = (r, s')"
  obtain x t where m: "m s = (x, t)" by (cases "m s")
  show "set (f s) \<subseteq> set (f s')"
    using r m spares_grows[OF assms(1) m] spares_grows[OF assms(2)] by (cases x) (fastforce simp: bind_run)+
  show "f s' = f s" if "r \<noteq> Inl Hang"
    using r m that sparesD[OF assms(1) m] sparesD[OF assms(2)] by (cases x) (auto simp: bind_run)
qed

lemma spares_if [sp]: "(c \<Longrightarrow> spares f m) \<Longrightarrow> (\<not> c \<Longrightarrow> spares f m') \<Longrightarrow> spares f (if c then m else m')"
  by simp

lemma spares_option [sp]:
  "spares f m \<Longrightarrow> (\<And>x. spares f (m' x)) \<Longrightarrow> spares f (case v of None \<Rightarrow> m | Some x \<Rightarrow> m' x)"
  by (cases v) simp_all

lemma spares_sum [sp]:
  "(\<And>x. spares f (m x)) \<Longrightarrow> (\<And>x. spares f (m' x)) \<Longrightarrow> spares f (case v of Inl x \<Rightarrow> m x | Inr x \<Rightarrow> m' x)"
  by (cases v) simp_all

lemma spares_prod [sp]: "(\<And>x y. spares f (m x y)) \<Longrightarrow> spares f (case p of (x, y) \<Rightarrow> m x y)"
  by (cases p) simp

lemma spares_each [sp]: "(\<And>x. x \<in> set xs \<Longrightarrow> spares f (m x)) \<Longrightarrow> spares f (each xs m)"
  by (induction xs) (simp_all add: spares_pure spares_bind)

lemma spares_find [sp]: "(\<And>x. spares f (p x)) \<Longrightarrow> spares f (find_eff p xs)"
  by (induction xs) (auto intro!: sp)

lemma spares_attempt [sp]: "spares f m \<Longrightarrow> spares f (attempt m)"
proof (rule sparesI)
  fix s r s'
  assume m: "spares f m" and r: "attempt m s = (r, s')"
  obtain x t where x: "m s = (x, t)" by (cases "m s")
  then have t: "t = s'" "x = Inl Hang \<Longrightarrow> r = Inl Hang" using r by (auto simp: attempt_def split: sum.splits exn.splits)
  show "set (f s) \<subseteq> set (f s')" using spares_grows[OF m x] t by simp
  show "f s' = f s" if "r \<noteq> Inl Hang" using sparesD[OF m x] t that by auto
qed

subsection \<open>Taking and releasing locks\<close>

lemma acquire_run:
  "acquire k en = (if k \<in> set (en_locks en) then (Inl Hang, en) else (Inr (), en\<lparr>en_locks := en_locks en @ [k]\<rparr>))"
  by (simp add: acquire_def)

lemma acquire_each:
  "each ks acquire en = (Inr (), en') \<Longrightarrow> distinct ks \<Longrightarrow> en' = en\<lparr>en_locks := en_locks en @ ks\<rparr> \<and> set ks \<inter> set (en_locks en) = {}"
proof (induction ks arbitrary: en)
  case (Cons k ks)
  then have "k \<notin> set (en_locks en)" and rest: "each ks acquire (en\<lparr>en_locks := en_locks en @ [k]\<rparr>) = (Inr (), en')"
    by (simp_all add: bind_run acquire_run[of k en] split: if_splits)
  with Cons.IH[OF rest] Cons.prems(2) show ?case by auto
qed simp

lemma acquire_each_fails: "each ks acquire en = (Inl e, en') \<Longrightarrow> e = Hang"
proof (induction ks arbitrary: en)
  case (Cons k ks)
  then show ?case by (auto simp: bind_run acquire_run[of k en] split: if_splits)
qed simp

lemma acquire_grows: "set (en_locks en) \<subseteq> set (en_locks (snd (each ks acquire en)))"
proof (induction ks arbitrary: en)
  case (Cons k ks)
  then show ?case using Cons[of "en\<lparr>en_locks := en_locks en @ [k]\<rparr>"] by (auto simp: bind_run acquire_run[of k en])
qed simp

lemma acquireMany_run:
  assumes "acquireMany keys en = (r, en')"
  shows "r = Inl Hang \<and> set (en_locks en) \<subseteq> set (en_locks en')
    \<or> r = Inr () \<and> en' = en\<lparr>en_locks := en_locks en @ sort (remdups keys)\<rparr> \<and> set keys \<inter> set (en_locks en) = {}"
  using assms acquire_each[of "sort (remdups keys)" en en'] acquire_each_fails[of "sort (remdups keys)" en _ en']
    acquire_grows[of en "sort (remdups keys)"]
  by (cases r) (auto simp: acquireMany_def)

lemma with_locks_cases:
  assumes "with_locks keys m en = (r, en')"
  obtains (waits) "r = Inl Hang" and "set (en_locks en) \<subseteq> set (en_locks en')"
  | (takes) en2 where "set keys \<inter> set (en_locks en) = {}" and "m (en\<lparr>en_locks := en_locks en @ sort (remdups keys)\<rparr>) = (r, en2)"
      and "en' = (if r = Inl Hang then en2 else release keys en2)"
proof -
  obtain x en1 where acq: "acquireMany keys en = (x, en1)" by (cases "acquireMany keys en")
  show thesis
    using acquireMany_run[OF acq] assms acq waits takes
    by (auto simp: with_locks_def bind_run split: prod.splits sum.splits exn.splits)
qed

lemma with_locks_spares [sp]:
  assumes "spares en_locks m"
  shows "spares en_locks (with_locks keys m)"
proof (rule sparesI)
  fix en r en'
  assume "with_locks keys m en = (r, en')"
  then have both: "set (en_locks en) \<subseteq> set (en_locks en') \<and> (r \<noteq> Inl Hang \<longrightarrow> en_locks en' = en_locks en)"
  proof (cases rule: with_locks_cases)
    case (takes en2)
    have id: "filter (\<lambda>k. k \<notin> set keys) (en_locks en) = en_locks en"
      using takes(1) by (auto simp: filter_id_conv)
    show ?thesis
    proof (cases "r = Inl Hang")
      case True
      then show ?thesis using takes(3) spares_grows[OF assms takes(2)] by auto
    next
      case False
      then show ?thesis using takes(3) sparesD[OF assms takes(2)] id by (simp add: release_def)
    qed
  qed simp
  then show "set (en_locks en) \<subseteq> set (en_locks en')" "r \<noteq> Inl Hang \<Longrightarrow> en_locks en' = en_locks en" by simp_all
qed

subsection \<open>The parts of a request\<close>

lemma parts_spare [sp]:
  "spares en_locks (draw_id p hp n)" "spares en_locks (recall p key rq)" "spares en_locks (remember p key rq r)"
  "spares en_locks (random_draw p rq)"
proof -
  have "spares en_locks (checkIdempotencyFingerprint p k rq)" for k
    by (rule spares_run) (simp add: checkIdempotencyFingerprint_def Let_def split: option.splits)
  then show "spares en_locks (draw_id p hp n)" "spares en_locks (recall p key rq)" "spares en_locks (remember p key rq r)"
    "spares en_locks (random_draw p rq)"
    unfolding draw_id_def recall_def remember_def random_draw_def
    by (auto intro!: sp simp: storeIdempotency_def split: option.splits)
qed

lemma faults_spare [sp]: "spares en_locks (findFault p bd rq c)"
  unfolding findFault_def fault_applies_def Let_def by (auto intro!: sp split: option.splits)

lemma session_spare [sp]: "spares en_locks (handleSessionEndpoint p rq)"
proof -
  have "spares en_locks (open_session p rq a)" for a
    by (rule spares_run) (auto simp: open_session_def Let_def split: sum.splits)
  moreover have "spares en_locks (close_session p rq)"
    by (rule spares_run) (simp add: close_session_def bind_run split: option.splits)
  ultimately show ?thesis
    unfolding handleSessionEndpoint_def Let_def by (auto intro!: sp split: json.splits)
qed

lemma identity_spare [sp]: "spares en_locks (resolveIdentity p bd rq)"
  unfolding resolveIdentity_def resolveAggregateId_def Let_def
  by (auto intro!: sp split: option.splits json.splits)

lemma webhooks_spare [sp]: "spares en_locks (runWebhooks p events c)"
proof -
  have "spares en_locks (deliver_from accept d k)" for accept d k
    by (induction accept d k rule: deliver_from.induct) (unfold deliver_from.simps, (intro sp; simp)+)
  then show ?thesis
    unfolding runWebhooks_def deliver_event_def Let_def by (auto intro!: sp split: option.splits)
qed

lemma projections_locks: "en_locks (runProjections p events c en) = en_locks en"
proof -
  have one: "en_locks (project_one p c pj e en) = en_locks en" for pj e en
    by (simp add: project_one_def Let_def)
  have "en_locks (fold (\<lambda>e en. project_one p c pj e en) es en) = en_locks en" for pj es en
    by (induction es arbitrary: en) (simp_all add: one)
  then have "en_locks (fold (\<lambda>pj en. fold (\<lambda>e en. project_one p c pj e en) es en) pjs en) = en_locks en" for pjs es en
    by (induction pjs arbitrary: en) simp_all
  then show ?thesis by (simp add: runProjections_def)
qed

lemma transact_spares [sp]: "spares en_locks (transact f)"
  by (rule spares_run) (auto simp: transact_def split: prod.splits sum.splits)

subsection \<open>Sagas\<close>

abbreviation saga_locks :: "saga_state \<Rightarrow> string list" where
  "saga_locks s \<equiv> en_locks (sa_engine s)"

lemma on_engine_spares [sp]: "spares en_locks m \<Longrightarrow> spares saga_locks (on_engine m)"
  by (rule sparesI) (auto simp: on_engine_def split: prod.splits dest: sparesD spares_grows[THEN subsetD])

lemma saga_parts_spare [sp]:
  "spares saga_locks (saga_id p hp)" "spares saga_locks (appendSagaEvent p a type payload hp)"
  "spares saga_locks (saga_request p rq hp b i op target payload)"
proof -
  show "spares saga_locks (saga_id p hp)" for p hp
    unfolding saga_id_def by (intro sp) simp
  then show "spares saga_locks (appendSagaEvent p a type payload hp)" "spares saga_locks (saga_request p rq hp b i op target payload)"
    unfolding appendSagaEvent_def saga_request_def by (intro sp; simp)+
qed

lemma run_saga_spares:
  assumes "\<And>rq. spares en_locks (again rq)"
  shows "spares saga_locks (run_saga again prog rq source events sg)"
proof -
  have step: "spares saga_locks (run_step again prog rq source sg a trigger events ks)" for a trigger ks
    unfolding run_step_def Let_def case_prod_unfold by (intro sp assms) simp_all
  have comp: "spares saga_locks (compensate again prog rq source sg a trigger events x)" for a trigger x
    unfolding compensate_def case_prod_unfold by (intro sp assms)
  show ?thesis
    unfolding run_saga_def run_steps_def saga_failed_def Let_def by (intro sp step comp) simp_all
qed

lemma sagas_spare:
  assumes "\<And>rq. spares en_locks (again rq)"
  shows "spares en_locks (runSagas again prog events rq source)"
proof -
  let ?m = "each (po_sagas (pg_policies prog)) (run_saga again prog rq source events)"
  have "spares saga_locks ?m" by (intro spares_each run_saga_spares assms)
  then show ?thesis
    by (intro sparesI) (fastforce simp: runSagas_def split: prod.splits dest: sparesD spares_grows)+
qed

subsection \<open>Requests\<close>

lemma finish_commit_spares:
  assumes "\<And>rq. spares en_locks (again rq)"
  shows "spares en_locks (finish_commit again prog rq events r)" and "spares en_locks (runPostCommit again prog rq events r)"
proof -
  show post: "spares en_locks (runPostCommit again prog rq events r)"
    unfolding runPostCommit_def Let_def by (intro sp sagas_spare assms) (simp_all add: projections_locks)
  then show "spares en_locks (finish_commit again prog rq events r)"
    unfolding finish_commit_def by (intro sp) simp_all
qed

lemma replay_spares:
  assumes "\<And>rq. spares en_locks (again rq)"
  shows "spares en_locks (replayEvent again prog rq)"
proof -
  have finish: "spares en_locks (replay_finish again prog rq bd eid e states)" for rq bd eid e states
    unfolding replay_finish_def Let_def by (intro sp finish_commit_spares assms) (simp add: commit_replay_def)
  have "spares en_locks (replay_one again prog rq bd i e)" for bd i e
    unfolding replay_one_def Let_def replayed_event_def by (intro sp finish)
  then show ?thesis unfolding replayEvent_def by (intro sp)
qed

lemma mutation_spares:
  assumes "\<And>rq. spares en_locks (again rq)"
  shows "spares en_locks (run_mutation again prog bd key rq)"
proof -
  have "spares en_locks (commit_run again prog bd rq target r t)" for rq target r t
    unfolding commit_run_def Let_def by (intro sp finish_commit_spares assms) (simp add: commit_def)
  then have "spares en_locks (executeMutation again prog bd rq target)" for rq target
    unfolding executeMutation_def by (intro sp)
  then show ?thesis unfolding run_mutation_def by (intro sp)
qed

lemma executeInternal_spares:
  assumes "\<And>rq. spares en_locks (again rq)"
  shows "spares en_locks (executeInternal again prog rq)"
proof -
  have "spares en_locks (run_query again prog bd key rq)" for bd key rq
    unfolding run_query_def by (intro sp replay_spares assms)
  then have "spares en_locks (execute_in again prog bd rq)" for bd rq
    unfolding execute_in_def Let_def by (intro sp mutation_spares assms)
  then show ?thesis unfolding executeInternal_def Let_def by (intro sp)
qed

lemma execute_spares:
  "spares en_locks (executeStep prog rq)" "spares en_locks (executeUnlocked prog rq)" "spares en_locks (execute prog rq)"
proof -
  show step: "spares en_locks (executeStep prog rq)" for rq
    unfolding executeStep_def by (intro executeInternal_spares sp)
  show "spares en_locks (executeUnlocked prog rq)" unfolding executeUnlocked_def by (intro executeInternal_spares step)
  then show "spares en_locks (execute prog rq)" unfolding execute_def by (intro sp)
qed

subsection \<open>Waiting for ever\<close>

lemma acquire_held:
  assumes "k \<in> set keys" and "k \<in> set (en_locks en)"
  shows "fst (with_locks keys m en) = Inl Hang"
proof -
  obtain r en' where acq: "acquireMany keys en = (r, en')" by (cases "acquireMany keys en")
  with acquireMany_run[OF acq] assms have "r = Inl Hang" by auto
  with acq show ?thesis by (simp add: with_locks_def bind_run)
qed

lemma acquire_free:
  assumes "set keys \<inter> set (en_locks en) = {}"
  shows "acquireMany keys en = (Inr (), en\<lparr>en_locks := en_locks en @ sort (remdups keys)\<rparr>)"
proof -
  have "each ks acquire en = (Inr (), en\<lparr>en_locks := en_locks en @ ks\<rparr>)"
    if "distinct ks" "set ks \<inter> set (en_locks en) = {}" for ks and en :: engine
    using that
  proof (induction ks arbitrary: en)
    case (Cons k ks)
    then show ?case by (auto simp: bind_run acquire_run[of k en])
  qed simp
  then show ?thesis using assms by (simp add: acquireMany_def)
qed

end
