(* ===== verification/Requests.thy ===== *)
theory Requests
  imports Locks TimeTravel
begin

text \<open>
  What a request leaves untouched, and what it leaves behind: dry runs, refused commands, the answer
  remembered under an idempotency key, optimistic locking and rolled-back batches.
\<close>

subsection \<open>Parts of a request that leave a part of the state alone\<close>

definition keeps :: "('s \<Rightarrow> 'b) \<Rightarrow> ('s, exn, 'a) eff \<Rightarrow> bool" where
  "keeps f m \<longleftrightarrow> (\<forall>s. f (snd (m s)) = f s)"

named_theorems kp

lemma keepsD: "keeps f m \<Longrightarrow> m s = (r, s') \<Longrightarrow> f s' = f s"
  by (auto simp: keeps_def dest: spec[of _ s])

lemma keeps_pure [kp]: "keeps f (ret a)" "keeps f (throw e)" "keeps f (lift r)" "keeps f (get g)" "keeps f (throw_if c e)"
  "keeps f (Pair r)"
  by (simp_all add: keeps_def)

lemma keeps_upd [kp]: "(\<And>s. f (g s) = f s) \<Longrightarrow> keeps f (upd g)"
  by (simp add: keeps_def)

lemma keeps_run: "(\<And>s. f (snd (m s)) = f s) \<Longrightarrow> keeps f m"
  by (simp add: keeps_def)

lemma keeps_bind [kp]:
  assumes "keeps f m" and "\<And>a. keeps f (g a)"
  shows "keeps f (bind m g)"
  unfolding keeps_def
proof
  fix s
  obtain x t where m: "m s = (x, t)" by (cases "m s")
  show "f (snd (bind m g s)) = f s"
    using keepsD[OF assms(1) m] assms(2) m by (cases x) (auto simp: bind_run keeps_def)
qed

lemma keeps_if [kp]: "(c \<Longrightarrow> keeps f m) \<Longrightarrow> (\<not> c \<Longrightarrow> keeps f m') \<Longrightarrow> keeps f (if c then m else m')"
  by simp

lemma keeps_option [kp]:
  "keeps f m \<Longrightarrow> (\<And>x. keeps f (m' x)) \<Longrightarrow> keeps f (case v of None \<Rightarrow> m | Some x \<Rightarrow> m' x)"
  by (cases v) simp_all

lemma keeps_prod [kp]: "(\<And>x y. keeps f (m x y)) \<Longrightarrow> keeps f (case p of (x, y) \<Rightarrow> m x y)"
  by (cases p) simp

lemma keeps_each [kp]: "(\<And>x. x \<in> set xs \<Longrightarrow> keeps f (m x)) \<Longrightarrow> keeps f (each xs m)"
  by (induction xs) (simp_all add: keeps_pure keeps_bind)

lemma keeps_find [kp]: "(\<And>x. keeps f (p x)) \<Longrightarrow> keeps f (find_eff p xs)"
  by (induction xs) (auto intro!: kp)

lemma keeps_locks [kp]:
  assumes "keeps f m" and "\<And>en l. f (en\<lparr>en_locks := l\<rparr>) = f en"
  shows "keeps f (with_locks keys m)"
proof -
  have "keeps f (\<lambda>en. case m en of (Inl Hang, en') \<Rightarrow> (Inl Hang, en') | (r, en') \<Rightarrow> (r, release keys en'))"
    using assms by (auto simp: keeps_def release_def split: prod.splits sum.splits exn.splits) (metis snd_conv)+
  moreover have "keeps f (acquire k)" for k
    unfolding acquire_def by (auto intro!: kp simp: assms(2))
  ultimately show ?thesis unfolding with_locks_def acquireMany_def by (auto intro: kp)
qed

subsection \<open>Dry runs\<close>

text \<open>Everything a request may change that outlives it, but for the fingerprints it clears, its sessions and its draws.\<close>

definition lasting :: "engine \<Rightarrow> domain_event list \<times> state_map \<times> (string, string) omap \<times> (string, state_map) omap
    \<times> webhook_delivery list \<times> idem_map \<times> active_batch option \<times> fault fault_map" where
  "lasting en = (en_events en, en_state en, en_boundaries en, en_projections en, en_deliveries en, en_idempotency en,
     en_batch en, en_faults en)"

lemma parts_last [kp]:
  "keeps lasting (draw_id p hp n)" "keeps lasting (recall p key rq)" "keeps lasting (random_draw p rq)"
proof -
  have "keeps lasting (checkIdempotencyFingerprint p k rq)" for k
    by (rule keeps_run) (simp add: checkIdempotencyFingerprint_def Let_def lasting_def split: option.splits)
  then show "keeps lasting (draw_id p hp n)" "keeps lasting (recall p key rq)" "keeps lasting (random_draw p rq)"
    unfolding draw_id_def recall_def random_draw_def
    by (auto intro!: kp simp: lasting_def split: option.splits)
qed

lemma faults_last [kp]: "keeps lasting (findFault p bd rq c)"
  unfolding findFault_def fault_applies_def Let_def by (auto intro!: kp split: option.splits)

lemma session_last [kp]: "keeps lasting (handleSessionEndpoint p rq)"
proof -
  have "keeps lasting (open_session p rq a)" for a
    by (rule keeps_run) (auto simp: open_session_def lasting_def Let_def split: sum.splits)
  moreover have "keeps lasting (close_session p rq)"
    by (rule keeps_run) (simp add: close_session_def bind_run lasting_def split: option.splits)
  ultimately show ?thesis
    unfolding handleSessionEndpoint_def Let_def by (auto intro!: kp split: json.splits)
qed

lemma identity_last [kp]: "keeps lasting (resolveIdentity p bd rq)"
  unfolding resolveIdentity_def resolveAggregateId_def Let_def
  by (auto intro!: kp split: option.splits json.splits)

lemma dry_request:
  assumes "rc_dryRun (ctl rq)"
  shows "keeps lasting (run_mutation again prog bd key rq)" and "keeps lasting (run_query again prog bd key rq)"
proof -
  have "keeps lasting (transact f)" for f :: "domain_event list \<Rightarrow> state_map \<Rightarrow> 'x step"
    by (rule keeps_run) (auto simp: transact_def lasting_def split: prod.splits sum.splits)
  moreover have "keeps lasting (commit_run again prog bd rq' target r t)" if "rc_dryRun (ctl rq')" for rq' target r t
    unfolding commit_run_def Let_def using that by (auto intro!: kp)
  ultimately have "keeps lasting (executeMutation again prog bd rq' target)" if "rc_dryRun (ctl rq')" for rq' target
    unfolding executeMutation_def using that by (intro kp)
  moreover have "ctl (rq\<lparr>rq_command := c\<rparr>) = ctl rq" for c by (simp add: ctl_def)
  ultimately show "keeps lasting (run_mutation again prog bd key rq)"
    unfolding run_mutation_def using assms by (intro kp) (simp_all add: lasting_def)
  have "keeps lasting (replay_one again prog rq bd' i e)" for bd' i e
  proof -
    have "ctl (replay_request rq bd' e) = ctl rq" by (simp add: ctl_def replay_request_def)
    then have "keeps lasting (replay_finish again prog (replay_request rq bd' e) bd' i e' states)" for e' states
      unfolding replay_finish_def Let_def using assms by (auto intro!: kp)
    then show ?thesis unfolding replay_one_def Let_def replayed_event_def by (intro kp)
  qed
  then show "keeps lasting (run_query again prog bd key rq)"
    unfolding run_query_def replayEvent_def using assms by (auto intro!: kp)
qed

lemma dry_execute:
  assumes "rc_dryRun (ctl rq)"
  shows "keeps lasting (execute prog rq)"
proof -
  have dry: "rc_dryRun (ctl (normalized prog (as_actor rq who)))" for who
    using assms by (auto simp: ctl_def normalized_def as_actor_def normalizeRuntimeControls_def Let_def split: option.splits)
  have "keeps lasting (execute_in again prog bd (as_actor rq who))" for again bd who
    unfolding execute_in_def Let_def by (intro kp dry_request dry)
  then have "keeps lasting (executeUnlocked prog rq)"
    unfolding executeUnlocked_def executeInternal_def Let_def by (intro kp)
  then show ?thesis unfolding execute_def by (intro kp) (simp_all add: lasting_def)
qed

subsection \<open>Refused commands\<close>

text \<open>The context a mutation of \<open>target\<close> selects its behavior in.\<close>

definition command_context :: "program \<Rightarrow> request \<Rightarrow> string \<Rightarrow> engine \<Rightarrow> ctx" where
  "command_context prog rq target en = match_context prog rq (mem_get target (en_state en))"

text \<open>The host's own policy, where there is one, comes to a decision.\<close>

definition policy_decides :: "program \<Rightarrow> behavior \<Rightarrow> ctx \<Rightarrow> bool" where
  "policy_decides prog bh c \<longleftrightarrow> (case Option.bind (po_auth (pg_policies prog)) au_authorize of
      None \<Rightarrow> True | Some f \<Rightarrow> \<exists>b. f c (bh_requiredScopes bh) = Inr b)"

lemma assertAuthorized_refuses:
  assumes "\<not> set (bh_requiredScopes bh) \<subseteq> set (case rq_actor rq of Some a \<Rightarrow> ac_scopes a | None \<Rightarrow> [])"
    and "policy_decides prog bh c"
  obtains st msg body hs where "assertAuthorized prog rq bh c = Inl (RuntimeExecutionError st msg body hs)" and "st \<in> {401, 403}"
proof -
  let ?policy = "case Option.bind (po_auth (pg_policies prog)) au_authorize of None \<Rightarrow> Inr None
      | Some f \<Rightarrow> rbind (f c (bh_requiredScopes bh)) (\<lambda>b. Inr (Some b))"
  obtain pd where pd: "?policy = Inr pd"
    using assms(2) unfolding policy_decides_def by (cases "Option.bind (po_auth (pg_policies prog)) au_authorize") auto
  have "authorize (map_option ac_scopes (rq_actor rq)) (bh_requiredScopes bh) pd \<noteq> Allowed"
    using assms(1) by (auto simp: authorize_Allowed_iff split: option.splits)
  then obtain d where "authorize (map_option ac_scopes (rq_actor rq)) (bh_requiredScopes bh) pd = Denied d"
    by (cases "authorize (map_option ac_scopes (rq_actor rq)) (bh_requiredScopes bh) pd") simp_all
  then show thesis
    using that by (cases d) (simp_all add: assertAuthorized_def pd coded_error_def)
qed

lemma refused_mutation:
  assumes "check_preconditions prog bd rq target en = Inr ()" and "cm_target (rq_command rq) = Some target"
    and "byBoundaryName prog (cm_boundary (rq_command rq)) = Some bd" and "cm_depth (rq_command rq) \<le> maxDepth rq"
    and "findBehavior bd rq (command_context prog rq target en) = Inr (Some bh)"
    and "assertAuthorized prog rq bh (command_context prog rq target en) = Inl e"
  shows "executeMutation again prog bd rq target en = (Inl e, en)"
proof -
  let ?st = "mem_get target (en_state en)" and ?t = "begin_transaction en"
  have st: "omap_get (tx_states ?t) target = ?st" by (simp add: begin_transaction_def mem_entries_def mem_get_def)
  have "check_existence bd (rq_command rq) ?st = Inr ()"
    using assms(1,2) by (auto simp: check_preconditions_def check_existence_def Let_def split: option.splits if_splits)
  moreover have "run_behavior prog evlog store bd rq (command_context prog rq target en) bh = throw e" for evlog store
    by (simp only: run_behavior_def Let_def assms(6) bind_simps)
  ultimately have "run_one prog (en_events en) (en_state en) (maxDepth rq) rq ?t = (Inl e, ?t)"
    using assms(2-5) st by (simp add: run_one_def Let_def bind_throw_if command_context_def)
  then have "runCommands prog (en_events en) (en_state en) rq ?t = (Inl e, ?t)"
    by (simp add: runCommands_def)
  then show ?thesis
    using assms(1) by (simp add: executeMutation_def transact_def bind_run begin_transaction_def)
qed

subsection \<open>Remembered answers\<close>

lemma recall_run:
  assumes "en_batch en = None" and "po_idempotency (pg_policies prog) = Some p"
    and "omap_get (en_fingerprints en) k = Some fp"
    and "fst (mem_idem_get k (Some (nowMsFor prog rq)) (dp_nowMs (pg_deps prog)) (en_idempotency en)) = Some r"
  shows "recall prog (Some k) rq en =
     (if ip_hashIncludesBody p \<and> fp \<noteq> idempotencyFingerprint rq then (Inl key_conflict, en)
      else (Inr (Some (replay_cached r)), en))"
  using assms by (auto simp: recall_def bind_run checkIdempotencyFingerprint_def cachedIdempotency_def Let_def)

text \<open>The answer \<open>r\<close> to a request of fingerprint \<open>fp\<close> is remembered under \<open>k\<close>.\<close>

definition remembered :: "program \<Rightarrow> string \<Rightarrow> string \<Rightarrow> execution_result \<Rightarrow> engine \<Rightarrow> bool" where
  "remembered prog k fp r en \<longleftrightarrow> en_batch en = None \<and> omap_get (en_fingerprints en) k = Some fp
     \<and> (\<forall>rq. nowMsFor prog rq < dp_nowMs (pg_deps prog) + max 1 (ttl_seconds prog) * 1000 \<longrightarrow>
          fst (mem_idem_get k (Some (nowMsFor prog rq)) (dp_nowMs (pg_deps prog)) (en_idempotency en)) = Some r)"

lemma remember_run:
  assumes "remember prog (Some k) rq r en = (x, en')" and "en_batch en' = None"
  shows "remembered prog k (idempotencyFingerprint rq) r en'"
proof -
  have "en_batch en = None" using assms by (auto simp: remember_def storeIdempotency_def split: option.splits)
  then have "en' = en\<lparr>en_fingerprints := omap_set k (idempotencyFingerprint rq) (en_fingerprints en),
      en_idempotency := mem_idem_set k r (ttl_seconds prog) (dp_nowMs (pg_deps prog)) (en_idempotency en)\<rparr>"
    using assms(1) by (simp add: remember_def storeIdempotency_def)
  then show ?thesis
    using \<open>en_batch en = None\<close> by (simp add: remembered_def mem_idem.get_put)
qed

text \<open>Recalling looks at the batch, the fingerprints and the stored answers alone.\<close>

definition memory :: "engine \<Rightarrow> active_batch option \<times> (string, string) omap \<times> idem_map" where
  "memory en = (en_batch en, en_fingerprints en, en_idempotency en)"

lemma recall_memory:
  assumes "memory en = memory en'"
  shows "fst (recall prog key rq en) = fst (recall prog key rq en')" and "memory (snd (recall prog key rq en)) = memory (snd (recall prog key rq en'))"
  using assms
  by (auto simp: recall_def bind_run checkIdempotencyFingerprint_def cachedIdempotency_def memory_def Let_def split: option.splits)


lemma identity_memory: "keeps memory (resolveIdentity p bd rq)"
proof -
  have "keeps memory (draw_id p hp n)" for hp n
    unfolding draw_id_def by (auto intro!: kp simp: memory_def split: option.splits)
  then show ?thesis
    unfolding resolveIdentity_def resolveAggregateId_def Let_def
    by (auto intro!: kp split: option.splits json.splits)
qed

lemma mutation_remembers:
  assumes run: "run_mutation again prog bd (Some k) rq en = (Inr r, en')" and fresh: "fst (recall prog (Some k) rq en) = Inr None"
    and "\<not> rc_dryRun (ctl rq)" and "en_batch en' = None"
  shows "remembered prog k (idempotencyFingerprint rq) r en'"
proof -
  let ?body = "\<lambda>target. bind (recall prog (Some k) rq) (\<lambda>cached. case cached of
          Some r \<Rightarrow> ret r
        | None \<Rightarrow>
            bind (executeMutation again prog bd (rq\<lparr>rq_command := (rq_command rq)\<lparr>cm_target := Some target\<rparr>\<rparr>) target) (\<lambda>r.
            bind (if rc_dryRun (ctl rq) then ret () else remember prog (Some k) rq r) (\<lambda>_. ret r)))"
  obtain target en1 where id: "resolveIdentity prog bd rq en = (Inr target, en1)"
    and body: "with_locks (lock_keys prog (Some k) rq target) (?body target) en1 = (Inr r, en')"
    using run by (auto simp: run_mutation_def bind_Inr)
  from body obtain l en2 where en2: "?body target (en1\<lparr>en_locks := l\<rparr>) = (Inr r, en2)"
    "en' = release (lock_keys prog (Some k) rq target) en2"
    by (cases rule: with_locks_cases) auto
  have "memory (en1\<lparr>en_locks := l\<rparr>) = memory en"
    using keepsD[OF identity_memory id] by (simp add: memory_def)
  then have "fst (recall prog (Some k) rq (en1\<lparr>en_locks := l\<rparr>)) = Inr None"
    using recall_memory(1)[of "en1\<lparr>en_locks := l\<rparr>" en] fresh by simp
  then obtain en3 where "remember prog (Some k) rq r en3 = (Inr (), en2)"
    using en2(1) assms(3) by (auto simp: bind_Inr)
  moreover have "en_batch en2 = None" using en2(2) assms(4) by (simp add: release_def)
  ultimately have "remembered prog k (idempotencyFingerprint rq) r en2" by (rule remember_run)
  then show ?thesis using en2(2) by (simp add: remembered_def release_def)
qed

subsection \<open>Optimistic locking\<close>

lemma mutation_events:
  assumes "sound_again prog again" and "ids_ok prog rq" and "executeMutation again prog bd rq target en = (Inr r, en')"
    and "xr_committed r"
  shows "\<exists>es. en_events en' = en_events en @ xr_events r @ es"
proof -
  from assms(3) obtain r0 t en1 where
    tx: "transact (\<lambda>evlog store. runCommands prog evlog store rq) en = (Inr (Some r0, t), en1)" and
    run: "commit_run again prog bd rq target r0 t en1 = (Inr r, en')"
    by (auto simp: executeMutation_def bind_Inr split: option.splits)
  let ?es = "map (stamp (response_of r0)) (tx_events t)"
  have r: "xr_committed r = (\<not> rc_dryRun (ctl rq))" "xr_events r = ?es"
    using run by (auto simp: commit_run_def bind_Inr Let_def decorateResult_def)
  have "finish_commit again prog rq ?es r0 (commit t ?es en1) = (Inr (), en')"
    using run assms(4) r(1) by (auto simp: commit_run_def bind_Inr Let_def)
  from movesD[OF finish_commit_still[OF assms(1,2)] this]
  obtain es where "en_events en' = en_events (commit t ?es en1) @ es" using eng_grows by blast
  moreover have "en_events en1 = en_events en" using transact_run(1)[OF tx] by (simp add: quiet_def)
  ultimately show ?thesis using r(2) by (simp add: commit_def mem_append_def)
qed

lemma lost_update:
  assumes "sound_again prog again" and "ids_ok prog rq" and "versions_ok (en_events en)"
    and "executeMutation again prog bd rq target en = (Inr r, en')"
    and "xr_committed r" and "e \<in> set (xr_events r)" and "ev_aggregate e = target"
    and "v \<le> mem_currentSequenceVersion target (en_events en)"
    and "cm_version (rq_command rq') = Some v"
  shows "\<exists>err. executeMutation again' prog bd' rq' target en' = (Inl err, en')"
proof -
  obtain es where es: "en_events en' = en_events en @ xr_events r @ es" using mutation_events[OF assms(1,2,4,5)] ..
  have "(eng_step prog)\<^sup>*\<^sup>* en en'"
    using movesD[OF executeMutation_still[OF assms(1,2)] assms(4)] .
  then have "versions_ok (en_events en')" by (rule eng_versions) (rule assms(3))
  then have "mem_currentSequenceVersion target (en_events en') = length (of_aggregate target (en_events en'))" by (rule current_version)
  moreover have "of_aggregate target (xr_events r) \<noteq> []" using assms(6,7) by (auto simp: of_aggregate_def filter_empty_conv)
  then obtain x xs where "of_aggregate target (xr_events r) = x # xs" by (cases "of_aggregate target (xr_events r)") simp_all
  ultimately have "v \<noteq> mem_currentSequenceVersion target (en_events en')"
    using assms(3,8) es by (simp add: current_version)
  then have "\<exists>err. check_preconditions prog bd' rq' target en' = Inl err"
    using assms(9) by (cases "check_preconditions prog bd' rq' target en'") (auto simp: check_preconditions_def Let_def rbind_Inr_iff split: if_splits)
  then show ?thesis by (auto simp: executeMutation_def bind_run)
qed

subsection \<open>Batches\<close>

lemma restore_snapshot:
  assumes "distinct (map fst (en_state en))"
  shows "en_events (restore (snapshot en) en') = en_events en" and "en_state (restore (snapshot en) en') = en_state en"
    and "en_projections (restore (snapshot en) en') = en_projections en"
proof -
  show "en_events (restore (snapshot en) en') = en_events en"
    by (simp add: restore_def snapshot_def mem_events_def ev_selected_def mem_append_def mem_events_clear_def)
  have "fold (\<lambda>(i, v). mem_set i v) S store = store @ S" if "distinct (map fst (store @ S))" for S store :: state_map
    using that
  proof (induction S arbitrary: store)
    case (Cons p S)
    obtain i v where p: "p = (i, v)" by (cases p)
    have "AList.update i v store = store @ [(i, v)]" if "i \<notin> fst ` set store"
      using that by (induction store) auto
    with Cons.prems p have "mem_set i v store = store @ [p]" by (simp add: mem_set_def)
    then show ?case using Cons.IH[of "store @ [p]"] Cons.prems p by simp
  qed simp
  from this[of "[]" "en_state en"] assms show "en_state (restore (snapshot en) en') = en_state en"
    by (simp add: restore_def snapshot_def set_all_def mem_entries_def mem_state_clear_def)
  show "en_projections (restore (snapshot en) en') = en_projections en" by (simp add: restore_def snapshot_def)
qed

lemma restore_batch: "en_batch (restore c en) = en_batch en"
  by (simp add: restore_def)

lemma failed_batch:
  assumes "executeBatch prog rqs True body en = (Inl e, en')" and "e \<noteq> Hang" and "distinct (map fst (en_state en))"
  shows "en_events en' = en_events en \<and> en_state en' = en_state en \<and> en_projections en' = en_projections en
    \<and> en_batch en' = en_batch en"
proof (cases "en_batch en")
  case (Some b)
  then show ?thesis using assms(1) by (simp add: executeBatch_def bind_throw_if)
next
  case None
  then have "with_locks [BARRIER] (batch_body prog rqs True body) en = (Inl e, en')"
    using assms(1) by (simp add: executeBatch_def bind_throw_if)
  then show ?thesis
  proof (cases rule: with_locks_cases)
    case (takes en2)
    let ?en = "en\<lparr>en_locks := en_locks en @ sort (remdups [BARRIER])\<rparr>"
    obtain x where "en2 = restore (snapshot ?en) (x\<lparr>en_batch := None\<rparr>)"
      using takes(2) assms(2) by (auto simp: batch_body_def split: prod.splits sum.splits exn.splits)
    then show ?thesis
      using takes(3) assms(2,3) restore_snapshot[of ?en "x\<lparr>en_batch := None\<rparr>"] None
      by (simp add: release_def restore_batch)
  qed (use assms(2) in simp)
qed

end
