(* ===== verification/RequestProps.thy ===== *)
theory RequestProps
  imports Requests EngineProps
begin

text \<open>
  The properties of a single request and of a batch: locks, authorization, preconditions, dry runs,
  idempotency and rollback.  The witnesses run the program of \<open>Sample\<close>.
\<close>

subsection \<open>Locks\<close>

text \<open>C11: a request that settles, with an answer or an error, holds no lock afterwards that was not held
  before it and has lost none.\<close>

theorem locks_released:
  assumes "execute prog rq en = (r, en')" and "r \<noteq> Inl Hang"
  shows "en_locks en' = en_locks en"
  by (rule sparesD[OF execute_spares(3) assms])

theorem locks_released_witness:
  "en_locks (snd (execute demo_program open_request empty_engine)) = []"
proof -
  have "\<not> isl (fst (execute demo_program open_request empty_engine))" by code_simp
  then have "fst (execute demo_program open_request empty_engine) \<noteq> Inl Hang" by auto
  with locks_released[of demo_program open_request empty_engine "fst (execute demo_program open_request empty_engine)"
      "snd (execute demo_program open_request empty_engine)"]
  show ?thesis by (simp add: empty_engine_def)
qed

subsection \<open>Dry runs and refusals\<close>

text \<open>C9: a dry run leaves nothing behind.  Whatever it is and however it ends, a request with the control
  \<open>dryRun\<close> changes no event, state, owner, projection, injected fault or remembered answer, sends no webhook
  and adds nothing to a batch.\<close>

theorem dry_run_leaves_nothing:
  assumes "rc_dryRun (ctl rq)"
  shows "lasting (snd (execute prog rq en)) = lasting en"
  using dry_execute[OF assms] by (simp add: keeps_def)

definition dry_pay :: request where
  "dry_pay = (pay_request [''teller''])\<lparr>rq_controls := Some (no_controls\<lparr>rc_dryRun := True\<rparr>)\<rparr>"

theorem dry_run_leaves_nothing_witness:
  "lasting (snd (execute demo_program dry_pay (empty_engine\<lparr>en_state := [(''a1'', [(''balance'', JNum 5)])]\<rparr>)))
     = lasting (empty_engine\<lparr>en_state := [(''a1'', [(''balance'', JNum 5)])]\<rparr>)"
  by (rule dry_run_leaves_nothing) (simp add: dry_pay_def ctl_def)

text \<open>C7: no event without authority.  A mutation whose behavior asks for scopes the actor does not have
  is refused with 401 or 403, an unknown actor included, and the engine is exactly as it was, whatever the
  host's own policy would decide.\<close>

theorem unauthorized_mutation_refused:
  assumes "check_preconditions prog bd rq target en = Inr ()" and "cm_target (rq_command rq) = Some target"
    and "byBoundaryName prog (cm_boundary (rq_command rq)) = Some bd" and "cm_depth (rq_command rq) \<le> maxDepth rq"
    and "findBehavior bd rq (command_context prog rq target en) = Inr (Some bh)"
    and "\<not> set (bh_requiredScopes bh) \<subseteq> set (case rq_actor rq of Some a \<Rightarrow> ac_scopes a | None \<Rightarrow> [])"
    and "policy_decides prog bh (command_context prog rq target en)"
  shows "\<exists>st msg body hs. st \<in> {401, 403} \<and> executeMutation again prog bd rq target en = (Inl (RuntimeExecutionError st msg body hs), en)"
proof -
  obtain st msg body hs where "assertAuthorized prog rq bh (command_context prog rq target en) = Inl (RuntimeExecutionError st msg body hs)"
    and "st \<in> {401, 403}"
    by (rule assertAuthorized_refuses[OF assms(6,7)])
  with refused_mutation[OF assms(1-5)] show ?thesis by blast
qed

lemma demo_finds_pay:
  "findBehavior demo_boundary (pay_request scopes) c = Inr (Some (plain_behavior ''pay'' ''Paid'' [''teller'']))"
proof -
  have "OperationId_parse ''pay'' = Inr ''pay''" "OperationId_parse ''open'' = Inr ''open''" by code_simp+
  then show ?thesis
    by (simp add: findBehavior_def demo_boundary_def behavior_candidate_def plain_behavior_def pay_request_def demo_request_def
        demo_command_def selectBehavior_def candidate_matches_def guards_match_def)
qed

definition demo_holder :: engine where
  "demo_holder = empty_engine\<lparr>en_state := [(''a1'', [(''balance'', JNum 5)])]\<rparr>"

theorem unauthorized_mutation_refused_witness:
  "\<exists>st msg body hs. st \<in> {401, 403} \<and>
     executeMutation (executeStep demo_program) demo_program demo_boundary (pay_request []) ''a1'' demo_holder
       = (Inl (RuntimeExecutionError st msg body hs), demo_holder)"
proof (rule unauthorized_mutation_refused[OF _ _ _ _ demo_finds_pay])
  show "check_preconditions demo_program demo_boundary (pay_request []) ''a1'' demo_holder = Inr ()" by code_simp
  show "byBoundaryName demo_program (cm_boundary (rq_command (pay_request []))) = Some demo_boundary"
    by (simp add: byBoundaryName_def demo_program_def demo_boundary_def pay_request_def demo_request_def demo_command_def)
  show "cm_depth (rq_command (pay_request [])) \<le> maxDepth (pay_request [])" by code_simp
qed (simp_all add: pay_request_def demo_request_def demo_command_def plain_behavior_def policy_decides_def demo_program_def
    no_policies_def)

subsection \<open>Retries\<close>

text \<open>C10: a retried command is not run again.  A mutation with an idempotency key \<open>k\<close>, which nothing was remembered for, has
  run to a result \<open>r\<close>, outside a batch and not as a dry run, in a program with an idempotency policy.  Then in every
  engine that still remembers the same answers, until the entry expires, a mutation that arrives under \<open>k\<close>, resolves its
  target and finds its locks free is answered \<open>r\<close>, marked as a replay, or refused with 409 where the policy
  compares bodies and the fingerprints differ; log, states, owners, projections, deliveries, answers and faults
  stay as they are.  The fingerprint leaves nested fields out (\<open>fingerprint_skips_nested_fields\<close>).\<close>

theorem retry_answers_from_memory:
  assumes first: "run_mutation again prog bd (Some k) rq en = (Inr r, en')" and "fst (recall prog (Some k) rq en) = Inr None"
    and "\<not> rc_dryRun (ctl rq)" and "en_batch en' = None" and policy: "po_idempotency (pg_policies prog) = Some p"
    and later: "memory en2 = memory en'" and "nowMsFor prog rq' < dp_nowMs (pg_deps prog) + max 1 (ttl_seconds prog) * 1000"
    and target: "resolveIdentity prog bd' rq' en2 = (Inr target, en3)"
    and free: "set (lock_keys prog (Some k) rq' target) \<inter> set (en_locks en2) = {}"
  shows "fst (run_mutation again' prog bd' (Some k) rq' en2) =
      (if ip_hashIncludesBody p \<and> idempotencyFingerprint rq \<noteq> idempotencyFingerprint rq' then Inl key_conflict else Inr (replay_cached r))
    \<and> lasting (snd (run_mutation again' prog bd' (Some k) rq' en2)) = lasting en2"
proof -
  let ?l = "en_locks en3 @ sort (remdups (lock_keys prog (Some k) rq' target))"
  let ?en = "en3\<lparr>en_locks := ?l\<rparr>"
  have mem: "memory ?en = memory en'" using keepsD[OF identity_memory target] later by (simp add: memory_def)
  have "remembered prog k (idempotencyFingerprint rq) r en'" by (rule mutation_remembers[OF first assms(2-4)])
  with mem have "remembered prog k (idempotencyFingerprint rq) r ?en" by (simp add: remembered_def memory_def)
  then have again: "recall prog (Some k) rq' ?en =
      (if ip_hashIncludesBody p \<and> idempotencyFingerprint rq \<noteq> idempotencyFingerprint rq' then (Inl key_conflict, ?en)
       else (Inr (Some (replay_cached r)), ?en))"
    using assms(7) by (intro recall_run[OF _ policy]) (simp_all add: remembered_def)
  have "en_locks en3 = en_locks en2" by (rule sparesD[OF identity_spare target]) simp
  with free have taken: "acquireMany (lock_keys prog (Some k) rq' target) en3 = (Inr (), ?en)"
    by (intro acquire_free) simp
  have "lasting ?en = lasting en2" using keepsD[OF identity_last target] by (simp add: lasting_def)
  then have kept: "lasting (release ks ?en) = lasting en2" for ks by (simp add: lasting_def release_def)
  have "key_conflict \<noteq> Hang" by (simp add: key_conflict_def coded_error_def)
  then show ?thesis
    using kept again by (simp add: run_mutation_def bind_run target with_locks_def taken split: exn.split)
qed

definition keyed_program :: program where
  "keyed_program = demo_program\<lparr>pg_policies := no_policies\<lparr>po_idempotency :=
     Some \<lparr>ip_enabled = True, ip_ttlSeconds = 60, ip_hashIncludesBody = True\<rparr>\<rparr>\<rparr>"

theorem retry_answers_from_memory_witness:
  "let first = run_mutation (executeStep keyed_program) keyed_program demo_boundary (Some ''k'') (pay_request [''teller'']) demo_holder;
       second = run_mutation (executeStep keyed_program) keyed_program demo_boundary (Some ''k'') (pay_request [''teller'']) (snd first)
   in fst second = Inr (replay_cached (projr (fst first))) \<and> lasting (snd second) = lasting (snd first)"
proof -
  let ?first = "run_mutation (executeStep keyed_program) keyed_program demo_boundary (Some ''k'') (pay_request [''teller'']) demo_holder"
  have "\<not> isl (fst ?first)" "en_batch (snd ?first) = None" by code_simp+
  then have first: "?first = (Inr (projr (fst ?first)), snd ?first)" by (cases "?first"; cases "fst ?first") auto
  have fresh: "fst (recall keyed_program (Some ''k'') (pay_request [''teller'']) demo_holder) = Inr None" by code_simp
  have time: "nowMsFor keyed_program (pay_request [''teller''])
      < dp_nowMs (pg_deps keyed_program) + max 1 (ttl_seconds keyed_program) * 1000" by code_simp
  let ?id = "resolveIdentity keyed_program demo_boundary (pay_request [''teller'']) (snd ?first)"
  have "fst ?id = Inr ''a1''" by code_simp
  then have id: "?id = (Inr ''a1'', snd ?id)" by (metis prod.collapse)
  have free: "set (lock_keys keyed_program (Some ''k'') (pay_request [''teller'']) ''a1'') \<inter> set (en_locks (snd ?first)) = {}" by code_simp
  have policy: "po_idempotency (pg_policies keyed_program) = Some \<lparr>ip_enabled = True, ip_ttlSeconds = 60, ip_hashIncludesBody = True\<rparr>"
    by (simp add: keyed_program_def)
  have dry: "\<not> rc_dryRun (ctl (pay_request [''teller'']))"
    by (simp add: ctl_def pay_request_def demo_request_def no_controls_def)
  from retry_answers_from_memory[OF first fresh dry \<open>en_batch (snd ?first) = None\<close> policy refl time id free, of "executeStep keyed_program"]
  show ?thesis by (simp add: Let_def)
qed

text \<open>The fingerprint does not see nested fields.  \<open>serialise\<close> passes the sorted top-level keys of the
  payload to \<open>JSON.stringify\<close> as its list of properties, which applies at every depth: a nested field whose
  name is no top-level key is left out, so two requests that differ in it share their fingerprint and the
  second is answered with the first one's result.\<close>

theorem fingerprint_skips_nested_fields:
  assumes "k \<notin> fst ` set m" and "k \<notin> fst ` set m'"
  shows "idempotencyFingerprint (rq\<lparr>rq_command := cm\<lparr>cm_payload := [(k, JObj m)]\<rparr>\<rparr>)
    = idempotencyFingerprint (rq\<lparr>rq_command := cm\<lparr>cm_payload := [(k, JObj m')]\<rparr>\<rparr>)"
proof -
  have "map_of (stringify_props allow m) k = None" if "k \<notin> fst ` set m" for allow m
    using that by (induction m) auto
  then have "stringify (Some [k]) (JObj m) = stringify (Some [k]) (JObj m')" using assms by (simp add: map_filter_simps)
  then show ?thesis by (simp add: idempotencyFingerprint_def serialise_def ctl_def map_filter_simps Let_def)
qed

theorem fingerprint_skips_nested_fields_witness:
  "idempotencyFingerprint ((pay_request [])\<lparr>rq_command := (demo_command ''pay'' Mutation ''a1'' [])
      \<lparr>cm_payload := [(''transfer'', JObj [(''amount'', JNum 5)])]\<rparr>\<rparr>)
   = idempotencyFingerprint ((pay_request [])\<lparr>rq_command := (demo_command ''pay'' Mutation ''a1'' [])
      \<lparr>cm_payload := [(''transfer'', JObj [(''amount'', JNum 5000)])]\<rparr>\<rparr>)"
  by (rule fingerprint_skips_nested_fields) simp_all

subsection \<open>Optimistic locking\<close>

text \<open>C6: no lost update.  When two commands carry the version the aggregate has now (\<open>If-Match\<close>) and the
  first commits an event on it, the second is refused and changes nothing.\<close>

theorem no_lost_update:
  assumes "sound_again prog again" and "ids_ok prog rq" and "versions_ok (en_events en)"
    and "executeMutation again prog bd rq target en = (Inr r, en')" and "xr_committed r"
    and "e \<in> set (xr_events r)" and "ev_aggregate e = target"
    and "cm_version (rq_command rq') = Some (mem_currentSequenceVersion target (en_events en))"
  shows "\<exists>err. executeMutation again' prog bd' rq' target en' = (Inl err, en')"
  by (rule lost_update[OF assms(1-7) _ assms(8)]) simp

definition versioned_pay :: request where
  "versioned_pay = demo_request ((demo_command ''pay'' Mutation ''a1'' [(''amount'', JNum 7)])\<lparr>cm_version := Some 1\<rparr>) [''teller'']"

theorem no_lost_update_witness:
  "\<exists>err. executeMutation (executeStep demo_program) demo_program demo_boundary versioned_pay ''a1''
      (snd (executeMutation (executeStep demo_program) demo_program demo_boundary versioned_pay ''a1'' demo_engine))
    = (Inl err, snd (executeMutation (executeStep demo_program) demo_program demo_boundary versioned_pay ''a1'' demo_engine))"
proof -
  let ?x = "executeMutation (executeStep demo_program) demo_program demo_boundary versioned_pay ''a1'' demo_engine"
  let ?e = "hd (xr_events (projr (fst ?x)))"
  have run: "\<not> isl (fst ?x)" "xr_committed (projr (fst ?x))" "xr_events (projr (fst ?x)) \<noteq> []" "ev_aggregate ?e = ''a1''"
    by code_simp+
  have version: "cm_version (rq_command versioned_pay) = Some (mem_currentSequenceVersion ''a1'' (en_events demo_engine))" by code_simp
  have result: "?x = (Inr (projr (fst ?x)), snd ?x)" using run(1) by (cases ?x; cases "fst ?x") auto
  have ids: "ids_ok demo_program versioned_pay"
    using demo_ids(2) by (simp add: ids_ok_def versioned_pay_def pay_request_def demo_request_def demo_command_def)
  show ?thesis
    by (rule no_lost_update[OF executeStep_sound ids demo_versions result run(2) hd_in_set[OF run(3)] run(4) version])
qed

subsection \<open>Batches\<close>

text \<open>C8: a failed transactional batch never happened.  If any item, or anything after the items, fails, the
  log, the states and the projections are exactly those before the batch, and no batch is left open.\<close>

theorem failed_batch_rolls_back:
  assumes "executeBatch prog rqs True body en = (Inl e, en')" and "e \<noteq> Hang" and "distinct (map fst (en_state en))"
  shows "en_events en' = en_events en \<and> en_state en' = en_state en \<and> en_projections en' = en_projections en
    \<and> en_batch en' = en_batch en"
  by (rule failed_batch[OF assms])

theorem failed_batch_rolls_back_witness:
  "en_events (snd (executeBatch demo_program [pay_request [''teller''], pay_request []] True None demo_engine)) = en_events demo_engine
   \<and> en_state (snd (executeBatch demo_program [pay_request [''teller''], pay_request []] True None demo_engine)) = en_state demo_engine"
proof -
  let ?x = "executeBatch demo_program [pay_request [''teller''], pay_request []] True None demo_engine"
  have "(case fst ?x of Inl Hang \<Rightarrow> False | Inl _ \<Rightarrow> True | Inr _ \<Rightarrow> False)" by code_simp
  then obtain e where "?x = (Inl e, snd ?x)" "e \<noteq> Hang" by (cases ?x; cases "fst ?x") (auto split: exn.splits)
  from failed_batch_rolls_back[OF this] show ?thesis by (simp add: demo_engine_def)
qed

end
