(* ===== verification/StoreProps.thy ===== *)
theory StoreProps
  imports EngineProps
begin

text \<open>
  The properties of what the engine keeps and of the loops that feed it: validated states, the reaction
  budget, sessions, webhook attempts and the JSON text of states.
\<close>

subsection \<open>Stored states\<close>

text \<open>A state that passed the validation of a boundary and of the contract.\<close>

definition valid_state :: "program \<Rightarrow> json_object \<Rightarrow> bool" where
  "valid_state prog s \<longleftrightarrow> (\<exists>bd \<in> set (pg_boundaries prog). bd_validate bd s = Inr ()
     \<and> ct_validateEntity (dp_contract (pg_deps prog)) (case bd_schema bd of Some n \<Rightarrow> n | None \<Rightarrow> bd_name bd) s = Inr ())"

definition states_valid :: "program \<Rightarrow> state_map \<Rightarrow> bool" where
  "states_valid prog S \<longleftrightarrow> (\<forall>s \<in> snd ` set S. valid_state prog s)"

lemma states_valid_set: "states_valid prog S \<Longrightarrow> valid_state prog s \<Longrightarrow> states_valid prog (omap_set i s S)"
  unfolding states_valid_def by (auto dest!: set_omap_set)

lemma states_valid_delete: "states_valid prog S \<Longrightarrow> states_valid prog (omap_delete i S)"
  unfolding states_valid_def by (auto dest!: set_omap_delete)

lemma apply_to_valid:
  assumes "apply_to prog bd hp e S = Inr S'" and "bd \<in> set (pg_boundaries prog)" and "states_valid prog S"
  shows "states_valid prog S'"
proof -
  obtain s where s: "next_state prog bd hp e (state_of S (ev_aggregate e)) = Inr s" "S' = omap_set (ev_aggregate e) s S"
    using assms(1) by (auto simp: apply_to_def)
  then have "valid_state prog s"
    using assms(2) by (auto simp: next_state_def Let_def valid_state_def)
  with s(2) assms(3) show ?thesis by (simp add: states_valid_set)
qed

lemma tx_valid:
  assumes "(tx_step prog evlog)\<^sup>*\<^sup>* t t'" and "states_valid prog (tx_states t)"
  shows "states_valid prog (tx_states t')"
  using assms
proof (induction rule: rtranclp_induct)
  case (step t1 t2)
  from step(2) step(3)[OF step(4)] show ?case
    by (cases rule: tx_step.cases)
      (auto simp: enlist_def event_fits_def dest: byBoundaryName_name intro: apply_to_valid)
qed

lemma write_all_valid:
  assumes "states_valid prog states" and "states_valid prog S"
  shows "states_valid prog (write_states states S)" and "states_valid prog (fold (\<lambda>(i, v). mem_set i v) states S)"
proof -
  have v: "states_valid prog (mem_set i v s)" if "(i, v) \<in> set states" "states_valid prog s" for i v s
    using assms(1) that by (force simp: states_valid_def mem_set_def dest!: set_omap_set)
  let ?w = "fold (\<lambda>(i, v) s. if changed (mem_get i s) v then mem_set i v s else s) states S"
  have w: "states_valid prog ?w"
    using assms(2) by (intro fold_keeps[where P = "states_valid prog"]) (auto simp: v)
  have "states_valid prog (fold (\<lambda>i s. if omap_has states i then s else mem_delete i s) ks ?w)" for ks
    by (rule fold_keeps[where P = "states_valid prog"]) (use w in \<open>auto simp: mem_delete_def intro: states_valid_delete\<close>)
  then show "states_valid prog (write_states states S)" by (simp add: write_states_def Let_def)
  show "states_valid prog (fold (\<lambda>(i, v). mem_set i v) states S)"
    using assms(2) by (intro fold_keeps[where P = "states_valid prog"]) (auto simp: v)
qed

lemma eng_valid:
  assumes "(eng_step prog)\<^sup>*\<^sup>* en en'" and "states_valid prog (en_state en)"
  shows "states_valid prog (en_state en')"
  using assms
proof (induction rule: rtranclp_induct)
  case (step en1 en2)
  then have ok: "states_valid prog (en_state en1)" by simp
  from step(2) show ?case
  proof (cases rule: eng_step.cases)
    case (committed i t r)
    have "states_valid prog (tx_states t)"
      by (rule tx_valid[OF committed(2)]) (simp add: begin_transaction_def mem_entries_def ok)
    with ok committed(1) show ?thesis by (simp add: commit_def write_all_valid)
  next
    case (replayed e bd hp states r)
    have "states_valid prog states"
      using apply_to_valid[OF replayed(5)] byBoundaryName_name[OF replayed(2)] ok by (simp add: mem_entries_def)
    with ok replayed(1) show ?thesis by (simp add: commit_replay_def write_all_valid)
  qed (use ok in \<open>simp_all add: quiet_def\<close>)
qed simp

text \<open>C14: every stored state has been validated.  Whatever requests are served, the store holds only states
  that the boundary's own validation and the entity schema of the contract accepted.\<close>

theorem stored_states_valid:
  assumes "states_valid prog (en_state en)" and "\<forall>rq \<in> set rqs. ids_ok prog rq"
  shows "states_valid prog (en_state (served prog rqs en))"
  by (rule eng_valid[OF served_steps[OF assms(2)] assms(1)])

theorem stored_states_valid_witness:
  "states_valid demo_program (en_state (served demo_program [open_request, pay_request [''teller'']] empty_engine))"
  by (rule stored_states_valid) (simp_all add: demo_ids states_valid_def empty_engine_def)

subsection \<open>Reactions\<close>

text \<open>Reactions come to an end.  A reaction may emit an event that sets off others, without bound in the
  program; the budget stops them.  The fuel of the model is above the budget, so it never cuts a run short:
  any larger fuel gives the same result.\<close>

theorem reactions_terminate:
  assumes "tx_reactionEvents t \<le> MAX_REACTION_EVENTS" and "REACTION_FUEL \<le> fuel"
  shows "enqueueReactions fuel prog evlog e src t = enqueueReactions REACTION_FUEL prog evlog e src t"
  by (rule enqueueReactions_fuel[symmetric]) (use assms in \<open>simp_all add: REACTION_FUEL_def\<close>)

theorem reactions_terminate_witness:
  "enqueueReactions 5000 demo_program [] demo_opened open_request (begin_transaction empty_engine)
    = enqueueReactions REACTION_FUEL demo_program [] demo_opened open_request (begin_transaction empty_engine)"
  by (rule reactions_terminate) (simp_all add: begin_transaction_def REACTION_FUEL_def MAX_REACTION_EVENTS_def)

text \<open>no transaction reacts more than a thousand times, whatever commands it runs and however it ends.\<close>

theorem reaction_budget:
  "tx_reactionEvents (snd (runCommands prog (en_events en) (en_state en) rq (begin_transaction en))) \<le> MAX_REACTION_EVENTS"
proof -
  have "tx_reactionEvents (begin_transaction en) \<le> MAX_REACTION_EVENTS" by (simp add: begin_transaction_def)
  then show ?thesis
    using moves_budget[OF runCommands_moves, of prog "en_events en" "en_state en" rq "begin_transaction en"]
    by (metis prod.collapse)
qed

subsection \<open>Sessions\<close>

text \<open>a session store with a cap never holds more live sessions than the cap, has one entry per
  identifier and files every session under its own.\<close>

theorem session_cap:
  assumes "session_run m now ss"
  shows "distinct (map fst ss) \<and> (\<forall>(i, s) \<in> set ss. se_id s = i) \<and> (\<forall>c. m = Some c \<longrightarrow> session_count now ss \<le> c)"
  using sessions_ok_run[OF assms] by (auto simp: sessions_ok_def)

definition one_session :: session_map where
  "one_session = [(''s'', \<lparr>se_id = ''s'', se_actor = \<lparr>ac_id = ''ann'', ac_scopes = []\<rparr>, se_createdAt = 0, se_expiresAt = 0 + 5, se_csrf = ''t''\<rparr>)]"

theorem session_cap_witness:
  "distinct (map fst one_session) \<and> session_count 0 one_session \<le> 1"
proof -
  have "session_run (Some 1) 0 one_session"
    by (rule session_run.login[OF session_run.start, of "Some 1" "\<lparr>ac_id = ''ann'', ac_scopes = []\<rparr>" 5 0 "''s''" "''t''"])
      (simp add: session_create_Inr one_session_def session_count_def)
  from session_cap[OF this] show ?thesis by simp
qed

text \<open>A login lasts until it expires.  A request that carries the session's cookie and changes nothing is
  made by the actor who logged in, until the session's time to live is over.\<close>

theorem login_lasts:
  assumes "session_mode prog" and "dp_sessions (pg_deps prog)" and "open_session prog rq a en = (Inr res, en')"
    and "request_cookie prog rq' = Some (dp_uuid (pg_deps prog) (en_ids en))" and "\<not> changing rq'"
    and "nowMsFor prog rq' < dp_nowMs (pg_deps prog) + (case sn_ttlSeconds (session_policy prog) of Some t \<Rightarrow> t | None \<Rightarrow> 3600) * 1000"
  shows "authenticate prog rq' en' = Inr (Some \<lparr>ac_id = a, ac_scopes = payload_scopes (cm_payload (rq_command rq))\<rparr>)"
proof -
  let ?ac = "\<lparr>ac_id = a, ac_scopes = payload_scopes (cm_payload (rq_command rq))\<rparr>"
  let ?ttl = "case sn_ttlSeconds (session_policy prog) of Some t \<Rightarrow> t | None \<Rightarrow> 3600"
  obtain s where s: "runtime_create None ?ac ?ttl (dp_nowMs (pg_deps prog)) (dp_uuid (pg_deps prog) (en_ids en))
      (dp_csrf (pg_deps prog) (en_tokens en)) (en_sessions en) = Inr (s, en_sessions en')"
    using assms(3) by (auto simp: open_session_def Let_def split: sum.splits)
  from mem_se.found_after_login[OF this assms(6)]
  show ?thesis using assms(1,2,4,5) by (simp add: authenticate_def csrf_missing_def)
qed

definition session_program :: program where
  "session_program = demo_program\<lparr>pg_policies := no_policies\<lparr>po_auth := Some \<lparr>au_mode = Some SessionAuth,
     au_authenticate = None, au_authorize = None, au_session = no_session_policy\<rparr>\<rparr>\<rparr>"

definition cookie_request :: request where
  "cookie_request = (demo_request ((demo_command ''list'' Query ''a1'' [])\<lparr>cm_method := ''GET''\<rparr>) [])\<lparr>rq_headers := [(''Cookie'', ''id0'')]\<rparr>"

theorem login_lasts_witness:
  "authenticate session_program cookie_request (snd (open_session session_program open_request ''bob'' empty_engine))
    = Inr (Some \<lparr>ac_id = ''bob'', ac_scopes = payload_scopes (cm_payload (rq_command open_request))\<rparr>)"
proof (rule login_lasts)
  let ?x = "open_session session_program open_request ''bob'' empty_engine"
  have "\<not> isl (fst ?x)" by code_simp
  then show "?x = (Inr (projr (fst ?x)), snd ?x)" by (cases ?x; cases "fst ?x") auto
  show "session_mode session_program" by (simp add: session_mode_def session_program_def)
  show "dp_sessions (pg_deps session_program)" by code_simp
  show "request_cookie session_program cookie_request = Some (dp_uuid (pg_deps session_program) (en_ids empty_engine))" by code_simp
  show "\<not> changing cookie_request" by code_simp
  show "nowMsFor session_program cookie_request < dp_nowMs (pg_deps session_program)
      + (case sn_ttlSeconds (session_policy session_program) of Some t \<Rightarrow> t | None \<Rightarrow> 3600) * 1000" by code_simp
qed

subsection \<open>Webhooks\<close>

text \<open>A webhook is delivered within its attempts.  When the endpoint takes the \<open>j\<close>-th attempt of a
  triggered webhook and none before it, and the policy allows that many, exactly \<open>j\<close> attempts are made, in
  order and with the same body, and the post-commit goes on.\<close>

theorem webhook_delivered:
  assumes "wh_trigger wh (webhook_context source e) = Inr True" and "wh_url wh (webhook_context source e) = Inr url"
    and "resolve_entries (wh_payload wh) (webhook_context source e) = Inr payload"
    and d: "d = \<lparr>wd_url = url, wd_body = json_stringify (JObj payload),
      wd_headers = webhook_headers prog wh (json_stringify (JObj payload)), wd_attempt = 1\<rparr>"
    and "0 < j" and "j \<le> attempt_limit wh" and "accept (d\<lparr>wd_attempt := j\<rparr>)" and "\<forall>i. 0 < i \<and> i < j \<longrightarrow> \<not> accept (d\<lparr>wd_attempt := i\<rparr>)"
  shows "deliver_event prog accept source wh e en = (Inr (), en\<lparr>en_deliveries := en_deliveries en @ numbered d j\<rparr>)"
proof -
  obtain n where n: "n \<le> attempt_limit wh"
    "deliver_from accept d (attempt_limit wh) en = (Inr (n \<noteq> 0 \<and> accept (d\<lparr>wd_attempt := wd_attempt d + (n - 1)\<rparr>)),
       en\<lparr>en_deliveries := en_deliveries en @ numbered d n\<rparr>)"
    "\<forall>i < n - 1. \<not> accept (d\<lparr>wd_attempt := wd_attempt d + i\<rparr>)"
    "n < attempt_limit wh \<longrightarrow> n \<noteq> 0 \<and> accept (d\<lparr>wd_attempt := wd_attempt d + (n - 1)\<rparr>)"
    using deliver_from_run[of "attempt_limit wh" accept d en] by blast
  have one: "wd_attempt d = 1" using d by simp
  have "n = j"
  proof (rule ccontr)
    assume "n \<noteq> j"
    then consider "n < j" | "j < n" by linarith
    then show False
    proof cases
      case 1
      then have "n \<noteq> 0" "accept (d\<lparr>wd_attempt := n\<rparr>)" using n(4) assms(6) one by auto
      then show False using 1 assms(8) by simp
    next
      case 2
      obtain m where m: "j = Suc m" using assms(5) by (cases j) simp_all
      then have "\<not> accept (d\<lparr>wd_attempt := wd_attempt d + m\<rparr>)" using n(3) 2 by simp
      then show False using assms(7) one m by simp
    qed
  qed
  with n(2) show ?thesis
    using assms(1-3) d by (simp add: deliver_event_def Let_def bind_run)
qed

definition demo_hook :: webhook where
  "demo_hook = \<lparr>wh_name = ''audit'', wh_trigger = (\<lambda>_. Inr True), wh_url = (\<lambda>_. Inr ''http://x''), wh_payload = [], wh_secret = None,
     wh_maxAttempts = None\<rparr>"

theorem webhook_delivered_witness:
  "deliver_event demo_program (\<lambda>d. 2 \<le> wd_attempt d) (match_context demo_program open_request None) demo_hook demo_opened empty_engine
   = (Inr (), empty_engine\<lparr>en_deliveries := en_deliveries empty_engine @ numbered \<lparr>wd_url = ''http://x'', wd_body = json_stringify (JObj []),
      wd_headers = webhook_headers demo_program demo_hook (json_stringify (JObj [])), wd_attempt = 1\<rparr> 2\<rparr>)"
  by (rule webhook_delivered) (simp_all add: demo_hook_def attempt_limit_def resolve_entries_def obj_from_entries_def obj_spread_def)

subsection \<open>What a commit writes\<close>

text \<open>comparing texts compares states.  A commit writes a state when its JSON text differs from the
  stored one's; for states without undefined members whose numbers are integers below 2^53 that is exactly
  when the states differ, so nothing is written needlessly and no change is missed.\<close>

theorem changed_is_different:
  assumes "printable (JObj p)" and "printable (JObj v)"
  shows "changed (Some p) v \<longleftrightarrow> p \<noteq> v"
  using json_stringify_inject[OF assms] by (auto simp: changed_def)

theorem changed_is_different_witness:
  "changed (Some [(''id'', JStr [CHR 0x22, CHR 0x5C]), (''n'', JNum (-7))]) [(''id'', JStr [CHR 0x22, CHR 0x5C]), (''n'', JNum 7)]
    \<longleftrightarrow> [(''id'', JStr [CHR 0x22, CHR 0x5C]), (''n'', JNum (-7))] \<noteq> [(''id'', JStr [CHR 0x22, CHR 0x5C]), (''n'', JNum 7)]"
  by (rule changed_is_different) code_simp+

end
