(* ===== verification/QueryProps.thy ===== *)
theory QueryProps
  imports Cursor Sample
begin

text \<open>
  The properties of a read: which rows a query may show, and how its pages fit together.
\<close>

subsection \<open>Rows\<close>

lemma set_sort_by: "set (sort_by cmp xs) = set xs" "length (sort_by cmp xs) = length xs"
proof -
  have i: "set (insert_by cmp x ys) = insert x (set ys)" "length (insert_by cmp x ys) = Suc (length ys)"
    for x :: 'a and ys and cmp :: "'a \<Rightarrow> 'a \<Rightarrow> int"
    by (induction ys) auto
  show "set (sort_by cmp xs) = set xs" "length (sort_by cmp xs) = length xs"
    unfolding sort_by_def by (induction xs) (simp_all add: i)
qed

lemma sorted_rows_set: "set (sorted_rows prog bd rq rows) = set rows" "length (sorted_rows prog bd rq rows) = length rows"
  by (auto simp: sorted_rows_def set_sort_by Let_def split: option.splits)

lemma slice_subset: "set (slice pos width xs) \<subseteq> set xs"
  by (auto simp: slice_def Let_def split: jsnum.splits dest!: in_set_takeD in_set_dropD)

lemma r_filter_subset: "r_filter p xs = Inr ys \<Longrightarrow> set ys \<subseteq> set xs"
  by (auto dest!: r_filter_Inr)

lemma stage_subset: "(case f of None \<Rightarrow> Inr xs | Some g \<Rightarrow> r_filter (p g) xs) = Inr ys \<Longrightarrow> set ys \<subseteq> set xs"
  by (cases f) (auto dest: r_filter_subset)

lemma filtered_subset:
  assumes "filtered_rows prog bd rq en = Inr rows" and "r \<in> set rows"
  shows "r \<in> set (candidate_rows bd rq en)" and "\<not> includes_deleted (bd_query bd) rq \<Longrightarrow> obj_get (snd r) ''_deleted'' \<noteq> JBool True"
proof -
  obtain as bs cs where
    "(case Option.bind (bd_query bd) qp_filter of None \<Rightarrow> Inr (candidate_rows bd rq en)
       | Some f \<Rightarrow> r_filter (\<lambda>r. f (query_context prog rq (snd r))) (candidate_rows bd rq en)) = Inr as"
    "(case bd_queryMapping bd of None \<Rightarrow> Inr as | Some m \<Rightarrow> r_filter (mapping_matches prog rq m) as) = Inr bs"
    "(case Option.bind (bd_query bd) qp_fields of None \<Rightarrow> Inr bs | Some m \<Rightarrow> r_filter (fields_match prog rq m) bs) = Inr cs"
    and rows: "rows = filter (text_matches rq) (filter (operators_match rq)
      (if includes_deleted (bd_query bd) rq then cs else filter (\<lambda>r. obj_get (snd r) ''_deleted'' \<noteq> JBool True) cs))"
    using assms(1) unfolding filtered_rows_def Let_def rbind_Inr_iff by blast
  note subs = this(1-3)[THEN stage_subset]
  have "set cs \<subseteq> set (candidate_rows bd rq en)"
    using subs(3) subs(2) subs(1) by (meson order_trans)
  moreover have "r \<in> set cs" "\<not> includes_deleted (bd_query bd) rq \<Longrightarrow> obj_get (snd r) ''_deleted'' \<noteq> JBool True"
    using assms(2) unfolding rows by (simp_all split: if_splits)
  ultimately show "r \<in> set (candidate_rows bd rq en)"
    "\<not> includes_deleted (bd_query bd) rq \<Longrightarrow> obj_get (snd r) ''_deleted'' \<noteq> JBool True"
    by blast+
qed

text \<open>A query shows only what is there to be seen.  Every row of a page is a state of the store, of the
  queried boundary unless the boundary falls back to the whole graph, of the queried entity when there is
  one, and not marked deleted unless deleted rows were asked for.\<close>

theorem query_shows_own_rows:
  assumes "filtered_rows prog bd rq en = Inr entries" and "(i, v) \<in> set (slice pos width (sorted_rows prog bd rq entries))"
  shows "(i, v) \<in> set (en_state en)
    \<and> (graph_fallback bd \<or> omap_get (en_boundaries en) i = Some (bd_name bd))
    \<and> (cm_target (rq_command rq) = None \<or> cm_target (rq_command rq) = Some i)
    \<and> (includes_deleted (bd_query bd) rq \<or> obj_get v ''_deleted'' \<noteq> JBool True)"
proof -
  have "(i, v) \<in> set entries"
    using subsetD[OF slice_subset assms(2)] by (simp add: sorted_rows_set)
  from filtered_subset[OF assms(1) this] show ?thesis by (auto simp: candidate_rows_def mem_entries_def)
qed

definition demo_store :: engine where
  "demo_store = empty_engine\<lparr>en_state := [(''a1'', [(''id'', JStr ''a1'')]), (''b1'', [(''id'', JStr ''b1'')]), (''a2'', [(''id'', JStr ''a2'')]),
       (''a3'', [(''id'', JStr ''a3''), (''_deleted'', JBool True)]), (''a4'', [(''id'', JStr ''a4'')])],
     en_boundaries := [(''a1'', ''account''), (''b1'', ''branch''), (''a2'', ''account''), (''a3'', ''account''), (''a4'', ''account'')]\<rparr>"

definition demo_query :: "query \<Rightarrow> request" where
  "demo_query q = demo_request ((demo_command ''list'' Query ''a1'' [])\<lparr>cm_target := None, cm_query := q, cm_method := ''GET''\<rparr>) []"

theorem query_shows_own_rows_witness:
  "(''a2'', [(''id'', JStr ''a2'')]) \<in> set (en_state demo_store)
    \<and> omap_get (en_boundaries demo_store) ''a2'' = Some (bd_name demo_boundary)
    \<and> obj_get [(''id'', JStr ''a2'')] ''_deleted'' \<noteq> JBool True"
proof -
  have f: "filtered_rows demo_program demo_boundary (demo_query []) demo_store
      = Inr [(''a1'', [(''id'', JStr ''a1'')]), (''a2'', [(''id'', JStr ''a2'')]), (''a4'', [(''id'', JStr ''a4'')])]" by code_simp
  have m: "(''a2'', [(''id'', JStr ''a2'')]) \<in> set (slice 1 (Fin 1) (sorted_rows demo_program demo_boundary (demo_query [])
      [(''a1'', [(''id'', JStr ''a1'')]), (''a2'', [(''id'', JStr ''a2'')]), (''a4'', [(''id'', JStr ''a4'')])]))" by code_simp
  have g: "graph_fallback demo_boundary = False" by code_simp
  have d: "includes_deleted (bd_query demo_boundary) (demo_query []) = False" by code_simp
  from query_shows_own_rows[OF f m] g d show ?thesis by blast
qed

subsection \<open>Pages\<close>




lemma slice_nat:
  assumes "k + n \<le> 2 ^ 53"
  shows "slice (of_nat k) (Fin (of_nat n)) xs = take n (drop k xs)"
proof -
  have "js_add (of_int (int k)) (of_int (int n)) = of_int (int k + int n)"
    by (rule js_add_exact) (use assms of_nat_mono[OF assms, where 'a = int] in simp)
  then have "\<lfloor>js_add (of_nat k) (of_nat n)\<rfloor> = int (k + n)" by simp
  then have "nat \<lfloor>js_add (of_nat k) (of_nat n)\<rfloor> = k + n" by (simp only: nat_int)
  then show ?thesis by (simp add: slice_def)
qed














text \<open>a page is never longer than the policy's maximum, whatever limit is asked for: a number, an
  infinity, or no number at all.\<close>

theorem page_within_maximum:
  assumes "Option.bind (bd_query bd) qp_maxPageSize = Some (of_nat m)" and "k + m \<le> 2 ^ 53"
    and "\<forall>x. requested = Fin x \<longrightarrow> x = of_int \<lfloor>x\<rfloor>"
  shows "length (slice (of_nat k) (page_size bd requested (length rows)) rows) \<le> m"
proof -
  obtain n where n: "page_size bd requested (length rows) = Fin (of_nat n)" "n \<le> m"
  proof -
    have whole: "\<exists>n. num_max (Fin 0) (num_min (Fin (of_int i)) (Fin (of_nat m))) = Fin (of_nat n) \<and> n \<le> m" for i
    proof (rule exI[of _ "nat (max 0 (min i (int m)))"])
      show "num_max (Fin 0) (num_min (Fin (of_int i)) (Fin (of_nat m))) = Fin (of_nat (nat (max 0 (min i (int m)))))
          \<and> nat (max 0 (min i (int m))) \<le> m"
        by (cases "i < 0"; cases "int m < i") (auto simp: num_max_def num_min_def num_less_def)
    qed
    have "page_size bd requested (length rows) = num_max (Fin 0) (num_min (Fin (of_int i)) (Fin (of_nat m)))"
      if "(if is_finite requested then requested else Fin (of_nat (length rows))) = Fin (of_int i)" for i
      using assms(1) that by (simp add: page_size_def Let_def)
    moreover have "\<exists>i. (if is_finite requested then requested else Fin (of_nat (length rows))) = Fin (of_int i)"
      using assms(3) by (cases requested) (auto simp: is_finite_def intro: exI[of _ "int (length rows)"])
    ultimately show thesis using whole that by metis
  qed
  have "length (slice (of_nat k) (Fin (of_nat n)) rows) \<le> n" by (subst slice_nat) (use n(2) assms(2) in simp_all)
  with n show ?thesis by simp
qed

definition capped_boundary :: boundary where
  "capped_boundary = demo_boundary\<lparr>bd_query := Some \<lparr>qp_fields = None, qp_filter = None, qp_sort = None, qp_pageSize = None,
     qp_maxPageSize = Some 2, qp_cursor = None, qp_expand = [], qp_envelope = True, qp_includeDeleted = False, qp_fallback = None\<rparr>\<rparr>"

theorem page_within_maximum_witness:
  "length (slice (of_nat 0) (page_size capped_boundary PosInf (length [1, 2, 3, 4, 5 :: nat])) [1, 2, 3, 4, 5 :: nat]) \<le> 2"
  by (rule page_within_maximum) (simp_all add: capped_boundary_def)

text \<open>A limit that is no number.  Without a maximum, \<open>limit=abc\<close> makes the page size \<open>NaN\<close>: the page is
  empty however many rows there are, and it says that there are more without a cursor to reach them.\<close>

theorem limit_not_a_number:
  assumes "Option.bind (bd_query bd) qp_maxPageSize = None" and "rows \<noteq> []" and "length rows \<le> 2 ^ 53"
  shows "slice 0 (page_size bd NaN (length rows)) rows = []
    \<and> page_body [] entries (length rows) 0 (page_size bd NaN (length rows)) False
      = JObj [(''items'', JArr []), (''totalCount'', JNum (of_nat (length rows))), (''offset'', JNum 0), (''limit'', JNull), (''hasMore'', JBool True)]"
proof -
  have nan: "page_size bd NaN (length rows) = NaN"
    using assms(1) by (simp add: page_size_def num_min_def num_max_def Let_def)
  have "js_add 0 0 = 0" using js_add_exact[of 0 0] by simp
  then show ?thesis using assms(2) by (simp add: nan slice_def page_body_def size_json_def)
qed

theorem limit_not_a_number_witness:
  "slice 0 (page_size demo_boundary NaN (length [(''a1'', []) :: row])) [(''a1'', []) :: row] = []
    \<and> page_body [] [] (length [(''a1'', []) :: row]) 0 (page_size demo_boundary NaN (length [(''a1'', []) :: row])) False
      = JObj [(''items'', JArr []), (''totalCount'', JNum (of_nat (length [(''a1'', []) :: row]))), (''offset'', JNum 0), (''limit'', JNull), (''hasMore'', JBool True)]"
  by (rule limit_not_a_number) (simp_all add: demo_boundary_def)

end
