(* ===== verification/CelNumber.thy ===== *)
theory CelNumber
  imports Numbers
begin

text \<open>
  Binary64 arithmetic with infinities and NaN, as JavaScript's operators and \<open>Math\<close> have it.  The sign
  of a zero is left out: the sources divide only after refusing a zero divisor, so nothing shows it.
\<close>

definition jn :: "rat \<Rightarrow> jsnum" where
  "jn x = (let y = round64 x in if 2 ^ 1024 \<le> y then PosInf else if y \<le> - (2 ^ 1024) then NegInf else Fin y)"

fun jn_neg :: "jsnum \<Rightarrow> jsnum" where
  "jn_neg (Fin x) = Fin (- x)" | "jn_neg PosInf = NegInf" | "jn_neg NegInf = PosInf" | "jn_neg NaN = NaN"

fun jn_add :: "jsnum \<Rightarrow> jsnum \<Rightarrow> jsnum" where
  "jn_add (Fin a) (Fin b) = jn (a + b)"
| "jn_add NaN b = NaN" | "jn_add a NaN = NaN"
| "jn_add PosInf NegInf = NaN" | "jn_add NegInf PosInf = NaN"
| "jn_add PosInf b = PosInf" | "jn_add NegInf b = NegInf"
| "jn_add a PosInf = PosInf" | "jn_add a NegInf = NegInf"

definition jn_sub :: "jsnum \<Rightarrow> jsnum \<Rightarrow> jsnum" where
  "jn_sub a b = jn_add a (jn_neg b)"

definition jn_sign :: "jsnum \<Rightarrow> int" where
  "jn_sign a = (case a of Fin x \<Rightarrow> (if x < 0 then -1 else if x = 0 then 0 else 1) | PosInf \<Rightarrow> 1 | NegInf \<Rightarrow> -1 | NaN \<Rightarrow> 0)"

definition jn_mul :: "jsnum \<Rightarrow> jsnum \<Rightarrow> jsnum" where
  "jn_mul a b = (case (a, b) of
      (Fin x, Fin y) \<Rightarrow> jn (x * y)
    | _ \<Rightarrow> if a = NaN \<or> b = NaN \<or> jn_sign a * jn_sign b = 0 then NaN else if 0 < jn_sign a * jn_sign b then PosInf else NegInf)"

definition jn_div :: "jsnum \<Rightarrow> jsnum \<Rightarrow> jsnum" where
  "jn_div a b = (case (a, b) of
      (Fin x, Fin y) \<Rightarrow> if y = 0 then (if x = 0 then NaN else if 0 < x then PosInf else NegInf) else jn (x / y)
    | (Fin x, NaN) \<Rightarrow> NaN
    | (Fin x, _) \<Rightarrow> Fin 0
    | (NaN, _) \<Rightarrow> NaN
    | (_, Fin y) \<Rightarrow> if jn_sign a * jn_sign b < 0 then NegInf else PosInf
    | _ \<Rightarrow> NaN)"

definition rat_trunc :: "rat \<Rightarrow> int" where
  "rat_trunc x = (if x < 0 then \<lceil>x\<rceil> else \<lfloor>x\<rfloor>)"

definition jn_mod :: "jsnum \<Rightarrow> jsnum \<Rightarrow> jsnum" where
  "jn_mod a b = (case (a, b) of
      (Fin x, Fin y) \<Rightarrow> if y = 0 then NaN else Fin (x - y * of_int (rat_trunc (x / y)))
    | (Fin x, NaN) \<Rightarrow> NaN
    | (Fin x, _) \<Rightarrow> Fin x
    | _ \<Rightarrow> NaN)"

fun jn_less :: "jsnum \<Rightarrow> jsnum \<Rightarrow> bool" where
  "jn_less (Fin a) (Fin b) = (a < b)"
| "jn_less NaN b = False" | "jn_less a NaN = False"
| "jn_less NegInf b = (b \<noteq> NegInf)" | "jn_less a NegInf = False"
| "jn_less PosInf b = False" | "jn_less a PosInf = True"

definition jn_eq :: "jsnum \<Rightarrow> jsnum \<Rightarrow> bool" where
  "jn_eq a b \<longleftrightarrow> a = b \<and> a \<noteq> NaN"

definition jn_le :: "jsnum \<Rightarrow> jsnum \<Rightarrow> bool" where
  "jn_le a b \<longleftrightarrow> jn_less a b \<or> jn_eq a b"

text \<open>\<open>Math.trunc\<close>, \<open>floor\<close>, \<open>ceil\<close>, \<open>round\<close> and \<open>abs\<close>, and \<open>Number.isInteger\<close>.\<close>

definition jn_map :: "(rat \<Rightarrow> rat) \<Rightarrow> jsnum \<Rightarrow> jsnum" where
  "jn_map f a = (case a of Fin x \<Rightarrow> Fin (f x) | _ \<Rightarrow> a)"

definition jn_trunc :: "jsnum \<Rightarrow> jsnum" where "jn_trunc = jn_map (\<lambda>x. of_int (rat_trunc x))"
definition jn_floor :: "jsnum \<Rightarrow> jsnum" where "jn_floor = jn_map (\<lambda>x. of_int \<lfloor>x\<rfloor>)"
definition jn_ceil :: "jsnum \<Rightarrow> jsnum" where "jn_ceil = jn_map (\<lambda>x. of_int \<lceil>x\<rceil>)"
definition jn_round :: "jsnum \<Rightarrow> jsnum" where "jn_round = jn_map (\<lambda>x. of_int \<lfloor>x + 1 / 2\<rfloor>)"

definition jn_abs :: "jsnum \<Rightarrow> jsnum" where
  "jn_abs a = (if jn_sign a < 0 then jn_neg a else a)"

definition jn_is_int :: "jsnum \<Rightarrow> bool" where
  "jn_is_int a \<longleftrightarrow> (case a of Fin x \<Rightarrow> of_int \<lfloor>x\<rfloor> = x | _ \<Rightarrow> False)"

definition jn_nat :: "nat \<Rightarrow> jsnum" where "jn_nat n = Fin (of_nat n)"

text \<open>\<open>Math.min\<close> and \<open>Math.max\<close> of a list.\<close>

definition jn_min :: "jsnum list \<Rightarrow> jsnum" where
  "jn_min xs = (if NaN \<in> set xs then NaN else foldl (\<lambda>m x. if jn_less x m then x else m) PosInf xs)"

definition jn_max :: "jsnum list \<Rightarrow> jsnum" where
  "jn_max xs = (if NaN \<in> set xs then NaN else foldl (\<lambda>m x. if jn_less m x then x else m) NegInf xs)"

text \<open>\<open>String(x)\<close>.\<close>

definition jn_text :: "jsnum \<Rightarrow> string" where
  "jn_text a = (case a of Fin x \<Rightarrow> num_string x | PosInf \<Rightarrow> ''Infinity'' | NegInf \<Rightarrow> ''-Infinity'' | NaN \<Rightarrow> ''NaN'')"

subsection \<open>Integers\<close>

lemma jn_int [simp]: "\<bar>i\<bar> \<le> 2 ^ 53 \<Longrightarrow> jn (of_int i) = Fin (of_int i)"
proof -
  assume a: "\<bar>i\<bar> \<le> 2 ^ 53"
  have "\<bar>of_int i :: rat\<bar> \<le> of_int (2 ^ 53)" using a by (simp only: of_int_abs[symmetric] of_int_le_iff)
  moreover have "(of_int (2 ^ 53) :: rat) < 2 ^ 1024" by simp
  ultimately have "\<bar>of_int i :: rat\<bar> < 2 ^ 1024" by linarith
  then have "\<not> 2 ^ 1024 \<le> (of_int i :: rat)" "\<not> (of_int i :: rat) \<le> - (2 ^ 1024)" by linarith+
  then show ?thesis by (simp add: jn_def Let_def round64_int[OF a])
qed

lemma jn_add_int: "\<bar>a + b\<bar> \<le> 2 ^ 53 \<Longrightarrow> jn_add (Fin (of_int a)) (Fin (of_int b)) = Fin (of_int (a + b))"
  using jn_int[of "a + b"] by simp

lemma jn_mul_int: "\<bar>a * b\<bar> \<le> 2 ^ 53 \<Longrightarrow> jn_mul (Fin (of_int a)) (Fin (of_int b)) = Fin (of_int (a * b))"
  using jn_int[of "a * b"] by (simp add: jn_mul_def)

end
