(* ===== verification/CelAst.thy ===== *)
theory CelAst
  imports CelNumber
begin

text \<open>
  The expression language of scenarios: its abstract syntax (\<open>cel/grammar/ast.ts\<close>).  An operator is
  the text the parser gives it; a number literal is whatever \<open>parseFloat\<close> returned.
\<close>

datatype comprehension_kind = CAll | CExists | CExistsOne | CFilter | CMap

datatype literal = LStr string | LNum jsnum | LBool bool | LNull

datatype expr =
    Literal literal
  | Ident string
  | Member expr expr
  | NullSafeMember expr expr
  | Call string "expr list"
  | Method expr string "expr list"
  | NullSafeMethod expr string "expr list"
  | Comprehension comprehension_kind expr string expr bool
  | Unary string expr
  | Binary string expr expr
  | Ternary expr expr expr
  | ArrayLit "expr list"
  | ObjectLit "(expr \<times> expr) list"

definition STRING_METHODS :: "string list" where
  "STRING_METHODS = [''startsWith'', ''endsWith'', ''contains'', ''size'', ''matches'', ''replace'', ''split'',
     ''substring'', ''indexOf'', ''lastIndexOf'', ''lowerAscii'', ''upperAscii'', ''trim'', ''trimStart'', ''trimEnd'',
     ''charAt'']"

definition LIST_METHODS :: "string list" where
  "LIST_METHODS = [''size'', ''contains'', ''indexOf'', ''lastIndexOf'', ''sort'', ''reverse'', ''join'', ''flatten'',
     ''distinct'']"

definition MAP_METHODS :: "string list" where
  "MAP_METHODS = [''size'', ''has'', ''keys'', ''values'']"

definition COMPREHENSION_METHODS :: "(string \<times> comprehension_kind) list" where
  "COMPREHENSION_METHODS = [(''all'', CAll), (''exists'', CExists), (''exists_one'', CExistsOne), (''filter'', CFilter),
     (''map'', CMap)]"

definition comprehension_kind_of :: "string \<Rightarrow> comprehension_kind option" where
  "comprehension_kind_of name = map_of COMPREHENSION_METHODS name"

definition RECEIVER_METHODS :: "string list" where
  "RECEIVER_METHODS = STRING_METHODS @ LIST_METHODS @ MAP_METHODS @ map fst COMPREHENSION_METHODS"

end
