(* ===== verification/CelLexer.thy ===== *)
theory CelLexer
  imports CelAst
begin

text \<open>
  The lexer (\<open>cel/grammar/lexer.ts\<close>): terminals, positions and \<open>lex\<close>.  A step of \<open>lex\<close> is one round of
  its loop: it skips a character of white space or cuts one token off the rest of the source.
\<close>

subsection \<open>Tokens\<close>

datatype terminal =
    NUMBER | STRING | BOOL | NULL | IDENT
  | T_eq | T_ne | T_le | T_ge | T_and | T_or | T_qdot | T_qbrack
  | T_lt | T_gt | T_plus | T_minus | T_star | T_slash | T_percent | T_bang
  | T_lpar | T_rpar | T_lbrack | T_rbrack | T_lbrace | T_rbrace
  | T_comma | T_dot | T_colon | T_quest | T_in | T_end

fun terminal_text :: "terminal \<Rightarrow> string" where
  "terminal_text NUMBER = ''NUMBER''" | "terminal_text STRING = ''STRING''"
| "terminal_text BOOL = ''BOOL''" | "terminal_text NULL = ''NULL''" | "terminal_text IDENT = ''IDENT''"
| "terminal_text T_eq = ''==''" | "terminal_text T_ne = ''!=''" | "terminal_text T_le = ''<=''"
| "terminal_text T_ge = ''>=''" | "terminal_text T_and = ''&&''" | "terminal_text T_or = ''||''"
| "terminal_text T_qdot = ''?.''" | "terminal_text T_qbrack = ''?[''" | "terminal_text T_lt = ''<''"
| "terminal_text T_gt = ''>''" | "terminal_text T_plus = ''+''" | "terminal_text T_minus = ''-''"
| "terminal_text T_star = ''*''" | "terminal_text T_slash = ''/''" | "terminal_text T_percent = ''%''"
| "terminal_text T_bang = ''!''" | "terminal_text T_lpar = ''(''" | "terminal_text T_rpar = '')''"
| "terminal_text T_lbrack = ''[''" | "terminal_text T_rbrack = '']''" | "terminal_text T_lbrace = ''{''"
| "terminal_text T_rbrace = ''}''" | "terminal_text T_comma = '',''" | "terminal_text T_dot = ''.''"
| "terminal_text T_colon = '':''" | "terminal_text T_quest = ''?''" | "terminal_text T_in = ''in''"
| "terminal_text T_end = ''$end''"

record position =
  p_line :: nat
  p_col :: nat
  p_offset :: nat

datatype tok_value = TStr string | TNum jsnum | TBool bool

record token =
  tk_type :: terminal
  tk_value :: "tok_value option"
  tk_pos :: position

datatype lex_error = LexError string position

subsection \<open>Characters\<close>

definition isIdentStart :: "char \<Rightarrow> bool" where
  "isIdentStart c \<longleftrightarrow> (65 \<le> code c \<and> code c \<le> 90) \<or> (97 \<le> code c \<and> code c \<le> 122) \<or> c = CHR ''_'' \<or> c = CHR ''$''"

definition isIdentPart :: "char \<Rightarrow> bool" where
  "isIdentPart c \<longleftrightarrow> isIdentStart c \<or> is_digit c"

definition twoCharacterTerminal :: "string \<Rightarrow> terminal option" where
  "twoCharacterTerminal s = map_of [(''=='', T_eq), (''!='', T_ne), (''<='', T_le), (''>='', T_ge), (''&&'', T_and),
     (''||'', T_or)] s"

definition singleCharacterTerminal :: "char \<Rightarrow> terminal option" where
  "singleCharacterTerminal c = map_of [(CHR ''<'', T_lt), (CHR ''>'', T_gt), (CHR ''+'', T_plus), (CHR ''-'', T_minus),
     (CHR ''*'', T_star), (CHR ''/'', T_slash), (CHR ''%'', T_percent), (CHR ''!'', T_bang), (CHR ''('', T_lpar),
     (CHR '')'', T_rpar), (CHR ''['', T_lbrack), (CHR '']'', T_rbrack), (CHR ''{'', T_lbrace), (CHR ''}'', T_rbrace),
     (CHR '','', T_comma), (CHR ''.'', T_dot), (CHR '':'', T_colon), (CHR ''?'', T_quest)] c"

text \<open>\<open>advance\<close> moves past one character; \<open>advances\<close> past several.\<close>

definition adv :: "char \<Rightarrow> position \<Rightarrow> position" where
  "adv c p = (if code c = 10 then \<lparr>p_line = p_line p + 1, p_col = 1, p_offset = p_offset p + 1\<rparr>
     else p\<lparr>p_col := p_col p + 1, p_offset := p_offset p + 1\<rparr>)"

definition advances :: "string \<Rightarrow> position \<Rightarrow> position" where
  "advances s p = foldl (\<lambda>q c. adv c q) p s"

definition pos0 :: position where
  "pos0 = \<lparr>p_line = 1, p_col = 1, p_offset = 0\<rparr>"

subsection \<open>Literals\<close>

definition unescape :: "char \<Rightarrow> char" where
  "unescape c = (if c = CHR ''n'' then CHR 0x0A else if c = CHR ''t'' then CHR 0x09 else if c = CHR ''r'' then CHR 0x0D else c)"

text \<open>The rest of a literal after its first quote: its value and what it takes of the source; \<open>None\<close> when unclosed.\<close>

fun string_body :: "char \<Rightarrow> string \<Rightarrow> (string \<times> string) option" where
  "string_body q [] = None"
| "string_body q [c] = (if c = q then Some ([], [c]) else None)"
| "string_body q (c # d # s) =
     (if c = q then Some ([], [c])
      else if c = CHR 0x5C then map_option (\<lambda>(v, r). (unescape d # v, c # d # r)) (string_body q s)
      else map_option (\<lambda>(v, r). (c # v, c # r)) (string_body q (d # s)))"

definition raw_body :: "char \<Rightarrow> string \<Rightarrow> (string \<times> string) option" where
  "raw_body q s = (let v = takeWhile (\<lambda>c. c \<noteq> q) s in if v = s then None else Some (v, v @ [q]))"

text \<open>\<open>parseFloat\<close> on a run of digits and dots after an optional minus: the text after a second dot is ignored.\<close>

definition parseFloat :: "string \<Rightarrow> jsnum" where
  "parseFloat n =
     (let neg = (n \<noteq> [] \<and> hd n = CHR ''-''); u = (if neg then tl n else n);
          ds = takeWhile is_digit u; r = dropWhile is_digit u;
          fs = (if r \<noteq> [] \<and> hd r = CHR ''.'' then takeWhile is_digit (tl r) else [])
      in case js_fin (dec_value ds fs 0) of Fin x \<Rightarrow> Fin (if neg then - x else x) | x \<Rightarrow> (if neg then NegInf else x))"

definition number_run :: "string \<Rightarrow> string" where
  "number_run s = (case s of
      [] \<Rightarrow> []
    | c # t \<Rightarrow> if c = CHR ''-'' then c # takeWhile (\<lambda>d. is_digit d \<or> d = CHR ''.'') t
               else takeWhile (\<lambda>d. is_digit d \<or> d = CHR ''.'') s)"

definition word_token :: "string \<Rightarrow> position \<Rightarrow> token" where
  "word_token w p =
     (if w = ''true'' then \<lparr>tk_type = BOOL, tk_value = Some (TBool True), tk_pos = p\<rparr>
      else if w = ''false'' then \<lparr>tk_type = BOOL, tk_value = Some (TBool False), tk_pos = p\<rparr>
      else if w = ''null'' then \<lparr>tk_type = NULL, tk_value = None, tk_pos = p\<rparr>
      else if w = ''in'' then \<lparr>tk_type = T_in, tk_value = None, tk_pos = p\<rparr>
      else \<lparr>tk_type = IDENT, tk_value = Some (TStr w), tk_pos = p\<rparr>)"

subsection \<open>\<open>lex\<close>\<close>

definition next_is :: "(char \<Rightarrow> bool) \<Rightarrow> string \<Rightarrow> bool" where
  "next_is P s \<longleftrightarrow> (case s of [] \<Rightarrow> False | c # _ \<Rightarrow> P c)"

definition is_quote :: "char \<Rightarrow> bool" where
  "is_quote c \<longleftrightarrow> c = CHR 0x22 \<or> c = CHR 0x27"

text \<open>One round at a character \<open>c\<close> followed by \<open>s\<close>: the token, if any, and the text it is cut from.\<close>

definition string_token :: "string \<Rightarrow> position \<Rightarrow> string \<Rightarrow> (string \<times> string) option \<Rightarrow> lex_error + (token option \<times> string)" where
  "string_token kind p lead body = (case body of
      None \<Rightarrow> Inl (LexError (''CEL_PARSE_ERROR: unclosed '' @ kind @ '' literal starting at position '' @ dec (p_offset p)) p)
    | Some (v, taken) \<Rightarrow> Inr (Some \<lparr>tk_type = STRING, tk_value = Some (TStr v), tk_pos = p\<rparr>, lead @ taken))"

definition operator_token :: "char \<Rightarrow> string \<Rightarrow> position \<Rightarrow> lex_error + (token option \<times> string)" where
  "operator_token c s p =
     (let two = take 2 (c # s); op = (\<lambda>t text. Inr (Some \<lparr>tk_type = t, tk_value = None, tk_pos = p\<rparr>, text))
      in case twoCharacterTerminal two of
           Some t \<Rightarrow> op t two
         | None \<Rightarrow>
             if two = ''?.'' then op T_qdot two
             else if two = ''?['' then op T_qbrack two
             else (case singleCharacterTerminal c of
                 Some t \<Rightarrow> op t [c]
               | None \<Rightarrow> Inl (LexError (''CEL_TOKENIZE: unexpected character '' @ [CHR 0x27, c, CHR 0x27] @ '' at position ''
                   @ dec (p_offset p)) p)))"

definition lex_step :: "char \<Rightarrow> string \<Rightarrow> position \<Rightarrow> lex_error + (token option \<times> string)" where
  "lex_step c s p =
     (if is_ws c then Inr (None, [c])
      else if is_quote c then string_token ''string'' p [c] (string_body c s)
      else if c = CHR ''r'' \<and> next_is is_quote s then string_token ''raw string'' p [c, hd s] (raw_body (hd s) (tl s))
      else if is_digit c \<or> (c = CHR ''-'' \<and> next_is is_digit s) then
        (let n = number_run (c # s) in Inr (Some \<lparr>tk_type = NUMBER, tk_value = Some (TNum (parseFloat n)), tk_pos = p\<rparr>, n))
      else if isIdentStart c then
        (let w = takeWhile isIdentPart (c # s) in Inr (Some (word_token w p), w))
      else operator_token c s p)"

definition end_token :: "position \<Rightarrow> token" where
  "end_token p = \<lparr>tk_type = T_end, tk_value = None, tk_pos = p\<rparr>"

definition tok_list :: "token option \<Rightarrow> token list" where
  "tok_list t = (case t of None \<Rightarrow> [] | Some t \<Rightarrow> [t])"

subsection \<open>A round takes a non-empty piece off the front of the source\<close>

lemma string_body_prefix: "string_body q s = Some (v, r) \<Longrightarrow> r \<noteq> [] \<and> (\<exists>t. s = r @ t)"
proof (induction q s arbitrary: v r rule: string_body.induct)
  case (3 q c d s)
  then show ?case by (auto split: if_splits)
qed (auto split: if_splits)

lemma raw_body_prefix: "raw_body q s = Some (v, r) \<Longrightarrow> r \<noteq> [] \<and> (\<exists>t. s = r @ t)"
proof -
  assume a: "raw_body q s = Some (v, r)"
  then have n: "takeWhile (\<lambda>c. c \<noteq> q) s \<noteq> s" and r: "r = takeWhile (\<lambda>c. c \<noteq> q) s @ [q]"
    by (auto simp: raw_body_def Let_def split: if_splits)
  from n have "dropWhile (\<lambda>c. c \<noteq> q) s \<noteq> []" by (metis append.right_neutral takeWhile_dropWhile_id)
  then obtain t where "dropWhile (\<lambda>c. c \<noteq> q) s = q # t"
    by (metis (mono_tags, lifting) hd_dropWhile list.collapse)
  with r have "s = r @ t" by (metis append.assoc append_Cons append_Nil takeWhile_dropWhile_id)
  with r show ?thesis by blast
qed

lemma takeWhile_prefix: "\<exists>t. s = takeWhile P s @ t"
  by (metis takeWhile_dropWhile_id)

lemma lex_step_prefix:
  assumes "lex_step c s p = Inr (t, r)"
  shows "r \<noteq> [] \<and> (\<exists>u. c # s = r @ u)"
proof -
  have st: "string_token k p lead b = Inr (t, r) \<Longrightarrow> (\<And>v w. b = Some (v, w) \<Longrightarrow> \<exists>u. c # s = lead @ w @ u) \<Longrightarrow>
      lead \<noteq> [] \<Longrightarrow> ?thesis" for k lead b
    by (auto simp: string_token_def split: option.splits)
  consider "is_ws c" | "\<not> is_ws c" "is_quote c" | "\<not> is_ws c" "\<not> is_quote c" "c = CHR ''r'' \<and> next_is is_quote s"
    | "\<not> is_ws c" "\<not> is_quote c" "\<not> (c = CHR ''r'' \<and> next_is is_quote s)" "is_digit c \<or> (c = CHR ''-'' \<and> next_is is_digit s)"
    | "\<not> is_ws c" "\<not> is_quote c" "\<not> (c = CHR ''r'' \<and> next_is is_quote s)" "\<not> (is_digit c \<or> (c = CHR ''-'' \<and> next_is is_digit s))"
      "isIdentStart c"
    | "\<not> is_ws c" "\<not> is_quote c" "\<not> (c = CHR ''r'' \<and> next_is is_quote s)" "\<not> (is_digit c \<or> (c = CHR ''-'' \<and> next_is is_digit s))"
      "\<not> isIdentStart c"
    by blast
  then show ?thesis
  proof cases
    case 1 with assms show ?thesis by (auto simp: lex_step_def)
  next
    case 2
    then have "string_token ''string'' p [c] (string_body c s) = Inr (t, r)" using assms by (simp add: lex_step_def)
    then show ?thesis by (rule st) (use string_body_prefix in fastforce)+
  next
    case 3
    then obtain d s' where s: "s = d # s'" by (cases s) (auto simp: next_is_def)
    have "string_token ''raw string'' p [c, d] (raw_body d s') = Inr (t, r)"
      using assms 3 unfolding lex_step_def by (simp add: s)
    then show ?thesis by (rule st) (use raw_body_prefix s in fastforce)+
  next
    case 4
    then have r: "r = number_run (c # s)" using assms by (auto simp: lex_step_def Let_def)
    have "number_run (c # s) \<noteq> []" using 4(4) by (auto simp: number_run_def)
    moreover have "\<exists>u. c # s = number_run (c # s) @ u"
      using takeWhile_prefix[of s] takeWhile_prefix[of "c # s"] by (auto simp: number_run_def)
    ultimately show ?thesis using r by simp
  next
    case 5
    then have r: "r = takeWhile isIdentPart (c # s)" using assms by (auto simp: lex_step_def Let_def)
    then show ?thesis using takeWhile_prefix[of "c # s" isIdentPart] 5(5) by (auto simp: isIdentPart_def)
  next
    case 6
    then have "operator_token c s p = Inr (t, r)" using assms by (auto simp: lex_step_def)
    then have "r = take 2 (c # s) \<or> r = [c]"
      by (auto simp: operator_token_def Let_def split: option.splits if_splits)
    then show ?thesis using append_take_drop_id[of 2 "c # s"] by (metis append_Cons append_Nil list.distinct(1) take_Suc_Cons numeral_2_eq_2)
  qed
qed

lemma lex_step_length: "lex_step c s p = Inr (t, r) \<Longrightarrow> length (drop (length r) (c # s)) < length (c # s)"
  using lex_step_prefix[of c s p t r] by (cases r) auto

function lex_from :: "string \<Rightarrow> position \<Rightarrow> lex_error + token list" where
  "lex_from [] p = Inr [end_token p]"
| "lex_from (c # s) p = rbind (lex_step c s p) (\<lambda>x.
     rbind (lex_from (drop (length (snd x)) (c # s)) (advances (snd x) p)) (\<lambda>ts. Inr (tok_list (fst x) @ ts)))"
  by pat_completeness auto
termination lex_from
  by (relation "measure (\<lambda>(s, p). length s)") (auto dest: lex_step_length)

definition lex :: "string \<Rightarrow> lex_error + token list" where
  "lex src = lex_from src pos0"

subsection \<open>Tokens of a source\<close>

text \<open>A token carries the kind of value its terminal promises, and only those.\<close>

definition token_ok :: "token \<Rightarrow> bool" where
  "token_ok t \<longleftrightarrow> (case tk_value t of
      Some (TStr _) \<Rightarrow> tk_type t = STRING \<or> tk_type t = IDENT
    | Some (TNum _) \<Rightarrow> tk_type t = NUMBER
    | Some (TBool _) \<Rightarrow> tk_type t = BOOL
    | None \<Rightarrow> tk_type t \<notin> {STRING, IDENT, NUMBER, BOOL})"

lemma twoCharacterTerminal_kind:
  "twoCharacterTerminal s = Some t \<Longrightarrow> t \<notin> {STRING, IDENT, NUMBER, BOOL, T_end}"
  by (auto simp: twoCharacterTerminal_def split: if_splits)

lemma singleCharacterTerminal_kind:
  "singleCharacterTerminal c = Some t \<Longrightarrow> t \<notin> {STRING, IDENT, NUMBER, BOOL, T_end}"
  by (auto simp: singleCharacterTerminal_def split: if_splits)

lemma operator_token_ok:
  "operator_token c s p = Inr (t, r) \<Longrightarrow> u \<in> set (tok_list t) \<Longrightarrow> token_ok u \<and> tk_type u \<noteq> T_end \<and> tk_pos u = p"
  unfolding operator_token_def Let_def
  by (auto simp: tok_list_def token_ok_def split: option.splits if_splits
      dest!: twoCharacterTerminal_kind singleCharacterTerminal_kind)

lemma string_token_ok:
  "string_token k p lead b = Inr (t, r) \<Longrightarrow> u \<in> set (tok_list t) \<Longrightarrow> token_ok u \<and> tk_type u \<noteq> T_end \<and> tk_pos u = p"
  by (auto simp: string_token_def tok_list_def token_ok_def split: option.splits)

lemma word_token_ok: "token_ok (word_token w p) \<and> tk_type (word_token w p) \<noteq> T_end \<and> tk_pos (word_token w p) = p"
  by (simp add: word_token_def token_ok_def)

lemma number_token_ok: "token_ok \<lparr>tk_type = NUMBER, tk_value = Some (TNum x), tk_pos = p\<rparr>"
  by (simp add: token_ok_def)

lemma lex_step_ok:
  assumes "lex_step c s p = Inr (t, r)" and "u \<in> set (tok_list t)"
  shows "token_ok u \<and> tk_type u \<noteq> T_end \<and> tk_pos u = p"
  using assms word_token_ok number_token_ok
  unfolding lex_step_def Let_def
  by (fastforce dest: string_token_ok operator_token_ok simp: tok_list_def split: if_splits)

lemma lex_from_shape:
  "lex_from s p = Inr ts \<Longrightarrow> \<exists>us q. ts = us @ [end_token q] \<and> (\<forall>u\<in>set us. token_ok u \<and> tk_type u \<noteq> T_end)"
proof (induction s p arbitrary: ts rule: lex_from.induct)
  case (2 c s p)
  from "2.prems" obtain t r vs where x: "lex_step c s p = Inr (t, r)"
    and vs: "lex_from (drop (length r) (c # s)) (advances r p) = Inr vs" and ts: "ts = tok_list t @ vs"
    by (auto simp: rbind_Inr_iff)
  from "2.IH"[of "(t, r)" vs] x vs obtain us q where us: "vs = us @ [end_token q]" "\<forall>u\<in>set us. token_ok u \<and> tk_type u \<noteq> T_end"
    by auto
  with ts lex_step_ok[OF x] show ?case by (intro exI[of _ "tok_list t @ us"] exI[of _ q]) auto
qed auto

lemma token_ok_end [simp]: "token_ok (end_token q)"
  by (simp add: token_ok_def end_token_def)

lemma tk_type_end [simp]: "tk_type (end_token q) = T_end"
  by (simp add: end_token_def)

subsection \<open>Positions\<close>

text \<open>The line and the column of an offset, read off the text before it.\<close>

definition position_at :: "string \<Rightarrow> nat \<Rightarrow> position" where
  "position_at src k = \<lparr>p_line = 1 + length (filter (\<lambda>c. code c = 10) (take k src)),
     p_col = 1 + length (takeWhile (\<lambda>c. code c \<noteq> 10) (rev (take k src))), p_offset = k\<rparr>"

lemma advances_append: "advances (s @ t) p = advances t (advances s p)"
  by (simp add: advances_def)

lemma advances_pos0: "advances s pos0 = position_at s (length s)"
proof (induction s rule: rev_induct)
  case Nil
  then show ?case by (simp add: advances_def pos0_def position_at_def)
next
  case (snoc c s)
  have "advances (s @ [c]) pos0 = adv c (advances s pos0)" by (simp add: advances_def)
  with snoc show ?case by (simp add: adv_def position_at_def)
qed

lemma position_at_append: "position_at (s @ t) (length s) = position_at s (length s)"
  by (simp add: position_at_def)

lemma p_offset_position_at [simp]: "p_offset (position_at src k) = k"
  by (simp add: position_at_def)

lemma lex_from_positions:
  assumes "lex_from s (advances pre pos0) = Inr ts"
  shows "(\<forall>t\<in>set ts. length pre \<le> p_offset (tk_pos t) \<and> p_offset (tk_pos t) \<le> length (pre @ s)
      \<and> tk_pos t = position_at (pre @ s) (p_offset (tk_pos t)))
    \<and> sorted_wrt (\<lambda>t u. p_offset (tk_pos t) < p_offset (tk_pos u)) ts"
  using assms
proof (induction "length s" arbitrary: s pre ts rule: less_induct)
  case less
  show ?case
  proof (cases s)
    case Nil
    with less.prems show ?thesis by (auto simp: end_token_def advances_pos0)
  next
    case (Cons c s')
    from less.prems obtain t r vs where x: "lex_step c s' (advances pre pos0) = Inr (t, r)"
      and vs: "lex_from (drop (length r) s) (advances r (advances pre pos0)) = Inr vs" and ts: "ts = tok_list t @ vs"
      by (auto simp: rbind_Inr_iff Cons)
    obtain w where r: "r \<noteq> []" and w: "s = r @ w" using lex_step_prefix[OF x] Cons by auto
    have wl: "length w < length s" using r w by simp
    have wv: "lex_from w (advances (pre @ r) pos0) = Inr vs" using vs w by (simp add: advances_append)
    note IH = less.hyps[OF wl wv]
    have p: "u \<in> set (tok_list t) \<Longrightarrow> tk_pos u = position_at (pre @ s) (length pre)" for u
      using lex_step_ok[OF x] by (simp add: advances_pos0 position_at_append)
    have one: "sorted_wrt P (tok_list t)" for P by (simp add: tok_list_def split: option.splits)
    have first: "p_offset (tk_pos u) = length pre" if "u \<in> set (tok_list t)" for u using p[OF that] by simp
    have rest: "length pre < p_offset (tk_pos u) \<and> p_offset (tk_pos u) \<le> length (pre @ s)
        \<and> tk_pos u = position_at (pre @ s) (p_offset (tk_pos u))" if "u \<in> set vs" for u
    proof -
      have "length pre < length pre + length r" using r by simp
      also have "length pre + length r \<le> p_offset (tk_pos u)" using IH that by auto
      finally show ?thesis using IH that w by auto
    qed
    show ?thesis
    proof
      show "\<forall>t\<in>set ts. length pre \<le> p_offset (tk_pos t) \<and> p_offset (tk_pos t) \<le> length (pre @ s)
          \<and> tk_pos t = position_at (pre @ s) (p_offset (tk_pos t))"
        using p first rest by (auto simp: ts less_imp_le)
      show "sorted_wrt (\<lambda>t u. p_offset (tk_pos t) < p_offset (tk_pos u)) ts"
        using IH one first rest by (auto simp: ts sorted_wrt_append)
    qed
  qed
qed

end
