(* ===== verification/CelTables.thy ===== *)
theory CelTables
  imports CelLexer
begin

text \<open>
  The committed parse tables (\<open>cel/grammar/tables.generated.ts\<close>): one row per state, each with the
  entries in the order of the file, and the left-hand side and length of every production.
\<close>

datatype nonterm =
    N_Expr | N_Cond | N_Or | N_And | N_Rel | N_Add | N_Mul | N_Unary | N_Postfix | N_Primary
  | N_Args | N_ArgList | N_Elems | N_ElemList | N_Entries | N_EntryList | N_Entry

datatype action = Shift nat | Reduce nat | Accept

subsection \<open>Actions\<close>

definition action_0_4 :: "(terminal \<times> action) list list" where
  "action_0_4 = [
     [(T_bang, Shift 9), (T_minus, Shift 10), (NUMBER, Shift 13), (STRING, Shift 14), (BOOL, Shift 15),
      (NULL, Shift 16), (IDENT, Shift 17), (T_lpar, Shift 18), (T_lbrack, Shift 19), (T_lbrace, Shift 20)],
     [(T_end, Accept)],
     [(T_end, Reduce 0), (T_rpar, Reduce 0), (T_rbrack, Reduce 0), (T_comma, Reduce 0), (T_colon, Reduce 0),
      (T_rbrace, Reduce 0)],
     [(T_quest, Shift 21), (T_or, Shift 22), (T_end, Reduce 1), (T_rpar, Reduce 1), (T_rbrack, Reduce 1),
      (T_comma, Reduce 1), (T_colon, Reduce 1), (T_rbrace, Reduce 1)],
     [(T_and, Shift 23), (T_end, Reduce 4), (T_quest, Reduce 4), (T_or, Reduce 4), (T_rpar, Reduce 4),
      (T_rbrack, Reduce 4), (T_comma, Reduce 4), (T_colon, Reduce 4), (T_rbrace, Reduce 4)]]"

definition action_5_6 :: "(terminal \<times> action) list list" where
  "action_5_6 = [
     [(T_eq, Shift 24), (T_ne, Shift 25), (T_lt, Shift 26), (T_le, Shift 27), (T_gt, Shift 28), (T_ge, Shift 29),
      (T_in, Shift 30), (T_end, Reduce 6), (T_quest, Reduce 6), (T_or, Reduce 6), (T_and, Reduce 6),
      (T_rpar, Reduce 6), (T_rbrack, Reduce 6), (T_comma, Reduce 6), (T_colon, Reduce 6), (T_rbrace, Reduce 6)],
     [(T_plus, Shift 31), (T_minus, Shift 32), (T_end, Reduce 14), (T_quest, Reduce 14), (T_or, Reduce 14),
      (T_and, Reduce 14), (T_eq, Reduce 14), (T_ne, Reduce 14), (T_lt, Reduce 14), (T_le, Reduce 14),
      (T_gt, Reduce 14), (T_ge, Reduce 14), (T_in, Reduce 14), (T_rpar, Reduce 14), (T_rbrack, Reduce 14),
      (T_comma, Reduce 14), (T_colon, Reduce 14), (T_rbrace, Reduce 14)]]"

definition action_7_7 :: "(terminal \<times> action) list list" where
  "action_7_7 = [
     [(T_star, Shift 33), (T_slash, Shift 34), (T_percent, Shift 35), (T_end, Reduce 17), (T_quest, Reduce 17),
      (T_or, Reduce 17), (T_and, Reduce 17), (T_eq, Reduce 17), (T_ne, Reduce 17), (T_lt, Reduce 17),
      (T_le, Reduce 17), (T_gt, Reduce 17), (T_ge, Reduce 17), (T_in, Reduce 17), (T_plus, Reduce 17),
      (T_minus, Reduce 17), (T_rpar, Reduce 17), (T_rbrack, Reduce 17), (T_comma, Reduce 17), (T_colon, Reduce 17),
      (T_rbrace, Reduce 17)]]"

definition action_8_9 :: "(terminal \<times> action) list list" where
  "action_8_9 = [
     [(T_end, Reduce 21), (T_quest, Reduce 21), (T_or, Reduce 21), (T_and, Reduce 21), (T_eq, Reduce 21),
      (T_ne, Reduce 21), (T_lt, Reduce 21), (T_le, Reduce 21), (T_gt, Reduce 21), (T_ge, Reduce 21),
      (T_in, Reduce 21), (T_plus, Reduce 21), (T_minus, Reduce 21), (T_star, Reduce 21), (T_slash, Reduce 21),
      (T_percent, Reduce 21), (T_rpar, Reduce 21), (T_rbrack, Reduce 21), (T_comma, Reduce 21), (T_colon, Reduce 21),
      (T_rbrace, Reduce 21)],
     [(T_bang, Shift 9), (T_minus, Shift 10), (NUMBER, Shift 13), (STRING, Shift 14), (BOOL, Shift 15),
      (NULL, Shift 16), (IDENT, Shift 17), (T_lpar, Shift 18), (T_lbrack, Shift 19), (T_lbrace, Shift 20)]]"

definition action_10_11 :: "(terminal \<times> action) list list" where
  "action_10_11 = [
     [(T_bang, Shift 9), (T_minus, Shift 10), (NUMBER, Shift 13), (STRING, Shift 14), (BOOL, Shift 15),
      (NULL, Shift 16), (IDENT, Shift 17), (T_lpar, Shift 18), (T_lbrack, Shift 19), (T_lbrace, Shift 20)],
     [(T_dot, Shift 38), (T_qdot, Shift 39), (T_lbrack, Shift 40), (T_qbrack, Shift 41), (T_end, Reduce 24),
      (T_quest, Reduce 24), (T_or, Reduce 24), (T_and, Reduce 24), (T_eq, Reduce 24), (T_ne, Reduce 24),
      (T_lt, Reduce 24), (T_le, Reduce 24), (T_gt, Reduce 24), (T_ge, Reduce 24), (T_in, Reduce 24),
      (T_plus, Reduce 24), (T_minus, Reduce 24), (T_star, Reduce 24), (T_slash, Reduce 24), (T_percent, Reduce 24),
      (T_rpar, Reduce 24), (T_rbrack, Reduce 24), (T_comma, Reduce 24), (T_colon, Reduce 24), (T_rbrace, Reduce 24)]]"

definition action_12_12 :: "(terminal \<times> action) list list" where
  "action_12_12 = [
     [(T_end, Reduce 25), (T_quest, Reduce 25), (T_or, Reduce 25), (T_and, Reduce 25), (T_eq, Reduce 25),
      (T_ne, Reduce 25), (T_lt, Reduce 25), (T_le, Reduce 25), (T_gt, Reduce 25), (T_ge, Reduce 25),
      (T_in, Reduce 25), (T_plus, Reduce 25), (T_minus, Reduce 25), (T_star, Reduce 25), (T_slash, Reduce 25),
      (T_percent, Reduce 25), (T_dot, Reduce 25), (T_qdot, Reduce 25), (T_lbrack, Reduce 25), (T_qbrack, Reduce 25),
      (T_rpar, Reduce 25), (T_rbrack, Reduce 25), (T_comma, Reduce 25), (T_colon, Reduce 25), (T_rbrace, Reduce 25)]]"

definition action_13_13 :: "(terminal \<times> action) list list" where
  "action_13_13 = [
     [(T_end, Reduce 32), (T_quest, Reduce 32), (T_or, Reduce 32), (T_and, Reduce 32), (T_eq, Reduce 32),
      (T_ne, Reduce 32), (T_lt, Reduce 32), (T_le, Reduce 32), (T_gt, Reduce 32), (T_ge, Reduce 32),
      (T_in, Reduce 32), (T_plus, Reduce 32), (T_minus, Reduce 32), (T_star, Reduce 32), (T_slash, Reduce 32),
      (T_percent, Reduce 32), (T_dot, Reduce 32), (T_qdot, Reduce 32), (T_lbrack, Reduce 32), (T_qbrack, Reduce 32),
      (T_rpar, Reduce 32), (T_rbrack, Reduce 32), (T_comma, Reduce 32), (T_colon, Reduce 32), (T_rbrace, Reduce 32)]]"

definition action_14_14 :: "(terminal \<times> action) list list" where
  "action_14_14 = [
     [(T_end, Reduce 33), (T_quest, Reduce 33), (T_or, Reduce 33), (T_and, Reduce 33), (T_eq, Reduce 33),
      (T_ne, Reduce 33), (T_lt, Reduce 33), (T_le, Reduce 33), (T_gt, Reduce 33), (T_ge, Reduce 33),
      (T_in, Reduce 33), (T_plus, Reduce 33), (T_minus, Reduce 33), (T_star, Reduce 33), (T_slash, Reduce 33),
      (T_percent, Reduce 33), (T_dot, Reduce 33), (T_qdot, Reduce 33), (T_lbrack, Reduce 33), (T_qbrack, Reduce 33),
      (T_rpar, Reduce 33), (T_rbrack, Reduce 33), (T_comma, Reduce 33), (T_colon, Reduce 33), (T_rbrace, Reduce 33)]]"

definition action_15_15 :: "(terminal \<times> action) list list" where
  "action_15_15 = [
     [(T_end, Reduce 34), (T_quest, Reduce 34), (T_or, Reduce 34), (T_and, Reduce 34), (T_eq, Reduce 34),
      (T_ne, Reduce 34), (T_lt, Reduce 34), (T_le, Reduce 34), (T_gt, Reduce 34), (T_ge, Reduce 34),
      (T_in, Reduce 34), (T_plus, Reduce 34), (T_minus, Reduce 34), (T_star, Reduce 34), (T_slash, Reduce 34),
      (T_percent, Reduce 34), (T_dot, Reduce 34), (T_qdot, Reduce 34), (T_lbrack, Reduce 34), (T_qbrack, Reduce 34),
      (T_rpar, Reduce 34), (T_rbrack, Reduce 34), (T_comma, Reduce 34), (T_colon, Reduce 34), (T_rbrace, Reduce 34)]]"

definition action_16_16 :: "(terminal \<times> action) list list" where
  "action_16_16 = [
     [(T_end, Reduce 35), (T_quest, Reduce 35), (T_or, Reduce 35), (T_and, Reduce 35), (T_eq, Reduce 35),
      (T_ne, Reduce 35), (T_lt, Reduce 35), (T_le, Reduce 35), (T_gt, Reduce 35), (T_ge, Reduce 35),
      (T_in, Reduce 35), (T_plus, Reduce 35), (T_minus, Reduce 35), (T_star, Reduce 35), (T_slash, Reduce 35),
      (T_percent, Reduce 35), (T_dot, Reduce 35), (T_qdot, Reduce 35), (T_lbrack, Reduce 35), (T_qbrack, Reduce 35),
      (T_rpar, Reduce 35), (T_rbrack, Reduce 35), (T_comma, Reduce 35), (T_colon, Reduce 35), (T_rbrace, Reduce 35)]]"

definition action_17_18 :: "(terminal \<times> action) list list" where
  "action_17_18 = [
     [(T_lpar, Shift 42), (T_end, Reduce 36), (T_quest, Reduce 36), (T_or, Reduce 36), (T_and, Reduce 36),
      (T_eq, Reduce 36), (T_ne, Reduce 36), (T_lt, Reduce 36), (T_le, Reduce 36), (T_gt, Reduce 36),
      (T_ge, Reduce 36), (T_in, Reduce 36), (T_plus, Reduce 36), (T_minus, Reduce 36), (T_star, Reduce 36),
      (T_slash, Reduce 36), (T_percent, Reduce 36), (T_dot, Reduce 36), (T_qdot, Reduce 36), (T_lbrack, Reduce 36),
      (T_qbrack, Reduce 36), (T_rpar, Reduce 36), (T_rbrack, Reduce 36), (T_comma, Reduce 36), (T_colon, Reduce 36),
      (T_rbrace, Reduce 36)],
     [(T_bang, Shift 9), (T_minus, Shift 10), (NUMBER, Shift 13), (STRING, Shift 14), (BOOL, Shift 15),
      (NULL, Shift 16), (IDENT, Shift 17), (T_lpar, Shift 18), (T_lbrack, Shift 19), (T_lbrace, Shift 20)]]"

definition action_19_21 :: "(terminal \<times> action) list list" where
  "action_19_21 = [
     [(T_bang, Shift 9), (T_minus, Shift 10), (NUMBER, Shift 13), (STRING, Shift 14), (BOOL, Shift 15),
      (NULL, Shift 16), (IDENT, Shift 17), (T_lpar, Shift 18), (T_lbrack, Shift 19), (T_lbrace, Shift 20),
      (T_rbrack, Reduce 46)],
     [(T_bang, Shift 9), (T_minus, Shift 10), (NUMBER, Shift 13), (STRING, Shift 14), (BOOL, Shift 15),
      (NULL, Shift 16), (IDENT, Shift 17), (T_lpar, Shift 18), (T_lbrack, Shift 19), (T_lbrace, Shift 20),
      (T_rbrace, Reduce 51)],
     [(T_bang, Shift 9), (T_minus, Shift 10), (NUMBER, Shift 13), (STRING, Shift 14), (BOOL, Shift 15),
      (NULL, Shift 16), (IDENT, Shift 17), (T_lpar, Shift 18), (T_lbrack, Shift 19), (T_lbrace, Shift 20)]]"

definition action_22_24 :: "(terminal \<times> action) list list" where
  "action_22_24 = [
     [(T_bang, Shift 9), (T_minus, Shift 10), (NUMBER, Shift 13), (STRING, Shift 14), (BOOL, Shift 15),
      (NULL, Shift 16), (IDENT, Shift 17), (T_lpar, Shift 18), (T_lbrack, Shift 19), (T_lbrace, Shift 20)],
     [(T_bang, Shift 9), (T_minus, Shift 10), (NUMBER, Shift 13), (STRING, Shift 14), (BOOL, Shift 15),
      (NULL, Shift 16), (IDENT, Shift 17), (T_lpar, Shift 18), (T_lbrack, Shift 19), (T_lbrace, Shift 20)],
     [(T_bang, Shift 9), (T_minus, Shift 10), (NUMBER, Shift 13), (STRING, Shift 14), (BOOL, Shift 15),
      (NULL, Shift 16), (IDENT, Shift 17), (T_lpar, Shift 18), (T_lbrack, Shift 19), (T_lbrace, Shift 20)]]"

definition action_25_27 :: "(terminal \<times> action) list list" where
  "action_25_27 = [
     [(T_bang, Shift 9), (T_minus, Shift 10), (NUMBER, Shift 13), (STRING, Shift 14), (BOOL, Shift 15),
      (NULL, Shift 16), (IDENT, Shift 17), (T_lpar, Shift 18), (T_lbrack, Shift 19), (T_lbrace, Shift 20)],
     [(T_bang, Shift 9), (T_minus, Shift 10), (NUMBER, Shift 13), (STRING, Shift 14), (BOOL, Shift 15),
      (NULL, Shift 16), (IDENT, Shift 17), (T_lpar, Shift 18), (T_lbrack, Shift 19), (T_lbrace, Shift 20)],
     [(T_bang, Shift 9), (T_minus, Shift 10), (NUMBER, Shift 13), (STRING, Shift 14), (BOOL, Shift 15),
      (NULL, Shift 16), (IDENT, Shift 17), (T_lpar, Shift 18), (T_lbrack, Shift 19), (T_lbrace, Shift 20)]]"

definition action_28_30 :: "(terminal \<times> action) list list" where
  "action_28_30 = [
     [(T_bang, Shift 9), (T_minus, Shift 10), (NUMBER, Shift 13), (STRING, Shift 14), (BOOL, Shift 15),
      (NULL, Shift 16), (IDENT, Shift 17), (T_lpar, Shift 18), (T_lbrack, Shift 19), (T_lbrace, Shift 20)],
     [(T_bang, Shift 9), (T_minus, Shift 10), (NUMBER, Shift 13), (STRING, Shift 14), (BOOL, Shift 15),
      (NULL, Shift 16), (IDENT, Shift 17), (T_lpar, Shift 18), (T_lbrack, Shift 19), (T_lbrace, Shift 20)],
     [(T_bang, Shift 9), (T_minus, Shift 10), (NUMBER, Shift 13), (STRING, Shift 14), (BOOL, Shift 15),
      (NULL, Shift 16), (IDENT, Shift 17), (T_lpar, Shift 18), (T_lbrack, Shift 19), (T_lbrace, Shift 20)]]"

definition action_31_33 :: "(terminal \<times> action) list list" where
  "action_31_33 = [
     [(T_bang, Shift 9), (T_minus, Shift 10), (NUMBER, Shift 13), (STRING, Shift 14), (BOOL, Shift 15),
      (NULL, Shift 16), (IDENT, Shift 17), (T_lpar, Shift 18), (T_lbrack, Shift 19), (T_lbrace, Shift 20)],
     [(T_bang, Shift 9), (T_minus, Shift 10), (NUMBER, Shift 13), (STRING, Shift 14), (BOOL, Shift 15),
      (NULL, Shift 16), (IDENT, Shift 17), (T_lpar, Shift 18), (T_lbrack, Shift 19), (T_lbrace, Shift 20)],
     [(T_bang, Shift 9), (T_minus, Shift 10), (NUMBER, Shift 13), (STRING, Shift 14), (BOOL, Shift 15),
      (NULL, Shift 16), (IDENT, Shift 17), (T_lpar, Shift 18), (T_lbrack, Shift 19), (T_lbrace, Shift 20)]]"

definition action_34_35 :: "(terminal \<times> action) list list" where
  "action_34_35 = [
     [(T_bang, Shift 9), (T_minus, Shift 10), (NUMBER, Shift 13), (STRING, Shift 14), (BOOL, Shift 15),
      (NULL, Shift 16), (IDENT, Shift 17), (T_lpar, Shift 18), (T_lbrack, Shift 19), (T_lbrace, Shift 20)],
     [(T_bang, Shift 9), (T_minus, Shift 10), (NUMBER, Shift 13), (STRING, Shift 14), (BOOL, Shift 15),
      (NULL, Shift 16), (IDENT, Shift 17), (T_lpar, Shift 18), (T_lbrack, Shift 19), (T_lbrace, Shift 20)]]"

definition action_36_36 :: "(terminal \<times> action) list list" where
  "action_36_36 = [
     [(T_end, Reduce 22), (T_quest, Reduce 22), (T_or, Reduce 22), (T_and, Reduce 22), (T_eq, Reduce 22),
      (T_ne, Reduce 22), (T_lt, Reduce 22), (T_le, Reduce 22), (T_gt, Reduce 22), (T_ge, Reduce 22),
      (T_in, Reduce 22), (T_plus, Reduce 22), (T_minus, Reduce 22), (T_star, Reduce 22), (T_slash, Reduce 22),
      (T_percent, Reduce 22), (T_rpar, Reduce 22), (T_rbrack, Reduce 22), (T_comma, Reduce 22), (T_colon, Reduce 22),
      (T_rbrace, Reduce 22)]]"

definition action_37_40 :: "(terminal \<times> action) list list" where
  "action_37_40 = [
     [(T_end, Reduce 23), (T_quest, Reduce 23), (T_or, Reduce 23), (T_and, Reduce 23), (T_eq, Reduce 23),
      (T_ne, Reduce 23), (T_lt, Reduce 23), (T_le, Reduce 23), (T_gt, Reduce 23), (T_ge, Reduce 23),
      (T_in, Reduce 23), (T_plus, Reduce 23), (T_minus, Reduce 23), (T_star, Reduce 23), (T_slash, Reduce 23),
      (T_percent, Reduce 23), (T_rpar, Reduce 23), (T_rbrack, Reduce 23), (T_comma, Reduce 23), (T_colon, Reduce 23),
      (T_rbrace, Reduce 23)],
     [(IDENT, Shift 66)],
     [(IDENT, Shift 67)],
     [(T_bang, Shift 9), (T_minus, Shift 10), (NUMBER, Shift 13), (STRING, Shift 14), (BOOL, Shift 15),
      (NULL, Shift 16), (IDENT, Shift 17), (T_lpar, Shift 18), (T_lbrack, Shift 19), (T_lbrace, Shift 20)]]"

definition action_41_49 :: "(terminal \<times> action) list list" where
  "action_41_49 = [
     [(T_bang, Shift 9), (T_minus, Shift 10), (NUMBER, Shift 13), (STRING, Shift 14), (BOOL, Shift 15),
      (NULL, Shift 16), (IDENT, Shift 17), (T_lpar, Shift 18), (T_lbrack, Shift 19), (T_lbrace, Shift 20)],
     [(T_bang, Shift 9), (T_minus, Shift 10), (NUMBER, Shift 13), (STRING, Shift 14), (BOOL, Shift 15),
      (NULL, Shift 16), (IDENT, Shift 17), (T_lpar, Shift 18), (T_lbrack, Shift 19), (T_lbrace, Shift 20),
      (T_rpar, Reduce 41)],
     [(T_rpar, Shift 73)],
     [(T_rbrack, Shift 74)],
     [(T_comma, Shift 75), (T_rbrack, Reduce 47)],
     [(T_rbrack, Reduce 49), (T_comma, Reduce 49)],
     [(T_rbrace, Shift 76)],
     [(T_comma, Shift 77), (T_rbrace, Reduce 52)],
     [(T_rbrace, Reduce 54), (T_comma, Reduce 54)]]"

definition action_50_54 :: "(terminal \<times> action) list list" where
  "action_50_54 = [
     [(T_colon, Shift 78)],
     [(T_colon, Shift 79)],
     [(T_or, Reduce 3), (T_end, Reduce 3), (T_quest, Reduce 3), (T_rpar, Reduce 3), (T_rbrack, Reduce 3),
      (T_comma, Reduce 3), (T_colon, Reduce 3), (T_rbrace, Reduce 3)],
     [(T_and, Reduce 5), (T_end, Reduce 5), (T_quest, Reduce 5), (T_or, Reduce 5), (T_rpar, Reduce 5),
      (T_rbrack, Reduce 5), (T_comma, Reduce 5), (T_colon, Reduce 5), (T_rbrace, Reduce 5)],
     [(T_eq, Reduce 7), (T_ne, Reduce 7), (T_lt, Reduce 7), (T_le, Reduce 7), (T_gt, Reduce 7), (T_ge, Reduce 7),
      (T_in, Reduce 7), (T_end, Reduce 7), (T_quest, Reduce 7), (T_or, Reduce 7), (T_and, Reduce 7),
      (T_rpar, Reduce 7), (T_rbrack, Reduce 7), (T_comma, Reduce 7), (T_colon, Reduce 7), (T_rbrace, Reduce 7)]]"

definition action_55_56 :: "(terminal \<times> action) list list" where
  "action_55_56 = [
     [(T_eq, Reduce 8), (T_ne, Reduce 8), (T_lt, Reduce 8), (T_le, Reduce 8), (T_gt, Reduce 8), (T_ge, Reduce 8),
      (T_in, Reduce 8), (T_end, Reduce 8), (T_quest, Reduce 8), (T_or, Reduce 8), (T_and, Reduce 8),
      (T_rpar, Reduce 8), (T_rbrack, Reduce 8), (T_comma, Reduce 8), (T_colon, Reduce 8), (T_rbrace, Reduce 8)],
     [(T_eq, Reduce 9), (T_ne, Reduce 9), (T_lt, Reduce 9), (T_le, Reduce 9), (T_gt, Reduce 9), (T_ge, Reduce 9),
      (T_in, Reduce 9), (T_end, Reduce 9), (T_quest, Reduce 9), (T_or, Reduce 9), (T_and, Reduce 9),
      (T_rpar, Reduce 9), (T_rbrack, Reduce 9), (T_comma, Reduce 9), (T_colon, Reduce 9), (T_rbrace, Reduce 9)]]"

definition action_57_58 :: "(terminal \<times> action) list list" where
  "action_57_58 = [
     [(T_eq, Reduce 10), (T_ne, Reduce 10), (T_lt, Reduce 10), (T_le, Reduce 10), (T_gt, Reduce 10),
      (T_ge, Reduce 10), (T_in, Reduce 10), (T_end, Reduce 10), (T_quest, Reduce 10), (T_or, Reduce 10),
      (T_and, Reduce 10), (T_rpar, Reduce 10), (T_rbrack, Reduce 10), (T_comma, Reduce 10), (T_colon, Reduce 10),
      (T_rbrace, Reduce 10)],
     [(T_eq, Reduce 11), (T_ne, Reduce 11), (T_lt, Reduce 11), (T_le, Reduce 11), (T_gt, Reduce 11),
      (T_ge, Reduce 11), (T_in, Reduce 11), (T_end, Reduce 11), (T_quest, Reduce 11), (T_or, Reduce 11),
      (T_and, Reduce 11), (T_rpar, Reduce 11), (T_rbrack, Reduce 11), (T_comma, Reduce 11), (T_colon, Reduce 11),
      (T_rbrace, Reduce 11)]]"

definition action_59_60 :: "(terminal \<times> action) list list" where
  "action_59_60 = [
     [(T_eq, Reduce 12), (T_ne, Reduce 12), (T_lt, Reduce 12), (T_le, Reduce 12), (T_gt, Reduce 12),
      (T_ge, Reduce 12), (T_in, Reduce 12), (T_end, Reduce 12), (T_quest, Reduce 12), (T_or, Reduce 12),
      (T_and, Reduce 12), (T_rpar, Reduce 12), (T_rbrack, Reduce 12), (T_comma, Reduce 12), (T_colon, Reduce 12),
      (T_rbrace, Reduce 12)],
     [(T_eq, Reduce 13), (T_ne, Reduce 13), (T_lt, Reduce 13), (T_le, Reduce 13), (T_gt, Reduce 13),
      (T_ge, Reduce 13), (T_in, Reduce 13), (T_end, Reduce 13), (T_quest, Reduce 13), (T_or, Reduce 13),
      (T_and, Reduce 13), (T_rpar, Reduce 13), (T_rbrack, Reduce 13), (T_comma, Reduce 13), (T_colon, Reduce 13),
      (T_rbrace, Reduce 13)]]"

definition action_61_62 :: "(terminal \<times> action) list list" where
  "action_61_62 = [
     [(T_plus, Reduce 15), (T_minus, Reduce 15), (T_end, Reduce 15), (T_quest, Reduce 15), (T_or, Reduce 15),
      (T_and, Reduce 15), (T_eq, Reduce 15), (T_ne, Reduce 15), (T_lt, Reduce 15), (T_le, Reduce 15),
      (T_gt, Reduce 15), (T_ge, Reduce 15), (T_in, Reduce 15), (T_rpar, Reduce 15), (T_rbrack, Reduce 15),
      (T_comma, Reduce 15), (T_colon, Reduce 15), (T_rbrace, Reduce 15)],
     [(T_plus, Reduce 16), (T_minus, Reduce 16), (T_end, Reduce 16), (T_quest, Reduce 16), (T_or, Reduce 16),
      (T_and, Reduce 16), (T_eq, Reduce 16), (T_ne, Reduce 16), (T_lt, Reduce 16), (T_le, Reduce 16),
      (T_gt, Reduce 16), (T_ge, Reduce 16), (T_in, Reduce 16), (T_rpar, Reduce 16), (T_rbrack, Reduce 16),
      (T_comma, Reduce 16), (T_colon, Reduce 16), (T_rbrace, Reduce 16)]]"

definition action_63_63 :: "(terminal \<times> action) list list" where
  "action_63_63 = [
     [(T_star, Reduce 18), (T_slash, Reduce 18), (T_percent, Reduce 18), (T_end, Reduce 18), (T_quest, Reduce 18),
      (T_or, Reduce 18), (T_and, Reduce 18), (T_eq, Reduce 18), (T_ne, Reduce 18), (T_lt, Reduce 18),
      (T_le, Reduce 18), (T_gt, Reduce 18), (T_ge, Reduce 18), (T_in, Reduce 18), (T_plus, Reduce 18),
      (T_minus, Reduce 18), (T_rpar, Reduce 18), (T_rbrack, Reduce 18), (T_comma, Reduce 18), (T_colon, Reduce 18),
      (T_rbrace, Reduce 18)]]"

definition action_64_64 :: "(terminal \<times> action) list list" where
  "action_64_64 = [
     [(T_star, Reduce 19), (T_slash, Reduce 19), (T_percent, Reduce 19), (T_end, Reduce 19), (T_quest, Reduce 19),
      (T_or, Reduce 19), (T_and, Reduce 19), (T_eq, Reduce 19), (T_ne, Reduce 19), (T_lt, Reduce 19),
      (T_le, Reduce 19), (T_gt, Reduce 19), (T_ge, Reduce 19), (T_in, Reduce 19), (T_plus, Reduce 19),
      (T_minus, Reduce 19), (T_rpar, Reduce 19), (T_rbrack, Reduce 19), (T_comma, Reduce 19), (T_colon, Reduce 19),
      (T_rbrace, Reduce 19)]]"

definition action_65_65 :: "(terminal \<times> action) list list" where
  "action_65_65 = [
     [(T_star, Reduce 20), (T_slash, Reduce 20), (T_percent, Reduce 20), (T_end, Reduce 20), (T_quest, Reduce 20),
      (T_or, Reduce 20), (T_and, Reduce 20), (T_eq, Reduce 20), (T_ne, Reduce 20), (T_lt, Reduce 20),
      (T_le, Reduce 20), (T_gt, Reduce 20), (T_ge, Reduce 20), (T_in, Reduce 20), (T_plus, Reduce 20),
      (T_minus, Reduce 20), (T_rpar, Reduce 20), (T_rbrack, Reduce 20), (T_comma, Reduce 20), (T_colon, Reduce 20),
      (T_rbrace, Reduce 20)]]"

definition action_66_66 :: "(terminal \<times> action) list list" where
  "action_66_66 = [
     [(T_lpar, Shift 80), (T_end, Reduce 26), (T_quest, Reduce 26), (T_or, Reduce 26), (T_and, Reduce 26),
      (T_eq, Reduce 26), (T_ne, Reduce 26), (T_lt, Reduce 26), (T_le, Reduce 26), (T_gt, Reduce 26),
      (T_ge, Reduce 26), (T_in, Reduce 26), (T_plus, Reduce 26), (T_minus, Reduce 26), (T_star, Reduce 26),
      (T_slash, Reduce 26), (T_percent, Reduce 26), (T_dot, Reduce 26), (T_qdot, Reduce 26), (T_lbrack, Reduce 26),
      (T_qbrack, Reduce 26), (T_rpar, Reduce 26), (T_rbrack, Reduce 26), (T_comma, Reduce 26), (T_colon, Reduce 26),
      (T_rbrace, Reduce 26)]]"

definition action_67_72 :: "(terminal \<times> action) list list" where
  "action_67_72 = [
     [(T_lpar, Shift 81), (T_end, Reduce 28), (T_quest, Reduce 28), (T_or, Reduce 28), (T_and, Reduce 28),
      (T_eq, Reduce 28), (T_ne, Reduce 28), (T_lt, Reduce 28), (T_le, Reduce 28), (T_gt, Reduce 28),
      (T_ge, Reduce 28), (T_in, Reduce 28), (T_plus, Reduce 28), (T_minus, Reduce 28), (T_star, Reduce 28),
      (T_slash, Reduce 28), (T_percent, Reduce 28), (T_dot, Reduce 28), (T_qdot, Reduce 28), (T_lbrack, Reduce 28),
      (T_qbrack, Reduce 28), (T_rpar, Reduce 28), (T_rbrack, Reduce 28), (T_comma, Reduce 28), (T_colon, Reduce 28),
      (T_rbrace, Reduce 28)],
     [(T_rbrack, Shift 82)],
     [(T_rbrack, Shift 83)],
     [(T_rpar, Shift 84)],
     [(T_comma, Shift 85), (T_rpar, Reduce 42)],
     [(T_rpar, Reduce 44), (T_comma, Reduce 44)]]"

definition action_73_73 :: "(terminal \<times> action) list list" where
  "action_73_73 = [
     [(T_end, Reduce 38), (T_quest, Reduce 38), (T_or, Reduce 38), (T_and, Reduce 38), (T_eq, Reduce 38),
      (T_ne, Reduce 38), (T_lt, Reduce 38), (T_le, Reduce 38), (T_gt, Reduce 38), (T_ge, Reduce 38),
      (T_in, Reduce 38), (T_plus, Reduce 38), (T_minus, Reduce 38), (T_star, Reduce 38), (T_slash, Reduce 38),
      (T_percent, Reduce 38), (T_dot, Reduce 38), (T_qdot, Reduce 38), (T_lbrack, Reduce 38), (T_qbrack, Reduce 38),
      (T_rpar, Reduce 38), (T_rbrack, Reduce 38), (T_comma, Reduce 38), (T_colon, Reduce 38), (T_rbrace, Reduce 38)]]"

definition action_74_75 :: "(terminal \<times> action) list list" where
  "action_74_75 = [
     [(T_end, Reduce 39), (T_quest, Reduce 39), (T_or, Reduce 39), (T_and, Reduce 39), (T_eq, Reduce 39),
      (T_ne, Reduce 39), (T_lt, Reduce 39), (T_le, Reduce 39), (T_gt, Reduce 39), (T_ge, Reduce 39),
      (T_in, Reduce 39), (T_plus, Reduce 39), (T_minus, Reduce 39), (T_star, Reduce 39), (T_slash, Reduce 39),
      (T_percent, Reduce 39), (T_dot, Reduce 39), (T_qdot, Reduce 39), (T_lbrack, Reduce 39), (T_qbrack, Reduce 39),
      (T_rpar, Reduce 39), (T_rbrack, Reduce 39), (T_comma, Reduce 39), (T_colon, Reduce 39), (T_rbrace, Reduce 39)],
     [(T_bang, Shift 9), (T_minus, Shift 10), (NUMBER, Shift 13), (STRING, Shift 14), (BOOL, Shift 15),
      (NULL, Shift 16), (IDENT, Shift 17), (T_lpar, Shift 18), (T_lbrack, Shift 19), (T_lbrace, Shift 20),
      (T_rbrack, Reduce 48)]]"

definition action_76_77 :: "(terminal \<times> action) list list" where
  "action_76_77 = [
     [(T_end, Reduce 40), (T_quest, Reduce 40), (T_or, Reduce 40), (T_and, Reduce 40), (T_eq, Reduce 40),
      (T_ne, Reduce 40), (T_lt, Reduce 40), (T_le, Reduce 40), (T_gt, Reduce 40), (T_ge, Reduce 40),
      (T_in, Reduce 40), (T_plus, Reduce 40), (T_minus, Reduce 40), (T_star, Reduce 40), (T_slash, Reduce 40),
      (T_percent, Reduce 40), (T_dot, Reduce 40), (T_qdot, Reduce 40), (T_lbrack, Reduce 40), (T_qbrack, Reduce 40),
      (T_rpar, Reduce 40), (T_rbrack, Reduce 40), (T_comma, Reduce 40), (T_colon, Reduce 40), (T_rbrace, Reduce 40)],
     [(T_bang, Shift 9), (T_minus, Shift 10), (NUMBER, Shift 13), (STRING, Shift 14), (BOOL, Shift 15),
      (NULL, Shift 16), (IDENT, Shift 17), (T_lpar, Shift 18), (T_lbrack, Shift 19), (T_lbrace, Shift 20),
      (T_rbrace, Reduce 53)]]"

definition action_78_80 :: "(terminal \<times> action) list list" where
  "action_78_80 = [
     [(T_bang, Shift 9), (T_minus, Shift 10), (NUMBER, Shift 13), (STRING, Shift 14), (BOOL, Shift 15),
      (NULL, Shift 16), (IDENT, Shift 17), (T_lpar, Shift 18), (T_lbrack, Shift 19), (T_lbrace, Shift 20)],
     [(T_bang, Shift 9), (T_minus, Shift 10), (NUMBER, Shift 13), (STRING, Shift 14), (BOOL, Shift 15),
      (NULL, Shift 16), (IDENT, Shift 17), (T_lpar, Shift 18), (T_lbrack, Shift 19), (T_lbrace, Shift 20)],
     [(T_bang, Shift 9), (T_minus, Shift 10), (NUMBER, Shift 13), (STRING, Shift 14), (BOOL, Shift 15),
      (NULL, Shift 16), (IDENT, Shift 17), (T_lpar, Shift 18), (T_lbrack, Shift 19), (T_lbrace, Shift 20),
      (T_rpar, Reduce 41)]]"

definition action_81_82 :: "(terminal \<times> action) list list" where
  "action_81_82 = [
     [(T_bang, Shift 9), (T_minus, Shift 10), (NUMBER, Shift 13), (STRING, Shift 14), (BOOL, Shift 15),
      (NULL, Shift 16), (IDENT, Shift 17), (T_lpar, Shift 18), (T_lbrack, Shift 19), (T_lbrace, Shift 20),
      (T_rpar, Reduce 41)],
     [(T_end, Reduce 30), (T_quest, Reduce 30), (T_or, Reduce 30), (T_and, Reduce 30), (T_eq, Reduce 30),
      (T_ne, Reduce 30), (T_lt, Reduce 30), (T_le, Reduce 30), (T_gt, Reduce 30), (T_ge, Reduce 30),
      (T_in, Reduce 30), (T_plus, Reduce 30), (T_minus, Reduce 30), (T_star, Reduce 30), (T_slash, Reduce 30),
      (T_percent, Reduce 30), (T_dot, Reduce 30), (T_qdot, Reduce 30), (T_lbrack, Reduce 30), (T_qbrack, Reduce 30),
      (T_rpar, Reduce 30), (T_rbrack, Reduce 30), (T_comma, Reduce 30), (T_colon, Reduce 30), (T_rbrace, Reduce 30)]]"

definition action_83_83 :: "(terminal \<times> action) list list" where
  "action_83_83 = [
     [(T_end, Reduce 31), (T_quest, Reduce 31), (T_or, Reduce 31), (T_and, Reduce 31), (T_eq, Reduce 31),
      (T_ne, Reduce 31), (T_lt, Reduce 31), (T_le, Reduce 31), (T_gt, Reduce 31), (T_ge, Reduce 31),
      (T_in, Reduce 31), (T_plus, Reduce 31), (T_minus, Reduce 31), (T_star, Reduce 31), (T_slash, Reduce 31),
      (T_percent, Reduce 31), (T_dot, Reduce 31), (T_qdot, Reduce 31), (T_lbrack, Reduce 31), (T_qbrack, Reduce 31),
      (T_rpar, Reduce 31), (T_rbrack, Reduce 31), (T_comma, Reduce 31), (T_colon, Reduce 31), (T_rbrace, Reduce 31)]]"

definition action_84_85 :: "(terminal \<times> action) list list" where
  "action_84_85 = [
     [(T_end, Reduce 37), (T_quest, Reduce 37), (T_or, Reduce 37), (T_and, Reduce 37), (T_eq, Reduce 37),
      (T_ne, Reduce 37), (T_lt, Reduce 37), (T_le, Reduce 37), (T_gt, Reduce 37), (T_ge, Reduce 37),
      (T_in, Reduce 37), (T_plus, Reduce 37), (T_minus, Reduce 37), (T_star, Reduce 37), (T_slash, Reduce 37),
      (T_percent, Reduce 37), (T_dot, Reduce 37), (T_qdot, Reduce 37), (T_lbrack, Reduce 37), (T_qbrack, Reduce 37),
      (T_rpar, Reduce 37), (T_rbrack, Reduce 37), (T_comma, Reduce 37), (T_colon, Reduce 37), (T_rbrace, Reduce 37)],
     [(T_bang, Shift 9), (T_minus, Shift 10), (NUMBER, Shift 13), (STRING, Shift 14), (BOOL, Shift 15),
      (NULL, Shift 16), (IDENT, Shift 17), (T_lpar, Shift 18), (T_lbrack, Shift 19), (T_lbrace, Shift 20),
      (T_rpar, Reduce 43)]]"

definition action_86_92 :: "(terminal \<times> action) list list" where
  "action_86_92 = [
     [(T_rbrack, Reduce 50), (T_comma, Reduce 50)],
     [(T_rbrace, Reduce 55), (T_comma, Reduce 55)],
     [(T_rbrace, Reduce 56), (T_comma, Reduce 56)],
     [(T_end, Reduce 2), (T_rpar, Reduce 2), (T_rbrack, Reduce 2), (T_comma, Reduce 2), (T_colon, Reduce 2),
      (T_rbrace, Reduce 2)],
     [(T_rpar, Shift 93)],
     [(T_rpar, Shift 94)],
     [(T_rpar, Reduce 45), (T_comma, Reduce 45)]]"

definition action_93_93 :: "(terminal \<times> action) list list" where
  "action_93_93 = [
     [(T_end, Reduce 27), (T_quest, Reduce 27), (T_or, Reduce 27), (T_and, Reduce 27), (T_eq, Reduce 27),
      (T_ne, Reduce 27), (T_lt, Reduce 27), (T_le, Reduce 27), (T_gt, Reduce 27), (T_ge, Reduce 27),
      (T_in, Reduce 27), (T_plus, Reduce 27), (T_minus, Reduce 27), (T_star, Reduce 27), (T_slash, Reduce 27),
      (T_percent, Reduce 27), (T_dot, Reduce 27), (T_qdot, Reduce 27), (T_lbrack, Reduce 27), (T_qbrack, Reduce 27),
      (T_rpar, Reduce 27), (T_rbrack, Reduce 27), (T_comma, Reduce 27), (T_colon, Reduce 27), (T_rbrace, Reduce 27)]]"

definition action_94_94 :: "(terminal \<times> action) list list" where
  "action_94_94 = [
     [(T_end, Reduce 29), (T_quest, Reduce 29), (T_or, Reduce 29), (T_and, Reduce 29), (T_eq, Reduce 29),
      (T_ne, Reduce 29), (T_lt, Reduce 29), (T_le, Reduce 29), (T_gt, Reduce 29), (T_ge, Reduce 29),
      (T_in, Reduce 29), (T_plus, Reduce 29), (T_minus, Reduce 29), (T_star, Reduce 29), (T_slash, Reduce 29),
      (T_percent, Reduce 29), (T_dot, Reduce 29), (T_qdot, Reduce 29), (T_lbrack, Reduce 29), (T_qbrack, Reduce 29),
      (T_rpar, Reduce 29), (T_rbrack, Reduce 29), (T_comma, Reduce 29), (T_colon, Reduce 29), (T_rbrace, Reduce 29)]]"

definition action_table :: "(terminal \<times> action) list list" where
  "action_table =
    action_0_4 @ action_5_6 @ action_7_7 @ action_8_9 @ action_10_11 @ action_12_12 @ action_13_13 @
    action_14_14 @ action_15_15 @ action_16_16 @ action_17_18 @ action_19_21 @ action_22_24 @ action_25_27 @
    action_28_30 @ action_31_33 @ action_34_35 @ action_36_36 @ action_37_40 @ action_41_49 @ action_50_54 @
    action_55_56 @ action_57_58 @ action_59_60 @ action_61_62 @ action_63_63 @ action_64_64 @ action_65_65 @
    action_66_66 @ action_67_72 @ action_73_73 @ action_74_75 @ action_76_77 @ action_78_80 @ action_81_82 @
    action_83_83 @ action_84_85 @ action_86_92 @ action_93_93 @ action_94_94"

subsection \<open>Transitions and productions\<close>

definition goto_0_28 :: "(nonterm \<times> nat) list list" where
  "goto_0_28 = [
     [(N_Expr, 1), (N_Cond, 2), (N_Or, 3), (N_And, 4), (N_Rel, 5), (N_Add, 6), (N_Mul, 7), (N_Unary, 8),
      (N_Postfix, 11), (N_Primary, 12)],
     [],
     [],
     [],
     [],
     [],
     [],
     [],
     [],
     [(N_Unary, 36), (N_Postfix, 11), (N_Primary, 12)],
     [(N_Unary, 37), (N_Postfix, 11), (N_Primary, 12)],
     [],
     [],
     [],
     [],
     [],
     [],
     [],
     [(N_Expr, 43), (N_Cond, 2), (N_Or, 3), (N_And, 4), (N_Rel, 5), (N_Add, 6), (N_Mul, 7), (N_Unary, 8),
      (N_Postfix, 11), (N_Primary, 12)],
     [(N_Elems, 44), (N_ElemList, 45), (N_Expr, 46), (N_Cond, 2), (N_Or, 3), (N_And, 4), (N_Rel, 5), (N_Add, 6),
      (N_Mul, 7), (N_Unary, 8), (N_Postfix, 11), (N_Primary, 12)],
     [(N_Entries, 47), (N_EntryList, 48), (N_Entry, 49), (N_Expr, 50), (N_Cond, 2), (N_Or, 3), (N_And, 4),
      (N_Rel, 5), (N_Add, 6), (N_Mul, 7), (N_Unary, 8), (N_Postfix, 11), (N_Primary, 12)],
     [(N_Expr, 51), (N_Cond, 2), (N_Or, 3), (N_And, 4), (N_Rel, 5), (N_Add, 6), (N_Mul, 7), (N_Unary, 8),
      (N_Postfix, 11), (N_Primary, 12)],
     [(N_Or, 52), (N_And, 4), (N_Rel, 5), (N_Add, 6), (N_Mul, 7), (N_Unary, 8), (N_Postfix, 11), (N_Primary, 12)],
     [(N_And, 53), (N_Rel, 5), (N_Add, 6), (N_Mul, 7), (N_Unary, 8), (N_Postfix, 11), (N_Primary, 12)],
     [(N_Rel, 54), (N_Add, 6), (N_Mul, 7), (N_Unary, 8), (N_Postfix, 11), (N_Primary, 12)],
     [(N_Rel, 55), (N_Add, 6), (N_Mul, 7), (N_Unary, 8), (N_Postfix, 11), (N_Primary, 12)],
     [(N_Rel, 56), (N_Add, 6), (N_Mul, 7), (N_Unary, 8), (N_Postfix, 11), (N_Primary, 12)],
     [(N_Rel, 57), (N_Add, 6), (N_Mul, 7), (N_Unary, 8), (N_Postfix, 11), (N_Primary, 12)],
     [(N_Rel, 58), (N_Add, 6), (N_Mul, 7), (N_Unary, 8), (N_Postfix, 11), (N_Primary, 12)]]"

definition goto_29_77 :: "(nonterm \<times> nat) list list" where
  "goto_29_77 = [
     [(N_Rel, 59), (N_Add, 6), (N_Mul, 7), (N_Unary, 8), (N_Postfix, 11), (N_Primary, 12)],
     [(N_Rel, 60), (N_Add, 6), (N_Mul, 7), (N_Unary, 8), (N_Postfix, 11), (N_Primary, 12)],
     [(N_Add, 61), (N_Mul, 7), (N_Unary, 8), (N_Postfix, 11), (N_Primary, 12)],
     [(N_Add, 62), (N_Mul, 7), (N_Unary, 8), (N_Postfix, 11), (N_Primary, 12)],
     [(N_Mul, 63), (N_Unary, 8), (N_Postfix, 11), (N_Primary, 12)],
     [(N_Mul, 64), (N_Unary, 8), (N_Postfix, 11), (N_Primary, 12)],
     [(N_Mul, 65), (N_Unary, 8), (N_Postfix, 11), (N_Primary, 12)],
     [],
     [],
     [],
     [],
     [(N_Expr, 68), (N_Cond, 2), (N_Or, 3), (N_And, 4), (N_Rel, 5), (N_Add, 6), (N_Mul, 7), (N_Unary, 8),
      (N_Postfix, 11), (N_Primary, 12)],
     [(N_Expr, 69), (N_Cond, 2), (N_Or, 3), (N_And, 4), (N_Rel, 5), (N_Add, 6), (N_Mul, 7), (N_Unary, 8),
      (N_Postfix, 11), (N_Primary, 12)],
     [(N_Args, 70), (N_ArgList, 71), (N_Expr, 72), (N_Cond, 2), (N_Or, 3), (N_And, 4), (N_Rel, 5), (N_Add, 6),
      (N_Mul, 7), (N_Unary, 8), (N_Postfix, 11), (N_Primary, 12)],
     [],
     [],
     [],
     [],
     [],
     [],
     [],
     [],
     [],
     [],
     [],
     [],
     [],
     [],
     [],
     [],
     [],
     [],
     [],
     [],
     [],
     [],
     [],
     [],
     [],
     [],
     [],
     [],
     [],
     [],
     [],
     [],
     [(N_Expr, 86), (N_Cond, 2), (N_Or, 3), (N_And, 4), (N_Rel, 5), (N_Add, 6), (N_Mul, 7), (N_Unary, 8),
      (N_Postfix, 11), (N_Primary, 12)],
     [],
     [(N_Entry, 87), (N_Expr, 50), (N_Cond, 2), (N_Or, 3), (N_And, 4), (N_Rel, 5), (N_Add, 6), (N_Mul, 7),
      (N_Unary, 8), (N_Postfix, 11), (N_Primary, 12)]]"

definition goto_78_94 :: "(nonterm \<times> nat) list list" where
  "goto_78_94 = [
     [(N_Expr, 88), (N_Cond, 2), (N_Or, 3), (N_And, 4), (N_Rel, 5), (N_Add, 6), (N_Mul, 7), (N_Unary, 8),
      (N_Postfix, 11), (N_Primary, 12)],
     [(N_Expr, 89), (N_Cond, 2), (N_Or, 3), (N_And, 4), (N_Rel, 5), (N_Add, 6), (N_Mul, 7), (N_Unary, 8),
      (N_Postfix, 11), (N_Primary, 12)],
     [(N_Args, 90), (N_ArgList, 71), (N_Expr, 72), (N_Cond, 2), (N_Or, 3), (N_And, 4), (N_Rel, 5), (N_Add, 6),
      (N_Mul, 7), (N_Unary, 8), (N_Postfix, 11), (N_Primary, 12)],
     [(N_Args, 91), (N_ArgList, 71), (N_Expr, 72), (N_Cond, 2), (N_Or, 3), (N_And, 4), (N_Rel, 5), (N_Add, 6),
      (N_Mul, 7), (N_Unary, 8), (N_Postfix, 11), (N_Primary, 12)],
     [],
     [],
     [],
     [(N_Expr, 92), (N_Cond, 2), (N_Or, 3), (N_And, 4), (N_Rel, 5), (N_Add, 6), (N_Mul, 7), (N_Unary, 8),
      (N_Postfix, 11), (N_Primary, 12)],
     [],
     [],
     [],
     [],
     [],
     [],
     [],
     [],
     []]"

definition goto_table :: "(nonterm \<times> nat) list list" where
  "goto_table = goto_0_28 @ goto_29_77 @ goto_78_94"

definition productions_0_36 :: "(nonterm \<times> nat) list" where
  "productions_0_36 = [
     (N_Expr, 1), (N_Cond, 1), (N_Cond, 5), (N_Or, 3), (N_Or, 1), (N_And, 3), (N_And, 1), (N_Rel, 3), (N_Rel, 3),
     (N_Rel, 3), (N_Rel, 3), (N_Rel, 3), (N_Rel, 3), (N_Rel, 3), (N_Rel, 1), (N_Add, 3), (N_Add, 3), (N_Add, 1),
     (N_Mul, 3), (N_Mul, 3), (N_Mul, 3), (N_Mul, 1), (N_Unary, 2), (N_Unary, 2), (N_Unary, 1), (N_Postfix, 1),
     (N_Postfix, 3), (N_Postfix, 6), (N_Postfix, 3), (N_Postfix, 6), (N_Postfix, 4), (N_Postfix, 4), (N_Primary, 1),
     (N_Primary, 1), (N_Primary, 1), (N_Primary, 1), (N_Primary, 1)]"

definition productions_37_56 :: "(nonterm \<times> nat) list" where
  "productions_37_56 = [
     (N_Primary, 4), (N_Primary, 3), (N_Primary, 3), (N_Primary, 3), (N_Args, 0), (N_Args, 1), (N_Args, 2),
     (N_ArgList, 1), (N_ArgList, 3), (N_Elems, 0), (N_Elems, 1), (N_Elems, 2), (N_ElemList, 1), (N_ElemList, 3),
     (N_Entries, 0), (N_Entries, 1), (N_Entries, 2), (N_EntryList, 1), (N_EntryList, 3), (N_Entry, 3)]"

definition table_productions :: "(nonterm \<times> nat) list" where
  "table_productions = productions_0_36 @ productions_37_56"

text \<open>\<open>TABLES.action[state]?.[type]\<close> and \<open>TABLES.goto[state]?.[lhs]\<close>.\<close>

definition action_of :: "nat \<Rightarrow> terminal \<Rightarrow> action option" where
  "action_of s t = (if s < length action_table then map_of (action_table ! s) t else None)"

definition goto_of :: "nat \<Rightarrow> nonterm \<Rightarrow> nat option" where
  "goto_of s A = (if s < length goto_table then map_of (goto_table ! s) A else None)"

subsection \<open>Rows by state\<close>

text \<open>The same rows found without building the whole table, which is how they are evaluated.\<close>

definition action_row :: "nat \<Rightarrow> (terminal \<times> action) list" where
  "action_row s = (
     if s < 5 then action_0_4 ! s
     else if s - 5 < 2 then action_5_6 ! (s - 5)
     else if s - 7 < 1 then action_7_7 ! (s - 7)
     else if s - 8 < 2 then action_8_9 ! (s - 8)
     else if s - 10 < 2 then action_10_11 ! (s - 10)
     else if s - 12 < 1 then action_12_12 ! (s - 12)
     else if s - 13 < 1 then action_13_13 ! (s - 13)
     else if s - 14 < 1 then action_14_14 ! (s - 14)
     else if s - 15 < 1 then action_15_15 ! (s - 15)
     else if s - 16 < 1 then action_16_16 ! (s - 16)
     else if s - 17 < 2 then action_17_18 ! (s - 17)
     else if s - 19 < 3 then action_19_21 ! (s - 19)
     else if s - 22 < 3 then action_22_24 ! (s - 22)
     else if s - 25 < 3 then action_25_27 ! (s - 25)
     else if s - 28 < 3 then action_28_30 ! (s - 28)
     else if s - 31 < 3 then action_31_33 ! (s - 31)
     else if s - 34 < 2 then action_34_35 ! (s - 34)
     else if s - 36 < 1 then action_36_36 ! (s - 36)
     else if s - 37 < 4 then action_37_40 ! (s - 37)
     else if s - 41 < 9 then action_41_49 ! (s - 41)
     else if s - 50 < 5 then action_50_54 ! (s - 50)
     else if s - 55 < 2 then action_55_56 ! (s - 55)
     else if s - 57 < 2 then action_57_58 ! (s - 57)
     else if s - 59 < 2 then action_59_60 ! (s - 59)
     else if s - 61 < 2 then action_61_62 ! (s - 61)
     else if s - 63 < 1 then action_63_63 ! (s - 63)
     else if s - 64 < 1 then action_64_64 ! (s - 64)
     else if s - 65 < 1 then action_65_65 ! (s - 65)
     else if s - 66 < 1 then action_66_66 ! (s - 66)
     else if s - 67 < 6 then action_67_72 ! (s - 67)
     else if s - 73 < 1 then action_73_73 ! (s - 73)
     else if s - 74 < 2 then action_74_75 ! (s - 74)
     else if s - 76 < 2 then action_76_77 ! (s - 76)
     else if s - 78 < 3 then action_78_80 ! (s - 78)
     else if s - 81 < 2 then action_81_82 ! (s - 81)
     else if s - 83 < 1 then action_83_83 ! (s - 83)
     else if s - 84 < 2 then action_84_85 ! (s - 84)
     else if s - 86 < 7 then action_86_92 ! (s - 86)
     else if s - 93 < 1 then action_93_93 ! (s - 93)
     else action_94_94 ! (s - 94))"

definition goto_row :: "nat \<Rightarrow> (nonterm \<times> nat) list" where
  "goto_row s = (
     if s < 29 then goto_0_28 ! s
     else if s - 29 < 49 then goto_29_77 ! (s - 29)
     else goto_78_94 ! (s - 78))"

lemma length_rows:
  "length action_0_4 = 5" "length action_5_6 = 2" "length action_7_7 = 1" "length action_8_9 = 2"
  "length action_10_11 = 2" "length action_12_12 = 1" "length action_13_13 = 1" "length action_14_14 = 1"
  "length action_15_15 = 1" "length action_16_16 = 1" "length action_17_18 = 2" "length action_19_21 = 3"
  "length action_22_24 = 3" "length action_25_27 = 3" "length action_28_30 = 3" "length action_31_33 = 3"
  "length action_34_35 = 2" "length action_36_36 = 1" "length action_37_40 = 4" "length action_41_49 = 9"
  "length action_50_54 = 5" "length action_55_56 = 2" "length action_57_58 = 2" "length action_59_60 = 2"
  "length action_61_62 = 2" "length action_63_63 = 1" "length action_64_64 = 1" "length action_65_65 = 1"
  "length action_66_66 = 1" "length action_67_72 = 6" "length action_73_73 = 1" "length action_74_75 = 2"
  "length action_76_77 = 2" "length action_78_80 = 3" "length action_81_82 = 2" "length action_83_83 = 1"
  "length action_84_85 = 2" "length action_86_92 = 7" "length action_93_93 = 1" "length action_94_94 = 1"
  "length goto_0_28 = 29" "length goto_29_77 = 49" "length goto_78_94 = 17"
  by (simp_all add: action_0_4_def action_5_6_def action_7_7_def action_8_9_def action_10_11_def action_12_12_def action_13_13_def
    action_14_14_def action_15_15_def action_16_16_def action_17_18_def action_19_21_def action_22_24_def
    action_25_27_def action_28_30_def action_31_33_def action_34_35_def action_36_36_def action_37_40_def
    action_41_49_def action_50_54_def action_55_56_def action_57_58_def action_59_60_def action_61_62_def
    action_63_63_def action_64_64_def action_65_65_def action_66_66_def action_67_72_def action_73_73_def
    action_74_75_def action_76_77_def action_78_80_def action_81_82_def action_83_83_def action_84_85_def
    action_86_92_def action_93_93_def action_94_94_def goto_0_28_def goto_29_77_def goto_78_94_def)

lemma action_row: "action_table ! s = action_row s"
  unfolding action_table_def action_row_def nth_append length_rows diff_diff_left by (simp only: arith_simps numeral_plus_one one_plus_numeral one_add_one semiring_norm)

lemma goto_row: "goto_table ! s = goto_row s"
  unfolding goto_table_def goto_row_def nth_append length_rows diff_diff_left by (simp only: arith_simps numeral_plus_one one_plus_numeral one_add_one semiring_norm)

lemma length_action_table: "length action_table = 95"
  by (simp add: action_table_def length_rows)

lemma length_goto_table: "length goto_table = 95"
  by (simp add: goto_table_def length_rows)

lemma action_of_code [code]: "action_of s t = (if s < 95 then map_of (action_row s) t else None)"
  by (simp add: action_of_def action_row length_action_table)

lemma goto_of_code [code]: "goto_of s A = (if s < 95 then map_of (goto_row s) A else None)"
  by (simp add: goto_of_def goto_row length_goto_table)

end
