(* ===== verification/CelParser.thy ===== *)
theory CelParser
  imports CelTables
begin

text \<open>
  The table-driven parser (\<open>cel/grammar/parser.ts\<close>) and the grammar it is generated from
  (\<open>cel/grammar/grammar.ts\<close>).  The stacks of the source grow at the end of an array; here the top is the
  head of a list.  The driver has fuel, and running out of it is the error \<open>Diverges\<close>.
\<close>

datatype cel_exn =
    ParseError string position
  | CelError string
  | RegexRejected string string
  | Diverges

subsection \<open>The grammar\<close>

datatype symbol = T terminal | N nonterm

definition PRODUCTIONS :: "(nonterm \<times> symbol list) list" where
  "PRODUCTIONS = [
     (N_Expr, [N N_Cond]),
     (N_Cond, [N N_Or]),
     (N_Cond, [N N_Or, T T_quest, N N_Expr, T T_colon, N N_Expr]),
     (N_Or, [N N_Or, T T_or, N N_Or]),
     (N_Or, [N N_And]),
     (N_And, [N N_And, T T_and, N N_And]),
     (N_And, [N N_Rel]),
     (N_Rel, [N N_Rel, T T_eq, N N_Rel]),
     (N_Rel, [N N_Rel, T T_ne, N N_Rel]),
     (N_Rel, [N N_Rel, T T_lt, N N_Rel]),
     (N_Rel, [N N_Rel, T T_le, N N_Rel]),
     (N_Rel, [N N_Rel, T T_gt, N N_Rel]),
     (N_Rel, [N N_Rel, T T_ge, N N_Rel]),
     (N_Rel, [N N_Rel, T T_in, N N_Rel]),
     (N_Rel, [N N_Add]),
     (N_Add, [N N_Add, T T_plus, N N_Add]),
     (N_Add, [N N_Add, T T_minus, N N_Add]),
     (N_Add, [N N_Mul]),
     (N_Mul, [N N_Mul, T T_star, N N_Mul]),
     (N_Mul, [N N_Mul, T T_slash, N N_Mul]),
     (N_Mul, [N N_Mul, T T_percent, N N_Mul]),
     (N_Mul, [N N_Unary]),
     (N_Unary, [T T_bang, N N_Unary]),
     (N_Unary, [T T_minus, N N_Unary]),
     (N_Unary, [N N_Postfix]),
     (N_Postfix, [N N_Primary]),
     (N_Postfix, [N N_Postfix, T T_dot, T IDENT]),
     (N_Postfix, [N N_Postfix, T T_dot, T IDENT, T T_lpar, N N_Args, T T_rpar]),
     (N_Postfix, [N N_Postfix, T T_qdot, T IDENT]),
     (N_Postfix, [N N_Postfix, T T_qdot, T IDENT, T T_lpar, N N_Args, T T_rpar]),
     (N_Postfix, [N N_Postfix, T T_lbrack, N N_Expr, T T_rbrack]),
     (N_Postfix, [N N_Postfix, T T_qbrack, N N_Expr, T T_rbrack]),
     (N_Primary, [T NUMBER]),
     (N_Primary, [T STRING]),
     (N_Primary, [T BOOL]),
     (N_Primary, [T NULL]),
     (N_Primary, [T IDENT]),
     (N_Primary, [T IDENT, T T_lpar, N N_Args, T T_rpar]),
     (N_Primary, [T T_lpar, N N_Expr, T T_rpar]),
     (N_Primary, [T T_lbrack, N N_Elems, T T_rbrack]),
     (N_Primary, [T T_lbrace, N N_Entries, T T_rbrace]),
     (N_Args, []),
     (N_Args, [N N_ArgList]),
     (N_Args, [N N_ArgList, T T_comma]),
     (N_ArgList, [N N_Expr]),
     (N_ArgList, [N N_ArgList, T T_comma, N N_Expr]),
     (N_Elems, []),
     (N_Elems, [N N_ElemList]),
     (N_Elems, [N N_ElemList, T T_comma]),
     (N_ElemList, [N N_Expr]),
     (N_ElemList, [N N_ElemList, T T_comma, N N_Expr]),
     (N_Entries, []),
     (N_Entries, [N N_EntryList]),
     (N_Entries, [N N_EntryList, T T_comma]),
     (N_EntryList, [N N_Entry]),
     (N_EntryList, [N N_EntryList, T T_comma, N N_Entry]),
     (N_Entry, [N N_Expr, T T_colon, N N_Expr])]"

fun nonterm_text :: "nonterm \<Rightarrow> string" where
  "nonterm_text N_Expr = ''Expr''" | "nonterm_text N_Cond = ''Cond''" | "nonterm_text N_Or = ''Or''"
| "nonterm_text N_And = ''And''" | "nonterm_text N_Rel = ''Rel''" | "nonterm_text N_Add = ''Add''"
| "nonterm_text N_Mul = ''Mul''" | "nonterm_text N_Unary = ''Unary''" | "nonterm_text N_Postfix = ''Postfix''"
| "nonterm_text N_Primary = ''Primary''" | "nonterm_text N_Args = ''Args''" | "nonterm_text N_ArgList = ''ArgList''"
| "nonterm_text N_Elems = ''Elems''" | "nonterm_text N_ElemList = ''ElemList''" | "nonterm_text N_Entries = ''Entries''"
| "nonterm_text N_EntryList = ''EntryList''" | "nonterm_text N_Entry = ''Entry''"

subsection \<open>Semantic values\<close>

text \<open>The empty array of the source is a list of expressions and of entries alike.\<close>

datatype stack_val =
    SToken token
  | SExpr expr
  | SExprs "expr list"
  | SEntry expr expr
  | SEntries "(expr \<times> expr) list"

definition requiredAt :: "'a list \<Rightarrow> nat \<Rightarrow> string \<Rightarrow> cel_exn + 'a" where
  "requiredAt values index label = (if index < length values then Inr (values ! index)
     else Inl (CelError (''CEL_PARSE: missing '' @ label @ '' at position '' @ dec index)))"

definition stackValueAt :: "stack_val list \<Rightarrow> nat \<Rightarrow> cel_exn + stack_val" where
  "stackValueAt values index = requiredAt values index ''semantic value''"

definition expected :: "string \<Rightarrow> nat \<Rightarrow> cel_exn + 'a" where
  "expected what index = Inl (CelError (''CEL_PARSE: expected '' @ what @ '' at stack position '' @ dec index))"

definition exprAt :: "stack_val list \<Rightarrow> nat \<Rightarrow> cel_exn + expr" where
  "exprAt values index = rbind (stackValueAt values index) (\<lambda>v. case v of SExpr e \<Rightarrow> Inr e | _ \<Rightarrow> expected ''expression'' index)"

definition exprListAt :: "stack_val list \<Rightarrow> nat \<Rightarrow> cel_exn + expr list" where
  "exprListAt values index = rbind (stackValueAt values index) (\<lambda>v. case v of
      SExprs es \<Rightarrow> Inr es
    | SEntries ens \<Rightarrow> if ens = [] then Inr [] else expected ''expression list'' index
    | _ \<Rightarrow> expected ''expression list'' index)"

definition entryListAt :: "stack_val list \<Rightarrow> nat \<Rightarrow> cel_exn + (expr \<times> expr) list" where
  "entryListAt values index = rbind (stackValueAt values index) (\<lambda>v. case v of
      SEntries ens \<Rightarrow> Inr ens
    | SExprs es \<Rightarrow> if es = [] then Inr [] else expected ''entry list'' index
    | _ \<Rightarrow> expected ''entry list'' index)"

definition entryAt :: "stack_val list \<Rightarrow> nat \<Rightarrow> cel_exn + (expr \<times> expr)" where
  "entryAt values index = rbind (stackValueAt values index) (\<lambda>v. case v of SEntry k e \<Rightarrow> Inr (k, e) | _ \<Rightarrow> expected ''entry'' index)"

definition tokenAt :: "stack_val list \<Rightarrow> nat \<Rightarrow> cel_exn + token" where
  "tokenAt values index = rbind (stackValueAt values index) (\<lambda>v. case v of SToken t \<Rightarrow> Inr t | _ \<Rightarrow> expected ''token'' index)"

definition tokenValueAt :: "stack_val list \<Rightarrow> nat \<Rightarrow> cel_exn + tok_value" where
  "tokenValueAt values index = rbind (tokenAt values index) (\<lambda>t. case tk_value t of
      Some v \<Rightarrow> Inr v | None \<Rightarrow> expected ''value-bearing token'' index)"

definition numberValueAt :: "stack_val list \<Rightarrow> nat \<Rightarrow> cel_exn + jsnum" where
  "numberValueAt values index = rbind (tokenValueAt values index) (\<lambda>v. case v of
      TNum x \<Rightarrow> Inr x | _ \<Rightarrow> expected ''numeric token'' index)"

definition stringValueAt :: "stack_val list \<Rightarrow> nat \<Rightarrow> cel_exn + string" where
  "stringValueAt values index = rbind (tokenValueAt values index) (\<lambda>v. case v of
      TStr s \<Rightarrow> Inr s | _ \<Rightarrow> expected ''string token'' index)"

definition booleanValueAt :: "stack_val list \<Rightarrow> nat \<Rightarrow> cel_exn + bool" where
  "booleanValueAt values index = rbind (tokenValueAt values index) (\<lambda>v. case v of
      TBool b \<Rightarrow> Inr b | _ \<Rightarrow> expected ''boolean token'' index)"

definition tok_text :: "tok_value \<Rightarrow> string" where
  "tok_text v = (case v of TStr s \<Rightarrow> s | TNum x \<Rightarrow> jn_text x | TBool b \<Rightarrow> if b then ''true'' else ''false'')"

text \<open>\<open>String(tokVal(stackValueAt(r, i)))\<close>.\<close>

definition tokVal :: "stack_val list \<Rightarrow> nat \<Rightarrow> cel_exn + string" where
  "tokVal values index = rbind (stackValueAt values index) (\<lambda>v. case v of
      SToken t \<Rightarrow> (case tk_value t of Some v \<Rightarrow> Inr (tok_text v) | None \<Rightarrow> Inl (CelError ''CEL_PARSE: expected value-bearing token''))
    | _ \<Rightarrow> Inl (CelError ''CEL_PARSE: expected value-bearing token''))"

subsection \<open>Reduce actions\<close>

definition buildCall :: "expr \<Rightarrow> string \<Rightarrow> expr list \<Rightarrow> bool \<Rightarrow> position \<Rightarrow> cel_exn + expr" where
  "buildCall receiver name args nullSafe p =
     (case comprehension_kind_of name of
        Some k \<Rightarrow>
          (case args of
             [Ident x, body] \<Rightarrow> Inr (Comprehension k receiver x body nullSafe)
           | _ \<Rightarrow> Inl (ParseError ''CEL_PARSE: comprehension expects identifier as first argument'' p))
      | None \<Rightarrow>
          if name \<in> set RECEIVER_METHODS
          then Inr (if nullSafe then NullSafeMethod receiver name args else Method receiver name args)
          else Inl (ParseError (''CEL_PARSE: unknown method '' @ [CHR 0x27] @ name @ [CHR 0x27] @ '' in call'') p))"

definition pass :: "nat \<Rightarrow> stack_val list \<Rightarrow> cel_exn + stack_val" where
  "pass i r = stackValueAt r i"

definition binary :: "string \<Rightarrow> stack_val list \<Rightarrow> cel_exn + stack_val" where
  "binary op r = rbind (exprAt r 0) (\<lambda>a. rbind (exprAt r 2) (\<lambda>b. Inr (SExpr (Binary op a b))))"

definition unary :: "string \<Rightarrow> stack_val list \<Rightarrow> cel_exn + stack_val" where
  "unary op r = rbind (exprAt r 1) (\<lambda>a. Inr (SExpr (Unary op a)))"

definition ternary :: "stack_val list \<Rightarrow> cel_exn + stack_val" where
  "ternary r = rbind (exprAt r 0) (\<lambda>a. rbind (exprAt r 2) (\<lambda>b. rbind (exprAt r 4) (\<lambda>c. Inr (SExpr (Ternary a b c)))))"

definition named_member :: "(expr \<Rightarrow> expr \<Rightarrow> expr) \<Rightarrow> stack_val list \<Rightarrow> cel_exn + stack_val" where
  "named_member build r = rbind (exprAt r 0) (\<lambda>a. rbind (tokVal r 2) (\<lambda>k. Inr (SExpr (build a (Literal (LStr k))))))"

definition indexed_member :: "(expr \<Rightarrow> expr \<Rightarrow> expr) \<Rightarrow> stack_val list \<Rightarrow> cel_exn + stack_val" where
  "indexed_member build r = rbind (exprAt r 0) (\<lambda>a. rbind (exprAt r 2) (\<lambda>k. Inr (SExpr (build a k))))"

definition method_call :: "bool \<Rightarrow> stack_val list \<Rightarrow> cel_exn + stack_val" where
  "method_call nullSafe r = rbind (exprAt r 0) (\<lambda>a. rbind (tokVal r 2) (\<lambda>name. rbind (exprListAt r 4) (\<lambda>args.
     rbind (tokenAt r 2) (\<lambda>t. map_sum id SExpr (buildCall a name args nullSafe (tk_pos t))))))"

definition literal_expr :: "(stack_val list \<Rightarrow> nat \<Rightarrow> cel_exn + 'a) \<Rightarrow> ('a \<Rightarrow> literal) \<Rightarrow> stack_val list \<Rightarrow> cel_exn + stack_val" where
  "literal_expr read build r = rbind (read r 0) (\<lambda>v. Inr (SExpr (Literal (build v))))"

definition single_expr :: "stack_val list \<Rightarrow> cel_exn + stack_val" where
  "single_expr r = rbind (exprAt r 0) (\<lambda>e. Inr (SExprs [e]))"

definition more_exprs :: "stack_val list \<Rightarrow> cel_exn + stack_val" where
  "more_exprs r = rbind (exprListAt r 0) (\<lambda>es. rbind (exprAt r 2) (\<lambda>e. Inr (SExprs (es @ [e]))))"

definition ACTIONS :: "(stack_val list \<Rightarrow> cel_exn + stack_val) list" where
  "ACTIONS = [
     pass 0, pass 0, ternary,
     binary ''||'', pass 0, binary ''&&'', pass 0,
     binary ''=='', binary ''!='', binary ''<'', binary ''<='', binary ''>'', binary ''>='', binary ''in'', pass 0,
     binary ''+'', binary ''-'', pass 0,
     binary ''*'', binary ''/'', binary ''%'', pass 0,
     unary ''!'', unary ''-'', pass 0,
     pass 0, named_member Member, method_call False, named_member NullSafeMember, method_call True,
     indexed_member Member, indexed_member NullSafeMember,
     literal_expr numberValueAt LNum, literal_expr stringValueAt LStr, literal_expr booleanValueAt LBool,
     (\<lambda>r. Inr (SExpr (Literal LNull))),
     (\<lambda>r. rbind (tokVal r 0) (\<lambda>x. Inr (SExpr (Ident x)))),
     (\<lambda>r. rbind (tokVal r 0) (\<lambda>f. rbind (exprListAt r 2) (\<lambda>args. Inr (SExpr (Call f args))))),
     pass 1,
     (\<lambda>r. rbind (exprListAt r 1) (\<lambda>es. Inr (SExpr (ArrayLit es)))),
     (\<lambda>r. rbind (entryListAt r 1) (\<lambda>es. Inr (SExpr (ObjectLit es)))),
     (\<lambda>r. Inr (SExprs [])), pass 0, pass 0, single_expr, more_exprs,
     (\<lambda>r. Inr (SExprs [])), pass 0, pass 0, single_expr, more_exprs,
     (\<lambda>r. Inr (SEntries [])), pass 0, pass 0,
     (\<lambda>r. rbind (entryAt r 0) (\<lambda>e. Inr (SEntries [e]))),
     (\<lambda>r. rbind (entryListAt r 0) (\<lambda>es. rbind (entryAt r 2) (\<lambda>e. Inr (SEntries (es @ [e]))))),
     (\<lambda>r. rbind (exprAt r 0) (\<lambda>k. rbind (exprAt r 2) (\<lambda>v. Inr (SEntry k v))))]"

definition action_at :: "nat \<Rightarrow> stack_val list \<Rightarrow> cel_exn + stack_val" where
  "action_at p r = (ACTIONS ! p) r"

text \<open>The same, found without building the whole list.\<close>

lemma nth_if: "(x # xs) ! n = (if n = 0 then x else xs ! (n - 1))"
  by (cases n) simp_all

lemma action_at_code [code]:
  "action_at p r = (
     if p \<le> 0 then pass 0 r
     else if p \<le> 1 then pass 0 r
     else if p \<le> 2 then ternary r
     else if p \<le> 3 then binary ''||'' r
     else if p \<le> 4 then pass 0 r
     else if p \<le> 5 then binary ''&&'' r
     else if p \<le> 6 then pass 0 r
     else if p \<le> 7 then binary ''=='' r
     else if p \<le> 8 then binary ''!='' r
     else if p \<le> 9 then binary ''<'' r
     else if p \<le> 10 then binary ''<='' r
     else if p \<le> 11 then binary ''>'' r
     else if p \<le> 12 then binary ''>='' r
     else if p \<le> 13 then binary ''in'' r
     else if p \<le> 14 then pass 0 r
     else if p \<le> 15 then binary ''+'' r
     else if p \<le> 16 then binary ''-'' r
     else if p \<le> 17 then pass 0 r
     else if p \<le> 18 then binary ''*'' r
     else if p \<le> 19 then binary ''/'' r
     else if p \<le> 20 then binary ''%'' r
     else if p \<le> 21 then pass 0 r
     else if p \<le> 22 then unary ''!'' r
     else if p \<le> 23 then unary ''-'' r
     else if p \<le> 24 then pass 0 r
     else if p \<le> 25 then pass 0 r
     else if p \<le> 26 then named_member Member r
     else if p \<le> 27 then method_call False r
     else if p \<le> 28 then named_member NullSafeMember r
     else if p \<le> 29 then method_call True r
     else if p \<le> 30 then indexed_member Member r
     else if p \<le> 31 then indexed_member NullSafeMember r
     else if p \<le> 32 then literal_expr numberValueAt LNum r
     else if p \<le> 33 then literal_expr stringValueAt LStr r
     else if p \<le> 34 then literal_expr booleanValueAt LBool r
     else if p \<le> 35 then Inr (SExpr (Literal LNull))
     else if p \<le> 36 then rbind (tokVal r 0) (\<lambda>x. Inr (SExpr (Ident x)))
     else if p \<le> 37 then rbind (tokVal r 0) (\<lambda>f. rbind (exprListAt r 2) (\<lambda>args. Inr (SExpr (Call f args))))
     else if p \<le> 38 then pass 1 r
     else if p \<le> 39 then rbind (exprListAt r 1) (\<lambda>es. Inr (SExpr (ArrayLit es)))
     else if p \<le> 40 then rbind (entryListAt r 1) (\<lambda>es. Inr (SExpr (ObjectLit es)))
     else if p \<le> 41 then Inr (SExprs [])
     else if p \<le> 42 then pass 0 r
     else if p \<le> 43 then pass 0 r
     else if p \<le> 44 then single_expr r
     else if p \<le> 45 then more_exprs r
     else if p \<le> 46 then Inr (SExprs [])
     else if p \<le> 47 then pass 0 r
     else if p \<le> 48 then pass 0 r
     else if p \<le> 49 then single_expr r
     else if p \<le> 50 then more_exprs r
     else if p \<le> 51 then Inr (SEntries [])
     else if p \<le> 52 then pass 0 r
     else if p \<le> 53 then pass 0 r
     else if p \<le> 54 then rbind (entryAt r 0) (\<lambda>e. Inr (SEntries [e]))
     else if p \<le> 55 then rbind (entryListAt r 0) (\<lambda>es. rbind (entryAt r 2) (\<lambda>e. Inr (SEntries (es @ [e]))))
     else if p \<le> 56 then rbind (exprAt r 0) (\<lambda>k. rbind (exprAt r 2) (\<lambda>v. Inr (SEntry k v)))
     else ([] ! (p - 57)) r)"
  unfolding action_at_def ACTIONS_def nth_if diff_diff_left 
  by (simp only: if_distribR diff_is_0_eq le_0_eq arith_simps numeral_plus_one one_plus_numeral one_add_one semiring_norm)

subsection \<open>The driver\<close>

text \<open>One round of the loop: a result, or the new stacks and token index.\<close>

type_synonym configuration = "nat list \<times> stack_val list \<times> nat"

definition unexpected :: "token \<Rightarrow> cel_exn" where
  "unexpected tok = ParseError (''CEL_PARSE: unexpected token '' @ [CHR 0x27] @ terminal_text (tk_type tok) @ [CHR 0x27]
     @ (if tk_type tok = T_end then '' (end of input)'' else []) @ '' at line '' @ dec (p_line (tk_pos tok))
     @ '', column '' @ dec (p_col (tk_pos tok))) (tk_pos tok)"

definition reduce_by :: "nat \<Rightarrow> token \<Rightarrow> nat list \<Rightarrow> stack_val list \<Rightarrow> nat \<Rightarrow> cel_exn + configuration" where
  "reduce_by p tok states vals tp =
     rbind (requiredAt table_productions p ''production'') (\<lambda>prod.
       let n = snd prod; rhs = rev (take n vals); states' = drop n states; vals' = drop n vals
       in if length ACTIONS \<le> p then Inl (ParseError (''CEL_PARSE: no action for production '' @ dec p) (tk_pos tok))
          else rbind (action_at p rhs) (\<lambda>value.
            rbind (requiredAt (rev states') (length states' - 1) ''parser state'') (\<lambda>current.
              case goto_of current (fst prod) of
                None \<Rightarrow> Inl (ParseError (''CEL_PARSE: no goto for '' @ nonterm_text (fst prod) @ '' from state '' @ dec current) (tk_pos tok))
              | Some g \<Rightarrow> Inr (g # states', value # vals', tp))))"

definition drive_step :: "token list \<Rightarrow> configuration \<Rightarrow> cel_exn + (expr + configuration)" where
  "drive_step tokens = (\<lambda>(states, vals, tp).
     rbind (requiredAt (rev states) (length states - 1) ''parser state'') (\<lambda>state.
     rbind (requiredAt tokens tp ''token'') (\<lambda>tok.
       case action_of state (tk_type tok) of
         None \<Rightarrow> Inl (unexpected tok)
       | Some (Shift s) \<Rightarrow> Inr (Inr (s # states, SToken tok # vals, tp + 1))
       | Some (Reduce p) \<Rightarrow> map_sum id Inr (reduce_by p tok states vals tp)
       | Some Accept \<Rightarrow> map_sum id Inl (exprAt (rev vals) (length vals - 1)))))"

fun drive :: "nat \<Rightarrow> token list \<Rightarrow> configuration \<Rightarrow> cel_exn + expr" where
  "drive 0 tokens cf = Inl Diverges"
| "drive (Suc n) tokens cf = rbind (drive_step tokens cf) (\<lambda>r. case r of Inl e \<Rightarrow> Inr e | Inr cf' \<Rightarrow> drive n tokens cf')"

text \<open>Every token costs at most 64 rounds (\<open>CelParserLaws\<close>).\<close>

definition drive_fuel :: "token list \<Rightarrow> nat" where
  "drive_fuel tokens = 64 * length tokens + 64"

definition parse :: "string \<Rightarrow> cel_exn + expr" where
  "parse src = (case lex src of
      Inl (LexError message p) \<Rightarrow> Inl (ParseError message p)
    | Inr tokens \<Rightarrow> drive (drive_fuel tokens) tokens ([0], [], 0))"

end
