(* ===== verification/CelGrammar.thy ===== *)
theory CelGrammar
  imports CelParser
begin

text \<open>
  The parse tables against the grammar.  Every state is given the items it stands for, a production with
  the number of symbols already read, and the symbol it is entered by; that the tables agree with them is
  checked state by state.
\<close>

definition rhs_of :: "nat \<Rightarrow> symbol list" where "rhs_of p = snd (PRODUCTIONS ! p)"
definition lhs_of :: "nat \<Rightarrow> nonterm" where "lhs_of p = fst (PRODUCTIONS ! p)"

definition kernels :: "(nat \<times> nat) list list" where
  "kernels = [
     [], [], [(0, 1)], [(1, 1), (2, 1), (3, 1)], [(4, 1), (5, 1)],
     [(6, 1), (7, 1), (8, 1), (9, 1), (10, 1), (11, 1), (12, 1), (13, 1)], [(14, 1), (15, 1), (16, 1)],
     [(17, 1), (18, 1), (19, 1), (20, 1)], [(21, 1)], [(22, 1)], [(23, 1)],
     [(24, 1), (26, 1), (27, 1), (28, 1), (29, 1), (30, 1), (31, 1)], [(25, 1)], [(32, 1)], [(33, 1)],
     [(34, 1)], [(35, 1)], [(36, 1), (37, 1)], [(38, 1)], [(39, 1)], [(40, 1)], [(2, 2)], [(3, 2)], [(5, 2)],
     [(7, 2)], [(8, 2)], [(9, 2)], [(10, 2)], [(11, 2)], [(12, 2)], [(13, 2)], [(15, 2)], [(16, 2)], [(18, 2)],
     [(19, 2)], [(20, 2)], [(22, 2)], [(23, 2)], [(26, 2), (27, 2)], [(28, 2), (29, 2)], [(30, 2)], [(31, 2)],
     [(37, 2)], [(38, 2)], [(39, 2)], [(47, 1), (48, 1), (50, 1)], [(49, 1)], [(40, 2)],
     [(52, 1), (53, 1), (55, 1)], [(54, 1)], [(56, 1)], [(2, 3)], [(3, 1), (3, 3)], [(5, 1), (5, 3)],
     [(7, 1), (7, 3), (8, 1), (9, 1), (10, 1), (11, 1), (12, 1), (13, 1)],
     [(7, 1), (8, 1), (8, 3), (9, 1), (10, 1), (11, 1), (12, 1), (13, 1)],
     [(7, 1), (8, 1), (9, 1), (9, 3), (10, 1), (11, 1), (12, 1), (13, 1)],
     [(7, 1), (8, 1), (9, 1), (10, 1), (10, 3), (11, 1), (12, 1), (13, 1)],
     [(7, 1), (8, 1), (9, 1), (10, 1), (11, 1), (11, 3), (12, 1), (13, 1)],
     [(7, 1), (8, 1), (9, 1), (10, 1), (11, 1), (12, 1), (12, 3), (13, 1)],
     [(7, 1), (8, 1), (9, 1), (10, 1), (11, 1), (12, 1), (13, 1), (13, 3)], [(15, 1), (15, 3), (16, 1)],
     [(15, 1), (16, 1), (16, 3)], [(18, 1), (18, 3), (19, 1), (20, 1)], [(18, 1), (19, 1), (19, 3), (20, 1)],
     [(18, 1), (19, 1), (20, 1), (20, 3)], [(26, 3), (27, 3)], [(28, 3), (29, 3)], [(30, 3)], [(31, 3)],
     [(37, 3)], [(42, 1), (43, 1), (45, 1)], [(44, 1)], [(38, 3)], [(39, 3)], [(48, 2), (50, 2)], [(40, 3)],
     [(53, 2), (55, 2)], [(56, 2)], [(2, 4)], [(27, 4)], [(29, 4)], [(30, 4)], [(31, 4)], [(37, 4)],
     [(43, 2), (45, 2)], [(50, 3)], [(55, 3)], [(56, 3)], [(2, 5)], [(27, 5)], [(29, 5)], [(45, 3)], [(27, 6)],
     [(29, 6)]]"

definition entered :: "symbol list" where
  "entered = [
     N N_Expr, N N_Expr, N N_Cond, N N_Or, N N_And, N N_Rel, N N_Add, N N_Mul, N N_Unary, T T_bang, T T_minus,
     N N_Postfix, N N_Primary, T NUMBER, T STRING, T BOOL, T NULL, T IDENT, T T_lpar, T T_lbrack, T T_lbrace,
     T T_quest, T T_or, T T_and, T T_eq, T T_ne, T T_lt, T T_le, T T_gt, T T_ge, T T_in, T T_plus, T T_minus,
     T T_star, T T_slash, T T_percent, N N_Unary, N N_Unary, T T_dot, T T_qdot, T T_lbrack, T T_qbrack,
     T T_lpar, N N_Expr, N N_Elems, N N_ElemList, N N_Expr, N N_Entries, N N_EntryList, N N_Entry, N N_Expr,
     N N_Expr, N N_Or, N N_And, N N_Rel, N N_Rel, N N_Rel, N N_Rel, N N_Rel, N N_Rel, N N_Rel, N N_Add,
     N N_Add, N N_Mul, N N_Mul, N N_Mul, T IDENT, T IDENT, N N_Expr, N N_Expr, N N_Args, N N_ArgList, N N_Expr,
     T T_rpar, T T_rbrack, T T_comma, T T_rbrace, T T_comma, T T_colon, T T_colon, T T_lpar, T T_lpar,
     T T_rbrack, T T_rbrack, T T_rpar, T T_comma, N N_Expr, N N_Entry, N N_Expr, N N_Expr, N N_Args, N N_Args,
     N N_Expr, T T_rpar, T T_rpar]"

text \<open>The states in which an empty list may be reduced.\<close>

definition empty_list_state :: "nat \<Rightarrow> bool" where
  "empty_list_state s \<longleftrightarrow> s \<in> {19, 20, 42, 80, 81}"

definition is_terminal :: "symbol \<Rightarrow> bool" where
  "is_terminal X \<longleftrightarrow> (case X of T _ \<Rightarrow> True | N _ \<Rightarrow> False)"

text \<open>
  Reading \<open>X\<close> leads from a state with items \<open>ks\<close> and transitions \<open>gs\<close> to \<open>s'\<close>: the items of \<open>s'\<close> are
  items of that state moved over \<open>X\<close>.  \<open>K\<close>, \<open>E\<close> and \<open>P\<close> are \<open>kernels\<close>, \<open>entered\<close> and \<open>PRODUCTIONS\<close>.
\<close>

definition item_ok :: "(nonterm \<times> symbol list) list \<Rightarrow> (nat \<times> nat) list \<Rightarrow> (nonterm \<times> nat) list \<Rightarrow> symbol \<Rightarrow> nat \<times> nat \<Rightarrow> bool" where
  "item_ok P ks gs X = (\<lambda>(p, d). let (A, r) = P ! p in 0 < d \<and> p < 57 \<and> d \<le> length r \<and> r ! (d - 1) = X
     \<and> (if d = 1 then map_of gs A \<noteq> None else (p, d - 1) \<in> set ks))"

definition edge_ok :: "(nonterm \<times> symbol list) list \<Rightarrow> (nat \<times> nat) list list \<Rightarrow> symbol list \<Rightarrow> nat \<Rightarrow>
    (nat \<times> nat) list \<Rightarrow> (nonterm \<times> nat) list \<Rightarrow> symbol \<Rightarrow> nat \<Rightarrow> bool" where
  "edge_ok P K E s ks gs X s' \<longleftrightarrow> s' < 95 \<and> s' \<noteq> 0 \<and> E ! s' = X \<and> (s' = 1 \<longrightarrow> s = 0)
     \<and> (empty_list_state s' \<longrightarrow> is_terminal X) \<and> list_all (item_ok P ks gs X) (K ! s')"

definition action_ok :: "(nonterm \<times> symbol list) list \<Rightarrow> (nat \<times> nat) list list \<Rightarrow> symbol list \<Rightarrow> nat \<Rightarrow>
    (nat \<times> nat) list \<Rightarrow> (nonterm \<times> nat) list \<Rightarrow> terminal \<times> action \<Rightarrow> bool" where
  "action_ok P K E s ks gs = (\<lambda>(t, a). case a of
      Shift s' \<Rightarrow> t \<noteq> T_end \<and> edge_ok P K E s ks gs (T t) s'
    | Reduce p \<Rightarrow> p < 57 \<and> (let (A, r) = P ! p in if r = [] then empty_list_state s \<and> map_of gs A \<noteq> None
        else (p, length r) \<in> set ks)
    | Accept \<Rightarrow> s = 1 \<and> t = T_end)"

definition rows_ok :: "(nonterm \<times> symbol list) list \<Rightarrow> (nat \<times> nat) list list \<Rightarrow> symbol list \<Rightarrow>
    (terminal \<times> action) list list \<Rightarrow> (nonterm \<times> nat) list list \<Rightarrow> nat list \<Rightarrow> bool" where
  "rows_ok P K E A G ss \<longleftrightarrow> list_all (\<lambda>s. let ks = K ! s; gs = G ! s in
     list_all (action_ok P K E s ks gs) (A ! s) \<and> list_all (\<lambda>(B, s'). edge_ok P K E s ks gs (N B) s') gs) ss"

lemma rows_ok_0: "rows_ok PRODUCTIONS kernels entered action_table goto_table [0..<19]" by code_simp
lemma rows_ok_19: "rows_ok PRODUCTIONS kernels entered action_table goto_table [19..<38]" by code_simp
lemma rows_ok_38: "rows_ok PRODUCTIONS kernels entered action_table goto_table [38..<57]" by code_simp
lemma rows_ok_57: "rows_ok PRODUCTIONS kernels entered action_table goto_table [57..<76]" by code_simp
lemma rows_ok_76: "rows_ok PRODUCTIONS kernels entered action_table goto_table [76..<95]" by code_simp

lemma length_tables: "length action_table = 95" "length goto_table = 95" "length PRODUCTIONS = 57" "length ACTIONS = 57"
  by (simp_all add: PRODUCTIONS_def ACTIONS_def) code_simp+

lemma table_productions_eq: "table_productions = map (\<lambda>(A, r). (A, length r)) PRODUCTIONS"
  by code_simp

end
