(* ===== verification/CelParserLaws.thy ===== *)
theory CelParserLaws
  imports CelGrammar
begin

text \<open>
  What the parser guarantees.  A stack of states is a path through the tables, and the symbols it was
  entered by spell what has been read; so a reduction always finds its right-hand side on the stack, its
  action gets the kinds of value it expects, and there is a transition for the result.  A measure bounds
  the rounds of the driver.
\<close>

subsection \<open>What the tables say\<close>

abbreviation action_fact :: "nat \<Rightarrow> terminal \<Rightarrow> action \<Rightarrow> bool" where
  "action_fact s t a \<equiv> action_ok PRODUCTIONS kernels entered s (kernels ! s) (goto_table ! s) (t, a)"

abbreviation edge :: "nat \<Rightarrow> symbol \<Rightarrow> nat \<Rightarrow> bool" where
  "edge s X s' \<equiv> edge_ok PRODUCTIONS kernels entered s (kernels ! s) (goto_table ! s) X s'"

lemma rows_okD:
  "rows_ok PRODUCTIONS kernels entered action_table goto_table ss \<Longrightarrow> s \<in> set ss \<Longrightarrow>
     (\<forall>ta\<in>set (action_table ! s). action_fact s (fst ta) (snd ta)) \<and> (\<forall>e\<in>set (goto_table ! s). edge s (N (fst e)) (snd e))"
  by (fastforce simp: rows_ok_def list_all_iff Let_def)

lemma state_rows:
  assumes "s < 95"
  shows "(\<forall>ta\<in>set (action_table ! s). action_fact s (fst ta) (snd ta)) \<and> (\<forall>e\<in>set (goto_table ! s). edge s (N (fst e)) (snd e))"
proof -
  consider "s \<in> set [0..<19]" | "s \<in> set [19..<38]" | "s \<in> set [38..<57]" | "s \<in> set [57..<76]" | "s \<in> set [76..<95]"
    using assms unfolding set_upt atLeastLessThan_iff by linarith
  then show ?thesis
    using rows_okD[OF rows_ok_0] rows_okD[OF rows_ok_19] rows_okD[OF rows_ok_38] rows_okD[OF rows_ok_57] rows_okD[OF rows_ok_76]
    by cases
qed

lemma action_of_fact: "action_of s t = Some a \<Longrightarrow> s < 95 \<and> action_fact s t a"
  using state_rows[of s] by (auto simp: action_of_def length_tables split: if_splits dest: map_of_SomeD)

lemma goto_of_edge: "goto_of s A = Some s' \<Longrightarrow> edge s (N A) s'"
  using state_rows[of s] by (fastforce simp: goto_of_def length_tables split: if_splits dest: map_of_SomeD)

lemma shift_edge: "action_of s t = Some (Shift s') \<Longrightarrow> t \<noteq> T_end \<and> edge s (T t) s'"
  by (drule action_of_fact) (simp add: action_ok_def)

lemma accept_fact: "action_of s t = Some Accept \<Longrightarrow> s = 1 \<and> t = T_end"
  by (drule action_of_fact) (simp add: action_ok_def)

lemma reduce_fact:
  assumes "action_of s t = Some (Reduce p)"
  shows "p < 57" and "rhs_of p = [] \<Longrightarrow> empty_list_state s \<and> goto_of s (lhs_of p) \<noteq> None"
    and "rhs_of p \<noteq> [] \<Longrightarrow> (p, length (rhs_of p)) \<in> set (kernels ! s)"
proof -
  from action_of_fact[OF assms] have s: "s < 95" and f: "action_fact s t (Reduce p)" by blast+
  show "p < 57" using f by (simp add: action_ok_def)
  show "rhs_of p = [] \<Longrightarrow> empty_list_state s \<and> goto_of s (lhs_of p) \<noteq> None"
    using f s by (auto simp: action_ok_def rhs_of_def lhs_of_def goto_of_def length_tables split: prod.splits)
  show "rhs_of p \<noteq> [] \<Longrightarrow> (p, length (rhs_of p)) \<in> set (kernels ! s)"
    using f s by (auto simp: action_ok_def rhs_of_def lhs_of_def goto_of_def length_tables split: prod.splits)
qed

lemma edge_facts:
  assumes "edge s X s'"
  shows "s' < 95" and "s' \<noteq> 0" and "entered ! s' = X" and "s' = 1 \<Longrightarrow> s = 0"
    and "empty_list_state s' \<Longrightarrow> is_terminal X"
  using assms unfolding edge_ok_def by blast+

lemma edge_item:
  assumes "edge s X s'" and "s < 95" and "(p, d) \<in> set (kernels ! s')"
  shows "0 < d" and "p < 57" and "d \<le> length (rhs_of p)" and "rhs_of p ! (d - 1) = X"
    and "d = 1 \<Longrightarrow> goto_of s (lhs_of p) \<noteq> None" and "d \<noteq> 1 \<Longrightarrow> (p, d - 1) \<in> set (kernels ! s)"
proof -
  have i: "item_ok PRODUCTIONS (kernels ! s) (goto_table ! s) X (p, d)"
    using assms(1,3) unfolding edge_ok_def list_all_iff by blast
  obtain A r where r: "PRODUCTIONS ! p = (A, r)" by fastforce
  with i assms(2) show "0 < d" "p < 57" "d \<le> length (rhs_of p)" "rhs_of p ! (d - 1) = X"
    "d = 1 \<Longrightarrow> goto_of s (lhs_of p) \<noteq> None" "d \<noteq> 1 \<Longrightarrow> (p, d - 1) \<in> set (kernels ! s)"
    by (auto simp: item_ok_def rhs_of_def lhs_of_def goto_of_def length_tables split: if_splits)
qed

subsection \<open>Stacks of states\<close>

fun path :: "nat list \<Rightarrow> bool" where
  "path [] = False"
| "path [s] = (s = 0)"
| "path (s' # s # ss) = (edge s (entered ! s') s' \<and> s < 95 \<and> path (s # ss))"

lemma path_state: "path (s # ss) \<Longrightarrow> s < 95"
  using edge_facts(1) by (cases ss) auto

lemma path_push: "path (s # ss) \<Longrightarrow> edge s X s' \<Longrightarrow> path (s' # s # ss)"
  using edge_facts(3)[of s X s'] path_state by simp

lemma path_bottom: "path (1 # ss) \<Longrightarrow> ss = [0]"
proof (cases ss)
  case (Cons s ts)
  assume "path (1 # ss)"
  with Cons have s: "edge s (entered ! 1) 1" "s < 95" "path (s # ts)" by simp_all
  then have "s = 0" using edge_facts(4) by blast
  with s(3) Cons show ?thesis using edge_facts(2) by (cases ts) auto
qed simp

lemma path_drop: "path ss \<Longrightarrow> n < length ss \<Longrightarrow> path (drop n ss)"
proof (induction n arbitrary: ss)
  case (Suc n)
  then obtain s' s ts where "ss = s' # s # ts" by (cases ss; cases "tl ss") auto
  with Suc show ?case by simp
qed simp

lemma kernels_0: "kernels ! 0 = []"
  by (simp add: kernels_def)

text \<open>An item of the top state lies that many states deep, and its symbols were read.\<close>

lemma path_item:
  "path (s # ss) \<Longrightarrow> (p, d) \<in> set (kernels ! s) \<Longrightarrow> s \<noteq> 0 \<Longrightarrow>
     d \<le> length ss \<and> d \<le> length (rhs_of p) \<and> map ((!) entered) (take d (s # ss)) = rev (take d (rhs_of p))
     \<and> goto_of ((s # ss) ! d) (lhs_of p) \<noteq> None"
proof (induction d arbitrary: s ss)
  case 0
  then obtain s0 ts where ss: "ss = s0 # ts" by (cases ss) auto
  with 0 have "edge s0 (entered ! s) s" "s0 < 95" by simp_all
  from edge_item(1)[OF this 0(2)] show ?case by simp
next
  case (Suc d)
  then obtain s0 ts where ss: "ss = s0 # ts" by (cases ss) auto
  with Suc.prems have e: "edge s0 (entered ! s) s" "s0 < 95" "path (s0 # ts)" by simp_all
  note i = edge_item[OF e(1,2) Suc.prems(2)]
  have f: "Suc d \<le> length (rhs_of p)" "rhs_of p ! d = entered ! s" using i(3,4) by simp_all
  have t: "rev (take (Suc d) (rhs_of p)) = entered ! s # rev (take d (rhs_of p))"
    using f(1,2) by (simp add: take_Suc_conv_app_nth)
  show ?case
  proof (cases "d = 0")
    case True
    with f t ss i(5) show ?thesis by simp
  next
    case False
    with i(6) have k: "(p, d) \<in> set (kernels ! s0)" by simp
    have "s0 \<noteq> 0" using k by (cases "s0 = 0") (auto simp: kernels_0)
    from Suc.IH[OF e(3) k this] show ?thesis using f(1) t ss by simp
  qed
qed

subsection \<open>Derivations\<close>

text \<open>
  \<open>derives X us v\<close>: the grammar derives the tokens \<open>us\<close> from \<open>X\<close>, and the reduce actions along the
  derivation give \<open>v\<close>.
\<close>

inductive derives :: "symbol \<Rightarrow> token list \<Rightarrow> stack_val \<Rightarrow> bool"
  and derives_list :: "symbol list \<Rightarrow> token list \<Rightarrow> stack_val list \<Rightarrow> bool" where
  terminal: "derives (T (tk_type t)) [t] (SToken t)"
| production: "p < length PRODUCTIONS \<Longrightarrow> PRODUCTIONS ! p = (A, r) \<Longrightarrow> derives_list r us vs \<Longrightarrow>
    (ACTIONS ! p) vs = Inr v \<Longrightarrow> derives (N A) us v"
| empty: "derives_list [] [] []"
| more: "derives X us v \<Longrightarrow> derives_list r ws vs \<Longrightarrow> derives_list (X # r) (us @ ws) (v # vs)"

inductive_cases derives_NilE: "derives_list [] us vs"
inductive_cases derives_ConsE: "derives_list (X # r) us vs"

lemma derives_list_length: "derives_list r us vs \<Longrightarrow> length vs = length r"
  by (induction r arbitrary: us vs) (auto elim: derives_NilE derives_ConsE)

lemma derives_list_append:
  "derives_list r us vs \<Longrightarrow> derives_list q ws xs \<Longrightarrow> derives_list (r @ q) (us @ ws) (vs @ xs)"
proof (induction r arbitrary: us vs)
  case Nil
  then show ?case by (auto elim: derives_NilE)
next
  case (Cons X r)
  from Cons.prems(1) obtain us1 us2 v vs' where "us = us1 @ us2" "vs = v # vs'" "derives X us1 v" "derives_list r us2 vs'"
    by (auto elim: derives_ConsE)
  with Cons show ?case by (auto intro: derives_derives_list.more)
qed

lemma derives_list_split:
  "derives_list (r @ q) us vs \<Longrightarrow>
     \<exists>us1 us2. us = us1 @ us2 \<and> derives_list r us1 (take (length r) vs) \<and> derives_list q us2 (drop (length r) vs)"
proof (induction r arbitrary: us vs)
  case Nil
  then show ?case by (auto intro: derives_derives_list.empty)
next
  case (Cons X r)
  from Cons.prems obtain us1 us2 v vs' where d: "us = us1 @ us2" "vs = v # vs'" "derives X us1 v" "derives_list (r @ q) us2 vs'"
    by (auto elim: derives_ConsE)
  from Cons.IH[OF d(4)] obtain ws1 ws2 where "us2 = ws1 @ ws2" "derives_list r ws1 (take (length r) vs')"
    "derives_list q ws2 (drop (length r) vs')" by blast
  with d show ?case
    by (intro exI[of _ "us1 @ ws1"] exI[of _ ws2]) (simp add: derives_derives_list.more)
qed

lemma derives_list_single: "derives X us v \<Longrightarrow> derives_list [X] us [v]"
  using derives_derives_list.more[OF _ derives_derives_list.empty] by force

subsection \<open>Kinds of value\<close>

definition kind_ok :: "symbol \<Rightarrow> stack_val \<Rightarrow> bool" where
  "kind_ok X v \<longleftrightarrow> (case X of
      T t \<Rightarrow> (case v of SToken tok \<Rightarrow> tk_type tok = t \<and> token_ok tok | _ \<Rightarrow> False)
    | N A \<Rightarrow> if A \<in> {N_Args, N_ArgList, N_Elems, N_ElemList} then (case v of SExprs _ \<Rightarrow> True | _ \<Rightarrow> False)
        else if A \<in> {N_Entries, N_EntryList} then (case v of SEntries _ \<Rightarrow> True | _ \<Rightarrow> False)
        else if A = N_Entry then (case v of SEntry _ _ \<Rightarrow> True | _ \<Rightarrow> False)
        else (case v of SExpr _ \<Rightarrow> True | _ \<Rightarrow> False))"

definition outcome_ok :: "nonterm \<Rightarrow> cel_exn + stack_val \<Rightarrow> bool" where
  "outcome_ok A r \<longleftrightarrow> (case r of Inr v \<Rightarrow> kind_ok (N A) v | Inl e \<Rightarrow> \<exists>m p. e = ParseError m p)"

lemma kind_token [simp]: "kind_ok (T t) v \<longleftrightarrow> (\<exists>tok. v = SToken tok \<and> tk_type tok = t \<and> token_ok tok)"
  by (auto simp: kind_ok_def split: stack_val.splits)

lemma kind_exprs [simp]:
  "kind_ok (N N_Args) v \<longleftrightarrow> (\<exists>es. v = SExprs es)" "kind_ok (N N_ArgList) v \<longleftrightarrow> (\<exists>es. v = SExprs es)"
  "kind_ok (N N_Elems) v \<longleftrightarrow> (\<exists>es. v = SExprs es)" "kind_ok (N N_ElemList) v \<longleftrightarrow> (\<exists>es. v = SExprs es)"
  by (auto simp: kind_ok_def split: stack_val.splits)

lemma kind_entries [simp]:
  "kind_ok (N N_Entries) v \<longleftrightarrow> (\<exists>es. v = SEntries es)" "kind_ok (N N_EntryList) v \<longleftrightarrow> (\<exists>es. v = SEntries es)"
  "kind_ok (N N_Entry) v \<longleftrightarrow> (\<exists>k e. v = SEntry k e)"
  by (auto simp: kind_ok_def split: stack_val.splits)

lemma kind_expr [simp]:
  "A \<in> {N_Expr, N_Cond, N_Or, N_And, N_Rel, N_Add, N_Mul, N_Unary, N_Postfix, N_Primary} \<Longrightarrow>
     kind_ok (N A) v \<longleftrightarrow> (\<exists>e. v = SExpr e)"
  by (auto simp: kind_ok_def split: stack_val.splits)

lemma value_token:
  "tk_type t = NUMBER \<Longrightarrow> token_ok t \<Longrightarrow> \<exists>x. tk_value t = Some (TNum x)"
  "tk_type t = BOOL \<Longrightarrow> token_ok t \<Longrightarrow> \<exists>b. tk_value t = Some (TBool b)"
  "tk_type t = STRING \<Longrightarrow> token_ok t \<Longrightarrow> \<exists>s. tk_value t = Some (TStr s)"
  "tk_type t = IDENT \<Longrightarrow> token_ok t \<Longrightarrow> \<exists>s. tk_value t = Some (TStr s)"
  by (auto simp: token_ok_def split: option.splits tok_value.splits)

lemma buildCall_outcome: "\<exists>e. buildCall r n as b p = Inr e \<or> (\<exists>m q. buildCall r n as b p = Inl (ParseError m q))"
  by (auto simp: buildCall_def split: option.splits list.splits expr.splits)

lemmas readers = stackValueAt_def requiredAt_def exprAt_def exprListAt_def entryListAt_def entryAt_def tokenAt_def
  tokenValueAt_def numberValueAt_def stringValueAt_def booleanValueAt_def tokVal_def

lemmas actions = pass_def binary_def unary_def ternary_def named_member_def indexed_member_def method_call_def literal_expr_def
  single_expr_def more_exprs_def

text \<open>Each action, on the kinds its production has.\<close>

abbreviation takes :: "symbol list \<Rightarrow> nonterm \<Rightarrow> (stack_val list \<Rightarrow> cel_exn + stack_val) \<Rightarrow> bool" where
  "takes r A f \<equiv> \<forall>vs. list_all2 kind_ok r vs \<longrightarrow> outcome_ok A (f vs)"

definition expr_symbol :: "nonterm \<Rightarrow> bool" where
  "expr_symbol A \<longleftrightarrow> A \<in> {N_Expr, N_Cond, N_Or, N_And, N_Rel, N_Add, N_Mul, N_Unary, N_Postfix, N_Primary}"

lemma kind_expr_symbol: "expr_symbol A \<Longrightarrow> kind_ok (N A) v \<longleftrightarrow> (\<exists>e. v = SExpr e)"
  unfolding expr_symbol_def by (rule kind_expr)

named_theorems typed

lemma takes_pass [typed]:
  "expr_symbol A \<Longrightarrow> expr_symbol B \<Longrightarrow> takes [N B] A (pass 0)"
  by (auto simp: list_all2_Cons1 actions readers outcome_ok_def kind_expr_symbol)

lemma takes_pass_list [typed]:
  "takes [N N_ArgList] N_Args (pass 0)" "takes [N N_ArgList, T t] N_Args (pass 0)"
  "takes [N N_ElemList] N_Elems (pass 0)" "takes [N N_ElemList, T t] N_Elems (pass 0)"
  "takes [N N_EntryList] N_Entries (pass 0)" "takes [N N_EntryList, T t] N_Entries (pass 0)"
  by (auto simp: list_all2_Cons1 actions readers outcome_ok_def)

lemma takes_group [typed]: "takes [T t, N N_Expr, T u] N_Primary (pass 1)"
  by (auto simp: list_all2_Cons1 actions readers outcome_ok_def)

lemma takes_binary [typed]: "expr_symbol A \<Longrightarrow> takes [N A, T t, N A] A (binary op)"
  by (auto simp: list_all2_Cons1 actions readers outcome_ok_def kind_expr_symbol)

lemma takes_unary [typed]: "takes [T t, N N_Unary] N_Unary (unary op)"
  by (auto simp: list_all2_Cons1 actions readers outcome_ok_def)

lemma takes_ternary [typed]: "takes [N N_Or, T t, N N_Expr, T u, N N_Expr] N_Cond ternary"
  by (auto simp: list_all2_Cons1 actions readers outcome_ok_def)

lemma takes_named [typed]: "takes [N N_Postfix, T t, T IDENT] N_Postfix (named_member build)"
  by (auto simp: list_all2_Cons1 actions readers outcome_ok_def tok_text_def dest: value_token)

lemma takes_indexed [typed]: "takes [N N_Postfix, T t, N N_Expr, T u] N_Postfix (indexed_member build)"
  by (auto simp: list_all2_Cons1 actions readers outcome_ok_def)

lemma takes_method [typed]: "takes [N N_Postfix, T t, T IDENT, T u, N N_Args, T w] N_Postfix (method_call b)"
proof (intro allI impI)
  fix vs assume "list_all2 kind_ok [N N_Postfix, T t, T IDENT, T u, N N_Args, T w] vs"
  then obtain a d x l es r where vs: "vs = [SExpr a, d, SToken x, l, SExprs es, r]" and x: "tk_type x = IDENT" "token_ok x"
    by (auto simp: list_all2_Cons1)
  with value_token obtain s where s: "tk_value x = Some (TStr s)" by blast
  have "method_call b vs = map_sum id SExpr (buildCall a s es b (tk_pos x))"
    by (simp add: method_call_def readers vs s tok_text_def)
  with buildCall_outcome[of a s es b "tk_pos x"] show "outcome_ok N_Postfix (method_call b vs)" by (auto simp: outcome_ok_def)
qed

lemma takes_literals [typed]:
  "takes [T NUMBER] N_Primary (literal_expr numberValueAt LNum)" "takes [T STRING] N_Primary (literal_expr stringValueAt LStr)"
  "takes [T BOOL] N_Primary (literal_expr booleanValueAt LBool)" "takes [T NULL] N_Primary (\<lambda>r. Inr (SExpr (Literal LNull)))"
  "takes [T IDENT] N_Primary (\<lambda>r. rbind (tokVal r 0) (\<lambda>x. Inr (SExpr (Ident x))))"
  by (auto simp: list_all2_Cons1 actions readers outcome_ok_def dest: value_token)

lemma takes_primary [typed]:
  "takes [T IDENT, T t, N N_Args, T u] N_Primary (\<lambda>r. rbind (tokVal r 0) (\<lambda>f. rbind (exprListAt r 2) (\<lambda>args. Inr (SExpr (Call f args)))))"
  "takes [T t, N N_Elems, T u] N_Primary (\<lambda>r. rbind (exprListAt r 1) (\<lambda>es. Inr (SExpr (ArrayLit es))))"
  "takes [T t, N N_Entries, T u] N_Primary (\<lambda>r. rbind (entryListAt r 1) (\<lambda>es. Inr (SExpr (ObjectLit es))))"
  by (auto simp: list_all2_Cons1 actions readers outcome_ok_def dest: value_token)

lemma takes_lists [typed]:
  "takes [] N_Args (\<lambda>r. Inr (SExprs []))" "takes [] N_Elems (\<lambda>r. Inr (SExprs []))" "takes [] N_Entries (\<lambda>r. Inr (SEntries []))"
  "takes [N N_Expr] N_ArgList single_expr" "takes [N N_Expr] N_ElemList single_expr"
  "takes [N N_ArgList, T t, N N_Expr] N_ArgList more_exprs" "takes [N N_ElemList, T t, N N_Expr] N_ElemList more_exprs"
  "takes [N N_Entry] N_EntryList (\<lambda>r. rbind (entryAt r 0) (\<lambda>e. Inr (SEntries [e])))"
  "takes [N N_EntryList, T t, N N_Entry] N_EntryList
     (\<lambda>r. rbind (entryListAt r 0) (\<lambda>es. rbind (entryAt r 2) (\<lambda>e. Inr (SEntries (es @ [e])))))"
  "takes [N N_Expr, T t, N N_Expr] N_Entry (\<lambda>r. rbind (exprAt r 0) (\<lambda>k. rbind (exprAt r 2) (\<lambda>v. Inr (SEntry k v))))"
  by (auto simp: list_all2_Cons1 actions readers outcome_ok_def)

lemma actions_ok: "list_all2 (\<lambda>prod f. takes (snd prod) (fst prod) f) PRODUCTIONS ACTIONS"
  unfolding PRODUCTIONS_def ACTIONS_def
  by (intro list.rel_intros; unfold fst_conv snd_conv; rule typed; simp add: expr_symbol_def)

lemma action_outcome:
  assumes "p < 57" and "list_all2 kind_ok (rhs_of p) vs"
  shows "outcome_ok (lhs_of p) ((ACTIONS ! p) vs)"
  using list_all2_nthD[OF actions_ok, of p] assms by (simp add: length_tables rhs_of_def lhs_of_def)

lemma derives_kind:
  "derives X us v \<Longrightarrow> list_all token_ok us \<Longrightarrow> kind_ok X v"
  "derives_list r us vs \<Longrightarrow> list_all token_ok us \<Longrightarrow> list_all2 kind_ok r vs"
proof (induction rule: derives_derives_list.inducts)
  case (production p A r us vs v)
  then have "outcome_ok A (Inr v)" using action_outcome[of p vs] by (simp add: length_tables rhs_of_def lhs_of_def)
  then show ?case by (simp add: outcome_ok_def)
qed auto

subsection \<open>Rounds of the driver\<close>

definition spelled :: "nat list \<Rightarrow> symbol list" where
  "spelled ss = rev (map ((!) entered) (butlast ss))"

text \<open>The state of the driver: the stacks spell and derive the tokens read so far.\<close>

definition reading :: "token list \<Rightarrow> configuration \<Rightarrow> bool" where
  "reading tokens = (\<lambda>(ss, vs, tp). path ss \<and> tp < length tokens \<and> derives_list (spelled ss) (take tp tokens) (rev vs))"

definition stream :: "token list \<Rightarrow> bool" where
  "stream tokens \<longleftrightarrow> (\<exists>us q. tokens = us @ [end_token q] \<and> (\<forall>u\<in>set us. token_ok u \<and> tk_type u \<noteq> T_end))"

lemma lex_stream: "lex src = Inr tokens \<Longrightarrow> stream tokens"
  unfolding lex_def stream_def by (rule lex_from_shape)

lemma stream_nth:
  assumes "stream tokens" and "tp < length tokens"
  shows "tk_type (tokens ! tp) = T_end \<longleftrightarrow> tp = length tokens - 1" and "list_all token_ok tokens"
proof -
  from assms(1) obtain us q where t: "tokens = us @ [end_token q]" and u: "\<forall>u\<in>set us. token_ok u \<and> tk_type u \<noteq> T_end"
    by (auto simp: stream_def)
  show "tk_type (tokens ! tp) = T_end \<longleftrightarrow> tp = length tokens - 1"
    using assms(2) u nth_mem[of tp us] by (auto simp: t nth_append)
  show "list_all token_ok tokens" using u by (auto simp: t list_all_iff)
qed

lemma path_nonempty: "path ss \<Longrightarrow> ss \<noteq> []"
  by auto

lemma spelled_length: "path ss \<Longrightarrow> length (spelled ss) = length ss - 1"
  by (simp add: spelled_def)

lemma spelled_push: "ss \<noteq> [] \<Longrightarrow> spelled (s # ss) = spelled ss @ [entered ! s]"
  by (simp add: spelled_def)

lemma spelled_drop:
  assumes "n < length ss"
  shows "spelled ss = spelled (drop n ss) @ rev (map ((!) entered) (take n ss))"
proof -
  have "butlast ss = take n ss @ butlast (drop n ss)"
    using assms by (metis append_take_drop_id butlast_append drop_eq_Nil linorder_not_le)
  then show ?thesis by (simp add: spelled_def)
qed

lemma last_requiredAt: "xs \<noteq> [] \<Longrightarrow> requiredAt (rev xs) (length xs - 1) l = Inr (hd xs)"
  by (cases xs) (simp_all add: requiredAt_def nth_append)

lemma table_production: "p < 57 \<Longrightarrow> requiredAt table_productions p l = Inr (lhs_of p, length (rhs_of p))"
  by (simp add: requiredAt_def table_productions_eq length_tables lhs_of_def rhs_of_def case_prod_beta)

text \<open>A reduction finds its right-hand side on the stack.\<close>

lemma reduce_ready:
  assumes "path (s # ss)" and "action_of s t = Some (Reduce p)"
  shows "p < 57" and "length (rhs_of p) \<le> length ss"
    and "rev (map ((!) entered) (take (length (rhs_of p)) (s # ss))) = rhs_of p"
    and "\<exists>g. goto_of ((s # ss) ! length (rhs_of p)) (lhs_of p) = Some g"
proof -
  note f = reduce_fact[OF assms(2)]
  show "p < 57" by (rule f(1))
  have "length (rhs_of p) \<le> length ss \<and> rev (map ((!) entered) (take (length (rhs_of p)) (s # ss))) = rhs_of p
      \<and> goto_of ((s # ss) ! length (rhs_of p)) (lhs_of p) \<noteq> None"
  proof (cases "rhs_of p = []")
    case True with f(2) show ?thesis by simp
  next
    case False
    then have k: "(p, length (rhs_of p)) \<in> set (kernels ! s)" by (rule f(3))
    then have "s \<noteq> 0" by (cases "s = 0") (auto simp: kernels_0)
    from path_item[OF assms(1) k this] show ?thesis by simp
  qed
  then show "length (rhs_of p) \<le> length ss" "rev (map ((!) entered) (take (length (rhs_of p)) (s # ss))) = rhs_of p"
    "\<exists>g. goto_of ((s # ss) ! length (rhs_of p)) (lhs_of p) = Some g" by auto
qed

lemma reading_reduce:
  assumes r: "reading tokens (s # ss, vs, tp)" and ok: "list_all token_ok tokens"
    and a: "action_of s t = Some (Reduce p)"
  shows "(\<exists>m q. reduce_by p tok (s # ss) vs tp = Inl (ParseError m q)) \<or>
    (\<exists>v g. reduce_by p tok (s # ss) vs tp = Inr (g # drop (length (rhs_of p)) (s # ss), v # drop (length (rhs_of p)) vs, tp)
       \<and> reading tokens (g # drop (length (rhs_of p)) (s # ss), v # drop (length (rhs_of p)) vs, tp)
       \<and> edge (hd (drop (length (rhs_of p)) (s # ss))) (N (lhs_of p)) g)"
proof -
  let ?n = "length (rhs_of p)"
  let ?ss = "drop ?n (s # ss)"
  from r have path: "path (s # ss)" and d: "derives_list (spelled (s # ss)) (take tp tokens) (rev vs)" and tp: "tp < length tokens"
    by (simp_all add: reading_def)
  note ready = reduce_ready[OF path a]
  have len: "length vs = length ss" using derives_list_length[OF d] spelled_length[OF path] by simp
  have path': "path ?ss" by (rule path_drop[OF path]) (use ready(2) in simp)
  have ne: "?ss \<noteq> []" using path' by auto
  have hd: "hd ?ss = (s # ss) ! ?n" by (rule hd_drop_conv_nth) (use ready(2) in simp)
  have sp: "spelled (s # ss) = spelled ?ss @ rhs_of p"
    using spelled_drop[of ?n "s # ss"] ready(2,3) by simp
  have l: "length (spelled ?ss) = length vs - ?n" using spelled_length[OF path'] len by simp
  from derives_list_split[of "spelled ?ss" "rhs_of p"] d sp
  obtain us1 us2 where us: "take tp tokens = us1 @ us2" "derives_list (spelled ?ss) us1 (take (length vs - ?n) (rev vs))"
    "derives_list (rhs_of p) us2 (drop (length vs - ?n) (rev vs))" by (metis l)
  have vs: "take (length vs - ?n) (rev vs) = rev (drop ?n vs)" "drop (length vs - ?n) (rev vs) = rev (take ?n vs)"
    by (simp_all add: rev_drop rev_take)
  have "list_all token_ok (take tp tokens)" using ok by (auto simp: list_all_iff dest: in_set_takeD)
  with us(1) have "list_all token_ok us2" by simp
  then have out: "outcome_ok (lhs_of p) ((ACTIONS ! p) (rev (take ?n vs)))"
    using action_outcome[OF ready(1)] derives_kind(2)[OF us(3)] vs(2) by simp
  obtain g where g: "goto_of (hd ?ss) (lhs_of p) = Some g" using ready(4) hd by auto
  have run: "reduce_by p tok (s # ss) vs tp = rbind ((ACTIONS ! p) (rev (take ?n vs))) (\<lambda>v. Inr (g # ?ss, v # drop ?n vs, tp))"
    unfolding reduce_by_def action_at_def table_production[OF ready(1)] Let_def rbind_simps snd_conv fst_conv last_requiredAt[OF ne]
    using ready(1) g by (simp add: length_tables)
  show ?thesis
  proof (cases "(ACTIONS ! p) (rev (take ?n vs))")
    case (Inl e)
    with out run show ?thesis by (auto simp: outcome_ok_def)
  next
    case (Inr v)
    have e: "edge (hd ?ss) (N (lhs_of p)) g" by (rule goto_of_edge[OF g])
    obtain s0 ss0 where ss0: "?ss = s0 # ss0" using ne by (cases ?ss) auto
    have path'': "path (g # ?ss)" using path' e unfolding ss0 list.sel(1) by (rule path_push)
    have "derives (N (lhs_of p)) us2 v"
      by (rule derives_derives_list.production[of p])
        (use ready(1) us(3) vs(2) Inr in \<open>simp_all add: length_tables lhs_of_def rhs_of_def\<close>)
    then have "derives_list (spelled (g # ?ss)) (take tp tokens) (rev (v # drop ?n vs))"
      unfolding spelled_push[OF ne] edge_facts(3)[OF e] us(1) rev.simps
      by (intro derives_list_append derives_list_single) (use us(2) vs(1) in simp_all)
    with path'' tp have "reading tokens (g # ?ss, v # drop ?n vs, tp)" by (simp add: reading_def)
    with run Inr e show ?thesis by simp
  qed
qed

subsection \<open>The driver ends\<close>

text \<open>How far a symbol is from the leaves along productions of one symbol.\<close>

fun nonterm_rank :: "nonterm \<Rightarrow> nat" where
  "nonterm_rank N_Primary = 1" | "nonterm_rank N_Postfix = 2" | "nonterm_rank N_Unary = 3" | "nonterm_rank N_Mul = 4"
| "nonterm_rank N_Add = 5" | "nonterm_rank N_Rel = 6" | "nonterm_rank N_And = 7" | "nonterm_rank N_Or = 8"
| "nonterm_rank N_Cond = 9" | "nonterm_rank N_Expr = 10" | "nonterm_rank N_ArgList = 11" | "nonterm_rank N_ElemList = 11"
| "nonterm_rank N_Args = 12" | "nonterm_rank N_Elems = 12" | "nonterm_rank N_Entry = 1" | "nonterm_rank N_EntryList = 2"
| "nonterm_rank N_Entries = 3"

definition symbol_rank :: "symbol \<Rightarrow> nat" where
  "symbol_rank X = (case X of T _ \<Rightarrow> 0 | N A \<Rightarrow> nonterm_rank A)"

lemma symbol_rank_le: "symbol_rank X \<le> 12"
proof (cases X)
  case (N A)
  then show ?thesis by (cases A) (simp_all add: symbol_rank_def)
qed (simp add: symbol_rank_def)

lemma unit_rank: "p < 57 \<Longrightarrow> length (rhs_of p) = 1 \<Longrightarrow> symbol_rank (hd (rhs_of p)) < symbol_rank (N (lhs_of p))"
proof -
  have "list_all (\<lambda>(A, r). length r = 1 \<longrightarrow> symbol_rank (hd r) < symbol_rank (N A)) PRODUCTIONS" by code_simp
  then show "p < 57 \<Longrightarrow> length (rhs_of p) = 1 \<Longrightarrow> ?thesis"
    by (auto simp: list_all_length length_tables rhs_of_def lhs_of_def split: prod.splits)
qed

text \<open>
  Each round lowers \<open>effort\<close>: a reduction of two or more symbols shortens the stack, one of a single
  symbol raises the rank of its top, an empty one leaves a state that only a shift leads to, and a shift
  uses up a token.
\<close>

definition effort :: "token list \<Rightarrow> configuration \<Rightarrow> nat" where
  "effort tokens = (\<lambda>(ss, vs, tp). 13 * length ss + (12 - symbol_rank (entered ! hd ss))
     + (if empty_list_state (hd ss) then 26 else 0) + 64 * (length tokens - tp))"

lemma effort_shift:
  assumes "tp < length tokens"
  shows "effort tokens (s' # ss, vs', tp + 1) < effort tokens (ss, vs, tp)"
proof -
  have "64 * (length tokens - tp) = 64 * (length tokens - (tp + 1)) + 64" using assms by simp
  moreover define r where "r = 12 - symbol_rank (entered ! s')"
  moreover from this have "r \<le> 12" by simp
  ultimately show ?thesis unfolding effort_def prod.case list.sel r_def[symmetric] by simp
qed

lemma effort_reduce:
  assumes path: "path (s # ss)" and a: "action_of s t = Some (Reduce p)"
    and e: "edge (hd (drop (length (rhs_of p)) (s # ss))) (N (lhs_of p)) g"
  shows "effort tokens (g # drop (length (rhs_of p)) (s # ss), vs', tp) < effort tokens (s # ss, vs, tp)"
proof -
  let ?n = "length (rhs_of p)"
  note ready = reduce_ready[OF path a]
  have g: "entered ! g = N (lhs_of p)" "\<not> empty_list_state g"
    using edge_facts(3)[OF e] edge_facts(5)[OF e] by (auto simp: is_terminal_def)
  have len: "length (drop ?n (s # ss)) = length (s # ss) - ?n" by simp
  consider "?n = 0" | "?n = 1" | "2 \<le> ?n" by linarith
  then show ?thesis
  proof cases
    case 1
    then have "empty_list_state s" using reduce_fact(2)[OF a] by simp
    with 1 g symbol_rank_le[of "entered ! s"] show ?thesis by (simp add: effort_def)
  next
    case 2
    then obtain X where X: "rhs_of p = [X]" by (auto simp: length_Suc_conv)
    with ready(3) have "entered ! s = X" by simp
    with unit_rank[OF ready(1)] X have lt: "symbol_rank (entered ! s) < symbol_rank (N (lhs_of p))" by simp
    have "12 - symbol_rank (N (lhs_of p)) < 12 - symbol_rank (entered ! s)"
      using lt symbol_rank_le[of "N (lhs_of p)"] by linarith
    with 2 g show ?thesis by (simp add: effort_def)
  next
    case 3
    define k where "k = Suc (length ss) - ?n"
    then have "k + 2 \<le> Suc (length ss)" using 3 ready(2) by arith
    from mult_le_mono2[OF this, of 13] have "13 * k + 26 \<le> 13 * Suc (length ss)" by simp
    with g 3 ready(2) show ?thesis by (simp add: effort_def k_def[symmetric])
  qed
qed

lemma drive_step_ok:
  assumes r: "reading tokens cf" and st: "stream tokens"
  shows "case drive_step tokens cf of
      Inl e \<Rightarrow> (\<exists>m q. e = ParseError m q)
    | Inr (Inl e) \<Rightarrow> derives (N N_Expr) (butlast tokens) (SExpr e)
    | Inr (Inr cf') \<Rightarrow> reading tokens cf' \<and> effort tokens cf' < effort tokens cf"
proof -
  obtain s ss vs tp where cf: "cf = (s # ss, vs, tp)" using r by (cases cf; cases "fst cf") (auto simp: reading_def)
  from r cf have path: "path (s # ss)" and d: "derives_list (spelled (s # ss)) (take tp tokens) (rev vs)"
    and tp: "tp < length tokens" by (simp_all add: reading_def)
  let ?t = "tokens ! tp"
  have ok: "list_all token_ok tokens" by (rule stream_nth(2)[OF st tp])
  have state: "requiredAt (rev (s # ss)) (length (s # ss) - 1) ''parser state'' = Inr s"
    using last_requiredAt[of "s # ss"] by simp
  have tok: "requiredAt tokens tp ''token'' = Inr ?t" using tp by (simp add: requiredAt_def)
  show ?thesis
  proof (cases "action_of s (tk_type ?t)")
    case None
    then show ?thesis unfolding cf drive_step_def prod.case state tok by (simp add: unexpected_def)
  next
    case (Some a)
    show ?thesis
    proof (cases a)
      case (Shift s')
      with Some have e: "tk_type ?t \<noteq> T_end" "edge s (T (tk_type ?t)) s'" by (auto dest: shift_edge)
      have "tp \<noteq> length tokens - 1" using stream_nth(1)[OF st tp] e(1) by simp
      then have tp': "tp + 1 < length tokens" using tp by linarith
      have "derives_list (spelled (s' # s # ss)) (take tp tokens @ [?t]) (rev (SToken ?t # vs))"
        unfolding spelled_push[OF list.distinct(2)] edge_facts(3)[OF e(2)] rev.simps
        by (intro derives_list_append derives_list_single d derives_derives_list.terminal)
      then have "reading tokens (s' # s # ss, SToken ?t # vs, tp + 1)"
        using path_push[OF path e(2)] tp' by (simp add: reading_def take_Suc_conv_app_nth[OF tp])
      with Some Shift effort_shift[OF tp] show ?thesis unfolding cf drive_step_def prod.case state tok by simp
    next
      case (Reduce p)
      with Some have a: "action_of s (tk_type ?t) = Some (Reduce p)" by simp
      from reading_reduce[OF r[unfolded cf] ok a, of ?t] effort_reduce[OF path a] a show ?thesis
        unfolding cf drive_step_def prod.case state tok by (auto simp del: effort_def)
    next
      case Accept
      with Some have a: "s = 1" "tk_type ?t = T_end" by (auto dest: accept_fact)
      with path have ss: "ss = [0]" by (simp add: path_bottom del: path.simps)
      have sp: "spelled (s # ss) = [N N_Expr]" using a(1) ss by (simp add: spelled_def entered_def)
      have "tp = length tokens - 1" using stream_nth(1)[OF st tp] a(2) by simp
      then have us: "take tp tokens = butlast tokens" by (simp add: butlast_conv_take)
      from d sp obtain v where v: "vs = [v]" "derives (N N_Expr) (butlast tokens) v"
        unfolding us by (auto elim!: derives_ConsE derives_NilE)
      have "list_all token_ok (butlast tokens)" using ok by (auto simp: list_all_iff dest: in_set_butlastD)
      from derives_kind(1)[OF v(2) this] obtain e where "v = SExpr e" by auto
      with v Some Accept show ?thesis
        unfolding cf drive_step_def prod.case state tok by (simp add: exprAt_def stackValueAt_def requiredAt_def)
    qed
  qed
qed

lemma drive_ok:
  "reading tokens cf \<Longrightarrow> stream tokens \<Longrightarrow> effort tokens cf < n \<Longrightarrow>
     (case drive n tokens cf of Inl e \<Rightarrow> (\<exists>m q. e = ParseError m q) | Inr e \<Rightarrow> derives (N N_Expr) (butlast tokens) (SExpr e))"
proof (induction n arbitrary: cf)
  case (Suc n)
  from drive_step_ok[OF Suc.prems(1,2)] Suc show ?case
    by (force split: sum.splits simp: rbind_def)
qed simp

lemma reading_start: "stream tokens \<Longrightarrow> reading tokens ([0], [], 0)"
  by (auto simp: reading_def stream_def spelled_def derives_derives_list.empty)

lemma start_effort: "effort tokens ([0], [], 0) < drive_fuel tokens"
  by (simp add: effort_def drive_fuel_def empty_list_state_def)

lemma parse_ok:
  "case parse src of Inl e \<Rightarrow> (\<exists>m q. e = ParseError m q)
   | Inr e \<Rightarrow> (\<exists>us q. lex src = Inr (us @ [end_token q]) \<and> derives (N N_Expr) us (SExpr e))"
proof (cases "lex src")
  case (Inl e)
  then show ?thesis by (cases e) (simp add: parse_def)
next
  case (Inr tokens)
  note st = lex_stream[OF Inr]
  then obtain us q where us: "tokens = us @ [end_token q]" by (auto simp: stream_def)
  from drive_ok[OF reading_start[OF st] st start_effort] Inr us show ?thesis
    by (auto simp: parse_def split: sum.splits)
qed

end
