(* ===== verification/CelValue.thy ===== *)
theory CelValue
  imports CelAst
begin

text \<open>
  The values expressions compute with: what JavaScript calls \<open>unknown\<close>, without functions and symbols, and
  with every number.  \<open>String(v)\<close>, \<open>JSON.stringify(v)\<close>, truth and the string methods the evaluator uses.
  A capital letter past code unit 255 is outside the model, so \<open>toUpperCase\<close> leaves its small letter.
\<close>

datatype val =
    VUndef
  | VNull
  | VBool bool
  | VNum jsnum
  | VStr string
  | VArr "val list"
  | VObj "(string \<times> val) list"

type_synonym cel_context = "(string \<times> val) list"

definition truthy :: "val \<Rightarrow> bool" where
  "truthy v = (case v of
      VUndef \<Rightarrow> False | VNull \<Rightarrow> False | VBool b \<Rightarrow> b | VNum x \<Rightarrow> x \<noteq> Fin 0 \<and> x \<noteq> NaN | VStr s \<Rightarrow> s \<noteq> [] | _ \<Rightarrow> True)"

definition val_nullish :: "val \<Rightarrow> bool" where
  "val_nullish v \<longleftrightarrow> v = VNull \<or> v = VUndef"

definition typeof :: "val \<Rightarrow> string" where
  "typeof v = (case v of
      VUndef \<Rightarrow> ''undefined'' | VBool _ \<Rightarrow> ''boolean'' | VNum _ \<Rightarrow> ''number'' | VStr _ \<Rightarrow> ''string'' | _ \<Rightarrow> ''object'')"

text \<open>\<open>v ?? null\<close>.\<close>

definition or_null :: "val \<Rightarrow> val" where
  "or_null v = (if val_nullish v then VNull else v)"

subsection \<open>Text\<close>

fun val_String :: "val \<Rightarrow> string" and val_Strings :: "val list \<Rightarrow> string list" where
  "val_String VUndef = ''undefined''"
| "val_String VNull = ''null''"
| "val_String (VBool b) = (if b then ''true'' else ''false'')"
| "val_String (VNum x) = jn_text x"
| "val_String (VStr s) = s"
| "val_String (VArr xs) = js_join '','' (val_Strings xs)"
| "val_String (VObj m) = ''[object Object]''"
| "val_Strings [] = []"
| "val_Strings (x # xs) = (if val_nullish x then [] else val_String x) # val_Strings xs"

fun val_json :: "val \<Rightarrow> string"
  and val_json_elems :: "val list \<Rightarrow> string list"
  and val_json_props :: "(string \<times> val) list \<Rightarrow> (string \<times> string) list" where
  "val_json VUndef = ''null''"
| "val_json VNull = ''null''"
| "val_json (VBool b) = (if b then ''true'' else ''false'')"
| "val_json (VNum x) = (case x of Fin r \<Rightarrow> num_string r | _ \<Rightarrow> ''null'')"
| "val_json (VStr s) = quote_string s"
| "val_json (VArr xs) = ''['' @ js_join '','' (val_json_elems xs) @ '']''"
| "val_json (VObj m) = members (val_json_props m)"
| "val_json_elems [] = []"
| "val_json_elems (x # xs) = val_json x # val_json_elems xs"
| "val_json_props [] = []"
| "val_json_props (p # m) = (if snd p = VUndef then val_json_props m else (fst p, val_json (snd p)) # val_json_props m)"

text \<open>\<open>JSON.stringify(v)\<close> inside a template: \<open>undefined\<close> has no JSON.\<close>

definition val_stringify :: "val \<Rightarrow> string" where
  "val_stringify v = (if v = VUndef then ''undefined'' else val_json v)"

subsection \<open>String methods\<close>

definition occurs_at :: "string \<Rightarrow> string \<Rightarrow> nat \<Rightarrow> bool" where
  "occurs_at needle s k \<longleftrightarrow> k \<le> length s \<and> take (length needle) (drop k s) = needle"

text \<open>\<open>s.indexOf(needle)\<close> and \<open>s.lastIndexOf(needle)\<close>; \<open>None\<close> is -1.\<close>

definition first_index :: "string \<Rightarrow> string \<Rightarrow> nat option" where
  "first_index needle s = find (occurs_at needle s) [0..<Suc (length s)]"

definition last_index :: "string \<Rightarrow> string \<Rightarrow> nat option" where
  "last_index needle s = find (occurs_at needle s) (rev [0..<Suc (length s)])"

definition index_value :: "nat option \<Rightarrow> val" where
  "index_value k = VNum (case k of None \<Rightarrow> Fin (-1) | Some n \<Rightarrow> jn_nat n)"

definition val_ends_with :: "string \<Rightarrow> string \<Rightarrow> bool" where
  "val_ends_with suf s \<longleftrightarrow> length suf \<le> length s \<and> drop (length s - length suf) s = suf"

text \<open>\<open>s.split(sep)\<close> for a separator of any length.\<close>

fun split_on :: "string \<Rightarrow> string \<Rightarrow> string \<Rightarrow> string list" where
  "split_on sep acc [] = [acc]"
| "split_on sep acc (c # s) =
     (if take (length sep) (c # s) = sep then acc # split_on sep [] (drop (length sep - 1) s)
      else split_on sep (acc @ [c]) s)"

definition val_split :: "string \<Rightarrow> string \<Rightarrow> string list" where
  "val_split sep s = (if sep = [] then map (\<lambda>c. [c]) s else split_on sep [] s)"

text \<open>\<open>s.substring(a, b)\<close> for truncated numbers: clamped to the string, and swapped when out of order.\<close>

definition clamp :: "nat \<Rightarrow> jsnum \<Rightarrow> nat" where
  "clamp n a = (case a of Fin x \<Rightarrow> if x < 0 then 0 else min n (nat \<lfloor>x\<rfloor>) | PosInf \<Rightarrow> n | _ \<Rightarrow> 0)"

definition substring :: "string \<Rightarrow> jsnum \<Rightarrow> jsnum \<Rightarrow> string" where
  "substring s a b = (let i = clamp (length s) a; j = clamp (length s) b
     in take (max i j - min i j) (drop (min i j) s))"

definition trim_start :: "string \<Rightarrow> string" where "trim_start s = dropWhile is_ws s"
definition trim_end :: "string \<Rightarrow> string" where "trim_end s = rev (dropWhile is_ws (rev s))"

definition upper_latin :: "char \<Rightarrow> string" where
  "upper_latin c = (if code c = 223 then ''SS''
     else if (97 \<le> code c \<and> code c \<le> 122) \<or> (224 \<le> code c \<and> code c \<le> 254 \<and> code c \<noteq> 247) then [char_of (code c - 32)] else [c])"

text \<open>
  \<open>s.replace(old, new)\<close> with a string pattern: the first occurrence only, and \<open>new\<close> is a template in which
  \<open>$$\<close>, \<open>$&\<close>, \<open>$`\<close> and \<open>$'\<close> stand for a dollar, the match, and the text before and after it.
\<close>

fun expand_replacement :: "string \<Rightarrow> string \<Rightarrow> string \<Rightarrow> string \<Rightarrow> string" where
  "expand_replacement m before after (c # d # t) =
     (if c = CHR ''$'' \<and> d = CHR ''$'' then CHR ''$'' # expand_replacement m before after t
      else if c = CHR ''$'' \<and> d = CHR ''&'' then m @ expand_replacement m before after t
      else if c = CHR ''$'' \<and> d = CHR 0x60 then before @ expand_replacement m before after t
      else if c = CHR ''$'' \<and> d = CHR 0x27 then after @ expand_replacement m before after t
      else c # expand_replacement m before after (d # t))"
| "expand_replacement m before after t = t"

definition replace_first :: "string \<Rightarrow> string \<Rightarrow> string \<Rightarrow> string" where
  "replace_first old new s = (case first_index old s of
      None \<Rightarrow> s
    | Some k \<Rightarrow> take k s @ expand_replacement old (take k s) (drop (k + length old) s) new @ drop (k + length old) s)"

subsection \<open>Sorting\<close>

definition less_sign :: "string \<Rightarrow> string \<Rightarrow> int" where
  "less_sign a b = (if a < b then -1 else if b < a then 1 else 0)"

definition naturalCompare :: "val \<Rightarrow> val \<Rightarrow> int" where
  "naturalCompare a b = (case (a, b) of
      (VNum x, VNum y) \<Rightarrow> jn_sign (jn_sub x y)
    | (VStr s, VStr t) \<Rightarrow> less_sign s t
    | (VBool p, VBool q) \<Rightarrow> of_bool p - of_bool q
    | _ \<Rightarrow> less_sign (val_String a) (val_String b))"

fun insert_val :: "val \<Rightarrow> val list \<Rightarrow> val list" where
  "insert_val x [] = [x]"
| "insert_val x (y # ys) = (if naturalCompare x y \<le> 0 then x # y # ys else y # insert_val x ys)"

text \<open>\<open>Array.prototype.sort\<close>: \<open>undefined\<close> goes last and is never compared.\<close>

definition sort_vals :: "val list \<Rightarrow> val list" where
  "sort_vals xs = foldr insert_val (filter (\<lambda>x. x \<noteq> VUndef) xs) [] @ filter (\<lambda>x. x = VUndef) xs"

end
