(* ===== verification/CelBuiltins.thy ===== *)
theory CelBuiltins
  imports CelValue CelParser Effects "HOL-Library.Word"
begin

unbundle bit_operations_syntax

text \<open>
  The built-in functions of the expression language (\<open>cel/builtins.ts\<close>, with the seed functions of
  \<open>model/data.ts\<close>): conversions, arithmetic, collections, time, and the fake data drawn from a seedable
  generator.

  What an evaluation is given and what belongs to other packages is the record \<open>cel_host\<close>; \<open>Math.pow\<close> and
  \<open>Math.sqrt\<close>, whose results are not fixed by the language, the regular expression engine and \<open>Date.parse\<close>
  are parameters too.  A loop over a range that is not made of exact integers never ends, which is
  \<open>Diverges\<close>.  Names of properties every object inherits (\<open>constructor\<close>) are outside the model.
\<close>

subsection \<open>Phases and context\<close>

datatype cel_phase = Behavior | EventHydration | Reducer | Identity | Query | Response | PostCommit | Fault
  | Webhook | Saga | Projection | Lifecycle

record uuid_options =
  uo_msecs :: nat
  uo_seq :: int
  uo_random :: "nat list"

record cel_host =
  ch_equal :: "val \<Rightarrow> val \<Rightarrow> bool"
  ch_regex :: "string \<Rightarrow> string \<Rightarrow> string + bool"
  ch_pow :: "jsnum \<Rightarrow> jsnum \<Rightarrow> jsnum"
  ch_sqrt :: "jsnum \<Rightarrow> jsnum"
  ch_parse_date :: "string \<Rightarrow> jsnum"
  ch_date_now :: rat
  ch_random :: "nat \<Rightarrow> rat"
  ch_sha256 :: "string \<Rightarrow> nat list"
  ch_v4 :: "nat list \<Rightarrow> string"
  ch_v7 :: "uuid_options \<Rightarrow> string"

text \<open>
  The generator of an evaluator, with how often the unseeded source and the source of identifiers have been
  drawn from.
\<close>

record cel_state =
  cs_seed :: "32 word"
  cs_seeded :: bool
  cs_draws :: nat
  cs_uuids :: nat

type_synonym 'a cel = "(cel_state, cel_exn, 'a) eff"

record cel_env =
  ce_host :: cel_host
  ce_phase :: cel_phase
  ce_context :: cel_context
  ce_custom :: "(string \<times> (val list \<Rightarrow> cel_context \<Rightarrow> cel_phase \<Rightarrow> cel_exn + val)) list"
  ce_now :: "cel_exn + string"
  ce_uuid :: "nat \<Rightarrow> string"

subsection \<open>The generator\<close>

definition MULBERRY32_INCREMENT :: "32 word" where
  "MULBERRY32_INCREMENT = 1831565813"

definition mulberry :: "32 word \<Rightarrow> 32 word" where
  "mulberry state =
     (let t = (state XOR drop_bit 15 state) * (state OR 1);
          u = t XOR (t + (t XOR drop_bit 7 t) * (t OR 61))
      in u XOR drop_bit 14 u)"

definition rng_next :: "cel_host \<Rightarrow> rat cel" where
  "rng_next h = (\<lambda>s. if cs_seeded s
     then (let n = cs_seed s + MULBERRY32_INCREMENT in (Inr (of_nat (unat (mulberry n)) / 2 ^ 32), s\<lparr>cs_seed := n\<rparr>))
     else (Inr (ch_random h (cs_draws s)), s\<lparr>cs_draws := cs_draws s + 1\<rparr>))"

definition seedNumber :: "rat \<Rightarrow> unit cel" where
  "seedNumber seed = upd (\<lambda>s. s\<lparr>cs_seed := word_of_int (rat_trunc seed), cs_seeded := True\<rparr>)"

definition runtimeSeedHash :: "string \<Rightarrow> 32 word" where
  "runtimeSeedHash seed = foldl (\<lambda>hash c. (hash XOR of_nat (code c)) * 16777619) 2166136261 seed"

definition seedString :: "string option \<Rightarrow> cel_state \<Rightarrow> cel_state" where
  "seedString s st = (case s of
      None \<Rightarrow> st\<lparr>cs_seeded := False, cs_seed := 0\<rparr>
    | Some seed \<Rightarrow> st\<lparr>cs_seed := runtimeSeedHash seed, cs_seeded := True\<rparr>)"

definition uuidV7OptionsFromSeed :: "cel_host \<Rightarrow> string \<Rightarrow> uuid_options" where
  "uuidV7OptionsFromSeed h seed =
     (let hash = ch_sha256 h seed; byte = (\<lambda>i. if i < length hash then hash ! i else 0);
          w = (\<lambda>i. of_nat (byte i) :: 32 word);
          seq = push_bit 28 (drop_bit 4 (w 0) AND 15) OR push_bit 20 (w 1) OR push_bit 14 (w 2 AND 63)
             OR push_bit 6 (w 3) OR drop_bit 2 (w 4)
      in \<lparr>uo_msecs = 0, uo_seq = sint seq,
          uo_random = replicate 10 0 @ [byte 4 mod 4, byte 5, byte 6, byte 7, byte 8, byte 9]\<rparr>)"

text \<open>\<open>Math.floor(rng.next() * n)\<close>.\<close>

definition roll :: "cel_host \<Rightarrow> nat \<Rightarrow> nat cel" where
  "roll h n = bind (rng_next h) (\<lambda>r. ret (nat \<lfloor>round64 (r * of_nat n)\<rfloor>))"

definition pick :: "cel_host \<Rightarrow> string list \<Rightarrow> string cel" where
  "pick h arr = bind (roll h (length arr)) (\<lambda>i.
     if i < length arr then ret (arr ! i) else throw (CelError ''CEL_RUNTIME_ERROR: cannot pick from an empty list''))"

fun randomDigits :: "cel_host \<Rightarrow> nat \<Rightarrow> string cel" where
  "randomDigits h 0 = ret []"
| "randomDigits h (Suc n) = bind (roll h 10) (\<lambda>d. bind (randomDigits h n) (\<lambda>s. ret (dec d @ s)))"

definition alphabet :: string where
  "alphabet = ''abcdefghijklmnopqrstuvwxyzABCDEFGHIJKLMNOPQRSTUVWXYZ0123456789''"

fun randomAlphanumeric :: "cel_host \<Rightarrow> nat \<Rightarrow> string cel" where
  "randomAlphanumeric h 0 = ret []"
| "randomAlphanumeric h (Suc n) = bind (roll h (length alphabet)) (\<lambda>i.
     if i < length alphabet then bind (randomAlphanumeric h n) (\<lambda>s. ret (alphabet ! i # s))
     else throw (CelError ''CEL_RUNTIME_ERROR: random alphabet is empty''))"

subsection \<open>Fake data\<close>

definition firstName :: "cel_host \<Rightarrow> string cel" where
  "firstName h = pick h [''Alex'', ''Jordan'', ''Sam'', ''Taylor'', ''Casey'', ''Morgan'', ''Riley'', ''Quinn'', ''Avery'', ''Drew'']"

definition lastName :: "cel_host \<Rightarrow> string cel" where
  "lastName h = pick h [''Smith'', ''Jones'', ''Brown'', ''Taylor'', ''Wilson'', ''Davies'', ''Evans'', ''Robinson'', ''Walker'', ''Wright'']"

definition fullName :: "cel_host \<Rightarrow> string cel" where
  "fullName h = bind (firstName h) (\<lambda>f. bind (lastName h) (\<lambda>l. ret (f @ '' '' @ l)))"

definition fake_email :: "cel_host \<Rightarrow> string cel" where
  "fake_email h = bind (randomAlphanumeric h 8) (\<lambda>a. bind (pick h [''example.com'', ''test.org'', ''fake.net''])
     (\<lambda>d. ret (to_lower a @ ''@'' @ d)))"

definition fake_url :: "cel_host \<Rightarrow> string cel" where
  "fake_url h = bind (randomAlphanumeric h 6) (\<lambda>a. bind (randomAlphanumeric h 4)
     (\<lambda>b. ret (''https://'' @ to_lower a @ ''.example.com/'' @ to_lower b)))"

definition domainName :: "cel_host \<Rightarrow> string cel" where
  "domainName h = bind (randomAlphanumeric h 6) (\<lambda>a. ret (to_lower a @ ''.example.com''))"

definition phone_number :: "cel_host \<Rightarrow> string cel" where
  "phone_number h = bind (randomDigits h 1) (\<lambda>a. bind (randomDigits h 4) (\<lambda>b. bind (randomDigits h 4)
     (\<lambda>c. ret (''+61 '' @ a @ '' '' @ b @ '' '' @ c))))"

definition company_name :: "cel_host \<Rightarrow> string cel" where
  "company_name h = bind (pick h [''Apex'', ''BlueSky'', ''Cornerstone'', ''Delta'', ''Echo'', ''Foxtrot''])
     (\<lambda>a. bind (pick h [''Solutions'', ''Systems'', ''Holdings'', ''Group'', ''Industries'']) (\<lambda>b. ret (a @ '' '' @ b)))"

definition fake_city :: "cel_host \<Rightarrow> string cel" where
  "fake_city h = pick h [''Sydney'', ''Melbourne'', ''Brisbane'', ''Perth'', ''Adelaide'', ''Hobart'']"

definition streetAddress :: "cel_host \<Rightarrow> string cel" where
  "streetAddress h = bind (roll h 999) (\<lambda>n. bind (pick h [''George'', ''King'', ''Queen'', ''High'', ''Main''])
     (\<lambda>s. ret (dec (n + 1) @ '' '' @ s @ '' St'')))"

definition FAKE_DATA :: "(string \<times> (string \<times> (cel_host \<Rightarrow> string cel)) list) list" where
  "FAKE_DATA = [
     (''person'', [(''firstName'', firstName), (''lastName'', lastName), (''fullName'', fullName)]),
     (''internet'', [(''email'', fake_email), (''url'', fake_url), (''domainName'', domainName)]),
     (''phone'', [(''number'', phone_number)]),
     (''company'', [(''name'', company_name)]),
     (''address'', [(''city'', fake_city), (''streetAddress'', streetAddress)])]"

fun rolls :: "cel_host \<Rightarrow> nat \<Rightarrow> nat \<Rightarrow> nat list cel" where
  "rolls h n 0 = ret []"
| "rolls h n (Suc k) = bind (roll h n) (\<lambda>d. bind (rolls h n k) (\<lambda>ds. ret (d # ds)))"

definition fakeUuid :: "cel_host \<Rightarrow> string cel" where
  "fakeUuid h = bind (rolls h 256 16) (\<lambda>bs. ret (ch_v4 h bs))"

definition arg :: "val list \<Rightarrow> nat \<Rightarrow> val" where
  "arg args i = (if i < length args then args ! i else VUndef)"

definition in_quotes :: "string \<Rightarrow> string" where
  "in_quotes s = [CHR 0x27] @ s @ [CHR 0x27]"

definition cel_fail :: "string \<Rightarrow> cel_exn + 'a" where
  "cel_fail message = Inl (CelError message)"

definition fake :: "cel_host \<Rightarrow> val list \<Rightarrow> val cel" where
  "fake h args = (case arg args 0 of
      VStr spec \<Rightarrow>
        (case first_index ''.'' spec of
           None \<Rightarrow> throw (CelError (''CEL_TYPE_ERROR: $fake() argument must be '' @ in_quotes ''module.method''))
         | Some dot \<Rightarrow>
             let category = take dot spec; method = drop (dot + 1) spec
             in (case map_of FAKE_DATA category of
                   None \<Rightarrow> throw (CelError (''CEL_RUNTIME_ERROR: $fake() unknown faker category '' @ in_quotes category))
                 | Some methods \<Rightarrow> (case map_of methods method of
                     None \<Rightarrow> throw (CelError (''CEL_RUNTIME_ERROR: $fake() unknown faker category '' @ in_quotes spec))
                   | Some f \<Rightarrow> bind (f h) (\<lambda>s. ret (VStr s)))))
    | _ \<Rightarrow> throw (CelError (''CEL_TYPE_ERROR: $fake() requires a string argument like '' @ in_quotes ''person.firstName'')))"

definition fakeSeed :: "val list \<Rightarrow> val cel" where
  "fakeSeed args = (case arg args 0 of
      VNum (Fin n) \<Rightarrow> bind (seedNumber n) (\<lambda>_. ret (VNum (Fin n)))
    | _ \<Rightarrow> throw (CelError ''CEL_TYPE_ERROR: $fakeSeed() requires a number''))"

subsection \<open>Dates\<close>

text \<open>The civil date of a day counted from 1970-01-01, as year, month and day.\<close>

definition civil :: "int \<Rightarrow> int \<times> int \<times> int" where
  "civil days =
     (let z = days + 719468; era = z div 146097; doe = z mod 146097;
          yoe = (doe - doe div 1460 + doe div 36524 - doe div 146096) div 365;
          doy = doe - (365 * yoe + yoe div 4 - yoe div 100); mp = (5 * doy + 2) div 153;
          d = doy - (153 * mp + 2) div 5 + 1; m = (if mp < 10 then mp + 3 else mp - 9)
      in (yoe + era * 400 + (if m \<le> 2 then 1 else 0), m, d))"

definition pad :: "nat \<Rightarrow> int \<Rightarrow> string" where
  "pad n i = (let s = dec (nat i) in replicate (n - length s) (CHR ''0'') @ s)"

text \<open>\<open>new Date(t).toISOString()\<close>: a time that is no number or past the range of dates is a \<open>RangeError\<close>.\<close>

definition toISOString :: "jsnum \<Rightarrow> cel_exn + string" where
  "toISOString t = (case t of
      Fin x \<Rightarrow> if 8640000000000000 < \<bar>x\<bar> then cel_fail ''Invalid time value''
        else let ms = rat_trunc x; days = ms div 86400000; r = ms mod 86400000; (y, m, d) = civil days;
                 year = (if y < 0 then ''-'' @ pad 6 (- y) else if y \<le> 9999 then pad 4 y else ''+'' @ pad 6 y)
             in Inr (year @ ''-'' @ pad 2 m @ ''-'' @ pad 2 d @ ''T'' @ pad 2 (r div 3600000) @ '':'' @ pad 2 (r div 60000 mod 60)
                  @ '':'' @ pad 2 (r div 1000 mod 60) @ ''.'' @ pad 3 (r mod 1000) @ ''Z'')
    | _ \<Rightarrow> cel_fail ''Invalid time value'')"

definition FAKE_DATE_EPOCH_START :: nat where "FAKE_DATE_EPOCH_START = 946684800000"
definition FAKE_DATE_EPOCH_END :: nat where "FAKE_DATE_EPOCH_END = 2524608000000"

definition fakeDate :: "cel_host \<Rightarrow> jsnum cel" where
  "fakeDate h = bind (roll h (FAKE_DATE_EPOCH_END - FAKE_DATE_EPOCH_START)) (\<lambda>k. ret (jn_nat (FAKE_DATE_EPOCH_START + k)))"

definition fakeFromFormat :: "cel_host \<Rightarrow> val list \<Rightarrow> val cel" where
  "fakeFromFormat h args = (case arg args 0 of
      VStr fmt \<Rightarrow>
        (let str = (\<lambda>m. bind m (\<lambda>s. ret (VStr s)))
         in if fmt = ''email'' then str (fake_email h)
            else if fmt = ''uuid'' then str (fakeUuid h)
            else if fmt = ''date'' then str (bind (fakeDate h) (\<lambda>t. bind (lift (toISOString t)) (\<lambda>s. ret (take 10 s))))
            else if fmt = ''date-time'' then str (bind (fakeDate h) (\<lambda>t. lift (toISOString t)))
            else if fmt = ''uri'' \<or> fmt = ''url'' then str (fake_url h)
            else if fmt = ''hostname'' then str (domainName h)
            else if fmt = ''ipv4'' then str (bind (rolls h 256 4) (\<lambda>ds. ret (js_join ''.'' (map dec ds))))
            else str (randomAlphanumeric h 10))
    | _ \<Rightarrow> throw (CelError ''CEL_TYPE_ERROR: $fakeFromFormat() requires a string argument''))"

end
