(* ===== verification/CelFunctions.thy ===== *)
theory CelFunctions
  imports CelBuiltins
begin

text \<open>
  The registry of built-in functions and how a call reaches one (\<open>BUILTINS\<close>, \<open>parseDuration\<close> and
  \<open>callBuiltin\<close> of \<open>cel/builtins.ts\<close>).
\<close>

subsection \<open>Durations\<close>

text \<open>\<open>(?:(\d+)U)?\<close>: digits and the unit, or nothing.\<close>

definition take_amount :: "char \<Rightarrow> string \<Rightarrow> string option \<times> string" where
  "take_amount unit s = (let ds = takeWhile is_digit s; r = dropWhile is_digit s
     in case r of c # t \<Rightarrow> if ds \<noteq> [] \<and> c = unit then (Some ds, t) else (None, s) | [] \<Rightarrow> (None, s))"

text \<open>\<open>\d+(?:\.\d+)?\<close>, and what follows it.\<close>

definition decimal_prefix :: "string \<Rightarrow> string \<times> string" where
  "decimal_prefix s =
     (let ds = takeWhile is_digit s; r = dropWhile is_digit s;
          fs = (case r of c # t \<Rightarrow> if c = CHR ''.'' then takeWhile is_digit t else [] | [] \<Rightarrow> [])
      in if ds \<noteq> [] \<and> fs \<noteq> [] then (ds @ ''.'' @ fs, drop (length fs + 1) r) else (ds, r))"

definition take_seconds :: "string \<Rightarrow> string option \<times> string" where
  "take_seconds s = (let (n, r) = decimal_prefix s
     in case r of c # t \<Rightarrow> if n \<noteq> [] \<and> c = CHR ''S'' then (Some n, t) else (None, s) | [] \<Rightarrow> (None, s))"

text \<open>The four captures of the ISO 8601 form; \<open>None\<close> when the text does not have it.\<close>

definition iso_duration :: "string \<Rightarrow> (string option \<times> string option \<times> string option \<times> string option) option" where
  "iso_duration s = (case s of
      [] \<Rightarrow> None
    | c # t \<Rightarrow>
        if c \<noteq> CHR ''P'' then None
        else let (d, r) = take_amount (CHR ''D'') t
             in case r of
                  [] \<Rightarrow> Some (d, None, None, None)
                | c2 # r1 \<Rightarrow>
                    if c2 \<noteq> CHR ''T'' then None
                    else let (h, r2) = take_amount (CHR ''H'') r1; (m, r3) = take_amount (CHR ''M'') r2; (sec, r4) = take_seconds r3
                         in if r4 = [] then Some (d, h, m, sec) else None)"

definition amount :: "string option \<Rightarrow> rat \<Rightarrow> jsnum" where
  "amount n factor = (case n of None \<Rightarrow> Fin 0 | Some ds \<Rightarrow> jn_mul (js_Number ds) (Fin factor))"

definition duration_unit :: "char \<Rightarrow> rat option" where
  "duration_unit c = map_of [(CHR ''s'', 1000), (CHR ''m'', 60000), (CHR ''h'', 3600000), (CHR ''d'', 86400000)] c"

definition invalid_duration :: "string \<Rightarrow> cel_exn + 'a" where
  "invalid_duration s = cel_fail (''CEL_RUNTIME_ERROR: invalid duration string: '' @ quote_string s)"

definition parseDuration :: "string \<Rightarrow> cel_exn + jsnum" where
  "parseDuration s = (case iso_duration s of
      Some (d, h, m, sec) \<Rightarrow>
        if d = None \<and> h = None \<and> m = None \<and> sec = None then invalid_duration s
        else Inr (jn_add (jn_add (jn_add (amount d 86400000) (amount h 3600000)) (amount m 60000)) (amount sec 1000))
    | None \<Rightarrow>
        let (n, r) = decimal_prefix s
        in case r of
             [c] \<Rightarrow> (case duration_unit c of
                 Some f \<Rightarrow> if n \<noteq> [] then Inr (jn_mul (js_Number n) (Fin f)) else invalid_duration s
               | None \<Rightarrow> invalid_duration s)
           | _ \<Rightarrow> invalid_duration s)"

subsection \<open>Functions of their arguments\<close>

definition concat_text :: "val \<Rightarrow> string" where
  "concat_text v = (case v of VNull \<Rightarrow> [] | VUndef \<Rightarrow> [] | VArr _ \<Rightarrow> val_json v | VObj _ \<Rightarrow> val_json v | _ \<Rightarrow> val_String v)"

definition string_text :: "val \<Rightarrow> string" where
  "string_text v = (case v of VNull \<Rightarrow> ''null'' | VUndef \<Rightarrow> ''null'' | VArr _ \<Rightarrow> val_json v | VObj _ \<Rightarrow> val_json v | _ \<Rightarrow> val_String v)"

definition cannot_convert :: "string \<Rightarrow> string \<Rightarrow> cel_exn + 'a" where
  "cannot_convert f what = cel_fail (''CEL_TYPE_ERROR: '' @ f @ ''() cannot convert '' @ what)"

definition number_value :: "string \<Rightarrow> (jsnum \<Rightarrow> jsnum) \<Rightarrow> val \<Rightarrow> cel_exn + val" where
  "number_value f post x = (case x of
      VNum n \<Rightarrow> Inr (VNum (post n))
    | VStr s \<Rightarrow> (case js_Number s of NaN \<Rightarrow> cannot_convert f (quote_string s) | n \<Rightarrow> Inr (VNum (post n)))
    | VBool b \<Rightarrow> Inr (VNum (Fin (of_bool b)))
    | _ \<Rightarrow> cannot_convert f (typeof x))"

definition to_bool :: "val \<Rightarrow> cel_exn + val" where
  "to_bool x = (case x of
      VBool b \<Rightarrow> Inr (VBool b)
    | VStr s \<Rightarrow> if s = ''true'' then Inr (VBool True) else if s = ''false'' then Inr (VBool False)
        else cannot_convert ''bool'' (quote_string s)
    | VNum n \<Rightarrow> Inr (VBool (\<not> jn_eq n (Fin 0)))
    | _ \<Rightarrow> cannot_convert ''bool'' (typeof x))"

definition to_bytes :: "val \<Rightarrow> cel_exn + val" where
  "to_bytes x = (case x of
      VStr s \<Rightarrow> Inr (VArr (map (\<lambda>c. VNum (jn_nat (code c))) s))
    | _ \<Rightarrow> cel_fail ''CEL_TYPE_ERROR: bytes() requires a string'')"

definition on_number :: "string \<Rightarrow> (jsnum \<Rightarrow> cel_exn + val) \<Rightarrow> val \<Rightarrow> cel_exn + val" where
  "on_number f k x = (case x of VNum n \<Rightarrow> k n | _ \<Rightarrow> cel_fail (''CEL_TYPE_ERROR: '' @ f @ ''() requires a number''))"

definition number_of :: "val \<Rightarrow> jsnum option" where
  "number_of v = (case v of VNum n \<Rightarrow> Some n | _ \<Rightarrow> None)"

definition all_numbers :: "val list \<Rightarrow> jsnum list option" where
  "all_numbers vs = (if list_all (\<lambda>v. number_of v \<noteq> None) vs then Some (List.map_filter number_of vs) else None)"

text \<open>The arguments, or the elements of a single array.\<close>

definition spread_args :: "val list \<Rightarrow> val list" where
  "spread_args args = (case args of [VArr xs] \<Rightarrow> xs | _ \<Rightarrow> args)"

definition extremum :: "string \<Rightarrow> (jsnum list \<Rightarrow> jsnum) \<Rightarrow> val list \<Rightarrow> cel_exn + val" where
  "extremum f m args =
     (if args = [] then cel_fail (''CEL_RUNTIME_ERROR: '' @ f @ ''() requires at least one argument'')
      else if spread_args args = [] then cel_fail (''CEL_RUNTIME_ERROR: '' @ f @ ''() of empty list'')
      else case all_numbers (spread_args args) of
             None \<Rightarrow> cel_fail (''CEL_TYPE_ERROR: '' @ f @ ''() requires number arguments'')
           | Some ns \<Rightarrow> Inr (VNum (m ns)))"

definition size_of :: "string \<Rightarrow> val \<Rightarrow> cel_exn + val" where
  "size_of f x = (case x of
      VStr s \<Rightarrow> Inr (VNum (jn_nat (length s)))
    | VArr xs \<Rightarrow> Inr (VNum (jn_nat (length xs)))
    | VObj m \<Rightarrow> Inr (VNum (jn_nat (length m)))
    | _ \<Rightarrow> cel_fail (''CEL_TYPE_ERROR: '' @ f @ ''() requires string, list, or map''))"

definition sum_of :: "val list \<Rightarrow> cel_exn + val" where
  "sum_of args = map_sum id VNum (rfold (\<lambda>v total.
     if val_nullish v then Inr total
     else case v of VNum n \<Rightarrow> Inr (jn_add total n) | _ \<Rightarrow> cel_fail ''CEL_TYPE_ERROR: sum() requires a list of numbers'')
     (spread_args args) (Fin 0))"

definition on_map :: "string \<Rightarrow> ((string \<times> val) list \<Rightarrow> val) \<Rightarrow> val \<Rightarrow> cel_exn + val" where
  "on_map f k x = (case x of VObj m \<Rightarrow> Inr (k m) | _ \<Rightarrow> cel_fail (''CEL_TYPE_ERROR: '' @ f @ ''() requires a map''))"

definition keys_of :: "(string \<times> val) list \<Rightarrow> val" where "keys_of m = VArr (map (\<lambda>p. VStr (fst p)) m)"
definition values_of :: "(string \<times> val) list \<Rightarrow> val" where "values_of m = VArr (map snd m)"

text \<open>\<open>for (let i = s; i < e; i++)\<close>; adding one to a number past \<open>2 ^ 53\<close> does not change it.\<close>

definition count_up :: "jsnum \<Rightarrow> jsnum \<Rightarrow> cel_exn + val" where
  "count_up s e = (if \<not> jn_less s e then Inr (VArr [])
     else case (s, e) of
       (Fin a, Fin b) \<Rightarrow> if \<bar>a\<bar> \<le> 2 ^ 53 \<and> \<bar>b\<bar> \<le> 2 ^ 53
         then Inr (VArr (map (\<lambda>k. VNum (Fin (a + of_nat k))) [0..<nat \<lfloor>b - a\<rfloor>])) else Inl Diverges
     | _ \<Rightarrow> Inl Diverges)"

definition range_of :: "val list \<Rightarrow> cel_exn + val" where
  "range_of args = (case args of
      [VNum e] \<Rightarrow> count_up (Fin 0) (jn_trunc e)
    | [VNum s, VNum e] \<Rightarrow> count_up (jn_trunc s) (jn_trunc e)
    | [_] \<Rightarrow> cel_fail ''CEL_TYPE_ERROR: range() requires number arguments''
    | [_, _] \<Rightarrow> cel_fail ''CEL_TYPE_ERROR: range() requires number arguments''
    | _ \<Rightarrow> cel_fail ''CEL_RUNTIME_ERROR: range() requires 1 or 2 arguments'')"

definition is_byte :: "val \<Rightarrow> bool" where
  "is_byte v = (case v of VNum n \<Rightarrow> jn_le (Fin 0) n \<and> jn_le n (Fin 255) \<and> jn_is_int n | _ \<Rightarrow> False)"

definition type_of :: "val \<Rightarrow> string" where
  "type_of x = (case x of
      VNull \<Rightarrow> ''null'' | VUndef \<Rightarrow> ''null'' | VBool _ \<Rightarrow> ''bool'' | VStr _ \<Rightarrow> ''string''
    | VNum n \<Rightarrow> if jn_is_int n then ''int'' else ''double''
    | VArr xs \<Rightarrow> if xs \<noteq> [] \<and> list_all is_byte xs then ''bytes'' else ''list''
    | VObj _ \<Rightarrow> ''map'')"

definition coalesce :: "val list \<Rightarrow> val" where
  "coalesce args = (case find (\<lambda>v. \<not> val_nullish v) args of Some v \<Rightarrow> v | None \<Rightarrow> VNull)"

definition default_value :: "val list \<Rightarrow> val" where
  "default_value args = (if val_nullish (arg args 0) then or_null (arg args 1) else arg args 0)"

definition timestamp :: "cel_host \<Rightarrow> val \<Rightarrow> cel_exn + val" where
  "timestamp h x = (case x of
      VStr s \<Rightarrow> (case ch_parse_date h s of
          Fin t \<Rightarrow> map_sum id VStr (toISOString (Fin t))
        | _ \<Rightarrow> cel_fail (''CEL_RUNTIME_ERROR: timestamp() invalid date: '' @ quote_string s))
    | _ \<Rightarrow> cel_fail ''CEL_TYPE_ERROR: timestamp() requires a string'')"

definition duration :: "val \<Rightarrow> cel_exn + val" where
  "duration x = (case x of
      VStr s \<Rightarrow> map_sum id VNum (parseDuration s)
    | _ \<Rightarrow> cel_fail ''CEL_TYPE_ERROR: duration() requires a string'')"

definition pow_of :: "cel_host \<Rightarrow> val list \<Rightarrow> cel_exn + val" where
  "pow_of h args = (case (arg args 0, arg args 1) of
      (VNum a, VNum b) \<Rightarrow> Inr (VNum (ch_pow h a b))
    | _ \<Rightarrow> cel_fail ''CEL_TYPE_ERROR: pow() requires number arguments'')"

definition sqrt_of :: "cel_host \<Rightarrow> jsnum \<Rightarrow> cel_exn + val" where
  "sqrt_of h x = (if jn_less x (Fin 0) then cel_fail ''CEL_RUNTIME_ERROR: sqrt() of negative number'' else Inr (VNum (ch_sqrt h x)))"

text \<open>The functions that only depend on their arguments; the others are told apart in \<open>callBuiltin\<close>.\<close>

definition BUILTINS :: "(string \<times> (cel_host \<Rightarrow> val list \<Rightarrow> cel_exn + val)) list" where
  "BUILTINS = [
     (''$concat'', \<lambda>h args. Inr (VStr (concat (map concat_text args)))),
     (''int'', \<lambda>h args. number_value ''int'' jn_trunc (arg args 0)),
     (''double'', \<lambda>h args. number_value ''double'' id (arg args 0)),
     (''string'', \<lambda>h args. Inr (VStr (string_text (arg args 0)))),
     (''bool'', \<lambda>h args. to_bool (arg args 0)),
     (''bytes'', \<lambda>h args. to_bytes (arg args 0)),
     (''abs'', \<lambda>h args. on_number ''abs'' (\<lambda>n. Inr (VNum (jn_abs n))) (arg args 0)),
     (''min'', \<lambda>h. extremum ''min'' jn_min),
     (''max'', \<lambda>h. extremum ''max'' jn_max),
     (''floor'', \<lambda>h args. on_number ''floor'' (\<lambda>n. Inr (VNum (jn_floor n))) (arg args 0)),
     (''ceil'', \<lambda>h args. on_number ''ceil'' (\<lambda>n. Inr (VNum (jn_ceil n))) (arg args 0)),
     (''round'', \<lambda>h args. on_number ''round'' (\<lambda>n. Inr (VNum (jn_round n))) (arg args 0)),
     (''pow'', pow_of),
     (''sqrt'', \<lambda>h args. on_number ''sqrt'' (sqrt_of h) (arg args 0)),
     (''size'', \<lambda>h args. size_of ''size'' (arg args 0)),
     (''length'', \<lambda>h args. size_of ''length'' (arg args 0)),
     (''sum'', \<lambda>h. sum_of),
     (''keys'', \<lambda>h args. on_map ''keys'' keys_of (arg args 0)),
     (''values'', \<lambda>h args. on_map ''values'' values_of (arg args 0)),
     (''range'', \<lambda>h. range_of),
     (''type'', \<lambda>h args. Inr (VStr (type_of (arg args 0)))),
     (''coalesce'', \<lambda>h args. Inr (coalesce args)),
     (''default'', \<lambda>h args. Inr (default_value args)),
     (''timestamp'', \<lambda>h args. timestamp h (arg args 0)),
     (''duration'', \<lambda>h args. duration (arg args 0))]"

subsection \<open>Calls\<close>

definition FAKE_BUILTINS :: "string list" where
  "FAKE_BUILTINS = [''$fake'', ''$fakeSeed'', ''$fakeFromFormat'']"

definition CLOCK_BUILTINS :: "string list" where
  "CLOCK_BUILTINS = [''$uuidv7'', ''$now'', ''$unix'', ''now'']"

definition REDUCER_BANNED :: "string list" where
  "REDUCER_BANNED = [''$uuidv7'', ''$now'', ''now'', ''$unix'', ''timestamp'', ''$fake'', ''$fakeSeed'', ''$fakeFromFormat'']"

definition uuid_call :: "cel_env \<Rightarrow> val cel" where
  "uuid_call ce = (\<lambda>s. (Inr (VStr (ce_uuid ce (cs_uuids s))), s\<lparr>cs_uuids := cs_uuids s + 1\<rparr>))"

definition unix_call :: "cel_env \<Rightarrow> val cel" where
  "unix_call ce = bind (lift (ce_now ce)) (\<lambda>now.
     let t = (case ch_parse_date (ce_host ce) now of Fin t \<Rightarrow> t | _ \<Rightarrow> ch_date_now (ce_host ce))
     in ret (VNum (jn_floor (jn_div (Fin t) (Fin 1000)))))"

definition unknown_function :: "string \<Rightarrow> cel_exn" where
  "unknown_function name = CelError (''CEL_UNKNOWN_BUILTIN: unknown function '' @ in_quotes name)"

definition phase_text :: "cel_phase \<Rightarrow> string" where
  "phase_text ph = (case ph of
      Behavior \<Rightarrow> ''behavior'' | EventHydration \<Rightarrow> ''event-hydration'' | Reducer \<Rightarrow> ''reducer'' | Identity \<Rightarrow> ''identity''
    | Query \<Rightarrow> ''query'' | Response \<Rightarrow> ''response'' | PostCommit \<Rightarrow> ''post-commit'' | Fault \<Rightarrow> ''fault''
    | Webhook \<Rightarrow> ''webhook'' | Saga \<Rightarrow> ''saga'' | Projection \<Rightarrow> ''projection'' | Lifecycle \<Rightarrow> ''lifecycle'')"

definition phase_banned :: "string \<Rightarrow> cel_exn" where
  "phase_banned name = CelError (''CEL_PHASE_BANNED: '' @ in_quotes name @ '' is not allowed in phase '' @ in_quotes (phase_text Reducer)
     @ '' because it is non-deterministic'')"

definition callBuiltin :: "cel_env \<Rightarrow> string \<Rightarrow> val list \<Rightarrow> val cel" where
  "callBuiltin ce name args =
     (let h = ce_host ce; custom = map_of (ce_custom ce) name; builtin = map_of BUILTINS name
      in if name \<notin> set FAKE_BUILTINS \<and> name \<notin> set CLOCK_BUILTINS \<and> builtin = None \<and> custom = None
         then throw (unknown_function name)
         else if ce_phase ce = Reducer \<and> name \<in> set REDUCER_BANNED then throw (phase_banned name)
         else if name = ''$uuidv7'' then uuid_call ce
         else if name = ''$now'' \<or> name = ''now'' then bind (lift (ce_now ce)) (\<lambda>t. ret (VStr t))
         else if name = ''$unix'' then unix_call ce
         else if name = ''$fake'' then fake h args
         else if name = ''$fakeSeed'' then fakeSeed args
         else if name = ''$fakeFromFormat'' then fakeFromFormat h args
         else (case custom of
             Some f \<Rightarrow> lift (f args (ce_context ce) (ce_phase ce))
           | None \<Rightarrow> (case builtin of
               Some f \<Rightarrow> lift (f h args)
             | None \<Rightarrow> throw (unknown_function name))))"

end
