(* ===== verification/CelTemplate.thy ===== *)
theory CelTemplate
  imports CelLexer
begin

text \<open>
  Value templates (\<open>cel/grammar/templateLexer.ts\<close>, \<open>cel/grammar/template.ts\<close>): text with interpolations
  \<open>${...}\<close> and escaped literals \<open>$${...}\<close>.  The lexer walks the rest of the string with the position it
  is at, the text collected since the last token and where that text began.
\<close>

subsection \<open>The lexer\<close>

datatype template_token =
    TEXT string position
  | EXPR string position
  | ESCAPED string position

text \<open>How far the brace that closes \<open>depth\<close> open ones is; \<open>None\<close> when they are unbalanced.\<close>

fun findClosingBrace :: "nat \<Rightarrow> string \<Rightarrow> nat option" where
  "findClosingBrace depth [] = None"
| "findClosingBrace depth (c # s) =
     (if c = CHR ''{'' then map_option Suc (findClosingBrace (Suc depth) s)
      else if c = CHR ''}'' then (if depth \<le> 1 then Some 0 else map_option Suc (findClosingBrace (depth - 1) s))
      else map_option Suc (findClosingBrace depth s))"

definition flushText :: "string \<Rightarrow> position \<Rightarrow> template_token list" where
  "flushText buf bp = (if buf = [] then [] else [TEXT buf bp])"

text \<open>The delimiter a rest begins with, if its brace is closed: the token, and how many characters it takes.\<close>

definition interpolation :: "string \<Rightarrow> position \<Rightarrow> (template_token \<times> nat) option" where
  "interpolation s p =
     (if take 3 s = ''$${'' then map_option (\<lambda>k. (ESCAPED (take k (drop 3 s)) p, k + 4)) (findClosingBrace 1 (drop 3 s))
      else if take 2 s = ''${'' then map_option (\<lambda>k. (EXPR (take k (drop 2 s)) p, k + 3)) (findClosingBrace 1 (drop 2 s))
      else None)"

lemma interpolation_takes: "interpolation s p = Some (t, n) \<Longrightarrow> 0 < n"
  by (auto simp: interpolation_def split: if_splits)

function lex_template :: "string \<Rightarrow> position \<Rightarrow> string \<Rightarrow> position \<Rightarrow> template_token list" where
  "lex_template [] p buf bp = flushText buf bp"
| "lex_template (c # s) p buf bp = (case interpolation (c # s) p of
      Some (t, n) \<Rightarrow> flushText buf bp @ t # lex_template (drop n (c # s)) (advances (take n (c # s)) p) [] p
    | None \<Rightarrow> lex_template s (adv c p) (buf @ [c]) (if buf = [] then p else bp))"
  by pat_completeness auto
termination lex_template
  by (relation "measure (\<lambda>(s, p, buf, bp). length s)") (auto dest: interpolation_takes)

definition lexTemplate :: "string \<Rightarrow> template_token list" where
  "lexTemplate s = lex_template s pos0 [] pos0"

subsection \<open>The plan\<close>

datatype template_part = PText string | PExpr string

datatype 'v template_plan = PlanLiteral 'v | PlanWhole string | PlanInterp "template_part list"

definition pushText :: "string \<Rightarrow> template_part list \<Rightarrow> template_part list" where
  "pushText text parts = (case parts of
      [] \<Rightarrow> [PText text]
    | _ \<Rightarrow> (case last parts of PText t \<Rightarrow> butlast parts @ [PText (t @ text)] | PExpr _ \<Rightarrow> parts @ [PText text]))"

definition to_part :: "template_token \<Rightarrow> template_part list \<Rightarrow> template_part list" where
  "to_part t parts = (case t of
      TEXT text _ \<Rightarrow> pushText text parts
    | ESCAPED text _ \<Rightarrow> pushText (''${'' @ text @ ''}'') parts
    | EXPR src _ \<Rightarrow> parts @ [PExpr src])"

definition toParts :: "template_token list \<Rightarrow> template_part list" where
  "toParts ts = foldl (\<lambda>parts t. to_part t parts) [] ts"

definition is_text :: "template_part \<Rightarrow> bool" where
  "is_text part = (case part of PText _ \<Rightarrow> True | PExpr _ \<Rightarrow> False)"

definition part_text :: "template_part \<Rightarrow> string" where
  "part_text part = (case part of PText t \<Rightarrow> t | PExpr _ \<Rightarrow> [])"

definition js_includes :: "string \<Rightarrow> string \<Rightarrow> bool" where
  "js_includes needle s \<longleftrightarrow> list_ex (\<lambda>k. take (length needle) (drop k s) = needle) [0..<Suc (length s)]"

definition parseTemplate :: "string \<Rightarrow> string template_plan" where
  "parseTemplate s =
     (if \<not> js_includes ''${'' s \<and> \<not> js_includes ''$${'' s then PlanWhole s
      else (let parts = toParts (lexTemplate s)
        in case parts of
             [PExpr src] \<Rightarrow> PlanWhole src
           | _ \<Rightarrow> if list_all is_text parts then PlanLiteral (concat (map part_text parts)) else PlanInterp parts))"

subsection \<open>No character is lost\<close>

definition token_source :: "template_token \<Rightarrow> string" where
  "token_source t = (case t of TEXT s _ \<Rightarrow> s | EXPR s _ \<Rightarrow> ''${'' @ s @ ''}'' | ESCAPED s _ \<Rightarrow> ''$${'' @ s @ ''}'')"

lemma findClosingBrace_at: "findClosingBrace d s = Some k \<Longrightarrow> k < length s \<and> s ! k = CHR ''}''"
  by (induction d s arbitrary: k rule: findClosingBrace.induct) (auto split: if_splits)

lemma closed_prefix: "findClosingBrace d s = Some k \<Longrightarrow> take k s @ ''}'' = take (Suc k) s"
  using findClosingBrace_at[of d s k] by (simp add: take_Suc_conv_app_nth)

lemma interpolation_source:
  assumes "interpolation s p = Some (t, n)"
  shows "token_source t = take n s"
proof -
  consider k where "take 3 s = ''$${''" "findClosingBrace 1 (drop 3 s) = Some k" "t = ESCAPED (take k (drop 3 s)) p" "n = 3 + Suc k"
    | k where "take 2 s = ''${''" "findClosingBrace 1 (drop 2 s) = Some k" "t = EXPR (take k (drop 2 s)) p" "n = 2 + Suc k"
    using assms by (auto simp: interpolation_def split: if_splits)
  then show ?thesis
  proof cases
    case 1
    then show ?thesis unfolding \<open>n = _\<close> take_add using closed_prefix[OF 1(2)] by (simp add: token_source_def)
  next
    case 2
    then show ?thesis unfolding \<open>n = _\<close> take_add using closed_prefix[OF 2(2)] by (simp add: token_source_def)
  qed
qed

lemma lex_template_lossless: "concat (map token_source (lex_template s p buf bp)) = buf @ s"
proof (induction s p buf bp rule: lex_template.induct)
  case (1 p buf bp)
  then show ?case by (simp add: flushText_def token_source_def)
next
  case (2 c s p buf bp)
  have f: "concat (map token_source (flushText buf bp)) = buf" by (simp add: flushText_def token_source_def)
  show ?case
  proof (cases "interpolation (c # s) p")
    case None
    with 2 show ?thesis by simp
  next
    case (Some tn)
    obtain t n where tn: "tn = (t, n)" by fastforce
    with Some have i: "interpolation (c # s) p = Some (t, n)" by simp
    have "concat (map token_source (lex_template (drop n (c # s)) (advances (take n (c # s)) p) [] p)) = drop n (c # s)"
      using 2 i by auto
    then show ?thesis
      using interpolation_source[OF i] f i append_take_drop_id[of n "c # s"] by (simp del: append_take_drop_id)
  qed
qed

subsection \<open>What a plan renders\<close>

text \<open>The text of a part, and of a token, when \<open>f\<close> gives the text of an expression.\<close>

definition render_part :: "(string \<Rightarrow> string) \<Rightarrow> template_part \<Rightarrow> string" where
  "render_part f part = (case part of PText t \<Rightarrow> t | PExpr src \<Rightarrow> f src)"

definition render_token :: "(string \<Rightarrow> string) \<Rightarrow> template_token \<Rightarrow> string" where
  "render_token f t = (case t of TEXT s _ \<Rightarrow> s | EXPR s _ \<Rightarrow> f s | ESCAPED s _ \<Rightarrow> ''${'' @ s @ ''}'')"

abbreviation render :: "(string \<Rightarrow> string) \<Rightarrow> template_part list \<Rightarrow> string" where
  "render f parts \<equiv> concat (map (render_part f) parts)"

lemma render_pushText: "render f (pushText text parts) = render f parts @ text"
proof (cases parts rule: rev_cases)
  case (snoc ps q)
  then show ?thesis by (cases q; cases ps) (simp_all add: pushText_def render_part_def)
qed (simp add: pushText_def render_part_def)

lemma render_to_part: "render f (to_part t parts) = render f parts @ render_token f t"
  by (cases t) (simp_all add: to_part_def render_pushText render_token_def, simp add: render_part_def)

lemma render_toParts: "render f (toParts ts) = concat (map (render_token f) ts)"
proof -
  have "render f (foldl (\<lambda>parts t. to_part t parts) ps ts) = render f ps @ concat (map (render_token f) ts)" for ps
    by (induction ts arbitrary: ps) (simp_all add: render_to_part)
  from this[of "[]"] show ?thesis by (simp add: toParts_def)
qed

end
