(* ===== verification/CelRegexSafety.thy ===== *)
theory CelRegexSafety
  imports CelNumber
begin

text \<open>
  The guard against catastrophic regular expressions (\<open>schema/regexSafety.ts\<close>).  The guard is itself
  written with regular expressions; each is the function that decides it here, named after the constant or
  the test it stands for.
\<close>

definition starts :: "(char \<Rightarrow> bool) \<Rightarrow> string \<Rightarrow> bool" where
  "starts P s \<longleftrightarrow> (case s of [] \<Rightarrow> False | c # _ \<Rightarrow> P c)"

definition star_or_plus :: "char \<Rightarrow> bool" where
  "star_or_plus c \<longleftrightarrow> c = CHR ''+'' \<or> c = CHR ''*''"

text \<open>\<open>{digits\<close>, and what follows it.\<close>

definition brace_digits :: "string \<Rightarrow> (string \<times> string) option" where
  "brace_digits s = (case s of
      [] \<Rightarrow> None
    | c # t \<Rightarrow> let ds = takeWhile is_digit t in if c = CHR ''{'' \<and> ds \<noteq> [] then Some (ds, dropWhile is_digit t) else None)"

text \<open>\<open>^\{\d+,\}?$\<close>, and \<open>^\{\d+,\d*\}$\<close>.\<close>

definition open_repeat :: "string \<Rightarrow> bool" where
  "open_repeat s \<longleftrightarrow> (case brace_digits s of Some (_, r) \<Rightarrow> r = '','' \<or> r = '',}'' | None \<Rightarrow> False)"

definition counted_repeat :: "string \<Rightarrow> bool" where
  "counted_repeat s \<longleftrightarrow> (case brace_digits s of
      Some (_, c # r) \<Rightarrow> c = CHR '','' \<and> dropWhile is_digit r = ''}'' | _ \<Rightarrow> False)"

text \<open>The optional quantifier \<open>[+*]|\{\d+,?\d*\}?\<close> at the front of a text.\<close>

definition quantifier_at :: "string \<Rightarrow> string" where
  "quantifier_at s =
     (if starts star_or_plus s then take 1 s
      else (case brace_digits s of
          None \<Rightarrow> []
        | Some (ds, r) \<Rightarrow>
            let comma = (if starts (\<lambda>c. c = CHR '','') r then '','' else []); r1 = drop (length comma) r;
                ds2 = takeWhile is_digit r1; r2 = dropWhile is_digit r1;
                close = (if starts (\<lambda>c. c = CHR ''}'') r2 then ''}'' else [])
            in CHR ''{'' # ds @ comma @ ds2 @ close))"

text \<open>\<open>groupRe\<close>: every parenthesis without parentheses inside, in order, with its quantifier.\<close>

fun innermost_groups :: "string \<Rightarrow> (string \<times> string) list" where
  "innermost_groups [] = []"
| "innermost_groups (c # s) =
     (let body = takeWhile (\<lambda>d. d \<noteq> CHR ''('' \<and> d \<noteq> CHR '')'') s; r = drop (length body) s
      in if c = CHR ''('' \<and> starts (\<lambda>d. d = CHR '')'') r then (body, quantifier_at (dropWhile is_ws (tl r))) # innermost_groups s
         else innermost_groups s)"

definition outer_unbounded :: "string \<Rightarrow> bool" where
  "outer_unbounded q \<longleftrightarrow> q = ''+'' \<or> q = ''*'' \<or> open_repeat q"

text \<open>\<open>[+*]|\{\d+,\<close> somewhere in a body.\<close>

fun inner_quantifier :: "string \<Rightarrow> bool" where
  "inner_quantifier [] = False"
| "inner_quantifier (c # s) = (star_or_plus c \<or>
     (case brace_digits (c # s) of Some (_, r) \<Rightarrow> starts (\<lambda>d. d = CHR '','') r | None \<Rightarrow> False) \<or> inner_quantifier s)"

definition group_shape :: "string \<times> string \<Rightarrow> string option" where
  "group_shape = (\<lambda>(body, q).
     if \<not> outer_unbounded q then None
     else if inner_quantifier body then Some (''nested-quantifier shape /('' @ body @ '')'' @ q @ ''/'')
     else if CHR ''|'' \<in> set body then Some (''overlapping-alternation shape /('' @ body @ '')'' @ q @ ''/'')
     else None)"

text \<open>\<open>groupRepeat\<close>: a closing parenthesis, white space and an unbounded quantifier.\<close>

fun group_repeat :: "string \<Rightarrow> bool" where
  "group_repeat [] = False"
| "group_repeat (c # s) = ((c = CHR '')'' \<and> (let r = dropWhile is_ws s in starts star_or_plus r \<or>
     (case brace_digits r of Some (_, t) \<Rightarrow> starts (\<lambda>d. d = CHR '','') t | None \<Rightarrow> False))) \<or> group_repeat s)"

text \<open>\<open>\([^)]*[+*]\<close>.\<close>

fun quantified_after_paren :: "string \<Rightarrow> bool" where
  "quantified_after_paren [] = False"
| "quantified_after_paren (c # s) =
     ((c = CHR ''('' \<and> list_ex star_or_plus (takeWhile (\<lambda>d. d \<noteq> CHR '')'') s)) \<or> quantified_after_paren s)"

text \<open>
  \<open>tokenRe\<close>: a character class, an escaped character other than a line terminator, or a single character;
  a backslash that escapes nothing is skipped.
\<close>

function pattern_tokens :: "string \<Rightarrow> string list" where
  "pattern_tokens [] = []"
| "pattern_tokens (c # s) =
     (let cls = takeWhile (\<lambda>d. d \<noteq> CHR '']'') s
      in if c = CHR ''['' \<and> length cls < length s then (c # cls @ '']'') # pattern_tokens (drop (length cls + 1) s)
         else if c \<noteq> CHR 0x5C then [c] # pattern_tokens s
         else (case s of
             [] \<Rightarrow> []
           | d # t \<Rightarrow> if code d = 10 \<or> code d = 13 then pattern_tokens s else [c, d] # pattern_tokens t))"
  by pat_completeness auto
termination pattern_tokens
  by (relation "measure length") auto

definition unbounded_token :: "string \<Rightarrow> bool" where
  "unbounded_token next \<longleftrightarrow> next = ''+'' \<or> next = ''*'' \<or> counted_repeat next"

definition normalized_token :: "string \<Rightarrow> string" where
  "normalized_token token = (if starts (\<lambda>c. c = CHR ''['') token then ''CLS'' else token)"

text \<open>The loop over the tokens, with the atom repeated last and how many times in a row.\<close>

fun sequential_shape :: "string option \<Rightarrow> nat \<Rightarrow> string list \<Rightarrow> bool" where
  "sequential_shape atom n [] = False"
| "sequential_shape atom n [token] = False"
| "sequential_shape atom n (token # next # rest) =
     (if unbounded_token next then
        (if Some (normalized_token token) = atom then 3 \<le> n + 1 \<or> sequential_shape atom (n + 1) rest
         else sequential_shape (Some (normalized_token token)) 1 rest)
      else sequential_shape None 0 (next # rest))"

definition detectCatastrophicRegexShape :: "string \<Rightarrow> string option" where
  "detectCatastrophicRegexShape pattern =
     (case List.map_filter group_shape (innermost_groups pattern) of
        shape # _ \<Rightarrow> Some shape
      | [] \<Rightarrow>
          if group_repeat pattern \<and> quantified_after_paren pattern then Some ''nested-quantifier shape (nested groups)''
          else if sequential_shape None 0 (pattern_tokens pattern)
          then Some ''sequential-unbounded-quantifier shape (>= 3 adjacent unbounded quantifiers on overlapping atoms)''
          else None)"

end
