(* ===== verification/CelEval.thy ===== *)
theory CelEval
  imports CelFunctions CelTemplate CelRegexSafety "HOL-Library.While_Combinator"
begin

text \<open>
  The evaluator (\<open>cel/evaluator.ts\<close>): expressions, methods and comprehensions.  The scopes of comprehension
  variables are a list with the innermost first.  An identifier that every object inherits is outside the
  model.
\<close>

subsection \<open>Methods\<close>

definition evalMatchesSafe :: "cel_host \<Rightarrow> string \<Rightarrow> string \<Rightarrow> cel_exn + val" where
  "evalMatchesSafe h pattern input = (case detectCatastrophicRegexShape pattern of
      Some reason \<Rightarrow> Inl (RegexRejected pattern reason)
    | None \<Rightarrow> (case ch_regex h pattern input of
        Inl message \<Rightarrow> cel_fail (''CEL_TYPE_ERROR: matches() invalid regex pattern: '' @ message)
      | Inr b \<Rightarrow> Inr (VBool b)))"

definition type_error :: "string \<Rightarrow> cel_exn + 'a" where
  "type_error message = cel_fail (''CEL_TYPE_ERROR: '' @ message)"

definition with_string :: "val list \<Rightarrow> string \<Rightarrow> (string \<Rightarrow> cel_exn + val) \<Rightarrow> cel_exn + val" where
  "with_string args message k = (case arg args 0 of VStr s \<Rightarrow> k s | _ \<Rightarrow> type_error message)"

definition with_number :: "val list \<Rightarrow> nat \<Rightarrow> string \<Rightarrow> (jsnum \<Rightarrow> cel_exn + val) \<Rightarrow> cel_exn + val" where
  "with_number args i message k = (case arg args i of VNum n \<Rightarrow> k n | _ \<Rightarrow> type_error message)"

text \<open>\<open>while (count < n && result.includes(old)) ...\<close>; with an infinite \<open>n\<close> it may go on for ever.\<close>

fun replace_times :: "nat \<Rightarrow> string \<Rightarrow> string \<Rightarrow> string \<Rightarrow> string" where
  "replace_times 0 old new s = s"
| "replace_times (Suc n) old new s = (if js_includes old s then replace_times n old new (replace_first old new s) else s)"

definition replace_every :: "string \<Rightarrow> string \<Rightarrow> string \<Rightarrow> cel_exn + val" where
  "replace_every old new s = (case while_option (js_includes old) (replace_first old new) s of
      Some r \<Rightarrow> Inr (VStr r) | None \<Rightarrow> Inl Diverges)"

definition replace_method :: "string \<Rightarrow> val list \<Rightarrow> cel_exn + val" where
  "replace_method s args = (case (arg args 0, arg args 1) of
      (VStr old, VStr new) \<Rightarrow>
        (case arg args 2 of
           VUndef \<Rightarrow> Inr (VStr (js_join new (val_split old s)))
         | VNum maxN \<Rightarrow>
             (case jn_trunc maxN of
                Fin n \<Rightarrow> Inr (VStr (replace_times (nat \<lfloor>n\<rfloor>) old new s))
              | PosInf \<Rightarrow> replace_every old new s
              | _ \<Rightarrow> Inr (VStr s))
         | _ \<Rightarrow> type_error ''replace n must be a number'')
    | _ \<Rightarrow> type_error ''replace requires string arguments'')"

definition substring_method :: "string \<Rightarrow> val list \<Rightarrow> cel_exn + val" where
  "substring_method s args = with_number args 0 ''substring requires a number start'' (\<lambda>a.
     if 2 \<le> length args then with_number args 1 ''substring end must be a number'' (\<lambda>b. Inr (VStr (substring s (jn_trunc a) (jn_trunc b))))
     else Inr (VStr (substring s (jn_trunc a) (jn_nat (length s)))))"

definition charAt_method :: "string \<Rightarrow> val list \<Rightarrow> cel_exn + val" where
  "charAt_method s args = with_number args 0 ''charAt requires a number argument'' (\<lambda>a. let i = jn_trunc a
     in if jn_less i (Fin 0) \<or> jn_le (jn_nat (length s)) i then cel_fail ''CEL_RUNTIME_ERROR: charAt index out of range''
        else Inr (VStr (take 1 (drop (clamp (length s) i) s))))"

definition evalStringMethod :: "cel_host \<Rightarrow> string \<Rightarrow> string \<Rightarrow> val list \<Rightarrow> cel_exn + val" where
  "evalStringMethod h s method args =
     (if method = ''startsWith'' then with_string args ''startsWith requires a string argument'' (\<lambda>p. Inr (VBool (starts_with p s)))
      else if method = ''endsWith'' then with_string args ''endsWith requires a string argument'' (\<lambda>p. Inr (VBool (val_ends_with p s)))
      else if method = ''contains'' then with_string args ''contains requires a string argument'' (\<lambda>p. Inr (VBool (js_includes p s)))
      else if method = ''matches'' then with_string args ''matches requires a string (regex) argument'' (\<lambda>p. evalMatchesSafe h p s)
      else if method = ''size'' then Inr (VNum (jn_nat (length s)))
      else if method = ''replace'' then replace_method s args
      else if method = ''split'' then with_string args ''split requires a string separator'' (\<lambda>p. Inr (VArr (map VStr (val_split p s))))
      else if method = ''substring'' then substring_method s args
      else if method = ''indexOf'' then with_string args ''indexOf requires a string argument'' (\<lambda>p. Inr (index_value (first_index p s)))
      else if method = ''lastIndexOf'' then with_string args ''lastIndexOf requires a string argument'' (\<lambda>p. Inr (index_value (last_index p s)))
      else if method = ''lowerAscii'' then Inr (VStr (to_lower s))
      else if method = ''upperAscii'' then Inr (VStr (concat (map upper_latin s)))
      else if method = ''trim'' then Inr (VStr (js_trim s))
      else if method = ''trimStart'' then Inr (VStr (trim_start s))
      else if method = ''trimEnd'' then Inr (VStr (trim_end s))
      else if method = ''charAt'' then charAt_method s args
      else cel_fail (''CEL_EVAL: unknown string method '' @ in_quotes method))"

fun index_of :: "(val \<Rightarrow> bool) \<Rightarrow> nat \<Rightarrow> val list \<Rightarrow> nat option" where
  "index_of P n [] = None"
| "index_of P n (x # xs) = (if P x then Some n else index_of P (n + 1) xs)"

fun last_index_of :: "(val \<Rightarrow> bool) \<Rightarrow> nat option \<Rightarrow> nat \<Rightarrow> val list \<Rightarrow> nat option" where
  "last_index_of P found n [] = found"
| "last_index_of P found n (x # xs) = last_index_of P (if P x then Some n else found) (n + 1) xs"

definition flatten_vals :: "val list \<Rightarrow> val list" where
  "flatten_vals xs = concat (map (\<lambda>x. case x of VArr ys \<Rightarrow> ys | _ \<Rightarrow> [x]) xs)"

definition distinct_vals :: "(val \<Rightarrow> val \<Rightarrow> bool) \<Rightarrow> val list \<Rightarrow> val list" where
  "distinct_vals eq xs = foldl (\<lambda>seen x. if list_ex (\<lambda>s. eq s x) seen then seen else seen @ [x]) [] xs"

definition evalListMethod :: "cel_host \<Rightarrow> val list \<Rightarrow> string \<Rightarrow> val list \<Rightarrow> cel_exn + val" where
  "evalListMethod h lst method args =
     (let same = (\<lambda>v. ch_equal h v (arg args 0))
      in if method = ''size'' then Inr (VNum (jn_nat (length lst)))
         else if method = ''contains'' then Inr (VBool (list_ex same lst))
         else if method = ''indexOf'' then Inr (index_value (index_of same 0 lst))
         else if method = ''lastIndexOf'' then Inr (index_value (last_index_of same None 0 lst))
         else if method = ''sort'' then Inr (VArr (sort_vals lst))
         else if method = ''reverse'' then Inr (VArr (rev lst))
         else if method = ''join'' then
           (case arg args 0 of
              VStr sep \<Rightarrow> Inr (VStr (js_join sep (map val_String lst)))
            | v \<Rightarrow> if val_nullish v then Inr (VStr (js_join [] (map val_String lst))) else type_error ''join separator must be a string'')
         else if method = ''flatten'' then Inr (VArr (flatten_vals lst))
         else if method = ''distinct'' then Inr (VArr (distinct_vals (ch_equal h) lst))
         else cel_fail (''CEL_EVAL: unknown list method '' @ in_quotes method))"

definition evalMapMethod :: "(string \<times> val) list \<Rightarrow> string \<Rightarrow> val list \<Rightarrow> cel_exn + val" where
  "evalMapMethod m method args =
     (if method = ''size'' then Inr (VNum (jn_nat (length m)))
      else if method = ''has'' then with_string args ''map.has() requires a string key'' (\<lambda>k. Inr (VBool (map_of m k \<noteq> None)))
      else if method = ''keys'' then Inr (keys_of m)
      else if method = ''values'' then Inr (values_of m)
      else cel_fail (''CEL_EVAL: unknown map method '' @ in_quotes method))"

definition call_method :: "cel_host \<Rightarrow> val \<Rightarrow> string \<Rightarrow> val list \<Rightarrow> cel_exn + val" where
  "call_method h receiver method args = (case receiver of
      VStr s \<Rightarrow> evalStringMethod h s method args
    | VArr xs \<Rightarrow> evalListMethod h xs method args
    | VObj m \<Rightarrow> evalMapMethod m method args
    | _ \<Rightarrow> cel_fail (''CEL_EVAL: method '' @ in_quotes method @ '' called on unsupported type '' @ typeof receiver))"

subsection \<open>Access and operators\<close>

definition member_of :: "val \<Rightarrow> val \<Rightarrow> cel_exn + val" where
  "member_of obj key = (case (obj, key) of
      (VObj m, VStr k) \<Rightarrow> Inr (case map_of m k of Some v \<Rightarrow> if v = VUndef then VNull else v | None \<Rightarrow> VNull)
    | (VArr xs, VNum i) \<Rightarrow>
        if jn_less i (Fin 0) \<or> jn_le (jn_nat (length xs)) i
        then cel_fail (''CEL_RUNTIME_ERROR: index out of range ['' @ jn_text i @ ''] with length '' @ dec (length xs))
        else Inr (case i of Fin x \<Rightarrow> if of_int \<lfloor>x\<rfloor> = x then xs ! nat \<lfloor>x\<rfloor> else VUndef | _ \<Rightarrow> VUndef)
    | _ \<Rightarrow> cel_fail (''CEL_EVAL: cannot access key '' @ val_stringify key @ '' on '' @ typeof obj))"

definition null_safe_member_of :: "val \<Rightarrow> val \<Rightarrow> val" where
  "null_safe_member_of obj key = (case (obj, key) of
      (VObj m, VStr k) \<Rightarrow> (case map_of m k of Some v \<Rightarrow> or_null v | None \<Rightarrow> VNull)
    | (VArr xs, VNum i) \<Rightarrow>
        if jn_less i (Fin 0) \<or> jn_le (jn_nat (length xs)) i then VNull
        else (case i of Fin x \<Rightarrow> if of_int \<lfloor>x\<rfloor> = x then or_null (xs ! nat \<lfloor>x\<rfloor>) else VNull | _ \<Rightarrow> VNull)
    | _ \<Rightarrow> VNull)"

definition compareValues :: "val \<Rightarrow> val \<Rightarrow> string \<Rightarrow> (jsnum \<Rightarrow> jsnum \<Rightarrow> bool) \<Rightarrow> (string \<Rightarrow> string \<Rightarrow> bool) \<Rightarrow> cel_exn + val" where
  "compareValues left right op numbers strings =
     (if val_nullish left \<or> val_nullish right then Inr (VBool False)
      else case (left, right) of
        (VNum a, VNum b) \<Rightarrow> Inr (VBool (numbers a b))
      | (VStr a, VStr b) \<Rightarrow> Inr (VBool (strings a b))
      | _ \<Rightarrow> cel_fail (''CEL_EVAL: operator '' @ in_quotes op @ '' requires matching number or string operands''))"

definition numericOperands :: "val \<Rightarrow> val \<Rightarrow> string \<Rightarrow> (jsnum \<Rightarrow> jsnum \<Rightarrow> cel_exn + jsnum) \<Rightarrow> cel_exn + val" where
  "numericOperands left right op f = (case (left, right) of
      (VNum a, VNum b) \<Rightarrow> map_sum id VNum (f a b)
    | _ \<Rightarrow> cel_fail (''CEL_EVAL: operator '' @ in_quotes op @ '' requires number operands''))"

definition divide_by_zero :: "cel_exn + 'a" where
  "divide_by_zero = cel_fail ''CEL_RUNTIME_ERROR: divide by zero''"

definition is_str :: "val \<Rightarrow> bool" where
  "is_str v = (case v of VStr _ \<Rightarrow> True | _ \<Rightarrow> False)"

definition apply_binary :: "cel_host \<Rightarrow> string \<Rightarrow> val \<Rightarrow> val \<Rightarrow> cel_exn + val" where
  "apply_binary h op left right =
     (if op = ''=='' then Inr (VBool (ch_equal h left right))
      else if op = ''!='' then Inr (VBool (\<not> ch_equal h left right))
      else if op = ''<'' then compareValues left right op jn_less (<)
      else if op = ''<='' then compareValues left right op jn_le (\<le>)
      else if op = ''>'' then compareValues left right op (\<lambda>a b. jn_less b a) (>)
      else if op = ''>='' then compareValues left right op (\<lambda>a b. jn_le b a) (\<ge>)
      else if op = ''+'' then
        (if is_str left \<or> is_str right then Inr (VStr (string_text left @ string_text right))
         else numericOperands left right op (\<lambda>a b. Inr (jn_add a b)))
      else if op = ''-'' then numericOperands left right op (\<lambda>a b. Inr (jn_sub a b))
      else if op = ''*'' then numericOperands left right op (\<lambda>a b. Inr (jn_mul a b))
      else if op = ''/'' then numericOperands left right op (\<lambda>a b. if b = Fin 0 then divide_by_zero else Inr (jn_div a b))
      else if op = ''%'' then numericOperands left right op (\<lambda>a b. if b = Fin 0 then divide_by_zero else Inr (jn_mod a b))
      else if op = ''in'' then
        (case right of
           VArr xs \<Rightarrow> Inr (VBool (list_ex (\<lambda>v. ch_equal h v left) xs))
         | VObj m \<Rightarrow> Inr (VBool (map_of m (val_String left) \<noteq> None))
         | _ \<Rightarrow> cel_fail (''CEL_EVAL: '' @ in_quotes ''in'' @ '' requires an array or object on the right''))
      else cel_fail (''CEL_EVAL: unknown binary operator '' @ in_quotes op))"

definition apply_unary :: "string \<Rightarrow> val \<Rightarrow> cel_exn + val" where
  "apply_unary op v =
     (if op = ''!'' then Inr (VBool (\<not> truthy v))
      else if op = ''-'' then (case v of
          VNum x \<Rightarrow> Inr (VNum (jn_neg x))
        | _ \<Rightarrow> cel_fail (''CEL_EVAL: unary '' @ in_quotes ''-'' @ '' requires a number, got '' @ typeof v))
      else cel_fail (''CEL_EVAL: unknown unary operator '' @ in_quotes op))"

subsection \<open>Expressions\<close>

definition literal_value :: "literal \<Rightarrow> val" where
  "literal_value l = (case l of LStr s \<Rightarrow> VStr s | LNum x \<Rightarrow> VNum x | LBool b \<Rightarrow> VBool b | LNull \<Rightarrow> VNull)"

definition lookup_ident :: "cel_env \<Rightarrow> cel_context \<Rightarrow> string \<Rightarrow> cel_exn + val" where
  "lookup_ident ce scopes name = (case map_of scopes name of
      Some v \<Rightarrow> Inr v
    | None \<Rightarrow> (case map_of (ce_context ce) name of
        Some v \<Rightarrow> Inr v
      | None \<Rightarrow> cel_fail (''CEL_EVAL: undefined identifier '' @ in_quotes name)))"

definition has_argument_error :: "cel_exn" where
  "has_argument_error = CelError ''CEL_EVAL: has() argument must be a field access expression like has(obj.field)''"

text \<open>What a comprehension runs over: the elements of a list, or the keys of a map.\<close>

definition comprehension_items :: "val \<Rightarrow> cel_exn + val list" where
  "comprehension_items v = (case v of
      VArr xs \<Rightarrow> Inr xs
    | VObj m \<Rightarrow> Inr (map (\<lambda>p. VStr (fst p)) m)
    | _ \<Rightarrow> cel_fail (''CEL_EVAL: comprehension receiver must be a list or map, got '' @ typeof v))"

fun comprehend_all :: "(val \<Rightarrow> val cel) \<Rightarrow> val list \<Rightarrow> val cel" where
  "comprehend_all f [] = ret (VBool True)"
| "comprehend_all f (x # xs) = bind (f x) (\<lambda>r. if truthy r then comprehend_all f xs else ret (VBool False))"

fun comprehend_exists :: "(val \<Rightarrow> val cel) \<Rightarrow> val list \<Rightarrow> val cel" where
  "comprehend_exists f [] = ret (VBool False)"
| "comprehend_exists f (x # xs) = bind (f x) (\<lambda>r. if truthy r then ret (VBool True) else comprehend_exists f xs)"

fun comprehend_one :: "(val \<Rightarrow> val cel) \<Rightarrow> nat \<Rightarrow> val list \<Rightarrow> val cel" where
  "comprehend_one f count [] = ret (VBool (count = 1))"
| "comprehend_one f count (x # xs) = bind (f x) (\<lambda>r. let n = (if truthy r then count + 1 else count)
     in if 1 < n then ret (VBool False) else comprehend_one f n xs)"

fun comprehend_filter :: "(val \<Rightarrow> val cel) \<Rightarrow> val list \<Rightarrow> val list cel" where
  "comprehend_filter f [] = ret []"
| "comprehend_filter f (x # xs) = bind (f x) (\<lambda>r. bind (comprehend_filter f xs) (\<lambda>ys. ret (if truthy r then x # ys else ys)))"

fun comprehend_map :: "(val \<Rightarrow> val cel) \<Rightarrow> val list \<Rightarrow> val list cel" where
  "comprehend_map f [] = ret []"
| "comprehend_map f (x # xs) = bind (f x) (\<lambda>r. bind (comprehend_map f xs) (\<lambda>ys. ret (r # ys)))"

definition evalComprehension :: "comprehension_kind \<Rightarrow> (val \<Rightarrow> val cel) \<Rightarrow> val list \<Rightarrow> val cel" where
  "evalComprehension k f items = (case k of
      CAll \<Rightarrow> comprehend_all f items
    | CExists \<Rightarrow> comprehend_exists f items
    | CExistsOne \<Rightarrow> comprehend_one f 0 items
    | CFilter \<Rightarrow> bind (comprehend_filter f items) (\<lambda>xs. ret (VArr xs))
    | CMap \<Rightarrow> bind (comprehend_map f items) (\<lambda>xs. ret (VArr xs)))"

text \<open>The object and the field of \<open>has(obj.field)\<close>.\<close>

definition literal_text :: "expr \<Rightarrow> string option" where
  "literal_text e = (case e of Literal (LStr s) \<Rightarrow> Some s | _ \<Rightarrow> None)"

definition field_access :: "expr list \<Rightarrow> (expr \<times> string) option" where
  "field_access args = (case hd args of Member obj key \<Rightarrow> map_option (Pair obj) (literal_text key) | _ \<Rightarrow> None)"

definition has_field :: "val \<Rightarrow> string \<Rightarrow> bool" where
  "has_field v field = (case v of VObj m \<Rightarrow> map_of m field \<noteq> None | _ \<Rightarrow> False)"

lemma field_access_size:
  "field_access args = Some (obj, field) \<Longrightarrow> length args = Suc 0 \<Longrightarrow> size obj < Suc (size_list size args)"
  by (cases args) (auto simp: field_access_def split: expr.splits)

function evalExpr :: "cel_env \<Rightarrow> expr \<Rightarrow> cel_context \<Rightarrow> val cel"
  and evalAll :: "cel_env \<Rightarrow> expr list \<Rightarrow> cel_context \<Rightarrow> val list cel"
  and evalEntries :: "cel_env \<Rightarrow> (expr \<times> expr) list \<Rightarrow> cel_context \<Rightarrow> (string \<times> val) list cel" where
  "evalExpr ce (Literal l) sc = ret (literal_value l)"
| "evalExpr ce (Ident name) sc = lift (lookup_ident ce sc name)"
| "evalExpr ce (Member obj key) sc = bind (evalExpr ce obj sc) (\<lambda>v. bind (evalExpr ce key sc) (\<lambda>k. lift (member_of v k)))"
| "evalExpr ce (NullSafeMember obj key) sc = bind (evalExpr ce obj sc) (\<lambda>v.
     if val_nullish v then ret VNull else bind (evalExpr ce key sc) (\<lambda>k. ret (null_safe_member_of v k)))"
| "evalExpr ce (Call f args) sc =
     (if f = ''has'' \<and> length args = 1 then
        (case field_access args of
           Some (obj, field) \<Rightarrow> bind (evalExpr ce obj sc) (\<lambda>v. ret (VBool (has_field v field)))
         | None \<Rightarrow> throw has_argument_error)
      else bind (evalAll ce args sc) (\<lambda>vs. callBuiltin ce f vs))"
| "evalExpr ce (Method receiver m args) sc = bind (evalExpr ce receiver sc) (\<lambda>v.
     bind (evalAll ce args sc) (\<lambda>vs. lift (call_method (ce_host ce) v m vs)))"
| "evalExpr ce (NullSafeMethod receiver m args) sc = bind (evalExpr ce receiver sc) (\<lambda>v.
     if val_nullish v then ret VNull else bind (evalAll ce args sc) (\<lambda>vs. lift (call_method (ce_host ce) v m vs)))"
| "evalExpr ce (Comprehension k receiver x body nullSafe) sc = bind (evalExpr ce receiver sc) (\<lambda>v.
     if val_nullish v \<and> nullSafe then ret VNull
     else bind (lift (comprehension_items v)) (evalComprehension k (\<lambda>item. evalExpr ce body ((x, item) # sc))))"
| "evalExpr ce (Unary op e) sc = bind (evalExpr ce e sc) (\<lambda>v. lift (apply_unary op v))"
| "evalExpr ce (Binary op left right) sc =
     (if op = ''&&'' then bind (evalExpr ce left sc) (\<lambda>l. if truthy l then evalExpr ce right sc else ret l)
      else if op = ''||'' then bind (evalExpr ce left sc) (\<lambda>l. if truthy l then ret l else evalExpr ce right sc)
      else bind (evalExpr ce left sc) (\<lambda>l. bind (evalExpr ce right sc) (\<lambda>r. lift (apply_binary (ce_host ce) op l r))))"
| "evalExpr ce (Ternary c t e) sc = bind (evalExpr ce c sc) (\<lambda>v. if truthy v then evalExpr ce t sc else evalExpr ce e sc)"
| "evalExpr ce (ArrayLit es) sc = bind (evalAll ce es sc) (\<lambda>vs. ret (VArr vs))"
| "evalExpr ce (ObjectLit es) sc = bind (evalEntries ce es sc) (\<lambda>kvs. ret (VObj (obj_from_entries kvs)))"
| "evalAll ce [] sc = ret []"
| "evalAll ce (e # es) sc = bind (evalExpr ce e sc) (\<lambda>v. bind (evalAll ce es sc) (\<lambda>vs. ret (v # vs)))"
| "evalEntries ce [] sc = ret []"
| "evalEntries ce ((k, e) # es) sc = bind (evalExpr ce k sc) (\<lambda>kv. case kv of
      VStr key \<Rightarrow> bind (evalExpr ce e sc) (\<lambda>v. bind (evalEntries ce es sc) (\<lambda>kvs. ret ((key, v) # kvs)))
    | _ \<Rightarrow> throw (CelError ''CEL_EVAL: object key must be a string''))"

  by pat_completeness simp_all
termination evalExpr
proof (relation "measure (\<lambda>x. case x of Inl (ce, e, sc) \<Rightarrow> size e | Inr (Inl (ce, es, sc)) \<Rightarrow> size_list size es
    | Inr (Inr (ce, es, sc)) \<Rightarrow> size_list (size_prod size size) es)", goal_cases)
qed (auto simp: field_access_size)

subsection \<open>Evaluators\<close>

text \<open>
  An evaluator with its clock offset, its generator and its source of identifiers.  Generators are shared
  objects: \<open>cel_heap\<close> holds the state of each by its number, and an evaluator of a request without a seed
  uses the generator of the evaluator it comes from.  \<open>cv_seed\<close> is the seed its identifiers come from; without one they
  come from the source of the runtime.
\<close>

record cel_heap =
  hp_admin :: rat
  hp_rngs :: "cel_state list"

record cel_evaluator =
  cv_offset :: rat
  cv_rng :: nat
  cv_seed :: "string option"

record cel_request_context =
  rx_offset :: "jsnum option"
  rx_seed :: "string option"

text \<open>The root evaluator: no offset of its own, the first generator.\<close>

definition root_evaluator :: cel_evaluator where
  "root_evaluator = \<lparr>cv_offset = 0, cv_rng = 0, cv_seed = None\<rparr>"

definition getClockOffset :: "cel_evaluator \<Rightarrow> rat \<Rightarrow> cel_heap \<Rightarrow> jsnum" where
  "getClockOffset cv external hp = (let root = jn_add (Fin (hp_admin hp)) (Fin external)
     in if cv = root_evaluator then root else jn_add root (Fin (cv_offset cv)))"

definition setClockOffset :: "jsnum \<Rightarrow> cel_heap \<Rightarrow> cel_heap" where
  "setClockOffset ms hp = hp\<lparr>hp_admin := (case ms of Fin x \<Rightarrow> x | _ \<Rightarrow> 0)\<rparr>"

definition fresh_rng :: cel_state where
  "fresh_rng = \<lparr>cs_seed = 0, cs_seeded = False, cs_draws = 0, cs_uuids = 0\<rparr>"

definition requested_offset :: "cel_request_context \<Rightarrow> rat" where
  "requested_offset rx = (case rx_offset rx of Some (Fin x) \<Rightarrow> x | _ \<Rightarrow> 0)"

definition withRequestContext :: "cel_request_context \<Rightarrow> cel_evaluator \<Rightarrow> cel_heap \<Rightarrow> cel_evaluator \<times> cel_heap" where
  "withRequestContext rx cv hp =
     (if requested_offset rx = 0 \<and> rx_seed rx = None then (root_evaluator, hp)
      else case rx_seed rx of
        Some seed \<Rightarrow> (\<lparr>cv_offset = requested_offset rx, cv_rng = length (hp_rngs hp), cv_seed = Some seed\<rparr>,
            hp\<lparr>hp_rngs := hp_rngs hp @ [seedString (Some seed) fresh_rng]\<rparr>)
      | None \<Rightarrow> (\<lparr>cv_offset = requested_offset rx, cv_rng = cv_rng cv, cv_seed = cv_seed cv\<rparr>, hp))"

text \<open>The clock an evaluation sees, and where its identifiers come from.\<close>

definition eval_now :: "cel_host \<Rightarrow> string option \<Rightarrow> jsnum \<Rightarrow> cel_exn + string" where
  "eval_now h now offset =
     (let base = (case now of None \<Rightarrow> ch_date_now h | Some t \<Rightarrow> (case ch_parse_date h t of Fin x \<Rightarrow> x | _ \<Rightarrow> ch_date_now h))
      in toISOString (jn_add (Fin base) offset))"

definition eval_uuid :: "cel_host \<Rightarrow> (nat \<Rightarrow> string) \<Rightarrow> string option \<Rightarrow> nat \<Rightarrow> string" where
  "eval_uuid h runtime seed n = (case seed of
      None \<Rightarrow> runtime n
    | Some s \<Rightarrow> ch_v7 h (uuidV7OptionsFromSeed h (s @ '':'' @ dec n)))"

text \<open>\<open>evaluate\<close> on a source, and \<open>evaluateDslValue\<close>, in an environment.\<close>

definition evaluate :: "cel_env \<Rightarrow> string \<Rightarrow> val cel" where
  "evaluate ce src = bind (lift (parse src)) (\<lambda>e. evalExpr ce e [])"

fun interpolate :: "cel_env \<Rightarrow> template_part list \<Rightarrow> string cel" where
  "interpolate ce [] = ret []"
| "interpolate ce (PText t # parts) = bind (interpolate ce parts) (\<lambda>s. ret (t @ s))"
| "interpolate ce (PExpr src # parts) = bind (evaluate ce src) (\<lambda>v.
     bind (interpolate ce parts) (\<lambda>s. ret ((if val_nullish v then [] else val_String v) @ s)))"

definition evaluateDslValue :: "cel_env \<Rightarrow> val \<Rightarrow> val cel" where
  "evaluateDslValue ce v = (case v of
      VStr s \<Rightarrow> (case parseTemplate s of
          PlanLiteral t \<Rightarrow> ret (VStr t)
        | PlanWhole src \<Rightarrow> evaluate ce src
        | PlanInterp parts \<Rightarrow> bind (interpolate ce parts) (\<lambda>t. ret (VStr t)))
    | _ \<Rightarrow> ret v)"

end
