(* ===== verification/CelLaws.thy ===== *)
theory CelLaws
  imports CelEval
begin

text \<open>
  Evaluation for a reducer.  \<open>settled m m'\<close>: both computations give the same result and leave the state
  alone, whatever it is.  In the reducer phase every part of an evaluation is settled between two
  environments that differ only in their clock and their sources of identifiers and random numbers.
\<close>

definition settled :: "'a cel \<Rightarrow> 'a cel \<Rightarrow> bool" where
  "settled m m' \<longleftrightarrow> (\<exists>r. \<forall>s. m s = (r, s) \<and> m' s = (r, s))"

named_theorems st

lemma settled_ret [st]: "settled (ret a) (ret a)"
  by (simp add: settled_def)

lemma settled_throw [st]: "settled (throw e) (throw e)"
  by (simp add: settled_def)

lemma settled_lift [st]: "settled (lift r) (lift r)"
  by (simp add: settled_def)

lemma settled_bind [st]:
  assumes "settled m m'" and "\<And>a. settled (f a) (f' a)"
  shows "settled (bind m f) (bind m' f')"
proof -
  from assms(1) obtain r where r: "\<And>s. m s = (r, s)" "\<And>s. m' s = (r, s)" by (auto simp: settled_def)
  show ?thesis
  proof (cases r)
    case (Inl e)
    with r show ?thesis by (auto simp: settled_def bind_run)
  next
    case (Inr a)
    from assms(2)[of a] obtain q where "\<And>s. f a s = (q, s)" "\<And>s. f' a s = (q, s)" by (auto simp: settled_def)
    with Inr r show ?thesis by (auto simp: settled_def bind_run)
  qed
qed

lemma settled_if [st]: "(c \<Longrightarrow> settled m m') \<Longrightarrow> (\<not> c \<Longrightarrow> settled n n') \<Longrightarrow> settled (if c then m else n) (if c then m' else n')"
  by simp

text \<open>Two environments that agree on everything a reducer may use.\<close>

definition same_for_reducer :: "cel_env \<Rightarrow> cel_env \<Rightarrow> bool" where
  "same_for_reducer ce ce' \<longleftrightarrow> ce_phase ce = Reducer \<and> ce_phase ce' = Reducer \<and> ce_context ce' = ce_context ce
     \<and> ce_custom ce' = ce_custom ce \<and> ch_equal (ce_host ce') = ch_equal (ce_host ce)
     \<and> ch_regex (ce_host ce') = ch_regex (ce_host ce) \<and> ch_pow (ce_host ce') = ch_pow (ce_host ce)
     \<and> ch_sqrt (ce_host ce') = ch_sqrt (ce_host ce)"

lemma builtin_same:
  assumes "map_of BUILTINS name = Some f" and "name \<noteq> ''timestamp''"
    and "ch_pow h' = ch_pow h" and "ch_sqrt h' = ch_sqrt h"
  shows "f h' args = f h args"
proof -
  have "list_all (\<lambda>(n, g). n \<noteq> ''timestamp'' \<longrightarrow> g h' args = g h args) BUILTINS"
    using assms(3,4) by (simp add: BUILTINS_def pow_of_def sqrt_of_def on_number_def split: val.split)
  with map_of_SomeD[OF assms(1)] assms(2) show ?thesis by (auto simp: list_all_iff)
qed

lemma settled_callBuiltin:
  assumes "same_for_reducer ce ce'"
  shows "settled (callBuiltin ce name args) (callBuiltin ce' name args)"
proof (cases "name \<in> set REDUCER_BANNED")
  case True
  then show ?thesis
    using assms settled_throw by (auto simp: callBuiltin_def same_for_reducer_def Let_def)
next
  case False
  then have n: "name \<noteq> ''timestamp''" "name \<notin> set FAKE_BUILTINS" "name \<notin> set CLOCK_BUILTINS"
    by (auto simp: REDUCER_BANNED_def FAKE_BUILTINS_def CLOCK_BUILTINS_def)
  have call: "callBuiltin c name args = (case map_of (ce_custom c) name of
        Some f \<Rightarrow> lift (f args (ce_context c) (ce_phase c))
      | None \<Rightarrow> (case map_of BUILTINS name of Some f \<Rightarrow> lift (f (ce_host c) args) | None \<Rightarrow> throw (unknown_function name)))" for c
    using n False by (auto simp: callBuiltin_def FAKE_BUILTINS_def CLOCK_BUILTINS_def Let_def split: option.splits)
  show ?thesis
  proof (cases "map_of (ce_custom ce) name")
    case (Some f)
    with assms show ?thesis unfolding call by (simp add: same_for_reducer_def settled_lift)
  next
    case None
    show ?thesis
    proof (cases "map_of BUILTINS name")
      case (Some f)
      have "f (ce_host ce') args = f (ce_host ce) args"
        by (rule builtin_same[OF Some n(1)]) (use assms in \<open>simp_all add: same_for_reducer_def\<close>)
      with None Some assms show ?thesis unfolding call by (simp add: same_for_reducer_def settled_lift)
    next
      case None
      with \<open>map_of (ce_custom ce) name = None\<close> assms show ?thesis
        unfolding call by (simp add: same_for_reducer_def settled_throw)
    qed
  qed
qed

lemma settled_comprehend_all: "(\<And>x. settled (f x) (f' x)) \<Longrightarrow> settled (comprehend_all f xs) (comprehend_all f' xs)"
  by (induction xs) (auto intro!: st)

lemma settled_comprehend_exists: "(\<And>x. settled (f x) (f' x)) \<Longrightarrow> settled (comprehend_exists f xs) (comprehend_exists f' xs)"
  by (induction xs) (auto intro!: st)

lemma settled_comprehend_one: "(\<And>x. settled (f x) (f' x)) \<Longrightarrow> settled (comprehend_one f n xs) (comprehend_one f' n xs)"
  by (induction xs arbitrary: n) (auto intro!: st simp: Let_def)

lemma settled_comprehend_filter: "(\<And>x. settled (f x) (f' x)) \<Longrightarrow> settled (comprehend_filter f xs) (comprehend_filter f' xs)"
  by (induction xs) (auto intro!: st)

lemma settled_comprehend_map: "(\<And>x. settled (f x) (f' x)) \<Longrightarrow> settled (comprehend_map f xs) (comprehend_map f' xs)"
  by (induction xs) (auto intro!: st)

lemma settled_comprehension:
  "(\<And>x. settled (f x) (f' x)) \<Longrightarrow> settled (evalComprehension k f xs) (evalComprehension k f' xs)"
  by (cases k) (auto simp: evalComprehension_def intro!: settled_comprehend_all settled_comprehend_exists settled_comprehend_one
      settled_comprehend_filter settled_comprehend_map settled_bind settled_ret)

lemma evalMatches_same:
  assumes "ch_regex h' = ch_regex h"
  shows "evalMatchesSafe h' = evalMatchesSafe h"
  unfolding fun_eq_iff evalMatchesSafe_def assms by simp

lemma call_method_same:
  assumes "ch_equal h' = ch_equal h" "ch_regex h' = ch_regex h"
  shows "call_method h' v m args = call_method h v m args"
  unfolding call_method_def evalStringMethod_def evalListMethod_def evalMatches_same[OF assms(2)] assms(1) by (rule refl)

lemma apply_binary_same: "ch_equal h' = ch_equal h \<Longrightarrow> apply_binary h' op l r = apply_binary h op l r"
  by (simp add: apply_binary_def split: val.split)

lemma settled_eval:
  "same_for_reducer ce ce' \<Longrightarrow> settled (evalExpr ce e sc) (evalExpr ce' e sc)"
  "same_for_reducer ce ce' \<Longrightarrow> settled (evalAll ce es sc) (evalAll ce' es sc)"
  "same_for_reducer ce ce' \<Longrightarrow> settled (evalEntries ce ens sc) (evalEntries ce' ens sc)"
proof (induction ce e sc and ce es sc and ce ens sc rule: evalExpr_evalAll_evalEntries.induct)
  case (2 ce name sc)
  then have "lookup_ident ce' sc name = lookup_ident ce sc name"
    by (simp add: lookup_ident_def same_for_reducer_def split: option.split)
  then show ?case by (simp only: evalExpr.simps settled_lift)
next
  case (5 ce f args sc)
  then show ?case
    by (auto intro!: st settled_callBuiltin split: option.split)
next
  case (6 ce receiver m args sc)
  then have "call_method (ce_host ce') v m vs = call_method (ce_host ce) v m vs" for v vs
    by (intro call_method_same) (simp_all add: same_for_reducer_def)
  with 6 show ?case by (auto intro!: st)
next
  case (7 ce receiver m args sc)
  then have "call_method (ce_host ce') v m vs = call_method (ce_host ce) v m vs" for v vs
    by (intro call_method_same) (simp_all add: same_for_reducer_def)
  with 7 show ?case by (auto intro!: st)
next
  case (8 ce k receiver x body nullSafe sc)
  then show ?case by (auto intro!: st settled_comprehension)
next
  case (10 ce op left right sc)
  then have "apply_binary (ce_host ce') op l r = apply_binary (ce_host ce) op l r" for l r
    by (intro apply_binary_same) (simp add: same_for_reducer_def)
  with 10 show ?case by (auto intro!: st)
next
  case (17 ce k e es sc)
  then show ?case by (auto intro!: st split: val.split)
qed (auto intro!: st)

lemma settled_evaluate: "same_for_reducer ce ce' \<Longrightarrow> settled (evaluate ce src) (evaluate ce' src)"
  unfolding evaluate_def by (intro st settled_eval)

lemma settled_interpolate: "same_for_reducer ce ce' \<Longrightarrow> settled (interpolate ce parts) (interpolate ce' parts)"
  by (induction ce parts rule: interpolate.induct) (auto intro!: st settled_evaluate)

lemma settled_dsl: "same_for_reducer ce ce' \<Longrightarrow> settled (evaluateDslValue ce v) (evaluateDslValue ce' v)"
  by (auto simp: evaluateDslValue_def intro!: st settled_evaluate settled_interpolate split: val.split template_plan.split)

end
