(* ===== verification/CelFake.thy ===== *)
theory CelFake
  imports CelBuiltins
begin

text \<open>
  Drawing from a seeded generator.  \<open>yields P m\<close>: from a state with a seeded generator \<open>m\<close> returns a value
  that \<open>P\<close> holds of and leaves the generator seeded.  A roll of \<open>n\<close> stays below \<open>n\<close> although the product is a
  rounded double, because a draw is a multiple of \<open>2 ^ -32\<close> and the product is then exact.
\<close>

subsection \<open>Exact products\<close>

lemma round64_multiple:
  assumes "x / pow2 (max (binade \<bar>x\<bar> - 52) (-1074)) = of_int q"
  shows "round64 x = x"
proof -
  have "pow2 (max (binade \<bar>x\<bar> - 52) (-1074)) \<noteq> 0" using pow2_pos by (metis less_irrefl)
  with assms have "of_int q * pow2 (max (binade \<bar>x\<bar> - 52) (-1074)) = x" by (simp add: nonzero_divide_eq_eq)
  with assms show ?thesis by (simp add: round64_def Let_def)
qed

lemma round64_dyadic:
  assumes "\<bar>i\<bar> < 2 ^ 53" and "j \<le> 1074"
  shows "round64 (of_int i / 2 ^ j) = of_int i / 2 ^ j"
proof (cases "i = 0")
  case True
  then show ?thesis by (simp add: round64_def)
next
  case False
  let ?x = "of_int i / 2 ^ j :: rat"
  let ?e = "max (binade \<bar>?x\<bar> - 52) (-1074)"
  have "(of_int \<bar>i\<bar> :: rat) < of_int (2 ^ 53)" using assms(1) by (simp only: of_int_less_iff)
  then have lt: "\<bar>?x\<bar> < 2 ^ 53 / 2 ^ j" by (simp add: divide_strict_right_mono abs_divide)
  have "(2 :: rat) ^ 53 / 2 ^ j = pow2 (53 - int j)"
  proof (cases "j \<le> 53")
    case True
    then have "nat (53 - int j) = 53 - j" by linarith
    with True show ?thesis by (simp add: pow2_def power_diff)
  next
    case False
    then have "nat (int j - 53) + 53 = j" by linarith
    then have "(2 :: rat) ^ j = 2 ^ nat (int j - 53) * 2 ^ 53" by (metis power_add)
    with False show ?thesis by (simp add: pow2_def)
  qed
  moreover have "pow2 (binade \<bar>?x\<bar>) \<le> \<bar>?x\<bar>" by (rule binade_le) (use False in simp)
  ultimately have "binade \<bar>?x\<bar> < 53 - int j" using lt by (intro pow2_mono_iff) simp
  then have e: "?e \<le> - int j" using assms(2) by simp
  then have "nat (- ?e) = nat (- ?e) - j + j" by linarith
  then have p: "(2 :: rat) ^ nat (- ?e) = 2 ^ (nat (- ?e) - j) * 2 ^ j" by (metis power_add)
  have u: "pow2 ?e = 1 / 2 ^ nat (- ?e)"
  proof (cases "?e = 0")
    case False
    with e show ?thesis by (simp add: pow2_def)
  qed (simp add: pow2_def)
  have "?x / pow2 ?e = of_int (i * 2 ^ (nat (- ?e) - j))"
    unfolding u p by simp
  then show ?thesis by (rule round64_multiple)
qed

lemma roll_bound:
  assumes "k < 2 ^ 32" and "n < 2 ^ 21" and "0 < n"
  shows "nat \<lfloor>round64 (of_nat k / 2 ^ 32 * of_nat n)\<rfloor> < n"
proof -
  have "k * n < 2 ^ 32 * 2 ^ 21" using assms by (intro mult_strict_mono) auto
  then have "int (k * n) < int (2 ^ 53)" by (simp only: of_nat_less_iff) simp
  then have "\<bar>int (k * n)\<bar> < 2 ^ 53" by (simp del: of_nat_mult)
  then have r: "round64 (of_int (int (k * n)) / 2 ^ 32) = of_int (int (k * n)) / 2 ^ 32"
    by (rule round64_dyadic) simp
  have "(of_nat (k * n) :: rat) < of_nat (2 ^ 32 * n)" using assms by (simp only: of_nat_less_iff) simp
  then have lt: "(of_nat k / 2 ^ 32 * of_nat n :: rat) < of_nat n" by (simp add: field_simps)
  have x: "of_int (int (k * n)) / 2 ^ 32 = (of_nat k / 2 ^ 32 * of_nat n :: rat)" by simp
  show ?thesis unfolding r[unfolded x] using lt assms(3) by (simp add: floor_less_iff nat_less_iff del: times_divide_eq_left)
qed

subsection \<open>Computations that return\<close>

definition yields :: "('a \<Rightarrow> bool) \<Rightarrow> 'a cel \<Rightarrow> bool" where
  "yields P m \<longleftrightarrow> (\<forall>s. cs_seeded s \<longrightarrow> (\<exists>a s'. m s = (Inr a, s') \<and> cs_seeded s' \<and> P a))"

lemma yields_ret: "P a \<Longrightarrow> yields P (ret a)"
  by (simp add: yields_def ret_def)

lemma yields_bind: "yields P m \<Longrightarrow> (\<And>a. P a \<Longrightarrow> yields Q (f a)) \<Longrightarrow> yields Q (bind m f)"
  unfolding yields_def bind_def by (metis (no_types, lifting) case_prod_conv sum.case(2))

lemma yields_rng: "yields (\<lambda>r. \<exists>k<2 ^ 32. r = of_nat k / 2 ^ 32) (rng_next h)"
  unfolding yields_def
proof (intro allI impI)
  fix s :: cel_state assume s: "cs_seeded s"
  let ?n = "cs_seed s + MULBERRY32_INCREMENT"
  obtain k where k: "k = unat (mulberry ?n)" by blast
  then have "k < 2 ^ 32" using unsigned_less[of "mulberry ?n"] by simp
  moreover have "rng_next h s = (Inr (of_nat k / 2 ^ 32), s\<lparr>cs_seed := ?n\<rparr>)"
    unfolding k using s by (simp add: rng_next_def Let_def)
  moreover have "cs_seeded (s\<lparr>cs_seed := ?n\<rparr>)" using s by simp
  ultimately show "\<exists>a s'. rng_next h s = (Inr a, s') \<and> cs_seeded s' \<and> (\<exists>k<2 ^ 32. a = of_nat k / 2 ^ 32)"
    by blast
qed

lemma yields_roll: "0 < n \<Longrightarrow> n < 2 ^ 21 \<Longrightarrow> yields (\<lambda>i. i < n) (roll h n)"
  unfolding roll_def by (rule yields_bind[OF yields_rng]) (use roll_bound in \<open>blast intro: yields_ret\<close>)

lemma yields_pick: "xs \<noteq> [] \<Longrightarrow> length xs < 2 ^ 21 \<Longrightarrow> yields (\<lambda>_. True) (pick h xs)"
  unfolding pick_def by (rule yields_bind[OF yields_roll]) (auto intro: yields_ret)

lemma yields_digits: "yields (\<lambda>_. True) (randomDigits h n)"
proof (induction n)
  case (Suc n)
  show ?case unfolding randomDigits.simps
    by (rule yields_bind[OF yields_roll]) (simp_all add: yields_ret yields_bind[OF Suc])
qed (simp only: randomDigits.simps yields_ret)

lemma yields_alphanumeric: "yields (\<lambda>_. True) (randomAlphanumeric h n)"
proof (induction n)
  case (Suc n)
  have "yields (\<lambda>i. i < length alphabet) (roll h (length alphabet))" by (rule yields_roll) (simp_all add: alphabet_def)
  then show ?case unfolding randomAlphanumeric.simps
    by (rule yields_bind) (simp add: yields_ret yields_bind[OF Suc])
qed (simp only: randomAlphanumeric.simps yields_ret)

lemmas yields_parts = yields_bind[OF yields_pick] yields_bind[OF yields_digits] yields_bind[OF yields_alphanumeric]
  yields_bind[OF yields_roll] yields_pick yields_ret

lemma yields_fullName: "yields (\<lambda>_. True) (fullName h)"
  by (auto simp: fullName_def firstName_def lastName_def intro!: yields_parts)

lemma fake_data_yields:
  "list_all (\<lambda>(c, ms). list_all (\<lambda>(m, f). yields (\<lambda>_. True) (f h)) ms) FAKE_DATA"
  by (auto simp: FAKE_DATA_def firstName_def lastName_def yields_fullName fake_email_def fake_url_def domainName_def
      phone_number_def company_name_def fake_city_def streetAddress_def simp del: randomDigits.simps randomAlphanumeric.simps
      intro!: yields_parts)
end
