(* ===== verification/CelProps.thy ===== *)
theory CelProps
  imports CelParserLaws CelLaws CelFake
begin

text \<open>
  The properties of the expression language: what lexing, parsing and templates guarantee, that an
  expression evaluated for a reducer is a function of its context, exact arithmetic, and fake data that never
  fails.
\<close>

subsection \<open>String literals\<close>

text \<open>A string as a literal between quotes \<open>q\<close>: the quote and the backslash are escaped.\<close>

definition escape_literal :: "char \<Rightarrow> string \<Rightarrow> string" where
  "escape_literal q s = concat (map (\<lambda>c. if c = q \<or> c = CHR 0x5C then [CHR 0x5C, c] else [c]) s)"

definition string_literal :: "char \<Rightarrow> string \<Rightarrow> string" where
  "string_literal q s = q # escape_literal q s @ [q]"

lemma string_body_step:
  "string_body q (c # s) = (if c = q then Some ([], [c])
     else if c = CHR 0x5C then (case s of [] \<Rightarrow> None | d # t \<Rightarrow> map_option (\<lambda>(v, r). (unescape d # v, c # d # r)) (string_body q t))
     else map_option (\<lambda>(v, r). (c # v, c # r)) (string_body q s))"
  by (cases s) simp_all

lemma string_body_escape:
  "is_quote q \<Longrightarrow> string_body q (escape_literal q s @ [q]) = Some (s, escape_literal q s @ [q])"
proof (induction s)
  case Nil
  then show ?case by (simp add: escape_literal_def)
next
  case (Cons c s)
  have u: "c = q \<or> c = CHR 0x5C \<Longrightarrow> unescape c = c" using Cons.prems by (auto simp: unescape_def is_quote_def)
  have "escape_literal q (c # s) = (if c = q \<or> c = CHR 0x5C then [CHR 0x5C, c] else [c]) @ escape_literal q s"
    by (simp add: escape_literal_def)
  moreover have "q \<noteq> CHR 0x5C" using Cons.prems by (auto simp: is_quote_def)
  ultimately show ?case using Cons u by (auto simp: string_body_step)
qed

lemma lex_string_literal:
  assumes "is_quote q"
  shows "lex (string_literal q s) = Inr [\<lparr>tk_type = STRING, tk_value = Some (TStr s), tk_pos = pos0\<rparr>,
    end_token (advances (string_literal q s) pos0)]"
proof -
  have "\<not> is_ws q" using assms by (auto simp: is_quote_def is_ws_def code_def)
  with assms have "lex_step q (escape_literal q s @ [q]) pos0
      = Inr (Some \<lparr>tk_type = STRING, tk_value = Some (TStr s), tk_pos = pos0\<rparr>, string_literal q s)"
    by (simp add: lex_step_def string_body_escape string_token_def string_literal_def)
  then show ?thesis by (simp add: lex_def string_literal_def tok_list_def rbind_def)
qed

text \<open>The driver on the two tokens of a literal.\<close>

lemma drive_string:
  "drive 192 [\<lparr>tk_type = STRING, tk_value = Some (TStr s), tk_pos = p\<rparr>, end_token q] ([0], [], 0) = Inr (Literal (LStr s))"
  by code_simp

lemma parse_string_literal: "is_quote q \<Longrightarrow> parse (string_literal q s) = Inr (Literal (LStr s))"
  by (simp add: parse_def lex_string_literal drive_fuel_def drive_string)

text \<open>A string written as a literal, in either kind of quotes with the quote and the backslash escaped, parses
  back to the string.\<close>

theorem string_literal_roundtrip:
  assumes "is_quote q"
  shows "parse (string_literal q s) = Inr (Literal (LStr s))"
  by (rule parse_string_literal[OF assms])

theorem string_literal_roundtrip_witness:
  "parse (string_literal (CHR 0x22) [CHR 0x22, CHR 0x5C, CHR 0x6E]) = Inr (Literal (LStr [CHR 0x22, CHR 0x5C, CHR 0x6E]))
     \<and> string_literal (CHR 0x22) [CHR 0x22, CHR 0x5C, CHR 0x6E]
       = [CHR 0x22, CHR 0x5C, CHR 0x22, CHR 0x5C, CHR 0x5C, CHR 0x6E, CHR 0x22]"
  using string_literal_roundtrip[of "CHR 0x22" "[CHR 0x22, CHR 0x5C, CHR 0x6E]"]
  by (simp add: is_quote_def string_literal_def escape_literal_def)

subsection \<open>Parsing\<close>

text \<open>C28: An accepted source is a sentence of the grammar and its abstract syntax is what the reduce actions
  build along a derivation.\<close>

theorem parse_sound:
  assumes "parse src = Inr e"
  shows "\<exists>us q. lex src = Inr (us @ [end_token q]) \<and> derives (N N_Expr) us (SExpr e)"
  using parse_ok[of src] assms by simp

theorem parse_sound_witness:
  "\<exists>us q. lex (string_literal (CHR 0x22) ''hi'') = Inr (us @ [end_token q])
     \<and> derives (N N_Expr) us (SExpr (Literal (LStr ''hi'')))"
  by (rule parse_sound) (simp add: parse_string_literal is_quote_def)

text \<open>C30: Parsing always ends, in an expression or in a \<open>ParseError\<close> with a position: the internal errors of
  the driver and of its stacks never show, and the fuel is never used up.\<close>

theorem parse_total: "(\<exists>e. parse src = Inr e) \<or> (\<exists>message p. parse src = Inl (ParseError message p))"
  using parse_ok[of src] by (cases "parse src") auto

text \<open>Every token of a source carries the line, column and offset its first character has in the source, and the
  tokens come in the order of their offsets.\<close>

theorem lex_positions:
  assumes "lex src = Inr ts"
  shows "list_all (\<lambda>t. p_offset (tk_pos t) \<le> length src \<and> tk_pos t = position_at src (p_offset (tk_pos t))) ts
    \<and> sorted_wrt (\<lambda>t u. p_offset (tk_pos t) < p_offset (tk_pos u)) ts"
  using assms lex_from_positions[of src "[]" ts] by (simp add: lex_def list_all_iff advances_def)

theorem lex_positions_witness:
  "list_all (\<lambda>t. p_offset (tk_pos t) \<le> 4 \<and> tk_pos t = position_at (string_literal (CHR 0x22) ''hi'') (p_offset (tk_pos t)))
     [\<lparr>tk_type = STRING, tk_value = Some (TStr ''hi''), tk_pos = pos0\<rparr>,
      end_token (advances (string_literal (CHR 0x22) ''hi'') pos0)]"
  using lex_positions[OF lex_string_literal[of "CHR 0x22" "''hi''"]]
  by (simp add: is_quote_def string_literal_def escape_literal_def)

subsection \<open>Templates\<close>

text \<open>Lexing a template loses nothing: the source texts of its tokens, put together, are the template; and the
  parts of its plan render to what its tokens stand for, with escapes as literal text and neighbouring texts merged.\<close>

theorem template_lossless:
  "concat (map token_source (lexTemplate s)) = s
   \<and> concat (map (render_part f) (toParts (lexTemplate s))) = concat (map (render_token f) (lexTemplate s))"
  by (simp add: lexTemplate_def lex_template_lossless render_toParts)

subsection \<open>Evaluation\<close>

text \<open>C29: For a reducer the value of a document is a function of the document and its context: another clock, another
  parser of dates, another source of random numbers or identifiers and another generator change neither the
  result nor the error, and evaluating draws nothing.\<close>

theorem reducer_deterministic:
  assumes "same_for_reducer ce ce'"
  shows "\<exists>r. \<forall>s s'. evaluateDslValue ce v s = (r, s) \<and> evaluateDslValue ce' v s' = (r, s')"
  using settled_dsl[OF assms, of v] by (auto simp: settled_def)

definition plain_host :: "rat \<Rightarrow> cel_host" where
  "plain_host now = \<lparr>ch_equal = (=), ch_regex = (\<lambda>p s. Inr (p = s)), ch_pow = (\<lambda>a b. a), ch_sqrt = (\<lambda>a. a),
     ch_parse_date = (\<lambda>s. Fin now), ch_date_now = now, ch_random = (\<lambda>n. now / (now + 1)), ch_sha256 = (\<lambda>s. []),
     ch_v4 = (\<lambda>b. dec (length b)), ch_v7 = (\<lambda>opts. dec (uo_msecs opts))\<rparr>"

definition reducer_env :: "rat \<Rightarrow> cel_env" where
  "reducer_env now = \<lparr>ce_host = plain_host now, ce_phase = Reducer, ce_context = [(''state'', VObj [])], ce_custom = [],
     ce_now = toISOString (Fin now), ce_uuid = (\<lambda>n. dec (n + nat \<lfloor>now\<rfloor>))\<rparr>"

theorem reducer_deterministic_witness:
  "\<exists>r. \<forall>s s'. evaluateDslValue (reducer_env 1) (VStr ''$uuidv7()'') s = (r, s)
     \<and> evaluateDslValue (reducer_env 7) (VStr ''$uuidv7()'') s' = (r, s')"
  by (rule reducer_deterministic) (simp add: same_for_reducer_def reducer_env_def plain_host_def)

lemma exists_as_all:
  "comprehend_exists f xs = bind (comprehend_all (\<lambda>x. bind (f x) (\<lambda>v. lift (apply_unary ''!'' v))) xs) (\<lambda>v. lift (apply_unary ''!'' v))"
proof (induction xs)
  case Nil
  show ?case by (simp add: fun_eq_iff bind_def ret_def lift_def apply_unary_def truthy_def)
next
  case (Cons x xs)
  show ?case
    unfolding comprehend_exists.simps comprehend_all.simps Cons.IH
    by (auto simp: fun_eq_iff bind_def ret_def lift_def apply_unary_def truthy_def split: prod.splits sum.splits)
qed

text \<open>Some element of a collection satisfies a body exactly when not every element satisfies its negation, also
  when the body draws random numbers or fails: both expressions evaluate alike.\<close>

theorem exists_is_not_all_not:
  "evalExpr ce (Comprehension CExists receiver x body False) sc
   = evalExpr ce (Unary ''!'' (Comprehension CAll receiver x (Unary ''!'' body) False)) sc"
  by (simp add: evalComprehension_def exists_as_all fun_eq_iff bind_def lift_def split: prod.split sum.split)

text \<open>Sums, differences and products of integers are exact as long as the result is at most \<open>2 ^ 53\<close> in size.\<close>

theorem integer_arithmetic_exact:
  "(if \<bar>a + b\<bar> \<le> 2 ^ 53 then apply_binary h ''+'' (VNum (Fin (of_int a))) (VNum (Fin (of_int b))) = Inr (VNum (Fin (of_int (a + b)))) else True)
   \<and> (if \<bar>a - b\<bar> \<le> 2 ^ 53 then apply_binary h ''-'' (VNum (Fin (of_int a))) (VNum (Fin (of_int b))) = Inr (VNum (Fin (of_int (a - b)))) else True)
   \<and> (if \<bar>a * b\<bar> \<le> 2 ^ 53 then apply_binary h ''*'' (VNum (Fin (of_int a))) (VNum (Fin (of_int b))) = Inr (VNum (Fin (of_int (a * b)))) else True)"
  using jn_add_int[of a b] jn_add_int[of a "- b"] jn_mul_int[of a b]
  by (simp add: apply_binary_def is_str_def numericOperands_def jn_sub_def)

text \<open>A fractional index below the length of a list is not refused: the element is \<open>undefined\<close>, which an access to
  a map never gives.\<close>

theorem fractional_index_undefined:
  assumes "0 < i" and "i < of_nat (length xs)" and "of_int \<lfloor>i\<rfloor> \<noteq> i"
  shows "member_of (VArr xs) (VNum (Fin i)) = Inr VUndef \<and> member_of (VObj m) (VStr k) \<noteq> Inr VUndef"
  using assms by (auto simp: member_of_def jn_le_def jn_eq_def jn_nat_def split: option.split)

theorem fractional_index_undefined_witness:
  "member_of (VArr [VNull]) (VNum (Fin (1 / 2))) = Inr VUndef \<and> member_of (VObj []) (VStr ''a'') \<noteq> Inr VUndef"
proof -
  have "\<lfloor>1 / 2 :: rat\<rfloor> = 0" by (simp add: floor_eq_iff)
  then show ?thesis by (intro fractional_index_undefined) simp_all
qed

subsection \<open>Fake data\<close>

lemma fake_name_dot:
  "list_all (\<lambda>(c, ms). list_all (\<lambda>m. first_index ''.'' (c @ ''.'' @ fst m) = Some (length c)) ms) FAKE_DATA"
  by (simp add: FAKE_DATA_def) code_simp

lemma fake_by_name:
  assumes "map_of FAKE_DATA category = Some methods" and "map_of methods name = Some f"
  shows "fake h [VStr (category @ ''.'' @ name)] = bind (f h) (\<lambda>s. ret (VStr s))"
proof -
  have "first_index ''.'' (category @ ''.'' @ name) = Some (length category)"
    using fake_name_dot map_of_SomeD[OF assms(1)] map_of_SomeD[OF assms(2)] by (fastforce simp: list_all_iff)
  with assms show ?thesis by (simp add: fake_def arg_def Let_def)
qed

text \<open>With a seeded generator every category and method of fake data gives a string, whatever the seed: no draw
  falls outside its table.\<close>

theorem fake_never_fails:
  assumes "cs_seeded s" and "map_of FAKE_DATA category = Some methods" and "map_of methods name = Some f"
  shows "\<exists>text s'. fake h [VStr (category @ ''.'' @ name)] s = (Inr (VStr text), s') \<and> cs_seeded s'"
proof -
  have "yields (\<lambda>_. True) (f h)"
    using fake_data_yields[of h] map_of_SomeD[OF assms(2)] map_of_SomeD[OF assms(3)] by (fastforce simp: list_all_iff)
  with assms(1) show ?thesis unfolding fake_by_name[OF assms(2,3)]
    by (fastforce simp: yields_def bind_def ret_def)
qed

theorem fake_never_fails_witness:
  "\<exists>text s'. fake (plain_host 0) [VStr ''person.lastName''] (seedString (Some ''run'') fresh_rng) = (Inr (VStr text), s') \<and> cs_seeded s'"
  using fake_never_fails[of "seedString (Some ''run'') fresh_rng" "''person''" _ "''lastName''" lastName "plain_host 0"]
  by (simp add: FAKE_DATA_def seedString_def)

subsection \<open>Regular expressions\<close>

lemma counted_repeat_long: "counted_repeat t \<Longrightarrow> 3 \<le> length t \<and> hd t = CHR ''{''"
proof -
  assume c: "counted_repeat t"
  then obtain d s where t: "t = d # s" and d: "d = CHR ''{''" and ds: "takeWhile is_digit s \<noteq> []"
    by (cases t) (auto simp: counted_repeat_def brace_digits_def Let_def split: if_splits)
  from ds have "0 < length (takeWhile is_digit s)" by simp
  moreover have "dropWhile is_digit s \<noteq> []"
    using c d ds by (auto simp: t counted_repeat_def brace_digits_def Let_def simp del: dropWhile_eq_Nil_conv)
  then have "0 < length (dropWhile is_digit s)" by (simp del: dropWhile_eq_Nil_conv)
  moreover have "length s = length (takeWhile is_digit s) + length (dropWhile is_digit s)"
    by (metis length_append takeWhile_dropWhile_id)
  ultimately have "2 \<le> length s" by linarith
  with t d show ?thesis by simp
qed

lemma token_forms: "t \<in> set (pattern_tokens p) \<Longrightarrow> length t \<le> 2 \<or> hd t = CHR ''[''"
proof (induction "length p" arbitrary: p rule: less_induct)
  case less
  show ?case
  proof (cases p)
    case (Cons c s)
    have cls: "length (drop (length (takeWhile (\<lambda>d. d \<noteq> CHR '']'') s) + 1) s) < length p" and "length s < length p"
      using Cons by simp_all
    note IH = less.hyps[OF this(1)] less.hyps[OF this(2)]
    show ?thesis
    proof (cases s)
      case Nil
      with Cons less.prems show ?thesis by (simp split: if_splits)
    next
      case (Cons d r)
      have "length r < length p" using \<open>s = d # r\<close> \<open>p = c # s\<close> by simp
      note IH = IH less.hyps[OF this]
      from less.prems show ?thesis
        unfolding \<open>p = c # s\<close> pattern_tokens.simps(2)[of c s] Let_def
        by (simp only: \<open>s = d # r\<close> list.case split: if_splits) (use IH \<open>s = d # r\<close> in auto)
    qed
  qed (use less.prems in simp)
qed

lemma tokens_not_counted: "t \<in> set (pattern_tokens p) \<Longrightarrow> \<not> counted_repeat t"
  using token_forms[of t p] counted_repeat_long[of t] by auto

text \<open>The guard against adjacent unbounded quantifiers reads a pattern character by character and so never sees a
  counted repeat: three open repeats pass where three stars are refused.\<close>

theorem counted_repeats_pass:
  "\<not> list_ex counted_repeat (pattern_tokens p)
   \<and> detectCatastrophicRegexShape ''a{1,}a{1,}a{1,}b'' = None \<and> detectCatastrophicRegexShape ''a*a*a*b'' \<noteq> None"
proof -
  have "detectCatastrophicRegexShape ''a{1,}a{1,}a{1,}b'' = None" by code_simp
  moreover have "detectCatastrophicRegexShape ''a*a*a*b'' \<noteq> None" by code_simp
  ultimately show ?thesis using tokens_not_counted by (auto simp: list_ex_iff)
qed

end
