(* ===== verification/Router.thy ===== *)
theory Router
  imports ResponsePolicies "HOL-Library.Product_Lexorder"
begin

text \<open>
  Matching a request to an operation of the contract (\<open>contract/router.ts\<close>, the operation index of
  \<open>contract/loader.ts\<close> and \<open>contract/responseSchema.ts\<close>).  The regular expression of a path template is the
  function that decides it: literal segments are escaped and a parameter segment is \<open>[^/]+\<close>, so a match goes
  segment by segment.  A parameter whose name is no group name makes the expression a syntax error; names
  written with Unicode escapes are outside the model.
\<close>

subsection \<open>Documents\<close>

datatype parameter_place = InPath | InQuery | InHeader

record parameter =
  pm_name :: string
  pm_in :: parameter_place
  pm_required :: bool
  pm_schema :: "json_object option"
  pm_extensions :: json_object

record operation =
  op_operationId :: "string option"
  op_requestBody :: "json_object option"
  op_responses :: "(string \<times> json_object) list option"
  op_responseHeaders :: "(string \<times> string list) list option"
  op_parameters :: "parameter list"
  op_extensions :: json_object

type_synonym path_item = "(string \<times> operation) list"

record openapi =
  oa_raw :: json
  oa_paths :: "(string \<times> path_item) list"
  oa_index :: "(string \<times> string) list option"

definition buildOperationIdIndex :: "(string \<times> path_item) list \<Rightarrow> (string \<times> string) list" where
  "buildOperationIdIndex paths = foldl (\<lambda>index (template, item). foldl (\<lambda>index (m, oper).
     (case op_operationId oper of None \<Rightarrow> index | Some i \<Rightarrow> omap_set (to_upper m @ '' '' @ template) i index)) index item) [] paths"

definition lookupOperationId :: "openapi \<Rightarrow> string \<Rightarrow> string \<Rightarrow> string option" where
  "lookupOperationId doc path method = (case oa_index doc of
      Some index \<Rightarrow> map_of index (to_upper method @ '' '' @ path)
    | None \<Rightarrow> Option.bind (Option.bind (map_of (oa_paths doc) path) (\<lambda>item. map_of item (to_lower method))) op_operationId)"

subsection \<open>Versions\<close>

record api_version =
  av_version :: string
  av_prefix :: string
  av_default :: bool

definition before_query :: "string \<Rightarrow> string" where
  "before_query path = hd (js_split (CHR ''?'') path)"

definition resolveVersion :: "string \<Rightarrow> bool \<Rightarrow> api_version list \<Rightarrow> string \<times> string option" where
  "resolveVersion path enabled versions =
     (if \<not> enabled \<or> versions = [] then (path, None)
      else let p = before_query path
        in case find (\<lambda>v. p = av_prefix v \<or> starts_with (av_prefix v @ ''/'') p)
               (sort_key (\<lambda>v. - int (length (av_prefix v))) versions) of
             Some v \<Rightarrow> (let rest = drop (length (av_prefix v)) p in (if rest = [] then ''/'' else rest, Some (av_version v)))
           | None \<Rightarrow> (p, map_option av_version (find av_default versions)))"

subsection \<open>Templates\<close>

definition is_param :: "string \<Rightarrow> bool" where
  "is_param seg \<longleftrightarrow> seg \<noteq> [] \<and> hd seg = CHR ''{'' \<and> last seg = CHR ''}''"

definition param_name :: "string \<Rightarrow> string" where
  "param_name seg = butlast (tl seg)"

definition group_start :: "char \<Rightarrow> bool" where
  "group_start c \<longleftrightarrow> (65 \<le> code c \<and> code c \<le> 90) \<or> (97 \<le> code c \<and> code c \<le> 122) \<or> c = CHR ''_'' \<or> c = CHR ''$''
     \<or> code c \<in> {170, 181, 186} \<or> (192 \<le> code c \<and> code c \<noteq> 215 \<and> code c \<noteq> 247)"

definition group_name :: "string \<Rightarrow> bool" where
  "group_name n \<longleftrightarrow> n \<noteq> [] \<and> group_start (hd n) \<and> list_all (\<lambda>c. group_start c \<or> is_digit c \<or> code c = 183) (tl n)"

definition segments :: "string \<Rightarrow> string list" where
  "segments t = js_split slash t"

text \<open>Whether the expression of a template can be built: its groups have names, and no two the same.\<close>

definition template_ok :: "string \<Rightarrow> bool" where
  "template_ok t \<longleftrightarrow> (let names = map param_name (filter is_param (segments t)) in list_all group_name names \<and> distinct names)"

text \<open>The groups of a match, in order.\<close>

fun match_segments :: "string list \<Rightarrow> string list \<Rightarrow> (string \<times> string) list option" where
  "match_segments [] [] = Some []"
| "match_segments (t # ts) (p # ps) =
     (if is_param t then (if p = [] then None else map_option (Cons (param_name t, p)) (match_segments ts ps))
      else if t = p then match_segments ts ps else None)"
| "match_segments _ _ = None"

definition templateToRegex :: "string \<Rightarrow> string + (string \<Rightarrow> (string \<times> string) list option)" where
  "templateToRegex t = (if template_ok t then Inr (\<lambda>path. match_segments (segments t) (segments path)) else Inl t)"

subsection \<open>\<open>decodeURIComponent\<close>\<close>

text \<open>\<open>None\<close> is a \<open>URIError\<close>; so is, in the model, a character past 255.\<close>

definition percent_byte :: "string \<Rightarrow> (nat \<times> string) option" where
  "percent_byte s = (case s of
      c # a # b # r \<Rightarrow> if c = CHR ''%'' then (case (radix_digit 16 a, radix_digit 16 b) of
          (Some x, Some y) \<Rightarrow> Some (16 * x + y, r) | _ \<Rightarrow> None) else None
    | _ \<Rightarrow> None)"

lemma percent_byte_length: "percent_byte s = Some (b, r) \<Longrightarrow> length r < length s"
  by (auto simp: percent_byte_def split: list.splits if_splits option.splits prod.splits)

function decodeURIComponent :: "string \<Rightarrow> string option" where
  "decodeURIComponent [] = Some []"
| "decodeURIComponent (c # s) =
     (if c \<noteq> CHR ''%'' then map_option (Cons c) (decodeURIComponent s)
      else (case percent_byte (c # s) of
          None \<Rightarrow> None
        | Some (b, r) \<Rightarrow>
            if b < 128 then map_option (Cons (char_of b)) (decodeURIComponent r)
            else if b < 194 \<or> 196 \<le> b then None
            else (case percent_byte r of
                None \<Rightarrow> None
              | Some (b', r') \<Rightarrow>
                  if 128 \<le> b' \<and> b' < 192 then map_option (Cons (char_of ((b - 192) * 64 + (b' - 128)))) (decodeURIComponent r') else None)))"
  by pat_completeness auto
termination decodeURIComponent
  by (relation "measure length") (auto dest!: percent_byte_length)

definition decode_param :: "string \<Rightarrow> string" where
  "decode_param v = (case decodeURIComponent v of Some s \<Rightarrow> s | None \<Rightarrow> v)"

subsection \<open>\<open>matchRoute\<close>\<close>

record matched_route =
  mr_contractPath :: string
  mr_pathParams :: "(string \<times> string) list"
  mr_operation :: operation

definition staticPrefixLength :: "string \<Rightarrow> nat" where
  "staticPrefixLength t = length (js_join ''/'' (filter (\<lambda>seg. seg \<noteq> [] \<and> hd seg \<noteq> CHR ''{'') (segments t)))"

definition paramSegmentCount :: "string \<Rightarrow> nat" where
  "paramSegmentCount t = length (filter (starts_with ''{'') (segments t))"

text \<open>The comparator of the sort orders by these three in turn.\<close>

definition specificity :: "string \<Rightarrow> int \<times> nat \<times> string" where
  "specificity t = (- int (staticPrefixLength t), paramSegmentCount t, t)"

definition sortedPaths :: "openapi \<Rightarrow> string list" where
  "sortedPaths doc = sort_key specificity (map fst (oa_paths doc))"

definition operation_at :: "openapi \<Rightarrow> string \<Rightarrow> string \<Rightarrow> operation option" where
  "operation_at doc t m = Option.bind (map_of (oa_paths doc) t) (\<lambda>item. map_of item m)"

fun first_route :: "openapi \<Rightarrow> string \<Rightarrow> string \<Rightarrow> string list \<Rightarrow> string + matched_route option" where
  "first_route doc m path [] = Inr None"
| "first_route doc m path (t # ts) = rbind (templateToRegex t) (\<lambda>regex. case regex path of
      None \<Rightarrow> first_route doc m path ts
    | Some groups \<Rightarrow> (case operation_at doc t m of
        None \<Rightarrow> first_route doc m path ts
      | Some oper \<Rightarrow> Inr (Some \<lparr>mr_contractPath = t, mr_pathParams = map (\<lambda>(k, v). (k, decode_param v)) groups,
          mr_operation = oper\<rparr>)))"

definition matchRoute :: "openapi \<Rightarrow> string \<Rightarrow> string \<Rightarrow> string + matched_route option" where
  "matchRoute doc method path = first_route doc (to_lower method) (before_query path) (sortedPaths doc)"

subsection \<open>Response schemas\<close>

definition response_schema :: "operation \<Rightarrow> nat \<Rightarrow> json_object option" where
  "response_schema oper status = Option.bind (op_responses oper) (\<lambda>schemas. case map_of schemas (dec status) of
      Some s \<Rightarrow> Some s | None \<Rightarrow> map_of schemas ''default'')"

definition resolveResponseSchema :: "openapi \<Rightarrow> string \<Rightarrow> string \<Rightarrow> nat \<Rightarrow> string + json_object option" where
  "resolveResponseSchema doc method path status = rbind (matchRoute doc method path) (\<lambda>matched.
     Inr (Option.bind matched (\<lambda>r. response_schema (mr_operation r) status)))"

definition findOperationById :: "openapi \<Rightarrow> string \<Rightarrow> (string \<times> string \<times> operation) option" where
  "findOperationById doc i = find (\<lambda>(m, path, oper). op_operationId oper = Some i)
     (concat (map (\<lambda>(path, item). map (\<lambda>(m, oper). (to_upper m, path, oper)) item) (oa_paths doc)))"

end
