(* ===== verification/RouterLaws.thy ===== *)
theory RouterLaws
  imports Router
begin

text \<open>
  The route a request gets is the most specific template that matches it and has an operation for the
  method, and a path written from a template comes back with the parameters it was written with.
\<close>

subsection \<open>Encoding and decoding\<close>

lemma hex_digit: "d < 16 \<Longrightarrow> radix_digit 16 (upper_hex d) = Some d"
  by (simp add: upper_hex_def radix_digit_def is_digit_def code_def)

lemma percent_byte_percent: "b < 256 \<Longrightarrow> percent_byte (percent b @ r) = Some (b, r)"
  by (simp add: percent_byte_def percent_def hex_digit)

lemma decode_plain: "c \<noteq> CHR ''%'' \<Longrightarrow> decodeURIComponent (c # r) = map_option (Cons c) (decodeURIComponent r)"
  by simp

lemma percent_Cons: "\<exists>t. percent b = CHR ''%'' # t"
  by (simp add: percent_def)

lemma decode_percent:
  assumes "b < 128"
  shows "decodeURIComponent (percent b @ r) = map_option (Cons (char_of b)) (decodeURIComponent r)"
  using percent_byte_percent[of b r] assms by (simp add: percent_def)

lemma decode_percent2:
  assumes "194 \<le> b" "b < 196" "128 \<le> b'" "b' < 192"
  shows "decodeURIComponent (percent b @ percent b' @ r)
    = map_option (Cons (char_of ((b - 192) * 64 + (b' - 128)))) (decodeURIComponent r)"
  using percent_byte_percent[of b "percent b' @ r"] percent_byte_percent[of b' r] assms by (simp add: percent_def)

definition encode_char :: "char \<Rightarrow> string" where
  "encode_char c = (if is_alnum c \<or> c \<in> set ''-_.!~*()'' \<or> code c = 39 then [c] else concat (map percent (utf8_char c)))"

lemma encode_chars: "encodeURIComponent s = concat (map encode_char s)"
  unfolding encodeURIComponent_def encode_char_def[abs_def] by (rule refl)

lemma decode_encode_char: "decodeURIComponent (encode_char c @ r) = map_option (Cons c) (decodeURIComponent r)"
proof (cases "is_alnum c \<or> c \<in> set ''-_.!~*()'' \<or> code c = 39")
  case True
  then have "c \<noteq> CHR ''%''" by (auto simp: is_alnum_def is_digit_def code_def)
  with True show ?thesis by (simp add: encode_char_def decode_plain)
next
  case False
  have c: "code c < 256" "char_of (code c) = c" by (simp_all add: code_def)
  show ?thesis
  proof (cases "code c < 128")
    case True
    with False have "encode_char c = percent (code c)" by (simp add: encode_char_def utf8_char_def)
    then show ?thesis using decode_percent[OF True] c by simp
  next
    case big: False
    define q r' where "q = code c div 64" and "r' = code c mod 64"
    then have b: "2 \<le> q" "q < 4" "r' < 64" "q * 64 + r' = code c" using big c by (auto simp: div_mult_mod_eq)
    from False big have "encode_char c = percent (192 + q) @ percent (128 + r')"
      by (simp add: encode_char_def utf8_char_def q_def r'_def)
    then show ?thesis using decode_percent2[of "192 + q" "128 + r'" r] b c by simp
  qed
qed

lemma decode_encode [simp]: "decodeURIComponent (encodeURIComponent s) = Some s"
  unfolding encode_chars by (induction s) (simp_all add: decode_encode_char)

text \<open>What an encoded text is made of.\<close>

definition unreserved :: "char \<Rightarrow> bool" where
  "unreserved c \<longleftrightarrow> c \<noteq> slash \<and> c \<noteq> CHR ''?''"

lemma unreserved_hex: "d < 16 \<Longrightarrow> unreserved (upper_hex d)"
proof -
  assume d: "d < 16"
  then have "code (upper_hex d) \<noteq> 47" "code (upper_hex d) \<noteq> 63" by (simp_all add: upper_hex_def code_def)
  then show ?thesis by (auto simp: unreserved_def code_def)
qed

lemma utf8_byte: "b \<in> set (utf8_char c) \<Longrightarrow> b < 256"
proof -
  have "code c < 256" by (simp add: code_def)
  then show "b \<in> set (utf8_char c) \<Longrightarrow> ?thesis" by (auto simp: utf8_char_def split: if_splits)
qed

lemma encode_char_unreserved: "x \<in> set (encode_char c) \<Longrightarrow> unreserved x"
proof (cases "is_alnum c \<or> c \<in> set ''-_.!~*()'' \<or> code c = 39")
  case True
  assume "x \<in> set (encode_char c)"
  with True have "x = c" by (simp add: encode_char_def)
  then show ?thesis using True by (auto simp: unreserved_def is_alnum_def is_digit_def code_def)
next
  case False
  assume "x \<in> set (encode_char c)"
  with False obtain b where "b < 256" "x \<in> set (percent b)" by (auto simp: encode_char_def dest: utf8_byte)
  then show ?thesis using unreserved_hex[of "b div 16"] unreserved_hex[of "b mod 16"]
    by (auto simp: percent_def) (simp add: unreserved_def)
qed

lemma encode_clean: "slash \<notin> set (encodeURIComponent s)" "CHR ''?'' \<notin> set (encodeURIComponent s)"
  using encode_char_unreserved by (fastforce simp: encode_chars unreserved_def)+

lemma encode_nonempty: "s \<noteq> [] \<Longrightarrow> encodeURIComponent s \<noteq> []"
  by (cases s) (auto simp: encode_chars encode_char_def utf8_char_def percent_def)

subsection \<open>Paths written from a template\<close>

text \<open>The path a template stands for when every parameter has a value.\<close>

definition fill_template :: "(string \<Rightarrow> string) \<Rightarrow> string \<Rightarrow> string" where
  "fill_template f t = js_join ''/'' (map (\<lambda>seg. if is_param seg then encodeURIComponent (f (param_name seg)) else seg) (segments t))"

definition param_names :: "string \<Rightarrow> string list" where
  "param_names t = map param_name (filter is_param (segments t))"

lemma js_split_pieces: "p \<in> set (js_split c s) \<Longrightarrow> c \<notin> set p"
  by (induction s arbitrary: p) (fastforce split: if_splits list.splits)+

lemma segments_fill:
  "segments (fill_template f t) = map (\<lambda>seg. if is_param seg then encodeURIComponent (f (param_name seg)) else seg) (segments t)"
  unfolding segments_def fill_template_def
  by (rule js_split_join) (auto simp: segments_def encode_clean dest: js_split_pieces)

lemma match_filled:
  assumes "\<And>seg. seg \<in> set ts \<Longrightarrow> is_param seg \<Longrightarrow> f (param_name seg) \<noteq> []"
  shows "match_segments ts (map (\<lambda>seg. if is_param seg then encodeURIComponent (f (param_name seg)) else seg) ts)
    = Some (map (\<lambda>n. (n, encodeURIComponent (f n))) (map param_name (filter is_param ts)))"
  using assms by (induction ts) (auto simp: encode_nonempty)

lemma before_query_id: "CHR ''?'' \<notin> set p \<Longrightarrow> before_query p = p"
  by (simp add: before_query_def js_split_no_sep)

lemma set_js_join: "set (js_join sep ps) \<subseteq> set sep \<union> \<Union> (set ` set ps)"
  by (induction sep ps rule: js_join.induct) auto

lemma before_query_fill:
  assumes "CHR ''?'' \<notin> set t"
  shows "before_query (fill_template f t) = fill_template f t"
proof (rule before_query_id, rule notI)
  assume "CHR ''?'' \<in> set (fill_template f t)"
  then obtain seg where "seg \<in> set (segments t)" "CHR ''?'' \<in> set (if is_param seg then encodeURIComponent (f (param_name seg)) else seg)"
    using set_js_join[of "''/''"] by (fastforce simp: fill_template_def)
  then have "CHR ''?'' \<in> set seg" "seg \<in> set (segments t)" by (auto simp: encode_clean split: if_splits)
  moreover have "set (js_join [slash] (segments t)) = set t" by (simp add: segments_def js_join_split)
  moreover have "\<And>ps. seg \<in> set ps \<Longrightarrow> set seg \<subseteq> set (js_join [slash] ps)"
  proof -
    fix ps show "seg \<in> set ps \<Longrightarrow> set seg \<subseteq> set (js_join [slash] ps)"
      by (induction "[slash]" ps rule: js_join.induct) auto
  qed
  ultimately show False using assms by blast
qed

subsection \<open>The selected route\<close>

text \<open>A template applies to a request when its expression matches and it has an operation for the method.\<close>

definition applies :: "openapi \<Rightarrow> string \<Rightarrow> string \<Rightarrow> string \<Rightarrow> bool" where
  "applies doc m path t \<longleftrightarrow> match_segments (segments t) (segments path) \<noteq> None \<and> operation_at doc t m \<noteq> None"

lemma first_route_Some:
  "first_route doc m path ts = Inr (Some r) \<Longrightarrow> \<exists>pre t post groups. ts = pre @ t # post \<and> mr_contractPath r = t
     \<and> match_segments (segments t) (segments path) = Some groups \<and> operation_at doc t m = Some (mr_operation r)
     \<and> mr_pathParams r = map (\<lambda>(k, v). (k, decode_param v)) groups \<and> (\<forall>u\<in>set pre. \<not> applies doc m path u)"
proof (induction ts)
  case (Cons t ts)
  from Cons.prems have ok: "template_ok t" by (auto simp: templateToRegex_def split: if_splits)
  show ?case
  proof (cases "applies doc m path t")
    case True
    with Cons.prems ok obtain groups where "mr_contractPath r = t" "match_segments (segments t) (segments path) = Some groups"
      "operation_at doc t m = Some (mr_operation r)" "mr_pathParams r = map (\<lambda>(k, v). (k, decode_param v)) groups"
      by (auto simp: applies_def templateToRegex_def split: option.splits)
    then show ?thesis by (intro exI[of _ "[]"] exI[of _ t] exI[of _ ts] exI[of _ groups]) simp
  next
    case False
    with Cons.prems ok have "first_route doc m path ts = Inr (Some r)"
      by (auto simp: applies_def templateToRegex_def split: option.splits)
    from Cons.IH[OF this] obtain pre u post groups where "ts = pre @ u # post" "mr_contractPath r = u"
      "match_segments (segments u) (segments path) = Some groups" "operation_at doc u m = Some (mr_operation r)"
      "mr_pathParams r = map (\<lambda>(k, v). (k, decode_param v)) groups" "\<forall>w\<in>set pre. \<not> applies doc m path w" by blast
    with False show ?thesis by (intro exI[of _ "t # pre"] exI[of _ u] exI[of _ post] exI[of _ groups]) simp
  qed
qed simp

lemma first_route_None: "first_route doc m path ts = Inr None \<Longrightarrow> t \<in> set ts \<Longrightarrow> template_ok t \<and> \<not> applies doc m path t"
proof (induction ts)
  case (Cons u ts)
  then show ?case by (auto simp: templateToRegex_def applies_def split: if_splits option.splits)
qed simp

lemma set_sortedPaths: "set (sortedPaths doc) = fst ` set (oa_paths doc)"
  by (simp add: sortedPaths_def)

lemma sortedPaths_before:
  "sortedPaths doc = pre @ t # post \<Longrightarrow> u \<in> set post \<Longrightarrow> specificity t \<le> specificity u"
proof -
  assume "sortedPaths doc = pre @ t # post" "u \<in> set post"
  moreover have "sorted (map specificity (sortedPaths doc))" by (simp add: sortedPaths_def)
  ultimately show ?thesis by (simp add: sorted_append)
qed

lemma operation_at_path: "operation_at doc t m = Some oper \<Longrightarrow> t \<in> fst ` set (oa_paths doc)"
  by (auto simp: operation_at_def bind_eq_Some_conv dest: map_of_SomeD intro: rev_image_eqI)

lemma selected_route:
  assumes "matchRoute doc method path = Inr (Some r)"
  shows "applies doc (to_lower method) (before_query path) (mr_contractPath r)"
    and "operation_at doc (mr_contractPath r) (to_lower method) = Some (mr_operation r)"
    and "\<exists>groups. match_segments (segments (mr_contractPath r)) (segments (before_query path)) = Some groups
      \<and> mr_pathParams r = map (\<lambda>(k, v). (k, decode_param v)) groups"
    and "applies doc (to_lower method) (before_query path) u \<Longrightarrow> specificity (mr_contractPath r) \<le> specificity u"
proof -
  from first_route_Some[OF assms[unfolded matchRoute_def]] obtain pre t post groups
    where s: "sortedPaths doc = pre @ t # post" and t: "mr_contractPath r = t"
      and g: "match_segments (segments t) (segments (before_query path)) = Some groups"
      and o: "operation_at doc t (to_lower method) = Some (mr_operation r)"
      and p: "mr_pathParams r = map (\<lambda>(k, v). (k, decode_param v)) groups"
      and n: "\<forall>u\<in>set pre. \<not> applies doc (to_lower method) (before_query path) u" by blast
  show "applies doc (to_lower method) (before_query path) (mr_contractPath r)" using g o t by (simp add: applies_def)
  show "operation_at doc (mr_contractPath r) (to_lower method) = Some (mr_operation r)" using o t by simp
  show "\<exists>groups. match_segments (segments (mr_contractPath r)) (segments (before_query path)) = Some groups
      \<and> mr_pathParams r = map (\<lambda>(k, v). (k, decode_param v)) groups" using g p t by simp
  show "specificity (mr_contractPath r) \<le> specificity u" if a: "applies doc (to_lower method) (before_query path) u"
  proof -
    from a have "u \<in> set (sortedPaths doc)" using operation_at_path by (auto simp: applies_def set_sortedPaths)
    with s n a have "u = t \<or> u \<in> set post" by auto
    with sortedPaths_before[OF s] t show ?thesis by auto
  qed
qed

lemma first_route_no_error:
  "list_all template_ok ts \<Longrightarrow> \<exists>r. first_route doc m path ts = Inr r"
  by (induction ts) (auto simp: templateToRegex_def split: option.split)

lemma filled_route:
  assumes oper: "operation_at doc t (to_lower method) = Some oper" and q: "CHR ''?'' \<notin> set t"
    and f: "\<And>n. n \<in> set (param_names t) \<Longrightarrow> f n \<noteq> []"
    and ok: "list_all template_ok (map fst (oa_paths doc))"
    and least: "\<And>u. applies doc (to_lower method) (fill_template f t) u \<Longrightarrow> specificity t \<le> specificity u"
  shows "matchRoute doc method (fill_template f t)
    = Inr (Some \<lparr>mr_contractPath = t, mr_pathParams = map (\<lambda>n. (n, f n)) (param_names t), mr_operation = oper\<rparr>)"
proof -
  have b: "before_query (fill_template f t) = fill_template f t" by (rule before_query_fill[OF q])
  have m: "match_segments (segments t) (segments (fill_template f t)) = Some (map (\<lambda>n. (n, encodeURIComponent (f n))) (param_names t))"
    unfolding segments_fill param_names_def by (rule match_filled) (use f in \<open>auto simp: param_names_def\<close>)
  have a: "applies doc (to_lower method) (fill_template f t) t" using m oper by (simp add: applies_def)
  have "list_all template_ok (sortedPaths doc)" using ok by (simp add: list_all_iff set_sortedPaths)
  then obtain x where x: "matchRoute doc method (fill_template f t) = Inr x"
    using first_route_no_error unfolding matchRoute_def b by blast
  have "t \<in> set (sortedPaths doc)" using operation_at_path[OF oper] by (simp add: set_sortedPaths)
  with x a obtain r where r: "matchRoute doc method (fill_template f t) = Inr (Some r)"
    using first_route_None[of doc "to_lower method" "fill_template f t" "sortedPaths doc" t] by (cases x) (auto simp: matchRoute_def b)
  have "specificity (mr_contractPath r) \<le> specificity t" using selected_route(4)[OF r] a b by simp
  moreover have "specificity t \<le> specificity (mr_contractPath r)" using least selected_route(1)[OF r] b by simp
  ultimately have "specificity (mr_contractPath r) = specificity t" by (rule antisym)
  then have "mr_contractPath r = t" by (simp add: specificity_def)
  with selected_route(2,3)[OF r] m oper b show ?thesis
    unfolding r by (cases r) (auto simp: decode_param_def)
qed

end
