(* ===== verification/Contracts.thy ===== *)
theory Contracts
  imports RouterLaws
begin

text \<open>
  Validation against the contract (\<open>contract/validator.ts\<close>, \<open>contract/requestValidator.ts\<close>,
  \<open>contract/hateoas.ts\<close>, \<open>http/entityTag.ts\<close>, the schema copies of \<open>contract/loader.ts\<close>).  The schema
  validator is the Ajv package, a parameter: for a schema and a value it gives the errors it finds, if any,
  and the value with the schema's defaults filled in, or fails to compile the schema.  Its caches are keyed
  by the text of a schema and do not change a result.
\<close>

type_synonym ajv = "json_object \<Rightarrow> json \<Rightarrow> exn + (json option \<times> json)"

definition sim_error :: "string \<Rightarrow> nat \<Rightarrow> string \<Rightarrow> string \<Rightarrow> json_object option \<Rightarrow> exn" where
  "sim_error name status err_code message details = CallbackError \<lparr>fg_string = name @ '': '' @ message,
     fg_message = Some message, fg_status = Some status, fg_code = Some err_code, fg_details = details,
     fg_body = None, fg_headers = None\<rparr>"

definition ContractViolationError :: "string \<Rightarrow> json_object option \<Rightarrow> exn" where
  "ContractViolationError = sim_error ''ContractViolationError'' 400 ''CONTRACT_VIOLATION''"

definition InternalExecutionError :: "string \<Rightarrow> json_object option \<Rightarrow> exn" where
  "InternalExecutionError = sim_error ''InternalExecutionError'' 500 ''INTERNAL_EXECUTION_ERROR''"

definition routed :: "string + 'a \<Rightarrow> exn + 'a" where
  "routed r = (case r of Inl t \<Rightarrow> Inl (CallbackError (named_error ''SyntaxError'' t None)) | Inr a \<Rightarrow> Inr a)"

text \<open>\<open>typeof v === 'string'\<close>, \<open>Array.isArray(v)\<close> and \<open>isRecord(v)\<close>, with what they find.\<close>

definition str_of :: "json \<Rightarrow> string option" where
  "str_of v = (case v of JStr s \<Rightarrow> Some s | _ \<Rightarrow> None)"

definition array_of :: "json \<Rightarrow> json list option" where
  "array_of v = (case v of JArr xs \<Rightarrow> Some xs | _ \<Rightarrow> None)"

definition asRecord :: "json \<Rightarrow> json_object option" where
  "asRecord v = (case v of JObj m \<Rightarrow> Some m | _ \<Rightarrow> None)"

lemma kind_simps [simp]:
  "str_of v = Some s \<longleftrightarrow> v = JStr s" "array_of v = Some xs \<longleftrightarrow> v = JArr xs" "asRecord v = Some m \<longleftrightarrow> v = JObj m"
  "str_of (JStr s) = Some s" "array_of (JArr xs) = Some xs" "asRecord (JObj m) = Some m"
  by (auto simp: str_of_def array_of_def asRecord_def split: json.splits)

subsection \<open>Entity tags\<close>

definition dquote :: char where "dquote = CHR 0x22"

function strip_quotes :: "string \<Rightarrow> string" where
  "strip_quotes s = (if 2 \<le> length s \<and> hd s = dquote \<and> last s = dquote then strip_quotes (js_trim (butlast (tl s))) else s)"
  by pat_completeness auto

lemma js_trim_length: "length (js_trim s) \<le> length s"
proof -
  have "length (js_trim s) \<le> length (dropWhile is_ws s)"
    using length_dropWhile_le[of is_ws "rev (dropWhile is_ws s)"] by (simp add: js_trim_def)
  also have "\<dots> \<le> length s" by (rule length_dropWhile_le)
  finally show ?thesis .
qed

termination strip_quotes
proof (relation "measure length", goal_cases)
  case (2 s)
  then have "length (butlast (tl s)) < length s" by (cases s) auto
  then show ?case using js_trim_length[of "butlast (tl s)"] by simp
qed simp

declare strip_quotes.simps [simp del]

definition normalizeEntityTag :: "string \<Rightarrow> string" where
  "normalizeEntityTag value = (let t = js_trim value
     in strip_quotes (if starts_with ''W/'' t then js_trim (drop 2 t) else t))"

text \<open>\<open>NaN\<close> for a tag that is no version.\<close>

definition parseEntityTagVersion :: "string option \<Rightarrow> jsnum option" where
  "parseEntityTagVersion value = map_option (\<lambda>v. let n = normalizeEntityTag v
     in if n = [] \<or> \<not> list_all is_digit n then NaN
        else if digits_val n < 2 ^ 53 then Fin (of_nat (digits_val n)) else NaN) value"

subsection \<open>Schemas\<close>

definition MAX_OPERATION_SCHEMA_DEPTH :: nat where "MAX_OPERATION_SCHEMA_DEPTH = 8"

definition normalizeNullable :: "json_object \<Rightarrow> json_object" where
  "normalizeNullable node =
     (if obj_get node ''nullable'' \<noteq> JBool True then node
      else let rest = obj_delete ''nullable'' node;
               rest = (case obj_get rest ''enum'' of
                   JArr vs \<Rightarrow> if JNull \<in> set vs then rest else obj_set ''enum'' (JArr (vs @ [JNull])) rest
                 | _ \<Rightarrow> rest)
           in case obj_get rest ''type'' of
                JStr t \<Rightarrow> if t \<noteq> ''null'' then obj_set ''type'' (JArr [JStr t, JStr ''null'']) rest
                          else [(''anyOf'', JArr [JObj rest, JObj [(''type'', JStr ''null'')]])]
              | JArr ts \<Rightarrow> if JStr ''null'' \<in> set ts then rest else obj_set ''type'' (JArr (ts @ [JStr ''null''])) rest
              | _ \<Rightarrow> [(''anyOf'', JArr [JObj rest, JObj [(''type'', JStr ''null'')]])])"

text \<open>A schema is a tree here; the code's check for cycles never fires on a tree.\<close>

fun decycleSchema :: "nat \<Rightarrow> json \<Rightarrow> json"
  and decycle_list :: "nat \<Rightarrow> json list \<Rightarrow> json list"
  and decycle_props :: "nat \<Rightarrow> json_object \<Rightarrow> json_object" where
  "decycleSchema depth (JArr xs) = JArr (decycle_list depth xs)"
| "decycleSchema depth (JObj m) =
     (if MAX_OPERATION_SCHEMA_DEPTH \<le> depth then JObj [] else JObj (normalizeNullable (decycle_props (depth + 1) m)))"
| "decycleSchema depth v = v"
| "decycle_list depth [] = []"
| "decycle_list depth (x # xs) = decycleSchema depth x # decycle_list depth xs"
| "decycle_props depth [] = []"
| "decycle_props depth (p # ps) = (fst p, decycleSchema depth (snd p)) # decycle_props depth ps"

definition asSchema :: "json \<Rightarrow> json_object option" where
  "asSchema v = (case v of JObj m \<Rightarrow> if is_json_object v then Some m else None | _ \<Rightarrow> None)"

definition getValidator :: "ajv \<Rightarrow> json_object \<Rightarrow> json \<Rightarrow> exn + (json option \<times> json)" where
  "getValidator ajv schema = ajv (case asSchema (decycleSchema 0 (JObj schema)) of Some m \<Rightarrow> m | None \<Rightarrow> [])"

definition strict_constraint :: "string \<times> json \<Rightarrow> bool" where
  "strict_constraint p \<longleftrightarrow> (fst p = ''additionalProperties'' \<or> fst p = ''unevaluatedProperties'') \<and> snd p = JBool False"

fun relax :: "json \<Rightarrow> json" and relax_list :: "json list \<Rightarrow> json list" and relax_props :: "json_object \<Rightarrow> json_object" where
  "relax (JArr xs) = JArr (relax_list xs)"
| "relax (JObj m) = (if is_json_object (JObj m) then JObj (relax_props m) else JObj m)"
| "relax v = v"
| "relax_list [] = []"
| "relax_list (x # xs) = relax x # relax_list xs"
| "relax_props [] = []"
| "relax_props (p # ps) = (if strict_constraint p then relax_props ps else (fst p, relax (snd p)) # relax_props ps)"

definition relaxAdditionalProperties :: "json_object \<Rightarrow> json_object" where
  "relaxAdditionalProperties schema = (case asSchema (relax (JObj schema)) of Some m \<Rightarrow> m | None \<Rightarrow> [])"

subsection \<open>Form values\<close>

text \<open>\<open>^-?\d+(\.\d+)?$\<close>.\<close>

definition decimal_text :: "string \<Rightarrow> bool" where
  "decimal_text s = (let u = (if starts_with ''-'' s then tl s else s); ds = takeWhile is_digit u; r = dropWhile is_digit u
     in ds \<noteq> [] \<and> (r = [] \<or> (hd r = CHR ''.'' \<and> tl r \<noteq> [] \<and> list_all is_digit (tl r))))"

definition matchesSchemaType :: "json \<Rightarrow> json_object \<Rightarrow> bool" where
  "matchesSchemaType value schema = (case obj_get schema ''type'' of
      JStr t \<Rightarrow>
        if t = ''object'' then is_json_object value
        else if t = ''array'' then is_arr value
        else if t = ''boolean'' then (case value of JBool _ \<Rightarrow> True | JStr s \<Rightarrow> s = ''true'' \<or> s = ''false'' | _ \<Rightarrow> False)
        else if t = ''integer'' \<or> t = ''number'' then (case value of JNum _ \<Rightarrow> True | _ \<Rightarrow> decimal_text (js_String value))
        else if t = ''string'' then (case value of JStr _ \<Rightarrow> True | _ \<Rightarrow> False)
        else True
    | _ \<Rightarrow> True)"

definition selectSchema :: "json \<Rightarrow> json_object \<Rightarrow> json_object" where
  "selectSchema value schema = (case find is_arr [obj_get schema ''anyOf'', obj_get schema ''oneOf''] of
      Some (JArr branches) \<Rightarrow> (case find (matchesSchemaType value) (List.map_filter asSchema branches) of
          Some b \<Rightarrow> b | None \<Rightarrow> schema)
    | _ \<Rightarrow> schema)"

definition schemaProperties :: "json_object \<Rightarrow> (string \<times> json_object) list" where
  "schemaProperties schema = (case obj_get schema ''properties'' of
      JObj m \<Rightarrow> List.map_filter (\<lambda>(k, v). map_option (Pair k) (asSchema v)) m
    | _ \<Rightarrow> [])"

text \<open>A string as the boolean or the number its schema declares.\<close>

definition coerce_primitive :: "string \<Rightarrow> json \<Rightarrow> json" where
  "coerce_primitive s type =
     (if type = JStr ''boolean'' \<and> s = ''true'' then JBool True
      else if type = JStr ''boolean'' \<and> s = ''false'' then JBool False
      else if type = JStr ''integer'' \<or> type = JStr ''number'' then
        (case js_Number s of Fin x \<Rightarrow> if type \<noteq> JStr ''integer'' \<or> of_int \<lfloor>x\<rfloor> = x then JNum x else JStr s | _ \<Rightarrow> JStr s)
      else JStr s)"

text \<open>\<open>coerceFormValue\<close>, with what its descent into a container gives.\<close>

definition coerceFormValue :: "json \<Rightarrow> json_object \<Rightarrow> json \<Rightarrow> json" where
  "coerceFormValue v schema descended =
     (case v of JStr s \<Rightarrow> coerce_primitive s (obj_get (selectSchema v schema) ''type'') | _ \<Rightarrow> descended)"

fun coerceFormPayload :: "json \<Rightarrow> json_object \<Rightarrow> json"
  and coerce_items :: "json list \<Rightarrow> json_object \<Rightarrow> json list"
  and coerce_fields :: "json_object \<Rightarrow> (string \<times> json_object) list \<Rightarrow> json_object" where
  "coerceFormPayload (JArr xs) schema = (case asSchema (obj_get schema ''items'') of
      Some items \<Rightarrow> JArr (coerce_items xs items) | None \<Rightarrow> JArr xs)"
| "coerceFormPayload (JObj m) schema = (if is_json_object (JObj m) then JObj (coerce_fields m (schemaProperties schema)) else JObj m)"
| "coerceFormPayload v schema = v"
| "coerce_items [] items = []"
| "coerce_items (x # xs) items = coerceFormPayload x items # coerce_items xs items"
| "coerce_fields [] properties = []"
| "coerce_fields (p # ps) properties =
     (fst p, case map_of properties (fst p) of None \<Rightarrow> snd p
       | Some field \<Rightarrow> coerceFormValue (snd p) field (coerceFormPayload (snd p) (selectSchema (snd p) field))) # coerce_fields ps properties"

subsection \<open>Requests\<close>

datatype validation_mode = FullMode | BatchMode | BatchItemMode

definition coerceParamValue :: "string \<Rightarrow> json_object \<Rightarrow> json" where
  "coerceParamValue value schema =
     (if obj_get schema ''type'' = JStr ''number'' \<or> obj_get schema ''type'' = JStr ''integer''
      then (case js_Number value of Fin x \<Rightarrow> JNum x | _ \<Rightarrow> JStr value) else JStr value)"

definition place_text :: "parameter_place \<Rightarrow> string" where
  "place_text p = (case p of InPath \<Rightarrow> ''path'' | InQuery \<Rightarrow> ''query'' | InHeader \<Rightarrow> ''header'')"

definition place_title :: "parameter_place \<Rightarrow> string" where
  "place_title p = (case p of InPath \<Rightarrow> ''Path'' | InQuery \<Rightarrow> ''Query'' | InHeader \<Rightarrow> ''Header'')"

definition first_value :: "qval \<Rightarrow> string option" where
  "first_value v = (case v of QOne s \<Rightarrow> Some s | QMany [] \<Rightarrow> None | QMany (s # _) \<Rightarrow> Some s)"

definition errors_details :: "json \<Rightarrow> json_object option" where
  "errors_details errs = Some [(''errors'', errs)]"

definition validateParameter :: "ajv \<Rightarrow> parameter \<Rightarrow> qval option \<Rightarrow> exn + unit" where
  "validateParameter ajv p raw = (case raw of
      None \<Rightarrow> if pm_required p
        then Inl (ContractViolationError (''Missing required '' @ place_text (pm_in p) @ '' parameter: '' @ pm_name p) None)
        else Inr ()
    | Some rv \<Rightarrow> (case pm_schema p of
        None \<Rightarrow> Inr ()
      | Some schema \<Rightarrow>
          let value = first_value rv;
              normalized = (if pm_in p = InHeader \<and> to_lower (pm_name p) = ''if-match''
                then map_option normalizeEntityTag value else value);
              coerced = coerceParamValue (case normalized of Some s \<Rightarrow> s | None \<Rightarrow> []) schema
          in rbind (getValidator ajv schema coerced) (\<lambda>(errs, _). case errs of
               None \<Rightarrow> Inr ()
             | Some es \<Rightarrow> Inl (ContractViolationError
                 (place_title (pm_in p) @ '' parameter '' @ tick (pm_name p) @ '' failed validation'') (errors_details es)))))"

definition header_named :: "headers \<Rightarrow> string \<Rightarrow> string option" where
  "header_named hs name = map_option snd (find (\<lambda>(n, _). to_lower n = to_lower name) hs)"

definition raw_parameter :: "query \<Rightarrow> (string \<times> string) list \<Rightarrow> headers \<Rightarrow> parameter \<Rightarrow> qval option" where
  "raw_parameter q params hs p = (case pm_in p of
      InPath \<Rightarrow> map_option QOne (map_of params (pm_name p))
    | InQuery \<Rightarrow> map_of q (pm_name p)
    | InHeader \<Rightarrow> map_option QOne (header_named hs (pm_name p)))"

definition validateParameters :: "ajv \<Rightarrow> operation \<Rightarrow> query \<Rightarrow> (string \<times> string) list \<Rightarrow> headers \<Rightarrow> exn + unit" where
  "validateParameters ajv oper q params hs =
     rfold (\<lambda>p _. validateParameter ajv p (raw_parameter q params hs p)) (op_parameters oper) ()"

definition isFormEncoded :: "headers \<Rightarrow> bool" where
  "isFormEncoded hs = (case header_named hs ''content-type'' of None \<Rightarrow> False | Some v \<Rightarrow>
     starts_with ''application/x-www-form-urlencoded'' (to_lower v) \<or> starts_with ''multipart/form-data'' (to_lower v))"

definition is_array_schema :: "json_object \<Rightarrow> bool" where
  "is_array_schema schema \<longleftrightarrow> obj_get schema ''type'' = JStr ''array''"

text \<open>The schema one expanded command of a batch is checked against.\<close>

definition item_schema :: "validation_mode \<Rightarrow> json_object \<Rightarrow> json_object option" where
  "item_schema mode schema = (if mode = BatchItemMode \<and> is_array_schema schema then asSchema (obj_get schema ''items'') else Some schema)"

text \<open>The payload comes back as coercion and the schema's defaults leave it.\<close>

definition validateBody :: "ajv \<Rightarrow> operation \<Rightarrow> json \<Rightarrow> validation_mode \<Rightarrow> string \<Rightarrow> string \<Rightarrow> bool \<Rightarrow> exn + json" where
  "validateBody ajv oper payload mode method path formEncoded = (case op_requestBody oper of
      None \<Rightarrow> Inr payload
    | Some schema \<Rightarrow>
        if mode = BatchMode \<and> \<not> is_array_schema schema then Inr payload
        else let p = (if formEncoded then coerceFormPayload payload schema else payload)
          in case item_schema mode schema of
               None \<Rightarrow> Inr p
             | Some item \<Rightarrow> rbind (getValidator ajv item p) (\<lambda>(errs, q). case errs of
                 None \<Rightarrow> Inr q
               | Some es \<Rightarrow> Inl (ContractViolationError
                   (''Request body failed contract validation for '' @ method @ '' '' @ path) (errors_details es))))"

definition validateRequestWithMode ::
    "ajv \<Rightarrow> openapi \<Rightarrow> string \<Rightarrow> string \<Rightarrow> json \<Rightarrow> query \<Rightarrow> (string \<times> string) list \<Rightarrow> headers \<Rightarrow> validation_mode \<Rightarrow> exn + json" where
  "validateRequestWithMode ajv doc method path payload q params hs mode =
     rbind (routed (matchRoute doc method path)) (\<lambda>matched. case matched of
         None \<Rightarrow> Inl (ContractViolationError (''No route matches '' @ method @ '' '' @ path) None)
       | Some r \<Rightarrow> rbind (validateParameters ajv (mr_operation r) q params hs) (\<lambda>_.
           validateBody ajv (mr_operation r) payload mode method path (isFormEncoded hs)))"

subsection \<open>Responses and entities\<close>

definition validateResponseWithMode ::
    "ajv \<Rightarrow> openapi \<Rightarrow> string \<Rightarrow> string \<Rightarrow> nat \<Rightarrow> json \<Rightarrow> bool \<Rightarrow> validation_mode \<Rightarrow> exn + unit" where
  "validateResponseWithMode ajv doc method path status body allowAdditional mode =
     rbind (routed (matchRoute doc method path)) (\<lambda>matched. case matched of
         None \<Rightarrow> Inl (InternalExecutionError (''Response failed contract validation: no route matches '' @ method @ '' '' @ path) None)
       | Some r \<Rightarrow> (case response_schema (mr_operation r) status of
           None \<Rightarrow> Inr ()
         | Some schema \<Rightarrow>
             if mode = BatchMode \<and> \<not> is_array_schema schema then Inr ()
             else (case item_schema mode schema of
                 None \<Rightarrow> Inr ()
               | Some item \<Rightarrow> rbind (getValidator ajv (if allowAdditional then relaxAdditionalProperties item else item) body)
                   (\<lambda>(errs, _). case errs of
                      None \<Rightarrow> Inr ()
                    | Some es \<Rightarrow> Inl (InternalExecutionError ''Response failed contract validation'' (errors_details es))))))"

definition member :: "json \<Rightarrow> string \<Rightarrow> json" where
  "member v k = (case v of JObj m \<Rightarrow> obj_get m k | _ \<Rightarrow> JUndef)"

text \<open>A schema of the components, by its exact name or else by a name that differs only in case, the last such.\<close>

definition component_schema :: "json_object \<Rightarrow> string \<Rightarrow> json" where
  "component_schema schemas name = (case obj_get schemas name of
      JUndef \<Rightarrow> (case find (\<lambda>(k, v). to_lower k = to_lower name \<and> is_obj v) (rev schemas) of Some (_, v) \<Rightarrow> v | None \<Rightarrow> JUndef)
    | JNull \<Rightarrow> (case find (\<lambda>(k, v). to_lower k = to_lower name \<and> is_obj v) (rev schemas) of Some (_, v) \<Rightarrow> v | None \<Rightarrow> JUndef)
    | v \<Rightarrow> v)"

definition entity_error :: "string \<Rightarrow> json \<Rightarrow> exn" where
  "entity_error boundary errs = InternalExecutionError ''Entity violates contract'' (Some [(''boundary'', JStr boundary), (''errors'', errs)])"

definition no_entity_schema :: "string \<Rightarrow> json" where
  "no_entity_schema boundary = JStr (''No schema found for boundary '' @ tick boundary)"

definition validateEntity :: "ajv \<Rightarrow> openapi \<Rightarrow> string \<Rightarrow> json_object \<Rightarrow> exn + unit" where
  "validateEntity ajv doc boundary entity = (case member (oa_raw doc) ''components'' of
      JObj components \<Rightarrow> (case obj_get components ''schemas'' of
          JObj schemas \<Rightarrow> (case component_schema schemas boundary of
              JObj schema \<Rightarrow> rbind (getValidator ajv schema (JObj (obj_delete ''_deletedAt'' (obj_delete ''_deleted'' entity))))
                (\<lambda>(errs, _). case errs of None \<Rightarrow> Inr () | Some es \<Rightarrow> Inl (entity_error boundary es))
            | _ \<Rightarrow> Inl (entity_error boundary (no_entity_schema boundary)))
        | _ \<Rightarrow> Inl (entity_error boundary (JStr ''No components.schemas section in OpenAPI document'')))
    | _ \<Rightarrow> Inl (entity_error boundary (JStr ''No components section in OpenAPI document'')))"

definition schema_target :: "json \<Rightarrow> string list \<Rightarrow> json" where
  "schema_target raw path = foldl member raw path"

definition validateSchema :: "ajv \<Rightarrow> openapi \<Rightarrow> string \<Rightarrow> json_object \<Rightarrow> exn + unit" where
  "validateSchema ajv doc ref payload =
     rbind (patched (parsePointer (if starts_with ''#/'' ref then tl ref else ''/'' @ ref))) (\<lambda>path.
       case schema_target (oa_raw doc) path of
         JObj schema \<Rightarrow> rbind (getValidator ajv schema (JObj payload)) (\<lambda>(errs, _). case errs of
             None \<Rightarrow> Inr ()
           | Some es \<Rightarrow> Inl (InternalExecutionError ''Event payload failed schema validation''
               (Some [(''schemaRef'', JStr ref), (''code'', JStr ''SCHEMA_TYPE_MISMATCH''), (''errors'', es)])))
       | _ \<Rightarrow> Inl (InternalExecutionError ''Event payload schema reference was not found''
           (Some [(''schemaRef'', JStr ref), (''code'', JStr ''SCHEMA_TYPE_MISMATCH'')])))"

subsection \<open>Links\<close>

definition allows_object :: "json \<Rightarrow> bool" where
  "allows_object type = (case type of JStr t \<Rightarrow> t = ''object'' | JArr ts \<Rightarrow> JStr ''object'' \<in> set ts | _ \<Rightarrow> True)"

definition declares_links :: "json \<Rightarrow> bool" where
  "declares_links properties = (case properties of JObj m \<Rightarrow> is_json_object properties \<and> map_of m ''_links'' \<noteq> None | _ \<Rightarrow> False)"

definition additional_allows :: "json \<Rightarrow> bool" where
  "additional_allows additional = (case additional of
      JBool b \<Rightarrow> b
    | JObj m \<Rightarrow> if is_json_object additional
        then (case obj_get m ''type'' of JUndef \<Rightarrow> True | JStr t \<Rightarrow> t = ''object'' | JArr ts \<Rightarrow> JStr ''object'' \<in> set ts | _ \<Rightarrow> False)
        else True
    | _ \<Rightarrow> True)"

lemma elem_size: "x \<in> set xs \<Longrightarrow> size x < size (JArr xs)"
  by (induction xs) auto

lemma prop_size: "obj_get m k = v \<Longrightarrow> v \<noteq> JUndef \<Longrightarrow> size v < size (JObj m)"
  by (induction m) (auto simp: obj_get_def split: if_splits)

lemma branch_size: "obj_get m k = JArr bs \<Longrightarrow> JObj b \<in> set bs \<Longrightarrow> size (JObj b) < size (JObj m)"
  using elem_size[of "JObj b" bs] prop_size[of m k "JArr bs"] by simp

function schemaAcceptsHateoasProperty :: "json_object \<Rightarrow> bool" where
  "schemaAcceptsHateoasProperty schema =
     (case array_of (obj_get schema ''allOf'') of
        Some bs \<Rightarrow> (\<forall>b\<in>set bs. case asRecord b of Some m \<Rightarrow> is_json_object b \<and> schemaAcceptsHateoasProperty m | None \<Rightarrow> False)
      | None \<Rightarrow> (case array_of (obj_get schema ''anyOf'') of
          Some bs \<Rightarrow> (\<exists>b\<in>set bs. case asRecord b of Some m \<Rightarrow> is_json_object b \<and> schemaAcceptsHateoasProperty m | None \<Rightarrow> False)
        | None \<Rightarrow> (case array_of (obj_get schema ''oneOf'') of
            Some bs \<Rightarrow> (\<exists>b\<in>set bs. case asRecord b of Some m \<Rightarrow> is_json_object b \<and> schemaAcceptsHateoasProperty m | None \<Rightarrow> False)
          | None \<Rightarrow> allows_object (obj_get schema ''type'')
              \<and> (declares_links (obj_get schema ''properties'') \<or> additional_allows (obj_get schema ''additionalProperties'')))))"
  by pat_completeness auto
termination schemaAcceptsHateoasProperty
  by (relation "measure (\<lambda>m. size (JObj m))") (simp_all add: branch_size del: json.size)

declare schemaAcceptsHateoasProperty.simps [simp del]

definition arrayItemSchema :: "json_object \<Rightarrow> json_object option" where
  "arrayItemSchema schema = asSchema (obj_get schema ''items'')"

definition items_support :: "json_object \<Rightarrow> json list \<Rightarrow> bool" where
  "items_support schema body = (case arrayItemSchema schema of
      None \<Rightarrow> True
    | Some item \<Rightarrow> list_all (\<lambda>v. \<not> is_json_object v \<or> schemaAcceptsHateoasProperty item) body)"

definition responseSupportsHateoas :: "operation option \<Rightarrow> nat \<Rightarrow> json \<Rightarrow> bool" where
  "responseSupportsHateoas oper status body = (case Option.bind oper (\<lambda>x. response_schema x status) of
      None \<Rightarrow> True
    | Some schema \<Rightarrow> (case body of
        JArr xs \<Rightarrow> items_support schema xs
      | _ \<Rightarrow> (case (is_json_object body, member body ''items'') of
            (True, JArr xs) \<Rightarrow> (case asSchema (member (if is_json_object (obj_get schema ''properties'') then obj_get schema ''properties'' else JUndef) ''items'') of
                Some itemsProperty \<Rightarrow> items_support itemsProperty xs
              | None \<Rightarrow> schemaAcceptsHateoasProperty schema)
          | _ \<Rightarrow> schemaAcceptsHateoasProperty schema)))"

end
