(* ===== verification/ErrorBody.thy ===== *)
theory ErrorBody
  imports Contracts
begin

text \<open>
  Error bodies shaped by the contract (\<open>contract/errorBody.ts\<close>): local references and combinators of the
  response schema are resolved, and the required fields are filled from the error and the constraints.
  The document is a tree, so a reference is known by its path.  The clock, date parsing and printing and
  regular expressions are parameters.
\<close>

subsection \<open>Resolving a schema\<close>

definition ref_path :: "string \<Rightarrow> exn + string list option" where
  "ref_path ref = (if \<not> starts_with ''#/'' ref then Inr None else rbind (patched (parsePointer (tl ref))) (\<lambda>p. Inr (Some p)))"

definition add_required :: "json list \<Rightarrow> string list \<Rightarrow> string list" where
  "add_required items req = foldl (\<lambda>acc v. case v of JStr s \<Rightarrow> if s \<in> set acc then acc else acc @ [s] | _ \<Rightarrow> acc) req items"

text \<open>The merged keywords, the properties and the required names so far.\<close>

definition merge_keyword :: "json_object \<times> json_object \<times> string list \<Rightarrow> string \<times> json \<Rightarrow> json_object \<times> json_object \<times> string list" where
  "merge_keyword acc p = (case acc of (merged, properties, req) \<Rightarrow>
     if fst p = ''properties'' \<and> is_obj (snd p) then (merged, obj_spread properties (asObject (snd p)), req)
     else (case (fst p = ''required'', snd p) of
         (True, JArr xs) \<Rightarrow> (merged, properties, add_required xs req)
       | _ \<Rightarrow> (obj_set (fst p) (snd p) merged, properties, req)))"

text \<open>\<open>Object.entries\<close>; a list of properties has each key once, otherwise its first binding is the one that counts.\<close>

definition own_entries :: "json_object \<Rightarrow> (string \<times> json) list" where
  "own_entries m = filter (\<lambda>p. map_of m (fst p) = Some (snd p)) m"

definition mergeSchemaParts :: "json_object list \<Rightarrow> json_object" where
  "mergeSchemaParts parts = (case foldl merge_keyword ([], [], []) (concat (map own_entries parts)) of (merged, properties, req) \<Rightarrow>
     let merged = (if properties \<noteq> [] then obj_set ''properties'' (JObj properties) merged else merged)
     in if req \<noteq> [] then obj_set ''required'' (JArr (map JStr req)) merged else merged)"

definition first_branch :: "json_object \<Rightarrow> (string \<times> json) option" where
  "first_branch m = (case obj_get m ''oneOf'' of JArr (b # _) \<Rightarrow> Some (''oneOf'', b)
     | _ \<Rightarrow> (case obj_get m ''anyOf'' of JArr (b # _) \<Rightarrow> Some (''anyOf'', b) | _ \<Rightarrow> None))"

lemma target_undef: "schema_target JUndef p = JUndef"
  unfolding schema_target_def by (induction p) (simp_all add: member_def)

lemma target_simps: "schema_target v [] = v" "schema_target v (k # p) = schema_target (member v k) p"
  by (simp_all add: schema_target_def)

lemma leaf_targets: "\<not> is_obj v \<Longrightarrow> finite {p. schema_target v p \<noteq> JUndef}"
proof -
  assume v: "\<not> is_obj v"
  have "p = []" if "schema_target v p \<noteq> JUndef" for p
    using v that by (cases p; cases v) (simp_all add: target_simps member_def target_undef)
  then show ?thesis by (auto intro: finite_subset[of _ "{[]}"])
qed

lemma finite_targets: "finite {p. schema_target v p \<noteq> JUndef}"
proof (induction v)
  case (JObj m)
  have "{p. schema_target (JObj m) p \<noteq> JUndef}
    \<subseteq> insert [] (\<Union>x\<in>set m. (#) (fst x) ` {p. schema_target (snd x) p \<noteq> JUndef})" (is "?L \<subseteq> ?R")
  proof (rule subsetI)
    fix p assume "p \<in> ?L"
    then show "p \<in> ?R"
    proof (cases p)
      case (Cons k q)
      with \<open>p \<in> ?L\<close> obtain w where "map_of m k = Some w" "schema_target w q \<noteq> JUndef"
        by (cases "map_of m k") (auto simp: target_simps member_def obj_get_def target_undef)
      then have "(k, w) \<in> set m" "p \<in> (#) (fst (k, w)) ` {p. schema_target (snd (k, w)) p \<noteq> JUndef}"
        using Cons by (auto dest: map_of_SomeD)
      then show ?thesis by blast
    qed simp
  qed
  moreover have "finite ?R" using JObj by (auto intro!: finite_imageI)
  ultimately show ?case by (rule finite_subset)
qed (simp_all add: leaf_targets)

definition open_targets :: "json \<Rightarrow> string list list \<Rightarrow> nat" where
  "open_targets raw refs = card ({p. schema_target raw p \<noteq> JUndef} - set refs)"

lemma open_targets_less: "schema_target raw p \<noteq> JUndef \<Longrightarrow> p \<notin> set refs \<Longrightarrow> open_targets raw (p # refs) < open_targets raw refs"
  unfolding open_targets_def by (rule psubset_card_mono) (auto simp: finite_targets)

lemma delete_size: "obj_get m k \<noteq> JUndef \<Longrightarrow> size (JObj (obj_delete k m)) < size (JObj m)"
proof -
  have le: "size (JObj (obj_delete k m)) \<le> size (JObj m)" for m :: json_object
    by (induction m) (auto simp: obj_delete_def)
  show "obj_get m k \<noteq> JUndef \<Longrightarrow> ?thesis"
  proof (induction m)
    case (Cons p m)
    then show ?case using le[of m]
      by (cases "fst p = k") (auto simp: obj_get_def obj_delete_def less_Suc_eq_le intro: le_SucI trans_le_add2)
  qed (simp add: obj_get_def)
qed

lemma first_branch_props: "first_branch m = Some (k, b) \<Longrightarrow> \<exists>bs. obj_get m k = JArr (b # bs)"
  by (auto simp: first_branch_def split: json.splits list.splits)

function resolveForFill :: "json \<Rightarrow> string list list \<Rightarrow> json \<Rightarrow> exn + json_object" where
  "resolveForFill raw refs (JObj m) =
     (case str_of (obj_get m ''$ref'') of
        Some ref \<Rightarrow> rbind (ref_path ref) (\<lambda>path. case path of
            None \<Rightarrow> Inr []
          | Some p \<Rightarrow>
              if schema_target raw p = JUndef \<or> p \<in> set refs then Inr []
              else rbind (resolveForFill raw (p # refs) (schema_target raw p)) (\<lambda>resolved.
                let siblings = obj_delete ''$ref'' m
                in if siblings = [] then Inr resolved
                   else rbind (resolveForFill raw refs (JObj siblings)) (\<lambda>rest. Inr (mergeSchemaParts [resolved, rest]))))
      | None \<Rightarrow> (case array_of (obj_get m ''allOf'') of
          Some branches \<Rightarrow> rbind (r_map (resolveForFill raw refs) branches) (\<lambda>parts.
            let siblings = obj_delete ''allOf'' m
            in if siblings = [] then Inr (mergeSchemaParts parts)
               else rbind (resolveForFill raw refs (JObj siblings)) (\<lambda>rest. Inr (mergeSchemaParts (parts @ [rest]))))
        | None \<Rightarrow> (case first_branch m of
            Some (k, b) \<Rightarrow> rbind (resolveForFill raw refs b) (\<lambda>first.
              let siblings = obj_delete k m
              in if siblings = [] then Inr first
                 else rbind (resolveForFill raw refs (JObj siblings)) (\<lambda>rest. Inr (mergeSchemaParts [first, rest])))
          | None \<Rightarrow>
              rbind (case asRecord (obj_get m ''properties'') of
                  Some ps \<Rightarrow> rbind (r_map (\<lambda>p. rbind (resolveForFill raw refs (snd p)) (\<lambda>s. Inr (fst p, JObj s))) ps) (\<lambda>qs.
                    Inr (obj_set ''properties'' (JObj (obj_from_entries qs)) m))
                | None \<Rightarrow> Inr m) (\<lambda>out.
              case asRecord (obj_get m ''items'') of
                  Some items \<Rightarrow> rbind (resolveForFill raw refs (JObj items)) (\<lambda>s. Inr (obj_set ''items'' (JObj s) out))
                | None \<Rightarrow> Inr out))))"
| "resolveForFill raw refs JUndef = Inr []"
| "resolveForFill raw refs JNull = Inr []"
| "resolveForFill raw refs (JBool b) = Inr []"
| "resolveForFill raw refs (JNum n) = Inr []"
| "resolveForFill raw refs (JStr s) = Inr []"
| "resolveForFill raw refs (JArr xs) = Inr []"
  by pat_completeness auto

lemma member_size: "obj_get m k = JObj ps \<Longrightarrow> p \<in> set ps \<Longrightarrow> size (snd p) < size (JObj m)"
proof -
  assume p: "p \<in> set ps" and m: "obj_get m k = JObj ps"
  from p have "size (snd p) < size (JObj ps)" by (induction ps) auto
  then show ?thesis using prop_size[of m k "JObj ps"] m by simp
qed

lemma array_size: "obj_get m k = JArr xs \<Longrightarrow> x \<in> set xs \<Longrightarrow> size x < size (JObj m)"
  using elem_size[of x xs] prop_size[of m k "JArr xs"] by simp

termination resolveForFill
  by (relation "measures [\<lambda>(raw, refs, s). open_targets raw refs, \<lambda>(raw, refs, s). size s]")
     (auto simp: open_targets_less simp del: json.size dest!: first_branch_props
       intro: delete_size member_size array_size prop_size)

declare resolveForFill.simps [simp del]

text \<open>A schema with nothing left to resolve.\<close>

inductive resolved :: "json_object \<Rightarrow> bool" where
  "\<lbrakk>\<nexists>s. obj_get m ''$ref'' = JStr s; \<nexists>bs. obj_get m ''allOf'' = JArr bs; first_branch m = None;
    \<And>ps v. obj_get m ''properties'' = JObj ps \<Longrightarrow> v \<in> snd ` set ps \<Longrightarrow> \<exists>c. v = JObj c \<and> resolved c;
    \<And>c. obj_get m ''items'' = JObj c \<Longrightarrow> resolved c\<rbrakk> \<Longrightarrow> resolved m"

inductive_cases resolvedE: "resolved m"

lemma resolved_properties: "resolved m \<Longrightarrow> obj_get m ''properties'' = JObj ps \<Longrightarrow> v \<in> snd ` set ps \<Longrightarrow> \<exists>c. v = JObj c \<and> resolved c"
  by (blast elim: resolvedE)

lemma resolved_items: "resolved m \<Longrightarrow> obj_get m ''items'' = JObj c \<Longrightarrow> resolved c"
  by (blast elim: resolvedE)

text \<open>Resolving such a schema again does not make it bigger.\<close>

abbreviation psize :: "json_object \<Rightarrow> nat" where "psize m \<equiv> size_list (size_prod (\<lambda>_. 0) size) m"

lemma psize_insert: "psize (obj_insert k v m) = psize m + psize [(k, v)]"
  by (induction m) auto

lemma psize_update: "map_of m k = Some w \<Longrightarrow> psize (AList.update k v m) + size w = psize m + size v"
  by (induction m) (auto split: if_splits)

lemma psize_set: "psize (obj_set k v m) \<le> psize m + psize [(k, v)]"
  using psize_update[of m k _ v] by (cases "map_of m k") (auto simp: obj_set_def psize_insert)

lemma psize_replace: "obj_get m k = w \<Longrightarrow> w \<noteq> JUndef \<Longrightarrow> size v \<le> size w \<Longrightarrow> psize (obj_set k v m) \<le> psize m"
  using psize_update[of m k w v] by (auto simp: obj_set_def obj_get_def split: option.splits)

lemma psize_spread: "psize (obj_spread m u) \<le> psize m + psize u"
  unfolding obj_spread_def
proof (induction u arbitrary: m)
  case (Cons p u)
  obtain k v where p: "p = (k, v)" by (cases p)
  from Cons[of "obj_set k v m"] psize_set[of k v m] p show ?case by simp
qed simp

lemma psize_entries: "psize (obj_from_entries u) \<le> psize u"
  using psize_spread[of "[]" u] by (simp add: obj_from_entries_def)

lemma psize_map: "list_all2 (\<lambda>p q. size (snd q) \<le> size (snd p)) ps qs \<Longrightarrow> psize qs \<le> psize ps"
  by (induction rule: list_all2_induct) auto

definition resolve_properties :: "json \<Rightarrow> string list list \<Rightarrow> json_object \<Rightarrow> exn + json_object" where
  "resolve_properties raw refs m = (case obj_get m ''properties'' of
      JObj ps \<Rightarrow> rbind (r_map (\<lambda>p. rbind (resolveForFill raw refs (snd p)) (\<lambda>s. Inr (fst p, JObj s))) ps) (\<lambda>qs.
        Inr (obj_set ''properties'' (JObj (obj_from_entries qs)) m))
    | _ \<Rightarrow> Inr m)"

definition resolve_items :: "json \<Rightarrow> string list list \<Rightarrow> json_object \<Rightarrow> json_object \<Rightarrow> exn + json_object" where
  "resolve_items raw refs m out = (case obj_get m ''items'' of
      JObj items \<Rightarrow> rbind (resolveForFill raw refs (JObj items)) (\<lambda>s. Inr (obj_set ''items'' (JObj s) out))
    | _ \<Rightarrow> Inr out)"

lemma resolve_plain:
  assumes "\<nexists>s. obj_get m ''$ref'' = JStr s" "\<nexists>bs. obj_get m ''allOf'' = JArr bs" "first_branch m = None"
  shows "resolveForFill raw refs (JObj m) = rbind (resolve_properties raw refs m) (resolve_items raw refs m)"
  unfolding resolve_properties_def resolve_items_def
  by (subst resolveForFill.simps(1)) (use assms in \<open>auto simp: asRecord_def split: json.split option.split\<close>)

lemma resolve_size: "resolved m \<Longrightarrow> resolveForFill raw refs (JObj m) = Inr r \<Longrightarrow> psize r \<le> psize m"
proof (induction arbitrary: r rule: resolved.induct)
  case (1 m)
  from 1(7)[unfolded resolve_plain[OF 1(1,2,3)]] obtain out where
      o1: "resolve_properties raw refs m = Inr out" and o2: "resolve_items raw refs m out = Inr r" by blast
  have out: "psize out \<le> psize m \<and> obj_get out ''items'' = obj_get m ''items''"
  proof (cases "obj_get m ''properties''")
    case (JObj ps)
    with o1 obtain qs where qs: "r_map (\<lambda>p. rbind (resolveForFill raw refs (snd p)) (\<lambda>s. Inr (fst p, JObj s))) ps = Inr qs"
      and out: "out = obj_set ''properties'' (JObj (obj_from_entries qs)) m" by (auto simp: resolve_properties_def)
    have "list_all2 (\<lambda>p q. size (snd q) \<le> size (snd p)) ps qs"
      using qs unfolding r_map_Inr
    proof (rule list.rel_mono_strong)
      fix p q assume p: "p \<in> set ps" and e: "rbind (resolveForFill raw refs (snd p)) (\<lambda>s. Inr (fst p, JObj s)) = Inr q"
      from p 1(5)[OF JObj, of "snd p"] obtain c where "snd p = JObj c"
        "\<And>r. resolveForFill raw refs (JObj c) = Inr r \<Longrightarrow> psize r \<le> psize c" by auto
      with e show "size (snd q) \<le> size (snd p)" by auto
    qed
    then have "psize (obj_from_entries qs) \<le> psize ps" using psize_map psize_entries order_trans by blast
    then have "psize out \<le> psize m" unfolding out by (intro psize_replace[OF JObj]) auto
    with out show ?thesis by (simp add: obj_get_def)
  qed (use o1 in \<open>auto simp: resolve_properties_def\<close>)
  show ?case
  proof (cases "obj_get m ''items''")
    case (JObj items)
    with o2 obtain s where s: "resolveForFill raw refs (JObj items) = Inr s" "r = obj_set ''items'' (JObj s) out" by (auto simp: resolve_items_def)
    from 1(6)[OF JObj] s have "size (JObj s) \<le> size (JObj items)" by simp
    then have "psize r \<le> psize out" unfolding s(2) by (intro psize_replace) (use out JObj in auto)
    with out show ?thesis by simp
  qed (use o2 out in \<open>auto simp: resolve_items_def\<close>)
qed

text \<open>Resolving leaves nothing to resolve.\<close>

definition clean_keyword :: "string \<Rightarrow> json \<Rightarrow> bool" where
  "clean_keyword k v \<longleftrightarrow> (k = ''$ref'' \<longrightarrow> (\<forall>s. v \<noteq> JStr s)) \<and> (k = ''allOf'' \<longrightarrow> (\<forall>bs. v \<noteq> JArr bs))
     \<and> (k = ''oneOf'' \<or> k = ''anyOf'' \<longrightarrow> (\<forall>b bs. v \<noteq> JArr (b # bs))) \<and> (k = ''items'' \<longrightarrow> (\<forall>c. v = JObj c \<longrightarrow> resolved c))
     \<and> (k = ''properties'' \<longrightarrow> (\<forall>ps. v = JObj ps \<longrightarrow> (\<forall>w\<in>snd ` set ps. \<exists>c. w = JObj c \<and> resolved c)))"

lemma first_branch_None: "first_branch m = None \<longleftrightarrow>
  (\<forall>b bs. obj_get m ''oneOf'' \<noteq> JArr (b # bs)) \<and> (\<forall>b bs. obj_get m ''anyOf'' \<noteq> JArr (b # bs))"
  by (auto simp: first_branch_def split: json.splits list.splits)

lemma resolved_iff: "resolved m \<longleftrightarrow> (\<forall>k. clean_keyword k (obj_get m k))"
proof
  show "resolved m \<Longrightarrow> \<forall>k. clean_keyword k (obj_get m k)"
    by (erule resolvedE) (simp add: clean_keyword_def first_branch_None)
  assume k: "\<forall>k. clean_keyword k (obj_get m k)"
  show "resolved m"
    by (rule resolved.intros) (use k[rule_format, of "''$ref''"] k[rule_format, of "''allOf''"] k[rule_format, of "''oneOf''"]
      k[rule_format, of "''anyOf''"] k[rule_format, of "''properties''"] k[rule_format, of "''items''"]
      in \<open>auto simp: clean_keyword_def first_branch_None\<close>)
qed

lemma clean_JUndef [simp]: "clean_keyword k JUndef"
  by (simp add: clean_keyword_def)

lemma resolved_Nil [simp]: "resolved []"
  by (simp add: resolved_iff obj_get_def)

lemma obj_get_set: "obj_get (obj_set k v m) k' = (if k' = k then v else obj_get m k')"
  by (simp add: obj_get_def)

lemma resolved_set: "resolved m \<Longrightarrow> clean_keyword k v \<Longrightarrow> resolved (obj_set k v m)"
  by (simp add: resolved_iff obj_get_set)

lemma own_entries_clean: "resolved m \<Longrightarrow> p \<in> set (own_entries m) \<Longrightarrow> clean_keyword (fst p) (snd p)"
  by (auto simp: own_entries_def resolved_iff obj_get_def dest!: spec[of _ "fst p"])

lemma snd_set_spread: "v \<in> snd ` set (obj_spread m u) \<Longrightarrow> v \<in> snd ` set m \<or> v \<in> snd ` set u"
  unfolding obj_spread_def
proof (induction u arbitrary: m)
  case (Cons p u)
  obtain k w where p: "p = (k, w)" by (cases p)
  from Cons.IH[of "obj_set k w m"] Cons.prems p snd_set_obj_set[of v k w m] show ?case by auto
qed simp

lemma merge_other:
  assumes "\<not> (fst p = ''properties'' \<and> is_obj (snd p))"
  shows "\<exists>m1 req1. merge_keyword (m, props, req) p = (m1, props, req1) \<and> (m1 = m \<or> m1 = obj_set (fst p) (snd p) m)"
  unfolding merge_keyword_def prod.case if_not_P[OF assms]
  by (cases "fst p = ''required''"; cases "snd p") simp_all

lemma merged_clean:
  assumes "\<forall>p\<in>set ps. clean_keyword (fst p) (snd p)" "resolved m" "\<forall>w\<in>snd ` set props. \<exists>c. w = JObj c \<and> resolved c"
    and "foldl merge_keyword (m, props, req) ps = (m', props', req')"
  shows "resolved m' \<and> (\<forall>w\<in>snd ` set props'. \<exists>c. w = JObj c \<and> resolved c)"
  using assms
proof (induction ps arbitrary: m props req)
  case (Cons p ps)
  obtain m1 props1 req1 where s: "merge_keyword (m, props, req) p = (m1, props1, req1)" by (cases "merge_keyword (m, props, req) p")
  have p: "clean_keyword (fst p) (snd p)" using Cons.prems(1) by simp
  have "resolved m1 \<and> (\<forall>w\<in>snd ` set props1. \<exists>c. w = JObj c \<and> resolved c)"
  proof (cases "fst p = ''properties'' \<and> is_obj (snd p)")
    case True
    then obtain qs where q: "snd p = JObj qs" by (auto elim: is_objE)
    with True s have m1: "m1 = m" "props1 = obj_spread props qs" by (auto simp: merge_keyword_def)
    have qs: "\<forall>w\<in>snd ` set qs. \<exists>c. w = JObj c \<and> resolved c" using p q True by (simp add: clean_keyword_def)
    have "\<exists>c. w = JObj c \<and> resolved c" if "w \<in> snd ` set props1" for w
      using snd_set_spread[OF that[unfolded m1(2)]] Cons.prems(3) qs by (elim disjE) (drule (1) bspec, assumption)+
    with m1(1) Cons.prems(2) show ?thesis by simp
  next
    case False
    from merge_other[OF False, of m props req] s have "props1 = props \<and> (m1 = m \<or> m1 = obj_set (fst p) (snd p) m)" by auto
    with resolved_set[OF Cons.prems(2) p] Cons.prems(2,3) show ?thesis by (elim conjE disjE) simp_all
  qed
  then show ?case using Cons.IH[of m1 props1 req1] Cons.prems(1,4) s by simp
qed simp

lemma resolved_merge: "\<forall>m\<in>set parts. resolved m \<Longrightarrow> resolved (mergeSchemaParts parts)"
proof -
  assume r: "\<forall>m\<in>set parts. resolved m"
  obtain m props req where f: "foldl merge_keyword ([], [], []) (concat (map own_entries parts)) = (m, props, req)"
    by (cases "foldl merge_keyword ([], [], []) (concat (map own_entries parts))")
  have "\<forall>p\<in>set (concat (map own_entries parts)). clean_keyword (fst p) (snd p)"
    using r own_entries_clean by auto
  from merged_clean[OF this _ _ f] have "resolved m" and p: "\<forall>w\<in>snd ` set props. \<exists>c. w = JObj c \<and> resolved c" by auto
  moreover have "clean_keyword ''properties'' (JObj props)" using p by (simp add: clean_keyword_def)
  moreover have "clean_keyword ''required'' v" for v by (simp add: clean_keyword_def)
  ultimately show ?thesis by (simp add: mergeSchemaParts_def f Let_def resolved_set)
qed

lemma r_map_elem: "r_map f xs = Inr ys \<Longrightarrow> y \<in> set ys \<Longrightarrow> \<exists>x\<in>set xs. f x = Inr y"
  by (induction xs arbitrary: ys) auto

lemma resolved_object:
  assumes qs: "r_map (\<lambda>p. rbind (resolveForFill raw refs (snd p)) (\<lambda>s. Inr (fst p, JObj s))) ps = Inr qs"
    and ps: "\<And>p s. p \<in> set ps \<Longrightarrow> resolveForFill raw refs (snd p) = Inr s \<Longrightarrow> resolved s"
    and w: "w \<in> snd ` set (obj_from_entries qs)"
  shows "\<exists>c. w = JObj c \<and> resolved c"
proof -
  from snd_set_spread[OF w[unfolded obj_from_entries_def]] obtain q where q: "q \<in> set qs" "w = snd q" by auto
  from r_map_elem[OF qs q(1)] obtain p where p: "p \<in> set ps"
    and e: "rbind (resolveForFill raw refs (snd p)) (\<lambda>s. Inr (fst p, JObj s)) = Inr q" by (rule bexE)
  from e obtain s where "q = (fst p, JObj s)" and s: "resolveForFill raw refs (snd p) = Inr s" by blast
  with ps[OF p s] q(2) show ?thesis by simp
qed

lemma resolved_out:
  assumes "\<nexists>s. obj_get m ''$ref'' = JStr s" "\<nexists>bs. obj_get m ''allOf'' = JArr bs" "first_branch m = None"
    and "resolveForFill raw refs (JObj m) = Inr r"
    and ps: "\<And>ps p s. obj_get m ''properties'' = JObj ps \<Longrightarrow> p \<in> set ps \<Longrightarrow> resolveForFill raw refs (snd p) = Inr s \<Longrightarrow> resolved s"
    and items: "\<And>i s. obj_get m ''items'' = JObj i \<Longrightarrow> resolveForFill raw refs (JObj i) = Inr s \<Longrightarrow> resolved s"
  shows "resolved r"
proof -
  from assms(4)[unfolded resolve_plain[OF assms(1-3)]] obtain out where
      o1: "resolve_properties raw refs m = Inr out" and o2: "resolve_items raw refs m out = Inr r" by blast
  have other: "clean_keyword k (obj_get m k)" if "k \<noteq> ''properties''" "k \<noteq> ''items''" for k
    using that assms(1-3) by (auto simp: clean_keyword_def first_branch_None)
  have plain: "clean_keyword k (obj_get m k)" if "\<not> is_obj (obj_get m ''properties'')" "k \<noteq> ''items''" for k
    using that other[of k] by (cases "k = ''properties''") (auto simp: clean_keyword_def)
  have out: "\<forall>k. k \<noteq> ''items'' \<longrightarrow> clean_keyword k (obj_get out k)" "obj_get out ''items'' = obj_get m ''items''"
  proof -
    have "(\<forall>k. k \<noteq> ''items'' \<longrightarrow> clean_keyword k (obj_get out k)) \<and> obj_get out ''items'' = obj_get m ''items''"
    proof (cases "obj_get m ''properties''")
      case (JObj qs)
      from o1[unfolded resolve_properties_def JObj json.case] obtain es where
        es: "r_map (\<lambda>p. rbind (resolveForFill raw refs (snd p)) (\<lambda>s. Inr (fst p, JObj s))) qs = Inr es"
        and o: "out = obj_set ''properties'' (JObj (obj_from_entries es)) m" by blast
      have "clean_keyword ''properties'' (JObj (obj_from_entries es))"
        using resolved_object[OF es ps[OF JObj]] by (simp add: clean_keyword_def)
      with o other show ?thesis by (auto simp: obj_get_set)
    qed (use o1 plain in \<open>simp_all add: resolve_properties_def\<close>)
    then show "\<forall>k. k \<noteq> ''items'' \<longrightarrow> clean_keyword k (obj_get out k)" "obj_get out ''items'' = obj_get m ''items''" by simp_all
  qed
  have items_clean: "clean_keyword k (obj_get out k)" if "\<not> is_obj (obj_get m ''items'')" for k
  proof (cases "k = ''items''")
    case True
    with that show ?thesis unfolding True out(2) by (cases "obj_get m ''items''") (simp_all add: clean_keyword_def)
  next
    case False
    with out(1) show ?thesis by blast
  qed
  show ?thesis
  proof (cases "obj_get m ''items''")
    case (JObj i)
    from o2[unfolded resolve_items_def JObj json.case] obtain s where s: "resolveForFill raw refs (JObj i) = Inr s"
      and r: "r = obj_set ''items'' (JObj s) out" by auto
    have "clean_keyword ''items'' (JObj s)" using items[OF JObj s] by (simp add: clean_keyword_def)
    with out(1) show ?thesis unfolding r resolved_iff by (auto simp: obj_get_set)
  qed (use o2 items_clean in \<open>simp_all add: resolve_items_def resolved_iff\<close>)
qed

lemma resolve_branches:
  assumes "r_map (resolveForFill raw refs) bs = Inr parts" and "\<And>b s. b \<in> set bs \<Longrightarrow> resolveForFill raw refs b = Inr s \<Longrightarrow> resolved s"
  shows "\<forall>m\<in>set parts. resolved m"
proof (rule ballI)
  fix m assume "m \<in> set parts"
  from r_map_elem[OF assms(1) this] obtain b where "b \<in> set bs" "resolveForFill raw refs b = Inr m" by (rule bexE)
  then show "resolved m" by (rule assms(2))
qed

lemma resolve_result_resolved: "resolveForFill raw refs v = Inr r \<Longrightarrow> resolved r"
proof (induction "(open_targets raw refs, size v)" arbitrary: refs v r rule: less_induct)
  case less
  have small: "resolved s" if "size v' < size v" "resolveForFill raw refs v' = Inr s" for v' s
    by (rule less.hyps[OF _ that(2)]) (simp add: less_prod_def that(1))
  show ?case
  proof (cases v)
    case (JObj m)
    have sib: "resolved s" if "obj_get m k \<noteq> JUndef" "resolveForFill raw refs (JObj (obj_delete k m)) = Inr s" for k s
      using small[OF _ that(2)] delete_size[OF that(1)] JObj by simp
    have merged: "resolved (mergeSchemaParts (xs @ [s]))" if "\<forall>x\<in>set xs. resolved x" "resolved s" for xs s
      by (rule resolved_merge) (use that in auto)
    show ?thesis
    proof (cases "\<exists>s. obj_get m ''$ref'' = JStr s")
      case True
      then obtain s where ref: "obj_get m ''$ref'' = JStr s" by blast
      from less.prems[unfolded JObj resolveForFill.simps(1)[of raw refs m] ref kind_simps(4) option.case] obtain path where
        rest: "(case path of None \<Rightarrow> Inr [] | Some p \<Rightarrow>
          if schema_target raw p = JUndef \<or> p \<in> set refs then Inr []
          else rbind (resolveForFill raw (p # refs) (schema_target raw p)) (\<lambda>resolved.
            let siblings = obj_delete ''$ref'' m in if siblings = [] then Inr resolved
              else rbind (resolveForFill raw refs (JObj siblings)) (\<lambda>rest. Inr (mergeSchemaParts [resolved, rest])))) = (Inr r :: exn + json_object)"
        by (rule rbind_InrE)
      show ?thesis
      proof (cases "\<exists>p. path = Some p \<and> \<not> (schema_target raw p = JUndef \<or> p \<in> set refs)")
        case True
        then obtain p where p: "path = Some p" "schema_target raw p \<noteq> JUndef" "p \<notin> set refs" by blast
        have t: "resolved s" if "resolveForFill raw (p # refs) (schema_target raw p) = Inr s" for s
          by (rule less.hyps[OF _ that]) (simp add: less_prod_def open_targets_less[OF p(2,3)])
        have "obj_get m ''$ref'' \<noteq> JUndef" using ref by simp
        with rest p t sib[of "''$ref''"] merged[of "[_]"] show ?thesis by (auto simp: Let_def split: if_splits)
      qed (use rest in \<open>auto split: option.splits\<close>)
    next
      case no_ref: False
      show ?thesis
      proof (cases "\<exists>bs. obj_get m ''allOf'' = JArr bs")
        case True
        then obtain bs where bs: "obj_get m ''allOf'' = JArr bs" by blast
        from no_ref bs less.prems[unfolded JObj resolveForFill.simps(1)[of raw refs m]] obtain parts where
          parts: "r_map (resolveForFill raw refs) bs = Inr parts"
          and rest: "(let siblings = obj_delete ''allOf'' m in if siblings = [] then Inr (mergeSchemaParts parts)
            else rbind (resolveForFill raw refs (JObj siblings)) (\<lambda>rest. Inr (mergeSchemaParts (parts @ [rest])))) = (Inr r :: exn + json_object)"
          by (auto split: option.splits)
        have "\<forall>x\<in>set parts. resolved x"
          by (rule resolve_branches[OF parts]) (use small array_size[OF bs] JObj in auto)
        with rest sib[of "''allOf''"] bs merged[of parts] resolved_merge[of parts] show ?thesis by (auto simp: Let_def split: if_splits)
      next
        case no_all: False
        show ?thesis
        proof (cases "first_branch m")
          case None
          from less.prems JObj have e: "resolveForFill raw refs (JObj m) = Inr r" by simp
          show ?thesis
          proof (rule resolved_out[OF no_ref no_all None e])
            fix ps p s assume a: "obj_get m ''properties'' = JObj ps" "p \<in> set ps" "resolveForFill raw refs (snd p) = Inr s"
            show "resolved s" using small[OF _ a(3)] member_size[OF a(1,2)] JObj by simp
          next
            fix i s assume a: "obj_get m ''items'' = JObj i" "resolveForFill raw refs (JObj i) = Inr s"
            show "resolved s" using small[OF _ a(2)] prop_size[OF a(1)] JObj by simp
          qed
        next
          case (Some kb)
          obtain k b where kb: "kb = (k, b)" by (cases kb)
          then obtain bs where bs: "obj_get m k = JArr (b # bs)" using first_branch_props Some by blast
          from no_ref no_all Some kb less.prems[unfolded JObj resolveForFill.simps(1)[of raw refs m]] obtain first where
            f: "resolveForFill raw refs b = Inr first"
            and rest: "(let siblings = obj_delete k m in if siblings = [] then Inr first
              else rbind (resolveForFill raw refs (JObj siblings)) (\<lambda>rest. Inr (mergeSchemaParts [first, rest]))) = (Inr r :: exn + json_object)"
            by (auto split: option.splits)
          have "resolved first" using small[OF _ f] array_size[OF bs] JObj by simp
          with rest sib[of k] bs merged[of "[first]"] show ?thesis by (auto simp: Let_def split: if_splits)
        qed
      qed
    qed
  qed (use less.prems in \<open>simp_all add: resolveForFill.simps\<close>)
qed

end
