(* ===== verification/ErrorFill.thy ===== *)
theory ErrorFill
  imports ErrorBody Respond
begin

text \<open>
  Filling the body of an error from its resolved schema (\<open>contract/errorBody.ts\<close>).  \<open>ee_now\<close> is the
  result of \<open>options.now\<close>, \<open>ee_offset\<close> a finite clock offset, \<open>ee_codeMap\<close> the map of codes, \<open>ee_dateParse\<close>
  and \<open>ee_toISO\<close> parse and print dates and \<open>ee_regex\<close> compiles a pattern, \<open>None\<close> for a syntax error.
\<close>

record err_context =
  ec_code :: "string option"
  ec_message :: "string option"
  ec_details :: "json option"

record err_env =
  ee_now :: "string option"
  ee_offset :: "rat option"
  ee_codeMap :: "(string \<times> string) list"
  ee_dateParse :: "string \<Rightarrow> rat option"
  ee_toISO :: "rat \<Rightarrow> exn + string"
  ee_regex :: "string \<Rightarrow> (string \<Rightarrow> bool) option"

definition virtualNow :: "err_env \<Rightarrow> exn + string" where
  "virtualNow env =
     (let base = (case ee_now env of Some t \<Rightarrow> t | None \<Rightarrow> ''1970-01-01T00:00:00.000Z'');
          offset = (case ee_offset env of Some x \<Rightarrow> x | None \<Rightarrow> 0)
      in ee_toISO env (js_add (case ee_dateParse env base of Some t \<Rightarrow> t | None \<Rightarrow> 0) offset))"

definition formatValue :: "err_env \<Rightarrow> string \<Rightarrow> exn + string" where
  "formatValue env format = rbind (virtualNow env) (\<lambda>now. Inr
     (if format = ''date'' then take 10 now
      else if format = ''date-time'' then now
      else if format = ''time'' then drop 11 now
      else if format = ''uuid'' then ''00000000-0000-4000-8000-000000000000''
      else if format = ''email'' then ''error@example.com''
      else if format = ''uri'' \<or> format = ''uri-reference'' \<or> format = ''url'' then ''https://example.com/error''
      else if format = ''hostname'' then ''example.com''
      else if format = ''ipv4'' then ''127.0.0.1''
      else []))"

subsection \<open>Patterns\<close>

definition candidates :: "string list" where
  "candidates = ['''', ''0'', ''A'', ''a'', ''x'', ''error'', ''error-0'', ''00000000-0000-4000-8000-000000000000'']"

definition pattern_core :: "string \<Rightarrow> string" where
  "pattern_core p = (let q = (if starts_with ''^'' p then tl p else p) in if q \<noteq> [] \<and> last q = CHR ''$'' then butlast q else q)"

definition class_value :: "string \<Rightarrow> string" where
  "class_value chars = (if contains ''A-Z'' chars then ''A'' else if contains ''a-z'' chars then ''a''
     else if contains ''0-9'' chars then ''0'' else take 1 chars)"

text \<open>The text for the next piece of a pattern, and what follows the piece.\<close>

definition pattern_piece :: "string \<Rightarrow> string \<times> string" where
  "pattern_piece s =
     (if starts_with [CHR 0x5C, CHR ''d''] s then (''0'', drop 2 s)
      else if starts_with [CHR 0x5C, CHR ''w''] s then (''a'', drop 2 s)
      else let cls = takeWhile (\<lambda>c. c \<noteq> CHR '']'') (tl s); group = takeWhile (\<lambda>c. c \<noteq> CHR '')'') s
        in if starts_with ''['' s \<and> cls \<noteq> [] \<and> length cls + 1 < length s then (class_value cls, drop (length cls + 2) s)
           else if starts_with ''(?:'' s then
             (if length group < length s \<and> 3 < length group
              then (takeWhile (\<lambda>c. c \<noteq> CHR ''|'') (drop 3 group), drop (length group + 1) s) else ([], drop 1 s))
           else if hd s = CHR ''.'' then (''x'', drop 1 s)
           else if hd s \<in> set ''+*?'' then ([], drop 1 s)
           else ([hd s], drop 1 s))"

lemma pattern_piece_length: "s \<noteq> [] \<Longrightarrow> length (snd (pattern_piece s)) < length s"
  by (auto simp: pattern_piece_def Let_def)

lemma pattern_piece_less: "(token, r) = pattern_piece s \<Longrightarrow> s \<noteq> [] \<Longrightarrow> length r < length s"
  using pattern_piece_length[of s] by (cases "pattern_piece s") simp

function pattern_text :: "string \<Rightarrow> string" where
  "pattern_text s = (if s = [] then []
     else case pattern_piece s of (token, r) \<Rightarrow>
       let twice = (starts_with ''+'' r \<and> token \<noteq> []);
           r' = (if starts_with ''?'' r \<or> starts_with ''+'' r \<or> starts_with ''*'' r then tl r else r)
       in token @ (if twice then token else []) @ pattern_text r')"
  by pat_completeness auto
termination pattern_text
  by (relation "measure length") (auto dest!: pattern_piece_less)

declare pattern_text.simps [simp del]

definition patternValue :: "err_env \<Rightarrow> string \<Rightarrow> string" where
  "patternValue env pattern = (case ee_regex env pattern of
      None \<Rightarrow> []
    | Some test \<Rightarrow> (case find test candidates of
        Some c \<Rightarrow> c
      | None \<Rightarrow> let result = pattern_text (pattern_core pattern) in if test result then result else []))"

subsection \<open>Values\<close>

definition mapped_code :: "err_env \<Rightarrow> string \<Rightarrow> string" where
  "mapped_code env c = (case map_of (ee_codeMap env) c of Some v \<Rightarrow> v | None \<Rightarrow> c)"

definition first_enum :: "json_object \<Rightarrow> json option" where
  "first_enum schema = (case obj_get schema ''enum'' of JArr (v # _) \<Rightarrow> Some v | _ \<Rightarrow> None)"

definition num_of :: "json \<Rightarrow> rat option" where
  "num_of v = (case v of JNum x \<Rightarrow> Some x | _ \<Rightarrow> None)"

definition stringValue :: "err_env \<Rightarrow> err_context \<Rightarrow> json_object \<Rightarrow> string option \<Rightarrow> exn + string" where
  "stringValue env context schema field =
     (case (field = Some ''error'', ec_code context, field = Some ''message'', ec_message context) of
        (True, Some c, _) \<Rightarrow> Inr (mapped_code env c)
      | (_, _, True, Some m) \<Rightarrow> Inr m
      | (_, c, _) \<Rightarrow> (case (field = Some ''code'' \<or> field = Some ''type'', c) of
          (True, Some c) \<Rightarrow> Inr (case map_of (ee_codeMap env) c of Some v \<Rightarrow> v
            | None \<Rightarrow> (case first_enum schema of Some (JStr s) \<Rightarrow> s | _ \<Rightarrow> c))
        | _ \<Rightarrow> (case (obj_get schema ''format'', obj_get schema ''pattern'') of
            (JStr f, _) \<Rightarrow> formatValue env f
          | (_, JStr p) \<Rightarrow> Inr (patternValue env p)
          | _ \<Rightarrow> Inr (replicate (nat \<lfloor>case num_of (obj_get schema ''minLength'') of Some x \<Rightarrow> x | None \<Rightarrow> 0\<rfloor>) (CHR ''x'')))))"

definition schema_type :: "json_object \<Rightarrow> json" where
  "schema_type schema = (case obj_get schema ''type'' of
      JArr ts \<Rightarrow> (case find (\<lambda>t. case t of JStr s \<Rightarrow> s \<noteq> ''null'' | _ \<Rightarrow> False) ts of Some t \<Rightarrow> t | None \<Rightarrow> JUndef)
    | t \<Rightarrow> t)"

definition required_keys :: "json_object \<Rightarrow> string list" where
  "required_keys schema = (case obj_get schema ''required'' of
      JArr xs \<Rightarrow> List.map_filter (\<lambda>v. case v of JStr s \<Rightarrow> Some s | _ \<Rightarrow> None) xs | _ \<Rightarrow> [])"

definition nested_error :: "json_object \<Rightarrow> bool" where
  "nested_error properties = (case obj_get properties ''error'' of
      JObj e \<Rightarrow> obj_get e ''type'' = JStr ''object'' \<or> is_obj (obj_get e ''properties'') \<or> obj_get e ''$ref'' \<noteq> JUndef
    | _ \<Rightarrow> False)"

definition put_some :: "string \<Rightarrow> json option \<Rightarrow> json_object \<Rightarrow> json_object" where
  "put_some k v m = (case v of Some x \<Rightarrow> obj_set k x m | None \<Rightarrow> m)"

text \<open>The body of an object schema that constrains nothing.\<close>

definition open_body :: "err_env \<Rightarrow> err_context \<Rightarrow> json_object" where
  "open_body env context = put_some ''details'' (ec_details context)
     (put_some ''message'' (map_option JStr (ec_message context))
       (put_some ''code'' (map_option (JStr \<circ> mapped_code env) (ec_code context)) []))"

text \<open>What a required key gets from the error itself.\<close>

definition known_value :: "err_env \<Rightarrow> err_context \<Rightarrow> bool \<Rightarrow> string \<Rightarrow> json option" where
  "known_value env context nested key =
     (if key = ''details'' \<and> ec_details context \<noteq> None then ec_details context
      else if key = ''error'' \<and> \<not> nested \<and> ec_code context \<noteq> None then map_option (JStr \<circ> mapped_code env) (ec_code context)
      else if key = ''message'' then map_option JStr (ec_message context)
      else None)"

definition add_message :: "err_env \<Rightarrow> err_context \<Rightarrow> json_object \<Rightarrow> json_object \<Rightarrow> json_object" where
  "add_message env context properties out =
     (if is_obj (obj_get properties ''message'') \<and> map_of out ''message'' = None \<and> (ec_message context \<noteq> None \<or> ec_code context \<noteq> None)
      then obj_set ''message'' (JStr
        (case (ec_code context, nested_error properties) of
           (Some c, True) \<Rightarrow> (if map_of (ee_codeMap env) c = None
             then c @ (case ec_message context of Some (x # m) \<Rightarrow> '': '' @ x # m | _ \<Rightarrow> [])
             else (case ec_message context of Some m \<Rightarrow> m | None \<Rightarrow> c))
         | (c, _) \<Rightarrow> (case ec_message context of Some m \<Rightarrow> m | None \<Rightarrow> (case c of Some c \<Rightarrow> c | None \<Rightarrow> [])))) out
      else out)"

definition add_details :: "err_context \<Rightarrow> json_object \<Rightarrow> json_object \<Rightarrow> json_object" where
  "add_details context properties out =
     (if is_obj (obj_get properties ''details'') \<and> map_of out ''details'' = None then put_some ''details'' (ec_details context) out else out)"

definition properties_of :: "json_object \<Rightarrow> json_object" where
  "properties_of schema = asObject (obj_get schema ''properties'')"

definition min_items :: "json_object \<Rightarrow> nat" where
  "min_items schema = (case num_of (obj_get schema ''minItems'') of Some x \<Rightarrow> nat \<lfloor>x\<rfloor> | None \<Rightarrow> 0)"

lemma psize_pos: "obj_get m k = v \<Longrightarrow> v \<noteq> JUndef \<Longrightarrow> size v < psize m"
  by (induction m) (auto simp: obj_get_def split: if_splits)

abbreviation fill_less :: "((nat \<times> nat) \<times> nat \<times> nat) set" where "fill_less \<equiv> less_than <*lex*> less_than"

definition fill_measure :: "json_object \<Rightarrow> nat \<times> nat" where
  "fill_measure schema = (if resolved schema then 0 else 1, psize schema)"

lemma fill_child:
  assumes r: "resolveForFill raw [] (obj_get (properties_of schema) key) = Inr child" and "schema \<noteq> []"
  shows "(fill_measure child, fill_measure schema) \<in> fill_less"
proof -
  have c: "resolved child" by (rule resolve_result_resolved[OF r])
  have "psize child < psize schema" if s: "resolved schema"
  proof (cases "obj_get (properties_of schema) key = JUndef")
    case True
    with r have "child = []" by (simp add: resolveForFill.simps)
    with assms(2) show ?thesis by (cases schema) simp_all
  next
    case False
    then obtain ps where ps: "obj_get schema ''properties'' = JObj ps" "properties_of schema = ps"
      by (cases "obj_get schema ''properties''") (auto simp: properties_of_def asObject_def obj_get_def)
    define w where "w = obj_get ps key"
    with False ps have w: "(key, w) \<in> set ps" "w \<noteq> JUndef"
      by (auto simp: obj_get_def dest!: map_of_SomeD split: option.splits)
    then have "w \<in> snd ` set ps" by force
    with resolved_properties[OF s ps(1)] obtain c where w': "w = JObj c" "resolved c" by blast
    with r ps w_def have "psize child \<le> psize c" using resolve_size[of c raw "[]" child] by simp
    also have "psize c < size w" using w' by simp
    also have "size w < size (JObj ps)" using w(1) by (induction ps) auto
    also have "\<dots> < psize schema" using psize_pos[OF ps(1)] by simp
    finally show ?thesis .
  qed
  with c show ?thesis by (auto simp: fill_measure_def)
qed

lemma fill_items:
  assumes r: "resolveForFill raw [] (obj_get schema ''items'') = Inr child" and "schema \<noteq> []"
  shows "(fill_measure child, fill_measure schema) \<in> fill_less"
proof -
  have c: "resolved child" by (rule resolve_result_resolved[OF r])
  have "psize child < psize schema" if s: "resolved schema"
  proof (cases "obj_get schema ''items''")
    case (JObj m)
    from JObj r resolve_size[OF resolved_items[OF s JObj], of raw "[]" child] have "psize child \<le> psize m" by simp
    with psize_pos[OF JObj] show ?thesis by simp
  qed (use r assms(2) in \<open>cases schema, simp_all add: resolveForFill.simps\<close>)+
  with c show ?thesis by (auto simp: fill_measure_def)
qed

definition enum_value :: "json_object \<Rightarrow> json option" where
  "enum_value schema = (case first_enum schema of Some e \<Rightarrow> if is_json_value e then Some e else None | None \<Rightarrow> None)"

definition code_field :: "string option \<Rightarrow> bool" where
  "code_field field \<longleftrightarrow> field \<in> {Some ''code'', Some ''type'', Some ''error''}"

definition wants_code :: "err_context \<Rightarrow> json_object \<Rightarrow> json_object \<Rightarrow> bool" where
  "wants_code context properties out \<longleftrightarrow>
     is_obj (obj_get properties ''code'') \<and> map_of out ''code'' = None \<and> ec_code context \<noteq> None"

definition is_object_schema :: "json_object \<Rightarrow> bool" where
  "is_object_schema schema \<longleftrightarrow> schema_type schema = JStr ''object'' \<or> is_obj (obj_get schema ''properties'')"

definition is_list_schema :: "json_object \<Rightarrow> bool" where
  "is_list_schema schema \<longleftrightarrow> schema_type schema = JStr ''array'' \<or> obj_get schema ''items'' \<noteq> JUndef"

lemma object_schema_nonempty: "is_object_schema schema \<Longrightarrow> schema \<noteq> []" "is_list_schema schema \<Longrightarrow> schema \<noteq> []"
  by (auto simp: is_object_schema_def is_list_schema_def schema_type_def obj_get_def)

function fillSchema :: "json \<Rightarrow> err_env \<Rightarrow> err_context \<Rightarrow> json_object \<Rightarrow> string option \<Rightarrow> exn + json" where
  "fillSchema raw env context schema field =
     (if is_json_value (obj_get schema ''const'') then Inr (obj_get schema ''const'')
      else case enum_value schema of
        Some e \<Rightarrow> Inr (case (code_field field, ec_code context) of
            (True, Some c) \<Rightarrow> (case map_of (ee_codeMap env) c of Some v \<Rightarrow> JStr v | None \<Rightarrow> e)
          | _ \<Rightarrow> e)
      | None \<Rightarrow>
          if is_object_schema schema then
            (let properties = properties_of schema
             in if required_keys schema = [] \<and> properties = [] then Inr (JObj (open_body env context))
                else rbind (rfold (\<lambda>key out. rbind (resolveForFill raw [] (obj_get properties key)) (\<lambda>child.
                         rbind (case known_value env context (nested_error properties) key of
                             Some v \<Rightarrow> Inr v
                           | None \<Rightarrow> fillSchema raw env context child (Some key)) (\<lambda>v. Inr (obj_set key v out))))
                       (required_keys schema) []) (\<lambda>out.
                     let out = add_message env context properties out
                     in rbind (if \<not> wants_code context properties out then Inr out
                          else rbind (resolveForFill raw [] (obj_get properties ''code'')) (\<lambda>child.
                            rbind (fillSchema raw env context child (Some ''code'')) (\<lambda>v. Inr (obj_set ''code'' v out)))) (\<lambda>out.
                        Inr (JObj (add_details context properties out)))))
          else if is_list_schema schema then
            rbind (resolveForFill raw [] (obj_get schema ''items'')) (\<lambda>child.
              if min_items schema = 0 then Inr (JArr [])
              else rbind (fillSchema raw env context child None) (\<lambda>v. Inr (JArr (replicate (min_items schema) v))))
          else if schema_type schema = JStr ''number'' \<or> schema_type schema = JStr ''integer'' then
            Inr (case num_of (obj_get schema ''minimum'') of Some x \<Rightarrow> if 0 < x then JNum x else JNum 0 | None \<Rightarrow> JNum 0)
          else if schema_type schema = JStr ''boolean'' then Inr (JBool False)
          else if schema_type schema = JStr ''null'' then Inr JNull
          else rbind (stringValue env context schema field) (\<lambda>s. Inr (JStr s)))"
  by pat_completeness auto
lemmas fill_object = fill_child[OF _ object_schema_nonempty(1)] and fill_list = fill_items[OF _ object_schema_nonempty(2)]

termination fillSchema
  by (relation "inv_image fill_less (\<lambda>(raw, env, ctx, s, f). fill_measure s)")
     (auto elim!: fill_object fill_list simp del: in_lex_prod)

declare fillSchema.simps [simp del]

subsection \<open>Bodies\<close>

definition buildContractErrorBody :: "openapi \<Rightarrow> err_env \<Rightarrow> string \<Rightarrow> string \<Rightarrow> nat \<Rightarrow> err_context \<Rightarrow> exn + json option" where
  "buildContractErrorBody doc env method path status context =
     rbind (routed (resolveResponseSchema doc method path status)) (\<lambda>schema. case schema of
         None \<Rightarrow> Inr None
       | Some m \<Rightarrow> rbind (resolveForFill (oa_raw doc) [] (JObj m)) (\<lambda>r.
           rbind (fillSchema (oa_raw doc) env context r None) (\<lambda>v. Inr (Some v))))"

function resolveRefsForValidation :: "json \<Rightarrow> string list list \<Rightarrow> json \<Rightarrow> exn + json" where
  "resolveRefsForValidation raw refs (JArr xs) = rbind (r_map (resolveRefsForValidation raw refs) xs) (\<lambda>ys. Inr (JArr ys))"
| "resolveRefsForValidation raw refs (JObj m) = (case obj_get m ''$ref'' of
      JStr ref \<Rightarrow> rbind (ref_path ref) (\<lambda>path. case path of
          None \<Rightarrow> Inr (JObj [])
        | Some p \<Rightarrow> if schema_target raw p = JUndef \<or> p \<in> set refs then Inr (JObj [])
                    else resolveRefsForValidation raw (p # refs) (schema_target raw p))
    | _ \<Rightarrow> rbind (r_map (\<lambda>p. rbind (resolveRefsForValidation raw refs (snd p)) (\<lambda>v. Inr (fst p, v))) m) (\<lambda>es.
        Inr (JObj (obj_from_entries es))))"
| "resolveRefsForValidation raw refs JUndef = Inr JUndef"
| "resolveRefsForValidation raw refs JNull = Inr JNull"
| "resolveRefsForValidation raw refs (JBool b) = Inr (JBool b)"
| "resolveRefsForValidation raw refs (JNum n) = Inr (JNum n)"
| "resolveRefsForValidation raw refs (JStr s) = Inr (JStr s)"
  by pat_completeness auto

lemma own_size: "p \<in> set m \<Longrightarrow> size (snd p) < size (JObj m)"
  by (induction m) auto

termination resolveRefsForValidation
  by (relation "measures [\<lambda>(raw, refs, s). open_targets raw refs, \<lambda>(raw, refs, s). size s]")
     (auto simp: open_targets_less simp del: json.size intro: elem_size own_size)

declare resolveRefsForValidation.simps [simp del]

text \<open>The errors of the body, if it has any; this validator fills in no defaults.\<close>

definition validateContractErrorBody :: "ajv \<Rightarrow> openapi \<Rightarrow> string \<Rightarrow> string \<Rightarrow> nat \<Rightarrow> json \<Rightarrow> exn + json option" where
  "validateContractErrorBody ajv doc method path status body =
     rbind (routed (resolveResponseSchema doc method path status)) (\<lambda>schema. case schema of
         None \<Rightarrow> Inr None
       | Some m \<Rightarrow> rbind (resolveRefsForValidation (oa_raw doc) [] (JObj m)) (\<lambda>s.
           rbind (ajv (asObject s) body) (\<lambda>(errs, _). Inr errs)))"

end
