(* ===== verification/RuntimeContract.thy ===== *)
theory RuntimeContract
  imports ErrorFill
begin

text \<open>
  The contract the engine is given (\<open>runtime/contract.ts\<close>): operations by identifier, the route of a request,
  response statuses, validation and error bodies.  The batch item of a request is set by the HTTP gateway
  and is an argument here.
\<close>

subsection \<open>Operations\<close>

record operation_route =
  or_operationId :: string
  or_method :: string
  or_path :: string

definition parseHttpMethod :: "string \<Rightarrow> string option" where
  "parseHttpMethod v = (case httpMethod v of Inl _ \<Rightarrow> None | Inr m \<Rightarrow> Some m)"

definition inputOperation :: "openapi \<Rightarrow> string \<Rightarrow> string \<Rightarrow> operation option" where
  "inputOperation doc path method = operation_at doc path (to_lower method)"

definition add_route :: "string \<Rightarrow> string \<times> operation \<Rightarrow> (string \<times> operation_route) list \<Rightarrow> exn + (string \<times> operation_route) list" where
  "add_route path entry routes = (case (parseHttpMethod (fst entry), op_operationId (snd entry)) of
      (Some method, Some raw) \<Rightarrow> rbind (parsed (OperationId_parse raw)) (\<lambda>oid.
        Inr (omap_set oid \<lparr>or_operationId = oid, or_method = method, or_path = path\<rparr> routes))
    | _ \<Rightarrow> Inr routes)"

definition operationRoutes :: "openapi \<Rightarrow> exn + (string \<times> operation_route) list" where
  "operationRoutes doc = rfold (\<lambda>(path, item). rfold (add_route path) item) (oa_paths doc) []"

type_synonym routes = "(string \<times> operation_route) list"

definition requestRoute :: "openapi \<Rightarrow> routes \<Rightarrow> string \<Rightarrow> request option \<Rightarrow> exn + (string \<times> string \<times> (string \<times> string) list) option" where
  "requestRoute doc routes oid rq = (case map_of routes oid of
      None \<Rightarrow> Inr None
    | Some route \<Rightarrow> (case rq of
        None \<Rightarrow> rbind (routed (matchRoute doc (or_method route) (or_path route))) (\<lambda>matched.
          Inr (Some (or_method route, or_path route, case matched of Some r \<Rightarrow> mr_pathParams r | None \<Rightarrow> [])))
      | Some rq \<Rightarrow> let cm = rq_command rq in
          rbind (routed (matchRoute doc (cm_method cm) (cm_path cm))) (\<lambda>requestMatch. case requestMatch of
              Some r \<Rightarrow> Inr (Some (cm_method cm, cm_path cm, mr_pathParams r))
            | None \<Rightarrow> rbind (routed (matchRoute doc (or_method route) (cm_path cm))) (\<lambda>matched.
                Inr (Some (or_method route, (if matched = None then or_path route else cm_path cm),
                  case matched of Some r \<Rightarrow> mr_pathParams r | None \<Rightarrow> []))))))"

definition status_of_key :: "string \<Rightarrow> nat option" where
  "status_of_key k = (case js_Number k of
      Fin x \<Rightarrow> if x = of_int \<lfloor>x\<rfloor> \<and> 200 \<le> x \<and> x < 300 then Some (nat \<lfloor>x\<rfloor>) else None | _ \<Rightarrow> None)"

definition responseStatusFor :: "openapi \<Rightarrow> routes \<Rightarrow> string \<Rightarrow> intent \<Rightarrow> nat option" where
  "responseStatusFor doc routes oid i = Option.bind (map_of routes oid) (\<lambda>route.
     let statuses = sort (List.map_filter (status_of_key \<circ> fst)
           (case Option.bind (inputOperation doc (or_path route) (or_method route)) op_responses of Some m \<Rightarrow> m | None \<Rightarrow> []))
     in if statuses = [] then None
        else if i = Creation \<and> 201 \<in> set statuses then Some 201
        else if 200 \<in> set statuses then Some 200
        else Some (hd statuses))"

definition operationIdFor :: "openapi \<Rightarrow> routes \<Rightarrow> string \<Rightarrow> string \<Rightarrow> exn + string option" where
  "operationIdFor doc routes path method =
     rbind (routed (matchRoute doc method path)) (\<lambda>matched.
       case (case Option.bind matched (op_operationId \<circ> mr_operation) of Some i \<Rightarrow> Some i | None \<Rightarrow> lookupOperationId doc path method) of
         None \<Rightarrow> Inr None
       | Some raw \<Rightarrow> (case map_of routes raw of
           Some route \<Rightarrow> Inr (Some (or_operationId route))
         | None \<Rightarrow> rbind (parsed (OperationId_parse raw)) (\<lambda>oid. Inr (Some oid))))"

text \<open>\<open>path.replace(/\{[^}]+\}/g, text)\<close>.\<close>

function replace_params :: "string \<Rightarrow> string \<Rightarrow> string" where
  "replace_params text [] = []"
| "replace_params text (c # s) = (let body = takeWhile (\<lambda>x. x \<noteq> CHR ''}'') s
     in if c = CHR ''{'' \<and> body \<noteq> [] \<and> length body < length s then text @ replace_params text (drop (length body + 1) s)
        else c # replace_params text s)"
  by pat_completeness auto
termination replace_params
  by (relation "measure (length \<circ> snd)") auto

definition rc_pathForOperation :: "routes \<Rightarrow> string \<Rightarrow> string option \<Rightarrow> string option" where
  "rc_pathForOperation routes oid target = map_option (\<lambda>route. case target of
      None \<Rightarrow> or_path route
    | Some t \<Rightarrow> replace_params (encodeURIComponent t) (or_path route)) (map_of routes oid)"

definition requiresPrecondition :: "openapi \<Rightarrow> routes \<Rightarrow> string \<Rightarrow> bool" where
  "requiresPrecondition doc routes oid = (case map_of routes oid of
      None \<Rightarrow> False
    | Some route \<Rightarrow> (case inputOperation doc (or_path route) (or_method route) of
        None \<Rightarrow> False
      | Some oper \<Rightarrow> list_ex (\<lambda>p. pm_in p = InHeader \<and> to_lower (pm_name p) = ''if-match'' \<and> pm_required p) (op_parameters oper)))"

definition rc_responseSupportsHateoas :: "openapi \<Rightarrow> routes \<Rightarrow> string \<Rightarrow> nat \<Rightarrow> json \<Rightarrow> bool" where
  "rc_responseSupportsHateoas doc routes oid status body = responseSupportsHateoas
     (Option.bind (map_of routes oid) (\<lambda>route. inputOperation doc (or_path route) (or_method route))) status body"

subsection \<open>Validation\<close>

definition rc_validateRequest :: "ajv \<Rightarrow> openapi \<Rightarrow> routes \<Rightarrow> bool \<Rightarrow> string \<Rightarrow> json \<Rightarrow> request option \<Rightarrow> exn + json" where
  "rc_validateRequest ajv doc routes item oid payload rq = rbind (requestRoute doc routes oid rq) (\<lambda>resolved. case resolved of
      None \<Rightarrow> Inr payload
    | Some (method, path, params) \<Rightarrow> validateRequestWithMode ajv doc method path payload
        (case rq of Some r \<Rightarrow> cm_query (rq_command r) | None \<Rightarrow> []) params (case rq of Some r \<Rightarrow> rq_headers r | None \<Rightarrow> [])
        (if item then BatchItemMode else FullMode))"

definition rc_validateBatchRequest :: "ajv \<Rightarrow> openapi \<Rightarrow> routes \<Rightarrow> string \<Rightarrow> json \<Rightarrow> request option \<Rightarrow> exn + json" where
  "rc_validateBatchRequest ajv doc routes oid payload rq = rbind (requestRoute doc routes oid rq) (\<lambda>resolved. case resolved of
      None \<Rightarrow> Inr payload
    | Some (method, path, params) \<Rightarrow> validateRequestWithMode ajv doc method path payload
        (case rq of Some r \<Rightarrow> cm_query (rq_command r) | None \<Rightarrow> []) params (case rq of Some r \<Rightarrow> rq_headers r | None \<Rightarrow> [])
        BatchMode)"

definition rc_validateResponse ::
    "ajv \<Rightarrow> openapi \<Rightarrow> routes \<Rightarrow> bool \<Rightarrow> string \<Rightarrow> nat \<Rightarrow> json \<Rightarrow> request option \<Rightarrow> bool option \<Rightarrow> exn + unit" where
  "rc_validateResponse ajv doc routes item oid status body rq allow = rbind (requestRoute doc routes oid rq) (\<lambda>resolved. case resolved of
      None \<Rightarrow> Inr ()
    | Some (method, path, params) \<Rightarrow> validateResponseWithMode ajv doc method path status body (allow = Some True)
        (if item then BatchItemMode else FullMode))"

definition rc_validateBatchResponse ::
    "ajv \<Rightarrow> openapi \<Rightarrow> routes \<Rightarrow> string \<Rightarrow> nat \<Rightarrow> json \<Rightarrow> request option \<Rightarrow> bool option \<Rightarrow> exn + unit" where
  "rc_validateBatchResponse ajv doc routes oid status body rq allow = rbind (requestRoute doc routes oid rq) (\<lambda>resolved. case resolved of
      None \<Rightarrow> Inr ()
    | Some (method, path, params) \<Rightarrow> validateResponseWithMode ajv doc method path status body (allow = Some True) BatchMode)"

definition is_internal :: "exn \<Rightarrow> bool" where
  "is_internal e \<longleftrightarrow> (case e of CallbackError f \<Rightarrow> starts_with ''InternalExecutionError: '' (fg_string f) | _ \<Rightarrow> False)"

definition rc_validateEvent :: "ajv \<Rightarrow> openapi \<Rightarrow> json_object \<Rightarrow> string option \<Rightarrow> exn + unit" where
  "rc_validateEvent ajv doc payload schemaRef = (case schemaRef of
      None \<Rightarrow> Inr ()
    | Some ref \<Rightarrow> (case validateSchema ajv doc ref payload of
        Inr u \<Rightarrow> Inr u
      | Inl e \<Rightarrow> if is_internal e then Inl e
          else Inl (InternalExecutionError ''Event payload failed schema validation''
            (Some [(''code'', JStr ''SCHEMA_TYPE_MISMATCH''), (''error'', JStr (fg_string (foreign_of e)))]))))"

text \<open>A boundary without a schema accepts every entity.\<close>

definition rc_validateEntity :: "ajv \<Rightarrow> openapi \<Rightarrow> string \<Rightarrow> json_object \<Rightarrow> exn + unit" where
  "rc_validateEntity ajv doc boundary entity = (case validateEntity ajv doc boundary entity of
      Inr u \<Rightarrow> Inr u
    | Inl e \<Rightarrow> (case (is_internal e, fg_details (foreign_of e)) of
        (True, Some details) \<Rightarrow> if is_json_object (JObj details) \<and> obj_get details ''errors'' = no_entity_schema boundary then Inr () else Inl e
      | _ \<Rightarrow> Inl e))"

subsection \<open>Error bodies\<close>

definition error_context :: "json_object \<Rightarrow> err_context" where
  "error_context candidate =
     (let c = (case str_of (obj_get candidate ''code'') of Some c \<Rightarrow> Some c | None \<Rightarrow> str_of (obj_get candidate ''error''))
      in \<lparr>ec_code = c, ec_message = str_of (obj_get candidate ''message''),
          ec_details = (if obj_get candidate ''details'' \<noteq> JUndef \<and> obj_get candidate ''details'' \<noteq> JNull
            then Some (obj_get candidate ''details'')
            else map_option (\<lambda>c. JObj [(''code'', JStr c)]) c)\<rparr>)"

definition rc_shapeError :: "ajv \<Rightarrow> openapi \<Rightarrow> routes \<Rightarrow> err_env \<Rightarrow> string \<Rightarrow> nat \<Rightarrow> json \<Rightarrow> exn + json option" where
  "rc_shapeError plain doc routes env oid status body = (case map_of routes oid of
      None \<Rightarrow> Inr None
    | Some route \<Rightarrow> rbind (validateContractErrorBody plain doc (or_method route) (or_path route) status body) (\<lambda>errs.
        if errs = None then Inr (Some body)
        else buildContractErrorBody doc env (or_method route) (or_path route) status
          (error_context (if is_json_object body then asObject body else []))))"

subsection \<open>The contract of the engine\<close>

text \<open>
  The engine's record is total where the code may throw: it is meant for documents whose templates can all be
  compiled, for which \<open>operationIdFor\<close> never throws a syntax error.  The payload the validator fills in is
  dropped.
\<close>

definition answered :: "exn + 'a option \<Rightarrow> 'a option" where
  "answered r = (case r of Inr x \<Rightarrow> x | Inl _ \<Rightarrow> None)"

definition checked :: "exn + 'a \<Rightarrow> exn + unit" where
  "checked r = rbind r (\<lambda>_. Inr ())"

definition createRuntimeContract :: "ajv \<Rightarrow> ajv \<Rightarrow> err_env \<Rightarrow> openapi \<Rightarrow> exn + contract" where
  "createRuntimeContract ajv plain env doc = rbind (operationRoutes doc) (\<lambda>routes. Inr
     \<lparr>ct_operationIdFor = (\<lambda>path method. answered (operationIdFor doc routes path method)),
      ct_responseStatusFor = responseStatusFor doc routes,
      ct_pathForOperation = rc_pathForOperation routes,
      ct_validateBatchRequest = (\<lambda>oid payload rq. checked (rc_validateBatchRequest ajv doc routes oid payload (Some rq))),
      ct_validateRequest = (\<lambda>oid payload rq. checked (rc_validateRequest ajv doc routes False oid (JObj payload) (Some rq))),
      ct_validateResponse = (\<lambda>oid status body rq allow. rc_validateResponse ajv doc routes False oid status body (Some rq) allow),
      ct_shapeError = rc_shapeError plain doc routes env,
      ct_requiresPrecondition = requiresPrecondition doc routes,
      ct_validateEvent = (\<lambda>boundary type payload ref. rc_validateEvent ajv doc payload ref),
      ct_validateEntity = rc_validateEntity ajv doc,
      ct_supportsHateoas = rc_responseSupportsHateoas doc routes\<rparr>)"

end
