(* ===== verification/ContractProps.thy ===== *)
theory ContractProps
  imports RuntimeContract
begin

text \<open>
  What the contract layer promises: the route a request gets, paths that lead back to their operation,
  templates that cannot be compiled, and error bodies that fit the response schema.
\<close>

subsection \<open>Filled bodies\<close>














subsection \<open>Paths of operations\<close>

text \<open>What the loader makes of a document: every path once, every method once, in lower case.\<close>

definition openapi_ok :: "openapi \<Rightarrow> bool" where
  "openapi_ok doc \<longleftrightarrow> keys_distinct (oa_paths doc)
     \<and> list_all (\<lambda>p. keys_distinct (snd p) \<and> list_all (\<lambda>q. to_upper (fst q) \<in> set httpMethods \<and> to_lower (to_upper (fst q)) = fst q
         \<and> js_trim (fst q) = fst q) (snd p)) (oa_paths doc)"

definition routes_ok :: "openapi \<Rightarrow> routes \<Rightarrow> bool" where
  "routes_ok doc routes \<longleftrightarrow> (\<forall>oid r. map_of routes oid = Some r \<longrightarrow> or_operationId r = oid \<and>
     (\<exists>item m oper raw. (or_path r, item) \<in> set (oa_paths doc) \<and> (m, oper) \<in> set item \<and> parseHttpMethod m = Some (or_method r)
       \<and> op_operationId oper = Some raw \<and> OperationId_parse raw = Inr oid))"

lemma routes_of_operations: "operationRoutes doc = Inr routes \<Longrightarrow> routes_ok doc routes"
  unfolding operationRoutes_def
proof (rule rfold_invariant[where P = "routes_ok doc"])
  show "routes_ok doc []" by (simp add: routes_ok_def)
  fix x routes routes' assume x: "x \<in> set (oa_paths doc)" and ok: "routes_ok doc routes"
    and s: "(\<lambda>(path, item). rfold (add_route path) item) x routes = Inr routes'"
  obtain path item where p: "x = (path, item)" by (cases x)
  with s have "rfold (add_route path) item routes = Inr routes'" by simp
  then show "routes_ok doc routes'"
  proof (rule rfold_invariant[where P = "routes_ok doc", rotated 2])
    show "routes_ok doc routes" by (rule ok)
    fix e rs rs' assume e: "e \<in> set item" and rs: "routes_ok doc rs" and a: "add_route path e rs = Inr rs'"
    obtain m oper where e': "e = (m, oper)" by (cases e)
    show "routes_ok doc rs'"
    proof (cases "parseHttpMethod m \<noteq> None \<and> op_operationId oper \<noteq> None")
      case False
      with a e' have "rs' = rs" by (auto simp: add_route_def split: option.splits)
      with rs show ?thesis by simp
    next
      case True
      then obtain hm raw where mr: "parseHttpMethod m = Some hm" "op_operationId oper = Some raw" by auto
      with a e' obtain oid where o: "OperationId_parse raw = Inr oid"
        "rs' = omap_set oid \<lparr>or_operationId = oid, or_method = hm, or_path = path\<rparr> rs"
        by (auto simp: add_route_def)
      have "(path, item) \<in> set (oa_paths doc)" "(m, oper) \<in> set item" using x p e e' by simp_all
      with rs mr o show ?thesis unfolding routes_ok_def by (auto simp: AList.update_conv')
    qed
  qed
qed

lemma replace_plain: "CHR ''{'' \<notin> set s \<Longrightarrow> replace_params text (s @ r) = s @ replace_params text r"
  by (induction s) (auto simp: Let_def)

lemma replace_group: "CHR ''}'' \<notin> set n \<Longrightarrow> n \<noteq> [] \<Longrightarrow> replace_params text (CHR ''{'' # n @ CHR ''}'' # r) = text @ replace_params text r"
proof -
  assume n: "CHR ''}'' \<notin> set n" "n \<noteq> []"
  have "takeWhile (\<lambda>x. x \<noteq> CHR ''}'') (n @ CHR ''}'' # r) = n" using n(1) by (subst takeWhile_append2) auto
  with n(2) show ?thesis by (simp add: Let_def)
qed

lemma group_name_braces: "group_name n \<Longrightarrow> CHR ''}'' \<notin> set n \<and> n \<noteq> []"
proof -
  have "\<not> group_start (CHR ''}'')" by (simp add: group_start_def code_def)
  moreover have "\<not> (is_digit (CHR ''}'') \<or> code (CHR ''}'') = 183)" by (simp add: is_digit_def code_def)
  moreover assume g: "group_name n"
  ultimately show ?thesis by (cases n) (auto simp: group_name_def list_all_iff)
qed

lemma param_seg: "is_param seg \<Longrightarrow> param_name seg \<noteq> [] \<Longrightarrow> seg = CHR ''{'' # param_name seg @ [CHR ''}'']"
  unfolding is_param_def param_name_def
  by (cases seg) (auto split: if_splits, metis append_butlast_last_id butlast.simps(1))

text \<open>Filling every group with one text, when braces are only used for parameters.\<close>

lemma replace_is_fill:
  assumes "template_ok t" and "\<And>seg. seg \<in> set (segments t) \<Longrightarrow> \<not> is_param seg \<Longrightarrow> CHR ''{'' \<notin> set seg"
  shows "replace_params (encodeURIComponent v) t = fill_template (\<lambda>_. v) t"
proof -
  let ?f = "\<lambda>seg. if is_param seg then encodeURIComponent v else seg"
  have seg: "replace_params (encodeURIComponent v) (seg @ r) = ?f seg @ replace_params (encodeURIComponent v) r"
    if "seg \<in> set (segments t)" for seg r
  proof (cases "is_param seg")
    case True
    with assms(1) that have "group_name (param_name seg)" by (auto simp: template_ok_def Let_def list_all_iff)
    from group_name_braces[OF this] have n: "CHR ''}'' \<notin> set (param_name seg)" "param_name seg \<noteq> []" by simp_all
    have "seg @ r = CHR ''{'' # param_name seg @ CHR ''}'' # r" using param_seg[OF True n(2)] by (metis append_Cons append_assoc append_Nil)
    then show ?thesis unfolding replace_group[OF n, of "encodeURIComponent v" r, folded \<open>seg @ r = _\<close>] using True by simp
  next
    case False
    with assms(2)[OF that] replace_plain show ?thesis by simp
  qed
  have "replace_params (encodeURIComponent v) (js_join ''/'' ss) = js_join ''/'' (map ?f ss)" if "set ss \<subseteq> set (segments t)" for ss
    using that
  proof (induction "''/''" ss rule: js_join.induct)
    case (2 s)
    then show ?case using seg[of s "[]"] by simp
  next
    case (3 s s' ss)
    then show ?case using seg[of s "''/'' @ js_join ''/'' (s' # ss)"] replace_plain[of "''/''"] by simp
  qed simp
  from this[OF subset_refl] show ?thesis
    unfolding fill_template_def by (simp add: segments_def js_join_split)
qed

lemma operation_of_route:
  assumes "openapi_ok doc" and "routes_ok doc routes" and "map_of routes oid = Some r"
  shows "\<exists>oper raw. operation_at doc (or_path r) (to_lower (or_method r)) = Some oper \<and> op_operationId oper = Some raw
    \<and> OperationId_parse raw = Inr oid"
proof -
  from assms(2,3) obtain item m oper raw where i: "(or_path r, item) \<in> set (oa_paths doc)" "(m, oper) \<in> set item"
    and m: "parseHttpMethod m = Some (or_method r)" and raw: "op_operationId oper = Some raw" "OperationId_parse raw = Inr oid"
    unfolding routes_ok_def by blast
  from assms(1) i have d: "keys_distinct (oa_paths doc)" "keys_distinct item"
    and l: "to_lower (to_upper m) = m" "js_trim m = m" by (force simp: openapi_ok_def list_all_iff)+
  from m l(2) have "or_method r = to_upper m"
    by (auto simp: parseHttpMethod_def httpMethod_def Let_def split: if_splits)
  with l(1) i d raw show ?thesis by (auto simp: operation_at_def)
qed

text \<open>A request for which nothing matches.  A template whose parameter is no identifier makes every such
  request throw instead of finding no route.\<close>

theorem bad_template_throws:
  assumes "t \<in> set (map fst (oa_paths doc))" and "\<not> template_ok t"
  shows "matchRoute doc method path \<noteq> Inr None"
proof
  assume "matchRoute doc method path = Inr None"
  from first_route_None[OF this[unfolded matchRoute_def], of t] assms show False by (simp add: set_sortedPaths)
qed

theorem bad_template_throws_witness:
  "matchRoute \<lparr>oa_raw = JNull, oa_paths = [(''/loans/{loan-id}'', [])], oa_index = None\<rparr> ''GET'' ''/other'' \<noteq> Inr None"
  by (rule bad_template_throws[of "''/loans/{loan-id}''"])
     (simp_all add: template_ok_def segments_def is_param_def param_name_def group_name_def group_start_def is_digit_def code_def)

text \<open>C21: the most specific route.  The route of a request matches it and has an operation for its method, and every
  other template that does is no more specific: a shorter literal part, as long and more parameters, or later in
  order.\<close>

theorem route_most_specific:
  assumes "matchRoute doc method path = Inr (Some r)"
  shows "match_segments (segments (mr_contractPath r)) (segments (before_query path)) \<noteq> None
    \<and> operation_at doc (mr_contractPath r) (to_lower method) = Some (mr_operation r)
    \<and> list_all (\<lambda>u. specificity (mr_contractPath r) \<le> specificity u)
        (filter (applies doc (to_lower method) (before_query path)) (map fst (oa_paths doc)))"
  using selected_route[OF assms] by (auto simp: applies_def list_all_iff)

text \<open>C22: paths of operations.  The path the contract makes for an operation and a target leads back to the
  operation, with the target as every parameter.  This is for a target that is not empty, templates whose parameters are well formed and
  have different names, an operation whose template uses braces for parameters only and has no question mark, and a
  target for which no more specific template applies to the path: with \<open>/loans/{id}\<close> and \<open>/loans/mine\<close>, the
  target \<open>mine\<close> leads elsewhere.\<close>

theorem path_for_operation:
  assumes doc: "openapi_ok doc" and routes: "operationRoutes doc = Inr routes" and route: "map_of routes oid = Some r"
    and target: "target \<noteq> []" and templates: "list_all template_ok (map fst (oa_paths doc))"
    and plain: "list_all (\<lambda>seg. is_param seg \<or> CHR ''{'' \<notin> set seg) (segments (or_path r))" and query: "CHR ''?'' \<notin> set (or_path r)"
    and least: "list_all (\<lambda>u. applies doc (to_lower (or_method r)) (fill_template (\<lambda>_. target) (or_path r)) u
      \<longrightarrow> specificity (or_path r) \<le> specificity u) (map fst (oa_paths doc))"
  shows "\<exists>path oper. rc_pathForOperation routes oid (Some target) = Some path
    \<and> matchRoute doc (or_method r) path = Inr (Some \<lparr>mr_contractPath = or_path r,
        mr_pathParams = map (\<lambda>n. (n, target)) (param_names (or_path r)), mr_operation = oper\<rparr>)
    \<and> operationIdFor doc routes path (or_method r) = Inr (Some oid)"
proof -
  let ?t = "or_path r"
  have ok: "routes_ok doc routes" by (rule routes_of_operations[OF routes])
  from operation_of_route[OF doc ok route] obtain oper raw where o: "operation_at doc ?t (to_lower (or_method r)) = Some oper"
    and raw: "op_operationId oper = Some raw" "OperationId_parse raw = Inr oid" by blast
  have t: "template_ok ?t" using templates operation_at_path[OF o] by (auto simp: list_all_iff)
  have path: "replace_params (encodeURIComponent target) ?t = fill_template (\<lambda>_. target) ?t"
    by (rule replace_is_fill[OF t]) (use plain in \<open>auto simp: list_all_iff\<close>)
  have m: "matchRoute doc (or_method r) (fill_template (\<lambda>_. target) ?t) = Inr (Some \<lparr>mr_contractPath = ?t,
      mr_pathParams = map (\<lambda>n. (n, target)) (param_names ?t), mr_operation = oper\<rparr>)"
  proof (rule filled_route[OF o query target templates])
    fix u assume "applies doc (to_lower (or_method r)) (fill_template (\<lambda>_. target) ?t) u"
    moreover from this have "u \<in> fst ` set (oa_paths doc)" using operation_at_path by (auto simp: applies_def)
    ultimately show "specificity ?t \<le> specificity u" using least by (auto simp: list_all_iff)
  qed
  have "operationIdFor doc routes (fill_template (\<lambda>_. target) ?t) (or_method r) = Inr (Some oid)"
  proof (cases "map_of routes raw")
    case None
    then show ?thesis using raw by (simp add: operationIdFor_def m routed_def)
  next
    case (Some r')
    with ok obtain raw' where r': "or_operationId r' = raw" "OperationId_parse raw' = Inr raw" unfolding routes_ok_def by blast
    have trimmed: "raw = js_trim s" if "OperationId_parse s = Inr raw" for s raw
      using that by (auto simp: OperationId_parse_def reference_def Let_def split: if_splits)
    have "oid = raw" using trimmed[OF raw(2)] trimmed[OF r'(2)] by simp
    with r'(1) show ?thesis using Some raw by (simp add: operationIdFor_def m routed_def)
  qed
  with m path route show ?thesis by (auto simp: rc_pathForOperation_def)
qed


subsection \<open>A document\<close>

definition plain_operation :: "string \<Rightarrow> operation" where
  "plain_operation i = \<lparr>op_operationId = Some i, op_requestBody = None,
     op_responses = Some [(''404'', [(''type'', JStr ''object''), (''required'', JArr [JStr ''code'', JStr ''count'']),
       (''properties'', JObj [(''code'', JObj [(''type'', JStr ''string'')]), (''count'', JObj [(''$ref'', JStr ''#/count'')])])])],
     op_responseHeaders = None, op_parameters = [], op_extensions = []\<rparr>"

definition loan_doc :: openapi where
  "loan_doc = \<lparr>oa_raw = JObj [(''count'', JObj [(''type'', JStr ''integer''), (''minimum'', JNum 1)])],
     oa_paths = [(''/loans/{id}'', [(''get'', plain_operation ''getLoan'')]), (''/loans/mine'', [(''get'', plain_operation ''myLoans'')])],
     oa_index = None\<rparr>"



lemma loan_params: "is_param ''{id}''" "\<not> is_param ''loans''" "\<not> is_param ''mine''" "\<not> is_param ''''" "param_name ''{id}'' = ''id''"
  by (simp_all add: is_param_def param_name_def)

lemma loan_segments: "segments ''/loans/{id}'' = ['''', ''loans'', ''{id}'']" "segments ''/loans/mine'' = ['''', ''loans'', ''mine'']"
  by (simp_all add: segments_def)

lemma loan_templates: "template_ok ''/loans/{id}''" "template_ok ''/loans/mine''"
  by (simp_all add: template_ok_def loan_segments loan_params group_name_def group_start_def code_def Let_def)

lemma loan_sorted: "sortedPaths loan_doc = [''/loans/mine'', ''/loans/{id}'']"
  by (simp add: sortedPaths_def loan_doc_def specificity_def staticPrefixLength_def paramSegmentCount_def loan_segments starts_with_def)

lemma loan_get: "to_lower ''GET'' = ''get''" by code_simp

lemma loan_route: "matchRoute loan_doc ''GET'' ''/loans/mine'' = Inr (Some \<lparr>mr_contractPath = ''/loans/mine'', mr_pathParams = [],
    mr_operation = plain_operation ''myLoans''\<rparr>)"
  unfolding matchRoute_def loan_sorted loan_get
  by (simp add: before_query_def templateToRegex_def loan_templates loan_segments loan_params operation_at_def loan_doc_def)

theorem route_most_specific_witness:
  "match_segments (segments ''/loans/mine'') (segments (before_query ''/loans/mine'')) \<noteq> None
    \<and> operation_at loan_doc ''/loans/mine'' (to_lower ''GET'') = Some (plain_operation ''myLoans'')
    \<and> list_all (\<lambda>u. specificity ''/loans/mine'' \<le> specificity u)
        (filter (applies loan_doc (to_lower ''GET'') (before_query ''/loans/mine'')) (map fst (oa_paths loan_doc)))"
  using route_most_specific[OF loan_route] by simp

definition loan_routes :: routes where
  "loan_routes = [(''getLoan'', \<lparr>or_operationId = ''getLoan'', or_method = ''GET'', or_path = ''/loans/{id}''\<rparr>),
     (''myLoans'', \<lparr>or_operationId = ''myLoans'', or_method = ''GET'', or_path = ''/loans/mine''\<rparr>)]"

lemma loan_routes: "operationRoutes loan_doc = Inr loan_routes"
  by code_simp

lemma loan_openapi_ok: "openapi_ok loan_doc"
  by code_simp

lemma loan_filled: "fill_template (\<lambda>_. ''7'') ''/loans/{id}'' = ''/loans/7''"
  by code_simp

lemma loan_other: "\<not> applies loan_doc ''get'' ''/loans/7'' ''/loans/mine''"
  by code_simp

theorem path_for_operation_witness:
  "\<exists>path oper. rc_pathForOperation loan_routes ''getLoan'' (Some ''7'') = Some path
    \<and> matchRoute loan_doc ''GET'' path = Inr (Some \<lparr>mr_contractPath = ''/loans/{id}'',
        mr_pathParams = map (\<lambda>n. (n, ''7'')) (param_names ''/loans/{id}''), mr_operation = oper\<rparr>)
    \<and> operationIdFor loan_doc loan_routes path ''GET'' = Inr (Some ''getLoan'')"
  using path_for_operation[OF loan_openapi_ok loan_routes, of "''getLoan''"
      "\<lparr>or_operationId = ''getLoan'', or_method = ''GET'', or_path = ''/loans/{id}''\<rparr>" "''7''"] loan_other
  by (simp add: loan_routes_def loan_doc_def loan_templates loan_segments loan_params loan_filled loan_get)



end
