(* ===== verification/Loader.thy ===== *)
theory Loader
  imports ErrorFill
begin

text \<open>
  What the loader makes of a dereferenced OpenAPI document (\<open>contract/loader.ts\<close>): its operations with bounded
  schemas, and the merge of several documents.  Reading files, parsing YAML and dereferencing belong to other
  packages.  The fields of a form, published to the plugin, are those of \<open>contract/formFields.ts\<close>.
\<close>

definition decycledJsonObject :: "json \<Rightarrow> json_object option" where
  "decycledJsonObject v = asSchema (decycleSchema 0 v)"

definition own_extensions :: "json_object \<Rightarrow> json_object" where
  "own_extensions m = obj_from_entries (filter (\<lambda>(k, v). starts_with ''x-'' k) m)"

definition place_of :: "json \<Rightarrow> parameter_place option" where
  "place_of v = (if v = JStr ''path'' then Some InPath else if v = JStr ''query'' then Some InQuery
     else if v = JStr ''header'' then Some InHeader else None)"

definition extract_parameter :: "json \<Rightarrow> parameter option" where
  "extract_parameter v = (case v of
      JObj p \<Rightarrow> (case (obj_get p ''name'', place_of (obj_get p ''in'')) of
          (JStr n, Some pl) \<Rightarrow> Some \<lparr>pm_name = n, pm_in = pl, pm_required = (obj_get p ''required'' = JBool True),
            pm_schema = decycledJsonObject (obj_get p ''schema''), pm_extensions = own_extensions p\<rparr>
        | _ \<Rightarrow> None)
    | _ \<Rightarrow> None)"

definition extractParameters :: "json \<Rightarrow> parameter list" where
  "extractParameters v = (case v of JArr xs \<Rightarrow> List.map_filter extract_parameter xs | _ \<Rightarrow> [])"

definition is_nullish :: "json \<Rightarrow> bool" where "is_nullish v \<longleftrightarrow> v = JUndef \<or> v = JNull"

text \<open>The last of the three media types is taken even when it is missing.\<close>

definition body_schema :: "json \<Rightarrow> json_object option" where
  "body_schema rb = Option.bind (asRecord (member rb ''content'')) (\<lambda>content.
     let mediaType = (case find (\<lambda>v. \<not> is_nullish v) [obj_get content ''application/json'',
           obj_get content ''application/x-www-form-urlencoded''] of Some v \<Rightarrow> v | None \<Rightarrow> obj_get content ''multipart/form-data'')
     in Option.bind (asRecord mediaType) (\<lambda>mt. decycledJsonObject (obj_get mt ''schema'')))"

definition is_status_key :: "string \<Rightarrow> bool" where
  "is_status_key k \<longleftrightarrow> k = ''default'' \<or> (length k = 3 \<and> list_all is_digit k)"

definition json_schema_of :: "json \<Rightarrow> json_object option" where
  "json_schema_of resp = Option.bind (asRecord (member resp ''content'')) (\<lambda>content.
     Option.bind (asRecord (obj_get content ''application/json'')) (\<lambda>json. decycledJsonObject (obj_get json ''schema'')))"

definition declared_responses :: "json \<Rightarrow> json_object" where
  "declared_responses v = (case v of JObj m \<Rightarrow> filter (\<lambda>(k, r). is_status_key k \<and> is_obj r) m | _ \<Rightarrow> [])"

definition response_schemas :: "json \<Rightarrow> (string \<times> json_object) list" where
  "response_schemas v = foldl (\<lambda>acc (k, r). case json_schema_of r of Some s \<Rightarrow> obj_set k s acc | None \<Rightarrow> acc) [] (declared_responses v)"

definition response_headers :: "json \<Rightarrow> (string \<times> string list) list" where
  "response_headers v = foldl (\<lambda>acc (k, r). case member r ''headers'' of
      JObj hs \<Rightarrow> obj_set k (map (to_lower \<circ> fst) hs) acc | _ \<Rightarrow> acc) [] (declared_responses v)"

definition some_if :: "bool \<Rightarrow> 'a \<Rightarrow> 'a option" where
  "some_if b a = (if b then Some a else None)"

definition extractOperation :: "json \<Rightarrow> operation option" where
  "extractOperation v = (case v of
      JObj m \<Rightarrow> (let schemas = response_schemas (obj_get m ''responses''); hs = response_headers (obj_get m ''responses'')
        in Some \<lparr>op_operationId = str_of (obj_get m ''operationId''), op_requestBody = body_schema (obj_get m ''requestBody''),
             op_responses = some_if (schemas \<noteq> []) schemas, op_responseHeaders = some_if (hs \<noteq> []) hs,
             op_parameters = extractParameters (obj_get m ''parameters''), op_extensions = own_extensions m\<rparr>)
    | _ \<Rightarrow> None)"

definition HTTP_METHODS :: "string list" where
  "HTTP_METHODS = [''get'', ''put'', ''post'', ''delete'', ''options'', ''head'', ''patch'', ''trace'']"

definition path_item_of :: "json_object \<Rightarrow> path_item" where
  "path_item_of m = List.map_filter (\<lambda>method. map_option (Pair method) (extractOperation (obj_get m method))) HTTP_METHODS"

definition normalisePaths :: "json \<Rightarrow> (string \<times> path_item) list" where
  "normalisePaths raw = (case member raw ''paths'' of
      JObj ps \<Rightarrow> foldl (\<lambda>acc (t, v). case asRecord v of Some m \<Rightarrow> obj_set t (path_item_of m) acc | None \<Rightarrow> acc) [] ps
    | _ \<Rightarrow> [])"

text \<open>The document the loader returns for a dereferenced tree.\<close>

definition loaded :: "json \<Rightarrow> openapi" where
  "loaded raw = \<lparr>oa_raw = raw, oa_paths = normalisePaths raw, oa_index = Some (buildOperationIdIndex (normalisePaths raw))\<rparr>"

definition isOpenApiDocument :: "json \<Rightarrow> bool" where
  "isOpenApiDocument v \<longleftrightarrow> (case (asRecord v, asRecord (member v ''info'')) of
      (Some m, Some info) \<Rightarrow> str_of (obj_get info ''title'') \<noteq> None \<and> str_of (obj_get info ''version'') \<noteq> None
        \<and> (str_of (obj_get m ''openapi'') \<noteq> None \<or> str_of (obj_get m ''swagger'') \<noteq> None)
    | _ \<Rightarrow> False)"

subsection \<open>Merging\<close>

definition merge_operation :: "string \<Rightarrow> string \<Rightarrow> string \<times> operation \<Rightarrow> path_item \<Rightarrow> exn + path_item" where
  "merge_operation source path entry item = (if map_of item (fst entry) \<noteq> None
     then Inl (PlainError (''Duplicate OpenAPI operation '' @ to_upper (fst entry) @ '' '' @ path @ '' in '' @ source))
     else Inr (obj_set (fst entry) (snd entry) item))"

definition merge_path :: "string \<Rightarrow> string \<times> path_item \<Rightarrow> (string \<times> path_item) list \<Rightarrow> exn + (string \<times> path_item) list" where
  "merge_path source entry paths = (case map_of paths (fst entry) of
      None \<Rightarrow> Inr (obj_set (fst entry) (snd entry) paths)
    | Some existing \<Rightarrow> rbind (rfold (merge_operation source (fst entry)) (snd entry) existing) (\<lambda>item.
        Inr (obj_set (fst entry) item paths)))"

definition merge_code :: "string \<Rightarrow> string \<times> string \<Rightarrow> (string \<times> string) list \<Rightarrow> exn + (string \<times> string) list" where
  "merge_code source entry codes = (case map_of codes (fst entry) of
      Some v \<Rightarrow> if v \<noteq> snd entry
        then Inl (PlainError (''Conflicting OpenAPI error code mapping '' @ [CHR 0x22] @ fst entry @ [CHR 0x22] @ '' in '' @ source))
        else Inr (obj_set (fst entry) (snd entry) codes)
    | None \<Rightarrow> Inr (obj_set (fst entry) (snd entry) codes))"

text \<open>A document of the loader comes with the file it is from and its map of error codes, empty for none.\<close>

type_synonym loaded_document = "string \<times> openapi \<times> (string \<times> string) list"

definition merge_document :: "loaded_document \<Rightarrow> (string \<times> path_item) list \<times> (string \<times> string) list
    \<Rightarrow> exn + (string \<times> path_item) list \<times> (string \<times> string) list" where
  "merge_document = (\<lambda>(source, doc, codes) (paths, merged).
     rbind (rfold (merge_path source) (oa_paths doc) paths) (\<lambda>paths.
     rbind (rfold (merge_code source) codes merged) (\<lambda>merged. Inr (paths, merged))))"

text \<open>\<open>Object.assign(existing, values)\<close> for every key of a section; a key that holds no object is replaced.\<close>

definition assign_section :: "json_object \<Rightarrow> json_object \<Rightarrow> json_object" where
  "assign_section merged section = foldl (\<lambda>acc (k, v). case obj_get acc k of
      JObj existing \<Rightarrow> obj_set k (JObj (obj_spread existing (asObject v))) acc
    | _ \<Rightarrow> obj_set k v acc) merged section"

definition mergeRawOpenApiDocuments :: "json list \<Rightarrow> json_object" where
  "mergeRawOpenApiDocuments raws = (case map asObject raws of
      [] \<Rightarrow> [(''paths'', JObj [])]
    | first # rest \<Rightarrow>
        let step = (\<lambda>(merged, paths, components) document.
              (foldl (\<lambda>acc (k, v). if k \<noteq> ''paths'' \<and> k \<noteq> ''components'' \<and> obj_get acc k = JUndef then obj_set k v acc else acc) merged document,
               assign_section paths (asObject (obj_get document ''paths'')),
               assign_section components (asObject (obj_get document ''components''))))
        in case foldl step (first, asObject (obj_get first ''paths''), asObject (obj_get first ''components'')) rest of
             (merged, paths, components) \<Rightarrow>
               let merged = obj_set ''paths'' (JObj paths) merged
               in if components \<noteq> [] then obj_set ''components'' (JObj components) merged else merged)"

definition mergeOpenApiDocuments :: "loaded_document list \<Rightarrow> exn + openapi \<times> (string \<times> string) list" where
  "mergeOpenApiDocuments documents = rbind (rfold merge_document documents ([], [])) (\<lambda>(paths, codes). Inr
     (\<lparr>oa_raw = JObj (mergeRawOpenApiDocuments (map (oa_raw \<circ> fst \<circ> snd) documents)), oa_paths = paths,
      oa_index = Some (buildOperationIdIndex paths)\<rparr>, codes))"

subsection \<open>Form fields\<close>

datatype form_field_type = FormInteger | FormNumber | FormBoolean

definition form_field_type_of :: "json \<Rightarrow> form_field_type option" where
  "form_field_type_of v = (if v = JStr ''integer'' then Some FormInteger else if v = JStr ''number'' then Some FormNumber
     else if v = JStr ''boolean'' then Some FormBoolean else None)"

definition form_fields :: "json \<Rightarrow> (string \<times> form_field_type) list" where
  "form_fields oper = (case member (member (member (member (member oper ''requestBody'') ''content'')
        ''application/x-www-form-urlencoded'') ''schema'') ''properties'' of
      JObj props \<Rightarrow> obj_from_entries (List.map_filter (\<lambda>(n, p). map_option (Pair n) (form_field_type_of (member p ''type''))) props)
    | _ \<Rightarrow> [])"

definition buildFormFieldOperations :: "json \<Rightarrow> (string \<times> string \<times> (string \<times> form_field_type) list) list" where
  "buildFormFieldOperations raw = (case member raw ''paths'' of
      JObj paths \<Rightarrow> concat (map (\<lambda>(t, item). List.map_filter (\<lambda>method.
        let fs = form_fields (member item (to_lower method)) in some_if (is_obj item \<and> fs \<noteq> []) (method, t, fs)) httpMethods) paths)
    | _ \<Rightarrow> [])"

end
