(* ===== verification/LoaderProps.thy ===== *)
theory LoaderProps
  imports Loader ContractProps
begin

text \<open>
  What the loader promises: schemas of bounded depth, documents the contract can route, and merges that add up
  to their parts.
\<close>

subsection \<open>Depth of schemas\<close>

text \<open>How deep objects are nested; arrays do not count.\<close>

fun depth :: "json \<Rightarrow> nat" where
  "depth (JArr xs) = Max (insert 0 (depth ` set xs))"
| "depth (JObj m) = Suc (Max (insert 0 ((\<lambda>p. depth (snd p)) ` set m)))"
| "depth v = 0"

definition members_within :: "nat \<Rightarrow> json_object \<Rightarrow> bool" where
  "members_within n m \<longleftrightarrow> (\<forall>p\<in>set m. depth (snd p) \<le> n)"

lemma depth_object: "depth (JObj m) \<le> Suc n \<longleftrightarrow> members_within n m"
  by (auto simp: members_within_def)

lemma depth_array: "depth (JArr xs) \<le> n \<longleftrightarrow> (\<forall>x\<in>set xs. depth x \<le> n)"
  by auto

declare depth.simps(1,2) [simp del]

lemma within_delete: "members_within n m \<Longrightarrow> members_within n (obj_delete k m)"
  using set_delete_subset[of k m] by (auto simp: members_within_def obj_delete_def)

lemma within_set: "members_within n m \<Longrightarrow> depth v \<le> n \<Longrightarrow> members_within n (obj_set k v m)"
  unfolding members_within_def
proof (rule ballI)
  fix p assume m: "\<forall>p\<in>set m. depth (snd p) \<le> n" "depth v \<le> n" and p: "p \<in> set (obj_set k v m)"
  from p have "snd p = v \<or> snd p \<in> snd ` set m" by (intro snd_set_obj_set) auto
  with m show "depth (snd p) \<le> n" by auto
qed

lemma within_get: "members_within n m \<Longrightarrow> depth (obj_get m k) \<le> n"
  by (auto simp: members_within_def obj_get_def split: option.split dest!: map_of_SomeD)

lemma depth_strings: "depth (JArr (xs @ [JStr s])) \<le> n \<longleftrightarrow> depth (JArr xs) \<le> n" "depth (JArr (xs @ [JNull])) \<le> n \<longleftrightarrow> depth (JArr xs) \<le> n"
  "depth (JArr [JStr s, JStr t]) = 0"
  by (auto simp: depth_array) (simp add: depth.simps)

text \<open>A nullable node is wrapped at most once.\<close>

lemma nullable_depth:
  assumes "members_within n m" shows "depth (JObj (normalizeNullable m)) \<le> n + 2"
proof -
  have wrap: "depth (JObj [(''anyOf'', JArr [JObj r, JObj [(''type'', JStr ''null'')]])]) \<le> n + 2" if "members_within n r" for r
  proof -
    have "depth (JObj r) \<le> Suc n" "depth (JObj [(''type'', JStr ''null'')]) \<le> Suc n"
      using that by (simp_all add: depth_object) (simp add: members_within_def)
    then have "depth (JArr [JObj r, JObj [(''type'', JStr ''null'')]]) \<le> Suc n" by (simp add: depth_array)
    then show ?thesis using depth_object[of _ "Suc n"] by (simp add: members_within_def)
  qed
  have plain: "depth (JObj r) \<le> n + 2" if "members_within n r" for r
    using that depth_object[of r n] by simp
  define r where "r = (let rest = obj_delete ''nullable'' m in case obj_get rest ''enum'' of
      JArr vs \<Rightarrow> if JNull \<in> set vs then rest else obj_set ''enum'' (JArr (vs @ [JNull])) rest | _ \<Rightarrow> rest)"
  have r: "members_within n r"
  proof -
    have d: "members_within n (obj_delete ''nullable'' m)" by (rule within_delete[OF assms])
    have "depth (JArr (vs @ [JNull])) \<le> n" if "obj_get (obj_delete ''nullable'' m) ''enum'' = JArr vs" for vs
      using within_get[OF d, of "''enum''"] that by (simp add: depth_strings)
    with d show ?thesis by (auto simp: r_def Let_def intro!: within_set split: json.split)
  qed
  have t: "depth (JArr (ts @ [JStr ''null''])) \<le> n" if "obj_get r ''type'' = JArr ts" for ts
    using within_get[OF r, of "''type''"] that by (simp add: depth_strings)
  have e: "normalizeNullable m = (if obj_get m ''nullable'' \<noteq> JBool True then m
      else case obj_get r ''type'' of
          JStr t \<Rightarrow> if t \<noteq> ''null'' then obj_set ''type'' (JArr [JStr t, JStr ''null'']) r
                    else [(''anyOf'', JArr [JObj r, JObj [(''type'', JStr ''null'')]])]
        | JArr ts \<Rightarrow> if JStr ''null'' \<in> set ts then r else obj_set ''type'' (JArr (ts @ [JStr ''null''])) r
        | _ \<Rightarrow> [(''anyOf'', JArr [JObj r, JObj [(''type'', JStr ''null'')]])])"
    unfolding normalizeNullable_def r_def Let_def by (rule refl)
  show ?thesis
  proof (cases "obj_get m ''nullable'' = JBool True")
    case False
    with plain[OF assms] show ?thesis by (simp add: e)
  next
    case True
    have s: "members_within n (obj_set ''type'' (JArr [JStr t, JStr ''null'']) r)" for t
      by (rule within_set[OF r]) (simp add: depth_strings)
    show ?thesis
      using True plain[OF s] plain[OF r] plain[OF within_set[OF r t]] wrap[OF r]
      by (cases "obj_get r ''type''") (simp_all add: e)
  qed
qed

lemma decycle_depth:
  "d \<le> MAX_OPERATION_SCHEMA_DEPTH \<Longrightarrow> depth (decycleSchema d v) \<le> 2 * (MAX_OPERATION_SCHEMA_DEPTH - d) + 1"
  "d \<le> MAX_OPERATION_SCHEMA_DEPTH \<Longrightarrow> \<forall>x\<in>set (decycle_list d xs). depth x \<le> 2 * (MAX_OPERATION_SCHEMA_DEPTH - d) + 1"
  "d \<le> MAX_OPERATION_SCHEMA_DEPTH \<Longrightarrow> members_within (2 * (MAX_OPERATION_SCHEMA_DEPTH - d) + 1) (decycle_props d m)"
proof (induction d v and d xs and d m rule: decycleSchema_decycle_list_decycle_props.induct)
  case (1 d xs)
  then show ?case by (simp add: depth_array)
next
  case (2 d m)
  show ?case
  proof (cases "MAX_OPERATION_SCHEMA_DEPTH \<le> d")
    case True
    then show ?thesis by (simp add: depth.simps)
  next
    case False
    with 2 have "members_within (2 * (MAX_OPERATION_SCHEMA_DEPTH - Suc d) + 1) (decycle_props (d + 1) m)" by simp
    from nullable_depth[OF this] False show ?thesis by simp
  qed
qed (auto simp: members_within_def)

text \<open>C26: schemas are cut off.  Whatever the document holds, a schema the loader keeps nests objects at most
  seventeen deep: eight levels of the document, each of which a null may wrap once, and the empty rest.\<close>

theorem schema_depth_bounded: "depth (decycleSchema 0 v) \<le> 17"
  using decycle_depth(1)[of 0 v] by (simp add: MAX_OPERATION_SCHEMA_DEPTH_def)

subsection \<open>Loaded documents\<close>

lemma keys_map_filter: "List.map_filter (\<lambda>k. map_option (Pair k) (f k)) ks = map (\<lambda>k. (k, the (f k))) (filter (\<lambda>k. f k \<noteq> None) ks)"
  by (induction ks) (auto simp: List.map_filter_def)

lemma http_keys: "distinct HTTP_METHODS"
  "list_all (\<lambda>k. to_upper k \<in> set httpMethods \<and> to_lower (to_upper k) = k \<and> js_trim k = k) HTTP_METHODS"
  by code_simp+

lemma item_ok: "keys_distinct (path_item_of m) \<and> list_all (\<lambda>q. to_upper (fst q) \<in> set httpMethods \<and> to_lower (to_upper (fst q)) = fst q
    \<and> js_trim (fst q) = fst q) (path_item_of m)"
  unfolding path_item_of_def keys_map_filter using http_keys
  by (auto simp: list_all_iff comp_def)

lemma loaded_openapi_ok: "openapi_ok (loaded raw)"
proof -
  let ?good = "\<lambda>paths. keys_distinct paths \<and> (\<forall>item\<in>snd ` set paths. \<exists>m. item = path_item_of m)"
  let ?step = "\<lambda>acc (t, v). case asRecord v of Some m \<Rightarrow> obj_set t (path_item_of m) acc | None \<Rightarrow> acc"
  have step: "?good (?step acc p)" if "?good acc" for acc p
  proof (cases "asRecord (snd p)")
    case (Some m)
    obtain t v where p: "p = (t, v)" by (cases p)
    have "\<exists>m. item = path_item_of m" if "item \<in> snd ` set (obj_set t (path_item_of m) acc)" for item
      using snd_set_obj_set[OF that] \<open>?good acc\<close> by blast
    with Some p that show ?thesis by auto
  next
    case None
    then have "?step acc p = acc" by (cases p) simp
    with that show ?thesis by simp
  qed
  have fold: "?good (foldl ?step acc ps)" if "?good acc" for acc ps
    using that by (induction ps arbitrary: acc) (simp, metis (no_types, lifting) step foldl_Cons)
  have "?good (normalisePaths raw)"
  proof (cases "member raw ''paths''")
    case (JObj ps)
    with fold[of "[]" ps] show ?thesis by (simp add: normalisePaths_def)
  qed (simp_all add: normalisePaths_def)
  then show ?thesis using item_ok by (fastforce simp: openapi_ok_def loaded_def list_all_iff)
qed

subsection \<open>Merging\<close>

definition operations_of :: "(string \<times> path_item) list \<Rightarrow> string \<times> string \<Rightarrow> operation option" where
  "operations_of paths = (\<lambda>(t, m). Option.bind (map_of paths t) (\<lambda>item. map_of item m))"

lemma operation_at_operations: "operation_at doc t m = operations_of (oa_paths doc) (t, m)"
  by (simp add: operation_at_def operations_of_def)

lemma merged_item:
  "rfold (merge_operation s t) es item = Inr item' \<Longrightarrow> keys_distinct es \<Longrightarrow>
   map_of item' = map_of item ++ map_of es \<and> dom (map_of item) \<inter> dom (map_of es) = {}"
proof (induction es arbitrary: item)
  case (Cons e es)
  from Cons.prems(1) obtain next_item where x: "merge_operation s t e item = Inr next_item"
    "rfold (merge_operation s t) es next_item = Inr item'" by auto
  from x(1) have n: "map_of item (fst e) = None" and next_item: "next_item = obj_set (fst e) (snd e) item"
    by (auto simp: merge_operation_def split: if_splits)
  note r = x(2)[unfolded next_item]
  have e: "map_of es (fst e) = None" using Cons.prems(2) by (auto simp: map_of_eq_None_iff)
  from Cons.IH[OF r] Cons.prems(2) have m: "map_of item' = (map_of item)(fst e \<mapsto> snd e) ++ map_of es"
    and d: "dom ((map_of item)(fst e \<mapsto> snd e)) \<inter> dom (map_of es) = {}" by (simp_all only: map_of_obj_set list.map distinct.simps)
  have "map_of item' = map_of item ++ map_of (e # es)"
    unfolding m by (rule ext) (use e in \<open>cases e, auto simp: map_add_def split: option.split\<close>)
  moreover have "dom (map_of item) \<inter> dom (map_of (e # es)) = {}"
    using d n by (cases e) (auto simp: disjoint_iff split: if_splits)
  ultimately show ?case by blast
qed simp

lemma merged_path:
  assumes "merge_path s (t, item) paths = Inr paths'" and "keys_distinct item"
  shows "operations_of paths' = operations_of paths ++ operations_of [(t, item)]
    \<and> dom (operations_of paths) \<inter> dom (operations_of [(t, item)]) = {}"
proof (cases "map_of paths t")
  case None
  with assms(1) have "paths' = obj_set t item paths" by (simp add: merge_path_def)
  with None show ?thesis
    by (auto simp: operations_of_def fun_eq_iff map_add_def disjoint_iff dom_def split: option.split if_splits)
next
  case (Some existing)
  with assms(1) obtain merged where m: "rfold (merge_operation s t) item existing = Inr merged" "paths' = obj_set t merged paths"
    by (auto simp: merge_path_def)
  from merged_item[OF m(1) assms(2)] Some m(2) show ?thesis
    by (auto simp: operations_of_def fun_eq_iff map_add_def disjoint_iff dom_def split: option.split)
qed

lemma merged_document:
  "rfold (merge_path s) ps paths = Inr paths' \<Longrightarrow> keys_distinct ps \<Longrightarrow> \<forall>p\<in>set ps. keys_distinct (snd p) \<Longrightarrow>
   operations_of paths' = operations_of paths ++ operations_of ps \<and> dom (operations_of paths) \<inter> dom (operations_of ps) = {}"
proof (induction ps arbitrary: paths)
  case Nil
  then show ?case by (auto simp: operations_of_def fun_eq_iff map_add_def)
next
  case (Cons p ps)
  obtain t item where p: "p = (t, item)" by (cases p)
  from Cons.prems(1) p obtain q where q: "merge_path s (t, item) paths = Inr q" "rfold (merge_path s) ps q = Inr paths'" by auto
  from merged_path[OF q(1)] Cons.prems(3) p have 1: "operations_of q = operations_of paths ++ operations_of [(t, item)]"
    "dom (operations_of paths) \<inter> dom (operations_of [(t, item)]) = {}" by auto
  from Cons.IH[OF q(2)] Cons.prems(2,3) have 2: "operations_of paths' = operations_of q ++ operations_of ps"
    "dom (operations_of q) \<inter> dom (operations_of ps) = {}" by auto
  have n: "map_of ps t = None" using Cons.prems(2) p by (auto simp: map_of_eq_None_iff)
  have 3: "operations_of (p # ps) = operations_of [(t, item)] ++ operations_of ps"
    using n by (auto simp: p operations_of_def fun_eq_iff map_add_def split: option.split)
  show ?case using 1 2 unfolding 3 by (auto simp: map_add_assoc)
qed

lemma merged_documents:
  assumes "rfold (\<lambda>(source, doc). rfold (merge_path source) (oa_paths doc)) ds paths = Inr paths'"
    and "\<forall>d\<in>set ds. openapi_ok (snd d)"
  shows "(operations_of paths' k = Some oper \<longleftrightarrow> operations_of paths k = Some oper \<or> (\<exists>d\<in>set ds. operations_of (oa_paths (snd d)) k = Some oper))
    \<and> (if operations_of paths k = None then 0 else 1) + length (filter (\<lambda>d. operations_of (oa_paths (snd d)) k \<noteq> None) ds) \<le> 1"
  using assms
proof (induction ds arbitrary: paths)
  case (Cons d ds)
  obtain source doc where d: "d = (source, doc)" by (cases d)
  from Cons.prems(1) d obtain q where q: "rfold (merge_path source) (oa_paths doc) paths = Inr q"
    "rfold (\<lambda>(source, doc). rfold (merge_path source) (oa_paths doc)) ds q = Inr paths'" by auto
  have ok: "keys_distinct (oa_paths doc)" "\<forall>p\<in>set (oa_paths doc). keys_distinct (snd p)"
    using Cons.prems(2) d by (auto simp: openapi_ok_def list_all_iff)
  from merged_document[OF q(1) ok] have m: "operations_of q k = (operations_of paths ++ operations_of (oa_paths doc)) k"
    "operations_of paths k = None \<or> operations_of (oa_paths doc) k = None" by auto
  from Cons.IH[OF q(2)] Cons.prems(2) have ih:
    "operations_of paths' k = Some oper \<longleftrightarrow> operations_of q k = Some oper \<or> (\<exists>d\<in>set ds. operations_of (oa_paths (snd d)) k = Some oper)"
    "(if operations_of q k = None then 0 else 1) + length (filter (\<lambda>d. operations_of (oa_paths (snd d)) k \<noteq> None) ds) \<le> 1" by auto
  show ?case
  proof (cases "operations_of (oa_paths doc) k")
    case None
    with m(1) have "operations_of q k = operations_of paths k" by (simp add: map_add_def)
    with ih None d show ?thesis by simp
  next
    case (Some x)
    with m have "operations_of q k = Some x" "operations_of paths k = None" by auto
    with ih Some d show ?thesis by auto
  qed
qed simp

lemma merged_paths:
  "rfold merge_document ds (ps, cs) = Inr (ps', cs') \<Longrightarrow>
   rfold (\<lambda>(source, doc). rfold (merge_path source) (oa_paths doc)) (map (\<lambda>(source, doc, codes). (source, doc)) ds) ps = Inr ps'"
proof (induction ds arbitrary: ps cs)
  case (Cons d ds)
  obtain source doc codes where d: "d = (source, doc, codes)" by (cases d)
  from Cons.prems d obtain ps1 cs1 where 1: "rfold (merge_path source) (oa_paths doc) ps = Inr ps1" "rfold merge_document ds (ps1, cs1) = Inr (ps', cs')"
    by (auto simp: merge_document_def rbind_Inr_iff)
  from Cons.IH[OF 1(2)] 1(1) show ?case by (simp add: d)
qed simp

lemma merged_code:
  "rfold (merge_code source) entries codes = Inr codes' \<Longrightarrow> map_of codes' k = Some v \<Longrightarrow> map_of codes k = Some v \<or> (k, v) \<in> set entries"
proof (induction entries arbitrary: codes)
  case (Cons e es)
  from Cons.prems(1) obtain c where c: "merge_code source e codes = Inr c" "rfold (merge_code source) es c = Inr codes'" by (auto simp: rbind_Inr_iff)
  then have "c = obj_set (fst e) (snd e) codes" by (auto simp: merge_code_def split: option.splits if_splits)
  with Cons.IH[OF c(2) Cons.prems(2)] show ?case by (cases e) (auto split: if_splits)
qed simp

lemma kept_code:
  "rfold (merge_code source) entries codes = Inr codes' \<Longrightarrow> map_of codes k = Some v \<or> (k, v) \<in> set entries \<Longrightarrow> map_of codes' k = Some v"
proof (induction entries arbitrary: codes)
  case (Cons e es)
  from Cons.prems(1) obtain c where c: "merge_code source e codes = Inr c" "rfold (merge_code source) es c = Inr codes'" by (auto simp: rbind_Inr_iff)
  then have n: "c = obj_set (fst e) (snd e) codes" "map_of codes (fst e) = None \<or> map_of codes (fst e) = Some (snd e)"
    by (auto simp: merge_code_def split: option.splits if_splits)
  from Cons.prems(2) n have "map_of c k = Some v \<or> (k, v) \<in> set es" by (cases e) auto
  then show ?case by (rule Cons.IH[OF c(2)])
qed simp

lemma merged_codes:
  "rfold merge_document ds (ps, cs) = Inr (ps', cs') \<Longrightarrow>
   map_of cs' k = Some v \<longleftrightarrow> map_of cs k = Some v \<or> (\<exists>d\<in>set ds. (k, v) \<in> set (snd (snd d)))"
proof (induction ds arbitrary: ps cs)
  case (Cons d ds)
  obtain source doc codes where d: "d = (source, doc, codes)" by (cases d)
  from Cons.prems d obtain ps1 cs1 where 1: "rfold (merge_code source) codes cs = Inr cs1" "rfold merge_document ds (ps1, cs1) = Inr (ps', cs')"
    by (auto simp: merge_document_def rbind_Inr_iff)
  have "map_of cs1 k = Some v \<longleftrightarrow> map_of cs k = Some v \<or> (k, v) \<in> set codes" using merged_code[OF 1(1)] kept_code[OF 1(1)] by blast
  with Cons.IH[OF 1(2)] show ?case by (auto simp: d)
qed simp

text \<open>C25: merging documents.  When a merge is not refused, an operation is found in the merged document exactly when
  it is found in one of the documents, no two of them declare the same method of the same path, and a route has an error
  code exactly when one of the documents gives it that code.\<close>

theorem merge_is_union:
  assumes "mergeOpenApiDocuments documents = Inr (merged, codes)" and "list_all (\<lambda>d. openapi_ok (fst (snd d))) documents"
  shows "(operation_at merged t m = Some oper \<longleftrightarrow> (\<exists>d\<in>set documents. operation_at (fst (snd d)) t m = Some oper))
    \<and> length (filter (\<lambda>d. operation_at (fst (snd d)) t m \<noteq> None) documents) \<le> 1
    \<and> (map_of codes k = Some c \<longleftrightarrow> (\<exists>d\<in>set documents. (k, c) \<in> set (snd (snd d))))"
proof -
  let ?ds = "map (\<lambda>(source, doc, codes). (source, doc)) documents"
  from assms(1) have p: "rfold merge_document documents ([], []) = Inr (oa_paths merged, codes)"
    by (auto simp: mergeOpenApiDocuments_def rbind_Inr_iff)
  have ok: "\<forall>d\<in>set ?ds. openapi_ok (snd d)" using assms(2) by (auto simp: list_all_iff)
  have ds: "(\<exists>d\<in>set ?ds. operations_of (oa_paths (snd d)) (t, m) = Some oper) \<longleftrightarrow> (\<exists>d\<in>set documents. operation_at (fst (snd d)) t m = Some oper)"
    by (auto simp: operation_at_operations split_beta)
  have "length (filter (\<lambda>d. operations_of (oa_paths (snd d)) (t, m) \<noteq> None) ?ds)
      = length (filter (\<lambda>d. operation_at (fst (snd d)) t m \<noteq> None) documents)"
    by (simp add: filter_map o_def split_beta operation_at_operations)
  with merged_documents[OF merged_paths[OF p] ok, of "(t, m)" oper] ds merged_codes[OF p, of k c] show ?thesis
    by (simp add: operation_at_operations operations_of_def[of "[]"])
qed

definition health_doc :: openapi where
  "health_doc = \<lparr>oa_raw = JNull, oa_paths = [(''/loans/mine'', [(''post'', plain_operation ''openLoan'')])], oa_index = None\<rparr>"

definition two_documents :: "loaded_document list" where
  "two_documents = [(''a'', loan_doc, [(''404 GET /loans'', ''NO_LOAN'')]), (''b'', health_doc, [])]"

theorem merge_is_union_witness:
  "\<exists>merged codes. mergeOpenApiDocuments two_documents = Inr (merged, codes)
    \<and> operation_at merged ''/loans/mine'' ''post'' = Some (plain_operation ''openLoan'') \<and> map_of codes ''404 GET /loans'' = Some ''NO_LOAN''"
proof -
  have "case mergeOpenApiDocuments two_documents of Inr d \<Rightarrow> True | Inl _ \<Rightarrow> False" by code_simp
  then obtain merged codes where m: "mergeOpenApiDocuments two_documents = Inr (merged, codes)" by (auto split: sum.splits)
  have "openapi_ok health_doc" by code_simp
  with loan_openapi_ok have ok: "list_all (\<lambda>d. openapi_ok (fst (snd d))) two_documents" by (simp add: two_documents_def)
  have "operation_at health_doc ''/loans/mine'' ''post'' = Some (plain_operation ''openLoan'')" by code_simp
  with merge_is_union[OF m ok, of "''/loans/mine''" "''post''" "plain_operation ''openLoan''" "''404 GET /loans''" "''NO_LOAN''"] m
  show ?thesis by (auto simp: two_documents_def)
qed

end
