(* ===== verification/IdempotencyStore.thy ===== *)
theory IdempotencyStore
  imports Contracts
begin

text \<open>
  The deduplication of requests by an idempotency key (\<open>idempotency/store.ts\<close>).  SHA-256 is a parameter and
  the clock is read once for an operation.  A promise that waiters hold is a number; the table of promises
  has what each was resolved with.
\<close>

record cached_response =
  cr_status :: nat
  cr_body :: json
  cr_headers :: "headers option"
  cr_patches :: "journal_entry list option"

record idem_entry =
  ie_keyHash :: string
  ie_bodyHash :: string
  ie_idempotencyKey :: string
  ie_response :: cached_response
  ie_expiresAt :: rat

record reservation =
  pr_keyHash :: string
  pr_bodyHash :: string
  pr_promise :: nat

record idem_store =
  is_store :: "(string, idem_entry) omap"
  is_pending :: "(string, reservation) omap"
  is_promises :: "cached_response option option list"

record check_params =
  cp_actorId :: string
  cp_method :: string
  cp_path :: string
  cp_idempotencyKey :: string
  cp_body :: json
  cp_hashIncludesBody :: bool

datatype check_result = Hit cached_response | Miss | Wait nat | ConflictError exn

definition createIdempotencyStore :: idem_store where
  "createIdempotencyStore = \<lparr>is_store = [], is_pending = [], is_promises = []\<rparr>"

definition key_parts :: "check_params \<Rightarrow> string list" where
  "key_parts p = [cp_actorId p, to_upper (cp_method p), cp_path p, cp_idempotencyKey p]"

definition newline :: char where "newline = CHR 0x0A"

definition computeMapKey :: "(string \<Rightarrow> string) \<Rightarrow> check_params \<Rightarrow> string" where
  "computeMapKey sha p = sha (js_join [newline] (key_parts p))"

definition computeKeyHash :: "(string \<Rightarrow> string) \<Rightarrow> check_params \<Rightarrow> string" where
  "computeKeyHash sha p = sha (js_join [newline] (key_parts p @ (if cp_hashIncludesBody p then [json_stringify (cp_body p)] else [])))"

definition computeBodyHash :: "(string \<Rightarrow> string) \<Rightarrow> json \<Rightarrow> string" where
  "computeBodyHash sha body = sha (json_stringify body)"

definition idem_cleanup :: "rat \<Rightarrow> idem_store \<Rightarrow> idem_store" where
  "idem_cleanup t s = s\<lparr>is_store := filter (\<lambda>(k, e). t < ie_expiresAt e) (is_store s)\<rparr>"

definition idem_conflict :: "check_params \<Rightarrow> bool \<Rightarrow> exn" where
  "idem_conflict p sameBody = sim_error ''IdempotencyConflictError'' 409 ''IDEMPOTENCY_KEY_CONFLICT''
     (''Idempotency key '' @ [CHR 0x22] @ cp_idempotencyKey p @ [CHR 0x22] @
       (if sameBody then '' was previously used for a different request'' else '' was previously used with a different request body''))
     (Some [(''idempotencyKey'', JStr (cp_idempotencyKey p)), (''method'', JStr (cp_method p)), (''path'', JStr (cp_path p))])"

definition idem_check :: "(string \<Rightarrow> string) \<Rightarrow> rat \<Rightarrow> check_params \<Rightarrow> idem_store \<Rightarrow> check_result \<times> idem_store" where
  "idem_check sha t p s0 =
     (let s = idem_cleanup t s0; k = computeMapKey sha p; h = computeKeyHash sha p; b = computeBodyHash sha (cp_body p)
      in case omap_get (is_store s) k of
           Some e \<Rightarrow> (if ie_keyHash e = h then Hit (ie_response e) else ConflictError (idem_conflict p (ie_bodyHash e = b)), s)
         | None \<Rightarrow> (case omap_get (is_pending s) k of
             Some r \<Rightarrow> (if pr_keyHash r = h then Wait (pr_promise r) else ConflictError (idem_conflict p (pr_bodyHash r = b)), s)
           | None \<Rightarrow> (Miss, s\<lparr>is_pending := omap_set k \<lparr>pr_keyHash = h, pr_bodyHash = b, pr_promise = length (is_promises s)\<rparr> (is_pending s),
                              is_promises := is_promises s @ [None]\<rparr>)))"

text \<open>The promise of a reservation settles and the reservation goes.\<close>

definition settle :: "string \<Rightarrow> cached_response option \<Rightarrow> idem_store \<Rightarrow> idem_store" where
  "settle k v s = (case omap_get (is_pending s) k of
      None \<Rightarrow> s
    | Some r \<Rightarrow> s\<lparr>is_pending := omap_delete k (is_pending s), is_promises := (is_promises s)[pr_promise r := Some v]\<rparr>)"

definition idem_record :: "(string \<Rightarrow> string) \<Rightarrow> rat \<Rightarrow> check_params \<Rightarrow> cached_response \<Rightarrow> rat \<Rightarrow> idem_store \<Rightarrow> idem_store" where
  "idem_record sha t p response ttl s0 =
     (let s = idem_cleanup t s0; k = computeMapKey sha p
      in settle k (Some response) (s\<lparr>is_store := omap_set k \<lparr>ie_keyHash = computeKeyHash sha p,
           ie_bodyHash = computeBodyHash sha (cp_body p), ie_idempotencyKey = cp_idempotencyKey p, ie_response = response,
           ie_expiresAt = t + ttl\<rparr> (is_store s)\<rparr>))"

definition idem_release :: "(string \<Rightarrow> string) \<Rightarrow> check_params \<Rightarrow> idem_store \<Rightarrow> idem_store" where
  "idem_release sha p s = settle (computeMapKey sha p) None s"

definition idem_clear :: "idem_store \<Rightarrow> idem_store" where
  "idem_clear s = \<lparr>is_store = [], is_pending = [],
     is_promises = fold (\<lambda>(k, r) ps. ps[pr_promise r := Some None]) (is_pending s) (is_promises s)\<rparr>"

definition idem_size :: "rat \<Rightarrow> idem_store \<Rightarrow> nat" where
  "idem_size t s = length (filter (\<lambda>(k, e). t < ie_expiresAt e) (is_store s))"

subsection \<open>Runs\<close>

datatype idem_op =
    Check rat check_params
  | Record rat check_params cached_response rat
  | Release rat check_params
  | Clear

fun idem_step :: "(string \<Rightarrow> string) \<Rightarrow> idem_op \<Rightarrow> idem_store \<Rightarrow> check_result option \<times> idem_store" where
  "idem_step sha (Check t p) s = (case idem_check sha t p s of (r, s') \<Rightarrow> (Some r, s'))"
| "idem_step sha (Record t p v ttl) s = (None, idem_record sha t p v ttl s)"
| "idem_step sha (Release t p) s = (None, idem_release sha p s)"
| "idem_step sha Clear s = (None, idem_clear s)"

fun idem_run :: "(string \<Rightarrow> string) \<Rightarrow> idem_op list \<Rightarrow> idem_store \<Rightarrow> (idem_op \<times> check_result option) list \<times> idem_store" where
  "idem_run sha [] s = ([], s)"
| "idem_run sha (x # xs) s = (case idem_step sha x s of (r, s') \<Rightarrow>
     case idem_run sha xs s' of (tr, s'') \<Rightarrow> ((x, r) # tr, s''))"

end
