(* ===== verification/IdempotencyProps.thy ===== *)
theory IdempotencyProps
  imports IdempotencyStore
begin

text \<open>
  What the deduplication promises, over every sequence of calls: one execution at a time for a key, replays
  only of what the same actor recorded, and no waiter left behind.
\<close>

subsection \<open>One execution at a time\<close>

definition is_miss :: "(string \<Rightarrow> string) \<Rightarrow> string \<Rightarrow> idem_op \<times> check_result option \<Rightarrow> bool" where
  "is_miss sha k e \<longleftrightarrow> (case e of (Check t p, Some Miss) \<Rightarrow> computeMapKey sha p = k | _ \<Rightarrow> False)"

definition is_end :: "(string \<Rightarrow> string) \<Rightarrow> string \<Rightarrow> idem_op \<times> check_result option \<Rightarrow> bool" where
  "is_end sha k e \<longleftrightarrow> (case fst e of Check t p \<Rightarrow> False | Record t p v ttl \<Rightarrow> computeMapKey sha p = k
     | Release t p \<Rightarrow> computeMapKey sha p = k | Clear \<Rightarrow> True)"

definition in_flight :: "string \<Rightarrow> idem_store \<Rightarrow> nat" where
  "in_flight k s = (if omap_get (is_pending s) k = None then 0 else 1)"

lemma cleanup_simps [simp]:
  "is_pending (idem_cleanup t s) = is_pending s" "is_promises (idem_cleanup t s) = is_promises s"
  by (simp_all add: idem_cleanup_def)

lemma settle_pending [simp]: "omap_get (is_pending (settle k v s)) k' = (if k' = k then None else omap_get (is_pending s) k')"
  by (auto simp: settle_def AList.delete_conv' split: option.split)

lemma settle_store [simp]: "is_store (settle k v s) = is_store s"
  by (simp add: settle_def split: option.split)

lemma check_in_flight:
  assumes "idem_check sha t p s = (r, s')"
  shows "(if is_miss sha k (Check t p, Some r) then 1 else 0) + in_flight k s = in_flight k s'"
  using assms by (auto simp: idem_check_def Let_def is_miss_def in_flight_def AList.update_conv' split: option.splits if_splits)

lemma step_in_flight:
  assumes "idem_step sha x s = (r, s')"
  shows "(if is_miss sha k (x, r) then 1 else 0) + in_flight k s \<le> (if is_end sha k (x, r) then 1 else 0) + in_flight k s'"
proof (cases x)
  case (Check t p)
  with assms obtain c where c: "idem_check sha t p s = (c, s')" "r = Some c" by (auto split: prod.splits)
  from check_in_flight[OF c(1), of k] show ?thesis by (simp add: Check c(2))
qed (use assms in \<open>auto simp: is_miss_def is_end_def in_flight_def idem_record_def idem_release_def idem_clear_def Let_def\<close>)

definition misses :: "(string \<Rightarrow> string) \<Rightarrow> string \<Rightarrow> (idem_op \<times> check_result option) list \<Rightarrow> nat" where
  "misses sha k tr = length (filter (is_miss sha k) tr)"

definition ends :: "(string \<Rightarrow> string) \<Rightarrow> string \<Rightarrow> (idem_op \<times> check_result option) list \<Rightarrow> nat" where
  "ends sha k tr = length (filter (is_end sha k) tr)"

lemma run_in_flight: "idem_run sha xs s = (tr, s') \<Longrightarrow> misses sha k tr + in_flight k s \<le> ends sha k tr + in_flight k s'"
proof (induction xs arbitrary: s tr)
  case (Cons x xs)
  obtain r s1 where s1: "idem_step sha x s = (r, s1)" by (cases "idem_step sha x s")
  obtain tr1 where tr1: "idem_run sha xs s1 = (tr1, s')" "tr = (x, r) # tr1"
    using Cons.prems s1 by (auto split: prod.splits)
  from Cons.IH[OF tr1(1)] step_in_flight[OF s1, of k] show ?case
    by (simp add: tr1(2) misses_def ends_def split: if_splits)
qed (simp add: misses_def ends_def)

text \<open>C20: a request executes once at a time.  Over every sequence of calls a key is given out for execution at
  most once more than its executions were recorded, released or cleared.\<close>

theorem single_flight:
  assumes "idem_run sha calls createIdempotencyStore = (trace, s)"
  shows "misses sha key trace \<le> Suc (ends sha key trace)"
  using run_in_flight[OF assms, of key] by (simp add: in_flight_def createIdempotencyStore_def split: if_splits)

definition pay_once :: check_params where
  "pay_once = \<lparr>cp_actorId = ''ann'', cp_method = ''POST'', cp_path = ''/pay'', cp_idempotencyKey = ''k1'', cp_body = JNull,
     cp_hashIncludesBody = False\<rparr>"

definition paid :: cached_response where
  "paid = \<lparr>cr_status = 201, cr_body = JNull, cr_headers = None, cr_patches = None\<rparr>"

lemma pay_twice_run: "idem_run id [Check 0 pay_once, Check 1 pay_once, Record 2 pay_once paid 10, Check 3 pay_once] createIdempotencyStore
  = ([(Check 0 pay_once, Some Miss), (Check 1 pay_once, Some (Wait 0)), (Record 2 pay_once paid 10, None), (Check 3 pay_once, Some (Hit paid))],
     snd (idem_run id [Check 0 pay_once, Check 1 pay_once, Record 2 pay_once paid 10, Check 3 pay_once] createIdempotencyStore))"
  by (simp add: idem_check_def idem_record_def idem_cleanup_def settle_def createIdempotencyStore_def Let_def
      computeKeyHash_def computeMapKey_def pay_once_def AList.update_conv' AList.delete_conv')

theorem single_flight_witness:
  "misses id (computeMapKey id pay_once) [(Check 0 pay_once, Some Miss), (Check 1 pay_once, Some (Wait 0)),
     (Record 2 pay_once paid 10, None), (Check 3 pay_once, Some (Hit paid))]
   \<le> Suc (ends id (computeMapKey id pay_once) [(Check 0 pay_once, Some Miss), (Check 1 pay_once, Some (Wait 0)),
     (Record 2 pay_once paid 10, None), (Check 3 pay_once, Some (Hit paid))])"
  by (rule single_flight[OF pay_twice_run])

subsection \<open>Replays\<close>

definition entries_recorded :: "(string \<Rightarrow> string) \<Rightarrow> idem_op set \<Rightarrow> idem_store \<Rightarrow> bool" where
  "entries_recorded sha H s \<longleftrightarrow> (\<forall>(k, e) \<in> set (is_store s). \<exists>t q ttl. Record t q (ie_response e) ttl \<in> H \<and> computeMapKey sha q = k
     \<and> computeKeyHash sha q = ie_keyHash e \<and> ie_expiresAt e = t + ttl)"

lemma set_alist_update: "p \<in> set (AList.update k v m) \<Longrightarrow> p = (k, v) \<or> p \<in> set m"
  by (induction m) (auto split: if_splits)

lemma entries_cleanup: "entries_recorded sha H s \<Longrightarrow> entries_recorded sha H (idem_cleanup t s)"
  by (auto simp: entries_recorded_def idem_cleanup_def)

lemma entries_same_store: "is_store s' = is_store s \<Longrightarrow> entries_recorded sha H s' = entries_recorded sha H s"
  by (simp add: entries_recorded_def)

lemma entries_step:
  assumes "entries_recorded sha H s" and "idem_step sha x s = (r, s')"
  shows "entries_recorded sha (insert x H) s'"
proof -
  have mono: "entries_recorded sha H s \<Longrightarrow> entries_recorded sha (insert x H) s" for s
    unfolding entries_recorded_def by blast
  show ?thesis
  proof (cases x)
    case (Check t p)
    with assms(2) have "is_store s' = is_store (idem_cleanup t s)"
      by (auto simp: idem_check_def Let_def split: prod.splits option.splits)
    with mono[OF entries_cleanup[OF assms(1)]] entries_same_store show ?thesis by metis
  next
    case (Record t q v ttl)
    from entries_cleanup[OF assms(1), of t] have c: "entries_recorded sha H (idem_cleanup t s)" .
    from Record assms(2) have s': "is_store s' = omap_set (computeMapKey sha q) \<lparr>ie_keyHash = computeKeyHash sha q,
        ie_bodyHash = computeBodyHash sha (cp_body q), ie_idempotencyKey = cp_idempotencyKey q, ie_response = v,
        ie_expiresAt = t + ttl\<rparr> (is_store (idem_cleanup t s))" by (auto simp: idem_record_def Let_def)
    show ?thesis unfolding entries_recorded_def
    proof (rule ballI, clarify)
      fix k e assume "(k, e) \<in> set (is_store s')"
      from set_alist_update[OF this[unfolded s']] consider
        (new) "k = computeMapKey sha q" "e = \<lparr>ie_keyHash = computeKeyHash sha q,
            ie_bodyHash = computeBodyHash sha (cp_body q), ie_idempotencyKey = cp_idempotencyKey q, ie_response = v, ie_expiresAt = t + ttl\<rparr>"
        | (old) "(k, e) \<in> set (is_store (idem_cleanup t s))" by auto
      then show "\<exists>t q ttl. Record t q (ie_response e) ttl \<in> insert x H \<and> computeMapKey sha q = k \<and> computeKeyHash sha q = ie_keyHash e
          \<and> ie_expiresAt e = t + ttl"
      proof cases
        case new
        then show ?thesis using Record by (intro exI[of _ t] exI[of _ q] exI[of _ ttl]) simp
      next
        case old
        with c show ?thesis unfolding entries_recorded_def by blast
      qed
    qed
  next
    case (Release t p)
    with assms(2) have "is_store s' = is_store s" by (auto simp: idem_release_def)
    from entries_same_store[OF this, of sha "insert x H"] mono[OF assms(1)] show ?thesis by blast
  next
    case Clear
    with assms show ?thesis by (auto simp: idem_clear_def entries_recorded_def)
  qed
qed

lemma entries_run: "entries_recorded sha H s \<Longrightarrow> idem_run sha xs s = (tr, s') \<Longrightarrow> entries_recorded sha (H \<union> set xs) s'"
proof (induction xs arbitrary: H s tr)
  case (Cons x xs)
  obtain r s1 where s1: "idem_step sha x s = (r, s1)" by (cases "idem_step sha x s")
  obtain tr1 where tr1: "idem_run sha xs s1 = (tr1, s')" using Cons.prems(2) s1 by (auto split: prod.splits)
  from Cons.IH[OF entries_step[OF Cons.prems(1) s1] tr1] show ?case by simp
qed simp

lemma last_field: "a @ c # k = a' @ c # k' \<Longrightarrow> c \<notin> set k \<Longrightarrow> c \<notin> set k' \<Longrightarrow> a = a' \<and> k = k'"
proof -
  assume e: "a @ c # k = a' @ c # k'" and k: "c \<notin> set k" "c \<notin> set k'"
  have t: "takeWhile (\<lambda>x. x \<noteq> c) (rev (b @ c # l)) = rev l" if "c \<notin> set l" for b l
    using that by (simp, subst takeWhile_append2) auto
  from t[OF k(1), of a] t[OF k(2), of a'] e have "rev k = rev k'" by metis
  with e show ?thesis by simp
qed

text \<open>No line break in the fields of a request that come after the actor.\<close>

definition one_line :: "check_params \<Rightarrow> bool" where
  "one_line p \<longleftrightarrow> newline \<notin> set (to_upper (cp_method p)) \<and> newline \<notin> set (cp_path p) \<and> newline \<notin> set (cp_idempotencyKey p)"

lemma key_parts_inject:
  assumes "js_join [newline] (key_parts p) = js_join [newline] (key_parts q)" and "one_line p" and "one_line q"
  shows "key_parts p = key_parts q"
proof -
  have "((cp_actorId p @ newline # to_upper (cp_method p)) @ newline # cp_path p) @ newline # cp_idempotencyKey p
    = ((cp_actorId q @ newline # to_upper (cp_method q)) @ newline # cp_path q) @ newline # cp_idempotencyKey q"
    using assms(1) by (simp add: key_parts_def)
  from last_field[OF this] assms(2,3) have k: "cp_idempotencyKey p = cp_idempotencyKey q"
    and r: "(cp_actorId p @ newline # to_upper (cp_method p)) @ newline # cp_path p = (cp_actorId q @ newline # to_upper (cp_method q)) @ newline # cp_path q"
    by (simp_all add: one_line_def)
  from last_field[OF r] assms(2,3) have p: "cp_path p = cp_path q"
    and r': "cp_actorId p @ newline # to_upper (cp_method p) = cp_actorId q @ newline # to_upper (cp_method q)"
    by (simp_all add: one_line_def)
  from last_field[OF r'] assms(2,3) k p show ?thesis by (simp add: one_line_def key_parts_def)
qed

text \<open>The texts whose hashes the store compares, and a collision of two texts.\<close>

definition hashed_key :: "check_params \<Rightarrow> string" where
  "hashed_key p = js_join [newline] (key_parts p)"

definition hashed_request :: "check_params \<Rightarrow> string" where
  "hashed_request p = js_join [newline] (key_parts p @ (if cp_hashIncludesBody p then [json_stringify (cp_body p)] else []))"

definition collides :: "(string \<Rightarrow> string) \<Rightarrow> string \<Rightarrow> string \<Rightarrow> bool" where
  "collides sha x y \<longleftrightarrow> x \<noteq> y \<and> sha x = sha y"

lemma hashed_request_inject:
  assumes "key_parts q = key_parts p" and "hashed_request q = hashed_request p"
  shows "cp_hashIncludesBody q = cp_hashIncludesBody p
    \<and> (cp_hashIncludesBody p \<longrightarrow> json_stringify (cp_body q) = json_stringify (cp_body p))"
  using assms by (auto simp: hashed_request_def key_parts_def split: if_splits)

text \<open>C24: no replay across requests.  A response that a check replays was recorded, and has not expired, for a request
  of the same actor, method, path and key, and under the same choice of hashing bodies, with a body of the same text when
  bodies are hashed; or else the two requests are a collision of the hash, on the texts of their keys or on the
  texts of their requests.  The method, the path and the key are taken to hold no line break.\<close>

theorem replay_is_own:
  assumes "idem_run sha calls createIdempotencyStore = (trace, s)" and "fst (idem_check sha now p s) = Hit response"
    and "list_all one_line (p # [q. Record t q v ttl \<leftarrow> calls])"
  shows "\<exists>t q ttl. Record t q response ttl \<in> set calls \<and> now < t + ttl
    \<and> (collides sha (hashed_key q) (hashed_key p) \<or> collides sha (hashed_request q) (hashed_request p)
      \<or> key_parts q = key_parts p \<and> cp_hashIncludesBody q = cp_hashIncludesBody p
        \<and> (cp_hashIncludesBody p \<longrightarrow> json_stringify (cp_body q) = json_stringify (cp_body p)))"
proof -
  let ?k = "computeMapKey sha p"
  from assms(2) obtain e where e: "omap_get (is_store (idem_cleanup now s)) ?k = Some e" "ie_response e = response"
    and h: "ie_keyHash e = computeKeyHash sha p"
    by (auto simp: idem_check_def Let_def split: option.splits if_splits)
  then have c: "(?k, e) \<in> set (is_store (idem_cleanup now s))" by (auto dest: map_of_SomeD)
  then have m: "(?k, e) \<in> set (is_store s)" and now: "now < ie_expiresAt e" by (auto simp: idem_cleanup_def)
  have "entries_recorded sha (set calls) s"
    using entries_run[of sha "{}" createIdempotencyStore calls trace s] assms(1)
    by (simp add: entries_recorded_def createIdempotencyStore_def)
  with m obtain t q ttl where r: "Record t q (ie_response e) ttl \<in> set calls" "computeMapKey sha q = ?k"
    "computeKeyHash sha q = ie_keyHash e" "ie_expiresAt e = t + ttl"
    unfolding entries_recorded_def by blast
  have key: "hashed_key q = hashed_key p \<or> collides sha (hashed_key q) (hashed_key p)"
    using r(2) by (auto simp: computeMapKey_def hashed_key_def collides_def)
  have req: "hashed_request q = hashed_request p \<or> collides sha (hashed_request q) (hashed_request p)"
    using r(3) h by (auto simp: computeKeyHash_def hashed_request_def collides_def)
  have "one_line p" "one_line q" using assms(3) r(1) by (auto simp: list_all_iff)
  then have same: "hashed_key q = hashed_key p \<Longrightarrow> key_parts q = key_parts p"
    unfolding hashed_key_def by (auto dest: key_parts_inject)
  have "collides sha (hashed_key q) (hashed_key p) \<or> collides sha (hashed_request q) (hashed_request p)
      \<or> key_parts q = key_parts p \<and> cp_hashIncludesBody q = cp_hashIncludesBody p
        \<and> (cp_hashIncludesBody p \<longrightarrow> json_stringify (cp_body q) = json_stringify (cp_body p))"
    using key req same hashed_request_inject by blast
  with r now e(2) show ?thesis by auto
qed

definition pay_hashed :: check_params where
  "pay_hashed = pay_once\<lparr>cp_body := JStr ''seven'', cp_hashIncludesBody := True\<rparr>"

theorem replay_is_own_witness:
  "\<exists>t q ttl. Record t q paid ttl \<in> set [Record 2 pay_hashed paid 10] \<and> 3 < t + ttl
    \<and> key_parts q = key_parts pay_hashed \<and> cp_hashIncludesBody q = cp_hashIncludesBody pay_hashed
    \<and> json_stringify (cp_body q) = json_stringify (cp_body pay_hashed)"
proof -
  let ?s = "snd (idem_run id [Record 2 pay_hashed paid 10] createIdempotencyStore)"
  have ran: "idem_run id [Record 2 pay_hashed paid 10] createIdempotencyStore = ([(Record 2 pay_hashed paid 10, None)], ?s)" by simp
  have hit: "fst (idem_check id 3 pay_hashed ?s) = Hit paid"
    by (simp add: idem_check_def idem_record_def idem_cleanup_def settle_def createIdempotencyStore_def Let_def
      computeKeyHash_def computeMapKey_def)
  have lines: "list_all one_line (pay_hashed # [q. Record t q v ttl \<leftarrow> [Record 2 pay_hashed paid 10]])"
    by (simp add: one_line_def pay_hashed_def pay_once_def newline_def to_upper_def upper_char_def code_def)
  have bodies: "cp_hashIncludesBody pay_hashed" by (simp add: pay_hashed_def pay_once_def)
  show ?thesis using replay_is_own[OF ran hit lines] bodies by (simp add: collides_def)
qed

subsection \<open>Waiters\<close>

text \<open>Reservations hold different promises, none of them settled.\<close>

definition promises_ok :: "idem_store \<Rightarrow> bool" where
  "promises_ok s \<longleftrightarrow> keys_distinct (is_pending s) \<and> distinct (map (pr_promise \<circ> snd) (is_pending s))
     \<and> list_all (\<lambda>p. pr_promise (snd p) < length (is_promises s) \<and> is_promises s ! pr_promise (snd p) = None) (is_pending s)"

lemma promise_unique:
  "promises_ok s \<Longrightarrow> p \<in> set (is_pending s) \<Longrightarrow> q \<in> set (is_pending s) \<Longrightarrow> pr_promise (snd p) = pr_promise (snd q) \<Longrightarrow> p = q"
  by (auto simp: promises_ok_def distinct_map inj_on_def)

lemma settle_ok:
  assumes "promises_ok s" shows "promises_ok (settle k v s)"
proof (cases "omap_get (is_pending s) k")
  case (Some r)
  then have r: "(k, r) \<in> set (is_pending s)" by (rule map_of_SomeD)
  have d: "omap_delete k (is_pending s) = filter (\<lambda>p. fst p \<noteq> k) (is_pending s)" by (auto simp: AList.delete_eq intro!: filter_cong)
  have "distinct (map (pr_promise \<circ> snd) (filter (\<lambda>p. fst p \<noteq> k) (is_pending s)))"
    using assms by (simp add: promises_ok_def distinct_map_filter)
  moreover have "pr_promise (snd p) < length (is_promises s) \<and> (is_promises s)[pr_promise r := Some v] ! pr_promise (snd p) = None"
    if "p \<in> set (is_pending s)" "fst p \<noteq> k" for p
  proof -
    have "pr_promise (snd p) \<noteq> pr_promise r" using promise_unique[OF assms that(1) r] that(2) by auto
    with that(1) assms show ?thesis by (simp add: promises_ok_def list_all_iff)
  qed
  ultimately show ?thesis using assms
    by (simp add: settle_def Some d promises_ok_def list_all_iff distinct_map_filter)
qed (use assms in \<open>simp add: settle_def\<close>)

lemma check_ok:
  assumes "promises_ok s" and "idem_check sha t p s = (r, s')"
  shows "promises_ok s'"
proof (cases "r = Miss")
  case False
  with assms(2) have "is_pending s' = is_pending s" "is_promises s' = is_promises s"
    by (auto simp: idem_check_def Let_def split: option.splits if_splits)
  with assms(1) show ?thesis by (simp add: promises_ok_def)
next
  case True
  let ?k = "computeMapKey sha p"
  from True assms(2) have n: "omap_get (is_pending s) ?k = None"
    and s': "is_pending s' = omap_set ?k \<lparr>pr_keyHash = computeKeyHash sha p, pr_bodyHash = computeBodyHash sha (cp_body p),
        pr_promise = length (is_promises s)\<rparr> (is_pending s)" "is_promises s' = is_promises s @ [None]"
    by (auto simp: idem_check_def Let_def split: option.splits if_splits)
  have u: "omap_set ?k v m = m @ [(?k, v)]" if "omap_get m ?k = None" for v and m :: "(string, reservation) omap"
    using that by (induction m) (auto split: if_splits)
  show ?thesis using assms(1) n by (auto simp: promises_ok_def s' u nth_append list_all_iff map_of_eq_None_iff)
qed

abbreviation settle_all :: "('k \<times> reservation) list \<Rightarrow> cached_response option option list \<Rightarrow> cached_response option option list" where
  "settle_all \<equiv> fold (\<lambda>(k, r) ps. ps[pr_promise r := Some None])"

lemma settle_all_length [simp]: "length (settle_all xs ps) = length ps"
  by (induction xs arbitrary: ps) auto

lemma update_settled: "n < length ps \<Longrightarrow> ps ! n = Some v \<Longrightarrow> \<exists>w'. ps[i := Some w] ! n = Some w'"
  by (cases "i = n") auto

lemma settle_all_keeps: "n < length ps \<Longrightarrow> ps ! n = Some v \<Longrightarrow> \<exists>w. settle_all xs ps ! n = Some w"
proof (induction xs arbitrary: ps v)
  case (Cons x xs)
  obtain k r where x: "x = (k, r)" by (cases x)
  have "\<exists>w. ps[pr_promise r := Some None] ! n = Some w" using Cons.prems by (cases "pr_promise r = n") auto
  then obtain w where "ps[pr_promise r := Some None] ! n = Some w" by blast
  from Cons.IH[OF _ this] Cons.prems(1) x show ?case by simp
qed simp

lemma settle_all_settles: "r \<in> snd ` set xs \<Longrightarrow> pr_promise r < length ps \<Longrightarrow> \<exists>w. settle_all xs ps ! pr_promise r = Some w"
proof (induction xs arbitrary: ps)
  case (Cons x xs)
  show ?case
  proof (cases "snd x = r")
    case True
    then show ?thesis using settle_all_keeps[of "pr_promise r" "ps[pr_promise r := Some None]" None xs] Cons.prems(2) by (cases x) simp
  next
    case False
    with Cons show ?thesis by (cases x) auto
  qed
qed simp

lemma step_ok: "promises_ok s \<Longrightarrow> idem_step sha x s = (r, s') \<Longrightarrow> promises_ok s'"
proof (cases x)
  case (Record t p v ttl)
  assume "promises_ok s" "idem_step sha x s = (r, s')"
  then show ?thesis using Record by (auto simp: idem_record_def Let_def intro!: settle_ok) (simp add: promises_ok_def)
next
  case Clear
  assume "idem_step sha x s = (r, s')"
  then show ?thesis using Clear by (auto simp: idem_clear_def promises_ok_def)
qed (auto simp: idem_release_def settle_ok split: prod.splits dest: check_ok)

text \<open>A promise is settled, or held by the reservation of the key.\<close>

definition held_or_settled :: "string \<Rightarrow> nat \<Rightarrow> idem_store \<Rightarrow> bool" where
  "held_or_settled k n s \<longleftrightarrow> n < length (is_promises s) \<and> (is_promises s ! n \<noteq> None
     \<or> (\<exists>r. omap_get (is_pending s) k = Some r \<and> pr_promise r = n))"

lemma settled_stays:
  assumes "promises_ok s" and "idem_step sha x s = (r, s')" and "n < length (is_promises s)" and "is_promises s ! n = Some v"
  shows "n < length (is_promises s') \<and> (\<exists>w. is_promises s' ! n = Some w)"
proof -
  have settled: "n < length (is_promises (settle k w u)) \<and> (\<exists>w'. is_promises (settle k w u) ! n = Some w')"
    if "is_pending u = is_pending s" "is_promises u = is_promises s" for k w u
    using that assms(3,4) by (cases "omap_get (is_pending s) k") (auto simp: settle_def intro: update_settled)
  show ?thesis
  proof (cases x)
    case (Check t p)
    with assms(2-4) show ?thesis
      by (auto simp: idem_check_def Let_def nth_append split: option.splits if_splits prod.splits)
  next
    case (Record t p w ttl)
    with assms(2) settled show ?thesis by (auto simp: idem_record_def Let_def)
  next
    case (Release t p)
    with assms(2) settled[of s] show ?thesis by (auto simp: idem_release_def)
  next
    case Clear
    with assms(2-4) Clear settle_all_keeps[OF assms(3,4)] show ?thesis by (auto simp: idem_clear_def)
  qed
qed

lemma held_step:
  assumes "promises_ok s" and "idem_step sha x s = (r, s')" and "held_or_settled k n s"
  shows "held_or_settled k n s'" and "is_end sha k (x, r) \<Longrightarrow> \<exists>v. is_promises s' ! n = Some v"
proof -
  have "held_or_settled k n s' \<and> (is_end sha k (x, r) \<longrightarrow> (\<exists>v. is_promises s' ! n = Some v))"
  proof (cases "is_promises s ! n")
    case (Some v)
    from settled_stays[OF assms(1,2) _ Some] assms(3) show ?thesis by (auto simp: held_or_settled_def)
  next
    case None
    with assms(3) obtain q where q: "omap_get (is_pending s) k = Some q" "pr_promise q = n" and n: "n < length (is_promises s)"
      by (auto simp: held_or_settled_def)
    have here: "n < length (is_promises (settle k w u)) \<and> is_promises (settle k w u) ! n = Some w"
      if "is_pending u = is_pending s" "is_promises u = is_promises s" for w u
      using that q n by (auto simp: settle_def)
    have other: "held_or_settled k n (settle k' w u)" if "k' \<noteq> k" "is_pending u = is_pending s" "is_promises u = is_promises s" for k' w u
      using that q n by (simp add: held_or_settled_def) (simp add: settle_def split: option.split)
    show ?thesis
    proof (cases x)
      case (Check t p)
      with assms(2) q n show ?thesis
        by (auto simp: idem_check_def Let_def held_or_settled_def is_end_def AList.update_conv' split: option.splits if_splits prod.splits)
    next
      case (Record t p v ttl)
      let ?u = "idem_cleanup t s\<lparr>is_store := omap_set (computeMapKey sha p) \<lparr>ie_keyHash = computeKeyHash sha p,
           ie_bodyHash = computeBodyHash sha (cp_body p), ie_idempotencyKey = cp_idempotencyKey p, ie_response = v,
           ie_expiresAt = t + ttl\<rparr> (is_store (idem_cleanup t s))\<rparr>"
      from Record assms(2) have s': "s' = settle (computeMapKey sha p) (Some v) ?u" by (simp add: idem_record_def Let_def)
      show ?thesis
      proof (cases "computeMapKey sha p = k")
        case True
        with here[of ?u "Some v"] s' show ?thesis by (simp add: held_or_settled_def)
      next
        case False
        with other[OF False, of ?u "Some v"] s' Record show ?thesis by (simp add: is_end_def)
      qed
    next
      case (Release t p)
      from Release assms(2) have s': "s' = settle (computeMapKey sha p) None s" by (simp add: idem_release_def)
      show ?thesis
      proof (cases "computeMapKey sha p = k")
        case True
        with here[of s None] s' show ?thesis by (simp add: held_or_settled_def)
      next
        case False
        with other[OF False, of s None] s' Release show ?thesis by (simp add: is_end_def)
      qed
    next
      case Clear
      have "q \<in> snd ` set (is_pending s)" using map_of_SomeD[OF q(1)] by force
      then show ?thesis using Clear assms(2) q(2) n settle_all_settles[of q "is_pending s" "is_promises s"]
        by (auto simp: idem_clear_def held_or_settled_def)
    qed
  qed
  then show "held_or_settled k n s'" "is_end sha k (x, r) \<Longrightarrow> \<exists>v. is_promises s' ! n = Some v" by simp_all
qed

lemma run_ok: "promises_ok s \<Longrightarrow> idem_run sha xs s = (tr, s') \<Longrightarrow> promises_ok s'"
proof (induction xs arbitrary: s tr)
  case (Cons x xs)
  obtain r s1 where s1: "idem_step sha x s = (r, s1)" by (cases "idem_step sha x s")
  obtain tr1 where "idem_run sha xs s1 = (tr1, s')" using Cons.prems(2) s1 by (auto split: prod.splits)
  with Cons.IH step_ok[OF Cons.prems(1) s1] show ?case by blast
qed simp

lemma held_run:
  "promises_ok s \<Longrightarrow> held_or_settled k n s \<Longrightarrow> idem_run sha xs s = (tr, s') \<Longrightarrow>
   held_or_settled k n s' \<and> ((\<exists>v. is_promises s ! n = Some v) \<or> 0 < ends sha k tr \<longrightarrow> (\<exists>v. is_promises s' ! n = Some v))"
proof (induction xs arbitrary: s tr)
  case (Cons x xs)
  obtain r s1 where s1: "idem_step sha x s = (r, s1)" by (cases "idem_step sha x s")
  obtain tr1 where tr1: "idem_run sha xs s1 = (tr1, s')" "tr = (x, r) # tr1" using Cons.prems(3) s1 by (auto split: prod.splits)
  note IH = Cons.IH[OF step_ok[OF Cons.prems(1) s1] held_step(1)[OF Cons.prems(1) s1 Cons.prems(2)] tr1(1)]
  have "\<exists>v. is_promises s1 ! n = Some v" if "\<exists>v. is_promises s ! n = Some v"
    using that settled_stays[OF Cons.prems(1) s1] Cons.prems(2) by (auto simp: held_or_settled_def)
  moreover have "\<exists>v. is_promises s1 ! n = Some v" if "is_end sha k (x, r)"
    using held_step(2)[OF Cons.prems(1) s1 Cons.prems(2) that] .
  ultimately show ?case using IH by (auto simp: tr1(2) ends_def split: if_splits)
qed (simp add: ends_def)

lemma wait_held: "idem_check sha t p s = (Wait n, s') \<Longrightarrow> promises_ok s \<Longrightarrow> promises_ok s' \<and> held_or_settled (computeMapKey sha p) n s'"
proof -
  assume c: "idem_check sha t p s = (Wait n, s')" and ok: "promises_ok s"
  from c obtain r where r: "omap_get (is_pending s) (computeMapKey sha p) = Some r" "pr_promise r = n" and s': "s' = idem_cleanup t s"
    by (auto simp: idem_check_def Let_def split: option.splits if_splits)
  have "(computeMapKey sha p, r) \<in> set (is_pending s)" using r(1) by (rule map_of_SomeD)
  with ok r s' check_ok[OF ok c] show ?thesis by (auto simp: held_or_settled_def promises_ok_def list_all_iff)
qed

text \<open>C27: no waiter is left behind.  A check told to wait for a request in flight gets an answer as soon as that key
  is recorded or released, or the store is cleared, whatever happens in between.\<close>

theorem waiter_settles:
  assumes "idem_run sha before createIdempotencyStore = (trace0, s)" and "idem_check sha t p s = (Wait n, s1)"
    and "idem_run sha later s1 = (trace, s2)" and "0 < ends sha (computeMapKey sha p) trace"
  shows "\<exists>answer. is_promises s2 ! n = Some answer"
proof -
  have "promises_ok s" by (rule run_ok[OF _ assms(1)]) (simp add: promises_ok_def createIdempotencyStore_def)
  from wait_held[OF assms(2) this] held_run[OF _ _ assms(3)] assms(4) show ?thesis by blast
qed

theorem waiter_settles_witness:
  "\<exists>answer. is_promises (snd (idem_run id [Record 2 pay_once paid 10] (snd (idem_check id 1 pay_once
     (snd (idem_run id [Check 0 pay_once] createIdempotencyStore)))))) ! 0 = Some answer"
proof (rule waiter_settles)
  show "idem_run id [Check 0 pay_once] createIdempotencyStore = ([(Check 0 pay_once, Some Miss)],
      snd (idem_run id [Check 0 pay_once] createIdempotencyStore))"
    by (simp add: idem_check_def idem_cleanup_def createIdempotencyStore_def Let_def)
  show "idem_check id 1 pay_once (snd (idem_run id [Check 0 pay_once] createIdempotencyStore))
    = (Wait 0, snd (idem_check id 1 pay_once (snd (idem_run id [Check 0 pay_once] createIdempotencyStore))))"
    by (simp add: idem_check_def idem_cleanup_def createIdempotencyStore_def Let_def)
  show "idem_run id [Record 2 pay_once paid 10] s = ([(Record 2 pay_once paid 10, None)], snd (idem_run id [Record 2 pay_once paid 10] s))" for s
    by simp
  show "0 < ends id (computeMapKey id pay_once) [(Record 2 pay_once paid 10, None)]" by (simp add: ends_def is_end_def)
qed

end
