(* ===== verification/YamlExpressions.thy ===== *)
theory YamlExpressions
  imports Program CelEval
begin

text \<open>
  Expressions of a scenario written in YAML as callbacks of the runtime (\<open>parser/yamlCompiler.ts\<close>).  The
  context a callback is given becomes the identifiers an expression reads, the expression is evaluated, and
  its value is decoded.

  The record \<open>yaml_host\<close> is what a compiled program shares: the platform under the expression language, the
  helper functions, the sources of identifiers and time, and \<open>yh_rng\<close>, the state the shared generator is in
  when an expression runs.  A request with a seed gets a generator of its own.  In a value of the context an
  optional flag that is not set is absent, and so are an empty list of committed events and an empty record
  of saga steps.
\<close>

subsection \<open>Values of the context\<close>

fun val_of :: "json \<Rightarrow> val" where
  "val_of JUndef = VUndef"
| "val_of JNull = VNull"
| "val_of (JBool b) = VBool b"
| "val_of (JNum x) = VNum (Fin x)"
| "val_of (JStr s) = VStr s"
| "val_of (JArr xs) = VArr (map val_of xs)"
| "val_of (JObj m) = VObj (map (\<lambda>(k, v). (k, val_of v)) m)"

text \<open>What \<open>isJsonValue\<close> accepts, as a JSON value; arrays have no holes.\<close>

fun json_of :: "val \<Rightarrow> json option" where
  "json_of VUndef = None"
| "json_of VNull = Some JNull"
| "json_of (VBool b) = Some (JBool b)"
| "json_of (VNum x) = (case x of Fin r \<Rightarrow> Some (JNum r) | _ \<Rightarrow> None)"
| "json_of (VStr s) = Some (JStr s)"
| "json_of (VArr xs) = map_option JArr (those (map json_of xs))"
| "json_of (VObj m) = map_option JObj (those (map (\<lambda>(k, v). map_option (Pair k) (json_of v)) m))"

definition some_val :: "string \<Rightarrow> val option \<Rightarrow> (string \<times> val) list" where
  "some_val k v = (case v of Some x \<Rightarrow> [(k, x)] | None \<Rightarrow> [])"

definition flag_val :: "string \<Rightarrow> bool \<Rightarrow> (string \<times> val) list" where
  "flag_val k b = (if b then [(k, VBool True)] else [])"

definition num_val :: "rat \<Rightarrow> val" where "num_val x = VNum (Fin x)"

definition object_val :: "json_object \<Rightarrow> val" where "object_val m = val_of (JObj m)"

definition strings_val :: "(string \<times> string) list \<Rightarrow> val" where
  "strings_val m = VObj (map (\<lambda>(k, v). (k, VStr v)) m)"

definition intent_text :: "intent \<Rightarrow> string" where
  "intent_text i = (case i of Creation \<Rightarrow> ''creation'' | Mutation \<Rightarrow> ''mutation'' | Domain.Query \<Rightarrow> ''query'')"

definition qval_val :: "qval \<Rightarrow> val" where
  "qval_val q = (case q of QOne s \<Rightarrow> VStr s | QMany ss \<Rightarrow> VArr (map VStr ss))"

definition query_val :: "query \<Rightarrow> val" where
  "query_val q = VObj (map (\<lambda>(k, v). (k, qval_val v)) q)"

definition actor_val :: "actor \<Rightarrow> val" where
  "actor_val a = VObj [(''id'', VStr (ac_id a)), (''scopes'', VArr (map VStr (ac_scopes a)))]"

definition command_val :: "command \<Rightarrow> val" where
  "command_val c = VObj ([(''commandId'', VStr (cm_id c)), (''boundary'', VStr (cm_boundary c)),
     (''intent'', VStr (intent_text (cm_intent c))),
     (''targetId'', (case cm_target c of Some t \<Rightarrow> VStr t | None \<Rightarrow> VNull)),
     (''payload'', object_val (cm_payload c)), (''queryParams'', query_val (cm_query c)),
     (''httpMethod'', VStr (cm_method c)), (''path'', VStr (cm_path c))]
     @ some_val ''operationId'' (map_option VStr (cm_operation c))
     @ some_val ''sequenceVersion'' (map_option (\<lambda>n. num_val (of_nat n)) (cm_version c))
     @ [(''origin'', VStr (case cm_origin c of Inbound \<Rightarrow> ''inbound'' | Secondary \<Rightarrow> ''secondary'')),
        (''depth'', num_val (of_nat (cm_depth c)))]
     @ some_val ''actor'' (map_option actor_val (cm_actor c)))"

definition event_request_val :: "event_request \<Rightarrow> val" where
  "event_request_val r = VObj ([(''method'', VStr (er_method r)), (''path'', VStr (er_path r))]
     @ some_val ''query'' (map_option query_val (er_query r))
     @ [(''headers'', strings_val (er_headers r)), (''payload'', object_val (er_payload r))]
     @ some_val ''actorId'' (map_option VStr (er_actorId r))
     @ some_val ''actorScopes'' (map_option (\<lambda>ss. VArr (map VStr ss)) (er_actorScopes r))
     @ some_val ''originalActorId'' (map_option VStr (er_originalActorId r))
     @ some_val ''originalActorScopes'' (map_option (\<lambda>ss. VArr (map VStr ss)) (er_originalActorScopes r)))"

definition response_val :: "response \<Rightarrow> val" where
  "response_val r = VObj [(''status'', num_val (of_nat (rs_status r))), (''body'', val_of (rs_body r)),
     (''headers'', strings_val (rs_headers r))]"

definition event_val :: "domain_event \<Rightarrow> val" where
  "event_val e = VObj ([(''eventId'', VStr (ev_id e)), (''boundary'', VStr (ev_boundary e)),
     (''aggregateId'', VStr (ev_aggregate e)), (''type'', VStr (ev_type e)), (''payload'', object_val (ev_payload e)),
     (''timestamp'', VStr (ev_timestamp e)), (''sequenceVersion'', num_val (of_nat (ev_version e))),
     (''causedBy'', (case ev_causedBy e of Some c \<Rightarrow> VStr c | None \<Rightarrow> VNull))]
     @ some_val ''intent'' (map_option (\<lambda>i. VStr (intent_text i)) (ev_intent e))
     @ some_val ''request'' (map_option event_request_val (ev_request e))
     @ some_val ''response'' (map_option response_val (ev_response e)))"

definition error_class_text :: "error_class \<Rightarrow> string" where
  "error_class_text k = (case k of Timeout \<Rightarrow> ''timeout'' | Throttle \<Rightarrow> ''throttle'' | Outage \<Rightarrow> ''outage''
     | BadGateway \<Rightarrow> ''bad_gateway'' | Conflict \<Rightarrow> ''conflict'' | AuthError \<Rightarrow> ''auth'' | Forbidden \<Rightarrow> ''forbidden'')"

definition controls_val :: "controls \<Rightarrow> val" where
  "controls_val c = VObj (flag_val ''dryRun'' (rc_dryRun c) @ flag_val ''includeEvents'' (rc_includeEvents c)
     @ flag_val ''echo'' (rc_echo c) @ some_val ''seed'' (map_option VStr (rc_seed c))
     @ some_val ''clockOffsetMs'' (map_option num_val (rc_clockOffsetMs c)) @ flag_val ''skipSagas'' (rc_skipSagas c)
     @ flag_val ''skipWebhooks'' (rc_skipWebhooks c) @ flag_val ''skipReactions'' (rc_skipReactions c)
     @ flag_val ''skipProjections'' (rc_skipProjections c) @ flag_val ''skipDispatch'' (rc_skipDispatch c)
     @ some_val ''maxCascadeDepth'' (map_option (\<lambda>n. num_val (of_nat n)) (rc_maxCascadeDepth c))
     @ some_val ''causedBy'' (map_option VStr (rc_causedBy c))
     @ some_val ''readAtVersion'' (map_option num_val (rc_readAtVersion c))
     @ some_val ''replayEvent'' (map_option VStr (rc_replayEvent c))
     @ some_val ''responseFormat'' (map_option (\<lambda>f. VStr (case f of Hal \<Rightarrow> ''hal'' | JsonApi \<Rightarrow> ''jsonapi'' | Plain \<Rightarrow> ''plain''))
          (rc_responseFormat c))
     @ some_val ''paginationStyle'' (map_option (\<lambda>p. VStr (case p of Envelope \<Rightarrow> ''envelope'' | Raw \<Rightarrow> ''raw'' | LinkHeader \<Rightarrow> ''link-header''))
          (rc_paginationStyle c))
     @ some_val ''maskFields'' (map_option (\<lambda>ss. VArr (map VStr ss)) (rc_maskFields c))
     @ flag_val ''skipRequestValidation'' (rc_skipRequestValidation c)
     @ flag_val ''skipResponseValidation'' (rc_skipResponseValidation c)
     @ some_val ''allowAdditionalProperties'' (map_option VBool (rc_allowAdditionalProperties c))
     @ some_val ''traceId'' (map_option VStr (rc_traceId c)) @ some_val ''spanName'' (map_option VStr (rc_spanName c))
     @ some_val ''useFault'' (map_option VStr (rc_useFault c)) @ some_val ''featureFlag'' (map_option VStr (rc_featureFlag c))
     @ flag_val ''rateLimit'' (rc_rateLimit c) @ some_val ''signal'' (map_option VStr (rc_signal c))
     @ some_val ''forceResponse'' (map_option VStr (rc_forceResponse c)) @ some_val ''scenario'' (map_option VStr (rc_scenario c))
     @ some_val ''forceStatus'' (map_option num_val (rc_forceStatus c))
     @ some_val ''errorClass'' (map_option (\<lambda>k. VStr (error_class_text k)) (rc_errorClass c))
     @ some_val ''forceLatencyMs'' (map_option num_val (rc_forceLatencyMs c))
     @ some_val ''jitterMs'' (map_option (\<lambda>(lo, hi). VObj [(''min'', num_val lo), (''max'', num_val hi)]) (rc_jitterMs c))
     @ some_val ''dropConnectionMs'' (map_option num_val (rc_dropConnectionMs c))
     @ some_val ''successRate'' (map_option num_val (rc_successRate c))
     @ some_val ''retryAfterSeconds'' (map_option num_val (rc_retryAfterSeconds c))
     @ some_val ''bodyTruncateBytes'' (map_option num_val (rc_bodyTruncateBytes c)))"

definition request_val :: "request \<Rightarrow> val" where
  "request_val rq =
     (let identity = some_val ''original'' (map_option actor_val (rq_original rq)) @ some_val ''effective'' (map_option actor_val (rq_effective rq));
          effects = flag_val ''skipSagas'' (rq_skipSagas rq) @ flag_val ''skipWebhooks'' (rq_skipWebhooks rq)
            @ flag_val ''skipReactions'' (rq_skipReactions rq) @ flag_val ''skipProjections'' (rq_skipProjections rq)
            @ flag_val ''skipDispatch'' (rq_skipDispatch rq)
      in VObj ([(''command'', command_val (rq_command rq)), (''headers'', strings_val (rq_headers rq))]
        @ some_val ''actor'' (map_option actor_val (rq_actor rq))
        @ (if identity = [] then [] else [(''identity'', VObj identity)])
        @ (if effects = [] then [] else [(''sideEffects'', VObj effects)])
        @ some_val ''controls'' (map_option controls_val (rq_controls rq))))"

subsection \<open>Contexts\<close>

record expression_context =
  ec_command :: "command option"
  ec_request :: "request option"
  ec_state :: "json_object option"
  ec_payload :: json_object
  ec_param :: "qval option"
  ec_event :: "domain_event option"
  ec_response :: "response option"
  ec_steps :: "(string \<times> nat \<times> json) list"
  ec_prevStep :: "(nat \<times> json) option"
  ec_committed :: "domain_event list"

definition expressionContext :: "ctx \<Rightarrow> expression_context" where
  "expressionContext c = \<lparr>ec_command = Some (cx_command c), ec_request = Some (cx_request c), ec_state = cx_state c,
     ec_payload = cx_payload c, ec_param = cx_param c, ec_event = cx_event c, ec_response = cx_response c,
     ec_steps = cx_steps c, ec_prevStep = cx_prevStep c, ec_committed = cx_committed c\<rparr>"

text \<open>A reducer has no command and no request.\<close>

definition reducerContext :: "reducer_ctx \<Rightarrow> expression_context" where
  "reducerContext c = \<lparr>ec_command = None, ec_request = None, ec_state = Some (rx_state c), ec_payload = rx_payload c,
     ec_param = None, ec_event = Some (rx_event c), ec_response = None, ec_steps = [], ec_prevStep = None, ec_committed = []\<rparr>"

definition step_val :: "nat \<times> json \<Rightarrow> val" where
  "step_val s = VObj [(''status'', num_val (of_nat (fst s))), (''body'', val_of (snd s))]"

definition identifiers :: "expression_context \<Rightarrow> cel_context" where
  "identifiers c = [(''command'', (case ec_command c of Some x \<Rightarrow> command_val x | None \<Rightarrow> VUndef)),
     (''request'', (case ec_request c of Some x \<Rightarrow> request_val x | None \<Rightarrow> VUndef)),
     (''state'', (case ec_state c of Some s \<Rightarrow> object_val s | None \<Rightarrow> VNull)), (''payload'', object_val (ec_payload c))]
     @ (case ec_command c of
         Some x \<Rightarrow> [(''query'', query_val (cm_query x)), (''params'', query_val (cm_query x)),
           (''param'', (case ec_param c of Some p \<Rightarrow> qval_val p | None \<Rightarrow> query_val (cm_query x)))]
       | None \<Rightarrow> [])
     @ some_val ''event'' (map_option event_val (ec_event c))
     @ (if ec_steps c = [] then [] else [(''steps'', VObj (map (\<lambda>(n, s). (n, step_val s)) (ec_steps c)))])
     @ some_val ''prevStep'' (map_option step_val (ec_prevStep c))
     @ (if ec_committed c = [] then [] else [(''committedEvents'', VArr (map event_val (ec_committed c)))])
     @ some_val ''response'' (map_option response_val (ec_response c))"

subsection \<open>Evaluation\<close>

record yaml_host =
  yh_host :: cel_host
  yh_custom :: "(string \<times> (val list \<Rightarrow> cel_context \<Rightarrow> cel_phase \<Rightarrow> cel_exn + val)) list"
  yh_uuid :: "nat \<Rightarrow> string"
  yh_now :: string
  yh_adminOffset :: rat
  yh_externalOffset :: rat
  yh_rng :: "string \<Rightarrow> cel_context \<Rightarrow> cel_state"

text \<open>The evaluator an expression runs on: its own for a request with an offset or a seed, or the root.\<close>

definition request_evaluator :: "controls option \<Rightarrow> cel_heap \<Rightarrow> cel_evaluator \<times> cel_heap" where
  "request_evaluator controls hp = (case controls of
      Some c \<Rightarrow> if rc_clockOffsetMs c = None \<and> rc_seed c = None then (root_evaluator, hp)
        else withRequestContext \<lparr>rx_offset = map_option Fin (rc_clockOffsetMs c), rx_seed = rc_seed c\<rparr> root_evaluator hp
    | None \<Rightarrow> (root_evaluator, hp))"

text \<open>A regular expression is refused with a text whose dash is no code unit below 256.\<close>

definition cel_failure :: "cel_exn \<Rightarrow> exn" where
  "cel_failure e = (case e of
      ParseError msg p \<Rightarrow> CallbackError (named_error ''ParseError'' msg None)
    | CelError msg \<Rightarrow> CallbackError (named_error ''Error'' msg None)
    | RegexRejected pattern reason \<Rightarrow> CallbackError (named_error ''Error'' (''CEL_TYPE_ERROR: REGEX_REJECTED - regex /'' @ pattern
        @ ''/ has a '' @ reason @ '' known to backtrack catastrophically'') None)
    | Diverges \<Rightarrow> Hang)"

definition evaluator_env :: "yaml_host \<Rightarrow> cel_phase \<Rightarrow> cel_context \<Rightarrow> cel_evaluator \<Rightarrow> cel_heap \<Rightarrow> cel_env" where
  "evaluator_env yh phase cctx cv hp = \<lparr>ce_host = yh_host yh, ce_phase = phase, ce_context = cctx, ce_custom = yh_custom yh,
     ce_now = eval_now (yh_host yh) (Some (yh_now yh)) (getClockOffset cv (yh_externalOffset yh) hp),
     ce_uuid = eval_uuid (yh_host yh) (yh_uuid yh) (cv_seed cv)\<rparr>"

definition evaluate_text :: "yaml_host \<Rightarrow> cel_phase \<Rightarrow> expression_context \<Rightarrow> string \<Rightarrow> exn + val" where
  "evaluate_text yh phase c src =
     (let cctx = identifiers c; root = yh_rng yh src cctx;
          (cv, hp) = request_evaluator (Option.bind (ec_request c) rq_controls) \<lparr>hp_admin = yh_adminOffset yh, hp_rngs = [root]\<rparr>;
          ce = evaluator_env yh phase cctx cv hp;
          run = (if js_includes ''${'' src then evaluateDslValue ce (VStr src) else CelEval.evaluate ce src)
      in case fst (run (hp_rngs hp ! cv_rng cv)) of Inl e \<Rightarrow> Inl (cel_failure e) | Inr v \<Rightarrow> Inr v)"

text \<open>Anything but text is its own value.\<close>

definition evaluate_raw :: "yaml_host \<Rightarrow> cel_phase \<Rightarrow> expression_context \<Rightarrow> json \<Rightarrow> exn + val" where
  "evaluate_raw yh phase c raw = (case raw of JStr src \<Rightarrow> evaluate_text yh phase c src | _ \<Rightarrow> Inr (val_of raw))"

subsection \<open>Decoders\<close>

definition decode_error :: "string \<Rightarrow> exn" where
  "decode_error msg = CallbackError (named_error ''TypeError'' msg None)"

definition decodeJsonValue :: "val \<Rightarrow> exn + json" where
  "decodeJsonValue v = (case json_of v of Some j \<Rightarrow> Inr j | None \<Rightarrow> Inl (decode_error ''YAML CEL expression did not produce a JSON value''))"

definition decodeOptionalJsonValue :: "val \<Rightarrow> exn + json option" where
  "decodeOptionalJsonValue v = (if v = VUndef then Inr None else rbind (decodeJsonValue v) (\<lambda>j. Inr (Some j)))"

definition decodeString :: "val \<Rightarrow> exn + string" where
  "decodeString v = (case v of VStr s \<Rightarrow> Inr s | _ \<Rightarrow> Inl (decode_error ''YAML CEL expression did not produce a string''))"

definition decodeStringOrNull :: "val \<Rightarrow> exn + string option" where
  "decodeStringOrNull v = (case v of
      VNull \<Rightarrow> Inr None
    | VStr s \<Rightarrow> Inr (Some s)
    | _ \<Rightarrow> Inl (decode_error ''YAML CEL expression did not produce a string or null''))"

definition decodeStringOrUndefined :: "val \<Rightarrow> exn + string option" where
  "decodeStringOrUndefined v = Inr (case v of VStr s \<Rightarrow> Some s | _ \<Rightarrow> None)"

definition decodeNumber :: "val \<Rightarrow> exn + rat" where
  "decodeNumber v = (case v of
      VNum (Fin x) \<Rightarrow> Inr x
    | _ \<Rightarrow> Inl (decode_error ''YAML CEL expression did not produce a finite number''))"

definition stringifyIdentity :: "val \<Rightarrow> exn + string" where
  "stringifyIdentity v = Inr (val_String v)"

text \<open>An expression that fails is its own text where a literal is allowed and it is no template.\<close>

definition literal_or :: "bool \<Rightarrow> (val \<Rightarrow> exn + 'a) \<Rightarrow> string \<Rightarrow> exn + 'a \<Rightarrow> exn + 'a" where
  "literal_or fallbackLiteral decode src r = (case r of
      Inl e \<Rightarrow> if fallbackLiteral \<and> \<not> js_includes ''${'' src \<and> e \<noteq> Hang then decode (VStr src) else Inl e
    | Inr a \<Rightarrow> Inr a)"

definition value_in :: "yaml_host \<Rightarrow> cel_phase \<Rightarrow> (val \<Rightarrow> exn + 'a) \<Rightarrow> bool \<Rightarrow> json \<Rightarrow> expression_context \<Rightarrow> exn + 'a" where
  "value_in yh phase decode fallbackLiteral raw c = (case raw of
      JStr src \<Rightarrow> literal_or fallbackLiteral decode src (rbind (evaluate_text yh phase c src) decode)
    | _ \<Rightarrow> decode (val_of raw))"

text \<open>A value that is no text is decoded when the program is compiled.\<close>

definition compiled_value :: "yaml_host \<Rightarrow> cel_phase \<Rightarrow> (val \<Rightarrow> exn + 'a) \<Rightarrow> bool \<Rightarrow> json \<Rightarrow> exn + (expression_context \<Rightarrow> exn + 'a)" where
  "compiled_value yh phase decode fallbackLiteral raw = (case raw of
      JStr src \<Rightarrow> Inr (value_in yh phase decode fallbackLiteral raw)
    | _ \<Rightarrow> rbind (decode (val_of raw)) (\<lambda>a. Inr (\<lambda>c. Inr a)))"

definition runtime_value :: "yaml_host \<Rightarrow> cel_phase \<Rightarrow> (val \<Rightarrow> exn + 'a) \<Rightarrow> bool \<Rightarrow> json \<Rightarrow> exn + 'a callback" where
  "runtime_value yh phase decode fallbackLiteral raw =
     rbind (compiled_value yh phase decode fallbackLiteral raw) (\<lambda>f. Inr (\<lambda>c. f (expressionContext c)))"

definition callbackValue :: "yaml_host \<Rightarrow> cel_phase \<Rightarrow> (val \<Rightarrow> exn + 'a) \<Rightarrow> bool \<Rightarrow> json \<Rightarrow> 'a callback" where
  "callbackValue yh phase decode fallbackLiteral raw c = value_in yh phase decode fallbackLiteral raw (expressionContext c)"

definition predicate :: "yaml_host \<Rightarrow> cel_phase \<Rightarrow> string \<Rightarrow> bool callback" where
  "predicate yh phase src c = rbind (evaluate_text yh phase (expressionContext c) src) (\<lambda>v. Inr (truthy v))"

end
