(* ===== verification/Credentials.thy ===== *)
theory Credentials
  imports Contracts
begin

text \<open>
  Credentials of a request (\<open>identity/actorExtractor.ts\<close>, \<open>jwtValidator.ts\<close>, \<open>actorResolver.ts\<close>,
  \<open>scopeChecker.ts\<close>).  The jsonwebtoken package is a parameter: \<open>jp_decode\<close> gives the header of a token
  without checking it, no header for one it cannot read, or throws; \<open>jp_verify\<close> checks signature, algorithm,
  times, issuer and audience and gives the payload, a text or an object (its declared result,
  \<open>string | JwtPayload\<close>).
\<close>

subsection \<open>Bearer credentials\<close>

definition is_newline :: "char \<Rightarrow> bool" where
  "is_newline c \<longleftrightarrow> c = CHR 0x0A \<or> c = CHR 0x0D"

definition extractBearerToken :: "string option \<Rightarrow> string option" where
  "extractBearerToken authorization = (case authorization of
      None \<Rightarrow> None
    | Some h \<Rightarrow> let header = js_trim h; rest = drop 6 header; token = dropWhile is_ws rest in
        if to_lower (take 6 header) = ''bearer'' \<and> rest \<noteq> [] \<and> is_ws (hd rest) \<and> token \<noteq> [] \<and> \<not> list_ex is_newline token
        then Some token else None)"

definition extractActor :: "string option \<Rightarrow> actor option" where
  "extractActor authorization = (case extractBearerToken authorization of
      None \<Rightarrow> None
    | Some token \<Rightarrow> if CHR '':'' \<notin> set token then Some \<lparr>ac_id = token, ac_scopes = []\<rparr>
        else let i = takeWhile (\<lambda>c. c \<noteq> CHR '':'') token;
                 scopes = filter (\<lambda>s. s \<noteq> []) (map js_trim (js_split (CHR '','') (drop (length i + 1) token)))
             in if i = [] then None else Some \<lparr>ac_id = i, ac_scopes = scopes\<rparr>)"

subsection \<open>Tokens\<close>

record jwt_config =
  jc_secret :: string
  jc_algorithm :: "string option"
  jc_issuer :: "string option"
  jc_audience :: "string option"
  jc_requiredClaims :: "(string \<times> string) list"
  jc_subjectClaim :: "string option"
  jc_scopesClaim :: "string option"

record verify_options =
  vo_algorithm :: string
  vo_issuer :: "string option"
  vo_audience :: "string option"

datatype jwt_failure = TokenExpired string | NotBefore string | JsonWebTokenFailure string | OtherFailure

record jwt_package =
  jp_decode :: "string \<Rightarrow> unit + json option"
  jp_verify :: "string \<Rightarrow> string \<Rightarrow> verify_options \<Rightarrow> jwt_failure + (string + json_object)"

definition JwtValidationError :: "string \<Rightarrow> string \<Rightarrow> exn" where
  "JwtValidationError msg err_code = CallbackError (named_error ''JwtValidationError'' msg (Some err_code))"

definition double_quoted :: "string \<Rightarrow> string" where
  "double_quoted s = dquote # s @ [dquote]"

definition has_text :: "string \<Rightarrow> string \<Rightarrow> bool" where
  "has_text part s \<longleftrightarrow> list_ex (\<lambda>n. take (length part) (drop n s) = part) [0..<Suc (length s)]"

definition mapJwtError :: "jwt_failure \<Rightarrow> string \<Rightarrow> exn" where
  "mapJwtError err configuredAlg = (case err of
      TokenExpired t \<Rightarrow> JwtValidationError (''JWT expired at '' @ t) ''JWT_EXPIRED''
    | NotBefore t \<Rightarrow> JwtValidationError (''JWT not valid until '' @ t) ''JWT_NOT_YET_VALID''
    | JsonWebTokenFailure msg \<Rightarrow>
        if has_text ''invalid algorithm'' msg
        then JwtValidationError (''JWT algorithm is not supported (expected '' @ double_quoted configuredAlg @ '')'') ''JWT_UNSUPPORTED_ALG''
        else if has_text ''invalid signature'' msg
        then JwtValidationError ''JWT signature does not match'' ''JWT_INVALID_SIGNATURE''
        else if take 18 msg = ''jwt issuer invalid'' then JwtValidationError msg ''JWT_INVALID_ISSUER''
        else if take 20 msg = ''jwt audience invalid'' then JwtValidationError msg ''JWT_INVALID_AUDIENCE''
        else JwtValidationError msg ''JWT_MALFORMED''
    | OtherFailure \<Rightarrow> JwtValidationError ''JWT validation failed'' ''JWT_MALFORMED'')"

definition configured_algorithm :: "jwt_config \<Rightarrow> string" where
  "configured_algorithm cfg = (case jc_algorithm cfg of Some a \<Rightarrow> a | None \<Rightarrow> ''HS256'')"

definition verifyOptions :: "jwt_config \<Rightarrow> verify_options" where
  "verifyOptions cfg = \<lparr>vo_algorithm = configured_algorithm cfg, vo_issuer = jc_issuer cfg, vo_audience = jc_audience cfg\<rparr>"

text \<open>The algorithm of the header is checked before the signature.\<close>

definition check_header :: "jwt_package \<Rightarrow> string \<Rightarrow> jwt_config \<Rightarrow> exn + unit" where
  "check_header lib token cfg = (case jp_decode lib token of
      Inl _ \<Rightarrow> (case jp_verify lib token (jc_secret cfg) (verifyOptions cfg) of
          Inl err \<Rightarrow> Inl (mapJwtError err (configured_algorithm cfg))
        | Inr _ \<Rightarrow> Inl (JwtValidationError ''JWT validation failed'' ''JWT_MALFORMED''))
    | Inr header \<Rightarrow> (case Option.bind header asRecord of
          None \<Rightarrow> Inl (JwtValidationError ''JWT header is not a valid JSON object'' ''JWT_MALFORMED'')
        | Some h \<Rightarrow> if obj_get h ''alg'' = JStr (configured_algorithm cfg) then Inr ()
            else Inl (JwtValidationError (''JWT algorithm '' @ double_quoted (js_String (obj_get h ''alg'')) @ '' is not supported (expected ''
              @ double_quoted (configured_algorithm cfg) @ '')'') ''JWT_UNSUPPORTED_ALG'')))"

definition verified_payload :: "jwt_package \<Rightarrow> string \<Rightarrow> jwt_config \<Rightarrow> exn + json_object" where
  "verified_payload lib token cfg = (case jp_verify lib token (jc_secret cfg) (verifyOptions cfg) of
      Inl err \<Rightarrow> Inl (mapJwtError err (configured_algorithm cfg))
    | Inr (Inl _) \<Rightarrow> Inl (JwtValidationError ''JWT payload is not a JSON object'' ''JWT_MALFORMED'')
    | Inr (Inr payload) \<Rightarrow> Inr payload)"

text \<open>
  The code asks \<open>claim in payload\<close>, which also finds the members every object inherits, and compares the text of
  what it finds: \<open>String\<close> of the claim's value, of the inherited function, or of the prototype object.
\<close>

definition inherited_functions :: "string list" where
  "inherited_functions = [''hasOwnProperty'', ''isPrototypeOf'', ''propertyIsEnumerable'', ''toString'', ''valueOf'',
     ''toLocaleString'', ''__defineGetter__'', ''__defineSetter__'', ''__lookupGetter__'', ''__lookupSetter__'']"

definition native_text :: "string \<Rightarrow> string" where
  "native_text f = ''function '' @ f @ ''() { [native code] }''"

definition inherited_text :: "string \<Rightarrow> string option" where
  "inherited_text k = (if k = ''constructor'' then Some (native_text ''Object'')
     else if k = ''__proto__'' then Some ''[object Object]''
     else if k \<in> set inherited_functions then Some (native_text k) else None)"

definition claim_text :: "json_object \<Rightarrow> string \<Rightarrow> string option" where
  "claim_text payload k = (if k \<in> fst ` set payload then Some (js_String (obj_get payload k)) else inherited_text k)"

definition check_claim :: "json_object \<Rightarrow> string \<times> string \<Rightarrow> exn + unit" where
  "check_claim payload claim = (case claim_text payload (fst claim) of
      None \<Rightarrow> Inl (JwtValidationError (''JWT missing required claim: '' @ fst claim) ''JWT_MISSING_CLAIM'')
    | Some text_of_claim \<Rightarrow> if snd claim \<noteq> ''*'' \<and> text_of_claim \<noteq> snd claim
        then Inl (JwtValidationError (''JWT claim '' @ fst claim @ '' mismatch'') ''JWT_CLAIM_MISMATCH'')
        else Inr ())"

text \<open>\<open>split(/\\s+/)\<close> with the empty pieces left out.\<close>

fun ws_words :: "string \<Rightarrow> string \<Rightarrow> string list" where
  "ws_words acc [] = (if acc = [] then [] else [acc])"
| "ws_words acc (c # s) = (if is_ws c then (if acc = [] then [] else [acc]) @ ws_words [] s else ws_words (acc @ [c]) s)"

definition claim_scopes :: "json \<Rightarrow> string list" where
  "claim_scopes v = (case str_of v of
      Some s \<Rightarrow> ws_words [] s
    | None \<Rightarrow> (case array_of v of
        Some xs \<Rightarrow> filter (\<lambda>s. s \<noteq> []) (map js_trim (List.map_filter str_of xs))
      | None \<Rightarrow> []))"

definition token_subject :: "jwt_config \<Rightarrow> json_object \<Rightarrow> exn + string" where
  "token_subject cfg payload =
     (let subjectClaim = (case jc_subjectClaim cfg of Some c \<Rightarrow> c | None \<Rightarrow> ''sub'')
      in case str_of (obj_get payload subjectClaim) of
        Some s \<Rightarrow> if js_trim s = [] then Inl (JwtValidationError (''JWT is missing required subject claim '' @ double_quoted subjectClaim) ''JWT_MISSING_CLAIM'')
            else Inr s
      | None \<Rightarrow> Inl (JwtValidationError (''JWT is missing required subject claim '' @ double_quoted subjectClaim) ''JWT_MISSING_CLAIM''))"

definition validateJwt :: "jwt_package \<Rightarrow> string \<Rightarrow> jwt_config \<Rightarrow> exn + actor" where
  "validateJwt lib token cfg =
     (if js_trim (jc_secret cfg) = []
      then Inl (JwtValidationError ''JWT shared secret must not be empty or whitespace'' ''JWT_BLANK_SECRET'')
      else if js_trim token = [] then Inl (JwtValidationError ''JWT is empty'' ''JWT_MALFORMED'')
      else if length (js_split (CHR ''.'') token) \<noteq> 3
      then Inl (JwtValidationError (''JWT must have exactly 3 segments separated by '' @ ticked ''.'' @ '', got ''
         @ dec (length (js_split (CHR ''.'') token))) ''JWT_MALFORMED'')
      else rbind (check_header lib token cfg) (\<lambda>_.
           rbind (verified_payload lib token cfg) (\<lambda>payload.
           rbind (r_map (check_claim payload) (jc_requiredClaims cfg)) (\<lambda>_.
           rbind (token_subject cfg payload) (\<lambda>i.
           Inr \<lparr>ac_id = i, ac_scopes = claim_scopes (obj_get payload (case jc_scopesClaim cfg of Some c \<Rightarrow> c | None \<Rightarrow> ''scopes''))\<rparr>)))))"

subsection \<open>The actor of a request\<close>

record auth_config =
  ax_mode :: "auth_mode option"
  ax_jwt :: "jwt_config option"
  ax_session :: session_policy

definition resolveActor :: "jwt_package \<Rightarrow> string option \<Rightarrow> auth_config option \<Rightarrow> exn + actor option" where
  "resolveActor lib authorization auth = (case auth of
      None \<Rightarrow> Inr (extractActor authorization)
    | Some a \<Rightarrow> if ax_mode a = Some JwtAuth
        then (case ax_jwt a of
            None \<Rightarrow> Inl (JwtValidationError (''auth.mode is '' @ double_quoted ''jwt'' @ '' but no auth.jwt configuration is present'') ''JWT_MALFORMED'')
          | Some cfg \<Rightarrow> (case extractBearerToken authorization of
              None \<Rightarrow> Inr None
            | Some token \<Rightarrow> rbind (validateJwt lib token cfg) (\<lambda>actor. Inr (Some actor))))
        else Inr (extractActor authorization))"

definition authorization_header :: "request \<Rightarrow> string option" where
  "authorization_header rq = (case map_of (rq_headers rq) ''authorization'' of
      Some h \<Rightarrow> Some h | None \<Rightarrow> map_of (rq_headers rq) ''Authorization'')"

definition authenticate_request :: "jwt_package \<Rightarrow> auth_config option \<Rightarrow> request \<Rightarrow> exn + actor option" where
  "authenticate_request lib auth rq =
     rbind (resolveActor lib (authorization_header rq) auth) (\<lambda>actor.
       if actor = None \<and> Option.bind auth ax_mode = Some JwtAuth
       then Inl (JwtValidationError ''Authorization header is required in JWT mode'' ''JWT_MISSING'')
       else Inr actor)"

definition checkScopes :: "actor option \<Rightarrow> string list \<Rightarrow> string \<Rightarrow> exn + unit" where
  "checkScopes actor requiredScopes bname =
     (if requiredScopes = [] then Inr ()
      else case actor of
        None \<Rightarrow> Inl (sim_error ''AuthenticationRequiredError'' 401 ''AUTH_MISSING''
          (''Behavior '' @ double_quoted bname @ '' requires authentication (scopes: '' @ js_join '', '' requiredScopes @ '')'')
          (Some [(''behavior'', JStr bname), (''requiredScopes'', JArr (map JStr requiredScopes))]))
      | Some a \<Rightarrow> let missing = filter (\<lambda>s. s \<notin> set (ac_scopes a)) requiredScopes in
          if missing = [] then Inr ()
          else Inl (sim_error ''AuthorizationDeniedError'' 403 ''AUTH_INSUFFICIENT_SCOPES''
            (''Actor '' @ double_quoted (ac_id a) @ '' lacks required scopes for behavior '' @ double_quoted bname @ '': '' @ js_join '', '' missing)
            (Some [(''behavior'', JStr bname), (''actorId'', JStr (ac_id a)), (''requiredScopes'', JArr (map JStr requiredScopes)),
              (''missingScopes'', JArr (map JStr missing)), (''actorScopes'', JArr (map JStr (ac_scopes a)))])))"

end
