(* ===== verification/YamlCompiler.thy ===== *)
theory YamlCompiler
  imports YamlExpressions Credentials Queries
begin

text \<open>
  The linked program the YAML front end hands over (\<open>dsl/types.ts\<close>) and its compilation into the runtime
  program (\<open>parser/yamlCompiler.ts\<close>): every place that takes an expression becomes a callback, in the phase
  the compiler gives it.  A compilation fails on a value that is no text and does not decode, and on a response
  helper that is not registered.
\<close>

subsection \<open>The linked program\<close>

record yaml_event =
  ye_type :: string
  ye_payloadTemplate :: "(string \<times> json) list"
  ye_schemaRef :: "string option"

record yaml_guard =
  yg_condition :: string
  yg_errorCode :: string
  yg_errorMessage :: string
  yg_errorStatus :: "nat option"

record yaml_command =
  yc_boundary :: string
  yc_intent :: intent
  yc_operationId :: string
  yc_targetId :: json
  yc_payload :: "(string \<times> json) list"
  yc_condition :: "string option"

record yaml_behavior =
  yb_name :: string
  yb_operationId :: string
  yb_condition :: string
  yb_requires :: "yaml_guard list"
  yb_requiredScopes :: "string list"
  yb_method :: "string option"
  yb_headers :: "headers option"
  yb_emit :: "string option"
  yb_emitWhen :: "(string \<times> string) list option"
  yb_dispatchCommands :: "yaml_command list"
  yb_postcondition :: "string option"
  yb_linkName :: "string option"
  yb_linkCondition :: "string option"
  yb_responseStatus :: "nat option"

record yaml_patch =
  yp_op :: patch_op
  yp_path :: string
  yp_value :: json
  yp_by :: "rat option"
  yp_key :: "string option"
  yp_deep :: bool
  yp_from :: "string option"

record yaml_reducer =
  yr_on :: string
  yr_patches :: "yaml_patch list option"
  yr_replaceState :: bool

record yaml_reaction =
  yx_name :: "string option"
  yx_on :: string
  yx_when :: "string option"
  yx_boundary :: "string option"
  yx_emit :: string
  yx_intent :: "intent option"
  yx_target :: "string option"
  yx_payload :: "(string \<times> json) list"

record yaml_fault =
  yf_name :: string
  yf_boundary :: "string option"
  yf_intent :: "intent option"
  yf_operationId :: "string option"
  yf_method :: "string option"
  yf_headers :: "headers option"
  yf_condition :: string
  yf_requires :: "yaml_guard list"
  yf_requiredScopes :: "string list"
  yf_probability :: "rat option"
  yf_response :: fault_response
  yf_delay_ms :: "rat option"

record yaml_webhook =
  yw_name :: string
  yw_boundary :: "string option"
  yw_intent :: "intent option"
  yw_condition :: string
  yw_url :: string
  yw_secret :: "string option"
  yw_payload :: "(string \<times> json) list"
  yw_maxAttempts :: "nat option"

record yaml_compensation =
  yk_intent :: intent
  yk_operationId :: string
  yk_targetId :: "string option"
  yk_payload :: "(string \<times> json) list"

record yaml_step =
  yt_name :: string
  yt_boundary :: string
  yt_intent :: intent
  yt_operationId :: string
  yt_targetId :: "string option"
  yt_payload :: "(string \<times> json) list"
  yt_compensation :: "yaml_compensation option"

record yaml_saga =
  ys_name :: string
  ys_boundary :: string
  ys_intent :: intent
  ys_condition :: string
  ys_steps :: "yaml_step list"

record yaml_query =
  yq_fields :: "(string \<times> string) list option"
  yq_filter :: "string option"
  yq_sort :: "(string \<times> bool) list option"
  yq_pageSize :: "json option"
  yq_maxPageSize :: "rat option"
  yq_cursor :: "string option"
  yq_expand :: "string list"
  yq_envelope :: bool
  yq_includeDeleted :: bool
  yq_fallback :: "json option"

record yaml_boundary =
  yn_boundary :: string
  yn_contractPath :: string
  yn_schema :: "string option"
  yn_fallbackOverride :: "bool option"
  yn_key :: "(key_source option \<times> string option \<times> string option) option"
  yn_generate :: "string option"
  yn_query :: "yaml_query option"
  yn_queryMapping :: "(string \<times> string) list option"
  yn_behaviors :: "yaml_behavior list"
  yn_reducers :: "yaml_reducer list"
  yn_eventCatalog :: "yaml_event list"
  yn_initialization :: "json_object list"
  yn_deprecated :: "deprecation option"
  yn_hateoas :: "(string \<times> string) list option"
  yn_mask :: "string list option"
  yn_auditFields :: bool
  yn_faults :: "yaml_fault list"
  yn_computed :: "(string \<times> json) list"
  yn_reactions :: "yaml_reaction list"
  yn_response :: "string option"

record yaml_projection =
  yj_name :: string
  yj_key :: string
  yj_subscribe :: "string list"
  yj_reduce :: "(string \<times> yaml_patch list option) list"

text \<open>Running the handlers of a lifecycle phase is \<open>authoring/lifecycle.ts\<close>, an argument.\<close>

record yaml_lifecycle =
  yl_boot :: "exn + unit"
  yl_validation :: "exn + unit"
  yl_initialization :: "exn + unit"
  yl_reset :: "exn + unit"
  yl_shutdown :: "exn + unit"
  yl_request :: "unit callback"
  yl_commit :: "unit callback"
  yl_postCommit :: "unit callback"
  yl_projection :: "unit callback"

record yaml_security =
  yv_enabled :: "bool option"
  yv_hsts :: "bool option"
  yv_nosniff :: bool
  yv_frame_deny :: bool
  yv_referrer_policy :: "string option"
  yv_custom_headers :: "headers option"

record yaml_program =
  ym_boundaries :: "yaml_boundary list"
  ym_sagas :: "yaml_saga list"
  ym_idempotency :: "idempotency_policy option"
  ym_derivedProjections :: "yaml_projection list"
  ym_faults :: "yaml_fault list"
  ym_fallback_rules :: "fallback_rule list"
  ym_fallback_default :: "fault_response option"
  ym_auth :: "auth_config option"
  ym_securityHeaders :: "yaml_security option"
  ym_hateoas :: "hateoas_policy option"
  ym_webhooks :: "yaml_webhook list"
  ym_reactions :: "yaml_reaction list"
  ym_lifecycle :: yaml_lifecycle

subsection \<open>Helpers\<close>

text \<open>A helper gives a value or fails with a text.\<close>

record helper_definition =
  hd_name :: string
  hd_invoke :: "json list \<Rightarrow> cel_phase \<Rightarrow> string + json"

definition jsonArguments :: "val list \<Rightarrow> cel_exn + json list" where
  "jsonArguments args = (case find (\<lambda>i. json_of (args ! i) = None) [0..<length args] of
      Some i \<Rightarrow> Inl (CelError (''YAML CEL helper argument '' @ dec i @ '' is not a JSON value''))
    | None \<Rightarrow> Inr (List.map_filter json_of args))"

definition helper_functions :: "helper_definition list \<Rightarrow> (string \<times> (val list \<Rightarrow> cel_context \<Rightarrow> cel_phase \<Rightarrow> cel_exn + val)) list" where
  "helper_functions hs = rev (map (\<lambda>h. (hd_name h, \<lambda>args cctx phase. rbind (jsonArguments args) (\<lambda>js.
     case hd_invoke h js phase of Inl msg \<Rightarrow> Inl (CelError msg) | Inr v \<Rightarrow> Inr (val_of v)))) hs)"

subsection \<open>Behaviors and events\<close>

definition compile_entries :: "yaml_host \<Rightarrow> cel_phase \<Rightarrow> (string \<times> json) list \<Rightarrow> exn + (string \<times> json callback) list" where
  "compile_entries yh phase entries = r_map (\<lambda>(k, raw).
     rbind (runtime_value yh phase decodeJsonValue True raw) (\<lambda>f. Inr (k, f))) entries"

definition compileEvent :: "yaml_host \<Rightarrow> yaml_event \<Rightarrow> exn + runtime_event" where
  "compileEvent yh e = rbind (compile_entries yh EventHydration (ye_payloadTemplate e)) (\<lambda>payload.
     Inr \<lparr>ct_type = ye_type e, ct_payload = payload, ct_schemaRef = ye_schemaRef e\<rparr>)"

definition compileGuard :: "yaml_host \<Rightarrow> yaml_guard \<Rightarrow> guard" where
  "compileGuard yh g = \<lparr>gd_check = predicate yh Behavior (yg_condition g), gd_errorCode = yg_errorCode g,
     gd_errorMessage = yg_errorMessage g, gd_errorStatus = yg_errorStatus g\<rparr>"

text \<open>\<open>text ? ... : ...\<close>: an empty text counts as none.\<close>

definition given :: "string option \<Rightarrow> string option" where
  "given s = (if s = Some [] then None else s)"

definition compile_command :: "yaml_host \<Rightarrow> yaml_command \<Rightarrow> exn + secondary_command" where
  "compile_command yh c = rbind (runtime_value yh Behavior decodeStringOrNull False (yc_targetId c)) (\<lambda>target.
     rbind (compile_entries yh Behavior (yc_payload c)) (\<lambda>payload.
     Inr \<lparr>sc_boundary = yc_boundary c, sc_intent = yc_intent c, sc_operation = yc_operationId c, sc_target = Some target,
       sc_payload = payload, sc_condition = map_option (predicate yh Behavior) (given (yc_condition c))\<rparr>))"

definition compileBehavior :: "yaml_host \<Rightarrow> yaml_behavior \<Rightarrow> exn + behavior" where
  "compileBehavior yh b = rbind (r_map (compile_command yh) (yb_dispatchCommands b)) (\<lambda>commands.
     Inr \<lparr>bh_name = yb_name b, bh_operation = yb_operationId b, bh_condition = Some (predicate yh Behavior (yb_condition b)),
       bh_requires = map (compileGuard yh) (yb_requires b), bh_requiredScopes = yb_requiredScopes b,
       bh_method = given (yb_method b), bh_headers = yb_headers b, bh_emit = given (yb_emit b),
       bh_emitWhen = map_option (map (\<lambda>(w, e). (predicate yh Behavior w, e))) (yb_emitWhen b), bh_dispatch = commands,
       bh_postcondition = map_option (predicate yh Behavior) (given (yb_postcondition b)), bh_linkName = given (yb_linkName b),
       bh_linkCondition = map_option (predicate yh Behavior) (given (yb_linkCondition b)), bh_responseStatus = yb_responseStatus b\<rparr>)"

subsection \<open>Reducers\<close>

definition BootError :: "string \<Rightarrow> string \<Rightarrow> exn" where
  "BootError err_code msg = CallbackError (named_error ''BootError'' msg (Some err_code))"

definition requiredField :: "'a option \<Rightarrow> string \<Rightarrow> exn + 'a" where
  "requiredField v field = (case v of
      Some a \<Rightarrow> Inr a
    | None \<Rightarrow> Inl (BootError ''BOOT_ERR_DSL_SCHEMA_VIOLATION'' (''YAML patch is missing '' @ field)))"

definition requireJsonObject :: "json \<Rightarrow> string \<Rightarrow> exn + json_object" where
  "requireJsonObject v field = (case asRecord v of
      Some m \<Rightarrow> Inr m
    | None \<Rightarrow> Inl (decode_error (''YAML '' @ field @ '' must evaluate to a JSON object'')))"

definition patchValue :: "yaml_host \<Rightarrow> json \<Rightarrow> expression_context \<Rightarrow> exn + json" where
  "patchValue yh raw c = rbind (evaluate_raw yh Reducer c raw) (\<lambda>v. if v = VUndef then Inr JNull else decodeJsonValue v)"

definition compilePatch :: "yaml_host \<Rightarrow> yaml_patch \<Rightarrow> expression_context \<Rightarrow> exn + patch" where
  "compilePatch yh p c =
     (let v = patchValue yh (yp_value p) c
      in case yp_op p of
        OpRemove \<Rightarrow> Inr (PRemove (yp_path p))
      | OpMove \<Rightarrow> rbind (requiredField (yp_from p) ''from'') (\<lambda>src. Inr (PMove src (yp_path p)))
      | OpCopy \<Rightarrow> rbind (requiredField (yp_from p) ''from'') (\<lambda>src. Inr (PCopy src (yp_path p)))
      | OpIncrement \<Rightarrow> Inr (PIncrement (yp_path p) (case yp_by p of Some x \<Rightarrow> x | None \<Rightarrow> 0))
      | OpUpsert \<Rightarrow> rbind (requiredField (yp_key p) ''key'') (\<lambda>key. rbind v (\<lambda>x.
          rbind (requireJsonObject x ''upsert value'') (\<lambda>m. Inr (PUpsert (yp_path p) key m))))
      | OpMerge \<Rightarrow> rbind v (\<lambda>x. rbind (requireJsonObject x ''merge value'') (\<lambda>m. Inr (PMerge (yp_path p) m (yp_deep p))))
      | OpAdd \<Rightarrow> rbind v (\<lambda>x. Inr (PAdd (yp_path p) x))
      | OpReplace \<Rightarrow> rbind v (\<lambda>x. Inr (PReplace (yp_path p) x))
      | OpAppend \<Rightarrow> rbind v (\<lambda>x. Inr (PAppend (yp_path p) x))
      | OpPrepend \<Rightarrow> rbind v (\<lambda>x. Inr (PPrepend (yp_path p) x)))"

definition compile_patches :: "yaml_host \<Rightarrow> yaml_patch list \<Rightarrow> patch list reducer_callback" where
  "compile_patches yh ps c = r_map (\<lambda>p. compilePatch yh p (reducerContext c)) ps"

definition compileReducer :: "yaml_host \<Rightarrow> yaml_reducer \<Rightarrow> reducer" where
  "compileReducer yh r = \<lparr>rd_on = yr_on r, rd_apply = map_option (compile_patches yh) (yr_patches r), rd_reduce = None,
     rd_replaceState = yr_replaceState r\<rparr>"

text \<open>A formula is evaluated in the phase of a projection, over the context of a reducer.\<close>

definition compileState :: "yaml_host \<Rightarrow> (string \<times> json) list \<Rightarrow> exn + (string \<times> json reducer_callback) list" where
  "compileState yh computed = r_map (\<lambda>(name, raw).
     rbind (compiled_value yh Projection decodeJsonValue True raw) (\<lambda>f. Inr (name, \<lambda>c. f (reducerContext c)))) computed"

subsection \<open>Reactions, faults, webhooks and sagas\<close>

definition compile_target :: "yaml_host \<Rightarrow> cel_phase \<Rightarrow> string option \<Rightarrow> string option callback option" where
  "compile_target yh phase target = map_option (\<lambda>src. callbackValue yh phase decodeStringOrNull False (JStr src)) (given target)"

definition compileReaction :: "yaml_host \<Rightarrow> string \<Rightarrow> yaml_reaction \<Rightarrow> exn + reaction" where
  "compileReaction yh boundary r = rbind (compile_entries yh PostCommit (yx_payload r)) (\<lambda>payload.
     Inr \<lparr>re_name = yx_name r, re_on = yx_on r, re_when = map_option (predicate yh PostCommit) (given (yx_when r)),
       re_boundary = (case yx_boundary r of Some b \<Rightarrow> b | None \<Rightarrow> boundary), re_emit = yx_emit r, re_intent = yx_intent r,
       re_target = compile_target yh PostCommit (yx_target r), re_payload = payload\<rparr>)"

definition fault_selector :: "headers \<Rightarrow> string \<Rightarrow> string option" where
  "fault_selector hs name = map_option snd (find (\<lambda>(k, v). to_lower k = name) hs)"

definition error_class_of :: "string \<Rightarrow> error_class option" where
  "error_class_of s = map_of [(''timeout'', Timeout), (''throttle'', Throttle), (''outage'', Outage), (''bad_gateway'', BadGateway),
     (''conflict'', Conflict), (''auth'', AuthError), (''forbidden'', Forbidden)] s"

definition fault_selectors_of :: "headers \<Rightarrow> fault_selectors option" where
  "fault_selectors_of hs =
     (let s = \<lparr>fs_signal = fault_selector hs ''x-potemkin-signal'', fs_forceResponse = fault_selector hs ''x-potemkin-force-response'',
            fs_scenario = fault_selector hs ''x-potemkin-scenario'', fs_featureFlag = fault_selector hs ''x-potemkin-feature-flag'',
            fs_errorClass = Option.bind (fault_selector hs ''x-potemkin-error-class'') error_class_of\<rparr>
      in if s = \<lparr>fs_signal = None, fs_forceResponse = None, fs_scenario = None, fs_featureFlag = None, fs_errorClass = None\<rparr>
         then None else Some s)"

definition header_holds :: "headers \<Rightarrow> string \<times> string \<Rightarrow> bool" where
  "header_holds actual h = (case find (\<lambda>(k, v). to_lower k = to_lower (fst h)) actual of
      None \<Rightarrow> False | Some (k, v) \<Rightarrow> snd h = ''*'' \<or> snd h = ''present'' \<or> v = snd h)"

definition fault_matches :: "yaml_host \<Rightarrow> yaml_fault \<Rightarrow> bool callback" where
  "fault_matches yh f c =
     (let cm = cx_command c
      in if yf_boundary f \<noteq> None \<and> yf_boundary f \<noteq> Some ''*'' \<and> yf_boundary f \<noteq> Some (cm_boundary cm) then Inr False
         else if yf_intent f \<noteq> None \<and> yf_intent f \<noteq> Some (cm_intent cm) then Inr False
         else if yf_operationId f \<noteq> None \<and> yf_operationId f \<noteq> cm_operation cm then Inr False
         else if (case yf_method f of Some m \<Rightarrow> to_upper m \<noteq> to_upper (cm_method cm) | None \<Rightarrow> False) then Inr False
         else if \<not> list_all (header_holds (cx_headers c)) (case yf_headers f of Some hs \<Rightarrow> hs | None \<Rightarrow> []) then Inr False
         else predicate yh Fault (yf_condition f) c)"

definition compileFault :: "yaml_host \<Rightarrow> yaml_fault \<Rightarrow> fault" where
  "compileFault yh f = \<lparr>ft_name = yf_name f, ft_matches = fault_matches yh f, ft_requires = map (compileGuard yh) (yf_requires f),
     ft_probability = yf_probability f, ft_requiredScopes = yf_requiredScopes f, ft_headers = yf_headers f,
     ft_selectors = fault_selectors_of (case yf_headers f of Some hs \<Rightarrow> hs | None \<Rightarrow> []), ft_response = yf_response f,
     ft_delayMs = yf_delay_ms f\<rparr>"

definition webhook_triggered :: "yaml_host \<Rightarrow> yaml_webhook \<Rightarrow> bool callback" where
  "webhook_triggered yh w c =
     (if yw_boundary w \<noteq> None \<and> yw_boundary w \<noteq> Some (cm_boundary (cx_command c)) then Inr False
      else if yw_intent w \<noteq> None \<and> yw_intent w \<noteq> Some (cm_intent (cx_command c)) then Inr False
      else predicate yh Webhook (yw_condition w) c)"

definition compileWebhook :: "yaml_host \<Rightarrow> yaml_webhook \<Rightarrow> exn + webhook" where
  "compileWebhook yh w = rbind (compile_entries yh Webhook (yw_payload w)) (\<lambda>payload.
     Inr \<lparr>wh_name = yw_name w, wh_trigger = webhook_triggered yh w,
       wh_url = callbackValue yh Webhook decodeString True (JStr (yw_url w)), wh_payload = payload,
       wh_secret = given (yw_secret w), wh_maxAttempts = yw_maxAttempts w\<rparr>)"

definition compile_compensation :: "yaml_host \<Rightarrow> yaml_compensation \<Rightarrow> exn + saga_compensation" where
  "compile_compensation yh k = rbind (compile_entries yh Saga (yk_payload k)) (\<lambda>payload.
     Inr \<lparr>sk_intent = yk_intent k, sk_operation = yk_operationId k, sk_target = compile_target yh Saga (yk_targetId k),
       sk_payload = payload\<rparr>)"

definition compile_step :: "yaml_host \<Rightarrow> yaml_step \<Rightarrow> exn + saga_step" where
  "compile_step yh s = rbind (compile_entries yh Saga (yt_payload s)) (\<lambda>payload.
     rbind (case yt_compensation s of None \<Rightarrow> Inr None | Some k \<Rightarrow> rbind (compile_compensation yh k) (\<lambda>x. Inr (Some x))) (\<lambda>comp.
     Inr \<lparr>ss_name = yt_name s, ss_boundary = yt_boundary s, ss_intent = yt_intent s, ss_operation = yt_operationId s,
       ss_target = compile_target yh Saga (yt_targetId s), ss_payload = payload, ss_compensation = comp\<rparr>))"

definition compileSaga :: "yaml_host \<Rightarrow> yaml_saga \<Rightarrow> exn + saga" where
  "compileSaga yh s = rbind (r_map (compile_step yh) (ys_steps s)) (\<lambda>steps.
     Inr \<lparr>sg_name = ys_name s, sg_boundary = ys_boundary s, sg_intent = ys_intent s,
       sg_condition = Some (predicate yh Saga (ys_condition s)), sg_steps = steps\<rparr>)"

subsection \<open>Responses and queries\<close>

text \<open>What a response helper is shown; its status is a natural number.\<close>

definition command_json :: "command \<Rightarrow> json" where
  "command_json c = JObj ([(''commandId'', JStr (cm_id c)), (''boundary'', JStr (cm_boundary c)),
     (''intent'', JStr (intent_text (cm_intent c))), (''targetId'', case cm_target c of Some t \<Rightarrow> JStr t | None \<Rightarrow> JNull),
     (''payload'', JObj (cm_payload c)), (''queryParams'', query_json (cm_query c)), (''httpMethod'', JStr (cm_method c)),
     (''path'', JStr (cm_path c)), (''origin'', JStr (case cm_origin c of Inbound \<Rightarrow> ''inbound'' | Secondary \<Rightarrow> ''secondary'')),
     (''depth'', JNum (of_nat (cm_depth c)))]
     @ (case cm_operation c of Some i \<Rightarrow> [(''operationId'', JStr i)] | None \<Rightarrow> []))"

definition response_json :: "response \<Rightarrow> json" where
  "response_json r = JObj [(''status'', JNum (of_nat (rs_status r))), (''body'', rs_body r),
     (''headers'', JObj (map (\<lambda>(k, v). (k, JStr v)) (rs_headers r)))]"

definition helper_input :: "ctx \<Rightarrow> json" where
  "helper_input c = JObj [(''operationId'', case cm_operation (cx_command c) of Some i \<Rightarrow> JStr i | None \<Rightarrow> JNull),
     (''command'', command_json (cx_command c)), (''state'', case cx_state c of Some s \<Rightarrow> JObj s | None \<Rightarrow> JNull),
     (''payload'', JObj (cx_payload c)), (''response'', case cx_response c of Some r \<Rightarrow> response_json r | None \<Rightarrow> JUndef)]"

definition string_map :: "json \<Rightarrow> headers option" where
  "string_map v = (case asRecord v of
      Some m \<Rightarrow> if list_all (\<lambda>(k, x). str_of x \<noteq> None) m then Some (map (\<lambda>(k, x). (k, the (str_of x))) m) else None
    | None \<Rightarrow> None)"

definition helper_response :: "json \<Rightarrow> partial_response option" where
  "helper_response result = (if is_json_object result then
       (let m = asObject result
        in Some \<lparr>pr_status = (case obj_get m ''status'' of JNum x \<Rightarrow> Some (nat \<lfloor>x\<rfloor>) | _ \<Rightarrow> None),
             pr_body = (if obj_get m ''body'' = JUndef then None else Some (obj_get m ''body'')),
             pr_headers = string_map (obj_get m ''headers'')\<rparr>)
     else None)"

definition responseHelper :: "helper_definition list \<Rightarrow> string \<Rightarrow> string \<Rightarrow> exn + partial_response option callback" where
  "responseHelper hs boundary name = (case find (\<lambda>h. hd_name h = name) hs of
      None \<Rightarrow> Inl (BootError ''BOOT_ERR_DSL_REFERENCE'' (''Boundary '' @ double_quoted boundary @ '' references unknown response helper '' @ double_quoted name))
    | Some h \<Rightarrow> Inr (\<lambda>c. case hd_invoke h [helper_input c] Response of
          Inl msg \<Rightarrow> Inl (CallbackError (named_error ''Error'' msg None))
        | Inr result \<Rightarrow> Inr (helper_response result)))"

text \<open>Rows are compared by the keys in order; \<open>cmp\<close> is \<open>localeCompare\<close>.\<close>

fun compare_rows :: "(string \<Rightarrow> string \<Rightarrow> int) \<Rightarrow> (string \<times> bool) list \<Rightarrow> json_object \<Rightarrow> json_object \<Rightarrow> int" where
  "compare_rows cmp [] l r = 0"
| "compare_rows cmp ((field, descending) # keys) l r =
     (let c = (if descending then -1 else 1) * compareQueryValues cmp (readPath (JObj l) field) (readPath (JObj r) field)
      in if c \<noteq> 0 then c else compare_rows cmp keys l r)"

definition compile_optional :: "('a \<Rightarrow> exn + 'b) \<Rightarrow> 'a option \<Rightarrow> exn + 'b option" where
  "compile_optional f v = (case v of None \<Rightarrow> Inr None | Some a \<Rightarrow> rbind (f a) (\<lambda>b. Inr (Some b)))"

definition compileQuery :: "yaml_host \<Rightarrow> (string \<Rightarrow> string \<Rightarrow> int) \<Rightarrow> yaml_query \<Rightarrow> exn + query_policy" where
  "compileQuery yh cmp q =
     rbind (compile_optional (runtime_value yh CelBuiltins.Query decodeNumber False) (yq_pageSize q)) (\<lambda>pageSize.
     Inr \<lparr>qp_fields = map_option (map (\<lambda>(n, src). (n, predicate yh CelBuiltins.Query src))) (yq_fields q),
       qp_filter = map_option (predicate yh CelBuiltins.Query) (yq_filter q),
       qp_sort = map_option (\<lambda>keys l r c. compare_rows cmp keys l r) (yq_sort q), qp_pageSize = pageSize,
       qp_maxPageSize = yq_maxPageSize q,
       qp_cursor = map_option (\<lambda>src. callbackValue yh CelBuiltins.Query decodeStringOrUndefined False (JStr src)) (yq_cursor q),
       qp_expand = yq_expand q, qp_envelope = yq_envelope q, qp_includeDeleted = yq_includeDeleted q,
       qp_fallback = map_option (callbackValue yh CelBuiltins.Query decodeOptionalJsonValue False) (yq_fallback q)\<rparr>)"

subsection \<open>Boundaries\<close>

text \<open>What the model of a boundary validates a state with is an argument: the compiler leaves it to the engine.\<close>

definition compile_key :: "key_source option \<times> string option \<times> string option \<Rightarrow> identity_key" where
  "compile_key k = (case k of (src, name, pointer) \<Rightarrow>
     \<lparr>ik_from = (case src of Some s \<Rightarrow> s | None \<Rightarrow> FromPath), ik_name = name, ik_pointer = pointer\<rparr>)"

definition compile_response :: "yaml_host \<Rightarrow> helper_definition list \<Rightarrow> yaml_boundary \<Rightarrow> exn + response_policy option" where
  "compile_response yh hs b =
     (if yn_response b = None \<and> yn_hateoas b = None \<and> yn_mask b = None \<and> yn_deprecated b = None then Inr None
      else rbind (compile_optional (responseHelper hs (yn_boundary b)) (yn_response b)) (\<lambda>transform.
        Inr (Some \<lparr>rp_transform = transform, rp_mask = (case yn_mask b of Some m \<Rightarrow> m | None \<Rightarrow> []), rp_deprecated = yn_deprecated b,
          rp_hateoas = map_option (map (\<lambda>(rel, href). \<lparr>lk_rel = rel,
            lk_href = callbackValue yh Response decodeString True (JStr href), lk_condition = None\<rparr>)) (yn_hateoas b),
          rp_status = None, rp_headers = None\<rparr>)))"

definition compileBoundary :: "yaml_host \<Rightarrow> (string \<Rightarrow> string \<Rightarrow> int) \<Rightarrow> helper_definition list \<Rightarrow> yaml_boundary \<Rightarrow> exn + boundary" where
  "compileBoundary yh cmp hs b =
     rbind (compile_optional (compileQuery yh cmp) (yn_query b)) (\<lambda>query.
     rbind (r_map (compileEvent yh) (yn_eventCatalog b)) (\<lambda>events.
     rbind (r_map (compileBehavior yh) (yn_behaviors b)) (\<lambda>behaviors.
     rbind (compileState yh (yn_computed b)) (\<lambda>computed.
     rbind (r_map (compileReaction yh (yn_boundary b)) (yn_reactions b)) (\<lambda>reactions.
     rbind (compile_response yh hs b) (\<lambda>response.
     Inr \<lparr>bd_name = yn_boundary b, bd_contractPath = yn_contractPath b, bd_schema = yn_schema b,
       bd_fallbackOverride = yn_fallbackOverride b,
       bd_generate = map_option (\<lambda>src. callbackValue yh CelBuiltins.Identity stringifyIdentity False (JStr src)) (given (yn_generate b)),
       bd_key = map_option compile_key (yn_key b), bd_query = query,
       bd_queryMapping = map_option (map (\<lambda>(n, src). (n, predicate yh CelBuiltins.Query src))) (yn_queryMapping b),
       bd_eventCatalog = events, bd_behaviors = behaviors, bd_reducers = map (compileReducer yh) (yn_reducers b),
       bd_initialization = yn_initialization b, bd_response = response,
       bd_mask = (case yn_mask b of Some m \<Rightarrow> m | None \<Rightarrow> []), bd_auditFields = yn_auditFields b,
       bd_deprecated = yn_deprecated b, bd_computed = computed, bd_validate = (\<lambda>s. Inr ()),
       bd_faults = map (compileFault yh) (yn_faults b), bd_reactions = reactions\<rparr>))))))"

subsection \<open>Policies and the program\<close>

definition compile_security :: "yaml_security \<Rightarrow> security_headers" where
  "compile_security s = \<lparr>sh_enabled = yv_enabled s, sh_hsts = (yv_hsts s = Some True), sh_includeSubDomains = yv_hsts s,
     sh_nosniff = yv_nosniff s, sh_frameDeny = yv_frame_deny s, sh_referrerPolicy = yv_referrer_policy s,
     sh_customHeaders = yv_custom_headers s\<rparr>"

definition compile_auth :: "jwt_package \<Rightarrow> auth_config option \<Rightarrow> auth_policy" where
  "compile_auth lib auth = \<lparr>au_mode = Option.bind auth ax_mode, au_authenticate = Some (authenticate_request lib auth), au_authorize = None,
     au_session = (case auth of Some a \<Rightarrow> ax_session a | None \<Rightarrow> no_session_policy)\<rparr>"

definition compile_projection :: "yaml_host \<Rightarrow> yaml_projection \<Rightarrow> derived_projection" where
  "compile_projection yh j = \<lparr>pj_name = yj_name j, pj_key = callbackValue yh Projection decodeString False (JStr (yj_key j)),
     pj_subscribe = yj_subscribe j,
     pj_reduce = map (\<lambda>(on, patches). \<lparr>rd_on = on, rd_apply = map_option (compile_patches yh) patches, rd_reduce = None,
       rd_replaceState = False\<rparr>) (yj_reduce j), pj_reset = Inr ()\<rparr>"

definition GLOBAL_BOUNDARY :: string where
  "GLOBAL_BOUNDARY = ''__global__''"

definition compilePolicies :: "yaml_host \<Rightarrow> jwt_package \<Rightarrow> yaml_program \<Rightarrow> exn + policies" where
  "compilePolicies yh lib ym =
     rbind (r_map (compileSaga yh) (ym_sagas ym)) (\<lambda>sagas.
     rbind (r_map (compileReaction yh GLOBAL_BOUNDARY) (ym_reactions ym)) (\<lambda>reactions.
     rbind (r_map (compileWebhook yh) (ym_webhooks ym)) (\<lambda>webhooks.
     let l = ym_lifecycle ym in
     Inr \<lparr>po_auth = Some (compile_auth lib (ym_auth ym)), po_idempotency = ym_idempotency ym,
       po_securityHeaders = map_option compile_security (ym_securityHeaders ym), po_hateoas = ym_hateoas ym,
       po_fallback_rules = ym_fallback_rules ym, po_fallback_default = ym_fallback_default ym,
       po_projections = map (compile_projection yh) (ym_derivedProjections ym), po_faults = map (compileFault yh) (ym_faults ym),
       po_reactions = reactions, po_webhooks = webhooks, po_sagas = sagas, po_onBoot = yl_boot l,
       po_onValidation = yl_validation l, po_onInitialization = yl_initialization l, po_onReset = yl_reset l,
       po_onShutdown = yl_shutdown l, po_onRequest = yl_request l, po_onCommit = yl_commit l,
       po_onPostCommit = yl_postCommit l, po_onProjection = yl_projection l\<rparr>)))"

definition compileYamlDefinitionModel :: "yaml_host \<Rightarrow> jwt_package \<Rightarrow> (string \<Rightarrow> string \<Rightarrow> int) \<Rightarrow> helper_definition list
    \<Rightarrow> yaml_program \<Rightarrow> exn + boundary list \<times> policies" where
  "compileYamlDefinitionModel yh lib cmp hs ym =
     (let yh = yh\<lparr>yh_custom := helper_functions hs\<rparr>
      in rbind (r_map (compileBoundary yh cmp hs) (ym_boundaries ym)) (\<lambda>boundaries.
         rbind (compilePolicies yh lib ym) (\<lambda>policies. Inr (boundaries, policies))))"

end
