(* ===== verification/RuntimeCompiler.thy ===== *)
theory RuntimeCompiler
  imports YamlCompiler Cascade
begin

text \<open>
  The compiler of the source-independent definition (\<open>model/compiler.ts\<close>, \<open>compileRuntimeMetadata\<close> of
  \<open>model/runtime.ts\<close>): it rejects references that are not valid, names and paths that occur twice and
  references that lead nowhere, and then rewrites every reference in its normal form.  Latency, which has no
  effect on a value, and example exports are left out.
\<close>

definition RuntimeModelError :: "string \<Rightarrow> string \<Rightarrow> exn" where
  "RuntimeModelError err_code msg = CallbackError (named_error ''RuntimeModelError'' msg (Some err_code))"

definition refuse_if :: "bool \<Rightarrow> exn \<Rightarrow> exn + unit" where
  "refuse_if b e = (if b then Inl e else Inr ())"

definition check_all :: "('a \<Rightarrow> exn + unit) \<Rightarrow> 'a list \<Rightarrow> exn + unit" where
  "check_all f xs = rfold (\<lambda>x u. f x) xs ()"

subsection \<open>References\<close>

definition reference_check :: "ref_error + 'a \<Rightarrow> exn + unit" where
  "reference_check r = rbind (parsed r) (\<lambda>_. Inr ())"

definition check_behavior_references :: "behavior \<Rightarrow> exn + unit" where
  "check_behavior_references b = rbind (reference_check (behaviorName (bh_name b))) (\<lambda>_.
     rbind (reference_check (operationId (bh_operation b))) (\<lambda>_.
     check_all (\<lambda>d. rbind (reference_check (boundaryName (sc_boundary d))) (\<lambda>_. reference_check (operationId (sc_operation d)))) (bh_dispatch b)))"

definition is_system_event :: "string \<Rightarrow> bool" where
  "is_system_event e \<longleftrightarrow> take 7 e = ''System.'' \<or> e = BASELINE_CREATED"

definition validateBoundaryReferences :: "boundary \<Rightarrow> exn + unit" where
  "validateBoundaryReferences b = rbind (reference_check (boundaryName (bd_name b))) (\<lambda>_.
     rbind (reference_check (parseContractPath (bd_contractPath b))) (\<lambda>_.
     rbind (check_all (\<lambda>e. reference_check (eventType (ct_type e))) (bd_eventCatalog b)) (\<lambda>_.
     rbind (check_all check_behavior_references (bd_behaviors b)) (\<lambda>_.
     check_all (\<lambda>r. if is_system_event (rd_on r) then Inr () else reference_check (eventType (rd_on r))) (bd_reducers b)))))"

definition index_boundary :: "boundary \<Rightarrow> boundary list \<Rightarrow> exn + boundary list" where
  "index_boundary b seen = rbind (case validateBoundaryReferences b of
       Inl e \<Rightarrow> Inl (RuntimeModelError ''RUNTIME_BUILDER_INVALID'' (''Invalid runtime reference in boundary '' @ double_quoted (bd_name b) @ '': ''
         @ (case fg_message (foreign_of e) of Some m \<Rightarrow> m | None \<Rightarrow> fg_string (foreign_of e))))
     | Inr u \<Rightarrow> Inr u) (\<lambda>_.
     rbind (refuse_if (bd_name b \<in> bd_name ` set seen)
       (RuntimeModelError ''RUNTIME_BOUNDARY_CONFLICT'' (''Duplicate runtime boundary '' @ double_quoted (bd_name b)))) (\<lambda>_.
     rbind (refuse_if (bd_contractPath b \<in> bd_contractPath ` set seen)
       (RuntimeModelError ''RUNTIME_BOUNDARY_CONFLICT'' (''Duplicate runtime contract path '' @ double_quoted (bd_contractPath b)))) (\<lambda>_.
     Inr (seen @ [b]))))"

definition event_types :: "boundary \<Rightarrow> string set" where
  "event_types b = ct_type ` set (bd_eventCatalog b)"

definition named_boundary :: "boundary list \<Rightarrow> string \<Rightarrow> boundary option" where
  "named_boundary bs n = find (\<lambda>b. bd_name b = n) bs"

definition emitted :: "behavior \<Rightarrow> string list" where
  "emitted bh = (case bh_emit bh of Some e \<Rightarrow> [e] | None \<Rightarrow> []) @ (case bh_emitWhen bh of Some es \<Rightarrow> map snd es | None \<Rightarrow> [])"

definition handles :: "boundary \<Rightarrow> string \<Rightarrow> bool" where
  "handles b oid \<longleftrightarrow> list_ex (\<lambda>bh. bh_operation bh = oid) (bd_behaviors b)"

definition behavior_label :: "boundary \<Rightarrow> behavior \<Rightarrow> string" where
  "behavior_label b bh = ''Runtime behavior '' @ double_quoted (bd_name b @ ''.'' @ bh_name bh)"

definition check_emitted :: "boundary \<Rightarrow> behavior \<Rightarrow> string \<Rightarrow> exn + unit" where
  "check_emitted b bh e = refuse_if (e \<noteq> GENERIC_UPDATE \<and> e \<notin> event_types b)
     (RuntimeModelError ''RUNTIME_EVENT_REFERENCE_INVALID'' (behavior_label b bh @ '' emits undeclared event '' @ double_quoted e))"

definition check_dispatch :: "boundary list \<Rightarrow> boundary \<Rightarrow> behavior \<Rightarrow> secondary_command \<Rightarrow> exn + unit" where
  "check_dispatch bs b bh d = (case named_boundary bs (sc_boundary d) of
      None \<Rightarrow> Inl (RuntimeModelError ''RUNTIME_DISPATCH_REFERENCE_INVALID''
        (behavior_label b bh @ '' dispatches to unknown boundary '' @ double_quoted (sc_boundary d)))
    | Some target \<Rightarrow> refuse_if (\<not> handles target (sc_operation d)) (RuntimeModelError ''RUNTIME_DISPATCH_REFERENCE_INVALID''
        (behavior_label b bh @ '' dispatches unknown operation '' @ double_quoted (sc_operation d) @ '' on '' @ double_quoted (sc_boundary d))))"

definition check_behavior :: "boundary list \<Rightarrow> boundary \<Rightarrow> behavior \<Rightarrow> exn + unit" where
  "check_behavior bs b bh = rbind (check_all (check_emitted b bh) (emitted bh)) (\<lambda>_. check_all (check_dispatch bs b bh) (bh_dispatch bh))"

definition check_reducer :: "boundary \<Rightarrow> reducer \<Rightarrow> exn + unit" where
  "check_reducer b r = refuse_if (rd_on r \<noteq> BASELINE_CREATED \<and> rd_on r \<noteq> GENERIC_UPDATE \<and> rd_on r \<notin> event_types b)
     (RuntimeModelError ''RUNTIME_EVENT_REFERENCE_INVALID''
       (''Runtime reducer on '' @ double_quoted (bd_name b) @ '' references undeclared event '' @ double_quoted (rd_on r)))"

definition check_reaction :: "boundary list \<Rightarrow> reaction \<Rightarrow> exn + unit" where
  "check_reaction bs r = (case named_boundary bs (re_boundary r) of
      None \<Rightarrow> Inl (RuntimeModelError ''RUNTIME_REACTION_REFERENCE_INVALID'' (''Runtime reaction targets unknown boundary '' @ double_quoted (re_boundary r)))
    | Some target \<Rightarrow> refuse_if (re_emit r \<notin> event_types target) (RuntimeModelError ''RUNTIME_REACTION_REFERENCE_INVALID''
        (''Runtime reaction emits undeclared event '' @ double_quoted (re_emit r) @ '' on '' @ double_quoted (re_boundary r))))"

definition check_boundary :: "boundary list \<Rightarrow> boundary \<Rightarrow> exn + unit" where
  "check_boundary bs b = rbind (check_all (check_behavior bs b) (bd_behaviors b)) (\<lambda>_.
     rbind (check_all (check_reducer b) (bd_reducers b)) (\<lambda>_. check_all (check_reaction bs) (bd_reactions b)))"

definition saga_error :: "saga \<Rightarrow> string \<Rightarrow> exn" where
  "saga_error s msg = RuntimeModelError ''RUNTIME_SAGA_REFERENCE_INVALID'' (''Runtime saga '' @ double_quoted (sg_name s) @ msg)"

definition check_step :: "boundary list \<Rightarrow> saga \<Rightarrow> saga_step \<Rightarrow> exn + unit" where
  "check_step bs s st = (case named_boundary bs (ss_boundary st) of
      None \<Rightarrow> Inl (saga_error s ('' references unknown step boundary '' @ double_quoted (ss_boundary st)))
    | Some target \<Rightarrow> rbind (refuse_if (\<not> handles target (ss_operation st))
          (saga_error s ('' references unknown step operation '' @ double_quoted (ss_operation st)))) (\<lambda>_.
        case ss_compensation st of None \<Rightarrow> Inr ()
        | Some k \<Rightarrow> refuse_if (\<not> handles target (sk_operation k))
            (saga_error s ('' references unknown compensation operation '' @ double_quoted (sk_operation k)))))"

definition check_saga :: "boundary list \<Rightarrow> saga \<Rightarrow> exn + unit" where
  "check_saga bs s = rbind (refuse_if (named_boundary bs (sg_boundary s) = None)
     (saga_error s ('' has an unknown trigger boundary '' @ double_quoted (sg_boundary s)))) (\<lambda>_. check_all (check_step bs s) (sg_steps s))"

fun check_helpers :: "string list \<Rightarrow> string list \<Rightarrow> exn + unit" where
  "check_helpers seen [] = Inr ()"
| "check_helpers seen (h # hs) = (if h \<in> set seen then Inl (RuntimeModelError ''RUNTIME_HELPER_CONFLICT'' (''Duplicate runtime helper '' @ double_quoted h))
     else check_helpers (h # seen) hs)"

subsection \<open>Normal forms\<close>

definition compileRuntimeBehavior :: "behavior \<Rightarrow> exn + behavior" where
  "compileRuntimeBehavior bh = rbind (parsed (operationId (bh_operation bh))) (\<lambda>oid.
     rbind (compile_optional (\<lambda>e. parsed (eventType e)) (bh_emit bh)) (\<lambda>emit.
     rbind (compile_optional (r_map (\<lambda>(w, e). rbind (parsed (eventType e)) (\<lambda>t. Inr (w, t)))) (bh_emitWhen bh)) (\<lambda>emitWhen.
     rbind (r_map (\<lambda>d. rbind (parsed (boundaryName (sc_boundary d))) (\<lambda>b. rbind (parsed (operationId (sc_operation d))) (\<lambda>i.
        Inr (d\<lparr>sc_boundary := b, sc_operation := i\<rparr>)))) (bh_dispatch bh)) (\<lambda>dispatch.
     Inr (bh\<lparr>bh_operation := oid, bh_emit := emit, bh_emitWhen := emitWhen, bh_dispatch := dispatch\<rparr>)))))"

definition compileRuntimeEvent :: "runtime_event \<Rightarrow> exn + runtime_event" where
  "compileRuntimeEvent e = rbind (parsed (eventType (ct_type e))) (\<lambda>t.
     rbind (compile_optional (\<lambda>s. parsed (schemaReference s)) (ct_schemaRef e)) (\<lambda>s. Inr (e\<lparr>ct_type := t, ct_schemaRef := s\<rparr>)))"

definition compileRuntimeReaction :: "reaction \<Rightarrow> exn + reaction" where
  "compileRuntimeReaction r = rbind (parsed (eventType (re_on r))) (\<lambda>on. rbind (parsed (boundaryName (re_boundary r))) (\<lambda>b.
     rbind (parsed (eventType (re_emit r))) (\<lambda>e. Inr (r\<lparr>re_on := on, re_boundary := b, re_emit := e\<rparr>))))"

definition compileRuntimeSaga :: "saga \<Rightarrow> exn + saga" where
  "compileRuntimeSaga s = rbind (parsed (boundaryName (sg_boundary s))) (\<lambda>b.
     rbind (r_map (\<lambda>st. rbind (parsed (boundaryName (ss_boundary st))) (\<lambda>sb. rbind (parsed (operationId (ss_operation st))) (\<lambda>i.
        rbind (compile_optional (\<lambda>k. rbind (parsed (operationId (sk_operation k))) (\<lambda>j. Inr (k\<lparr>sk_operation := j\<rparr>))) (ss_compensation st)) (\<lambda>k.
        Inr (st\<lparr>ss_boundary := sb, ss_operation := i, ss_compensation := k\<rparr>))))) (sg_steps s)) (\<lambda>steps.
     Inr (s\<lparr>sg_boundary := b, sg_steps := steps\<rparr>)))"

text \<open>The model's own test for a seed, which accepts more objects than the engine's.\<close>

definition seed_event_type :: "json_object \<Rightarrow> string option" where
  "seed_event_type v = (if is_json_object (JObj v) \<and> is_json_object (obj_get v ''state'') then str_of (obj_get v ''eventType'') else None)"

definition compileRuntimeSeed :: "json_object \<Rightarrow> exn + json_object" where
  "compileRuntimeSeed seed = (case seed_event_type seed of
      None \<Rightarrow> Inr seed
    | Some t \<Rightarrow> rbind (parsed (eventType t)) (\<lambda>e. Inr (obj_set ''eventType'' (JStr e) (obj_delete ''eventType'' seed))))"

definition compileRuntimeBoundary :: "boundary \<Rightarrow> exn + boundary" where
  "compileRuntimeBoundary b = rbind (parsed (boundaryName (bd_name b))) (\<lambda>name.
     rbind (compile_optional (\<lambda>s. parsed (schemaReference s)) (bd_schema b)) (\<lambda>schema.
     rbind (r_map compileRuntimeEvent (bd_eventCatalog b)) (\<lambda>events.
     rbind (r_map compileRuntimeBehavior (bd_behaviors b)) (\<lambda>behaviors.
     rbind (r_map (\<lambda>r. rbind (parsed (eventType (rd_on r))) (\<lambda>e. Inr (r\<lparr>rd_on := e\<rparr>))) (bd_reducers b)) (\<lambda>reducers.
     rbind (r_map compileRuntimeSeed (bd_initialization b)) (\<lambda>seeds.
     rbind (r_map compileRuntimeReaction (bd_reactions b)) (\<lambda>reactions.
     Inr (b\<lparr>bd_initialization := seeds, bd_name := name, bd_schema := schema, bd_eventCatalog := events, bd_behaviors := behaviors, bd_reducers := reducers,
       bd_reactions := reactions\<rparr>))))))))"

definition compileRuntimeMetadata :: "boundary list \<Rightarrow> policies \<Rightarrow> deps \<Rightarrow> exn + program" where
  "compileRuntimeMetadata bs po deps = rbind (r_map compileRuntimeBoundary bs) (\<lambda>boundaries.
     rbind (r_map compileRuntimeSaga (po_sagas po)) (\<lambda>sagas.
     rbind (r_map compileRuntimeReaction (po_reactions po)) (\<lambda>reactions.
     Inr \<lparr>pg_boundaries = boundaries, pg_policies = po\<lparr>po_sagas := sagas, po_reactions := reactions\<rparr>, pg_deps = deps\<rparr>)))"

text \<open>\<open>authentication\<close> is the port of the host, used where a policy has no authentication of its own.\<close>

definition compile_authentication :: "(request \<Rightarrow> auth_policy \<Rightarrow> exn + actor option) option \<Rightarrow> policies \<Rightarrow> policies" where
  "compile_authentication authentication po = (case (po_auth po, authentication) of
      (Some auth, Some f) \<Rightarrow> if au_authenticate auth = None
        then po\<lparr>po_auth := Some (auth\<lparr>au_authenticate := Some (\<lambda>rq. f rq auth)\<rparr>)\<rparr> else po
    | _ \<Rightarrow> po)"

definition compileRuntime :: "(request \<Rightarrow> auth_policy \<Rightarrow> exn + actor option) option \<Rightarrow> string list \<Rightarrow> deps \<Rightarrow> boundary list \<times> policies
    \<Rightarrow> exn + program" where
  "compileRuntime authentication helpers deps model = (case model of (bs, po) \<Rightarrow>
     rbind (rfold index_boundary bs []) (\<lambda>_.
     rbind (check_all (check_boundary bs) bs) (\<lambda>_.
     rbind (check_all (check_reaction bs) (po_reactions po)) (\<lambda>_.
     rbind (check_all (check_saga bs) (po_sagas po)) (\<lambda>_.
     rbind (check_helpers [] helpers) (\<lambda>_.
     compileRuntimeMetadata bs (compile_authentication authentication po) deps))))))"

definition compileYamlModel :: "yaml_host \<Rightarrow> jwt_package \<Rightarrow> deps \<Rightarrow> helper_definition list \<Rightarrow> yaml_program \<Rightarrow> exn + program" where
  "compileYamlModel yh lib deps hs ym = rbind (compileYamlDefinitionModel yh lib (dp_compare deps) hs ym)
     (compileRuntime None (map hd_name hs) deps)"

end
