(* ===== verification/YamlProps.thy ===== *)
theory YamlProps
  imports RuntimeCompiler CelProps Sample PatchProps
begin

text \<open>
  Properties of a program compiled from YAML: replaying its events, seeded requests and its patches.
\<close>

subsection \<open>Replay\<close>

text \<open>Two hosts with the same helpers and the same platform functions; clocks, sources and generators may differ.\<close>

definition same_platform :: "yaml_host \<Rightarrow> yaml_host \<Rightarrow> bool" where
  "same_platform yh yh' \<longleftrightarrow> yh_custom yh' = yh_custom yh \<and> ch_equal (yh_host yh') = ch_equal (yh_host yh)
     \<and> ch_regex (yh_host yh') = ch_regex (yh_host yh) \<and> ch_pow (yh_host yh') = ch_pow (yh_host yh)
     \<and> ch_sqrt (yh_host yh') = ch_sqrt (yh_host yh)"

lemma settled_same: "settled m m' \<Longrightarrow> fst (m s) = fst (m' s')"
  by (auto simp: settled_def)

lemma evaluate_text_reducer:
  assumes "same_platform yh yh'"
  shows "evaluate_text yh Reducer c src = evaluate_text yh' Reducer c src"
proof -
  have env: "same_for_reducer (evaluator_env yh Reducer cctx cv hp) (evaluator_env yh' Reducer cctx cv' hp')" for cctx cv hp cv' hp'
    using assms by (simp add: same_platform_def same_for_reducer_def evaluator_env_def)
  obtain cv hp where e: "request_evaluator (Option.bind (ec_request c) rq_controls)
      \<lparr>hp_admin = yh_adminOffset yh, hp_rngs = [yh_rng yh src (identifiers c)]\<rparr> = (cv, hp)" by (rule prod.exhaust)
  obtain cv' hp' where e': "request_evaluator (Option.bind (ec_request c) rq_controls)
      \<lparr>hp_admin = yh_adminOffset yh', hp_rngs = [yh_rng yh' src (identifiers c)]\<rparr> = (cv', hp')" by (rule prod.exhaust)
  note same = env[of "identifiers c" cv hp cv' hp']
  show ?thesis
    unfolding evaluate_text_def Let_def e e' prod.case
    using settled_same[OF settled_dsl[OF same], of "VStr src" "hp_rngs hp ! cv_rng cv" "hp_rngs hp' ! cv_rng cv'"]
      settled_same[OF settled_evaluate[OF same], of src "hp_rngs hp ! cv_rng cv" "hp_rngs hp' ! cv_rng cv'"] by simp
qed

lemma compilePatch_platform:
  assumes "same_platform yh yh'"
  shows "compilePatch yh p c = compilePatch yh' p c"
proof -
  have "patchValue yh raw c = patchValue yh' raw c" for raw
    using evaluate_text_reducer[OF assms] by (simp add: patchValue_def evaluate_raw_def split: json.split)
  then show ?thesis by (simp add: compilePatch_def)
qed

lemma compile_patches_platform:
  assumes "same_platform yh yh'"
  shows "compile_patches yh ps c = compile_patches yh' ps c"
  by (simp add: compile_patches_def compilePatch_platform[OF assms])

lemma run_reducer_platform:
  assumes "same_platform yh yh'"
  shows "run_reducer bd hp src n e (compileReducer yh r) = run_reducer bd' hp' src n e (compileReducer yh' r)"
proof
  fix st
  have "compile_patches yh ps \<lparr>rx_boundary = n, rx_state = st, rx_event = e, rx_payload = ev_payload e, rx_helpers = hp\<rparr>
      = compile_patches yh' ps \<lparr>rx_boundary = n, rx_state = st, rx_event = e, rx_payload = ev_payload e, rx_helpers = hp'\<rparr>" for ps
    unfolding compile_patches_platform[OF assms] by (simp add: compile_patches_def reducerContext_def)
  then show "run_reducer bd hp src n e (compileReducer yh r) st = run_reducer bd' hp' src n e (compileReducer yh' r) st"
    by (simp add: run_reducer_def compileReducer_def split: option.split)
qed

lemma compiled_boundary:
  assumes "compileBoundary yh cmp hs raw = Inr bd"
  shows "bd_name bd = yn_boundary raw" "bd_reducers bd = map (compileReducer yh) (yn_reducers raw)" "bd_schema bd = yn_schema raw"
    "bd_auditFields bd = yn_auditFields raw" "bd_validate bd = (\<lambda>s. Inr ())" "compileState yh (yn_computed raw) = Inr (bd_computed bd)"
  using assms by (auto simp: compileBoundary_def rbind_Inr_iff)

lemma base_state_compiled:
  assumes "compileBoundary yh cmp hs raw = Inr bd" and "compileBoundary yh' cmp' hs' raw = Inr bd'"
  shows "base_state bd e st = base_state bd' e st"
proof -
  have "list_ex rd_replaceState (filter (\<lambda>r. rd_on r = t) (map (compileReducer y) rs))
      = list_ex yr_replaceState (filter (\<lambda>r. yr_on r = t) rs)" for y rs t
    by (induction rs) (simp_all add: compileReducer_def)
  then show ?thesis by (simp add: base_state_def compiled_boundary[OF assms(1)] compiled_boundary[OF assms(2)] Let_def)
qed

lemma reducers_compiled:
  assumes "same_platform yh yh'"
  shows "rfold (run_reducer bd hp src n e) (filter (\<lambda>r. rd_on r = t) (map (compileReducer yh) rs)) st
    = rfold (run_reducer bd' hp' src n e) (filter (\<lambda>r. rd_on r = t) (map (compileReducer yh') rs)) st"
proof (induction rs arbitrary: st)
  case (Cons r rs)
  have on: "rd_on (compileReducer y r) = yr_on r" for y by (simp add: compileReducer_def)
  have "rfold (run_reducer bd hp src n e) (filter (\<lambda>r. rd_on r = t) (map (compileReducer yh) rs))
      = rfold (run_reducer bd' hp' src n e) (filter (\<lambda>r. rd_on r = t) (map (compileReducer yh') rs))" by (rule ext) (rule Cons.IH)
  then show ?case by (simp add: on run_reducer_platform[OF assms, of bd hp src n e r bd' hp'])
qed simp

text \<open>C15: replay.  In a boundary written in YAML without computed fields the state an event leads to is a function of the
  event and the state before: it is the same with another clock, other sources of identifiers and random
  numbers, another generator, other offsets and other helpers of the context.\<close>

theorem yaml_replay_deterministic:
  assumes "compileBoundary yh cmp hs raw = Inr bd" and "compileBoundary yh' cmp' hs' raw = Inr bd'"
    and "same_platform yh yh'" and "yn_computed raw = []"
  shows "next_state prog bd hp e st = next_state prog bd' hp' e st"
proof -
  have computed: "bd_computed bd = []" "bd_computed bd' = []"
    using compiled_boundary(6)[OF assms(1)] compiled_boundary(6)[OF assms(2)] assms(4) by (simp_all add: compileState_def)
  have "audit bd = audit bd'"
    by (simp add: fun_eq_iff audit_def compiled_boundary[OF assms(1)] compiled_boundary[OF assms(2)])
  moreover have same: "bd_name bd = bd_name bd'" "bd_schema bd = bd_schema bd'"
    by (simp_all add: compiled_boundary[OF assms(1)] compiled_boundary[OF assms(2)])
  ultimately show ?thesis
    unfolding next_state_def base_state_compiled[OF assms(1,2)] computed Let_def same
    by (simp add: reducers_compiled[OF assms(3), of bd hp _ _ _ _ _ _ bd' hp'] compiled_boundary(2,5)[OF assms(1)] compiled_boundary(2,5)[OF assms(2)])
qed

definition clock_host :: "rat \<Rightarrow> yaml_host" where
  "clock_host now = \<lparr>yh_host = plain_host now, yh_custom = [], yh_uuid = (\<lambda>n. dec (n + nat \<lfloor>now\<rfloor>)), yh_now = dec (nat \<lfloor>now\<rfloor>),
     yh_adminOffset = now, yh_externalOffset = 0, yh_rng = (\<lambda>src cctx. fresh_rng\<lparr>cs_draws := nat \<lfloor>now\<rfloor>\<rparr>)\<rparr>"

definition deposit_patch :: yaml_patch where
  "deposit_patch = \<lparr>yp_op = OpReplace, yp_path = ''/balance'', yp_value = JStr ''state.balance + event.payload.amount'', yp_by = None,
     yp_key = None, yp_deep = False, yp_from = None\<rparr>"

definition plain_boundary :: "yaml_boundary" where
  "plain_boundary = \<lparr>yn_boundary = ''Account'', yn_contractPath = ''/accounts'', yn_schema = None, yn_fallbackOverride = None,
     yn_key = None, yn_generate = None, yn_query = None, yn_queryMapping = None, yn_behaviors = [],
     yn_reducers = [\<lparr>yr_on = ''Deposited'', yr_patches = Some [deposit_patch], yr_replaceState = False\<rparr>],
     yn_eventCatalog = [\<lparr>ye_type = ''Deposited'', ye_payloadTemplate = [], ye_schemaRef = None\<rparr>], yn_initialization = [],
     yn_deprecated = None, yn_hateoas = None, yn_mask = None, yn_auditFields = False, yn_faults = [], yn_computed = [],
     yn_reactions = [], yn_response = None\<rparr>"

definition opened_event :: domain_event where
  "opened_event = \<lparr>ev_id = ''e1'', ev_boundary = ''Account'', ev_aggregate = ''a1'', ev_type = ''Opened'', ev_payload = [],
     ev_timestamp = [], ev_version = 1, ev_causedBy = None, ev_intent = None, ev_request = None, ev_response = None\<rparr>"

lemma plain_compiles: "\<exists>bd. compileBoundary yh cmp [] plain_boundary = Inr bd"
  by (simp add: plain_boundary_def compileBoundary_def compile_optional_def compileEvent_def compile_entries_def compileState_def
      compile_response_def)

theorem yaml_replay_deterministic_witness:
  "\<exists>bd bd'. compileBoundary (clock_host 1) (\<lambda>a b. 0) [] plain_boundary = Inr bd
     \<and> compileBoundary (clock_host 7) (\<lambda>a b. 0) [] plain_boundary = Inr bd'
     \<and> next_state demo_program bd \<lparr>hp_now = ''1'', hp_seed = None\<rparr> opened_event []
       = next_state demo_program bd' \<lparr>hp_now = ''7'', hp_seed = Some ''7''\<rparr> opened_event []"
proof -
  obtain bd where bd: "compileBoundary (clock_host 1) (\<lambda>a b. 0) [] plain_boundary = Inr bd" using plain_compiles by blast
  obtain bd' where bd': "compileBoundary (clock_host 7) (\<lambda>a b. 0) [] plain_boundary = Inr bd'" using plain_compiles by blast
  have "same_platform (clock_host 1) (clock_host 7)" by (simp add: same_platform_def clock_host_def plain_host_def)
  from yaml_replay_deterministic[OF bd bd' this] bd bd' show ?thesis by (auto simp: plain_boundary_def)
qed

subsection \<open>Where a replay differs\<close>

lemma parse_now: "CelParser.parse ''$now()'' = Inr (Call ''$now'' [])"
  by code_simp


lemma parse_response: "CelParser.parse ''event.response?.status''
    = Inr (NullSafeMember (Member (Ident ''event'') (Literal (LStr ''response''))) (Literal (LStr ''status'')))"
  by code_simp

lemma plain_texts: "\<not> js_includes ''${'' ''$now()''" "\<not> js_includes ''${'' ''$uuidv7()''" "\<not> js_includes ''${'' ''event.response?.status''"
  by code_simp+

lemma evaluate_now:
  assumes "ce_phase ce \<noteq> Reducer"
  shows "CelEval.evaluate ce ''$now()'' s = (rbind (ce_now ce) (\<lambda>t. Inr (VStr t)), s)"
  using assms by (simp add: CelEval.evaluate_def parse_now callBuiltin_def CLOCK_BUILTINS_def bind_def lift_def ret_def split: sum.split)


lemma evaluate_text_now:
  assumes "phase \<noteq> Reducer" and "Option.bind (ec_request c) rq_controls = None"
    and "eval_now (yh_host yh) (Some (yh_now yh)) (jn_add (Fin (yh_adminOffset yh)) (Fin (yh_externalOffset yh))) = Inr t"
  shows "evaluate_text yh phase c ''$now()'' = Inr (VStr t)"
  using assms by (simp add: evaluate_text_def plain_texts request_evaluator_def evaluate_now evaluator_env_def getClockOffset_def)

text \<open>C35: computed fields are not replayed.  A computed field may call the functions that are refused in a reducer: one that reads
  the clock holds the time of the evaluation, so applying the same event to the same state again gives
  another state.\<close>

theorem computed_field_reads_clock:
  assumes "compileBoundary yh cmp hs raw = Inr bd" and "yn_computed raw = [(n, JStr ''$now()'')]" and "\<not> yn_auditFields raw"
    and "eval_now (yh_host yh) (Some (yh_now yh)) (jn_add (Fin (yh_adminOffset yh)) (Fin (yh_externalOffset yh))) = Inr t"
    and "next_state prog bd hp e st = Inr s"
  shows "obj_get s n = JStr t"
proof -
  have field: "compute_field bd hp e f nx = Inr (obj_set n (JStr t) nx)" if "bd_computed bd = [f]" for f nx
  proof -
    have "f = (n, \<lambda>c. literal_or True decodeJsonValue ''$now()'' (rbind (evaluate_text yh Projection (reducerContext c) ''$now()'') decodeJsonValue))"
      using compiled_boundary(6)[OF assms(1)] assms(2) that
      by (simp add: compileState_def compiled_value_def value_in_def)
    moreover have "evaluate_text yh Projection (reducerContext c) ''$now()'' = Inr (VStr t)" for c
      by (rule evaluate_text_now[OF _ _ assms(4)]) (simp_all add: reducerContext_def)
    ultimately show ?thesis by (simp add: compute_field_def decodeJsonValue_def literal_or_def)
  qed
  obtain f where f: "bd_computed bd = [f]"
    using compiled_boundary(6)[OF assms(1)] assms(2) by (auto simp: compileState_def rbind_Inr_iff eq_commute[of _ "bd_computed bd"])
  from assms(5) obtain nx where "s = audit bd e (obj_set n (JStr t) nx)"
    unfolding next_state_def Let_def f by (auto simp: rbind_Inr_iff field[OF f])
  then show ?thesis
    using assms(3) by (simp add: audit_def compiled_boundary(4)[OF assms(1)] obj_get_def map_of_obj_set)
qed

definition stamped_boundary :: yaml_boundary where
  "stamped_boundary = plain_boundary\<lparr>yn_computed := [(''at'', JStr ''$now()'')]\<rparr>"

lemma stamped_compiles: "\<exists>bd. compileBoundary yh cmp [] stamped_boundary = Inr bd"
  by (simp add: stamped_boundary_def plain_boundary_def compileBoundary_def compile_optional_def compileEvent_def compile_entries_def
      compileState_def compiled_value_def compile_response_def)

lemma stamped_runs:
  assumes "compileBoundary yh cmp [] stamped_boundary = Inr bd"
    and "eval_now (yh_host yh) (Some (yh_now yh)) (jn_add (Fin (yh_adminOffset yh)) (Fin (yh_externalOffset yh))) = Inr t"
  shows "\<exists>s. next_state demo_program bd hp opened_event [] = Inr s"
proof -
  have f: "bd_computed bd = [(''at'', \<lambda>c. literal_or True decodeJsonValue ''$now()'' (rbind (evaluate_text yh Projection (reducerContext c) ''$now()'') decodeJsonValue))]"
    using compiled_boundary(6)[OF assms(1)] by (simp add: stamped_boundary_def compileState_def compiled_value_def value_in_def eq_commute[of _ "bd_computed bd"])
  have e: "evaluate_text yh Projection (reducerContext c) ''$now()'' = Inr (VStr t)" for c
    by (rule evaluate_text_now[OF _ _ assms(2)]) (simp_all add: reducerContext_def)
  show ?thesis
    by (simp add: next_state_def base_state_def audit_def demo_contract_def f e compute_field_def literal_or_def decodeJsonValue_def compiled_boundary[OF assms(1)] stamped_boundary_def
        plain_boundary_def compileReducer_def opened_event_def demo_program_def demo_deps_def Let_def)
qed

lemma clock_now:
  "\<exists>t. eval_now (yh_host (clock_host 0)) (Some (yh_now (clock_host 0)))
     (jn_add (Fin (yh_adminOffset (clock_host 0))) (Fin (yh_externalOffset (clock_host 0)))) = Inr t"
  using jn_int[of 0] by (simp add: eval_now_def clock_host_def plain_host_def toISOString_def Let_def split: prod.split)

theorem computed_field_reads_clock_witness:
  "\<exists>bd s t. compileBoundary (clock_host 0) (\<lambda>a b. 0) [] stamped_boundary = Inr bd
     \<and> next_state demo_program bd \<lparr>hp_now = [], hp_seed = None\<rparr> opened_event [] = Inr s
     \<and> eval_now (yh_host (clock_host 0)) (Some (yh_now (clock_host 0)))
         (jn_add (Fin (yh_adminOffset (clock_host 0))) (Fin (yh_externalOffset (clock_host 0)))) = Inr t
     \<and> obj_get s ''at'' = JStr t"
proof -
  obtain t where now: "eval_now (yh_host (clock_host 0)) (Some (yh_now (clock_host 0)))
      (jn_add (Fin (yh_adminOffset (clock_host 0))) (Fin (yh_externalOffset (clock_host 0)))) = Inr t" using clock_now by blast
  obtain bd where bd: "compileBoundary (clock_host 0) (\<lambda>a b. 0) [] stamped_boundary = Inr bd" using stamped_compiles by blast
  obtain s where s: "next_state demo_program bd \<lparr>hp_now = [], hp_seed = None\<rparr> opened_event [] = Inr s" using stamped_runs[OF bd now] by blast
  have "obj_get s ''at'' = JStr t"
    by (rule computed_field_reads_clock[OF bd _ _ now s]) (simp_all add: stamped_boundary_def plain_boundary_def)
  with bd s now show ?thesis by blast
qed

definition response_patch :: "string \<Rightarrow> yaml_patch" where
  "response_patch ptr = \<lparr>yp_op = OpReplace, yp_path = ptr, yp_value = JStr ''event.response?.status'', yp_by = None, yp_key = None,
     yp_deep = False, yp_from = None\<rparr>"

lemma event_response_val: "map_of (identifiers (reducerContext rx)) ''event'' = Some (event_val (rx_event rx))"
  by (simp add: identifiers_def reducerContext_def some_val_def)

lemma request_of_reducer: "ec_request (reducerContext rx) = None"
  by (simp add: reducerContext_def)

lemma event_val_response:
  "\<exists>m. event_val e = VObj m \<and> map_of m ''response'' = map_option response_val (ev_response e)"
  by (auto simp: event_val_def some_val_def map_add_def split: option.split)

text \<open>The response of an event shows in a replay.  The expression \<open>event.response?.status\<close> of a reducer is null when the event
  happens, since the response is stamped on it afterwards, and the status when the event is replayed from the
  log.\<close>

theorem response_shows_on_replay:
  "compilePatch yh (response_patch ptr) (reducerContext rx)
   = Inr (PReplace ptr (case ev_response (rx_event rx) of None \<Rightarrow> JNull | Some r \<Rightarrow> JNum (of_nat (rs_status r))))"
proof -
  obtain m where m: "event_val (rx_event rx) = VObj m" "map_of m ''response'' = map_option response_val (ev_response (rx_event rx))"
    using event_val_response by blast
  have "evaluate_text yh Reducer (reducerContext rx) ''event.response?.status''
      = Inr (case ev_response (rx_event rx) of None \<Rightarrow> VNull | Some r \<Rightarrow> VNum (Fin (of_nat (rs_status r))))"
    by (simp add: evaluate_text_def plain_texts request_evaluator_def CelEval.evaluate_def parse_response lookup_ident_def evaluator_env_def
        event_response_val m bind_def lift_def ret_def member_of_def null_safe_member_of_def literal_value_def response_val_def num_val_def
        or_null_def val_nullish_def request_of_reducer split: option.split)
  then show ?thesis
    by (simp add: compilePatch_def response_patch_def patchValue_def evaluate_raw_def decodeJsonValue_def split: option.split)
qed

subsection \<open>Seeds\<close>

lemma seeded_evaluator:
  assumes "rc_seed c = Some seed"
  shows "request_evaluator (Some c) \<lparr>hp_admin = a, hp_rngs = [g]\<rparr>
    = (\<lparr>cv_offset = requested_offset \<lparr>rx_offset = map_option Fin (rc_clockOffsetMs c), rx_seed = Some seed\<rparr>, cv_rng = 1, cv_seed = Some seed\<rparr>,
       \<lparr>hp_admin = a, hp_rngs = [g, seedString (Some seed) fresh_rng]\<rparr>)"
  using assms by (simp add: request_evaluator_def withRequestContext_def requested_offset_def)

lemma seeded_env:
  "cv_seed cv = Some seed \<Longrightarrow> evaluator_env (yh\<lparr>yh_rng := g, yh_uuid := u\<rparr>) phase cctx cv \<lparr>hp_admin = a, hp_rngs = rs\<rparr>
     = evaluator_env yh phase cctx cv \<lparr>hp_admin = a, hp_rngs = rs'\<rparr>"
  by (simp add: evaluator_env_def eval_uuid_def fun_eq_iff getClockOffset_def Let_def)


text \<open>C19: a seed makes a request repeatable.  An expression evaluated for a request with a seed does not depend on what was drawn
  before, on the runtime's source of identifiers or on the state of the shared generator.\<close>

theorem seeded_request_repeatable:
  assumes "rc_seed (ctl (cx_request c)) = Some seed"
  shows "callbackValue (yh\<lparr>yh_rng := g, yh_uuid := u\<rparr>) phase decode fallbackLiteral raw c = callbackValue yh phase decode fallbackLiteral raw c"
proof -
  obtain k where k: "rq_controls (cx_request c) = Some k" "rc_seed k = Some seed"
    using assms by (cases "rq_controls (cx_request c)") (simp_all add: ctl_def no_controls_def)
  have request: "ec_request (expressionContext c) = Some (cx_request c)" by (simp add: expressionContext_def)
  have "evaluate_text (yh\<lparr>yh_rng := g, yh_uuid := u\<rparr>) phase (expressionContext c) src = evaluate_text yh phase (expressionContext c) src" for src
    by (simp add: evaluate_text_def request k(1) seeded_evaluator[OF k(2)] Let_def
        seeded_env[where rs' = "[yh_rng yh src (identifiers (expressionContext c)), seedString (Some seed) fresh_rng]"])
  then show ?thesis by (simp add: callbackValue_def value_in_def split: json.split)
qed

definition seeded_request :: request where
  "seeded_request = open_request\<lparr>rq_controls := Some (no_controls\<lparr>rc_seed := Some ''42''\<rparr>)\<rparr>"

definition seeded_ctx :: ctx where
  "seeded_ctx = \<lparr>cx_command = rq_command seeded_request, cx_request = seeded_request, cx_state = None, cx_payload = [],
     cx_helpers = \<lparr>hp_now = [], hp_seed = Some ''42''\<rparr>, cx_event = None, cx_boundary = None, cx_committed = [], cx_response = None,
     cx_headers = [], cx_param = None, cx_projection = None, cx_steps = [], cx_prevStep = None\<rparr>"

lemma seeded_ctx_seed: "rc_seed (ctl (cx_request seeded_ctx)) = Some ''42''"
  by (simp add: seeded_ctx_def seeded_request_def ctl_def)

theorem seeded_request_repeatable_witness:
  "callbackValue ((clock_host 0)\<lparr>yh_rng := \<lambda>src cctx. fresh_rng\<lparr>cs_uuids := 9\<rparr>, yh_uuid := \<lambda>n. ''other''\<rparr>) EventHydration decodeJsonValue False
     (JStr ''$uuidv7()'') seeded_ctx
   = callbackValue (clock_host 0) EventHydration decodeJsonValue False (JStr ''$uuidv7()'') seeded_ctx"
  by (rule seeded_request_repeatable[OF seeded_ctx_seed])




subsection \<open>Patches as they are written\<close>

text \<open>C37: an increment ignores its value.  The documentation gives the amount of an \<open>increment\<close> as its \<open>value\<close>, with 1 for none;
  the compiled patch reads only \<open>by\<close>, with 0 for none, so a counter written as documented never changes.\<close>

theorem increment_ignores_value:
  assumes "yp_op p = OpIncrement" and "yp_by p = None" and "parsePointer (yp_path p) = Inr segs" and "segs \<noteq> []"
    and "get_path segs st = Some (JNum (of_int a))" and "\<bar>a\<bar> \<le> 2 ^ 53"
  shows "\<exists>patch st'. compilePatch yh p c = Inr patch \<and> applyOne st patch i av = Inr st' \<and> get_path segs st' = Some (JNum (of_int a))"
  using increment_counter[OF assms(3-5), of 0 i av] assms by (simp add: compilePatch_def)

theorem increment_ignores_value_witness:
  "\<exists>patch st'. compilePatch (clock_host 0) \<lparr>yp_op = OpIncrement, yp_path = ''/n'', yp_value = JNum 5, yp_by = None, yp_key = None,
        yp_deep = False, yp_from = None\<rparr> (reducerContext \<lparr>rx_boundary = [], rx_state = [], rx_event = opened_event, rx_payload = [],
        rx_helpers = \<lparr>hp_now = [], hp_seed = None\<rparr>\<rparr>) = Inr patch
     \<and> applyOne (JObj [(''n'', JNum (of_int 41))]) patch 0 True = Inr st' \<and> get_path [''n''] st' = Some (JNum (of_int 41))"
proof (rule increment_ignores_value)
  show "parsePointer (yp_path \<lparr>yp_op = OpIncrement, yp_path = ''/n'', yp_value = JNum 5, yp_by = None, yp_key = None, yp_deep = False,
      yp_from = None\<rparr>) = Inr [''n'']" by code_simp
qed simp_all

text \<open>A word: what the lexer cuts off as one identifier.\<close>

definition bare_word :: "string \<Rightarrow> bool" where
  "bare_word s \<longleftrightarrow> s \<noteq> [] \<and> isIdentStart (hd s) \<and> list_all isIdentPart s \<and> s \<notin> {''true'', ''false'', ''null'', ''in''}"

lemma ident_part_plain: "isIdentPart c \<Longrightarrow> \<not> is_quote c \<and> c \<noteq> CHR ''{''"
  by (auto simp: isIdentPart_def isIdentStart_def is_quote_def is_digit_def code_def)

lemma ident_start_plain: "isIdentStart c \<Longrightarrow> isIdentPart c \<and> \<not> is_ws c \<and> \<not> is_digit c \<and> c \<noteq> CHR ''-''"
  by (auto simp: isIdentPart_def isIdentStart_def is_ws_def is_digit_def code_def)

lemma lex_word:
  assumes "bare_word s"
  shows "lex s = Inr [\<lparr>tk_type = IDENT, tk_value = Some (TStr s), tk_pos = pos0\<rparr>, end_token (advances s pos0)]"
proof -
  obtain c t where s: "s = c # t" using assms by (cases s) (auto simp: bare_word_def)
  have c: "isIdentStart c" and all: "list_all isIdentPart s" and kw: "s \<notin> {''true'', ''false'', ''null'', ''in''}"
    using assms by (simp_all add: bare_word_def s)
  have whole: "takeWhile isIdentPart t = t" using all by (simp add: s takeWhile_eq_all_conv list_all_iff)
  have "\<not> next_is is_quote t"
    using all ident_part_plain by (auto simp: next_is_def s split: list.split)
  then have "lex_step c t pos0 = Inr (Some (word_token s pos0), s)"
    using c ident_start_plain[OF c] ident_part_plain[of c] by (simp add: lex_step_def s Let_def whole)
  moreover have "word_token s pos0 = \<lparr>tk_type = IDENT, tk_value = Some (TStr s), tk_pos = pos0\<rparr>" using kw by (simp add: word_token_def)
  ultimately show ?thesis by (simp add: lex_def s tok_list_def)
qed

lemma drive_word:
  "drive 192 [\<lparr>tk_type = IDENT, tk_value = Some (TStr s), tk_pos = p\<rparr>, end_token q] ([0], [], 0) = Inr (Ident s)"
  by code_simp

lemma parse_word: "bare_word s \<Longrightarrow> CelParser.parse s = Inr (Ident s)"
  by (simp add: CelParser.parse_def lex_word drive_fuel_def drive_word)

lemma word_no_template:
  assumes "bare_word s" shows "\<not> js_includes ''${'' s"
proof
  assume "js_includes ''${'' s"
  then obtain k where "take (length ''${'') (drop k s) = ''${''" by (auto simp only: js_includes_def list_ex_iff)
  then have "CHR ''{'' \<in> set s" by (metis in_set_takeD in_set_dropD list.set_intros(1) list.set_intros(2))
  with assms ident_part_plain show False by (auto simp: bare_word_def list_all_iff)
qed

lemma reducer_names:
  "map_of (identifiers (reducerContext rc)) s = None \<longleftrightarrow> s \<notin> {''command'', ''request'', ''state'', ''payload'', ''event''}"
  by (auto simp: identifiers_def reducerContext_def some_val_def)

text \<open>C38: a word in a patch is no literal.  The documentation calls a \<open>value\<close> without \<open>${...}\<close> literal text, \<open>ACTIVE\<close> for instance;
  the compiled patch evaluates it as an expression.  For every word (a letter, \<open>_\<close> or \<open>$\<close> and then letters, digits, \<open>_\<close> or
  \<open>$\<close>) but \<open>true\<close>, \<open>false\<close>, \<open>null\<close> and \<open>in\<close> and the five names a reducer knows, every reducer with it throws an undefined
  identifier.\<close>

theorem bare_text_is_evaluated:
  assumes "yp_op p \<in> {OpAdd, OpReplace, OpAppend, OpPrepend}" and "yp_value p = JStr s"
    and "bare_word s" and "s \<notin> {''command'', ''request'', ''state'', ''payload'', ''event''}"
  shows "compilePatch yh p (reducerContext rc) = Inl (cel_failure (CelError (''CEL_EVAL: undefined identifier '' @ in_quotes s)))"
proof -
  obtain cv hp where "request_evaluator None \<lparr>hp_admin = yh_adminOffset yh, hp_rngs = [yh_rng yh s (identifiers (reducerContext rc))]\<rparr> = (cv, hp)"
    by (rule prod.exhaust)
  moreover have "map_of (identifiers (reducerContext rc)) s = None" using assms(4) reducer_names by blast
  ultimately have "evaluate_text yh Reducer (reducerContext rc) s = Inl (cel_failure (CelError (''CEL_EVAL: undefined identifier '' @ in_quotes s)))"
    by (simp add: evaluate_text_def request_of_reducer parse_word[OF assms(3)] word_no_template[OF assms(3)] CelEval.evaluate_def lookup_ident_def
        evaluator_env_def cel_fail_def bind_def lift_def ret_def Let_def)
  with assms(1,2) show ?thesis by (auto simp: compilePatch_def patchValue_def evaluate_raw_def)
qed

theorem bare_text_is_evaluated_witness:
  "compilePatch (clock_host 0) \<lparr>yp_op = OpReplace, yp_path = ''/status'', yp_value = JStr ''ACTIVE'', yp_by = None, yp_key = None,
      yp_deep = False, yp_from = None\<rparr> (reducerContext \<lparr>rx_boundary = [], rx_state = [], rx_event = opened_event, rx_payload = [],
      rx_helpers = \<lparr>hp_now = [], hp_seed = None\<rparr>\<rparr>)
   = Inl (cel_failure (CelError (''CEL_EVAL: undefined identifier '' @ in_quotes ''ACTIVE'')))"
proof (rule bare_text_is_evaluated)
  show "bare_word ''ACTIVE''" by code_simp
qed simp_all

text \<open>Templates inside an object stay text.  The front end compiles the templates it finds in the fields of an object that is
  merged, so that a malformed one is refused when the program is loaded, but the compiled patch merges the
  object as it is written.\<close>

theorem nested_templates_stay_text:
  assumes "yp_op p = OpMerge" and "yp_value p = JObj (map (\<lambda>(k, s). (k, JStr s)) m)"
  shows "compilePatch yh p c = Inr (PMerge (yp_path p) (map (\<lambda>(k, s). (k, JStr s)) m) (yp_deep p))"
proof -
  have "those (map (\<lambda>(k, v). map_option (Pair k) (json_of v)) (map (\<lambda>(k, v). (k, val_of v)) (map (\<lambda>(k, s). (k, JStr s)) m)))
      = Some (map (\<lambda>(k, s). (k, JStr s)) m)" by (induction m) auto
  with assms show ?thesis
    by (simp add: compilePatch_def patchValue_def evaluate_raw_def decodeJsonValue_def requireJsonObject_def del: map_map)
qed

theorem nested_templates_stay_text_witness:
  "compilePatch (clock_host 0) \<lparr>yp_op = OpMerge, yp_path = ''/meta'', yp_value = JObj (map (\<lambda>(k, s). (k, JStr s)) [(''by'', ''${event.payload.user}'')]),
      yp_by = None, yp_key = None, yp_deep = False, yp_from = None\<rparr> (reducerContext \<lparr>rx_boundary = [], rx_state = [],
      rx_event = opened_event, rx_payload = [], rx_helpers = \<lparr>hp_now = [], hp_seed = None\<rparr>\<rparr>)
   = Inr (PMerge ''/meta'' [(''by'', JStr ''${event.payload.user}'')] False)"
  by (subst nested_templates_stay_text[where m = "[(''by'', ''${event.payload.user}'')]"]) simp_all

end
