(* ===== verification/CompilerProps.thy ===== *)
theory CompilerProps
  imports RuntimeCompiler Sample
begin

text \<open>
  Properties of the compiler of the runtime program: the references of a compiled program lead somewhere, as
  long as no two boundaries get the same name in their normal form.
\<close>

lemma check_all_Inr: "check_all f xs = Inr u \<longleftrightarrow> (\<forall>x\<in>set xs. f x = Inr ())"
  by (induction xs) (auto simp: check_all_def rbind_Inr_iff)

lemma refuse_if_Inr: "refuse_if b e = Inr u \<longleftrightarrow> \<not> b"
  by (simp add: refuse_if_def)

lemma optional_Inr: "compile_optional f v = Inr w \<longleftrightarrow> (case v of None \<Rightarrow> w = None | Some a \<Rightarrow> \<exists>b. f a = Inr b \<and> w = Some b)"
  by (auto simp: compile_optional_def rbind_Inr_iff split: option.split)

lemma r_map_InrD: "r_map f xs = Inr ys \<Longrightarrow> y \<in> set ys \<Longrightarrow> \<exists>x\<in>set xs. f x = Inr y"
  by (induction xs arbitrary: ys) (auto simp: rbind_Inr_iff)

lemma r_map_InrI: "r_map f xs = Inr ys \<Longrightarrow> x \<in> set xs \<Longrightarrow> \<exists>y\<in>set ys. f x = Inr y"
  by (induction xs arbitrary: ys) (auto simp: rbind_Inr_iff)

subsection \<open>What a compiled part keeps\<close>

lemma compiled_event: "compileRuntimeEvent e = Inr e' \<Longrightarrow> eventType (ct_type e) = Inr (ct_type e')"
  by (auto simp: compileRuntimeEvent_def rbind_Inr_iff)

lemma compiled_types:
  assumes "compileRuntimeBoundary b = Inr b'" and "e \<in> event_types b" and "eventType e = Inr e'"
  shows "e' \<in> event_types b'"
proof -
  from assms(1) have "r_map compileRuntimeEvent (bd_eventCatalog b) = Inr (bd_eventCatalog b')"
    by (auto simp: compileRuntimeBoundary_def rbind_Inr_iff)
  with assms(2,3) show ?thesis by (force simp: event_types_def dest: r_map_InrI compiled_event)
qed

lemma compiled_name: "compileRuntimeBoundary b = Inr b' \<Longrightarrow> boundaryName (bd_name b) = Inr (bd_name b')"
  by (auto simp: compileRuntimeBoundary_def rbind_Inr_iff)

lemma compiled_behaviors: "compileRuntimeBoundary b = Inr b' \<Longrightarrow> r_map compileRuntimeBehavior (bd_behaviors b) = Inr (bd_behaviors b')"
  by (auto simp: compileRuntimeBoundary_def rbind_Inr_iff)

lemma compiled_reactions: "compileRuntimeBoundary b = Inr b' \<Longrightarrow> r_map compileRuntimeReaction (bd_reactions b) = Inr (bd_reactions b')"
  by (auto simp: compileRuntimeBoundary_def rbind_Inr_iff)

lemma compiled_operation: "compileRuntimeBehavior bh = Inr bh' \<Longrightarrow> operationId (bh_operation bh) = Inr (bh_operation bh')"
  by (auto simp: compileRuntimeBehavior_def rbind_Inr_iff)

lemma compiled_handles:
  assumes "compileRuntimeBoundary b = Inr b'" and "handles b oid" and "operationId oid = Inr oid'"
  shows "handles b' oid'"
  using assms(2,3) r_map_InrI[OF compiled_behaviors[OF assms(1)]] compiled_operation
  by (fastforce simp: handles_def list_ex_iff)

lemma compiled_emitted:
  assumes "compileRuntimeBehavior bh = Inr bh'" and "e' \<in> set (emitted bh')"
  shows "\<exists>e\<in>set (emitted bh). eventType e = Inr e'"
proof -
  from assms(1) have emit: "compile_optional (\<lambda>e. parsed (eventType e)) (bh_emit bh) = Inr (bh_emit bh')"
    and emitWhen: "compile_optional (r_map (\<lambda>(w, e). rbind (parsed (eventType e)) (\<lambda>t. Inr (w, t)))) (bh_emitWhen bh) = Inr (bh_emitWhen bh')"
    by (auto simp: compileRuntimeBehavior_def rbind_Inr_iff)
  from assms(2) consider "bh_emit bh' = Some e'" | es' w where "bh_emitWhen bh' = Some es'" "(w, e') \<in> set es'"
    by (cases "bh_emit bh'"; cases "bh_emitWhen bh'") (auto simp: emitted_def)
  then show ?thesis
  proof cases
    case 1
    with emit show ?thesis by (auto simp: optional_Inr emitted_def split: option.splits)
  next
    case 2
    with emitWhen obtain es where "bh_emitWhen bh = Some es"
      "r_map (\<lambda>(w, e). rbind (parsed (eventType e)) (\<lambda>t. Inr (w, t))) es = Inr es'"
      by (auto simp: optional_Inr split: option.splits)
    with 2(2) show ?thesis by (force simp: emitted_def rbind_Inr_iff dest: r_map_InrD)
  qed
qed

lemma compiled_dispatch:
  assumes "compileRuntimeBehavior bh = Inr bh'" and "d' \<in> set (bh_dispatch bh')"
  shows "\<exists>d\<in>set (bh_dispatch bh). boundaryName (sc_boundary d) = Inr (sc_boundary d') \<and> operationId (sc_operation d) = Inr (sc_operation d')"
proof -
  from assms(1) have "r_map (\<lambda>d. rbind (parsed (boundaryName (sc_boundary d))) (\<lambda>b. rbind (parsed (operationId (sc_operation d))) (\<lambda>i.
      Inr (d\<lparr>sc_boundary := b, sc_operation := i\<rparr>)))) (bh_dispatch bh) = Inr (bh_dispatch bh')"
    by (auto simp: compileRuntimeBehavior_def rbind_Inr_iff)
  from r_map_InrD[OF this assms(2)] show ?thesis by (force simp: rbind_Inr_iff)
qed

lemma system_types: "eventType GENERIC_UPDATE = Inr GENERIC_UPDATE" "eventType BASELINE_CREATED = Inr BASELINE_CREATED"
  by code_simp+


lemma compiled_reaction: "compileRuntimeReaction r = Inr r' \<Longrightarrow>
    boundaryName (re_boundary r) = Inr (re_boundary r') \<and> eventType (re_emit r) = Inr (re_emit r')"
  by (auto simp: compileRuntimeReaction_def rbind_Inr_iff)

lemma compiled_step:
  assumes "compileRuntimeSaga s = Inr s'" and "st' \<in> set (sg_steps s')"
  shows "\<exists>st\<in>set (sg_steps s). boundaryName (ss_boundary st) = Inr (ss_boundary st') \<and> operationId (ss_operation st) = Inr (ss_operation st')"
proof -
  from assms(1) have "r_map (\<lambda>st. rbind (parsed (boundaryName (ss_boundary st))) (\<lambda>sb. rbind (parsed (operationId (ss_operation st))) (\<lambda>i.
        rbind (compile_optional (\<lambda>k. rbind (parsed (operationId (sk_operation k))) (\<lambda>j. Inr (k\<lparr>sk_operation := j\<rparr>))) (ss_compensation st)) (\<lambda>k.
        Inr (st\<lparr>ss_boundary := sb, ss_operation := i, ss_compensation := k\<rparr>))))) (sg_steps s) = Inr (sg_steps s')"
    by (auto simp: compileRuntimeSaga_def rbind_Inr_iff)
  from r_map_InrD[OF this assms(2)] show ?thesis by (force simp: rbind_Inr_iff)
qed

subsection \<open>The compiled program\<close>

lemma compileRuntime_parts:
  assumes "compileRuntime authentication hs deps (bs, po) = Inr prog"
  shows "r_map compileRuntimeBoundary bs = Inr (pg_boundaries prog)"
    and "r_map compileRuntimeSaga (po_sagas po) = Inr (po_sagas (pg_policies prog))"
    and "r_map compileRuntimeReaction (po_reactions po) = Inr (po_reactions (pg_policies prog))"
    and "\<forall>b\<in>set bs. check_boundary bs b = Inr ()" and "\<forall>r\<in>set (po_reactions po). check_reaction bs r = Inr ()"
    and "\<forall>s\<in>set (po_sagas po). check_saga bs s = Inr ()"
proof -
  have auth: "po_sagas (compile_authentication authentication po) = po_sagas po"
    "po_reactions (compile_authentication authentication po) = po_reactions po"
    by (auto simp: compile_authentication_def split: option.split)
  from assms show "r_map compileRuntimeBoundary bs = Inr (pg_boundaries prog)"
    "r_map compileRuntimeSaga (po_sagas po) = Inr (po_sagas (pg_policies prog))"
    "r_map compileRuntimeReaction (po_reactions po) = Inr (po_reactions (pg_policies prog))"
    by (auto simp: compileRuntime_def compileRuntimeMetadata_def rbind_Inr_iff auth)
  from assms show "\<forall>b\<in>set bs. check_boundary bs b = Inr ()" "\<forall>r\<in>set (po_reactions po). check_reaction bs r = Inr ()"
    "\<forall>s\<in>set (po_sagas po). check_saga bs s = Inr ()"
    by (auto simp: compileRuntime_def rbind_Inr_iff check_all_Inr)
qed

lemma named_boundary_Some: "named_boundary bs n = Some b \<Longrightarrow> b \<in> set bs \<and> bd_name b = n"
  by (auto simp: named_boundary_def find_Some_iff)

text \<open>Where no two compiled boundaries share a name, a name that the compiler has found is found at run time.\<close>

lemma compiled_target:
  assumes compiled: "r_map compileRuntimeBoundary bs = Inr (pg_boundaries prog)"
    and names: "distinct (map bd_name (pg_boundaries prog))"
    and found: "named_boundary bs n = Some b" and normal: "boundaryName n = Inr n'"
  shows "\<exists>b'. byBoundaryName prog n' = Some b' \<and> compileRuntimeBoundary b = Inr b'"
proof -
  from found have b: "b \<in> set bs" "bd_name b = n" by (auto dest: named_boundary_Some)
  obtain b' where b': "b' \<in> set (pg_boundaries prog)" "compileRuntimeBoundary b = Inr b'"
    using r_map_InrI[OF compiled b(1)] by blast
  with b(2) normal have "bd_name b' = n'" using compiled_name by fastforce
  moreover have "distinct (map fst (rev (map (\<lambda>x. (bd_name x, x)) (pg_boundaries prog))))"
    using names by (simp add: rev_map[symmetric] comp_def)
  ultimately have "byBoundaryName prog n' = Some b'"
    unfolding byBoundaryName_def by (intro map_of_is_SomeI) (use b'(1) in auto)
  with b'(2) show ?thesis by blast
qed

lemma checked_reaction:
  assumes "check_reaction bs r = Inr ()" and "compileRuntimeReaction r = Inr r'"
    and compiled: "r_map compileRuntimeBoundary bs = Inr (pg_boundaries prog)"
    and names: "distinct (map bd_name (pg_boundaries prog))"
  shows "\<exists>t. byBoundaryName prog (re_boundary r') = Some t \<and> re_emit r' \<in> event_types t"
proof -
  from assms(1) obtain b where b: "named_boundary bs (re_boundary r) = Some b" "re_emit r \<in> event_types b"
    by (auto simp: check_reaction_def refuse_if_def split: option.splits if_splits)
  note r' = compiled_reaction[OF assms(2)]
  from compiled_target[OF compiled names b(1)] r' obtain b' where b': "byBoundaryName prog (re_boundary r') = Some b'"
    "compileRuntimeBoundary b = Inr b'" by blast
  with compiled_types[OF b'(2) b(2)] r' show ?thesis by blast
qed

lemma checked_dispatch:
  assumes "check_dispatch bs b bh d = Inr ()" and d': "boundaryName (sc_boundary d) = Inr n" "operationId (sc_operation d) = Inr i"
    and compiled: "r_map compileRuntimeBoundary bs = Inr (pg_boundaries prog)"
    and names: "distinct (map bd_name (pg_boundaries prog))"
  shows "\<exists>t. byBoundaryName prog n = Some t \<and> handles t i"
proof -
  from assms(1) obtain t where t: "named_boundary bs (sc_boundary d) = Some t" "handles t (sc_operation d)"
    by (auto simp: check_dispatch_def refuse_if_def split: option.splits if_splits)
  from compiled_target[OF compiled names t(1) d'(1)] compiled_handles[OF _ t(2) d'(2)] show ?thesis by blast
qed

lemma checked_step:
  assumes "check_step bs s st = Inr ()" and st': "boundaryName (ss_boundary st) = Inr n" "operationId (ss_operation st) = Inr i"
    and compiled: "r_map compileRuntimeBoundary bs = Inr (pg_boundaries prog)"
    and names: "distinct (map bd_name (pg_boundaries prog))"
  shows "\<exists>t. byBoundaryName prog n = Some t \<and> handles t i"
proof -
  from assms(1) obtain t where t: "named_boundary bs (ss_boundary st) = Some t" "handles t (ss_operation st)"
    by (auto simp: check_step_def rbind_Inr_iff refuse_if_def split: option.splits if_splits)
  from compiled_target[OF compiled names t(1) st'(1)] compiled_handles[OF _ t(2) st'(2)] show ?thesis by blast
qed

lemma checked_emitted:
  assumes "check_emitted b bh e = Inr ()" and "eventType e = Inr e'" and "compileRuntimeBoundary b = Inr b'"
  shows "e' = GENERIC_UPDATE \<or> e' \<in> event_types b'"
  using assms(1,2) system_types(1) compiled_types[OF assms(3) _ assms(2)]
  by (auto simp: check_emitted_def refuse_if_def split: if_splits)

lemma checked_behavior:
  assumes "check_boundary bs b = Inr ()" and "compileRuntimeBoundary b = Inr b'" and "bh' \<in> set (bd_behaviors b')"
  obtains bh where "compileRuntimeBehavior bh = Inr bh'" and "\<forall>e\<in>set (emitted bh). check_emitted b bh e = Inr ()"
    and "\<forall>d\<in>set (bh_dispatch bh). check_dispatch bs b bh d = Inr ()"
proof -
  obtain bh where bh: "bh \<in> set (bd_behaviors b)" "compileRuntimeBehavior bh = Inr bh'"
    using r_map_InrD[OF compiled_behaviors[OF assms(2)] assms(3)] by blast
  with assms(1) have "check_behavior bs b bh = Inr ()" by (auto simp: check_boundary_def rbind_Inr_iff check_all_Inr)
  then show thesis by (intro that[OF bh(2)]) (auto simp: check_behavior_def rbind_Inr_iff check_all_Inr)
qed

subsection \<open>A program that compiles\<close>

text \<open>Accounts whose opening dispatches a deposit, a reaction of the program to it, and a saga of one step.\<close>

definition linked_boundary :: boundary where
  "linked_boundary = demo_boundary\<lparr>bd_behaviors := [(plain_behavior ''open'' ''Opened'' [])\<lparr>bh_dispatch :=
     [\<lparr>sc_boundary = ''account'', sc_intent = Mutation, sc_operation = ''pay'', sc_target = None, sc_payload = [], sc_condition = None\<rparr>]\<rparr>,
     plain_behavior ''pay'' ''Paid'' []]\<rparr>"

definition linked_policies :: policies where
  "linked_policies = no_policies\<lparr>po_reactions := [\<lparr>re_name = None, re_on = ''Opened'', re_when = None, re_boundary = ''account'',
       re_emit = ''Paid'', re_intent = None, re_target = None, re_payload = []\<rparr>],
     po_sagas := [\<lparr>sg_name = ''welcome'', sg_boundary = ''account'', sg_intent = Creation, sg_condition = None,
       sg_steps = [\<lparr>ss_name = ''bonus'', ss_boundary = ''account'', ss_intent = Mutation, ss_operation = ''pay'', ss_target = None,
         ss_payload = [], ss_compensation = None\<rparr>]\<rparr>]\<rparr>"

definition linked_program :: program where
  "linked_program = \<lparr>pg_boundaries = [linked_boundary], pg_policies = linked_policies, pg_deps = demo_deps\<rparr>"

lemma normal_names:
  "boundaryName ''account'' = Inr ''account''" "operationId ''open'' = Inr ''open''" "operationId ''pay'' = Inr ''pay''"
  "behaviorName ''open'' = Inr ''open''" "behaviorName ''pay'' = Inr ''pay''" "boundaryName '' account'' = Inr ''account''"
  "eventType ''Opened'' = Inr ''Opened''" "eventType ''Paid'' = Inr ''Paid''"
  "parseContractPath ''/accounts/{id}'' = Inr ''/accounts/{id}''" "parseContractPath ''/savings/{id}'' = Inr ''/savings/{id}''"
  by code_simp+

lemmas compile_simps = compileRuntime_def index_boundary_def validateBoundaryReferences_def reference_check_def check_behavior_references_def
  check_boundary_def check_behavior_def check_emitted_def check_dispatch_def check_reducer_def check_reaction_def check_saga_def check_step_def
  refuse_if_def emitted_def handles_def event_types_def named_boundary_def compile_authentication_def compileRuntimeMetadata_def
  compileRuntimeBoundary_def compileRuntimeBehavior_def compileRuntimeEvent_def compileRuntimeReaction_def compileRuntimeSaga_def
  compile_optional_def check_all_def rbind_def plain_behavior_def field_event_def normal_names

lemma linked_compiles: "compileRuntime None [] demo_deps ([linked_boundary], linked_policies) = Inr linked_program"
  by (simp add: compile_simps linked_boundary_def linked_policies_def linked_program_def demo_boundary_def no_policies_def)

definition spaced_boundary :: boundary where
  "spaced_boundary = demo_boundary\<lparr>bd_name := '' account'', bd_contractPath := ''/savings/{id}''\<rparr>"

subsection \<open>References resolve\<close>

text \<open>C17: In a compiled program whose boundaries have different names, every behavior emits only events of the catalog of
  its boundary (or the generic update), and the target of every dispatch is a boundary of the program that handles its operation.\<close>

theorem compiled_behavior_resolves:
  assumes ok: "compileRuntime authentication hs deps (bs, po) = Inr prog" and names: "distinct (map bd_name (pg_boundaries prog))"
    and b': "b' \<in> set (pg_boundaries prog)" "bh' \<in> set (bd_behaviors b')"
  shows "(\<forall>e\<in>set (emitted bh'). e = GENERIC_UPDATE \<or> e \<in> event_types b')
    \<and> (\<forall>d\<in>set (bh_dispatch bh'). \<exists>t. byBoundaryName prog (sc_boundary d) = Some t \<and> handles t (sc_operation d))"
proof -
  note parts = compileRuntime_parts[OF ok]
  obtain b where b: "b \<in> set bs" "compileRuntimeBoundary b = Inr b'" using r_map_InrD[OF parts(1) b'(1)] by blast
  from parts(4) b(1) have "check_boundary bs b = Inr ()" by blast
  from checked_behavior[OF this b(2) b'(2)] obtain bh where bh: "compileRuntimeBehavior bh = Inr bh'"
    "\<forall>e\<in>set (emitted bh). check_emitted b bh e = Inr ()" "\<forall>d\<in>set (bh_dispatch bh). check_dispatch bs b bh d = Inr ()" .
  show ?thesis
  proof (intro conjI ballI)
    fix e' assume "e' \<in> set (emitted bh')"
    from compiled_emitted[OF bh(1) this] obtain e where e: "e \<in> set (emitted bh)" "eventType e = Inr e'" by blast
    from checked_emitted[OF bspec[OF bh(2) e(1)] e(2) b(2)] show "e' = GENERIC_UPDATE \<or> e' \<in> event_types b'" .
  next
    fix d' assume "d' \<in> set (bh_dispatch bh')"
    from compiled_dispatch[OF bh(1) this] obtain d where d: "d \<in> set (bh_dispatch bh)" "boundaryName (sc_boundary d) = Inr (sc_boundary d')"
      "operationId (sc_operation d) = Inr (sc_operation d')" by blast
    from checked_dispatch[OF bspec[OF bh(3) d(1)] d(2,3) parts(1) names]
    show "\<exists>t. byBoundaryName prog (sc_boundary d') = Some t \<and> handles t (sc_operation d')" .
  qed
qed

lemma compiled_behavior_resolves_witness:
  "\<exists>t. byBoundaryName linked_program ''account'' = Some t \<and> handles t ''pay''"
proof -
  have "plain_behavior ''open'' ''Opened'' [] \<lparr>bh_dispatch :=
      [\<lparr>sc_boundary = ''account'', sc_intent = Mutation, sc_operation = ''pay'', sc_target = None, sc_payload = [], sc_condition = None\<rparr>]\<rparr>
      \<in> set (bd_behaviors linked_boundary)" (is "?open \<in> _") by (simp add: linked_boundary_def)
  from compiled_behavior_resolves[OF linked_compiles _ _ this] show ?thesis by (simp add: linked_program_def)
qed

text \<open>C18: In a compiled program whose boundaries have different names, every reaction, of the program or of a boundary,
  leads to a boundary that declares the emitted event, and every step of a saga to a boundary that handles its operation.\<close>

theorem compiled_reactions_resolve:
  assumes ok: "compileRuntime authentication hs deps (bs, po) = Inr prog" and names: "distinct (map bd_name (pg_boundaries prog))"
  shows "(\<forall>r\<in>set (po_reactions (pg_policies prog)) \<union> (\<Union>b\<in>set (pg_boundaries prog). set (bd_reactions b)).
      \<exists>t. byBoundaryName prog (re_boundary r) = Some t \<and> re_emit r \<in> event_types t)
    \<and> (\<forall>s\<in>set (po_sagas (pg_policies prog)). \<forall>st\<in>set (sg_steps s).
      \<exists>t. byBoundaryName prog (ss_boundary st) = Some t \<and> handles t (ss_operation st))"
proof (intro conjI ballI)
  note parts = compileRuntime_parts[OF ok]
  note reaction = checked_reaction[OF _ _ parts(1) names]
  {
    fix r' assume "r' \<in> set (po_reactions (pg_policies prog)) \<union> (\<Union>b\<in>set (pg_boundaries prog). set (bd_reactions b))"
    then consider "r' \<in> set (po_reactions (pg_policies prog))"
      | b' where "b' \<in> set (pg_boundaries prog)" "r' \<in> set (bd_reactions b')" by blast
    then show "\<exists>t. byBoundaryName prog (re_boundary r') = Some t \<and> re_emit r' \<in> event_types t"
    proof cases
      case 1
      with r_map_InrD[OF parts(3)] parts(5) reaction show ?thesis by blast
    next
      case 2
      obtain b where b: "b \<in> set bs" "compileRuntimeBoundary b = Inr b'" using r_map_InrD[OF parts(1) 2(1)] by blast
      from r_map_InrD[OF compiled_reactions[OF b(2)] 2(2)]
      obtain r where r: "r \<in> set (bd_reactions b)" "compileRuntimeReaction r = Inr r'" by blast
      from parts(4) b(1) r(1) have "check_reaction bs r = Inr ()" by (auto simp: check_boundary_def rbind_Inr_iff check_all_Inr)
      from reaction[OF this r(2)] show ?thesis .
    qed
  next
    fix s' st' assume s': "s' \<in> set (po_sagas (pg_policies prog))" "st' \<in> set (sg_steps s')"
    obtain s where s: "s \<in> set (po_sagas po)" "compileRuntimeSaga s = Inr s'" using r_map_InrD[OF parts(2) s'(1)] by blast
    obtain st where st: "st \<in> set (sg_steps s)" "boundaryName (ss_boundary st) = Inr (ss_boundary st')"
      "operationId (ss_operation st) = Inr (ss_operation st')" using compiled_step[OF s(2) s'(2)] by blast
    from parts(6) s(1) st(1) have "check_step bs s st = Inr ()" by (auto simp: check_saga_def rbind_Inr_iff check_all_Inr)
    from checked_step[OF this st(2,3) parts(1) names]
    show "\<exists>t. byBoundaryName prog (ss_boundary st') = Some t \<and> handles t (ss_operation st')" .
  }
qed


lemma compiled_reactions_resolve_witness:
  "\<exists>t. byBoundaryName linked_program ''account'' = Some t \<and> ''Paid'' \<in> event_types t"
  using compiled_reactions_resolve[OF linked_compiles] by (simp add: linked_program_def linked_policies_def)

subsection \<open>Names after trimming\<close>

lemma indexed_Inr: "index_boundary b seen = Inr s \<Longrightarrow> s = seen @ [b] \<and> bd_contractPath b \<notin> bd_contractPath ` set seen"
  by (auto simp: index_boundary_def rbind_Inr_iff refuse_if_Inr split: sum.splits)

lemma compiled_path: "compileRuntimeBoundary b = Inr b' \<Longrightarrow> bd_contractPath b' = bd_contractPath b"
  by (auto simp: compileRuntimeBoundary_def rbind_Inr_iff dest!: sym[of _ b'])

lemma indexed_paths: "rfold index_boundary bs seen = Inr s \<Longrightarrow> distinct (map bd_contractPath seen) \<Longrightarrow> distinct (map bd_contractPath (seen @ bs))"
proof (induction bs arbitrary: seen)
  case (Cons b bs)
  then obtain s1 where "index_boundary b seen = Inr s1" "rfold index_boundary bs s1 = Inr s" by (auto simp: rbind_Inr_iff)
  with indexed_Inr[of b seen s1] have "rfold index_boundary bs (seen @ [b]) = Inr s" and "bd_contractPath b \<notin> bd_contractPath ` set seen" by auto
  with Cons.IH[of "seen @ [b]"] Cons.prems(2) show ?case by simp
qed simp

lemma last_of_key:
  "j < length xs \<Longrightarrow> \<exists>k. j \<le> k \<and> k < length xs \<and> map_of (rev (map (\<lambda>b. (f b, b)) xs)) (f (xs ! j)) = Some (xs ! k)"
proof (induction xs rule: rev_induct)
  case (snoc x xs)
  show ?case
  proof (cases "f x = f ((xs @ [x]) ! j)")
    case True
    then show ?thesis using snoc.prems by (intro exI[of _ "length xs"]) simp
  next
    case False
    then have j: "j < length xs" using snoc.prems by (auto simp: nth_append less_Suc_eq split: if_splits)
    from snoc.IH[OF this] obtain k where "j \<le> k" "k < length xs" "map_of (rev (map (\<lambda>b. (f b, b)) xs)) (f (xs ! j)) = Some (xs ! k)" by blast
    then show ?thesis using False j by (intro exI[of _ k]) (simp add: nth_append)
  qed
qed simp

text \<open>C39: names of boundaries are compared before they are trimmed.  When two boundaries that the compiler accepts have names that agree once
  white space around them is gone, they get the same name in the program, a later one is found by it, and the
  earlier one is not found by any name.\<close>

theorem trimmed_names_collide:
  assumes ok: "compileRuntime authentication hs deps (bs, po) = Inr prog"
    and less: "i < j" "j < length bs" and trimmed: "js_trim (bd_name (bs ! i)) = js_trim (bd_name (bs ! j))"
  shows "length (pg_boundaries prog) = length bs
    \<and> bd_name (pg_boundaries prog ! i) = js_trim (bd_name (bs ! i)) \<and> bd_name (pg_boundaries prog ! j) = js_trim (bd_name (bs ! i))
    \<and> (\<exists>k\<ge>j. k < length bs \<and> byBoundaryName prog (js_trim (bd_name (bs ! i))) = Some (pg_boundaries prog ! k))
    \<and> (\<nexists>n. byBoundaryName prog n = Some (pg_boundaries prog ! i))"
proof -
  let ?ps = "pg_boundaries prog" and ?n = "js_trim (bd_name (bs ! i))"
  have compiled: "list_all2 (\<lambda>b b'. compileRuntimeBoundary b = Inr b') bs ?ps"
    using compileRuntime_parts(1)[OF ok] by (simp add: r_map_Inr)
  then have len: "length ?ps = length bs" by (simp add: list_all2_lengthD)
  have each: "bd_name (?ps ! m) = js_trim (bd_name (bs ! m)) \<and> bd_contractPath (?ps ! m) = bd_contractPath (bs ! m)" if "m < length bs" for m
  proof -
    have c: "compileRuntimeBoundary (bs ! m) = Inr (?ps ! m)" using compiled that by (simp add: list_all2_conv_all_nth)
    from compiled_path[OF c] compiled_name[OF c] show ?thesis by (simp add: boundaryName_def reference_Inr_iff)
  qed
  have names: "bd_name (?ps ! i) = ?n" "bd_name (?ps ! j) = ?n" using each[of i] each[of j] less trimmed by simp_all
  obtain s where "rfold index_boundary bs [] = Inr s" using ok by (auto simp: compileRuntime_def rbind_Inr_iff)
  then have paths: "distinct (map bd_contractPath bs)" using indexed_paths[of bs "[]" s] by simp
  obtain k where k: "j \<le> k" "k < length bs" "byBoundaryName prog ?n = Some (?ps ! k)"
    using last_of_key[of j ?ps bd_name] less len names(2) by (auto simp: byBoundaryName_def)
  have "byBoundaryName prog n \<noteq> Some (?ps ! i)" for n
  proof
    assume n: "byBoundaryName prog n = Some (?ps ! i)"
    then have "n = ?n" using byBoundaryName_name names(1) by metis
    with n k(3) have "bd_contractPath (bs ! i) = bd_contractPath (bs ! k)" using each[of i] each[of k] k less by auto
    with nth_eq_iff_index_eq[OF paths, of i k] k less show False by simp
  qed
  then show ?thesis using len names k by blast
qed

lemma trimmed_names_collide_witness:
  "\<exists>prog. compileRuntime None [] demo_deps ([demo_boundary, spaced_boundary], no_policies) = Inr prog
    \<and> bd_name (pg_boundaries prog ! 1) = ''account'' \<and> (\<nexists>n. byBoundaryName prog n = Some (pg_boundaries prog ! 0))"
proof -
  obtain prog where p: "compileRuntime None [] demo_deps ([demo_boundary, spaced_boundary], no_policies) = Inr prog"
    by (simp add: compile_simps demo_boundary_def spaced_boundary_def no_policies_def)
  have "js_trim ''account'' = ''account''" "js_trim '' account'' = ''account''" by code_simp+
  then show ?thesis using p trimmed_names_collide[OF p, of 0 1] by (simp add: demo_boundary_def spaced_boundary_def)
qed

end
