(* ===== verification/CredentialProps.thy ===== *)
theory CredentialProps
  imports YamlCompiler Sample
begin

text \<open>
  Properties of the credentials of a request: what a JWT that is accepted has been checked for, and the reading of
  the shorthand credentials.
\<close>

subsection \<open>Tokens\<close>

text \<open>A required claim is there when the payload, or the object every payload inherits from, has a member of its
  name, whose text is the one asked for unless any will do.\<close>

definition claim_holds :: "json_object \<Rightarrow> string \<times> string \<Rightarrow> bool" where
  "claim_holds payload c \<longleftrightarrow> (\<exists>t. claim_text payload (fst c) = Some t \<and> (snd c = ''*'' \<or> t = snd c))"

lemma check_claim_Inr: "check_claim payload c = Inr u \<Longrightarrow> claim_holds payload c"
  by (auto simp: check_claim_def claim_holds_def split: if_splits option.splits)

lemma check_header_Inr: "check_header lib token cfg = Inr u \<Longrightarrow>
    \<exists>h. jp_decode lib token = Inr (Some (JObj h)) \<and> obj_get h ''alg'' = JStr (configured_algorithm cfg)"
  by (auto simp: check_header_def Option.bind_eq_Some_conv split: sum.splits option.splits if_splits)

lemma verified_payload_Inr: "verified_payload lib token cfg = Inr payload \<Longrightarrow>
    jp_verify lib token (jc_secret cfg) (verifyOptions cfg) = Inr (Inr payload)"
  by (auto simp: verified_payload_def split: sum.splits option.splits)

lemma token_subject_Inr: "token_subject cfg payload = Inr i \<Longrightarrow>
    obj_get payload (case jc_subjectClaim cfg of Some c \<Rightarrow> c | None \<Rightarrow> ''sub'') = JStr i \<and> js_trim i \<noteq> []"
  by (auto simp: token_subject_def Let_def split: option.splits if_splits)

text \<open>What has been checked of a token whose actor is \<open>actor\<close>.\<close>

definition vouched :: "jwt_package \<Rightarrow> jwt_config \<Rightarrow> string \<Rightarrow> actor \<Rightarrow> bool" where
  "vouched lib cfg token actor \<longleftrightarrow> js_trim (jc_secret cfg) \<noteq> []
     \<and> (\<exists>h. jp_decode lib token = Inr (Some (JObj h)) \<and> obj_get h ''alg'' = JStr (configured_algorithm cfg))
     \<and> (\<exists>payload. jp_verify lib token (jc_secret cfg) (verifyOptions cfg) = Inr (Inr payload)
        \<and> (\<forall>c\<in>set (jc_requiredClaims cfg). claim_holds payload c)
        \<and> obj_get payload (case jc_subjectClaim cfg of Some c \<Rightarrow> c | None \<Rightarrow> ''sub'') = JStr (ac_id actor) \<and> js_trim (ac_id actor) \<noteq> []
        \<and> ac_scopes actor = claim_scopes (obj_get payload (case jc_scopesClaim cfg of Some c \<Rightarrow> c | None \<Rightarrow> ''scopes'')))"

lemma validateJwt_vouched:
  assumes "validateJwt lib token cfg = Inr actor"
  shows "vouched lib cfg token actor"
proof -
  from assms obtain payload i us where secret: "js_trim (jc_secret cfg) \<noteq> []" and header: "check_header lib token cfg = Inr ()"
    and payload: "verified_payload lib token cfg = Inr payload" and claims: "r_map (check_claim payload) (jc_requiredClaims cfg) = Inr us"
    and i: "token_subject cfg payload = Inr i"
    and actor: "actor = \<lparr>ac_id = i, ac_scopes = claim_scopes (obj_get payload (case jc_scopesClaim cfg of Some c \<Rightarrow> c | None \<Rightarrow> ''scopes''))\<rparr>"
    by (auto simp: validateJwt_def rbind_Inr_iff split: if_splits)
  have "\<forall>c\<in>set (jc_requiredClaims cfg). claim_holds payload c"
    using claims check_claim_Inr by (induction "jc_requiredClaims cfg" arbitrary: us) (fastforce simp: r_map_Inr list_all2_conv_all_nth in_set_conv_nth)+
  then show ?thesis
    using secret check_header_Inr[OF header] verified_payload_Inr[OF payload] token_subject_Inr[OF i] unfolding vouched_def actor by auto
qed

lemma jwt_callback_vouched:
  assumes "ax_mode a = Some JwtAuth" and "authenticate_request lib (Some a) rq = Inr r"
  shows "\<exists>cfg token actor. ax_jwt a = Some cfg \<and> extractBearerToken (authorization_header rq) = Some token
    \<and> r = Some actor \<and> vouched lib cfg token actor"
  using assms validateJwt_vouched
  by (auto simp: authenticate_request_def resolveActor_def rbind_Inr_iff split: option.splits if_splits)

text \<open>The request the engine runs once it knows the actor.\<close>

definition run_as :: "(request \<Rightarrow> execution_result run) \<Rightarrow> program \<Rightarrow> request \<Rightarrow> execution_result run" where
  "run_as again prog rq = (case byBoundaryName prog (cm_boundary (rq_command rq)) of
      None \<Rightarrow> lift (unrouted prog rq) | Some bd \<Rightarrow> execute_in again prog bd rq)"

lemma executeInternal_as:
  assumes "\<not> session_mode prog"
  shows "executeInternal again prog rq en = (case en_init en of Inl e \<Rightarrow> (Inl e, en) | Inr _ \<Rightarrow>
     (case authenticate prog rq en of Inl e \<Rightarrow> (Inl e, en) | Inr who \<Rightarrow> run_as again prog (as_actor rq who) en))"
  using assms by (simp add: executeInternal_def handleSessionEndpoint_def run_as_def bind_def get_def lift_def ret_def Let_def split: sum.split)

text \<open>C16: In JWT mode a request is refused before it reads or changes anything, or it runs as the actor of a token that the package
  has verified with the configured secret, algorithm, issuer and audience, whose header names the configured
  algorithm, that has every required claim with its value, and whose subject is not blank.  This is for a request for
  which the transport has set no actor: \<open>request.actor\<close> and \<open>identity.effective\<close>, which the override headers set, are
  taken ahead of the token's actor.\<close>

theorem jwt_actor_vouched:
  assumes "po_auth (pg_policies prog) = Some (compile_auth lib (Some a))" and "ax_mode a = Some JwtAuth"
    and "rq_actor rq = None" and "rq_effective rq = None"
  shows "(\<exists>e. executeInternal again prog rq en = (Inl e, en))
    \<or> (\<exists>cfg token actor. ax_jwt a = Some cfg \<and> extractBearerToken (authorization_header rq) = Some token
        \<and> vouched lib cfg token actor
        \<and> executeInternal again prog rq en = run_as again prog (as_actor rq (Some actor)) en
        \<and> rq_actor (as_actor rq (Some actor)) = Some actor \<and> cm_actor (rq_command (as_actor rq (Some actor))) = Some actor)"
proof -
  have plain: "\<not> session_mode prog" and callback: "authenticate prog rq en = (case authenticate_request lib (Some a) rq of
      Inl e \<Rightarrow> Inl (authentication_error (foreign_of e)) | Inr None \<Rightarrow> Inr (rq_actor rq) | Inr (Some who) \<Rightarrow> Inr (Some who))"
    using assms(1,2) by (simp_all add: session_mode_def authenticate_def compile_auth_def)
  show ?thesis
  proof (cases "authenticate_request lib (Some a) rq")
    case (Inl e)
    then show ?thesis using plain callback by (simp add: executeInternal_as split: sum.split)
  next
    case (Inr r)
    with jwt_callback_vouched[OF assms(2)] obtain cfg token actor where "ax_jwt a = Some cfg"
      "extractBearerToken (authorization_header rq) = Some token" "r = Some actor" "vouched lib cfg token actor" by blast
    moreover have "rq_actor (as_actor rq (Some actor)) = Some actor" "cm_actor (rq_command (as_actor rq (Some actor))) = Some actor"
      using assms(3,4) by (simp_all add: as_actor_def Let_def)
    ultimately show ?thesis using plain callback Inr by (auto simp: executeInternal_as split: sum.split)
  qed
qed

definition sample_package :: jwt_package where
  "sample_package = \<lparr>jp_decode = (\<lambda>_. Inr (Some (JObj [(''alg'', JStr ''HS256'')]))),
     jp_verify = (\<lambda>t s _. if s = ''k'' \<and> t = ''h.p.s'' then Inr (Inr [(''sub'', JStr ''ann''), (''scopes'', JStr ''teller  clerk'')])
        else Inl (JsonWebTokenFailure ''invalid signature''))\<rparr>"

definition sample_jwt :: jwt_config where
  "sample_jwt = \<lparr>jc_secret = ''k'', jc_algorithm = None, jc_issuer = None, jc_audience = None, jc_requiredClaims = [(''sub'', ''*'')],
     jc_subjectClaim = None, jc_scopesClaim = None\<rparr>"

definition sample_auth :: auth_config where
  "sample_auth = \<lparr>ax_mode = Some JwtAuth, ax_jwt = Some sample_jwt,
     ax_session = no_session_policy\<rparr>"

definition jwt_program :: program where
  "jwt_program = demo_program\<lparr>pg_policies := no_policies\<lparr>po_auth := Some (compile_auth sample_package (Some sample_auth))\<rparr>\<rparr>"

definition bearer_request :: request where
  "bearer_request = open_request\<lparr>rq_actor := None, rq_headers := [(''authorization'', ''Bearer h.p.s'')]\<rparr>"

lemma jwt_actor_vouched_witness:
  "vouched sample_package sample_jwt ''h.p.s'' \<lparr>ac_id = ''ann'', ac_scopes = [''teller'', ''clerk'']\<rparr>
    \<and> \<not> isl (fst (executeUnlocked jwt_program bearer_request empty_engine))"
proof -
  have settled: "\<not> isl (fst (executeInternal (executeStep jwt_program) jwt_program bearer_request empty_engine))" by code_simp
  have token: "extractBearerToken (authorization_header bearer_request) = Some ''h.p.s''" by code_simp
  have sure: "sample_auth = \<lparr>ax_mode = Some JwtAuth, ax_jwt = Some sample_jwt, ax_session = no_session_policy\<rparr>" by (simp add: sample_auth_def)
  have "\<exists>actor. vouched sample_package sample_jwt ''h.p.s'' actor"
    using jwt_actor_vouched[of jwt_program sample_package sample_auth bearer_request "executeStep jwt_program" empty_engine] settled token
    by (auto simp: jwt_program_def bearer_request_def open_request_def demo_request_def demo_program_def sure)
  then obtain actor where v: "vouched sample_package sample_jwt ''h.p.s'' actor" by blast
  have "actor = \<lparr>ac_id = ''ann'', ac_scopes = [''teller'', ''clerk'']\<rparr>"
  proof -
    have "jp_verify sample_package ''h.p.s'' (jc_secret sample_jwt) (verifyOptions sample_jwt)
        = Inr (Inr [(''sub'', JStr ''ann''), (''scopes'', JStr ''teller  clerk'')])" by (simp add: sample_package_def sample_jwt_def)
    moreover have "obj_get [(''sub'', JStr ''ann''), (''scopes'', JStr ''teller  clerk'')] ''sub'' = JStr ''ann''"
      "claim_scopes (obj_get [(''sub'', JStr ''ann''), (''scopes'', JStr ''teller  clerk'')] ''scopes'') = [''teller'', ''clerk'']" by code_simp+
    ultimately show ?thesis using v by (cases actor) (auto simp: vouched_def sample_jwt_def)
  qed
  then show ?thesis using v settled by (simp add: executeUnlocked_def)
qed

subsection \<open>The shorthand\<close>

lemma no_ws_trim: "list_all (\<lambda>c. \<not> is_ws c) s \<Longrightarrow> js_trim s = s"
  by (cases "s = []") (auto simp: list_all_iff intro!: js_trim_id)

lemma newline_is_ws: "is_newline c \<Longrightarrow> is_ws c"
  by (auto simp: is_newline_def is_ws_def code_def)

lemma js_join_set: "x \<in> set (js_join sep ps) \<Longrightarrow> x \<in> set sep \<or> (\<exists>p\<in>set ps. x \<in> set p)"
  by (induction sep ps rule: js_join.induct) auto

lemma bearer_token:
  assumes "list_all (\<lambda>c. \<not> is_ws c) token" and "token \<noteq> []"
  shows "extractBearerToken (Some (''Bearer '' @ token)) = Some token"
proof -
  have blank: "is_ws (CHR '' '')" "\<not> is_ws (CHR ''B'')" "to_lower ''Bearer'' = ''bearer''" by code_simp+
  have "\<not> is_ws (last token)" using assms by (simp add: list_all_iff)
  then have "js_trim (''Bearer '' @ token) = ''Bearer '' @ token" using blank(2) assms(2) by (intro js_trim_id) simp
  moreover have "dropWhile is_ws token = token" using assms by (cases token) auto
  moreover have "\<not> list_ex is_newline token" using assms(1) newline_is_ws by (auto simp: list_all_iff list_ex_iff)
  moreover have "\<exists>x\<in>set token. \<not> is_ws x" using assms by (cases token) auto
  ultimately show ?thesis using blank assms(2) by (simp add: extractBearerToken_def Let_def)
qed

text \<open>An identifier the shorthand can carry has no white space and no colon, a scope no white space and no comma.\<close>

definition plain_id :: "string \<Rightarrow> bool" where
  "plain_id s \<longleftrightarrow> s \<noteq> [] \<and> list_all (\<lambda>c. \<not> is_ws c \<and> c \<noteq> CHR '':'') s"

definition plain_scope :: "string \<Rightarrow> bool" where
  "plain_scope s \<longleftrightarrow> s \<noteq> [] \<and> list_all (\<lambda>c. \<not> is_ws c \<and> c \<noteq> CHR '','') s"

definition shorthand :: "actor \<Rightarrow> string" where
  "shorthand a = ''Bearer '' @ ac_id a @ '':'' @ js_join '','' (ac_scopes a)"

text \<open>C40: The shorthand credential of an actor is read back as that actor, with all its scopes in their order and colons within
  them, or none: for an identifier that is not empty and has no white space and no colon, and scopes that are not empty and have no white
  space and no comma.\<close>

theorem shorthand_roundtrip:
  assumes "plain_id (ac_id a)" and "\<forall>s\<in>set (ac_scopes a). plain_scope s"
  shows "extractActor (Some (shorthand a)) = Some a"
proof -
  let ?i = "ac_id a" and ?scopes = "ac_scopes a"
  let ?token = "?i @ CHR '':'' # js_join '','' ?scopes"
  have plain: "\<not> is_ws (CHR '':'')" "\<not> is_ws (CHR '','')" by code_simp+
  have "\<not> is_ws c" if "c \<in> set ?token" for c
    using that assms plain js_join_set[of c "'',''" ?scopes] by (auto simp: plain_id_def plain_scope_def list_all_iff)
  then have token: "extractBearerToken (Some (''Bearer '' @ ?token)) = Some ?token"
    by (intro bearer_token) (simp_all add: list_all_iff)
  have i: "takeWhile (\<lambda>c. c \<noteq> CHR '':'') ?token = ?i" using assms(1)
    by (subst takeWhile_append2) (auto simp: plain_id_def list_all_iff)
  have "js_split (CHR '','') (js_join '','' ?scopes) = (if ?scopes = [] then [[]] else ?scopes)"
    using assms(2) by (cases "?scopes = []") (auto intro!: js_split_join simp: plain_scope_def list_all_iff)
  moreover have "map js_trim ?scopes = ?scopes"
    using assms(2) by (intro map_idI no_ws_trim) (auto simp: plain_scope_def list_all_iff)
  moreover have "filter (\<lambda>s. s \<noteq> []) ?scopes = ?scopes" using assms(2) by (auto simp: filter_id_conv plain_scope_def)
  moreover have "js_trim [] = []" by code_simp
  ultimately show ?thesis using token i assms(1) by (simp add: extractActor_def Let_def plain_id_def shorthand_def split: if_splits)
qed

lemma shorthand_roundtrip_witness:
  "extractActor (Some ''Bearer alice:lead:read,lead:write'') = Some \<lparr>ac_id = ''alice'', ac_scopes = [''lead:read'', ''lead:write'']\<rparr>
    \<and> extractActor (Some ''Bearer bob:'') = Some \<lparr>ac_id = ''bob'', ac_scopes = []\<rparr>"
proof -
  have "plain_id ''alice''" "plain_id ''bob''" "plain_scope ''lead:read''" "plain_scope ''lead:write''" by code_simp+
  then show ?thesis using shorthand_roundtrip[of "\<lparr>ac_id = ''alice'', ac_scopes = [''lead:read'', ''lead:write'']\<rparr>"]
    shorthand_roundtrip[of "\<lparr>ac_id = ''bob'', ac_scopes = []\<rparr>"] by (simp add: shorthand_def)
qed

end
