(* ===== verification/LockChain.thy ===== *)
theory LockChain
  imports Domain "HOL-Library.List_Lexorder" "HOL-Library.Char_ord"
begin

text \<open>
  The locks of the engine between concurrent requests (\<open>acquireMany\<close> and \<open>acquire\<close> of \<open>core/engine.ts\<close>): a key holds the
  last promise of a chain, a call waits for the promise it found and appends its own.  The model of the engine
  itself (\<open>Engine\<close>) runs one request at a time, as the barrier does; here any number of requests take their
  steps in any order.
\<close>

subsection \<open>Chains of promises\<close>

text \<open>
  A call of \<open>acquire\<close> is known by its number.  Its own promise (\<open>slot\<close>) is resolved by its release; the promise it
  puts under the key (\<open>chained\<close>) is resolved when the one it found is and its own is.
\<close>

record lock_call =
  lc_key :: string
  lc_previous :: "nat option"
  lc_released :: bool

record lock_chain =
  lk_locks :: "(string, nat) omap"
  lk_calls :: "lock_call list"

function chain_settled :: "lock_call list \<Rightarrow> nat \<Rightarrow> bool" where
  "chain_settled cs n = (lc_released (cs ! n) \<and> (case lc_previous (cs ! n) of None \<Rightarrow> True | Some m \<Rightarrow> if m < n then chain_settled cs m else False))"
  by pat_completeness auto
termination by (relation "measure snd") auto

declare chain_settled.simps [simp del]

definition call_lock :: "string \<Rightarrow> lock_chain \<Rightarrow> nat \<times> lock_chain" where
  "call_lock key s = (let n = length (lk_calls s)
     in (n, \<lparr>lk_locks = omap_set key n (lk_locks s),
             lk_calls = lk_calls s @ [\<lparr>lc_key = key, lc_previous = omap_get (lk_locks s) key, lc_released = False\<rparr>]\<rparr>))"

text \<open>\<open>await previous\<close> has come back.\<close>

definition lock_granted :: "lock_chain \<Rightarrow> nat \<Rightarrow> bool" where
  "lock_granted s n = (case lc_previous (lk_calls s ! n) of None \<Rightarrow> True | Some m \<Rightarrow> chain_settled (lk_calls s) m)"

definition release_lock :: "nat \<Rightarrow> lock_chain \<Rightarrow> lock_chain" where
  "release_lock n s = (let key = lc_key (lk_calls s ! n)
     in \<lparr>lk_locks = (if omap_get (lk_locks s) key = Some n then omap_delete key (lk_locks s) else lk_locks s),
         lk_calls = (lk_calls s)[n := (lk_calls s ! n)\<lparr>lc_released := True\<rparr>]\<rparr>)"

subsection \<open>Requests\<close>

text \<open>
  A request that runs \<open>acquireMany\<close>: the keys it has still to ask for, the call it waits for, and the calls it has got,
  the last one first, which is the order it releases them in.
\<close>

record lock_client =
  cl_rest :: "string list"
  cl_waits :: "nat option"
  cl_held :: "nat list"

definition acquire_many :: "string list \<Rightarrow> lock_client" where
  "acquire_many keys = \<lparr>cl_rest = sort (remdups keys), cl_waits = None, cl_held = []\<rparr>"

type_synonym lock_system = "lock_chain \<times> lock_client list"

definition lock_start :: "string list list \<Rightarrow> lock_system" where
  "lock_start requests = (\<lparr>lk_locks = [], lk_calls = []\<rparr>, map acquire_many requests)"

inductive lock_step :: "lock_system \<Rightarrow> lock_system \<Rightarrow> bool" where
  asks: "i < length ps \<Longrightarrow> cl_waits (ps ! i) = None \<Longrightarrow> cl_rest (ps ! i) = k # ks \<Longrightarrow> call_lock k s = (n, s')
    \<Longrightarrow> lock_step (s, ps) (s', ps[i := (ps ! i)\<lparr>cl_rest := ks, cl_waits := Some n\<rparr>])"
| gets: "i < length ps \<Longrightarrow> cl_waits (ps ! i) = Some n \<Longrightarrow> lock_granted s n
    \<Longrightarrow> lock_step (s, ps) (s, ps[i := (ps ! i)\<lparr>cl_waits := None, cl_held := n # cl_held (ps ! i)\<rparr>])"
| frees: "i < length ps \<Longrightarrow> cl_waits (ps ! i) = None \<Longrightarrow> cl_rest (ps ! i) = [] \<Longrightarrow> cl_held (ps ! i) \<noteq> []
    \<Longrightarrow> lock_step (s, ps) (fold release_lock (cl_held (ps ! i)) s, ps[i := (ps ! i)\<lparr>cl_held := []\<rparr>])"

inductive_cases lock_stepE: "lock_step (s, ps) sys"

definition finished :: "lock_client \<Rightarrow> bool" where
  "finished p \<longleftrightarrow> cl_rest p = [] \<and> cl_waits p = None \<and> cl_held p = []"

subsection \<open>The invariant\<close>

abbreviation call_key :: "lock_chain \<Rightarrow> nat \<Rightarrow> string" where
  "call_key s n \<equiv> lc_key (lk_calls s ! n)"

abbreviation freed :: "lock_chain \<Rightarrow> nat \<Rightarrow> bool" where
  "freed s n \<equiv> lc_released (lk_calls s ! n)"

text \<open>The calls a client is responsible for.\<close>

definition calls_of :: "lock_client \<Rightarrow> nat list" where
  "calls_of p = (case cl_waits p of None \<Rightarrow> [] | Some n \<Rightarrow> [n]) @ cl_held p"

text \<open>
  Every call found the last call for its key, unless all of them had been released; the map has the last one that has
  not been released.
\<close>

definition chain_ok :: "lock_chain \<Rightarrow> bool" where
  "chain_ok s \<longleftrightarrow>
     (\<forall>n < length (lk_calls s). \<forall>m. lc_previous (lk_calls s ! n) = Some m \<longrightarrow> m < n \<and> call_key s m = call_key s n)
   \<and> (\<forall>n < length (lk_calls s). \<forall>m < n. call_key s m = call_key s n \<longrightarrow> \<not> freed s m
        \<longrightarrow> (\<exists>p. lc_previous (lk_calls s ! n) = Some p \<and> m \<le> p))
   \<and> (\<forall>n < length (lk_calls s). freed s n \<longrightarrow> (\<forall>m < n. call_key s m = call_key s n \<longrightarrow> freed s m))
   \<and> (\<forall>n < length (lk_calls s). \<not> freed s n \<longrightarrow> (\<exists>p. omap_get (lk_locks s) (call_key s n) = Some p \<and> n \<le> p))
   \<and> (\<forall>k p. omap_get (lk_locks s) k = Some p \<longrightarrow> p < length (lk_calls s) \<and> call_key s p = k \<and> \<not> freed s p)"

text \<open>A client asks for its keys in increasing order.\<close>

definition client_ok :: "lock_chain \<Rightarrow> lock_client \<Rightarrow> bool" where
  "client_ok s p \<longleftrightarrow> (\<forall>n \<in> set (calls_of p). n < length (lk_calls s) \<and> \<not> freed s n)
     \<and> (\<forall>n \<in> set (cl_held p). lock_granted s n)
     \<and> sorted_wrt (<) (rev (map (call_key s) (calls_of p)) @ cl_rest p)"

definition system_ok :: "lock_system \<Rightarrow> bool" where
  "system_ok sys \<longleftrightarrow> (case sys of (s, ps) \<Rightarrow> chain_ok s \<and> (\<forall>p \<in> set ps. client_ok s p)
     \<and> distinct (concat (map calls_of ps))
     \<and> (\<forall>n < length (lk_calls s). \<not> freed s n \<longrightarrow> n \<in> set (concat (map calls_of ps))))"

lemma chain_okD:
  assumes "chain_ok s" and "n < length (lk_calls s)"
  shows "lc_previous (lk_calls s ! n) = Some m \<Longrightarrow> m < n" and "lc_previous (lk_calls s ! n) = Some m \<Longrightarrow> call_key s m = call_key s n"
    and "lc_previous (lk_calls s ! n) = None \<Longrightarrow> m < n \<Longrightarrow> call_key s m = call_key s n \<Longrightarrow> freed s m"
    and "lc_previous (lk_calls s ! n) = Some q \<Longrightarrow> q < m \<Longrightarrow> m < n \<Longrightarrow> call_key s m = call_key s n \<Longrightarrow> freed s m"
    and "freed s n \<Longrightarrow> m < n \<Longrightarrow> call_key s m = call_key s n \<Longrightarrow> freed s m"
    and "\<not> freed s n \<Longrightarrow> \<exists>q. omap_get (lk_locks s) (call_key s n) = Some q \<and> n \<le> q"
proof -
  from assms(1) have a: "\<forall>n < length (lk_calls s). \<forall>m. lc_previous (lk_calls s ! n) = Some m \<longrightarrow> m < n \<and> call_key s m = call_key s n"
    and b: "\<forall>n < length (lk_calls s). \<forall>m < n. call_key s m = call_key s n \<longrightarrow> \<not> freed s m
        \<longrightarrow> (\<exists>p. lc_previous (lk_calls s ! n) = Some p \<and> m \<le> p)"
    and c: "\<forall>n < length (lk_calls s). freed s n \<longrightarrow> (\<forall>m < n. call_key s m = call_key s n \<longrightarrow> freed s m)"
    and d: "\<forall>n < length (lk_calls s). \<not> freed s n \<longrightarrow> (\<exists>p. omap_get (lk_locks s) (call_key s n) = Some p \<and> n \<le> p)"
    unfolding chain_ok_def by blast+
  show "lc_previous (lk_calls s ! n) = Some m \<Longrightarrow> m < n" "lc_previous (lk_calls s ! n) = Some m \<Longrightarrow> call_key s m = call_key s n"
    using a assms(2) by blast+
  show "lc_previous (lk_calls s ! n) = None \<Longrightarrow> m < n \<Longrightarrow> call_key s m = call_key s n \<Longrightarrow> freed s m"
    using b[rule_format, OF assms(2), of m] by auto
  show "lc_previous (lk_calls s ! n) = Some q \<Longrightarrow> q < m \<Longrightarrow> m < n \<Longrightarrow> call_key s m = call_key s n \<Longrightarrow> freed s m"
    using b[rule_format, OF assms(2), of m] by auto
  show "freed s n \<Longrightarrow> m < n \<Longrightarrow> call_key s m = call_key s n \<Longrightarrow> freed s m" using c assms(2) by blast
  show "\<not> freed s n \<Longrightarrow> \<exists>q. omap_get (lk_locks s) (call_key s n) = Some q \<and> n \<le> q" using d assms(2) by blast
qed

lemma chain_ok_reaches:
  "chain_ok s \<Longrightarrow> n < length (lk_calls s) \<Longrightarrow> m < n \<Longrightarrow> call_key s m = call_key s n \<Longrightarrow> \<not> freed s m
     \<Longrightarrow> \<exists>p. lc_previous (lk_calls s ! n) = Some p \<and> m \<le> p"
  unfolding chain_ok_def by blast

lemma chain_okI:
  assumes "\<And>n m. n < length (lk_calls s) \<Longrightarrow> lc_previous (lk_calls s ! n) = Some m \<Longrightarrow> m < n \<and> call_key s m = call_key s n"
    and "\<And>n m. n < length (lk_calls s) \<Longrightarrow> m < n \<Longrightarrow> call_key s m = call_key s n \<Longrightarrow> \<not> freed s m
        \<Longrightarrow> \<exists>p. lc_previous (lk_calls s ! n) = Some p \<and> m \<le> p"
    and "\<And>n m. n < length (lk_calls s) \<Longrightarrow> freed s n \<Longrightarrow> m < n \<Longrightarrow> call_key s m = call_key s n \<Longrightarrow> freed s m"
    and "\<And>n. n < length (lk_calls s) \<Longrightarrow> \<not> freed s n \<Longrightarrow> \<exists>p. omap_get (lk_locks s) (call_key s n) = Some p \<and> n \<le> p"
    and "\<And>k p. omap_get (lk_locks s) k = Some p \<Longrightarrow> p < length (lk_calls s) \<and> call_key s p = k \<and> \<not> freed s p"
  shows "chain_ok s"
  unfolding chain_ok_def by (intro conjI; (intro allI impI, rule assms; assumption))

lemma chain_ok_last: "chain_ok s \<Longrightarrow> omap_get (lk_locks s) k = Some q \<Longrightarrow> q < length (lk_calls s) \<and> call_key s q = k \<and> \<not> freed s q"
  unfolding chain_ok_def by blast

text \<open>A call is granted when the calls for its key before it have been released.\<close>

lemma settled_iff:
  assumes "chain_ok s" and "n < length (lk_calls s)"
  shows "chain_settled (lk_calls s) n \<longleftrightarrow> freed s n"
  using assms(2)
proof (induction n rule: less_induct)
  case (less n)
  show ?case
  proof (cases "lc_previous (lk_calls s ! n)")
    case None
    then show ?thesis by (simp add: chain_settled.simps[of _ n])
  next
    case (Some q)
    note q = chain_okD(1,2)[OF assms(1) less.prems Some]
    have "freed s n \<Longrightarrow> freed s q" by (rule chain_okD(5)[OF assms(1) less.prems _ q])
    then show ?thesis using less.IH[OF q(1)] q(1) less.prems Some by (auto simp: chain_settled.simps[of _ n])
  qed
qed

lemma granted_iff:
  assumes "chain_ok s" and "n < length (lk_calls s)"
  shows "lock_granted s n \<longleftrightarrow> (\<forall>m < n. call_key s m = call_key s n \<longrightarrow> freed s m)"
proof (cases "lc_previous (lk_calls s ! n)")
  case None
  then show ?thesis using chain_okD(3)[OF assms None] by (simp add: lock_granted_def)
next
  case (Some q)
  note q = chain_okD(1,2)[OF assms Some]
  then have len: "q < length (lk_calls s)" using assms(2) by simp
  have "freed s m" if "freed s q" "m < n" "call_key s m = call_key s n" for m
  proof (cases m q rule: linorder_cases)
    case less
    then show ?thesis using chain_okD(5)[OF assms(1) len that(1), of m] that(3) q(2) by simp
  next
    case equal
    then show ?thesis using that(1) by simp
  next
    case greater
    then show ?thesis using chain_okD(4)[OF assms Some] that by blast
  qed
  then show ?thesis using Some q settled_iff[OF assms(1) len] by (auto simp: lock_granted_def)
qed


subsection \<open>Steps keep the invariant\<close>

lemma call_lock_facts:
  assumes "call_lock k s = (n, s')"
  shows "n = length (lk_calls s)" and "length (lk_calls s') = Suc n" and "call_key s' n = k" and "\<not> freed s' n"
    and "m < n \<Longrightarrow> lk_calls s' ! m = lk_calls s ! m" and "lk_locks s' = omap_set k n (lk_locks s)"
    and "lc_previous (lk_calls s' ! n) = omap_get (lk_locks s) k"
  using assms by (auto simp: call_lock_def Let_def nth_append)

lemma call_lock_ok:
  assumes ok: "chain_ok s" and call: "call_lock k s = (n, s')"
  shows "chain_ok s'"
proof (rule chain_okI)
  note n = call_lock_facts(1)[OF call] and len = call_lock_facts(2)[OF call] and at = call_lock_facts(3,4,7)[OF call]
    and old = call_lock_facts(5)[OF call] and locks = call_lock_facts(6)[OF call]
  show "m < j \<and> call_key s' m = call_key s' j" if "j < length (lk_calls s')" "lc_previous (lk_calls s' ! j) = Some m" for j m
  proof (cases "j = n")
    case True
    then show ?thesis using that chain_ok_last[OF ok, of k m] at n old[of m] by simp
  next
    case False
    then have "j < n" using that(1) len by simp
    then show ?thesis using that chain_okD(1,2)[OF ok, of j m] n old[of j] old[of m] by simp
  qed
  show "\<exists>p. lc_previous (lk_calls s' ! j) = Some p \<and> m \<le> p"
    if "j < length (lk_calls s')" "m < j" "call_key s' m = call_key s' j" "\<not> freed s' m" for j m
  proof (cases "j = n")
    case True
    then show ?thesis using that chain_okD(6)[OF ok, of m] at n old[of m] by simp
  next
    case False
    then have "j < n" using that(1) len by simp
    then show ?thesis using that chain_ok_reaches[OF ok, of j m] n old[of j] old[of m] by simp
  qed
  show "freed s' m" if "j < length (lk_calls s')" "freed s' j" "m < j" "call_key s' m = call_key s' j" for j m
  proof -
    have "j < n" using that(1,2) len at(2) by (cases "j = n") simp_all
    then show ?thesis using that chain_okD(5)[OF ok, of j m] n old[of j] old[of m] by simp
  qed
  show "\<exists>p. omap_get (lk_locks s') (call_key s' j) = Some p \<and> j \<le> p" if "j < length (lk_calls s')" "\<not> freed s' j" for j
  proof (cases "j = n")
    case True
    then show ?thesis using at locks by simp
  next
    case False
    then have "j < n" using that(1) len by simp
    then show ?thesis using that chain_okD(6)[OF ok, of j] n old[of j] locks by auto
  qed
  show "p < length (lk_calls s') \<and> call_key s' p = j \<and> \<not> freed s' p" if "omap_get (lk_locks s') j = Some p" for j p
    using that chain_ok_last[OF ok, of j p] at n len old[of p] by (auto simp: locks split: if_splits)
qed

lemma release_facts:
  assumes "n < length (lk_calls s)"
  shows "length (lk_calls (release_lock n s)) = length (lk_calls s)" and "call_key (release_lock n s) m = call_key s m"
    and "freed (release_lock n s) m \<longleftrightarrow> freed s m \<or> m = n" and "lc_previous (lk_calls (release_lock n s) ! m) = lc_previous (lk_calls s ! m)"
  using assms by (auto simp: release_lock_def Let_def nth_list_update)

lemma release_ok:
  assumes ok: "chain_ok s" and n: "n < length (lk_calls s)" "lock_granted s n"
  shows "chain_ok (release_lock n s)"
proof (rule chain_okI)
  let ?s = "release_lock n s"
  have earlier: "freed s m" if "m < n" "call_key s m = call_key s n" for m
    using n(2) granted_iff[OF ok n(1)] that by blast
  have locks: "omap_get (lk_locks ?s) k = (if omap_get (lk_locks s) (call_key s n) = Some n \<and> k = call_key s n then None else omap_get (lk_locks s) k)" for k
    by (simp add: release_lock_def Let_def)
  note facts = release_facts[OF n(1)]
  show "m < j \<and> call_key ?s m = call_key ?s j" if "j < length (lk_calls ?s)" "lc_previous (lk_calls ?s ! j) = Some m" for j m
    using that chain_okD(1,2)[OF ok, of j m] by (simp add: facts)
  show "\<exists>p. lc_previous (lk_calls ?s ! j) = Some p \<and> m \<le> p"
    if "j < length (lk_calls ?s)" "m < j" "call_key ?s m = call_key ?s j" "\<not> freed ?s m" for j m
    using that chain_ok_reaches[OF ok, of j m] by (simp add: facts)
  show "freed ?s m" if "j < length (lk_calls ?s)" "freed ?s j" "m < j" "call_key ?s m = call_key ?s j" for j m
    using that chain_okD(5)[OF ok, of j m] earlier[of m] by (auto simp: facts)
  show "\<exists>p. omap_get (lk_locks ?s) (call_key ?s j) = Some p \<and> j \<le> p" if "j < length (lk_calls ?s)" "\<not> freed ?s j" for j
  proof -
    have j: "j < length (lk_calls s)" "\<not> freed s j" "j \<noteq> n" using that by (simp_all add: facts)
    obtain q where q: "omap_get (lk_locks s) (call_key s j) = Some q" "j \<le> q" using chain_okD(6)[OF ok j(1,2)] by blast
    have "q \<noteq> n" if "call_key s j = call_key s n"
    proof
      assume "q = n"
      then have "j < n" using q(2) j(3) by simp
      from earlier[OF this that] j(2) show False by simp
    qed
    then show ?thesis using q by (auto simp: locks facts)
  qed
  show "q < length (lk_calls ?s) \<and> call_key ?s q = k \<and> \<not> freed ?s q" if "omap_get (lk_locks ?s) k = Some q" for k q
    using that chain_ok_last[OF ok, of k q] by (auto simp: locks facts split: if_splits)
qed

lemma granted_mono:
  assumes "chain_ok s" and "chain_ok s'" and "n < length (lk_calls s)" and "n < length (lk_calls s')" and "lock_granted s n"
    and "\<And>m. m \<le> n \<Longrightarrow> call_key s' m = call_key s m" and "\<And>m. m < n \<Longrightarrow> freed s m \<Longrightarrow> freed s' m"
  shows "lock_granted s' n"
  using assms(5) unfolding granted_iff[OF assms(1,3)] granted_iff[OF assms(2,4)] using assms(6,7) by simp

text \<open>A request releases everything it has got.\<close>

lemma release_all:
  assumes "chain_ok s" and "distinct ns" and "\<forall>n \<in> set ns. n < length (lk_calls s) \<and> lock_granted s n"
  shows "chain_ok (fold release_lock ns s) \<and> length (lk_calls (fold release_lock ns s)) = length (lk_calls s)
    \<and> (\<forall>m. call_key (fold release_lock ns s) m = call_key s m) \<and> (\<forall>m. freed (fold release_lock ns s) m \<longleftrightarrow> freed s m \<or> m \<in> set ns)"
  using assms
proof (induction ns arbitrary: s)
  case (Cons n ns)
  then have n: "n < length (lk_calls s)" "lock_granted s n" by simp_all
  note ok = release_ok[OF Cons.prems(1) n] and facts = release_facts[OF n(1)]
  have "lock_granted (release_lock n s) m" if "m \<in> set ns" for m
    using that Cons.prems(1,3) by (intro granted_mono[OF Cons.prems(1) ok]) (auto simp: facts)
  then show ?case using Cons.IH[OF ok] Cons.prems(2,3) by (auto simp: facts)
qed simp


lemma system_okI:
  assumes "chain_ok s" and "\<And>p. p \<in> set ps \<Longrightarrow> client_ok s p" and "distinct (concat (map calls_of ps))"
    and "\<And>n. n < length (lk_calls s) \<Longrightarrow> \<not> freed s n \<Longrightarrow> n \<in> set (concat (map calls_of ps))"
  shows "system_ok (s, ps)"
  unfolding system_ok_def prod.case using assms by blast

lemma system_okD:
  assumes "system_ok (s, ps)"
  shows "chain_ok s" and "p \<in> set ps \<Longrightarrow> client_ok s p" and "distinct (concat (map calls_of ps))"
    and "n < length (lk_calls s) \<Longrightarrow> \<not> freed s n \<Longrightarrow> \<exists>p \<in> set ps. n \<in> set (calls_of p)"
  using assms unfolding system_ok_def prod.case by auto

text \<open>The calls of all clients, as those of the clients before, of one, and of those after.\<close>

lemma calls_update:
  assumes "i < length ps"
  shows "concat (map calls_of (ps[i := p])) = concat (map calls_of (take i ps)) @ calls_of p @ concat (map calls_of (drop (Suc i) ps))"
  using assms by (simp add: upd_conv_take_nth_drop)

lemma calls_at:
  assumes "i < length ps"
  shows "concat (map calls_of ps) = concat (map calls_of (take i ps)) @ calls_of (ps ! i) @ concat (map calls_of (drop (Suc i) ps))"
  using calls_update[OF assms, of "ps ! i"] by simp

lemma distinct_parts:
  "distinct (concat (map f ps)) \<Longrightarrow> i < length ps \<Longrightarrow> j < length ps \<Longrightarrow> i \<noteq> j \<Longrightarrow> set (f (ps ! i)) \<inter> set (f (ps ! j)) = {}"
proof (induction ps arbitrary: i j)
  case (Cons p ps)
  have "set (f p) \<inter> set (f (ps ! l)) = {}" if "l < length ps" for l
    using Cons.prems(1) nth_mem[OF that] by auto
  then show ?case using Cons by (cases i; cases j) auto
qed simp

lemma client_ok_mono:
  assumes "client_ok s p" and "chain_ok s" and "chain_ok s'" and "length (lk_calls s) \<le> length (lk_calls s')"
    and "\<And>m. m < length (lk_calls s) \<Longrightarrow> call_key s' m = call_key s m"
    and "\<And>m. m < length (lk_calls s) \<Longrightarrow> freed s m \<Longrightarrow> freed s' m" and "\<And>n. n \<in> set (calls_of p) \<Longrightarrow> \<not> freed s' n"
  shows "client_ok s' p"
proof -
  have calls: "n < length (lk_calls s)" if "n \<in> set (calls_of p)" for n using assms(1) that by (simp add: client_ok_def)
  have keys: "map (call_key s') (calls_of p) = map (call_key s) (calls_of p)" using calls assms(5) by simp
  have "lock_granted s' n" if "n \<in> set (cl_held p)" for n
  proof (rule granted_mono[OF assms(2,3)])
    show len: "n < length (lk_calls s)" using calls that by (simp add: calls_of_def)
    show "n < length (lk_calls s')" using len assms(4) by simp
    show "lock_granted s n" using assms(1) that by (simp add: client_ok_def)
    show "call_key s' m = call_key s m" if "m \<le> n" for m using that len assms(5) by simp
    show "freed s' m" if "m < n" "freed s m" for m using that len assms(6) by simp
  qed
  then show ?thesis using assms(1,4,7) calls unfolding client_ok_def keys by (auto intro: less_le_trans)
qed

lemma asks_ok:
  assumes ok: "system_ok (s, ps)" and i: "i < length ps" "cl_waits (ps ! i) = None" "cl_rest (ps ! i) = k # ks" and call: "call_lock k s = (n, s')"
  shows "system_ok (s', ps[i := (ps ! i)\<lparr>cl_rest := ks, cl_waits := Some n\<rparr>])"
proof (rule system_okI)
  let ?p = "(ps ! i)\<lparr>cl_rest := ks, cl_waits := Some n\<rparr>"
  note n = call_lock_facts(1)[OF call] and len = call_lock_facts(2)[OF call] and at = call_lock_facts(3,4)[OF call]
    and old = call_lock_facts(5)[OF call] and chain = system_okD(1)[OF ok]
  show chain': "chain_ok s'" by (rule call_lock_ok[OF chain call])
  have calls: "m < n" if "p \<in> set ps" "m \<in> set (calls_of p)" for p m
    using system_okD(2)[OF ok that(1)] that(2) n by (simp add: client_ok_def)
  have same: "client_ok s' p" if "p \<in> set ps" for p
  proof (rule client_ok_mono[OF system_okD(2)[OF ok that] chain chain'])
    show "\<not> freed s' m" if "m \<in> set (calls_of p)" for m
      using system_okD(2)[OF ok \<open>p \<in> set ps\<close>] that old[OF calls[OF \<open>p \<in> set ps\<close> that]] by (simp add: client_ok_def)
  qed (use len n old in auto)
  have pi: "ps ! i \<in> set ps" using i(1) by simp
  have own: "calls_of (ps ! i) = cl_held (ps ! i)" "calls_of ?p = n # cl_held (ps ! i)" using i(2) by (simp_all add: calls_of_def)
  have "client_ok s' ?p"
    using same[OF pi] at len unfolding client_ok_def own i(3) by auto
  then show "client_ok s' p" if "p \<in> set (ps[i := ?p])" for p
    using that same set_update_subset_insert[of ps i ?p] by blast
  have new: "n \<notin> set (concat (map calls_of ps))" using calls by auto
  have calls': "set (concat (map calls_of (ps[i := ?p]))) = insert n (set (concat (map calls_of ps)))"
    "distinct (concat (map calls_of (ps[i := ?p]))) \<longleftrightarrow> distinct (n # concat (map calls_of ps))"
    unfolding calls_update[OF i(1)] calls_at[OF i(1)] own by auto
  show "distinct (concat (map calls_of (ps[i := ?p])))" unfolding calls'(2) using new system_okD(3)[OF ok] by simp
  show "m \<in> set (concat (map calls_of (ps[i := ?p])))" if "m < length (lk_calls s')" "\<not> freed s' m" for m
    unfolding calls'(1) using system_okD(4)[OF ok, of m] that len n old[of m] by (auto simp: less_Suc_eq)
qed

lemma gets_ok:
  assumes ok: "system_ok (s, ps)" and i: "i < length ps" "cl_waits (ps ! i) = Some n" "lock_granted s n"
  shows "system_ok (s, ps[i := (ps ! i)\<lparr>cl_waits := None, cl_held := n # cl_held (ps ! i)\<rparr>])"
proof (rule system_okI[OF system_okD(1)[OF ok]])
  let ?p = "(ps ! i)\<lparr>cl_waits := None, cl_held := n # cl_held (ps ! i)\<rparr>"
  have own: "calls_of ?p = calls_of (ps ! i)" using i(2) by (simp add: calls_of_def)
  have calls: "concat (map calls_of (ps[i := ?p])) = concat (map calls_of ps)"
    unfolding calls_update[OF i(1)] own by (rule calls_at[OF i(1), symmetric])
  have "ps ! i \<in> set ps" using i(1) by simp
  then have "client_ok s ?p" using system_okD(2)[OF ok, of "ps ! i"] i(3) unfolding client_ok_def own by simp
  then show "client_ok s p" if "p \<in> set (ps[i := ?p])" for p
    using that system_okD(2)[OF ok] set_update_subset_insert[of ps i ?p] by blast
  show "distinct (concat (map calls_of (ps[i := ?p])))" unfolding calls by (rule system_okD(3)[OF ok])
  show "m \<in> set (concat (map calls_of (ps[i := ?p])))" if "m < length (lk_calls s)" "\<not> freed s m" for m
    unfolding calls using system_okD(4)[OF ok that] by auto
qed

lemma frees_ok:
  assumes ok: "system_ok (s, ps)" and i: "i < length ps" "cl_waits (ps ! i) = None" "cl_rest (ps ! i) = []"
  shows "system_ok (fold release_lock (cl_held (ps ! i)) s, ps[i := (ps ! i)\<lparr>cl_held := []\<rparr>])"
proof (rule system_okI)
  let ?p = "(ps ! i)\<lparr>cl_held := []\<rparr>" and ?s = "fold release_lock (cl_held (ps ! i)) s"
  have chain: "chain_ok s" by (rule system_okD(1)[OF ok])
  have own: "calls_of (ps ! i) = cl_held (ps ! i)" "calls_of ?p = []" using i(2) by (simp_all add: calls_of_def)
  have dist: "distinct (concat (map calls_of (take i ps)) @ cl_held (ps ! i) @ concat (map calls_of (drop (Suc i) ps)))"
    using system_okD(3)[OF ok] unfolding calls_at[OF i(1)] own(1) .
  have "client_ok s (ps ! i)" using system_okD(2)[OF ok, of "ps ! i"] i(1) by simp
  then have "\<forall>n \<in> set (cl_held (ps ! i)). n < length (lk_calls s) \<and> lock_granted s n" by (simp add: client_ok_def own(1))
  with release_all[OF chain] dist have chain': "chain_ok ?s" and len: "length (lk_calls ?s) = length (lk_calls s)"
    and key: "call_key ?s m = call_key s m" and free: "freed ?s m \<longleftrightarrow> freed s m \<or> m \<in> set (cl_held (ps ! i))" for m by auto
  show "chain_ok ?s" by (rule chain')
  have calls: "concat (map calls_of (ps[i := ?p])) = concat (map calls_of (take i ps)) @ concat (map calls_of (drop (Suc i) ps))"
    unfolding calls_update[OF i(1)] own(2) by simp
  show "distinct (concat (map calls_of (ps[i := ?p])))" unfolding calls using dist by auto
  show "m \<in> set (concat (map calls_of (ps[i := ?p])))" if "m < length (lk_calls ?s)" "\<not> freed ?s m" for m
  proof -
    have "m \<in> set (concat (map calls_of ps))" using system_okD(4)[OF ok, of m] that by (auto simp: len free)
    moreover have "m \<notin> set (cl_held (ps ! i))" using that by (simp add: free)
    ultimately show ?thesis unfolding calls calls_at[OF i(1)] own(1) by auto
  qed
  show "client_ok ?s p" if p: "p \<in> set (ps[i := ?p])" for p
  proof (cases "p = ?p")
    case True
    then show ?thesis by (simp add: client_ok_def own(2) i(3))
  next
    case False
    then have "p \<in> set ps" using p set_update_subset_insert[of ps i ?p] by blast
    note was = system_okD(2)[OF ok this]
    have "\<not> freed ?s n" if "n \<in> set (calls_of p)" for n
    proof -
      have "n \<in> set (concat (map calls_of (ps[i := ?p])))" using p that by auto
      then have "n \<notin> set (cl_held (ps ! i))" unfolding calls using dist by auto
      then show ?thesis using was that by (simp add: client_ok_def free)
    qed
    then show ?thesis by (intro client_ok_mono[OF was chain chain']) (simp_all add: len key free)
  qed
qed

lemma lock_step_ok: "lock_step sys sys' \<Longrightarrow> system_ok sys \<Longrightarrow> system_ok sys'"
  by (induction rule: lock_step.induct) (simp_all add: asks_ok gets_ok frees_ok)

lemma start_ok: "system_ok (lock_start requests)"
proof -
  have none: "concat (map calls_of (map acquire_many requests)) = []"
    by (induction requests) (simp_all add: acquire_many_def calls_of_def)
  have "calls_of (acquire_many keys) = []" for keys by (simp add: acquire_many_def calls_of_def)
  moreover have "sorted_wrt (<) (sort (remdups keys))" for keys :: "string list" by (simp add: strict_sorted_iff)
  ultimately show ?thesis
    unfolding lock_start_def by (intro system_okI; (simp only: none)?) (auto simp: chain_ok_def client_ok_def acquire_many_def)
qed

lemma reachable_ok: "lock_step\<^sup>*\<^sup>* (lock_start requests) sys \<Longrightarrow> system_ok sys"
  by (induction rule: rtranclp_induct) (auto simp: start_ok lock_step_ok)

subsection \<open>Progress\<close>

text \<open>While every request that is not finished waits, the one that waits for the largest key, and among those the first, has its lock.\<close>

lemma some_call_granted:
  assumes ok: "system_ok (s, ps)" and waits: "\<forall>p \<in> set ps. \<not> finished p \<longrightarrow> cl_waits p \<noteq> None" and "p \<in> set ps" and "\<not> finished p"
  shows "\<exists>p \<in> set ps. \<exists>n. cl_waits p = Some n \<and> lock_granted s n"
proof -
  let ?W = "{n. \<exists>p \<in> set ps. cl_waits p = Some n}"
  have chain: "chain_ok s" by (rule system_okD(1)[OF ok])
  have "?W \<subseteq> (\<lambda>p. the (cl_waits p)) ` set ps" by force
  then have fin: "finite ?W" using finite_surj by blast
  have "?W \<noteq> {}" using waits assms(3,4) by fastforce
  with fin obtain k where k: "k \<in> call_key s ` ?W" "\<forall>n \<in> ?W. call_key s n \<le> k"
    using Max_in[of "call_key s ` ?W"] Max_ge[of "call_key s ` ?W"] by (metis (no_types, lifting) finite_imageI image_eqI image_is_empty)
  define n where "n = (LEAST n. n \<in> ?W \<and> call_key s n = k)"
  have n: "n \<in> ?W" "call_key s n = k" using k(1) LeastI_ex[of "\<lambda>n. n \<in> ?W \<and> call_key s n = k"] unfolding n_def by auto
  have first: "n \<le> m" if "m \<in> ?W" "call_key s m = k" for m unfolding n_def by (rule Least_le) (use that in blast)
  obtain p where p: "p \<in> set ps" "cl_waits p = Some n" using n(1) by blast
  have len: "n < length (lk_calls s)" using system_okD(2)[OF ok p(1)] p(2) by (simp add: client_ok_def calls_of_def)
  have "freed s m" if m: "m < n" "call_key s m = call_key s n" for m
  proof (rule ccontr)
    assume "\<not> freed s m"
    then obtain q where q: "q \<in> set ps" "m \<in> set (calls_of q)" using system_okD(4)[OF ok, of m] m(1) len by auto
    then have "\<not> finished q" by (auto simp: finished_def calls_of_def)
    with waits q(1) obtain n' where n': "cl_waits q = Some n'" by blast
    then have W: "n' \<in> ?W" using q(1) by blast
    show False
    proof (cases "m = n'")
      case True
      then show False using first[OF W] m n(2) by simp
    next
      case False
      then have "m \<in> set (cl_held q)" using q(2) n' by (simp add: calls_of_def)
      moreover have "sorted_wrt (<) (rev (map (call_key s) (n' # cl_held q)) @ cl_rest q)"
        using system_okD(2)[OF ok q(1)] n' by (simp add: client_ok_def calls_of_def)
      ultimately have "call_key s m < call_key s n'" by (auto simp: sorted_wrt_append)
      then show False using k(2) W m(2) n(2) by fastforce
    qed
  qed
  then have "lock_granted s n" using granted_iff[OF chain len] by blast
  with p show ?thesis by blast
qed


lemma some_step:
  assumes ok: "system_ok (s, ps)" and "p \<in> set ps" and "\<not> finished p"
  shows "\<exists>sys'. lock_step (s, ps) sys'"
proof (cases "\<exists>q \<in> set ps. \<not> finished q \<and> cl_waits q = None")
  case True
  then obtain q where "q \<in> set ps" and q: "\<not> finished q" "cl_waits q = None" by blast
  then obtain i where i: "i < length ps" "ps ! i = q" by (auto simp: in_set_conv_nth)
  show ?thesis
  proof (cases "cl_rest q")
    case Nil
    then show ?thesis using i q frees[of i ps s] by (auto simp: finished_def)
  next
    case (Cons k ks)
    obtain n s' where "call_lock k s = (n, s')" by (rule prod.exhaust)
    with Cons i q asks[of i ps k ks s n s'] show ?thesis by auto
  qed
next
  case False
  then have "\<forall>q \<in> set ps. \<not> finished q \<longrightarrow> cl_waits q \<noteq> None" by auto
  from some_call_granted[OF ok this assms(2,3)]
  obtain q n where "q \<in> set ps" and q: "cl_waits q = Some n" "lock_granted s n" by blast
  then obtain i where "i < length ps" "ps ! i = q" by (auto simp: in_set_conv_nth)
  then show ?thesis using q gets[of i ps n s] by blast
qed

text \<open>What a request has still to do: ask, get and release.\<close>

definition lock_work :: "lock_client \<Rightarrow> nat" where
  "lock_work p = 3 * length (cl_rest p) + (if cl_waits p = None then 0 else 2) + (if cl_held p = [] then 0 else 1)"

lemma work_update:
  assumes "i < length ps" and "lock_work q < lock_work (ps ! i)"
  shows "sum_list (map lock_work (ps[i := q])) < sum_list (map lock_work ps)"
proof -
  have ps: "ps = take i ps @ ps ! i # drop (Suc i) ps" by (rule id_take_nth_drop[OF assms(1)])
  have "sum_list (map lock_work (ps[i := q])) = sum_list (map lock_work (take i ps)) + lock_work q + sum_list (map lock_work (drop (Suc i) ps))"
    using assms(1) by (simp add: upd_conv_take_nth_drop)
  also have "\<dots> < sum_list (map lock_work (take i ps)) + lock_work (ps ! i) + sum_list (map lock_work (drop (Suc i) ps))"
    using assms(2) by simp
  also have "\<dots> = sum_list (map lock_work ps)" by (subst (4) ps) simp
  finally show ?thesis .
qed

lemma step_works: "lock_step sys sys' \<Longrightarrow> sum_list (map lock_work (snd sys')) < sum_list (map lock_work (snd sys))"
proof (induction rule: lock_step.induct)
  case (asks i ps k ks s n s')
  then show ?case unfolding snd_conv by (intro work_update) (simp_all add: lock_work_def)
next
  case (gets i ps n s)
  then show ?case unfolding snd_conv by (intro work_update) (simp_all add: lock_work_def)
next
  case (frees i ps s)
  then show ?case unfolding snd_conv by (intro work_update) (simp_all add: lock_work_def)
qed

lemma run_works: "(lock_step ^^ n) sys sys' \<Longrightarrow> n + sum_list (map lock_work (snd sys')) \<le> sum_list (map lock_work (snd sys))"
proof (induction n arbitrary: sys')
  case (Suc n)
  then obtain mid where mid: "(lock_step ^^ n) sys mid" "lock_step mid sys'" by auto
  from Suc.IH[OF mid(1)] step_works[OF mid(2)] show ?case by simp
qed simp

lemma start_work: "sum_list (map lock_work (snd (lock_start requests))) \<le> 3 * sum_list (map length requests)"
proof (induction requests)
  case (Cons keys requests)
  have "length (remdups keys) \<le> length keys" by (rule length_remdups_leq)
  then have "lock_work (acquire_many keys) \<le> 3 * length keys" by (simp add: lock_work_def acquire_many_def)
  with Cons show ?case by (simp add: lock_start_def)
qed (simp add: lock_start_def)

lemma finished_locks:
  assumes ok: "system_ok (s, ps)" and "list_all finished ps"
  shows "lk_locks s = []"
proof (rule ccontr)
  assume "lk_locks s \<noteq> []"
  then obtain k q l where "lk_locks s = (k, q) # l" by (cases "lk_locks s") auto
  then have "omap_get (lk_locks s) k = Some q" by simp
  from chain_ok_last[OF system_okD(1)[OF ok] this] system_okD(4)[OF ok, of q]
  obtain p where "p \<in> set ps" "q \<in> set (calls_of p)" by auto
  with assms(2) show False by (auto simp: list_all_iff finished_def calls_of_def)
qed

text \<open>
  A lock is not reentrant: a call waits while an earlier one for its key has not been released, whoever made that one.  A request
  that asks again for a key it holds, and would release it only afterwards, waits for ever.
\<close>

lemma not_reentrant:
  assumes "chain_ok s" and "n < length (lk_calls s)" and "m < n" and "call_key s m = call_key s n" and "\<not> freed s m"
  shows "\<not> lock_granted s n"
  using granted_iff[OF assms(1,2)] assms(3-5) by blast

subsection \<open>Running a schedule\<close>

text \<open>The step of one client, and the steps of a schedule of clients.\<close>

definition lock_act :: "nat \<Rightarrow> lock_system \<Rightarrow> lock_system option" where
  "lock_act i sys = (case sys of (s, ps) \<Rightarrow> if length ps \<le> i then None
     else (case cl_waits (ps ! i) of
       Some n \<Rightarrow> if lock_granted s n then Some (s, ps[i := (ps ! i)\<lparr>cl_waits := None, cl_held := n # cl_held (ps ! i)\<rparr>]) else None
     | None \<Rightarrow> (case cl_rest (ps ! i) of
         k # ks \<Rightarrow> (case call_lock k s of (n, s') \<Rightarrow> Some (s', ps[i := (ps ! i)\<lparr>cl_rest := ks, cl_waits := Some n\<rparr>]))
       | [] \<Rightarrow> if cl_held (ps ! i) = [] then None
           else Some (fold release_lock (cl_held (ps ! i)) s, ps[i := (ps ! i)\<lparr>cl_held := []\<rparr>]))))"

fun lock_acts :: "nat list \<Rightarrow> lock_system \<Rightarrow> lock_system option" where
  "lock_acts [] sys = Some sys"
| "lock_acts (i # is) sys = Option.bind (lock_act i sys) (lock_acts is)"

lemma act_is_step: "lock_act i sys = Some sys' \<Longrightarrow> lock_step sys sys'"
  by (auto simp: lock_act_def split: prod.splits option.splits list.splits if_splits intro: lock_step.intros)

lemma acts_are_steps: "lock_acts is sys = Some sys' \<Longrightarrow> (lock_step ^^ length is) sys sys'"
proof (induction "is" arbitrary: sys)
  case (Cons i js)
  then obtain mid where "lock_act i sys = Some mid" "lock_acts js mid = Some sys'" by (auto simp: Option.bind_eq_Some_conv)
  with Cons.IH act_is_step have "lock_step sys mid" "(lock_step ^^ length js) mid sys'" by blast+
  then show ?case by (simp only: list.size add_0_right One_nat_def add_Suc_right relpowp_Suc_I2)
qed simp

text \<open>Two requests for the same key: the second asks while the first waits, and has the lock after its release.\<close>

definition two_requests :: lock_system where
  "two_requests = lock_start [[''a''], [''b'', ''a'']]"

subsection \<open>Properties\<close>

text \<open>C12: A lock has one holder, and is given in the order of asking.  However the steps of any number of requests are
  interleaved, two of them never hold the same key at once, and a request that holds a key got it after every
  earlier call for that key had been released.\<close>

theorem locks_exclusive:
  assumes "lock_step\<^sup>*\<^sup>* (lock_start requests) (s, ps)" and "i < length ps" and "n \<in> set (cl_held (ps ! i))"
  shows "(\<forall>m < n. call_key s m = call_key s n \<longrightarrow> freed s m)
    \<and> (\<forall>j < length ps. j \<noteq> i \<longrightarrow> call_key s n \<notin> call_key s ` set (cl_held (ps ! j)))"
proof -
  note ok = reachable_ok[OF assms(1)]
  have held: "k < length (lk_calls s) \<and> \<not> freed s k \<and> (\<forall>m < k. call_key s m = call_key s k \<longrightarrow> freed s m)"
    if "j < length ps" "k \<in> set (cl_held (ps ! j))" for j k
    using system_okD(2)[OF ok, of "ps ! j"] granted_iff[OF system_okD(1)[OF ok], of k] that by (simp add: client_ok_def calls_of_def)
  have "False" if "j < length ps" "j \<noteq> i" "m \<in> set (cl_held (ps ! j))" "call_key s m = call_key s n" for j m
  proof -
    have "m = n" using held[OF that(1,3)] held[OF assms(2,3)] that(4) by (metis linorder_cases)
    moreover have "set (calls_of (ps ! i)) \<inter> set (calls_of (ps ! j)) = {}"
      by (rule distinct_parts[OF system_okD(3)[OF ok] assms(2) that(1)]) (use that(2) in simp)
    ultimately show False using that(3) assms(3) by (auto simp: calls_of_def)
  qed
  with held[OF assms(2,3)] show ?thesis by (auto simp: image_iff) metis
qed

theorem locks_exclusive_witness:
  "case lock_acts [0, 0, 1, 0, 1] two_requests of None \<Rightarrow> False | Some sys \<Rightarrow> 1 \<in> set (cl_held (snd sys ! 1)) \<and> freed (fst sys) 0"
proof -
  have "case lock_acts [0, 0, 1, 0, 1] two_requests of None \<Rightarrow> False
      | Some (s, ps) \<Rightarrow> length ps = 2 \<and> 1 \<in> set (cl_held (ps ! 1)) \<and> call_key s 0 = call_key s 1" by code_simp
  then obtain s ps where run: "lock_acts [0, 0, 1, 0, 1] two_requests = Some (s, ps)"
    and at: "length ps = 2" "1 \<in> set (cl_held (ps ! 1))" "call_key s 0 = call_key s 1" by (auto split: option.splits)
  have "lock_step\<^sup>*\<^sup>* (lock_start [[''a''], [''b'', ''a'']]) (s, ps)"
    using relpowp_imp_rtranclp[OF acts_are_steps[OF run]] by (simp add: two_requests_def)
  from locks_exclusive[OF this _ at(2)] at have "freed s 0" by simp
  with run at(2) show ?thesis by simp
qed

text \<open>C13: Requests that take their locks with \<open>acquireMany\<close> never deadlock.  However they are interleaved, when a request
  that has all its locks releases them in the end, a run of \<open>n\<close> steps has at most three steps for every key asked
  for, and it can always go on until every request has had its locks and released them; then no lock is left behind
  in the map.\<close>

theorem ordered_locks_progress:
  assumes "(lock_step ^^ n) (lock_start requests) (s, ps)"
  shows "n \<le> 3 * sum_list (map length requests)
    \<and> ((\<exists>sys'. lock_step (s, ps) sys') \<or> (list_all finished ps \<and> lk_locks s = []))"
proof
  show "n \<le> 3 * sum_list (map length requests)" using run_works[OF assms] start_work[of requests] by simp
  have ok: "system_ok (s, ps)" by (rule reachable_ok) (rule relpowp_imp_rtranclp[OF assms])
  show "(\<exists>sys'. lock_step (s, ps) sys') \<or> (list_all finished ps \<and> lk_locks s = [])"
    using some_step[OF ok] finished_locks[OF ok] by (auto simp: list_all_iff)
qed

theorem ordered_locks_progress_witness:
  "case lock_acts [0, 1, 0, 0, 1] two_requests of None \<Rightarrow> False
   | Some sys \<Rightarrow> (\<exists>sys'. lock_step sys sys') \<or> (list_all finished (snd sys) \<and> lk_locks (fst sys) = [])"
proof -
  have "lock_acts [0, 1, 0, 0, 1] two_requests \<noteq> None" by code_simp
  then obtain s ps where run: "lock_acts [0, 1, 0, 0, 1] two_requests = Some (s, ps)" by auto
  from acts_are_steps[OF this] have "(lock_step ^^ 5) (lock_start [[''a''], [''b'', ''a'']]) (s, ps)" by (simp add: two_requests_def numeral_eq_Suc)
  from ordered_locks_progress[OF this] run show ?thesis by simp
qed

end
