(* ===== verification/Spec2Isabelle.thy ===== *)
theory Spec2Isabelle
  imports PatchProps ResponseLaws JsonLaws EngineProps RequestProps StoreProps QueryProps CelProps CelGrammar
    ContractProps LoaderProps IdempotencyProps YamlProps CompilerProps CredentialProps
    LockChain
begin

text \<open>
  A development beside Potemkin, an event-sourced API simulator written in TypeScript.  A scenario is
  compiled to a runtime program of boundaries, behaviors, reducers, reactions, policies and sagas; the
  engine executes requests against it.  A mutation runs commands in a transaction that appends events
  to a log and folds them into JSON states with a patch engine; a query reads the states.  The model
  follows the code: one definition per function, in the order of the source files under \<open>src/src\<close>.

  \<^bold>\<open>Values and text.\<close>  \<open>Prelude\<close> has results that may be a thrown error (\<open>rbind\<close>), the string
  functions of JavaScript the sources use and insertion-ordered maps (\<open>omap\<close>, the \<open>Map\<close> of the sources).
  \<open>Json\<close> has the value type, guards, property order, strict equality and binary64 addition
  (\<open>contracts/value.ts\<close>), \<open>Numbers\<close> has \<open>Number(s)\<close>, \<open>String(x)\<close> and \<open>JSON.stringify\<close>, \<open>JsonText\<close> has
  \<open>JSON.parse\<close>, and \<open>JsonLaws\<close> shows the two inverse to each other.  \<open>References\<close> has the validating
  constructors of \<open>domain/references.ts\<close>.

  \<^bold>\<open>Patch engine.\<close>  \<open>Patches\<close> is \<open>model/patches.ts\<close>: pointers, navigation, the ten operations in strict and
  auto-vivifying mode, and the journal.  \<open>PatchLaws\<close> relates navigation to reading a path, \<open>PatchDiff\<close> is
  \<open>diffJsonJournal\<close> with the proof that replaying a diff gives the second document, and \<open>PatchProps\<close> states
  the properties.

  \<^bold>\<open>State and vocabulary.\<close>  \<open>Effects\<close> is code that updates state and may throw: what was written before a
  throw stays written.  \<open>Domain\<close> has commands, events, requests and errors (\<open>contracts/domain.ts\<close>,
  \<open>core/errors.ts\<close>), \<open>Dispatch\<close> the selection of a behavior and the authorization decision
  (\<open>domain/dispatch.ts\<close>, \<open>domain/authorization.ts\<close>), \<open>Identity\<close> the resolution of identities
  (\<open>domain/identity.ts\<close>).  \<open>Storage\<close> states the persistence ports of \<open>contracts/ports.ts\<close> as locales and
  interprets them on the in-memory stores of \<open>core/storage.ts\<close> and \<open>core/faults.ts\<close>; \<open>Sessions\<close> is
  \<open>identity/sessionStore.ts\<close>.  \<open>Program\<close> is the compiled program of \<open>model/runtime.ts\<close>.

  \<^bold>\<open>The engine\<close> (\<open>core/engine.ts\<close>).  \<open>ResponsePolicies\<close> and \<open>Respond\<close> shape responses, \<open>Cascade\<close> applies
  events and runs the reactions of one transaction, \<open>Commands\<close> runs its queue of commands.  \<open>Engine\<close> is the
  engine's state with locks, idempotency and faults; \<open>Webhooks\<close>, \<open>Sagas\<close> and \<open>Mutate\<close> commit a command and
  do what follows a commit.  \<open>History\<close>, \<open>Cursor\<close> and \<open>Queries\<close> read; \<open>Authenticate\<close> finds the actor;
  \<open>Execute\<close> is one request from end to end; \<open>Lifecycle\<close> builds, resets, replaces and batches.  These run one request
  at a time, as the barrier of \<open>execute\<close> does; \<open>LockChain\<close> has the locks themselves (\<open>acquire\<close>, \<open>acquireMany\<close>) as a
  step relation of any number of requests that wait for each other.

  \<^bold>\<open>The expression language\<close> (\<open>cel/\<close>).  Callbacks of a scenario written in YAML are expressions.  \<open>CelNumber\<close>
  is JavaScript's arithmetic with infinities and NaN.  \<open>CelAst\<close>, \<open>CelLexer\<close> and \<open>CelTables\<close> are
  \<open>grammar/ast.ts\<close>, \<open>lexer.ts\<close> and every row of the committed \<open>tables.generated.ts\<close>; \<open>CelParser\<close> is the
  shift-reduce driver with its reduce actions (\<open>parser.ts\<close>, productions of \<open>grammar.ts\<close>).  \<open>CelTemplate\<close> is
  \<open>template.ts\<close> and \<open>templateLexer.ts\<close>.  \<open>CelValue\<close> has values and the string functions the evaluator uses,
  \<open>CelBuiltins\<close> and \<open>CelFunctions\<close> are \<open>builtins.ts\<close> (the seedable generator and fake data, then the functions
  and \<open>callBuiltin\<close>), \<open>CelRegexSafety\<close> is \<open>schema/regexSafety.ts\<close>, and \<open>CelEval\<close> is \<open>evaluator.ts\<close>: an
  evaluation is a computation over the state of a generator that may throw.

  \<^bold>\<open>The contract.\<close>  A scenario stands behind an OpenAPI document.  \<open>Router\<close> is \<open>contract/router.ts\<close> with the
  index of operations and \<open>contract/responseSchema.ts\<close>; \<open>RouterLaws\<close> shows that a filled template is matched
  with its own values.  \<open>Contracts\<close> is the validation of requests, responses, entities and event payloads
  (\<open>validator.ts\<close>, \<open>requestValidator.ts\<close>, \<open>hateoas.ts\<close>, \<open>http/entityTag.ts\<close>).  \<open>ErrorBody\<close> and \<open>ErrorFill\<close> are
  \<open>errorBody.ts\<close>: resolving references and combinators of a schema, and building a body that fits it.
  \<open>Loader\<close> is \<open>loader.ts\<close> and \<open>formFields.ts\<close>: normalising and merging documents.  \<open>RuntimeContract\<close> is
  \<open>runtime/contract.ts\<close>, which puts them together as the record \<open>contract\<close> the engine calls.
  \<open>IdempotencyStore\<close> is \<open>idempotency/store.ts\<close>, the host's store of answers with its reservations.

  \<^bold>\<open>The compilers.\<close>  \<open>YamlExpressions\<close> and \<open>YamlCompiler\<close> are \<open>parser/yamlCompiler.ts\<close>: from the records of the linked
  program (\<open>dsl/types.ts\<close>) they make the callbacks of \<open>Program\<close>, each an expression evaluated by \<open>CelEval\<close> in the phase
  of its place, over identifiers read from the context, with its value decoded.  \<open>RuntimeCompiler\<close> is
  \<open>model/compiler.ts\<close> and the end of \<open>model/runtime.ts\<close>: it checks references and rewrites them in their normal form.
  \<open>Credentials\<close> is \<open>identity/actorExtractor.ts\<close>, \<open>jwtValidator.ts\<close>, \<open>actorResolver.ts\<close> and \<open>scopeChecker.ts\<close>, the host's
  authentication, which the YAML compiler installs.

  \<^bold>\<open>What is shown.\<close>  \<open>Steps\<close> and \<open>Machine\<close> abstract the engine to a transition relation: whatever a
  request does to the log and the states, returning or throwing, is a sequence of a few kinds of step.
  \<open>Ledger\<close> proves the consequences by induction on the steps: versions are contiguous, the log only grows,
  and the stored states are the fold of the log (a refinement of the store by \<open>rebuild\<close>).  \<open>TimeTravel\<close>
  adds reading at an earlier version and resetting.  \<open>Locks\<close> and \<open>Requests\<close> follow single requests: locks,
  dry runs, refusals, remembered answers, optimistic locking, rollback.  \<open>EngineProps\<close>, \<open>RequestProps\<close>,
  \<open>StoreProps\<close>, \<open>QueryProps\<close>, \<open>PatchProps\<close>, \<open>ResponseLaws\<close>, \<open>CelProps\<close>, \<open>ContractProps\<close>, \<open>LoaderProps\<close>,
  \<open>IdempotencyProps\<close>, \<open>YamlProps\<close>, \<open>CompilerProps\<close> and \<open>CredentialProps\<close> hold the properties, each after a text that names it \<open>C1\<close> to \<open>C40\<close>; the witnesses run the small program of \<open>Sample\<close>.  \<open>CelGrammar\<close> evaluates
  checks on the parse tables: every state's entries fit the grammar symbols it is entered with.
  \<open>CelParserLaws\<close> concludes from them that a run of the driver builds a derivation and that each reduction
  lowers a measure; \<open>CelLaws\<close> follows an evaluation for a reducer, \<open>CelFake\<close> the draws of a seeded generator.
  \<open>LockChain\<close> shows that a lock has one holder, is given in order, and that sorted requests never deadlock.
  \<open>QueryProps\<close> follows a client from cursor to cursor.
  \<open>ContractProps\<close> states what a route is, that paths of operations lead back, and that error bodies fit their
  schema; \<open>IdempotencyProps\<close> follows every sequence of calls of the store.  \<open>YamlProps\<close> shows which compiled reducers are
  functions of the event and the state, and where they are not; \<open>CompilerProps\<close> that the references of a compiled
  program lead somewhere; \<open>CredentialProps\<close> as whom a request with a token runs, and what the token has been checked for.

  \<^bold>\<open>Bounds and fuel.\<close>  The queue of commands ends because a command of depth \<open>d\<close> only adds commands of
  depth \<open>d + 1\<close> up to the limit; that measure is part of its definition.  The reaction loop has fuel
  above the event budget, and \<open>reactions_terminate\<close> shows that the fuel never cuts a run short.  Masking
  has the nesting depth of the body as fuel, and \<open>ResponseLaws\<close> shows it is enough.  The driver of the parser
  has 64 steps for every token, and \<open>parse_total\<close> shows that they are never used up.  Schemas refer to each other
  in cycles; \<open>resolveForFill\<close> and \<open>resolveRefsForValidation\<close> need no fuel, as a reference on the path is not
  followed again, and \<open>fillSchema\<close> none, as what they resolve is finite and has no references.  The loops of an
  expression that may run for ever (\<open>replace\<close> and \<open>range\<close> up to infinity) give the error \<open>Diverges\<close>.  A lock that
  nobody is left to release, the caller being the holder or the holder never having settled, is the value \<open>Hang\<close>, which
  is neither caught nor followed by a release.
\<close>

text \<open>
  \<^bold>\<open>What the model assumes.\<close>  Callbacks of a program are functions of the context they are given, which
  is a snapshot.  Theorems about the engine hold for every contract; \<open>createRuntimeContract\<close> is the one of the
  host.  The contract, date parsing, collation, globs, cookies, HMAC, forwarding and the webhook
  transport are parameters (the records \<open>contract\<close> and \<open>deps\<close>), with every optional method present.
  Shared sources of identifiers and random numbers are indexed by the number of draws, seeded ones
  restart with every context, and the clock is constant during a request.  Cloning is the identity;
  logs, metrics and latency have no effect on a value.  Numbers are finite binary64 values as rationals,
  strings are code units below 256, and no object has a property \<open>__proto__\<close>.  Saga step names do not
  look like array indices.  Top-level requests are serialised by the lock \<open>__runtime_batch__\<close>, so the
  generation counter a reset advances is left out.  A comparator given to a sort is a total preorder.
  An expression is evaluated over the record \<open>cel_host\<close>: deep equality, running a regular expression, powers,
  roots, date parsing, the clock, hashes and the encoding of identifiers.  The sign of zero, the names every
  JavaScript object inherits (which only the check of required claims looks at) and letters whose capital is past 255 are outside the model of expressions.
  In a compiled program \<open>yh_rng\<close> gives the state the shared generator is in at an evaluation; optional flags of a context
  that are not set are absent.  The jsonwebtoken package, the helper functions of a scenario and the handlers of its
  lifecycle are parameters.  Latency, coverage, versioning, export plans and control defaults are left out.
  Ajv is a parameter of the contract: for a schema and a value it gives the errors and the value with the
  defaults filled in, or refuses the schema; the engine sees the errors only.  Regular expressions of a schema
  and SHA-256 are parameters too.  A document is a tree: references
  on the path are told apart by their pointer.  \<open>operationIdFor\<close> gives no operation for a document with a
  template that does not compile, where the code throws; the batch item of a request is an argument.

  \<^bold>\<open>Not modelled.\<close>  The generator of the parse tables, which runs at build time; the YAML front end, which
  reads, validates and links a scenario, and the TypeScript front end; reading, parsing and dereferencing contract documents; HTTP,
  observability, the command line, editor support and conformance tooling.  \<open>LockChain\<close> orders the steps of requests
  waiting for locks; the work they do between taking and releasing them is one request's run in \<open>Execute\<close>.
\<close>

end
